(* ===== verification/Prelude.thy ===== *)
theory Prelude
  imports Main "HOL-Library.List_Lexorder" "HOL-Library.Multiset"
begin

text \<open>
  Shared material of the development: the results of fallible operations as a sum type
  with the raised error on the left, the JavaScript strings of the program as lists of
  UTF-16 code units, and the lemmas on both that every component uses.
\<close>

named_theorems result_simps \<open>evaluation and inversion of fallible operations\<close>
named_theorems unit_defs \<open>definitions that read one JavaScript string\<close>

section \<open>Results\<close>

text \<open>
  A function of the program that may throw returns \<open>'e + 'a\<close>: \<open>Inl e\<close> is the
  exception, \<open>Inr x\<close> the returned value. \<open>andThen\<close> is sequencing: the rest of the
  body runs only when the first part returned.
\<close>

definition andThen :: "'e + 'a \<Rightarrow> ('a \<Rightarrow> 'e + 'b) \<Rightarrow> 'e + 'b" where
  "andThen m f = (case m of Inl e \<Rightarrow> Inl e | Inr x \<Rightarrow> f x)"

definition guardR :: "bool \<Rightarrow> 'e \<Rightarrow> 'e + unit" where
  "guardR b e = (if b then Inr () else Inl e)"

fun mapR :: "('a \<Rightarrow> 'e + 'b) \<Rightarrow> 'a list \<Rightarrow> 'e + 'b list" where
  "mapR f [] = Inr []"
| "mapR f (x # xs) = andThen (f x) (\<lambda>y. andThen (mapR f xs) (\<lambda>ys. Inr (y # ys)))"

definition returned :: "'e + 'a \<Rightarrow> bool" where
  "returned m = (case m of Inl _ \<Rightarrow> False | Inr _ \<Rightarrow> True)"

lemma andThen_simps [simp]:
  "andThen (Inr x) f = f x"
  "andThen (Inl e) f = Inl e"
  by (simp_all add: andThen_def)

lemma andThen_Inr_iff [result_simps]:
  "andThen m f = Inr y \<longleftrightarrow> (\<exists>x. m = Inr x \<and> f x = Inr y)"
  by (cases m) simp_all

lemma andThen_Inl_iff [result_simps]:
  "andThen m f = Inl e \<longleftrightarrow> m = Inl e \<or> (\<exists>x. m = Inr x \<and> f x = Inl e)"
  by (cases m) simp_all

lemma guardR_Inr_iff [result_simps]: "guardR b e = Inr u \<longleftrightarrow> b"
  by (simp add: guardR_def)

lemma guardR_Inl_iff [result_simps]: "guardR b e = Inl e' \<longleftrightarrow> \<not> b \<and> e' = e"
  by (auto simp: guardR_def)

lemma guardR_simps [simp]: "guardR True e = Inr ()" "guardR False e = Inl e"
  by (simp_all add: guardR_def)

lemma returned_simps [simp]: "returned (Inr x)" "\<not> returned (Inl e)"
  by (simp_all add: returned_def)

lemma returned_iff: "returned m \<longleftrightarrow> (\<exists>x. m = Inr x)"
  by (cases m) simp_all

lemma andThen_assoc: "andThen (andThen m f) g = andThen m (\<lambda>x. andThen (f x) g)"
  by (cases m) simp_all

lemma andThen_cong [fundef_cong]:
  "m = m' \<Longrightarrow> (\<And>x. m' = Inr x \<Longrightarrow> f x = f' x) \<Longrightarrow> andThen m f = andThen m' f'"
  by (cases m') simp_all

lemma mapR_Inr_iff: "mapR f xs = Inr ys \<longleftrightarrow> list_all2 (\<lambda>x y. f x = Inr y) xs ys"
  by (induction xs arbitrary: ys) (auto simp: result_simps list_all2_Cons1)

lemma mapR_length: "mapR f xs = Inr ys \<Longrightarrow> length ys = length xs"
  by (simp add: mapR_Inr_iff list_all2_lengthD)

lemma mapR_map: "(\<And>x. x \<in> set xs \<Longrightarrow> f (g x) = Inr (h x)) \<Longrightarrow> mapR f (map g xs) = Inr (map h xs)"
  by (induction xs) simp_all

lemma mapR_Inr_set: "mapR f xs = Inr ys \<Longrightarrow> y \<in> set ys \<Longrightarrow> \<exists>x \<in> set xs. f x = Inr y"
  by (induction xs arbitrary: ys) (auto simp: result_simps)

section \<open>JavaScript strings\<close>

text \<open>
  A JavaScript string is its list of UTF-16 code units; \<open>.length\<close> is the length of
  that list. \<open>js\<close> embeds an ASCII literal.
\<close>

type_synonym jstr = "nat list"

definition js :: "string \<Rightarrow> jstr" where
  "js s = map of_char s"

lemma js_eq_iff [simp]: "js s = js t \<longleftrightarrow> s = t"
  by (auto simp: js_def inj_map_eq_map inj_on_def)

lemma js_Nil_iff [simp]: "js s = [] \<longleftrightarrow> s = []" "[] = js s \<longleftrightarrow> s = []"
  by (auto simp: js_def)

lemma length_js [simp]: "length (js s) = length s"
  by (simp add: js_def)

lemma js_append: "js (s @ t) = js s @ js t"
  by (simp add: js_def)

text \<open>Character classes of the regular expressions of the program.\<close>

definition is_upper :: "nat \<Rightarrow> bool" where "is_upper c = (65 \<le> c \<and> c \<le> 90)"
definition is_lower :: "nat \<Rightarrow> bool" where "is_lower c = (97 \<le> c \<and> c \<le> 122)"
definition is_digit :: "nat \<Rightarrow> bool" where "is_digit c = (48 \<le> c \<and> c \<le> 57)"
definition is_alnum :: "nat \<Rightarrow> bool" where "is_alnum c = (is_upper c \<or> is_lower c \<or> is_digit c)"

lemmas char_class_defs = is_upper_def is_lower_def is_digit_def is_alnum_def

text \<open>
  A pattern \<open>^[A][B]{0,n}$\<close> without the multiline flag: one unit of the first class, then
  at most \<open>n\<close> units of the second.
\<close>

definition matches_head_tail :: "(nat \<Rightarrow> bool) \<Rightarrow> (nat \<Rightarrow> bool) \<Rightarrow> nat \<Rightarrow> jstr \<Rightarrow> bool" where
  "matches_head_tail a b n s =
     (case s of [] \<Rightarrow> False | c # cs \<Rightarrow> a c \<and> list_all b cs \<and> length cs \<le> n)"

lemma matches_head_tail_length: "matches_head_tail a b n s \<Longrightarrow> 0 < length s \<and> length s \<le> Suc n"
  by (auto simp: matches_head_tail_def split: list.splits)

lemma matches_head_tail_all:
  "matches_head_tail a b n s \<Longrightarrow> (\<And>c. a c \<Longrightarrow> p c) \<Longrightarrow> (\<And>c. b c \<Longrightarrow> p c) \<Longrightarrow> list_all p s"
  by (auto simp: matches_head_tail_def list_all_iff split: list.splits)

text \<open>
  \<open>Buffer.byteLength(s, 'utf8')\<close> and \<open>TextEncoder.encode(s).byteLength\<close>: a high surrogate
  followed by a low one is a code point of four bytes, a lone surrogate becomes U+FFFD
  (three bytes).
\<close>

definition is_high_surrogate :: "nat \<Rightarrow> bool" where
  "is_high_surrogate c = (55296 \<le> c \<and> c \<le> 56319)"
definition is_low_surrogate :: "nat \<Rightarrow> bool" where
  "is_low_surrogate c = (56320 \<le> c \<and> c \<le> 57343)"

fun utf8Bytes :: "jstr \<Rightarrow> nat" where
  "utf8Bytes [] = 0"
| "utf8Bytes [c] = (if c < 128 then 1 else if c < 2048 then 2 else 3)"
| "utf8Bytes (c # d # cs) =
     (if is_high_surrogate c \<and> is_low_surrogate d then 4 + utf8Bytes cs
      else (if c < 128 then 1 else if c < 2048 then 2 else 3) + utf8Bytes (d # cs))"

text \<open>\<open>[...s].length\<close>: the number of code points, a surrogate pair counting once.\<close>

fun codePoints :: "jstr \<Rightarrow> nat" where
  "codePoints [] = 0"
| "codePoints [c] = 1"
| "codePoints (c # d # cs) =
     (if is_high_surrogate c \<and> is_low_surrogate d then 1 + codePoints cs
      else 1 + codePoints (d # cs))"

lemma utf8Bytes_ascii: "list_all (\<lambda>c. c < 128) s \<Longrightarrow> utf8Bytes s = length s"
  by (induction s rule: utf8Bytes.induct) (auto simp: is_high_surrogate_def)

lemma utf8Bytes_le: "utf8Bytes s \<le> 3 * length s"
  by (induction s rule: utf8Bytes.induct) auto

lemma length_le_utf8Bytes: "length s \<le> utf8Bytes s"
  by (induction s rule: utf8Bytes.induct) auto

lemma codePoints_le_length: "codePoints s \<le> length s"
  by (induction s rule: codePoints.induct) auto

section \<open>Association lists\<close>

text \<open>
  A JavaScript \<open>Map\<close> keeps its keys in insertion order; \<open>set\<close> on a key that is present
  replaces the value in place, \<open>delete\<close> removes the entry.
\<close>

fun assoc_put :: "'k \<Rightarrow> 'v \<Rightarrow> ('k \<times> 'v) list \<Rightarrow> ('k \<times> 'v) list" where
  "assoc_put k v [] = [(k, v)]"
| "assoc_put k v ((k', v') # m) = (if k' = k then (k, v) # m else (k', v') # assoc_put k v m)"

definition assoc_del :: "'k \<Rightarrow> ('k \<times> 'v) list \<Rightarrow> ('k \<times> 'v) list" where
  "assoc_del k m = filter (\<lambda>e. fst e \<noteq> k) m"

lemma map_of_assoc_put [simp]: "map_of (assoc_put k v m) = (map_of m)(k \<mapsto> v)"
  by (induction k v m rule: assoc_put.induct) auto

lemma map_of_assoc_del [simp]: "map_of (assoc_del k m) = (map_of m)(k := None)"
  by (induction m) (auto simp: assoc_del_def)

lemma fst_set_assoc_put [simp]: "fst ` set (assoc_put k v m) = insert k (fst ` set m)"
  by (induction k v m rule: assoc_put.induct) auto

lemma distinct_assoc_put: "distinct (map fst m) \<Longrightarrow> distinct (map fst (assoc_put k v m))"
  by (induction k v m rule: assoc_put.induct) auto

lemma distinct_assoc_del: "distinct (map fst m) \<Longrightarrow> distinct (map fst (assoc_del k m))"
  by (induction m) (auto simp: assoc_del_def)

lemma assoc_put_fresh: "k \<notin> fst ` set m \<Longrightarrow> assoc_put k v m = m @ [(k, v)]"
  by (induction k v m rule: assoc_put.induct) auto

lemma length_assoc_put:
  "length (assoc_put k v m) = (if k \<in> fst ` set m then length m else Suc (length m))"
  by (induction k v m rule: assoc_put.induct) auto

lemma set_assoc_put: "distinct (map fst m) \<Longrightarrow>
  set (assoc_put k v m) = {e \<in> set m. fst e \<noteq> k} \<union> {(k, v)}"
  by (induction k v m rule: assoc_put.induct) (auto simp: image_iff)

lemma set_assoc_del [simp]: "set (assoc_del k m) = {e \<in> set m. fst e \<noteq> k}"
  by (auto simp: assoc_del_def)

lemma sort_eq_iff_mset: "sort xs = sort ys \<longleftrightarrow> mset xs = mset ys"
  by (metis mset_sort properties_for_sort sorted_sort)

text \<open>The key of the first entry of a list that satisfies a predicate (\<open>Array.find\<close>).\<close>

lemma find_Some_in: "List.find P xs = Some x \<Longrightarrow> x \<in> set xs \<and> P x"
  by (induction xs) (auto split: if_splits)

lemma find_None_iff2: "List.find P xs = None \<longleftrightarrow> (\<forall>x \<in> set xs. \<not> P x)"
  by (induction xs) auto

end
