(* ===== verification/Json.thy ===== *)
theory Json
  imports Prelude
begin

text \<open>
  The JavaScript data values the program exchanges and the two standard functions it
  applies to them: \<open>JSON.stringify\<close> and \<open>JSON.parse\<close>. An object is its list of own
  properties in the order \<open>Object.keys\<close> gives. The unknown inputs of the validators are
  \<open>json option\<close>: \<open>None\<close> is \<open>undefined\<close>, what reading a missing property returns.

  A number is \<open>Whole n\<close> when it is an integer of magnitude at most \<open>2^53\<close> (every integer
  the program accepts is); any other number is \<open>Other t\<close>, carried by its text \<open>t\<close>. The
  rounding of such a token to a double is not modelled.
\<close>

datatype number = Whole int | Other jstr

datatype json =
    JNull
  | JBool bool
  | JNum number
  | JStr jstr
  | JArr "json list"
  | JObj "(jstr \<times> json) list"

type_synonym obj = "(jstr \<times> json) list"

section \<open>Reading values\<close>

definition own_prop :: "obj \<Rightarrow> string \<Rightarrow> json option" where
  "own_prop m k = map_of m (js k)"

definition has_own :: "obj \<Rightarrow> string \<Rightarrow> bool" where
  "has_own m k = (js k \<in> set (map fst m))"

definition object_of :: "json option \<Rightarrow> obj option" where
  "object_of v = (case v of Some (JObj m) \<Rightarrow> Some m | _ \<Rightarrow> None)"

definition array_of :: "json option \<Rightarrow> json list option" where
  "array_of v = (case v of Some (JArr xs) \<Rightarrow> Some xs | _ \<Rightarrow> None)"

definition string_of :: "json option \<Rightarrow> jstr option" where
  "string_of v = (case v of Some (JStr s) \<Rightarrow> Some s | _ \<Rightarrow> None)"

definition whole_of :: "json option \<Rightarrow> int option" where
  "whole_of v = (case v of Some (JNum (Whole n)) \<Rightarrow> Some n | _ \<Rightarrow> None)"

lemma string_of_iff [simp]: "string_of v = Some s \<longleftrightarrow> v = Some (JStr s)"
  by (simp add: string_of_def split: option.splits json.splits)

lemma object_of_iff [simp]: "object_of v = Some m \<longleftrightarrow> v = Some (JObj m)"
  by (simp add: object_of_def split: option.splits json.splits)

lemma array_of_iff [simp]: "array_of v = Some xs \<longleftrightarrow> v = Some (JArr xs)"
  by (simp add: array_of_def split: option.splits json.splits)

lemma whole_of_iff [simp]: "whole_of v = Some n \<longleftrightarrow> v = Some (JNum (Whole n))"
  by (simp add: whole_of_def split: option.splits json.splits number.splits)

lemma string_of_simp [simp]: "string_of (Some (JStr s)) = Some s"
  and object_of_simp [simp]: "object_of (Some (JObj m)) = Some m"
  and array_of_simp [simp]: "array_of (Some (JArr xs)) = Some xs"
  and whole_of_simp [simp]: "whole_of (Some (JNum (Whole n))) = Some n"
  by simp_all

lemma own_prop_Cons [simp]:
  "own_prop ((k', v) # m) k = (if js k = k' then Some v else own_prop m k)"
  by (simp add: own_prop_def)

lemma own_prop_Nil [simp]: "own_prop [] k = None"
  by (simp add: own_prop_def)

text \<open>
  \<open>Object.keys(value).sort()\<close> compared element by element with the sorted list of the
  expected names.
\<close>

definition exact_keys :: "obj \<Rightarrow> string list \<Rightarrow> bool" where
  "exact_keys m fields = (sort (map fst m) = sort (map js fields))"

lemma exact_keys_iff: "exact_keys m fields \<longleftrightarrow> mset (map fst m) = mset (map js fields)"
  by (simp add: exact_keys_def sort_eq_iff_mset)

lemma exact_keys_prop: "exact_keys m fields \<Longrightarrow> k \<in> set fields \<Longrightarrow> \<exists>v. own_prop m k = Some v"
proof -
  assume "exact_keys m fields" and "k \<in> set fields"
  then have "js k \<in> set (map fst m)"
    by (metis exact_keys_iff image_eqI list.set_map mset_eq_setD)
  then show ?thesis
    by (simp add: own_prop_def) (metis domD dom_map_of_conv_image_fst)
qed

lemma exact_keys_only: "exact_keys m fields \<Longrightarrow> (k, v) \<in> set m \<Longrightarrow> \<exists>f \<in> set fields. k = js f"
  by (metis (no_types, lifting) exact_keys_iff fst_conv image_iff list.set_map mset_eq_setD)

section \<open>Writing: \<open>JSON.stringify\<close>\<close>

definition hex_digit :: "nat \<Rightarrow> nat" where
  "hex_digit d = (if d < 10 then 48 + d else 87 + d)"

definition unicode_escape :: "nat \<Rightarrow> jstr" where
  "unicode_escape c =
     [92, 117, hex_digit (c div 4096 mod 16), hex_digit (c div 256 mod 16),
      hex_digit (c div 16 mod 16), hex_digit (c mod 16)]"

definition escape_unit :: "nat \<Rightarrow> jstr" where
  "escape_unit c =
     (if c = 34 then [92, 34] else if c = 92 then [92, 92]
      else if c = 8 then [92, 98] else if c = 12 then [92, 102]
      else if c = 10 then [92, 110] else if c = 13 then [92, 114]
      else if c = 9 then [92, 116] else if c < 32 then unicode_escape c else [c])"

fun escape :: "jstr \<Rightarrow> jstr" where
  "escape [] = []"
| "escape [c] =
     (if is_high_surrogate c \<or> is_low_surrogate c then unicode_escape c else escape_unit c)"
| "escape (c # d # cs) =
     (if is_high_surrogate c \<and> is_low_surrogate d then c # d # escape cs
      else (if is_high_surrogate c \<or> is_low_surrogate c then unicode_escape c else escape_unit c)
           @ escape (d # cs))"

definition quote :: "jstr \<Rightarrow> jstr" where
  "quote s = 34 # escape s @ [34]"

fun digits :: "nat \<Rightarrow> jstr" where
  "digits n = (if n < 10 then [48 + n] else digits (n div 10) @ [48 + n mod 10])"

declare digits.simps [simp del]

definition int_text :: "int \<Rightarrow> jstr" where
  "int_text n = (if n < 0 then 45 # digits (nat (- n)) else digits (nat n))"

fun num_text :: "number \<Rightarrow> jstr" where
  "num_text (Whole n) = int_text n"
| "num_text (Other t) = t"

fun join_with :: "nat \<Rightarrow> jstr list \<Rightarrow> jstr" where
  "join_with c [] = []"
| "join_with c [s] = s"
| "join_with c (s # t # ss) = s @ c # join_with c (t # ss)"

fun stringify :: "json \<Rightarrow> jstr" where
  "stringify JNull = js ''null''"
| "stringify (JBool b) = (if b then js ''true'' else js ''false'')"
| "stringify (JNum n) = num_text n"
| "stringify (JStr s) = quote s"
| "stringify (JArr vs) = 91 # join_with 44 (map stringify vs) @ [93]"
| "stringify (JObj m) =
     123 # join_with 44 (map (\<lambda>e. quote (fst e) @ 58 # stringify (snd e)) m) @ [125]"

section \<open>Reading: \<open>JSON.parse\<close>\<close>

definition is_space :: "nat \<Rightarrow> bool" where
  "is_space c = (c = 32 \<or> c = 9 \<or> c = 10 \<or> c = 13)"

definition skip :: "jstr \<Rightarrow> jstr" where
  "skip s = dropWhile is_space s"

definition hex_value :: "nat \<Rightarrow> nat option" where
  "hex_value c =
     (if 48 \<le> c \<and> c \<le> 57 then Some (c - 48)
      else if 97 \<le> c \<and> c \<le> 102 then Some (c - 87)
      else if 65 \<le> c \<and> c \<le> 70 then Some (c - 55) else None)"

definition hex4 :: "nat \<Rightarrow> nat \<Rightarrow> nat \<Rightarrow> nat \<Rightarrow> nat option" where
  "hex4 a b c d =
     (case (hex_value a, hex_value b, hex_value c, hex_value d) of
        (Some w, Some x, Some y, Some z) \<Rightarrow> Some (((w * 16 + x) * 16 + y) * 16 + z)
      | _ \<Rightarrow> None)"

definition unescape :: "nat \<Rightarrow> nat option" where
  "unescape e =
     (if e = 34 \<or> e = 92 \<or> e = 47 then Some e
      else if e = 98 then Some 8 else if e = 102 then Some 12
      else if e = 110 then Some 10 else if e = 114 then Some 13
      else if e = 116 then Some 9 else None)"

fun parse_string :: "jstr \<Rightarrow> (jstr \<times> jstr) option" where
  "parse_string [] = None"
| "parse_string (c # cs) =
     (if c = 34 then Some ([], cs)
      else if c = 92 then
        (case cs of
           [] \<Rightarrow> None
         | e # es \<Rightarrow>
             (if e = 117 then
                (case es of
                   h # i # j # k # r \<Rightarrow>
                     (case hex4 h i j k of
                        None \<Rightarrow> None
                      | Some u \<Rightarrow> map_option (apfst ((#) u)) (parse_string r))
                 | _ \<Rightarrow> None)
              else
                (case unescape e of
                   None \<Rightarrow> None
                 | Some u \<Rightarrow> map_option (apfst ((#) u)) (parse_string es))))
      else if c < 32 then None
      else map_option (apfst ((#) c)) (parse_string cs))"

text \<open>
  The number grammar: sign, integer part without a leading zero, fraction, exponent. The
  result is the integer digits, the fraction digits, the exponent and the rest.
\<close>

definition scan_digits :: "jstr \<Rightarrow> (jstr \<times> jstr) option" where
  "scan_digits s =
     (let ds = takeWhile is_digit s in if ds = [] then None else Some (ds, dropWhile is_digit s))"

definition digits_value :: "jstr \<Rightarrow> nat" where
  "digits_value ds = foldl (\<lambda>a c. a * 10 + (c - 48)) 0 ds"

definition scan_exponent :: "jstr \<Rightarrow> (int \<times> jstr) option" where
  "scan_exponent s =
     (case s of
        [] \<Rightarrow> Some (0, s)
      | c # cs \<Rightarrow>
          (if c = 101 \<or> c = 69 then
             (case cs of
                [] \<Rightarrow> None
              | d # ds \<Rightarrow>
                  (if d = 45 then map_option (\<lambda>(e, r). (- int (digits_value e), r)) (scan_digits ds)
                   else if d = 43 then map_option (\<lambda>(e, r). (int (digits_value e), r)) (scan_digits ds)
                   else map_option (\<lambda>(e, r). (int (digits_value e), r)) (scan_digits cs)))
           else Some (0, s)))"

definition scan_fraction :: "jstr \<Rightarrow> (jstr \<times> jstr) option" where
  "scan_fraction s =
     (case s of
        [] \<Rightarrow> Some ([], s)
      | c # cs \<Rightarrow> (if c = 46 then scan_digits cs else Some ([], s)))"

definition scan_unsigned :: "jstr \<Rightarrow> (jstr \<times> jstr \<times> int \<times> jstr) option" where
  "scan_unsigned s =
     (case scan_digits s of
        None \<Rightarrow> None
      | Some (ds, r) \<Rightarrow>
          (if hd ds = 48 \<and> 1 < length ds then None
           else (case scan_fraction r of
                   None \<Rightarrow> None
                 | Some (fs, r') \<Rightarrow>
                     (case scan_exponent r' of
                        None \<Rightarrow> None
                      | Some (e, r'') \<Rightarrow> Some (ds, fs, e, r'')))))"

definition safe_limit :: int where
  "safe_limit = 9007199254740992"

definition number_of :: "bool \<Rightarrow> jstr \<Rightarrow> jstr \<Rightarrow> int \<Rightarrow> jstr \<Rightarrow> number" where
  "number_of neg ds fs e token =
     (let m = int (digits_value (ds @ fs)); x = e - int (length fs);
          sg = (if neg then - 1 else 1)
      in if m = 0 then Whole 0
         else if 0 \<le> x then
           (if x \<le> 16 \<and> m * 10 ^ nat x \<le> safe_limit then Whole (sg * (m * 10 ^ nat x)) else Other token)
         else if - x \<le> int (length (ds @ fs)) \<and> m mod 10 ^ nat (- x) = 0
                \<and> m div 10 ^ nat (- x) \<le> safe_limit
           then Whole (sg * (m div 10 ^ nat (- x)))
         else Other token)"

definition parse_number :: "jstr \<Rightarrow> (number \<times> jstr) option" where
  "parse_number s =
     (let neg = (case s of [] \<Rightarrow> False | c # _ \<Rightarrow> c = 45); u = (if neg then tl s else s)
      in case scan_unsigned u of
           None \<Rightarrow> None
         | Some (ds, fs, e, r) \<Rightarrow>
             Some (number_of neg ds fs e (take (length s - length r) s), r))"

text \<open>
  A property is created at the end of an object, or replaces the value of the same name.
  Names that are array indices come first, in ascending order.
\<close>

definition is_index :: "jstr \<Rightarrow> bool" where
  "is_index k = (k \<noteq> [] \<and> list_all is_digit k \<and> (hd k = 48 \<longrightarrow> length k = 1)
                 \<and> length k \<le> 10 \<and> digits_value k < 4294967295)"

fun insert_prop :: "jstr \<Rightarrow> json \<Rightarrow> obj \<Rightarrow> obj" where
  "insert_prop k v [] = [(k, v)]"
| "insert_prop k v ((k', v') # m) =
     (if is_index k \<and> (is_index k' \<longrightarrow> digits_value k < digits_value k') then (k, v) # (k', v') # m
      else (k', v') # insert_prop k v m)"

definition obj_put :: "jstr \<Rightarrow> json \<Rightarrow> obj \<Rightarrow> obj" where
  "obj_put k v m = (if k \<in> set (map fst m) then assoc_put k v m else insert_prop k v m)"

definition build_obj :: "obj \<Rightarrow> obj" where
  "build_obj m = fold (\<lambda>e. obj_put (fst e) (snd e)) m []"

definition strip_prefix :: "jstr \<Rightarrow> jstr \<Rightarrow> jstr option" where
  "strip_prefix p s = (if take (length p) s = p then Some (drop (length p) s) else None)"

definition parse_literal :: "jstr \<Rightarrow> (json \<times> jstr) option" where
  "parse_literal s =
     (case strip_prefix (js ''null'') s of
        Some r \<Rightarrow> Some (JNull, r)
      | None \<Rightarrow> (case strip_prefix (js ''true'') s of
          Some r \<Rightarrow> Some (JBool True, r)
        | None \<Rightarrow> (case strip_prefix (js ''false'') s of
            Some r \<Rightarrow> Some (JBool False, r)
          | None \<Rightarrow> map_option (apfst JNum) (parse_number s))))"

fun parse_value :: "nat \<Rightarrow> jstr \<Rightarrow> (json \<times> jstr) option"
  and parse_elements :: "nat \<Rightarrow> jstr \<Rightarrow> (json list \<times> jstr) option"
  and parse_members :: "nat \<Rightarrow> jstr \<Rightarrow> (obj \<times> jstr) option" where
  "parse_value 0 s = None"
| "parse_value (Suc n) s =
     (case skip s of
        [] \<Rightarrow> None
      | c # cs \<Rightarrow>
          (if c = 34 then map_option (apfst JStr) (parse_string cs)
           else if c = 91 then
             (case skip cs of
                [] \<Rightarrow> None
              | d # ds \<Rightarrow> (if d = 93 then Some (JArr [], ds)
                           else map_option (apfst JArr) (parse_elements n (d # ds))))
           else if c = 123 then
             (case skip cs of
                [] \<Rightarrow> None
              | d # ds \<Rightarrow> (if d = 125 then Some (JObj [], ds)
                           else map_option (apfst (\<lambda>m. JObj (build_obj m))) (parse_members n (d # ds))))
           else parse_literal (c # cs)))"
| "parse_elements 0 s = None"
| "parse_elements (Suc n) s =
     (case parse_value n s of
        None \<Rightarrow> None
      | Some (v, r) \<Rightarrow>
          (case skip r of
             [] \<Rightarrow> None
           | d # ds \<Rightarrow>
               (if d = 93 then Some ([v], ds)
                else if d = 44 then map_option (apfst ((#) v)) (parse_elements n ds)
                else None)))"
| "parse_members 0 s = None"
| "parse_members (Suc n) s =
     (case skip s of
        [] \<Rightarrow> None
      | q # qs \<Rightarrow>
          (if q \<noteq> 34 then None
           else (case parse_string qs of
                   None \<Rightarrow> None
                 | Some (k, r) \<Rightarrow>
                     (case skip r of
                        [] \<Rightarrow> None
                      | c # cs \<Rightarrow>
                          (if c \<noteq> 58 then None
                           else (case parse_value n cs of
                                   None \<Rightarrow> None
                                 | Some (v, r') \<Rightarrow>
                                     (case skip r' of
                                        [] \<Rightarrow> None
                                      | d # ds \<Rightarrow>
                                          (if d = 125 then Some ([(k, v)], ds)
                                           else if d = 44 then
                                             map_option (apfst ((#) (k, v))) (parse_members n ds)
                                           else None)))))))) "

definition parse_json :: "jstr \<Rightarrow> json option" where
  "parse_json s =
     (case parse_value (2 * length s + 2) s of
        None \<Rightarrow> None
      | Some (v, r) \<Rightarrow> if skip r = [] then Some v else None)"


section \<open>Reading what was written\<close>


lemma hex_value_digit [simp]: "d < 16 \<Longrightarrow> hex_value (hex_digit d) = Some d"
  by (auto simp: hex_value_def hex_digit_def)

lemma hex4_digits: "c < 65536 \<Longrightarrow>
  hex4 (hex_digit (c div 4096 mod 16)) (hex_digit (c div 256 mod 16))
       (hex_digit (c div 16 mod 16)) (hex_digit (c mod 16)) = Some c"
proof -
  assume c: "c < 65536"
  have d: "c div 256 = c div 16 div 16" "c div 4096 = c div 256 div 16"
    by (simp_all add: div_mult2_eq [symmetric])
  have top: "c div 4096 mod 16 = c div 4096"
    using c by (simp add: less_mult_imp_div_less)
  have "c div 4096 mod 16 * 16 + c div 256 mod 16 = c div 256"
    unfolding top unfolding d(2) by (rule div_mult_mod_eq)
  moreover have "c div 256 * 16 + c div 16 mod 16 = c div 16"
    unfolding d(1) by (rule div_mult_mod_eq)
  moreover have "c div 16 * 16 + c mod 16 = c"
    by (rule div_mult_mod_eq)
  ultimately show ?thesis
    by (simp add: hex4_def)
qed

lemma parse_string_unicode_escape:
  "c < 65536 \<Longrightarrow> parse_string (unicode_escape c @ r) = map_option (apfst ((#) c)) (parse_string r)"
  by (simp add: unicode_escape_def hex4_digits del: mod_less)

lemma parse_string_escape_unit:
  "parse_string (escape_unit c @ r) = map_option (apfst ((#) c)) (parse_string r)"
  by (auto simp: escape_unit_def unescape_def parse_string_unicode_escape)

lemma parse_string_escape: "parse_string (escape s @ 34 # r) = Some (s, r)"
proof (induction s rule: escape.induct)
  case (2 c)
  then show ?case
    by (auto simp: parse_string_unicode_escape parse_string_escape_unit
        is_high_surrogate_def is_low_surrogate_def simp del: parse_string.simps(2))
       (simp_all)
next
  case (3 c d cs)
  then show ?case
    by (auto simp: parse_string_unicode_escape parse_string_escape_unit
        is_high_surrogate_def is_low_surrogate_def)
qed simp

lemma digits_nonempty [simp]: "digits n \<noteq> []"
  by (subst digits.simps) simp

lemma digits_all: "list_all is_digit (digits n)"
proof (induction n rule: digits.induct)
  case (1 n)
  have d: "is_digit (48 + n mod 10)" "n < 10 \<Longrightarrow> is_digit (48 + n)"
    by (auto simp: is_digit_def)
  with 1 show ?case by (subst digits.simps) auto
qed

lemma digits_value_snoc: "digits_value (ds @ [c]) = digits_value ds * 10 + (c - 48)"
  by (simp add: digits_value_def)

lemma digits_value_digits [simp]: "digits_value (digits n) = n"
proof (induction n rule: digits.induct)
  case (1 n)
  then show ?case
    by (subst digits.simps) (auto simp: digits_value_snoc, simp add: digits_value_def)
qed

lemma digits_hd: "n \<noteq> 0 \<Longrightarrow> hd (digits n) \<noteq> 48"
proof (induction n rule: digits.induct)
  case (1 n)
  then show ?case by (subst digits.simps) auto
qed

lemma digits_zero [simp]: "digits 0 = [48]"
  by (simp add: digits.simps)

definition ends :: "jstr \<Rightarrow> bool" where
  "ends r = (case r of [] \<Rightarrow> True | c # _ \<Rightarrow> c = 44 \<or> c = 93 \<or> c = 125)"

lemma ends_not_digit: "ends r \<Longrightarrow> takeWhile is_digit r = [] \<and> dropWhile is_digit r = r"
  by (cases r) (auto simp: ends_def is_digit_def)

lemma scan_digits_append:
  "list_all is_digit ds \<Longrightarrow> ds \<noteq> [] \<Longrightarrow> (r = [] \<or> \<not> is_digit (hd r)) \<Longrightarrow>
   scan_digits (ds @ r) = Some (ds, r)"
proof -
  assume a: "list_all is_digit ds" "ds \<noteq> []" "r = [] \<or> \<not> is_digit (hd r)"
  have "takeWhile is_digit r = []" "dropWhile is_digit r = r" using a(3) by (cases r; simp)+
  with a show ?thesis
    by (simp add: scan_digits_def list_all_iff takeWhile_append dropWhile_append)
qed

lemma scan_digits_extend:
  "scan_digits s = Some (ds, t) \<Longrightarrow> (t = [] \<Longrightarrow> r = [] \<or> \<not> is_digit (hd r)) \<Longrightarrow>
   scan_digits (s @ r) = Some (ds, t @ r)"
proof -
  assume a: "scan_digits s = Some (ds, t)" "t = [] \<Longrightarrow> r = [] \<or> \<not> is_digit (hd r)"
  then have ds: "ds = takeWhile is_digit s" "t = dropWhile is_digit s" "ds \<noteq> []"
    by (auto simp: scan_digits_def Let_def split: if_splits)
  then have s: "s = ds @ t" by simp
  have nd: "t @ r = [] \<or> \<not> is_digit (hd (t @ r))"
  proof (cases t)
    case Nil then show ?thesis using a(2) by simp
  next
    case (Cons x xs)
    then show ?thesis using hd_dropWhile[of is_digit s] ds by simp
  qed
  have "list_all is_digit ds" using ds(1) by (auto simp: list_all_iff dest: set_takeWhileD)
  from scan_digits_append[OF this ds(3) nd] s show ?thesis by simp
qed
lemma ends_head: "ends r \<Longrightarrow> r = [] \<or> \<not> is_digit (hd r)"
  by (cases r) (auto simp: ends_def is_digit_def)

lemma skip_quote [simp]: "skip (34 # s) = 34 # s"
  by (simp add: skip_def is_space_def)

lemma scan_digits_ends:
  "scan_digits s = Some (ds, t) \<Longrightarrow> ends r \<Longrightarrow> scan_digits (s @ r) = Some (ds, t @ r)"
  by (rule scan_digits_extend) (auto dest: ends_head)

lemma scan_fraction_extend:
  "scan_fraction s = Some (fs, t) \<Longrightarrow> ends r \<Longrightarrow> scan_fraction (s @ r) = Some (fs, t @ r)"
proof (cases s)
  case Nil
  assume "scan_fraction s = Some (fs, t)" "ends r"
  with Nil show ?thesis by (auto simp: scan_fraction_def ends_def split: list.splits)
next
  case (Cons c cs)
  assume "scan_fraction s = Some (fs, t)" "ends r"
  with Cons show ?thesis
    by (auto simp: scan_fraction_def scan_digits_ends split: if_splits)
qed

lemma scan_exponent_extend:
  "scan_exponent s = Some (e, t) \<Longrightarrow> ends r \<Longrightarrow> scan_exponent (s @ r) = Some (e, t @ r)"
proof (cases s)
  case Nil
  assume "scan_exponent s = Some (e, t)" "ends r"
  with Nil show ?thesis by (auto simp: scan_exponent_def ends_def split: list.splits)
next
  case (Cons c cs)
  assume a: "scan_exponent s = Some (e, t)" "ends r"
  have x: "scan_digits u = Some (ds, t) \<Longrightarrow> scan_digits (u @ r) = Some (ds, t @ r)" for u ds
    using a(2) by (simp add: scan_digits_ends)
  show ?thesis
    using a(1) Cons
    by (auto simp: scan_exponent_def x split: if_splits list.splits dest!: x)
qed

lemma scan_unsigned_extend:
  "scan_unsigned s = Some (ds, fs, e, t) \<Longrightarrow> ends r \<Longrightarrow> scan_unsigned (s @ r) = Some (ds, fs, e, t @ r)"
proof -
  assume a: "scan_unsigned s = Some (ds, fs, e, t)" and r: "ends r"
  then obtain u v where u: "scan_digits s = Some (ds, u)" and h: "\<not> (hd ds = 48 \<and> 1 < length ds)"
    and v: "scan_fraction u = Some (fs, v)" and t: "scan_exponent v = Some (e, t)"
    by (auto simp: scan_unsigned_def split: option.splits if_splits)
  have "scan_digits (s @ r) = Some (ds, u @ r)"
    using u r by (simp add: scan_digits_ends)
  with h scan_fraction_extend [OF v r] scan_exponent_extend [OF t r] show ?thesis
    by (simp add: scan_unsigned_def)
qed

lemma scan_unsigned_digits: "scan_unsigned (digits n @ r) = Some (digits n, [], 0, r)" if "ends r"
proof -
  have z: "\<not> (hd (digits n) = 48 \<and> 1 < length (digits n))"
    using digits_hd [of n] by (cases "n = 0") auto
  have "scan_digits (digits n @ r) = Some (digits n, r)"
    using that by (intro scan_digits_append) (auto simp: digits_all ends_head)
  moreover have "scan_fraction r = Some ([], r)" "scan_exponent r = Some (0, r)"
    using that by (auto simp: scan_fraction_def scan_exponent_def ends_def split: list.splits)
  ultimately show ?thesis using z by (auto simp: scan_unsigned_def)
qed


fun number_ok :: "number \<Rightarrow> bool" where
  "number_ok (Whole n) = (\<bar>n\<bar> \<le> safe_limit)"
| "number_ok (Other t) = (parse_number t = Some (Other t, []))"

fun json_ok :: "json \<Rightarrow> bool" where
  "json_ok (JNum n) = number_ok n"
| "json_ok (JArr vs) = list_all json_ok vs"
| "json_ok (JObj m) = (build_obj m = m \<and> list_all (\<lambda>e. json_ok (snd e)) m)"
| "json_ok _ = True"

lemma parse_number_int: "\<bar>n\<bar> \<le> safe_limit \<Longrightarrow> ends r \<Longrightarrow> parse_number (int_text n @ r) = Some (Whole n, r)"
proof -
  assume n: "\<bar>n\<bar> \<le> safe_limit" and r: "ends r"
  have hd: "\<exists>c cs. digits m = c # cs \<and> c \<noteq> 45" for m
    using digits_all [of m] by (cases "digits m") (auto simp: is_digit_def)
  show ?thesis
  proof (cases "n < 0")
    case True
    with n r show ?thesis
      by (simp add: int_text_def parse_number_def scan_unsigned_digits number_of_def Let_def)
  next
    case False
    obtain c cs where c: "digits (nat n) = c # cs" "c \<noteq> 45" using hd by blast
    have "scan_unsigned (c # cs @ r) = Some (c # cs, [], 0, r)"
      using scan_unsigned_digits [OF r, of "nat n"] c by simp
    moreover have "digits_value (c # cs) = nat n"
      using digits_value_digits [of "nat n"] c by simp
    ultimately show ?thesis
      using False n c by (simp add: int_text_def parse_number_def number_of_def Let_def)
  qed
qed

lemma parse_number_other:
  assumes ok: "parse_number t = Some (Other t, [])" and r: "ends r"
  shows "parse_number (t @ r) = Some (Other t, r)"
proof -
  have ne: "t \<noteq> []" using ok by (auto simp: parse_number_def scan_unsigned_def scan_digits_def)
  define neg where "neg = (hd t = 45)"
  define u where "u = (if neg then tl t else t)"
  obtain ds fs e where sc: "scan_unsigned u = Some (ds, fs, e, [])"
    and no: "number_of neg ds fs e t = Other t"
    using ok ne by (auto simp: parse_number_def Let_def neg_def u_def split: list.splits option.splits)
  obtain c cs where t: "t = c # cs" using ne by (cases t) auto
  have "(if neg then cs @ r else t @ r) = u @ r" using t by (simp add: u_def)
  with scan_unsigned_extend [OF sc r] no t show ?thesis
    by (cases "c = 45") (auto simp: parse_number_def Let_def neg_def)
qed

lemma parse_number_text: "number_ok n \<Longrightarrow> ends r \<Longrightarrow> parse_number (num_text n @ r) = Some (n, r)"
  by (cases n) (simp_all add: parse_number_int parse_number_other)

lemma parse_number_head: "parse_number s = Some x \<Longrightarrow> \<exists>c cs. s = c # cs \<and> (c = 45 \<or> is_digit c)"
proof (cases s)
  case (Cons c cs)
  assume "parse_number s = Some x"
  with Cons show ?thesis
    by (auto simp: parse_number_def scan_unsigned_def scan_digits_def Let_def split: if_splits)
qed (simp add: parse_number_def scan_unsigned_def scan_digits_def)

lemma parse_literal_number:
  assumes "number_ok n" "ends r"
  shows "parse_literal (num_text n @ r) = Some (JNum n, r)"
proof -
  have p: "parse_number (num_text n @ r) = Some (n, r)" using assms by (rule parse_number_text)
  then obtain c cs where c: "num_text n @ r = c # cs" "c = 45 \<or> is_digit c"
    using parse_number_head by blast
  have "strip_prefix (js ''null'') (c # cs) = None" "strip_prefix (js ''true'') (c # cs) = None"
    "strip_prefix (js ''false'') (c # cs) = None"
    using c(2) by (auto simp: strip_prefix_def js_def is_digit_def)
  with p c(1) show ?thesis by (simp add: parse_literal_def)
qed

lemma num_text_head: "number_ok n \<Longrightarrow> \<exists>c cs. num_text n = c # cs \<and> (c = 45 \<or> is_digit c)"
  using parse_number_head [of "num_text n"] parse_number_text [of n "[]"] by (auto simp: ends_def)

lemma parse_literal_words:
  "parse_literal (js ''null'' @ r) = Some (JNull, r)"
  "parse_literal (js ''true'' @ r) = Some (JBool True, r)"
  "parse_literal (js ''false'' @ r) = Some (JBool False, r)"
  by (simp_all add: parse_literal_def strip_prefix_def js_def)

lemma stringify_head:
  "json_ok v \<Longrightarrow> \<exists>c cs. stringify v = c # cs \<and> \<not> is_space c \<and> c \<noteq> 93 \<and> c \<noteq> 125"
  by (cases v) (auto simp: quote_def js_def is_space_def is_digit_def dest: num_text_head)

lemma skip_stringify: "json_ok v \<Longrightarrow> skip (stringify v @ r) = stringify v @ r"
  using stringify_head [of v] by (auto simp: skip_def)

lemma skip_ends: "c = 44 \<or> c = 93 \<or> c = 125 \<or> c = 58 \<Longrightarrow> skip (c # r) = c # r"
  by (auto simp: skip_def is_space_def)

lemma ends_simps [simp]: "ends []" "ends (44 # r)" "ends (93 # r)" "ends (125 # r)"
  by (simp_all add: ends_def)

lemma stringify_length: "json_ok v \<Longrightarrow> 1 \<le> length (stringify v)"
  using stringify_head [of v] by auto

definition reads_back :: "json \<Rightarrow> bool" where
  "reads_back v \<longleftrightarrow> (\<forall>n r. ends r \<longrightarrow> 2 * length (stringify v) \<le> n \<longrightarrow>
     parse_value (Suc n) (stringify v @ r) = Some (v, r))"

lemma reads_backD:
  "reads_back v \<Longrightarrow> ends r \<Longrightarrow> 2 * length (stringify v) < n \<Longrightarrow> parse_value n (stringify v @ r) = Some (v, r)"
  unfolding reads_back_def by (cases n) auto

lemma parse_elements_join:
  "vs \<noteq> [] \<Longrightarrow> list_all json_ok vs \<Longrightarrow> \<forall>v \<in> set vs. reads_back v \<Longrightarrow>
   2 * length (join_with 44 (map stringify vs)) + 1 \<le> n \<Longrightarrow>
   parse_elements (Suc n) (join_with 44 (map stringify vs) @ 93 # r) = Some (vs, r)"
proof (induction vs arbitrary: n rule: induct_list012)
  case (2 v)
  then show ?case by (simp add: reads_backD skip_ends)
next
  case (3 v w vs)
  have l: "1 \<le> length (stringify v)" using 3(4) stringify_length [of v] by simp
  obtain m where n: "n = Suc m" using 3 by (cases n) auto
  have tail: "parse_elements (Suc m) (join_with 44 (map stringify (w # vs)) @ 93 # r) = Some (w # vs, r)"
    using 3 l n by (intro "3.IH") auto
  have v: "parse_value n (stringify v @ 44 # join_with 44 (map stringify (w # vs)) @ 93 # r)
      = Some (v, 44 # join_with 44 (map stringify (w # vs)) @ 93 # r)"
    using 3 by (intro reads_backD) auto
  show ?case using v tail n by (simp add: skip_ends)
qed simp

definition member_text :: "jstr \<times> json \<Rightarrow> jstr" where
  "member_text e = quote (fst e) @ 58 # stringify (snd e)"

lemma quote_append: "quote k @ r = 34 # escape k @ 34 # r"
  by (simp add: quote_def)

lemma parse_members_join:
  "m \<noteq> [] \<Longrightarrow> list_all (\<lambda>e. json_ok (snd e)) m \<Longrightarrow> \<forall>e \<in> set m. reads_back (snd e) \<Longrightarrow>
   2 * length (join_with 44 (map member_text m)) + 1 \<le> n \<Longrightarrow>
   parse_members (Suc n) (join_with 44 (map member_text m) @ 125 # r) = Some (m, r)"
proof (induction m arbitrary: n rule: induct_list012)
  case (2 e)
  then show ?case
    by (simp add: member_text_def quote_append parse_string_escape reads_backD skip_ends)
next
  case (3 e e' m)
  obtain k where n: "n = Suc k" using 3 by (cases n) auto
  have tail: "parse_members (Suc k) (join_with 44 (map member_text (e' # m)) @ 125 # r) = Some (e' # m, r)"
    using 3 n by (intro "3.IH") (auto simp: member_text_def)
  have v: "parse_value n (stringify (snd e) @ 44 # join_with 44 (map member_text (e' # m)) @ 125 # r)
      = Some (snd e, 44 # join_with 44 (map member_text (e' # m)) @ 125 # r)"
    using 3 by (intro reads_backD) (auto simp: member_text_def)
  have t: "join_with 44 (map member_text (e # e' # m)) @ 125 # r
    = 34 # escape (fst e) @ 34 # 58 # stringify (snd e) @ 44 # join_with 44 (map member_text (e' # m)) @ 125 # r"
    by (simp add: member_text_def quote_append)
  show ?case unfolding t using v tail n by (simp add: parse_string_escape skip_ends)
qed simp


lemma stringify_obj: "stringify (JObj m) = 123 # join_with 44 (map member_text m) @ [125]"
  unfolding member_text_def [abs_def] by simp

lemma reads_back_arr:
  assumes ok: "list_all json_ok vs" and IH: "\<forall>v \<in> set vs. reads_back v"
  shows "reads_back (JArr vs)"
  unfolding reads_back_def
proof (intro allI impI)
  fix n r
  assume n: "2 * length (stringify (JArr vs)) \<le> n"
  show "parse_value (Suc n) (stringify (JArr vs) @ r) = Some (JArr vs, r)"
  proof (cases vs)
    case Nil
    then show ?thesis by (simp add: skip_def is_space_def)
  next
    case (Cons v ws)
    let ?t = "join_with 44 (map stringify vs) @ 93 # r"
    obtain d ds where d: "?t = d # ds" "\<not> is_space d" "d \<noteq> 93"
      using stringify_head [of v] ok Cons by (cases ws) auto
    have "skip ?t = ?t" using d by (simp add: skip_def)
    moreover obtain k where "n = Suc k" using n by (cases n) auto
    moreover from this have "parse_elements n ?t = Some (vs, r)"
      using parse_elements_join [of vs k r] Cons ok IH n by simp
    ultimately show ?thesis using d by (simp add: skip_def is_space_def)
  qed
qed

lemma reads_back_obj:
  assumes ok: "list_all (\<lambda>e. json_ok (snd e)) m" and b: "build_obj m = m"
    and IH: "\<forall>e \<in> set m. reads_back (snd e)"
  shows "reads_back (JObj m)"
  unfolding reads_back_def stringify_obj
proof (intro allI impI)
  fix n r
  assume n: "2 * length (123 # join_with 44 (map member_text m) @ [125]) \<le> n"
  show "parse_value (Suc n) ((123 # join_with 44 (map member_text m) @ [125]) @ r) = Some (JObj m, r)"
  proof (cases m)
    case Nil
    then show ?thesis by (simp add: skip_def is_space_def)
  next
    case (Cons e es)
    let ?t = "join_with 44 (map member_text m) @ 125 # r"
    obtain ds where d: "?t = 34 # ds"
      using Cons by (cases es) (auto simp: member_text_def quote_def)
    moreover obtain k where "n = Suc k" using n by (cases n) auto
    moreover from this have "parse_members n ?t = Some (m, r)"
      using parse_members_join [of m k r] Cons ok IH n by simp
    ultimately show ?thesis using b by (simp add: skip_def is_space_def)
  qed
qed

lemma reads_back_atoms:
  "reads_back JNull" "reads_back (JBool b)" "reads_back (JStr s)"
  "number_ok k \<Longrightarrow> reads_back (JNum k)"
proof -
  show "reads_back JNull" "reads_back (JBool b)"
    using parse_literal_words by (auto simp: reads_back_def js_def skip_def is_space_def)
  show "reads_back (JStr s)"
    by (simp add: reads_back_def quote_append parse_string_escape)
  assume k: "number_ok k"
  then obtain c cs where c: "num_text k = c # cs" "c = 45 \<or> is_digit c" using num_text_head by blast
  show "reads_back (JNum k)"
    unfolding reads_back_def
  proof (intro allI impI)
    fix n r assume "ends r"
    with k have "parse_literal (c # cs @ r) = Some (JNum k, r)"
      using parse_literal_number [of k r] c by simp
    then show "parse_value (Suc n) (stringify (JNum k) @ r) = Some (JNum k, r)"
      using c by (auto simp: skip_def is_space_def is_digit_def)
  qed
qed

lemma reads_back_all: "json_ok v \<Longrightarrow> reads_back v"
proof (induction v)
  case (JArr vs)
  then show ?case by (intro reads_back_arr) (auto simp: list_all_iff)
next
  case (JObj m)
  then show ?case by (intro reads_back_obj) (auto simp: list_all_iff intro: snds.intros)
qed (simp_all add: reads_back_atoms)

theorem parse_stringify: "json_ok v \<Longrightarrow> parse_json (stringify v) = Some v"
  using reads_backD [OF reads_back_all, of v "[]" "2 * length (stringify v) + 2"]
  by (simp add: parse_json_def skip_def del: parse_value.simps)




definition clean :: "jstr \<Rightarrow> bool" where
  "clean s = list_all (\<lambda>c. 32 \<le> c) s"

lemma clean_simps [simp]:
  "clean []" "clean (c # s) \<longleftrightarrow> 32 \<le> c \<and> clean s" "clean (s @ t) \<longleftrightarrow> clean s \<and> clean t"
  by (auto simp: clean_def)

lemma scan_digits_split: "scan_digits s = Some (ds, t) \<Longrightarrow> s = ds @ t \<and> clean ds \<and> ds \<noteq> []"
  by (auto simp: scan_digits_def Let_def clean_def list_all_iff is_digit_def
      dest!: set_takeWhileD split: if_splits)

lemma scan_fraction_split: "scan_fraction s = Some (fs, t) \<Longrightarrow> \<exists>p. s = p @ t \<and> clean p"
  by (cases s) (fastforce simp: scan_fraction_def split: if_splits dest: scan_digits_split intro: exI [of _ "46 # _"])+

lemma scan_exponent_split: "scan_exponent s = Some (e, t) \<Longrightarrow> \<exists>p. s = p @ t \<and> clean p"
proof (cases s)
  case (Cons c cs)
  assume a: "scan_exponent s = Some (e, t)"
  show ?thesis
  proof (cases "c = 101 \<or> c = 69")
    case False
    with a Cons show ?thesis by (auto simp: scan_exponent_def)
  next
    case True
    with a Cons obtain d ds where cs: "cs = d # ds" by (cases cs) (auto simp: scan_exponent_def)
    with a Cons True obtain u p where "s = p @ u" "clean p" "\<exists>x. scan_digits u = Some (x, t)"
      by (cases "d = 45 \<or> d = 43")
         (fastforce simp: scan_exponent_def intro: that [of "[c, d]"] that [of "[c]"])+
    then show ?thesis by (metis append.assoc clean_simps(3) scan_digits_split)
  qed
qed (auto simp: scan_exponent_def)

lemma scan_unsigned_split: "scan_unsigned s = Some (ds, fs, e, t) \<Longrightarrow> \<exists>p. s = p @ t \<and> clean p \<and> p \<noteq> []"
  by (auto simp: scan_unsigned_def split: option.splits if_splits
      dest!: scan_digits_split scan_fraction_split scan_exponent_split)

lemma parse_number_split: "parse_number s = Some (k, t) \<Longrightarrow> \<exists>p. s = p @ t \<and> clean p \<and> p \<noteq> []"
proof -
  assume a: "parse_number s = Some (k, t)"
  then obtain c cs where s: "s = c # cs" "c = 45 \<or> is_digit c" using parse_number_head by blast
  with a obtain ds fs e where "scan_unsigned (if c = 45 then cs else s) = Some (ds, fs, e, t)"
    by (cases "c = 45") (auto simp: parse_number_def Let_def split: option.splits)
  then obtain p where "(if c = 45 then cs else s) = p @ t" "clean p" "p \<noteq> []"
    using scan_unsigned_split by blast
  with s show ?thesis by (cases "c = 45") (auto intro: exI [of _ "45 # p"])
qed

lemma clean_digits: "clean (digits n)"
  using digits_all [of n] by (auto simp: clean_def list_all_iff is_digit_def)

lemma clean_num_text: "number_ok k \<Longrightarrow> clean (num_text k)"
  by (cases k) (auto simp: int_text_def clean_digits dest: parse_number_split)

lemma clean_unicode_escape: "clean (unicode_escape c)"
proof -
  have "32 \<le> hex_digit d" for d by (simp add: hex_digit_def)
  then show ?thesis by (simp add: unicode_escape_def)
qed

lemma clean_escape_unit: "clean (escape_unit c)"
  by (simp add: escape_unit_def clean_unicode_escape)

lemma clean_escape: "clean (escape s)"
proof (induction s rule: escape.induct)
  case (3 c d cs)
  then show ?case
    by (auto simp: clean_unicode_escape clean_escape_unit is_high_surrogate_def is_low_surrogate_def)
qed (simp_all add: clean_unicode_escape clean_escape_unit)

lemma clean_join: "32 \<le> c \<Longrightarrow> \<forall>s \<in> set ss. clean s \<Longrightarrow> clean (join_with c ss)"
  by (induction c ss rule: join_with.induct) auto

lemma clean_stringify: "json_ok v \<Longrightarrow> clean (stringify v)"
proof (induction v)
  case (JArr vs)
  then show ?case by (auto simp: list_all_iff intro!: clean_join)
next
  case (JObj m)
  have "clean (stringify (snd e))" if "e \<in> set m" for e
    using JObj that by (cases e) (auto simp: list_all_iff intro: snds.intros)
  then show ?case
    unfolding stringify_obj
    by (auto simp: member_text_def quote_def clean_escape intro!: clean_join)
qed (simp_all add: clean_num_text quote_def clean_escape js_def)

lemma clean_no_break: "clean s \<Longrightarrow> 10 \<notin> set s \<and> 13 \<notin> set s"
  by (auto simp: clean_def list_all_iff)

text \<open>Every reader consumes at least one unit, so the fuel of \<open>parse_json\<close> is enough.\<close>

lemma skip_length: "length (skip s) \<le> length s"
  by (simp add: skip_def length_dropWhile_le)

lemma parse_string_length: "parse_string s = Some (k, r) \<Longrightarrow> length r < length s"
proof (induction "length s" arbitrary: s k r rule: less_induct)
  case less
  have IH: "parse_string t = Some (k', r') \<Longrightarrow> length t < length s \<Longrightarrow> length r' < length t" for t k' r'
    using less.hyps by blast
  show ?case
  proof (cases s)
    case (Cons c cs)
    with less.prems show ?thesis
      by (auto split: if_splits list.splits option.splits dest!: IH)
  qed (use less.prems in simp)
qed

lemma parse_literal_length: "parse_literal s = Some (v, r) \<Longrightarrow> length r < length s"
  by (auto simp: parse_literal_def strip_prefix_def js_def split: option.splits if_splits dest!: parse_number_split)
     (metis length_drop length_greater_0_conv diff_less drop_eq_Nil list.simps(3) take_Nil zero_less_Suc zero_less_numeral)+


lemma parse_lengths:
  "parse_value n s = Some (v, r) \<Longrightarrow> length r < length s"
  "parse_elements n s = Some (vs, r) \<Longrightarrow> length r < length s"
  "parse_members n s = Some (m, r) \<Longrightarrow> length r < length s"
proof (induction n arbitrary: s v vs m r)
  case 0
  { case 1 then show ?case by simp }
  { case 2 then show ?case by simp }
  { case 3 then show ?case by simp }
next
  case (Suc n)
  have sk: "skip t = d # ds \<Longrightarrow> length ds < length t" for t d ds
    using skip_length [of t] by simp
  {
    case 1
    then obtain c cs where c: "skip s = c # cs" by (auto split: list.splits)
    note l = sk [OF c]
    consider (str) "c = 34" | (arr) "c = 91" | (obj) "c = 123" | (lit) "c \<noteq> 34" "c \<noteq> 91" "c \<noteq> 123" by blast
    then show ?case
    proof cases
      case str
      with 1 c l show ?thesis by (auto dest: parse_string_length)
    next
      case arr
      then obtain d ds where d: "skip cs = d # ds" using 1 c by (auto split: list.splits)
      with arr 1 c l sk [OF d] show ?thesis by (auto split: if_splits dest!: Suc.IH(2))
    next
      case obj
      then obtain d ds where d: "skip cs = d # ds" using 1 c by (auto split: list.splits)
      with obj 1 c l sk [OF d] show ?thesis by (auto split: if_splits dest!: Suc.IH(3))
    next
      case lit
      with 1 c have "parse_literal (c # cs) = Some (v, r)" by simp
      from parse_literal_length [OF this] l show ?thesis by simp
    qed
  }
  {
    case 2
    then obtain v' t where v: "parse_value n s = Some (v', t)" by (auto split: option.splits)
    with 2 obtain d ds where d: "skip t = d # ds" by (auto split: list.splits)
    from 2 v d Suc.IH(1) [OF v] sk [OF d] show ?case by (auto split: if_splits dest!: Suc.IH(2))
  }
  {
    case 3
    then obtain qs where q: "skip s = 34 # qs" by (auto split: list.splits if_splits)
    with 3 obtain k t where k: "parse_string qs = Some (k, t)" by (auto split: option.splits)
    with 3 q obtain u where u: "skip t = 58 # u" by (auto split: list.splits if_splits)
    with 3 q k obtain v' w where v: "parse_value n u = Some (v', w)" by (auto split: option.splits)
    with 3 q k u obtain d ds where d: "skip w = d # ds" by (auto split: list.splits)
    from 3 q k u v d sk [OF q] sk [OF u] sk [OF d] parse_string_length [OF k] Suc.IH(1) [OF v]
    show ?case by (auto split: if_splits dest!: Suc.IH(3))
  }
qed

lemma parse_more_fuel:
  "2 * length s < n \<Longrightarrow> parse_value (Suc n) s = parse_value n s"
  "2 * length s + 1 < n \<Longrightarrow> parse_elements (Suc n) s = parse_elements n s"
  "2 * length s + 1 < n \<Longrightarrow> parse_members (Suc n) s = parse_members n s"
proof (induction n arbitrary: s)
  case 0
  { case 1 then show ?case by simp }
  { case 2 then show ?case by simp }
  { case 3 then show ?case by simp }
next
  case (Suc n)
  have sk: "skip t = d # ds \<Longrightarrow> length (d # ds) \<le> length t" for t d ds
    using skip_length [of t] by simp
  have s1: "skip t = d # ds \<Longrightarrow> Suc (length ds) \<le> length t" for t d ds
    using sk by fastforce
  {
    case 1
    have e: "parse_elements (Suc n) (d # ds) = parse_elements n (d # ds)"
      "parse_members (Suc n) (d # ds) = parse_members n (d # ds)"
      if "skip s = c # cs" "skip cs = d # ds" for c cs d ds
      using s1 [OF that(1)] sk [OF that(2)] 1 by (intro Suc.IH; simp)+
    show ?case
      by (subst parse_value.simps(2), subst parse_value.simps(2))
         (simp split: list.splits add: e del: parse_elements.simps parse_members.simps)
  }
  {
    case 2
    have v: "parse_value (Suc n) s = parse_value n s" using 2 by (intro Suc.IH) simp
    have e: "parse_elements (Suc n) ds = parse_elements n ds"
      if "parse_value n s = Some (w, t)" "skip t = d # ds" for w t d ds
      using parse_lengths(1) [OF that(1)] s1 [OF that(2)] 2 by (intro Suc.IH) simp
    show ?case
      by (subst parse_elements.simps(2), subst (2) parse_elements.simps(2))
         (simp add: v e split: option.splits list.splits
          del: parse_value.simps parse_elements.simps parse_members.simps)
  }
  {
    case 3
    have v: "parse_value (Suc n) cs = parse_value n cs"
      if "skip s = q # qs" "parse_string qs = Some (k, t)" "skip t = c # cs" for q qs k t c cs
      using s1 [OF that(1)] parse_string_length [OF that(2)] s1 [OF that(3)] 3 by (intro Suc.IH) simp
    have e: "parse_members (Suc n) ds = parse_members n ds"
      if "skip s = q # qs" "parse_string qs = Some (k, t)" "skip t = c # cs"
        "parse_value n cs = Some (w, u)" "skip u = d # ds" for q qs k t c cs w u d ds
      using s1 [OF that(1)] parse_string_length [OF that(2)] s1 [OF that(3)]
        parse_lengths(1) [OF that(4)] s1 [OF that(5)] 3 by (intro Suc.IH) simp
    show ?case
      by (subst parse_members.simps(2), subst (2) parse_members.simps(2))
         (simp add: v e split: option.splits list.splits
          del: parse_value.simps parse_elements.simps parse_members.simps)
  }
qed

lemma parse_enough_fuel: "parse_value (2 * length s + 2 + k) s = parse_value (2 * length s + 2) s"
  by (induction k) (simp_all add: parse_more_fuel del: parse_value.simps)


end
