(* ===== verification/Protocol.thy ===== *)
theory Protocol
  imports Json
begin

text \<open>
  src/protocol.ts of the first vertical slice: the enumerations, the field validators, the
  body of every frame type as a record with its validator, and for each body the object
  the validator returns (\<open>*_json\<close>, its fields in the order of the returned literal).
  A validator takes the unknown value and returns the typed body or the error code of the
  \<open>ProtocolError\<close> it throws; the human-readable detail is not modelled.
\<close>

section \<open>Constants and enumerations\<close>

definition PROTOCOL_ID :: jstr where
  "PROTOCOL_ID = js ''omarchestra.first-vertical-slice/v1''"

definition MAX_FRAME_BYTES :: nat where "MAX_FRAME_BYTES = 16 * 1024"
definition MAX_DECODE_BUFFER_BYTES :: nat where "MAX_DECODE_BUFFER_BYTES = 32 * 1024"
definition MAX_EVENTS_PER_PAGE :: nat where "MAX_EVENTS_PER_PAGE = 256"
definition MAX_SAFE_INTEGER :: int where "MAX_SAFE_INTEGER = 9007199254740991"

definition goalText_limit :: nat where "goalText_limit = 8192"
definition prompt_limit :: nat where "prompt_limit = 4096"
definition eventPayload_limit :: nat where "eventPayload_limit = 4096"
definition label_limit :: nat where "label_limit = 512"

lemmas protocol_limits = MAX_FRAME_BYTES_def MAX_DECODE_BUFFER_BYTES_def MAX_EVENTS_PER_PAGE_def
  MAX_SAFE_INTEGER_def goalText_limit_def prompt_limit_def eventPayload_limit_def label_limit_def

datatype role = Coordinator | Builder | Reviewer
datatype control_mode = Managed | Manual_takeover
datatype agent_state = Waiting | Working
datatype assignment_state = Pending | Active | Needs_reconciliation
datatype ack_status = Accepted | Busy | Duplicate | Invalid
datatype connection_kind = Bridge_kind | Projection_kind
datatype journal_mode = Default_journal | Wal_journal

type_synonym 'a enum = "(string \<times> 'a) list"

definition ROLES :: "role enum" where
  "ROLES = [(''coordinator'', Coordinator), (''builder'', Builder), (''reviewer'', Reviewer)]"

definition CONTROL_MODES :: "control_mode enum" where
  "CONTROL_MODES = [(''managed'', Managed), (''manual_takeover'', Manual_takeover)]"

definition AGENT_STATES :: "agent_state enum" where
  "AGENT_STATES = [(''waiting'', Waiting), (''working'', Working)]"

definition ASSIGNMENT_STATES :: "assignment_state enum" where
  "ASSIGNMENT_STATES =
     [(''pending'', Pending), (''active'', Active), (''needs_reconciliation'', Needs_reconciliation)]"

definition ACK_STATUSES :: "ack_status enum" where
  "ACK_STATUSES =
     [(''accepted'', Accepted), (''busy'', Busy), (''duplicate'', Duplicate), (''invalid'', Invalid)]"

definition CONNECTION_KINDS :: "connection_kind enum" where
  "CONNECTION_KINDS = [(''bridge'', Bridge_kind), (''projection'', Projection_kind)]"

definition JOURNAL_MODES :: "journal_mode enum" where
  "JOURNAL_MODES = [(''default'', Default_journal), (''wal'', Wal_journal)]"

definition CLIENT_FRAME_TYPES :: "string list" where
  "CLIENT_FRAME_TYPES =
     [''bridge.hello'', ''bridge.assignment_ack'', ''bridge.event'', ''projection.hello'']"

definition RUNNER_FRAME_TYPES :: "string list" where
  "RUNNER_FRAME_TYPES =
     [''hello_ack'', ''snapshot'', ''assignment'', ''presentation_update'', ''event_page'',
      ''event'', ''protocol_error'']"

text \<open>The text of an enumeration value: the inverse of the table.\<close>

definition enum_text :: "'a enum \<Rightarrow> 'a \<Rightarrow> jstr" where
  "enum_text t x = (case List.find (\<lambda>e. snd e = x) t of Some e \<Rightarrow> js (fst e) | None \<Rightarrow> [])"

definition enum_of :: "'a enum \<Rightarrow> jstr \<Rightarrow> 'a option" where
  "enum_of t s = map_option snd (List.find (\<lambda>e. js (fst e) = s) t)"

definition enum_ok :: "'a enum \<Rightarrow> bool" where
  "enum_ok t \<longleftrightarrow> distinct (map fst t) \<and> distinct (map snd t) \<and> (\<forall>x. x \<in> set (map snd t))"

lemma find_unique:
  "distinct (map f t) \<Longrightarrow> e \<in> set t \<Longrightarrow> List.find (\<lambda>x. f x = f e) t = Some e"
  by (induction t) (auto simp: image_iff)

lemma enum_of_iff: "enum_ok t \<Longrightarrow> enum_of t s = Some x \<longleftrightarrow> s = enum_text t x"
proof -
  assume ok: "enum_ok t"
  then obtain e where e: "e \<in> set t" "snd e = x"
    unfolding enum_ok_def by (metis imageE list.set_map)
  have tx: "enum_text t x = js (fst e)"
    using ok e find_unique [of snd t e] by (auto simp: enum_text_def enum_ok_def)
  have inj: "distinct (map (\<lambda>e. js (fst e)) t)"
    using ok by (auto simp: enum_ok_def distinct_map inj_on_def)
  show ?thesis
  proof
    assume "enum_of t s = Some x"
    then obtain e' where e': "List.find (\<lambda>e. js (fst e) = s) t = Some e'" "snd e' = x"
      by (auto simp: enum_of_def)
    then have "e' \<in> set t" "js (fst e') = s" using find_Some_in by fast+
    moreover have "e' = e" using ok e e'(2) \<open>e' \<in> set t\<close>
      by (auto simp: enum_ok_def distinct_map dest: inj_onD)
    ultimately show "s = enum_text t x" using tx by simp
  next
    assume "s = enum_text t x"
    then show "enum_of t s = Some x"
      using find_unique [OF inj e(1)] tx e(2) by (simp add: enum_of_def)
  qed
qed

lemma enum_of_text [simp]: "enum_ok t \<Longrightarrow> enum_of t (enum_text t x) = Some x"
  by (simp add: enum_of_iff)

lemma enum_text_inject [simp]: "enum_ok t \<Longrightarrow> enum_text t x = enum_text t y \<longleftrightarrow> x = y"
  by (metis enum_of_text option.inject)

lemma enum_ok_tables [simp]:
  "enum_ok ROLES" "enum_ok CONTROL_MODES" "enum_ok AGENT_STATES" "enum_ok ASSIGNMENT_STATES"
  "enum_ok ACK_STATUSES" "enum_ok CONNECTION_KINDS" "enum_ok JOURNAL_MODES"
  unfolding enum_ok_def ROLES_def CONTROL_MODES_def AGENT_STATES_def ASSIGNMENT_STATES_def
    ACK_STATUSES_def CONNECTION_KINDS_def JOURNAL_MODES_def
  by (auto intro: role.exhaust control_mode.exhaust agent_state.exhaust assignment_state.exhaust
      ack_status.exhaust connection_kind.exhaust journal_mode.exhaust)

section \<open>Field validators\<close>

datatype protocol_code =
    Unknown_body_field | Invalid_id | Invalid_string | Invalid_integer | Invalid_enum
  | Invalid_body | Frame_too_large | Invalid_cursor | Unknown_frame_type | Malformed_json
  | Malformed_frame | Unsupported_protocol | Decoder_overflow | Connection_closed

definition id_tail :: "nat \<Rightarrow> bool" where
  "id_tail c = (is_alnum c \<or> c = 46 \<or> c = 95 \<or> c = 58 \<or> c = 45)"

definition ID_RE :: "jstr \<Rightarrow> bool" where "ID_RE s = matches_head_tail is_alnum id_tail 127 s"
definition MESSAGE_ID_RE :: "jstr \<Rightarrow> bool" where "MESSAGE_ID_RE s = matches_head_tail is_alnum id_tail 63 s"
definition EVENT_TYPE_RE :: "jstr \<Rightarrow> bool" where
  "EVENT_TYPE_RE s = matches_head_tail is_lower (\<lambda>c. is_lower c \<or> is_digit c \<or> c = 95) 63 s"

definition isBoundedId :: "json option \<Rightarrow> bool" where
  "isBoundedId v = (case string_of v of None \<Rightarrow> False | Some s \<Rightarrow> ID_RE s)"

definition requireObject :: "json option \<Rightarrow> protocol_code + obj" where
  "requireObject v = (case object_of v of None \<Rightarrow> Inl Invalid_body | Some m \<Rightarrow> Inr m)"

definition requireExactFields :: "obj \<Rightarrow> string list \<Rightarrow> protocol_code + unit" where
  "requireExactFields m fields = guardR (exact_keys m fields) Unknown_body_field"

definition requireId :: "json option \<Rightarrow> protocol_code + jstr" where
  "requireId v = (case string_of v of
     None \<Rightarrow> Inl Invalid_id
   | Some s \<Rightarrow> if ID_RE s then Inr s else Inl Invalid_id)"

definition requireBoundedString :: "json option \<Rightarrow> nat \<Rightarrow> protocol_code + jstr" where
  "requireBoundedString v limit = (case string_of v of
     None \<Rightarrow> Inl Invalid_string
   | Some s \<Rightarrow> if length s = 0 \<or> limit < length s then Inl Invalid_string else Inr s)"

definition requirePositiveInt :: "json option \<Rightarrow> int \<Rightarrow> protocol_code + int" where
  "requirePositiveInt v limit = (case whole_of v of
     None \<Rightarrow> Inl Invalid_integer
   | Some n \<Rightarrow> if n < 1 \<or> limit < n then Inl Invalid_integer else Inr n)"

definition requireNonNegativeInt :: "json option \<Rightarrow> protocol_code + int" where
  "requireNonNegativeInt v = (case whole_of v of
     None \<Rightarrow> Inl Invalid_integer
   | Some n \<Rightarrow> if n < 0 \<or> MAX_SAFE_INTEGER < n then Inl Invalid_integer else Inr n)"

definition requireEnum :: "json option \<Rightarrow> 'a enum \<Rightarrow> protocol_code + 'a" where
  "requireEnum v allowed = (case string_of v of
     None \<Rightarrow> Inl Invalid_enum
   | Some s \<Rightarrow> (case enum_of allowed s of None \<Rightarrow> Inl Invalid_enum | Some x \<Rightarrow> Inr x))"

definition requireEnumEventType :: "json option \<Rightarrow> protocol_code + jstr" where
  "requireEnumEventType v = (case string_of v of
     None \<Rightarrow> Inl Invalid_enum
   | Some s \<Rightarrow> if EVENT_TYPE_RE s then Inr s else Inl Invalid_enum)"

text \<open>\<open>value === null ? null : check(value)\<close>, and the test for one literal string.\<close>

definition nullable :: "(json option \<Rightarrow> 'e + 'a) \<Rightarrow> json option \<Rightarrow> 'e + 'a option" where
  "nullable check v = (if v = Some JNull then Inr None else andThen (check v) (\<lambda>x. Inr (Some x)))"

definition requireLiteral :: "json option \<Rightarrow> string \<Rightarrow> 'e \<Rightarrow> 'e + unit" where
  "requireLiteral v t e = guardR (v = Some (JStr (js t))) e"

definition null_or :: "('a \<Rightarrow> json) \<Rightarrow> 'a option \<Rightarrow> json" where
  "null_or f x = (case x of None \<Rightarrow> JNull | Some y \<Rightarrow> f y)"

abbreviation JEnum :: "'a enum \<Rightarrow> 'a \<Rightarrow> json" where
  "JEnum t x \<equiv> JStr (enum_text t x)"

abbreviation JWhole :: "int \<Rightarrow> json" where
  "JWhole n \<equiv> JNum (Whole n)"

lemma requireObject_iff [result_simps]: "requireObject v = Inr m \<longleftrightarrow> v = Some (JObj m)"
  by (auto simp: requireObject_def split: option.splits)

lemma requireObject_simp [simp]: "requireObject (Some (JObj m)) = Inr m"
  by (simp add: result_simps)

lemma requireExactFields_iff [result_simps]: "requireExactFields m fs = Inr u \<longleftrightarrow> exact_keys m fs"
  by (simp add: requireExactFields_def result_simps)

lemma requireId_iff [result_simps]: "requireId v = Inr s \<longleftrightarrow> v = Some (JStr s) \<and> ID_RE s"
  by (auto simp: requireId_def split: option.splits)

lemma requireBoundedString_iff [result_simps]:
  "requireBoundedString v l = Inr s \<longleftrightarrow> v = Some (JStr s) \<and> 0 < length s \<and> length s \<le> l"
  by (auto simp: requireBoundedString_def split: option.splits)

lemma requirePositiveInt_iff [result_simps]:
  "requirePositiveInt v m = Inr n \<longleftrightarrow> v = Some (JWhole n) \<and> 1 \<le> n \<and> n \<le> m"
  by (auto simp: requirePositiveInt_def split: option.splits)

lemma requireNonNegativeInt_iff [result_simps]:
  "requireNonNegativeInt v = Inr n \<longleftrightarrow> v = Some (JWhole n) \<and> 0 \<le> n \<and> n \<le> MAX_SAFE_INTEGER"
  by (auto simp: requireNonNegativeInt_def split: option.splits)

lemma requireEnum_iff [result_simps]:
  "enum_ok t \<Longrightarrow> requireEnum v t = Inr x \<longleftrightarrow> v = Some (JEnum t x)"
  by (auto simp: requireEnum_def enum_of_iff split: option.splits) 

lemma requireEnumEventType_iff [result_simps]:
  "requireEnumEventType v = Inr s \<longleftrightarrow> v = Some (JStr s) \<and> EVENT_TYPE_RE s"
  by (auto simp: requireEnumEventType_def split: option.splits)

lemma requireLiteral_iff [result_simps]: "requireLiteral v t e = Inr u \<longleftrightarrow> v = Some (JStr (js t))"
  by (simp add: requireLiteral_def result_simps)

lemma nullable_iff [result_simps]:
  "nullable c v = Inr x \<longleftrightarrow>
     v = Some JNull \<and> x = None \<or> (\<exists>y. x = Some y \<and> v \<noteq> Some JNull \<and> c v = Inr y)"
  by (auto simp: nullable_def result_simps)

lemma nullable_null_or [simp]:
  "(\<And>y. x = Some y \<Longrightarrow> f y \<noteq> JNull \<and> c (Some (f y)) = Inr y) \<Longrightarrow>
   nullable c (Some (null_or f x)) = Inr x"
  by (cases x) (simp_all add: nullable_def null_or_def)

end
