(* ===== verification/Frames.thy ===== *)
theory Frames
  imports Protocol
begin

text \<open>
  The frame bodies of src/protocol.ts: a record per body, the validator of the body, the
  object it returns and the predicate \<open>*_ok\<close> that says which records a validator can
  return. \<open>*_sound\<close> and \<open>*_complete\<close> show that a validator accepts exactly the objects of
  the bodies that satisfy it, so validating a validated body changes nothing.
\<close>

named_theorems body_simps \<open>definitions of bodies, their validators and their objects\<close>

section \<open>Client-to-runner frame bodies\<close>

record bridge_hello =
  bh_teamGoalId :: jstr
  bh_role :: role
  bh_agentRunId :: jstr
  bh_terminalSessionRef :: jstr
  bh_piSessionId :: jstr
  bh_extensionInstanceId :: jstr
  bh_hostPid :: int
  bh_shellRunId :: jstr

definition host_pid_max :: int where "host_pid_max = 2147483647"

definition validateBridgeHello :: "json option \<Rightarrow> protocol_code + bridge_hello" where
  "validateBridgeHello body =
     andThen (requireObject body) (\<lambda>m.
     andThen (requireExactFields m
       [''teamGoalId'', ''role'', ''agentRunId'', ''terminalSessionRef'', ''piSessionId'',
        ''extensionInstanceId'', ''hostPid'', ''hostMode'', ''shellRunId'']) (\<lambda>_.
     andThen (requireLiteral (own_prop m ''hostMode'') ''tui'' Invalid_enum) (\<lambda>_.
     andThen (requireId (own_prop m ''teamGoalId'')) (\<lambda>teamGoalId.
     andThen (requireEnum (own_prop m ''role'') ROLES) (\<lambda>role.
     andThen (requireId (own_prop m ''agentRunId'')) (\<lambda>agentRunId.
     andThen (requireId (own_prop m ''terminalSessionRef'')) (\<lambda>terminalSessionRef.
     andThen (requireId (own_prop m ''piSessionId'')) (\<lambda>piSessionId.
     andThen (requireId (own_prop m ''extensionInstanceId'')) (\<lambda>extensionInstanceId.
     andThen (requirePositiveInt (own_prop m ''hostPid'') host_pid_max) (\<lambda>hostPid.
     andThen (requireId (own_prop m ''shellRunId'')) (\<lambda>shellRunId.
     Inr \<lparr>bh_teamGoalId = teamGoalId, bh_role = role, bh_agentRunId = agentRunId,
          bh_terminalSessionRef = terminalSessionRef, bh_piSessionId = piSessionId,
          bh_extensionInstanceId = extensionInstanceId, bh_hostPid = hostPid,
          bh_shellRunId = shellRunId\<rparr>)))))))))))"

definition bridge_hello_json :: "bridge_hello \<Rightarrow> obj" where [body_simps]:
  "bridge_hello_json b =
     [(js ''teamGoalId'', JStr (bh_teamGoalId b)), (js ''role'', JEnum ROLES (bh_role b)),
      (js ''agentRunId'', JStr (bh_agentRunId b)),
      (js ''terminalSessionRef'', JStr (bh_terminalSessionRef b)),
      (js ''piSessionId'', JStr (bh_piSessionId b)),
      (js ''extensionInstanceId'', JStr (bh_extensionInstanceId b)),
      (js ''hostPid'', JWhole (bh_hostPid b)), (js ''hostMode'', JStr (js ''tui'')),
      (js ''shellRunId'', JStr (bh_shellRunId b))]"

definition bridge_hello_ok :: "bridge_hello \<Rightarrow> bool" where [body_simps]:
  "bridge_hello_ok b \<longleftrightarrow>
     ID_RE (bh_teamGoalId b) \<and> ID_RE (bh_agentRunId b) \<and> ID_RE (bh_terminalSessionRef b) \<and>
     ID_RE (bh_piSessionId b) \<and> ID_RE (bh_extensionInstanceId b) \<and> ID_RE (bh_shellRunId b) \<and>
     1 \<le> bh_hostPid b \<and> bh_hostPid b \<le> host_pid_max"

lemma bridge_hello_sound: "validateBridgeHello v = Inr b \<Longrightarrow> bridge_hello_ok b"
  by (auto simp: validateBridgeHello_def bridge_hello_ok_def result_simps)

lemma bridge_hello_complete:
  "bridge_hello_ok b \<Longrightarrow> validateBridgeHello (Some (JObj (bridge_hello_json b))) = Inr b"
  by (simp add: validateBridgeHello_def body_simps result_simps exact_keys_iff add_mset_commute)

record assignment_ack =
  aa_assignmentId :: jstr
  aa_ack :: ack_status

definition validateAssignmentAck :: "json option \<Rightarrow> protocol_code + assignment_ack" where
  "validateAssignmentAck body =
     andThen (requireObject body) (\<lambda>m.
     andThen (requireExactFields m [''assignmentId'', ''ack'']) (\<lambda>_.
     andThen (requireId (own_prop m ''assignmentId'')) (\<lambda>assignmentId.
     andThen (requireEnum (own_prop m ''ack'') ACK_STATUSES) (\<lambda>ack.
     Inr \<lparr>aa_assignmentId = assignmentId, aa_ack = ack\<rparr>))))"

definition assignment_ack_json :: "assignment_ack \<Rightarrow> obj" where [body_simps]:
  "assignment_ack_json b =
     [(js ''assignmentId'', JStr (aa_assignmentId b)), (js ''ack'', JEnum ACK_STATUSES (aa_ack b))]"

definition assignment_ack_ok :: "assignment_ack \<Rightarrow> bool" where [body_simps]:
  "assignment_ack_ok b \<longleftrightarrow> ID_RE (aa_assignmentId b)"

lemma assignment_ack_sound: "validateAssignmentAck v = Inr b \<Longrightarrow> assignment_ack_ok b"
  by (auto simp: validateAssignmentAck_def assignment_ack_ok_def result_simps)

lemma assignment_ack_complete:
  "assignment_ack_ok b \<Longrightarrow> validateAssignmentAck (Some (JObj (assignment_ack_json b))) = Inr b"
  by (simp add: validateAssignmentAck_def body_simps result_simps exact_keys_iff add_mset_commute)

record bridge_event =
  be_eventId :: jstr
  be_sequence :: int
  be_eventType :: jstr
  be_payload :: obj

definition validateBridgeEvent :: "json option \<Rightarrow> protocol_code + bridge_event" where
  "validateBridgeEvent body =
     andThen (requireObject body) (\<lambda>m.
     andThen (requireExactFields m [''eventId'', ''sequence'', ''eventType'', ''payload'']) (\<lambda>_.
     andThen (requireObject (own_prop m ''payload'')) (\<lambda>payload.
     andThen (guardR (utf8Bytes (stringify (JObj payload)) \<le> eventPayload_limit) Frame_too_large) (\<lambda>_.
     andThen (requireId (own_prop m ''eventId'')) (\<lambda>eventId.
     andThen (requirePositiveInt (own_prop m ''sequence'') MAX_SAFE_INTEGER) (\<lambda>sequence.
     andThen (requireEnumEventType (own_prop m ''eventType'')) (\<lambda>eventType.
     Inr \<lparr>be_eventId = eventId, be_sequence = sequence, be_eventType = eventType,
          be_payload = payload\<rparr>)))))))"

definition bridge_event_json :: "bridge_event \<Rightarrow> obj" where [body_simps]:
  "bridge_event_json b =
     [(js ''eventId'', JStr (be_eventId b)), (js ''sequence'', JWhole (be_sequence b)),
      (js ''eventType'', JStr (be_eventType b)), (js ''payload'', JObj (be_payload b))]"

definition bridge_event_ok :: "bridge_event \<Rightarrow> bool" where [body_simps]:
  "bridge_event_ok b \<longleftrightarrow>
     ID_RE (be_eventId b) \<and> 1 \<le> be_sequence b \<and> be_sequence b \<le> MAX_SAFE_INTEGER \<and>
     EVENT_TYPE_RE (be_eventType b) \<and> utf8Bytes (stringify (JObj (be_payload b))) \<le> eventPayload_limit"

lemma bridge_event_sound: "validateBridgeEvent v = Inr b \<Longrightarrow> bridge_event_ok b"
  by (auto simp: validateBridgeEvent_def bridge_event_ok_def result_simps simp del: stringify.simps)

lemma bridge_event_complete:
  "bridge_event_ok b \<Longrightarrow> validateBridgeEvent (Some (JObj (bridge_event_json b))) = Inr b"
  by (simp add: validateBridgeEvent_def body_simps result_simps exact_keys_iff add_mset_commute
      del: stringify.simps)

record projection_hello =
  ph_teamGoalId :: jstr
  ph_clientId :: jstr
  ph_resumeAfter :: "int option"

definition validateProjectionHello :: "json option \<Rightarrow> protocol_code + projection_hello" where
  "validateProjectionHello body =
     andThen (requireObject body) (\<lambda>m.
     andThen (requireExactFields m [''teamGoalId'', ''clientId'', ''resumeAfter'']) (\<lambda>_.
     andThen (nullable requireNonNegativeInt (own_prop m ''resumeAfter'')) (\<lambda>resumeAfter.
     andThen (requireId (own_prop m ''teamGoalId'')) (\<lambda>teamGoalId.
     andThen (requireId (own_prop m ''clientId'')) (\<lambda>clientId.
     Inr \<lparr>ph_teamGoalId = teamGoalId, ph_clientId = clientId, ph_resumeAfter = resumeAfter\<rparr>)))))"

definition projection_hello_json :: "projection_hello \<Rightarrow> obj" where [body_simps]:
  "projection_hello_json b =
     [(js ''teamGoalId'', JStr (ph_teamGoalId b)), (js ''clientId'', JStr (ph_clientId b)),
      (js ''resumeAfter'', null_or JWhole (ph_resumeAfter b))]"

definition projection_hello_ok :: "projection_hello \<Rightarrow> bool" where [body_simps]:
  "projection_hello_ok b \<longleftrightarrow>
     ID_RE (ph_teamGoalId b) \<and> ID_RE (ph_clientId b) \<and>
     pred_option (\<lambda>n. 0 \<le> n \<and> n \<le> MAX_SAFE_INTEGER) (ph_resumeAfter b)"

lemma projection_hello_sound: "validateProjectionHello v = Inr b \<Longrightarrow> projection_hello_ok b"
  by (auto simp: validateProjectionHello_def projection_hello_ok_def result_simps)

lemma projection_hello_complete:
  "projection_hello_ok b \<Longrightarrow> validateProjectionHello (Some (JObj (projection_hello_json b))) = Inr b"
  by (cases "ph_resumeAfter b")
     (auto simp: validateProjectionHello_def body_simps result_simps exact_keys_iff add_mset_commute null_or_def)

section \<open>Runner-to-client frame bodies\<close>

record event_record =
  er_sequence :: int
  er_eventId :: jstr
  er_eventType :: jstr
  er_role :: "role option"
  er_payload :: obj
  er_createdAt :: jstr

definition validateEventRecord :: "json option \<Rightarrow> protocol_code + event_record" where
  "validateEventRecord v =
     andThen (requireObject v) (\<lambda>m.
     andThen (requireExactFields m
       [''sequence'', ''eventId'', ''eventType'', ''role'', ''payload'', ''createdAt'']) (\<lambda>_.
     andThen (requireObject (own_prop m ''payload'')) (\<lambda>payload.
     andThen (nullable (\<lambda>r. requireEnum r ROLES) (own_prop m ''role'')) (\<lambda>role.
     andThen (requireBoundedString (own_prop m ''createdAt'') 64) (\<lambda>createdAt.
     andThen (requirePositiveInt (own_prop m ''sequence'') MAX_SAFE_INTEGER) (\<lambda>sequence.
     andThen (requireId (own_prop m ''eventId'')) (\<lambda>eventId.
     andThen (requireEnumEventType (own_prop m ''eventType'')) (\<lambda>eventType.
     Inr \<lparr>er_sequence = sequence, er_eventId = eventId, er_eventType = eventType,
          er_role = role, er_payload = payload, er_createdAt = createdAt\<rparr>))))))))"

definition event_record_json :: "event_record \<Rightarrow> obj" where [body_simps]:
  "event_record_json b =
     [(js ''sequence'', JWhole (er_sequence b)), (js ''eventId'', JStr (er_eventId b)),
      (js ''eventType'', JStr (er_eventType b)), (js ''role'', null_or (JEnum ROLES) (er_role b)),
      (js ''payload'', JObj (er_payload b)), (js ''createdAt'', JStr (er_createdAt b))]"

definition event_record_ok :: "event_record \<Rightarrow> bool" where [body_simps]:
  "event_record_ok b \<longleftrightarrow>
     1 \<le> er_sequence b \<and> er_sequence b \<le> MAX_SAFE_INTEGER \<and> ID_RE (er_eventId b) \<and>
     EVENT_TYPE_RE (er_eventType b) \<and> 0 < length (er_createdAt b) \<and> length (er_createdAt b) \<le> 64"

lemma event_record_sound: "validateEventRecord v = Inr b \<Longrightarrow> event_record_ok b"
  by (auto simp: validateEventRecord_def event_record_ok_def result_simps)

lemma event_record_complete:
  "event_record_ok b \<Longrightarrow> validateEventRecord (Some (JObj (event_record_json b))) = Inr b"
  by (auto simp: validateEventRecord_def body_simps result_simps exact_keys_iff add_mset_commute)

record role_projection =
  rp_role :: role
  rp_agentRunId :: jstr
  rp_terminalSessionRef :: jstr
  rp_piSessionId :: jstr
  rp_extensionInstanceId :: jstr
  rp_hostPid :: int
  rp_shellRunId :: jstr
  rp_controlMode :: control_mode
  rp_agentState :: agent_state
  rp_assignmentState :: "assignment_state option"
  rp_nativeTerminalTitle :: jstr
  rp_piStatus :: jstr

definition validateRoleProjection :: "json option \<Rightarrow> protocol_code + role_projection" where
  "validateRoleProjection v =
     andThen (requireObject v) (\<lambda>m.
     andThen (requireExactFields m
       [''role'', ''agentRunId'', ''terminalSessionRef'', ''shellRunId'', ''piSessionId'',
        ''extensionInstanceId'', ''hostPid'', ''hostMode'', ''controlMode'', ''agentState'',
        ''assignmentState'', ''nativeTerminalTitle'', ''piStatus'']) (\<lambda>_.
     andThen (requireLiteral (own_prop m ''hostMode'') ''tui'' Invalid_enum) (\<lambda>_.
     andThen (nullable (\<lambda>a. requireEnum a ASSIGNMENT_STATES) (own_prop m ''assignmentState'')) (\<lambda>assignmentState.
     andThen (requireEnum (own_prop m ''role'') ROLES) (\<lambda>role.
     andThen (requireId (own_prop m ''agentRunId'')) (\<lambda>agentRunId.
     andThen (requireId (own_prop m ''terminalSessionRef'')) (\<lambda>terminalSessionRef.
     andThen (requireId (own_prop m ''shellRunId'')) (\<lambda>shellRunId.
     andThen (requireId (own_prop m ''piSessionId'')) (\<lambda>piSessionId.
     andThen (requireId (own_prop m ''extensionInstanceId'')) (\<lambda>extensionInstanceId.
     andThen (requirePositiveInt (own_prop m ''hostPid'') host_pid_max) (\<lambda>hostPid.
     andThen (requireEnum (own_prop m ''controlMode'') CONTROL_MODES) (\<lambda>controlMode.
     andThen (requireEnum (own_prop m ''agentState'') AGENT_STATES) (\<lambda>agentState.
     andThen (requireBoundedString (own_prop m ''nativeTerminalTitle'') label_limit) (\<lambda>nativeTerminalTitle.
     andThen (requireBoundedString (own_prop m ''piStatus'') label_limit) (\<lambda>piStatus.
     Inr \<lparr>rp_role = role, rp_agentRunId = agentRunId, rp_terminalSessionRef = terminalSessionRef,
          rp_piSessionId = piSessionId, rp_extensionInstanceId = extensionInstanceId,
          rp_hostPid = hostPid, rp_shellRunId = shellRunId, rp_controlMode = controlMode,
          rp_agentState = agentState, rp_assignmentState = assignmentState,
          rp_nativeTerminalTitle = nativeTerminalTitle, rp_piStatus = piStatus\<rparr>)))))))))))))))"

definition role_projection_json :: "role_projection \<Rightarrow> obj" where [body_simps]:
  "role_projection_json b =
     [(js ''role'', JEnum ROLES (rp_role b)), (js ''agentRunId'', JStr (rp_agentRunId b)),
      (js ''terminalSessionRef'', JStr (rp_terminalSessionRef b)),
      (js ''shellRunId'', JStr (rp_shellRunId b)), (js ''piSessionId'', JStr (rp_piSessionId b)),
      (js ''extensionInstanceId'', JStr (rp_extensionInstanceId b)),
      (js ''hostPid'', JWhole (rp_hostPid b)), (js ''hostMode'', JStr (js ''tui'')),
      (js ''controlMode'', JEnum CONTROL_MODES (rp_controlMode b)),
      (js ''agentState'', JEnum AGENT_STATES (rp_agentState b)),
      (js ''assignmentState'', null_or (JEnum ASSIGNMENT_STATES) (rp_assignmentState b)),
      (js ''nativeTerminalTitle'', JStr (rp_nativeTerminalTitle b)),
      (js ''piStatus'', JStr (rp_piStatus b))]"

definition role_projection_ok :: "role_projection \<Rightarrow> bool" where [body_simps]:
  "role_projection_ok b \<longleftrightarrow>
     ID_RE (rp_agentRunId b) \<and> ID_RE (rp_terminalSessionRef b) \<and> ID_RE (rp_shellRunId b) \<and>
     ID_RE (rp_piSessionId b) \<and> ID_RE (rp_extensionInstanceId b) \<and>
     1 \<le> rp_hostPid b \<and> rp_hostPid b \<le> host_pid_max \<and>
     0 < length (rp_nativeTerminalTitle b) \<and> length (rp_nativeTerminalTitle b) \<le> label_limit \<and>
     0 < length (rp_piStatus b) \<and> length (rp_piStatus b) \<le> label_limit"

lemma role_projection_sound: "validateRoleProjection v = Inr b \<Longrightarrow> role_projection_ok b"
  by (auto simp: validateRoleProjection_def role_projection_ok_def result_simps)

lemma role_projection_complete:
  "role_projection_ok b \<Longrightarrow> validateRoleProjection (Some (JObj (role_projection_json b))) = Inr b"
  by (auto simp: validateRoleProjection_def body_simps result_simps exact_keys_iff add_mset_commute)

end
