(* ===== verification/RunnerFrames.thy ===== *)
theory RunnerFrames
  imports Frames
begin

text \<open>
  The composite runner-to-client bodies of src/protocol.ts (snapshot, event page, hello
  acknowledgement, assignment, presentation update, protocol error) and the dispatch
  \<open>validateBodyForType\<close>.
\<close>

section \<open>Snapshot\<close>

record team_goal_value =
  tg_id :: jstr
  tg_goalText :: jstr
  tg_createdAt :: jstr
  tg_eventCursor :: int

record assignment_value =
  av_id :: jstr
  av_role :: role
  av_agentRunId :: jstr
  av_state :: assignment_state
  av_lastAckStatus :: "ack_status option"
  av_prompt :: jstr
  av_createdAt :: jstr
  av_updatedAt :: jstr

record journal_value =
  jv_requested :: journal_mode
  jv_effective :: jstr
  jv_sqliteVersion :: jstr

record snapshot_body =
  sn_cursor :: int
  sn_teamGoal :: team_goal_value
  sn_roles :: "role_projection list"
  sn_assignment :: "assignment_value option"
  sn_journal :: journal_value

definition snapshot_teamGoal :: "obj \<Rightarrow> protocol_code + team_goal_value" where
  "snapshot_teamGoal m =
     andThen (requireExactFields m [''id'', ''goalText'', ''createdAt'', ''eventCursor'']) (\<lambda>_.
     andThen (requireId (own_prop m ''id'')) (\<lambda>id.
     andThen (requireBoundedString (own_prop m ''goalText'') goalText_limit) (\<lambda>goalText.
     andThen (requireBoundedString (own_prop m ''createdAt'') 64) (\<lambda>createdAt.
     andThen (requireNonNegativeInt (own_prop m ''eventCursor'')) (\<lambda>eventCursor.
     Inr \<lparr>tg_id = id, tg_goalText = goalText, tg_createdAt = createdAt,
          tg_eventCursor = eventCursor\<rparr>)))))"

definition snapshot_assignment :: "json option \<Rightarrow> protocol_code + assignment_value" where
  "snapshot_assignment v =
     andThen (requireObject v) (\<lambda>m.
     andThen (requireExactFields m
       [''id'', ''role'', ''agentRunId'', ''state'', ''lastAckStatus'', ''prompt'', ''createdAt'',
        ''updatedAt'']) (\<lambda>_.
     andThen (nullable (\<lambda>a. requireEnum a ACK_STATUSES) (own_prop m ''lastAckStatus'')) (\<lambda>lastAckStatus.
     andThen (requireId (own_prop m ''id'')) (\<lambda>id.
     andThen (requireEnum (own_prop m ''role'') ROLES) (\<lambda>role.
     andThen (requireId (own_prop m ''agentRunId'')) (\<lambda>agentRunId.
     andThen (requireEnum (own_prop m ''state'') ASSIGNMENT_STATES) (\<lambda>state.
     andThen (requireBoundedString (own_prop m ''prompt'') prompt_limit) (\<lambda>prompt.
     andThen (requireBoundedString (own_prop m ''createdAt'') 64) (\<lambda>createdAt.
     andThen (requireBoundedString (own_prop m ''updatedAt'') 64) (\<lambda>updatedAt.
     Inr \<lparr>av_id = id, av_role = role, av_agentRunId = agentRunId, av_state = state,
          av_lastAckStatus = lastAckStatus, av_prompt = prompt, av_createdAt = createdAt,
          av_updatedAt = updatedAt\<rparr>))))))))))"

definition snapshot_journal :: "obj \<Rightarrow> protocol_code + journal_value" where
  "snapshot_journal m =
     andThen (requireExactFields m [''requested'', ''effective'', ''sqliteVersion'']) (\<lambda>_.
     andThen (requireEnum (own_prop m ''requested'') JOURNAL_MODES) (\<lambda>requested.
     andThen (requireBoundedString (own_prop m ''effective'') 32) (\<lambda>effective.
     andThen (requireBoundedString (own_prop m ''sqliteVersion'') 64) (\<lambda>sqliteVersion.
     Inr \<lparr>jv_requested = requested, jv_effective = effective, jv_sqliteVersion = sqliteVersion\<rparr>))))"

definition requireArray :: "json option \<Rightarrow> (nat \<Rightarrow> bool) \<Rightarrow> protocol_code + json list" where
  "requireArray v len_ok = (case array_of v of
     None \<Rightarrow> Inl Invalid_body
   | Some xs \<Rightarrow> if len_ok (length xs) then Inr xs else Inl Invalid_body)"

lemma requireArray_iff [result_simps]: "requireArray v p = Inr xs \<longleftrightarrow> v = Some (JArr xs) \<and> p (length xs)"
  by (auto simp: requireArray_def split: option.splits)

definition roles_unique :: "role_projection list \<Rightarrow> bool" where
  "roles_unique rs = (length (remdups (map rp_role rs)) = length ROLES)"

definition validateSnapshotBody :: "json option \<Rightarrow> protocol_code + snapshot_body" where
  "validateSnapshotBody body =
     andThen (requireObject body) (\<lambda>m.
     andThen (requireExactFields m [''cursor'', ''teamGoal'', ''roles'', ''assignment'', ''journal'']) (\<lambda>_.
     andThen (requireNonNegativeInt (own_prop m ''cursor'')) (\<lambda>cursor.
     andThen (requireObject (own_prop m ''teamGoal'')) (\<lambda>tg.
     andThen (snapshot_teamGoal tg) (\<lambda>teamGoal.
     andThen (guardR (tg_eventCursor teamGoal = cursor) Invalid_cursor) (\<lambda>_.
     andThen (requireArray (own_prop m ''roles'') (\<lambda>n. n = length ROLES)) (\<lambda>rs.
     andThen (mapR (\<lambda>r. validateRoleProjection (Some r)) rs) (\<lambda>roles.
     andThen (guardR (roles_unique roles) Invalid_body) (\<lambda>_.
     andThen (nullable snapshot_assignment (own_prop m ''assignment'')) (\<lambda>assignment.
     andThen (requireObject (own_prop m ''journal'')) (\<lambda>jm.
     andThen (snapshot_journal jm) (\<lambda>journal.
     Inr \<lparr>sn_cursor = cursor, sn_teamGoal = teamGoal, sn_roles = roles,
          sn_assignment = assignment, sn_journal = journal\<rparr>))))))))))))"

definition team_goal_json :: "team_goal_value \<Rightarrow> obj" where [body_simps]:
  "team_goal_json t =
     [(js ''id'', JStr (tg_id t)), (js ''goalText'', JStr (tg_goalText t)),
      (js ''createdAt'', JStr (tg_createdAt t)), (js ''eventCursor'', JWhole (tg_eventCursor t))]"

definition assignment_value_json :: "assignment_value \<Rightarrow> obj" where [body_simps]:
  "assignment_value_json a =
     [(js ''id'', JStr (av_id a)), (js ''role'', JEnum ROLES (av_role a)),
      (js ''agentRunId'', JStr (av_agentRunId a)),
      (js ''state'', JEnum ASSIGNMENT_STATES (av_state a)),
      (js ''lastAckStatus'', null_or (JEnum ACK_STATUSES) (av_lastAckStatus a)),
      (js ''prompt'', JStr (av_prompt a)), (js ''createdAt'', JStr (av_createdAt a)),
      (js ''updatedAt'', JStr (av_updatedAt a))]"

definition journal_json :: "journal_value \<Rightarrow> obj" where [body_simps]:
  "journal_json j =
     [(js ''requested'', JEnum JOURNAL_MODES (jv_requested j)),
      (js ''effective'', JStr (jv_effective j)), (js ''sqliteVersion'', JStr (jv_sqliteVersion j))]"

definition snapshot_json :: "snapshot_body \<Rightarrow> obj" where [body_simps]:
  "snapshot_json s =
     [(js ''cursor'', JWhole (sn_cursor s)), (js ''teamGoal'', JObj (team_goal_json (sn_teamGoal s))),
      (js ''roles'', JArr (map (\<lambda>r. JObj (role_projection_json r)) (sn_roles s))),
      (js ''assignment'', null_or (\<lambda>a. JObj (assignment_value_json a)) (sn_assignment s)),
      (js ''journal'', JObj (journal_json (sn_journal s)))]"

definition bounded_text :: "jstr \<Rightarrow> nat \<Rightarrow> bool" where
  "bounded_text s l = (0 < length s \<and> length s \<le> l)"

definition cursor_ok :: "int \<Rightarrow> bool" where
  "cursor_ok n = (0 \<le> n \<and> n \<le> MAX_SAFE_INTEGER)"

definition team_goal_ok :: "team_goal_value \<Rightarrow> bool" where
  "team_goal_ok t \<longleftrightarrow> ID_RE (tg_id t) \<and> bounded_text (tg_goalText t) goalText_limit \<and>
     bounded_text (tg_createdAt t) 64 \<and> cursor_ok (tg_eventCursor t)"

definition assignment_value_ok :: "assignment_value \<Rightarrow> bool" where
  "assignment_value_ok a \<longleftrightarrow> ID_RE (av_id a) \<and> ID_RE (av_agentRunId a) \<and>
     bounded_text (av_prompt a) prompt_limit \<and> bounded_text (av_createdAt a) 64 \<and>
     bounded_text (av_updatedAt a) 64"

definition journal_ok :: "journal_value \<Rightarrow> bool" where
  "journal_ok j \<longleftrightarrow> bounded_text (jv_effective j) 32 \<and> bounded_text (jv_sqliteVersion j) 64"

definition snapshot_ok :: "snapshot_body \<Rightarrow> bool" where
  "snapshot_ok s \<longleftrightarrow>
     cursor_ok (sn_cursor s) \<and> team_goal_ok (sn_teamGoal s) \<and>
     tg_eventCursor (sn_teamGoal s) = sn_cursor s \<and>
     length (sn_roles s) = length ROLES \<and> list_all role_projection_ok (sn_roles s) \<and>
     roles_unique (sn_roles s) \<and>
     (case sn_assignment s of None \<Rightarrow> True | Some a \<Rightarrow> assignment_value_ok a) \<and>
     journal_ok (sn_journal s)"

lemma team_goal_sound: "snapshot_teamGoal m = Inr t \<Longrightarrow> team_goal_ok t"
  by (auto simp: snapshot_teamGoal_def team_goal_ok_def bounded_text_def cursor_ok_def result_simps)

lemma team_goal_complete: "team_goal_ok t \<Longrightarrow> snapshot_teamGoal (team_goal_json t) = Inr t"
  by (auto simp: snapshot_teamGoal_def team_goal_ok_def bounded_text_def cursor_ok_def
      body_simps result_simps exact_keys_iff add_mset_commute)

lemma assignment_value_sound: "snapshot_assignment v = Inr a \<Longrightarrow> assignment_value_ok a"
  by (auto simp: snapshot_assignment_def assignment_value_ok_def bounded_text_def result_simps)

lemma assignment_value_complete:
  "assignment_value_ok a \<Longrightarrow> snapshot_assignment (Some (JObj (assignment_value_json a))) = Inr a"
  by (auto simp: snapshot_assignment_def assignment_value_ok_def bounded_text_def
      body_simps result_simps exact_keys_iff add_mset_commute)

lemma journal_sound: "snapshot_journal m = Inr j \<Longrightarrow> journal_ok j"
  by (auto simp: snapshot_journal_def journal_ok_def bounded_text_def result_simps)

lemma journal_complete: "journal_ok j \<Longrightarrow> snapshot_journal (journal_json j) = Inr j"
  by (auto simp: snapshot_journal_def journal_ok_def bounded_text_def
      body_simps result_simps exact_keys_iff add_mset_commute)

lemma snapshot_sound:
  assumes "validateSnapshotBody v = Inr s"
  shows "snapshot_ok s"
proof -
  from assms obtain m tg rs jm where
    c: "own_prop m ''cursor'' = Some (JWhole (sn_cursor s))" "cursor_ok (sn_cursor s)"
    and t: "snapshot_teamGoal tg = Inr (sn_teamGoal s)" "tg_eventCursor (sn_teamGoal s) = sn_cursor s"
    and r: "length rs = length ROLES" "mapR (\<lambda>r. validateRoleProjection (Some r)) rs = Inr (sn_roles s)"
      "roles_unique (sn_roles s)"
    and a: "nullable snapshot_assignment (own_prop m ''assignment'') = Inr (sn_assignment s)"
    and j: "snapshot_journal jm = Inr (sn_journal s)"
    unfolding validateSnapshotBody_def cursor_ok_def
    by (fastforce simp: requireObject_iff requireArray_iff andThen_Inr_iff guardR_Inr_iff
        requireExactFields_iff requireNonNegativeInt_iff)
  have "list_all role_projection_ok (sn_roles s)"
    using r(2) by (auto simp: list_all_iff dest!: mapR_Inr_set role_projection_sound)
  moreover have "case sn_assignment s of None \<Rightarrow> True | Some a \<Rightarrow> assignment_value_ok a"
    using a by (auto simp: nullable_iff dest: assignment_value_sound split: option.split)
  ultimately show ?thesis
    using c(2) t(2) r(1,3) team_goal_sound [OF t(1)] journal_sound [OF j] mapR_length [OF r(2)]
    by (simp add: snapshot_ok_def)
qed

lemma snapshot_complete:
  assumes ok: "snapshot_ok s"
  shows "validateSnapshotBody (Some (JObj (snapshot_json s))) = Inr s"
proof -
  have keys: "exact_keys (snapshot_json s) [''cursor'', ''teamGoal'', ''roles'', ''assignment'', ''journal'']"
    by (simp add: snapshot_json_def exact_keys_iff add_mset_commute)
  have p: "own_prop (snapshot_json s) ''cursor'' = Some (JWhole (sn_cursor s))"
    "own_prop (snapshot_json s) ''teamGoal'' = Some (JObj (team_goal_json (sn_teamGoal s)))"
    "own_prop (snapshot_json s) ''roles'' = Some (JArr (map (\<lambda>r. JObj (role_projection_json r)) (sn_roles s)))"
    "own_prop (snapshot_json s) ''assignment'' =
       Some (null_or (\<lambda>a. JObj (assignment_value_json a)) (sn_assignment s))"
    "own_prop (snapshot_json s) ''journal'' = Some (JObj (journal_json (sn_journal s)))"
    by (simp_all add: snapshot_json_def)
  have n: "requireNonNegativeInt (Some (JWhole (sn_cursor s))) = Inr (sn_cursor s)"
    using ok by (simp add: requireNonNegativeInt_iff snapshot_ok_def cursor_ok_def)
  have r: "mapR (\<lambda>r. validateRoleProjection (Some r)) (map (\<lambda>r. JObj (role_projection_json r)) (sn_roles s))
      = Inr (map (\<lambda>r. r) (sn_roles s))"
    using ok by (intro mapR_map) (simp add: role_projection_complete snapshot_ok_def list_all_iff)
  have a: "nullable snapshot_assignment (Some (null_or (\<lambda>a. JObj (assignment_value_json a)) (sn_assignment s)))
      = Inr (sn_assignment s)"
    using ok by (intro nullable_null_or) (simp add: assignment_value_complete snapshot_ok_def)
  have q: "requireArray (Some (JArr (map (\<lambda>r. JObj (role_projection_json r)) (sn_roles s)))) (\<lambda>n. n = length ROLES)
      = Inr (map (\<lambda>r. JObj (role_projection_json r)) (sn_roles s))"
    using ok by (simp add: requireArray_iff snapshot_ok_def)
  have "team_goal_ok (sn_teamGoal s)" "journal_ok (sn_journal s)" "tg_eventCursor (sn_teamGoal s) = sn_cursor s"
    "roles_unique (sn_roles s)" using ok by (simp_all add: snapshot_ok_def)
  with keys p n r a q show ?thesis
    by (simp add: validateSnapshotBody_def requireExactFields_def team_goal_complete journal_complete)
qed

section \<open>The other runner frames\<close>

record hello_ack =
  ha_connectionKind :: connection_kind
  ha_teamGoalId :: jstr
  ha_role :: "role option"

definition validateHelloAckBody :: "json option \<Rightarrow> protocol_code + hello_ack" where
  "validateHelloAckBody body =
     andThen (requireObject body) (\<lambda>m.
     andThen (requireExactFields m [''connectionKind'', ''teamGoalId'', ''role'']) (\<lambda>_.
     andThen (requireEnum (own_prop m ''connectionKind'') CONNECTION_KINDS) (\<lambda>kind.
     andThen (nullable (\<lambda>r. requireEnum r ROLES) (own_prop m ''role'')) (\<lambda>role.
     andThen (guardR ((kind = Bridge_kind) = (role \<noteq> None)) Invalid_body) (\<lambda>_.
     andThen (requireId (own_prop m ''teamGoalId'')) (\<lambda>teamGoalId.
     Inr \<lparr>ha_connectionKind = kind, ha_teamGoalId = teamGoalId, ha_role = role\<rparr>))))))"

definition hello_ack_json :: "hello_ack \<Rightarrow> obj" where [body_simps]:
  "hello_ack_json b =
     [(js ''connectionKind'', JEnum CONNECTION_KINDS (ha_connectionKind b)),
      (js ''teamGoalId'', JStr (ha_teamGoalId b)), (js ''role'', null_or (JEnum ROLES) (ha_role b))]"

definition hello_ack_ok :: "hello_ack \<Rightarrow> bool" where [body_simps]:
  "hello_ack_ok b \<longleftrightarrow>
     ((ha_connectionKind b = Bridge_kind) = (ha_role b \<noteq> None)) \<and> ID_RE (ha_teamGoalId b)"

lemma hello_ack_sound: "validateHelloAckBody v = Inr b \<Longrightarrow> hello_ack_ok b"
  by (auto simp: validateHelloAckBody_def hello_ack_ok_def result_simps)

lemma hello_ack_complete:
  "hello_ack_ok b \<Longrightarrow> validateHelloAckBody (Some (JObj (hello_ack_json b))) = Inr b"
  by (auto simp: validateHelloAckBody_def body_simps result_simps exact_keys_iff add_mset_commute)

record assignment_body =
  ab_assignmentId :: jstr
  ab_role :: role
  ab_agentRunId :: jstr
  ab_prompt :: jstr

definition validateAssignmentBody :: "json option \<Rightarrow> protocol_code + assignment_body" where
  "validateAssignmentBody body =
     andThen (requireObject body) (\<lambda>m.
     andThen (requireExactFields m [''assignmentId'', ''role'', ''agentRunId'', ''prompt'']) (\<lambda>_.
     andThen (requireId (own_prop m ''assignmentId'')) (\<lambda>assignmentId.
     andThen (requireEnum (own_prop m ''role'') ROLES) (\<lambda>role.
     andThen (requireId (own_prop m ''agentRunId'')) (\<lambda>agentRunId.
     andThen (requireBoundedString (own_prop m ''prompt'') prompt_limit) (\<lambda>prompt.
     Inr \<lparr>ab_assignmentId = assignmentId, ab_role = role, ab_agentRunId = agentRunId,
          ab_prompt = prompt\<rparr>))))))"

definition assignment_body_json :: "assignment_body \<Rightarrow> obj" where [body_simps]:
  "assignment_body_json b =
     [(js ''assignmentId'', JStr (ab_assignmentId b)), (js ''role'', JEnum ROLES (ab_role b)),
      (js ''agentRunId'', JStr (ab_agentRunId b)), (js ''prompt'', JStr (ab_prompt b))]"

definition assignment_body_ok :: "assignment_body \<Rightarrow> bool" where [body_simps]:
  "assignment_body_ok b \<longleftrightarrow> ID_RE (ab_assignmentId b) \<and> ID_RE (ab_agentRunId b) \<and>
     0 < length (ab_prompt b) \<and> length (ab_prompt b) \<le> prompt_limit"

lemma assignment_body_sound: "validateAssignmentBody v = Inr b \<Longrightarrow> assignment_body_ok b"
  by (auto simp: validateAssignmentBody_def assignment_body_ok_def result_simps)

lemma assignment_body_complete:
  "assignment_body_ok b \<Longrightarrow> validateAssignmentBody (Some (JObj (assignment_body_json b))) = Inr b"
  by (auto simp: validateAssignmentBody_def body_simps result_simps exact_keys_iff add_mset_commute)

record presentation_update =
  pu_role :: role
  pu_agentRunId :: jstr
  pu_eventCursor :: int
  pu_nativeTerminalTitle :: jstr
  pu_piStatus :: jstr

definition validatePresentationUpdateBody :: "json option \<Rightarrow> protocol_code + presentation_update" where
  "validatePresentationUpdateBody body =
     andThen (requireObject body) (\<lambda>m.
     andThen (requireExactFields m
       [''role'', ''agentRunId'', ''eventCursor'', ''nativeTerminalTitle'', ''piStatus'']) (\<lambda>_.
     andThen (requireEnum (own_prop m ''role'') ROLES) (\<lambda>role.
     andThen (requireId (own_prop m ''agentRunId'')) (\<lambda>agentRunId.
     andThen (requireNonNegativeInt (own_prop m ''eventCursor'')) (\<lambda>eventCursor.
     andThen (requireBoundedString (own_prop m ''nativeTerminalTitle'') label_limit) (\<lambda>title.
     andThen (requireBoundedString (own_prop m ''piStatus'') label_limit) (\<lambda>piStatus.
     Inr \<lparr>pu_role = role, pu_agentRunId = agentRunId, pu_eventCursor = eventCursor,
          pu_nativeTerminalTitle = title, pu_piStatus = piStatus\<rparr>)))))))"

definition presentation_update_json :: "presentation_update \<Rightarrow> obj" where [body_simps]:
  "presentation_update_json b =
     [(js ''role'', JEnum ROLES (pu_role b)), (js ''agentRunId'', JStr (pu_agentRunId b)),
      (js ''eventCursor'', JWhole (pu_eventCursor b)),
      (js ''nativeTerminalTitle'', JStr (pu_nativeTerminalTitle b)),
      (js ''piStatus'', JStr (pu_piStatus b))]"

definition presentation_update_ok :: "presentation_update \<Rightarrow> bool" where [body_simps]:
  "presentation_update_ok b \<longleftrightarrow> ID_RE (pu_agentRunId b) \<and>
     0 \<le> pu_eventCursor b \<and> pu_eventCursor b \<le> MAX_SAFE_INTEGER \<and>
     0 < length (pu_nativeTerminalTitle b) \<and> length (pu_nativeTerminalTitle b) \<le> label_limit \<and>
     0 < length (pu_piStatus b) \<and> length (pu_piStatus b) \<le> label_limit"

lemma presentation_update_sound: "validatePresentationUpdateBody v = Inr b \<Longrightarrow> presentation_update_ok b"
  by (auto simp: validatePresentationUpdateBody_def presentation_update_ok_def result_simps)

lemma presentation_update_complete:
  "presentation_update_ok b \<Longrightarrow>
   validatePresentationUpdateBody (Some (JObj (presentation_update_json b))) = Inr b"
  by (auto simp: validatePresentationUpdateBody_def body_simps result_simps exact_keys_iff add_mset_commute)

record event_page =
  ep_fromCursor :: int
  ep_toCursor :: int
  ep_events :: "event_record list"

text \<open>The loop over the events of a page: each sequence is the expected one.\<close>

fun contiguous :: "int \<Rightarrow> event_record list \<Rightarrow> bool" where
  "contiguous expected [] = True"
| "contiguous expected (e # es) = (er_sequence e = expected \<and> contiguous (expected + 1) es)"

definition page_end :: "int \<Rightarrow> event_record list \<Rightarrow> int" where
  "page_end fromCursor es = (if es = [] then fromCursor else er_sequence (last es))"

definition validateEventPageBody :: "json option \<Rightarrow> protocol_code + event_page" where
  "validateEventPageBody body =
     andThen (requireObject body) (\<lambda>m.
     andThen (requireExactFields m [''fromCursor'', ''toCursor'', ''events'']) (\<lambda>_.
     andThen (requireNonNegativeInt (own_prop m ''fromCursor'')) (\<lambda>fromCursor.
     andThen (requireNonNegativeInt (own_prop m ''toCursor'')) (\<lambda>toCursor.
     andThen (requireArray (own_prop m ''events'') (\<lambda>n. n \<le> MAX_EVENTS_PER_PAGE)) (\<lambda>vs.
     andThen (mapR (\<lambda>v. validateEventRecord (Some v)) vs) (\<lambda>events.
     andThen (guardR (contiguous (fromCursor + 1) events) Invalid_cursor) (\<lambda>_.
     andThen (guardR (toCursor = page_end fromCursor events) Invalid_cursor) (\<lambda>_.
     Inr \<lparr>ep_fromCursor = fromCursor, ep_toCursor = toCursor, ep_events = events\<rparr>))))))))"

definition event_page_json :: "event_page \<Rightarrow> obj" where [body_simps]:
  "event_page_json b =
     [(js ''fromCursor'', JWhole (ep_fromCursor b)), (js ''toCursor'', JWhole (ep_toCursor b)),
      (js ''events'', JArr (map (\<lambda>e. JObj (event_record_json e)) (ep_events b)))]"

definition event_page_ok :: "event_page \<Rightarrow> bool" where
  "event_page_ok b \<longleftrightarrow> cursor_ok (ep_fromCursor b) \<and> cursor_ok (ep_toCursor b) \<and>
     length (ep_events b) \<le> MAX_EVENTS_PER_PAGE \<and> list_all event_record_ok (ep_events b) \<and>
     contiguous (ep_fromCursor b + 1) (ep_events b) \<and>
     ep_toCursor b = page_end (ep_fromCursor b) (ep_events b)"

lemma event_page_sound: "validateEventPageBody v = Inr b \<Longrightarrow> event_page_ok b"
  by (auto simp: validateEventPageBody_def event_page_ok_def cursor_ok_def list_all_iff mapR_length
      requireObject_iff requireArray_iff andThen_Inr_iff guardR_Inr_iff
      requireExactFields_iff requireNonNegativeInt_iff dest: mapR_Inr_set event_record_sound)

lemma event_page_complete:
  assumes ok: "event_page_ok b"
  shows "validateEventPageBody (Some (JObj (event_page_json b))) = Inr b"
proof -
  have "mapR (\<lambda>v. validateEventRecord (Some v)) (map (\<lambda>e. JObj (event_record_json e)) (ep_events b))
      = Inr (map (\<lambda>e. e) (ep_events b))"
    using ok by (intro mapR_map) (simp add: event_record_complete event_page_ok_def list_all_iff)
  then show ?thesis
    using ok
    by (simp add: validateEventPageBody_def event_page_json_def event_page_ok_def cursor_ok_def
        andThen_Inr_iff requireObject_iff requireArray_iff guardR_Inr_iff requireExactFields_iff
        requireNonNegativeInt_iff exact_keys_iff add_mset_commute)
qed

record error_body =
  eb_code :: jstr
  eb_detail :: jstr

definition validateProtocolErrorBody :: "json option \<Rightarrow> protocol_code + error_body" where
  "validateProtocolErrorBody body =
     andThen (requireObject body) (\<lambda>m.
     andThen (requireExactFields m [''code'', ''detail'']) (\<lambda>_.
     andThen (requireBoundedString (own_prop m ''code'') 64) (\<lambda>code.
     andThen (requireBoundedString (own_prop m ''detail'') 1024) (\<lambda>detail.
     Inr \<lparr>eb_code = code, eb_detail = detail\<rparr>))))"

definition error_body_json :: "error_body \<Rightarrow> obj" where [body_simps]:
  "error_body_json b = [(js ''code'', JStr (eb_code b)), (js ''detail'', JStr (eb_detail b))]"

definition error_body_ok :: "error_body \<Rightarrow> bool" where [body_simps]:
  "error_body_ok b \<longleftrightarrow> 0 < length (eb_code b) \<and> length (eb_code b) \<le> 64 \<and>
     0 < length (eb_detail b) \<and> length (eb_detail b) \<le> 1024"

lemma error_body_sound: "validateProtocolErrorBody v = Inr b \<Longrightarrow> error_body_ok b"
  by (auto simp: validateProtocolErrorBody_def error_body_ok_def result_simps)

lemma error_body_complete:
  "error_body_ok b \<Longrightarrow> validateProtocolErrorBody (Some (JObj (error_body_json b))) = Inr b"
  by (auto simp: validateProtocolErrorBody_def body_simps result_simps exact_keys_iff add_mset_commute)

section \<open>Dispatch on the frame type\<close>

datatype frame_body =
    Bridge_hello bridge_hello
  | Bridge_assignment_ack assignment_ack
  | Bridge_event bridge_event
  | Projection_hello projection_hello
  | Hello_ack hello_ack
  | Snapshot snapshot_body
  | Assignment assignment_body
  | Presentation_update presentation_update
  | Event_page event_page
  | Event event_record
  | Protocol_error error_body

definition mapOk :: "('a \<Rightarrow> 'b) \<Rightarrow> 'e + 'a \<Rightarrow> 'e + 'b" where
  "mapOk f m = andThen m (\<lambda>x. Inr (f x))"

lemma mapOk_iff [result_simps]: "mapOk f m = Inr y \<longleftrightarrow> (\<exists>x. m = Inr x \<and> y = f x)"
  by (auto simp: mapOk_def result_simps)

lemma mapOk_simp [simp]: "mapOk f (Inr x) = Inr (f x)" "mapOk f (Inl e) = Inl e"
  by (simp_all add: mapOk_def)

definition validateBodyForType :: "jstr \<Rightarrow> json option \<Rightarrow> protocol_code + frame_body" where
  "validateBodyForType type body =
     (if type = js ''bridge.hello'' then mapOk Bridge_hello (validateBridgeHello body)
      else if type = js ''bridge.assignment_ack'' then mapOk Bridge_assignment_ack (validateAssignmentAck body)
      else if type = js ''bridge.event'' then mapOk Bridge_event (validateBridgeEvent body)
      else if type = js ''projection.hello'' then mapOk Projection_hello (validateProjectionHello body)
      else if type = js ''hello_ack'' then mapOk Hello_ack (validateHelloAckBody body)
      else if type = js ''snapshot'' then mapOk Snapshot (validateSnapshotBody body)
      else if type = js ''assignment'' then mapOk Assignment (validateAssignmentBody body)
      else if type = js ''presentation_update'' then mapOk Presentation_update (validatePresentationUpdateBody body)
      else if type = js ''event_page'' then mapOk Event_page (validateEventPageBody body)
      else if type = js ''event'' then mapOk Event (validateEventRecord body)
      else if type = js ''protocol_error'' then mapOk Protocol_error (validateProtocolErrorBody body)
      else Inl Unknown_frame_type)"

fun body_type :: "frame_body \<Rightarrow> jstr" where
  "body_type (Bridge_hello _) = js ''bridge.hello''"
| "body_type (Bridge_assignment_ack _) = js ''bridge.assignment_ack''"
| "body_type (Bridge_event _) = js ''bridge.event''"
| "body_type (Projection_hello _) = js ''projection.hello''"
| "body_type (Hello_ack _) = js ''hello_ack''"
| "body_type (Snapshot _) = js ''snapshot''"
| "body_type (Assignment _) = js ''assignment''"
| "body_type (Presentation_update _) = js ''presentation_update''"
| "body_type (Event_page _) = js ''event_page''"
| "body_type (Event _) = js ''event''"
| "body_type (Protocol_error _) = js ''protocol_error''"

fun body_json :: "frame_body \<Rightarrow> obj" where
  "body_json (Bridge_hello b) = bridge_hello_json b"
| "body_json (Bridge_assignment_ack b) = assignment_ack_json b"
| "body_json (Bridge_event b) = bridge_event_json b"
| "body_json (Projection_hello b) = projection_hello_json b"
| "body_json (Hello_ack b) = hello_ack_json b"
| "body_json (Snapshot b) = snapshot_json b"
| "body_json (Assignment b) = assignment_body_json b"
| "body_json (Presentation_update b) = presentation_update_json b"
| "body_json (Event_page b) = event_page_json b"
| "body_json (Event b) = event_record_json b"
| "body_json (Protocol_error b) = error_body_json b"

fun body_ok :: "frame_body \<Rightarrow> bool" where
  "body_ok (Bridge_hello b) = bridge_hello_ok b"
| "body_ok (Bridge_assignment_ack b) = assignment_ack_ok b"
| "body_ok (Bridge_event b) = bridge_event_ok b"
| "body_ok (Projection_hello b) = projection_hello_ok b"
| "body_ok (Hello_ack b) = hello_ack_ok b"
| "body_ok (Snapshot b) = snapshot_ok b"
| "body_ok (Assignment b) = assignment_body_ok b"
| "body_ok (Presentation_update b) = presentation_update_ok b"
| "body_ok (Event_page b) = event_page_ok b"
| "body_ok (Event b) = event_record_ok b"
| "body_ok (Protocol_error b) = error_body_ok b"

lemmas body_sound = bridge_hello_sound assignment_ack_sound bridge_event_sound projection_hello_sound
  hello_ack_sound snapshot_sound assignment_body_sound presentation_update_sound event_page_sound
  event_record_sound error_body_sound

lemmas body_complete = bridge_hello_complete assignment_ack_complete bridge_event_complete
  projection_hello_complete hello_ack_complete snapshot_complete assignment_body_complete
  presentation_update_complete event_page_complete event_record_complete error_body_complete

lemma validateBodyForType_sound:
  "validateBodyForType type v = Inr b \<Longrightarrow> type = body_type b \<and> body_ok b"
  unfolding validateBodyForType_def
  by (auto simp: mapOk_iff body_sound split: if_splits)

lemma validateBodyForType_complete:
  "body_ok b \<Longrightarrow> validateBodyForType (body_type b) (Some (JObj (body_json b))) = Inr b"
  by (cases b) (simp_all add: validateBodyForType_def body_complete)

end
