(* ===== verification/Presentation.thy ===== *)
theory Presentation
  imports RunnerFrames
begin

text \<open>
  src/presentation.ts: the label of a role derived from its control mode, its agent state
  and the state of its assignment, on the two surfaces (terminal title, Pi status).
\<close>

datatype presentation_state = P_managed | P_waiting | P_manual_takeover

fun display_name :: "role \<Rightarrow> jstr" where
  "display_name Coordinator = js ''Coordinator''"
| "display_name Builder = js ''Builder''"
| "display_name Reviewer = js ''Reviewer''"

fun presentation_text :: "presentation_state \<Rightarrow> jstr" where
  "presentation_text P_managed = js ''managed''"
| "presentation_text P_waiting = js ''waiting''"
| "presentation_text P_manual_takeover = js ''manual_takeover''"

definition derivePresentationState ::
    "control_mode \<Rightarrow> agent_state \<Rightarrow> assignment_state option \<Rightarrow> presentation_state" where
  "derivePresentationState controlMode agentState assignmentState =
     (if controlMode = Manual_takeover then P_manual_takeover
      else if agentState = Working \<and> assignmentState = Some Active then P_managed
      else P_waiting)"

text \<open>The separators are an em dash (U+2014) in the title and a middle dot (U+00B7) in the status.\<close>

definition renderNativeTerminalTitle :: "role \<Rightarrow> presentation_state \<Rightarrow> jstr" where
  "renderNativeTerminalTitle r s =
     js ''Omarchestra '' @ [8212] @ js '' '' @ display_name r @ js '' '' @ [8212] @ js '' '' @ presentation_text s"

definition renderPiStatus :: "role \<Rightarrow> presentation_state \<Rightarrow> jstr" where
  "renderPiStatus r s = display_name r @ js '' '' @ [183] @ js '' '' @ presentation_text s"

record role_labels =
  nativeTerminalTitle :: jstr
  piStatus :: jstr

definition presentationLabels ::
    "role \<Rightarrow> control_mode \<Rightarrow> agent_state \<Rightarrow> assignment_state option \<Rightarrow> role_labels" where
  "presentationLabels r c a t =
     (let s = derivePresentationState c a t
      in \<lparr>nativeTerminalTitle = renderNativeTerminalTitle r s, piStatus = renderPiStatus r s\<rparr>)"

definition buildPresentationUpdate :: "role \<Rightarrow> jstr \<Rightarrow> int \<Rightarrow> role_labels \<Rightarrow> presentation_update" where
  "buildPresentationUpdate r agentRunId eventCursor labels =
     \<lparr>pu_role = r, pu_agentRunId = agentRunId, pu_eventCursor = eventCursor,
      pu_nativeTerminalTitle = nativeTerminalTitle labels, pu_piStatus = piStatus labels\<rparr>"

lemma renderPiStatus_inject [simp]:
  "renderPiStatus r s = renderPiStatus r' s' \<longleftrightarrow> r = r' \<and> s = s'"
  by (cases r; cases r'; cases s; cases s') (simp_all add: renderPiStatus_def js_def)

lemma renderNativeTerminalTitle_inject [simp]:
  "renderNativeTerminalTitle r s = renderNativeTerminalTitle r' s' \<longleftrightarrow> r = r' \<and> s = s'"
  by (cases r; cases r'; cases s; cases s') (simp_all add: renderNativeTerminalTitle_def js_def)

lemma labels_bounded:
  "0 < length (renderPiStatus r s)" "length (renderPiStatus r s) \<le> label_limit"
  "0 < length (renderNativeTerminalTitle r s)" "length (renderNativeTerminalTitle r s) \<le> label_limit"
  by (cases r; cases s; simp add: renderPiStatus_def renderNativeTerminalTitle_def label_limit_def)+

lemma presentationLabels_sel [simp]:
  "nativeTerminalTitle (presentationLabels r c a t) = renderNativeTerminalTitle r (derivePresentationState c a t)"
  "piStatus (presentationLabels r c a t) = renderPiStatus r (derivePresentationState c a t)"
  by (simp_all add: presentationLabels_def Let_def)

end
