(* ===== verification/Store.thy ===== *)
theory Store
  imports Presentation
begin

text \<open>
  src/store.ts: the tables of the SQLite database with the constraints of its schema, the
  explicit immediate transactions, and the reads and writes the domain uses. A statement of
  the source is a function on the tables; a violated constraint is an error value. The
  values the code takes from outside (random event identifiers, the clock, a lock held by
  another process) are fields of the store. The filesystem checks of \<open>ensureStateDirectory\<close>
  and the file permissions are not modelled.
\<close>

section \<open>Rows, tables, state\<close>

record goal_row =
  g_id :: jstr
  g_goal_text :: jstr
  g_event_cursor :: int
  g_created_at :: jstr

text \<open>The column \<open>host_mode\<close> is the constant \<open>'tui'\<close> (type and CHECK) and is left out.\<close>

record binding_row =
  b_team_goal_id :: jstr
  b_role :: role
  b_agent_run_id :: jstr
  b_terminal_session_ref :: jstr
  b_shell_run_id :: jstr
  b_pi_session_id :: jstr
  b_extension_instance_id :: jstr
  b_host_pid :: int
  b_control_mode :: control_mode
  b_agent_state :: agent_state
  b_last_source_sequence :: int
  b_native_terminal_title :: jstr
  b_pi_status :: jstr

record assignment_row =
  a_id :: jstr
  a_team_goal_id :: jstr
  a_role :: role
  a_agent_run_id :: jstr
  a_prompt :: jstr
  a_state :: assignment_state
  a_accepted_extension_instance_id :: "jstr option"
  a_last_ack_status :: "ack_status option"
  a_created_at :: jstr
  a_updated_at :: jstr

record event_row =
  e_sequence :: int
  e_event_id :: jstr
  e_team_goal_id :: jstr
  e_role :: "role option"
  e_event_type :: jstr
  e_source_extension_instance_id :: "jstr option"
  e_source_event_id :: "jstr option"
  e_source_sequence :: "int option"
  e_payload_json :: jstr
  e_created_at :: jstr

text \<open>\<open>last_sequence\<close> is the AUTOINCREMENT counter of the table \<open>events\<close>.\<close>

record database =
  goals :: "goal_row list"
  bindings :: "binding_row list"
  assignments :: "assignment_row list"
  events :: "event_row list"
  last_sequence :: int

text \<open>What other processes and the disk do to one transaction of this store.\<close>

datatype transaction_fault = No_fault | Begin_fails | Commit_fails

record store =
  db :: database
  inTransaction :: bool
  journal :: journal_value
  faults :: "transaction_fault list"
  random_ids :: "nat \<Rightarrow> jstr"
  ids_drawn :: nat
  clock :: "nat \<Rightarrow> jstr"
  clock_reads :: nat

record role_identity =
  ri_role :: role
  ri_agentRunId :: jstr
  ri_terminalSessionRef :: jstr
  ri_shellRunId :: jstr
  ri_piSessionId :: jstr
  ri_extensionInstanceId :: jstr
  ri_hostPid :: int

record assignment_config =
  ac_id :: jstr
  ac_role :: role
  ac_agentRunId :: jstr
  ac_prompt :: jstr

record bootstrap_config =
  bc_teamGoalId :: jstr
  bc_goalText :: jstr
  bc_roles :: "role_identity list"
  bc_assignment :: assignment_config

record insert_event_input =
  ie_teamGoalId :: jstr
  ie_role :: "role option"
  ie_eventType :: jstr
  ie_sourceExtensionInstanceId :: "jstr option"
  ie_sourceEventId :: "jstr option"
  ie_sourceSequence :: "int option"
  ie_payload :: obj

record binding_patch =
  bp_controlMode :: "control_mode option"
  bp_agentState :: "agent_state option"
  bp_lastSourceSequence :: "int option"
  bp_nativeTerminalTitle :: "jstr option"
  bp_piStatus :: "jstr option"

text \<open>
  \<open>ap_accepted\<close> is \<open>None\<close> when the patch has no such field, \<open>Some x\<close> when it sets the column
  to \<open>x\<close>.
\<close>

record assignment_patch =
  ap_state :: "assignment_state option"
  ap_accepted :: "jstr option option"
  ap_lastAckStatus :: "ack_status option"

section \<open>Computations on the store\<close>

datatype failure =
    Nested_transaction
  | Database_busy
  | Commit_failed
  | Outside_transaction
  | Constraint_violation
  | No_role_binding
  | Unknown_assignment
  | Assignment_disappeared
  | Event_payload_too_large
  | Missing_initial_labels
  | Bad_payload_json
  | Bootstrap_mismatch
  | Identity_mismatch
  | Assignment_not_pending
  | Assignment_not_authorized
  | Assignment_not_accepted
  | Team_goal_missing
  | History_missing

type_synonym 'a tx = "store \<Rightarrow> (failure + 'a) \<times> store"

definition ret :: "'a \<Rightarrow> 'a tx" where "ret x s = (Inr x, s)"
definition throw :: "failure \<Rightarrow> 'a tx" where "throw e s = (Inl e, s)"
definition gets :: "(store \<Rightarrow> 'a) \<Rightarrow> 'a tx" where "gets f s = (Inr (f s), s)"

definition bind_tx :: "'a tx \<Rightarrow> ('a \<Rightarrow> 'b tx) \<Rightarrow> 'b tx" where
  "bind_tx m f s = (case m s of (Inl e, s') \<Rightarrow> (Inl e, s') | (Inr x, s') \<Rightarrow> f x s')"

definition require_tx :: "bool \<Rightarrow> failure \<Rightarrow> unit tx" where
  "require_tx b e = (if b then ret () else throw e)"

definition update_db :: "(database \<Rightarrow> database) \<Rightarrow> unit tx" where
  "update_db f s = (Inr (), s\<lparr>db := f (db s)\<rparr>)"

definition draw_id :: "jstr tx" where
  "draw_id s = (Inr (random_ids s (ids_drawn s)), s\<lparr>ids_drawn := Suc (ids_drawn s)\<rparr>)"

definition read_clock :: "jstr tx" where
  "read_clock s = (Inr (clock s (clock_reads s)), s\<lparr>clock_reads := Suc (clock_reads s)\<rparr>)"

text \<open>
  The list \<open>faults\<close> says what happens to the next transactions, one entry for each; beyond its end
  they are undisturbed. \<open>Begin_fails\<close>: another process holds the write lock until the
  \<open>busy_timeout\<close> of five seconds is over, so \<open>BEGIN IMMEDIATE\<close> throws; a lock that is released
  earlier only delays the call and is \<open>No_fault\<close>. \<open>Commit_fails\<close>: \<open>COMMIT\<close> throws.
  \<open>BEGIN IMMEDIATE\<close> runs after the flag is set and outside the \<open>try\<close>: when it throws the flag
  stays set. An error of the body or of \<open>COMMIT\<close> rolls the tables back; identifiers drawn and clock
  readings are spent.
\<close>

definition next_fault :: "store \<Rightarrow> transaction_fault" where
  "next_fault s = (case faults s of [] \<Rightarrow> No_fault | f # _ \<Rightarrow> f)"

definition withImmediateTransaction :: "'a tx \<Rightarrow> 'a tx" where
  "withImmediateTransaction f s =
     (if inTransaction s then (Inl Nested_transaction, s)
      else if next_fault s = Begin_fails then (Inl Database_busy, s\<lparr>inTransaction := True, faults := tl (faults s)\<rparr>)
      else case f (s\<lparr>inTransaction := True, faults := tl (faults s)\<rparr>) of
             (Inr x, s') \<Rightarrow>
               if next_fault s = Commit_fails then (Inl Commit_failed, s'\<lparr>inTransaction := False, db := db s\<rparr>)
               else (Inr x, s'\<lparr>inTransaction := False\<rparr>)
           | (Inl e, s') \<Rightarrow> (Inl e, s'\<lparr>inTransaction := False, db := db s\<rparr>))"

definition assertInTransaction :: "unit tx" where
  "assertInTransaction s = require_tx (inTransaction s) Outside_transaction s"

section \<open>Reads\<close>

definition first_by :: "('a \<Rightarrow> jstr) \<Rightarrow> 'a list \<Rightarrow> 'a option" where
  "first_by f xs = (case sort_key f xs of [] \<Rightarrow> None | x # _ \<Rightarrow> Some x)"

definition getGoal :: "store \<Rightarrow> goal_row option" where
  "getGoal s = first_by g_created_at (goals (db s))"

fun role_rank :: "role \<Rightarrow> nat" where
  "role_rank Coordinator = 0"
| "role_rank Builder = 1"
| "role_rank Reviewer = 2"

definition getBindings :: "store \<Rightarrow> binding_row list" where
  "getBindings s = sort_key (\<lambda>b. role_rank (b_role b)) (bindings (db s))"

definition find_binding :: "jstr \<Rightarrow> role \<Rightarrow> database \<Rightarrow> binding_row option" where
  "find_binding g r d = List.find (\<lambda>b. b_team_goal_id b = g \<and> b_role b = r) (bindings d)"

definition getBinding :: "jstr \<Rightarrow> role \<Rightarrow> binding_row tx" where
  "getBinding g r s =
     (case find_binding g r (db s) of None \<Rightarrow> throw No_role_binding s | Some b \<Rightarrow> ret b s)"

definition getAssignments :: "store \<Rightarrow> assignment_row list" where
  "getAssignments s = sort_key a_created_at (assignments (db s))"

definition find_assignment :: "jstr \<Rightarrow> database \<Rightarrow> assignment_row option" where
  "find_assignment i d = List.find (\<lambda>a. a_id a = i) (assignments d)"

definition getAssignmentById :: "jstr \<Rightarrow> store \<Rightarrow> assignment_row option" where
  "getAssignmentById i s = find_assignment i (db s)"

text \<open>\<open>ORDER BY created_at DESC LIMIT 1\<close>; every assignment is in one of the three listed states.\<close>

definition getActiveAssignmentForRole :: "jstr \<Rightarrow> role \<Rightarrow> store \<Rightarrow> assignment_row option" where
  "getActiveAssignmentForRole g r s =
     (case rev (sort_key a_created_at
              (rev (filter (\<lambda>a. a_team_goal_id a = g \<and> a_role a = r
                 \<and> a_state a \<in> {Pending, Active, Needs_reconciliation}) (assignments (db s))))) of
        [] \<Rightarrow> None | a # _ \<Rightarrow> Some a)"

definition rowToEventRecord :: "event_row \<Rightarrow> failure + event_record" where
  "rowToEventRecord row =
     (case object_of (parse_json (e_payload_json row)) of
        None \<Rightarrow> Inl Bad_payload_json
      | Some p \<Rightarrow> Inr \<lparr>er_sequence = e_sequence row, er_eventId = e_event_id row,
                      er_eventType = e_event_type row, er_role = e_role row, er_payload = p,
                      er_createdAt = e_created_at row\<rparr>)"

definition getEventsAfter :: "int \<Rightarrow> int \<Rightarrow> event_record list tx" where
  "getEventsAfter cursor limit s =
     (let boundedLimit = min (max 1 limit) 256;
          rows = take (nat boundedLimit)
            (sort_key e_sequence (filter (\<lambda>e. cursor < e_sequence e) (events (db s))))
      in (mapR rowToEventRecord rows, s))"

definition getAllEvents :: "event_record list tx" where
  "getAllEvents s = (mapR rowToEventRecord (sort_key e_sequence (events (db s))), s)"

definition countBridgeConnectedEvents :: "jstr \<Rightarrow> role \<Rightarrow> store \<Rightarrow> nat" where
  "countBridgeConnectedEvents g r s =
     length (filter (\<lambda>e. e_team_goal_id e = g \<and> e_role e = Some r
                       \<and> e_event_type e = js ''bridge_connected'') (events (db s)))"

section \<open>Transactional writes\<close>

definition advance_cursor :: "jstr \<Rightarrow> int \<Rightarrow> goal_row \<Rightarrow> goal_row" where
  "advance_cursor g n row =
     (if g_id row = g \<and> g_event_cursor row < n then row\<lparr>g_event_cursor := n\<rparr> else row)"

text \<open>UNIQUE (source extension, source event): rows with a NULL in either column never clash.\<close>

definition source_clash :: "event_row \<Rightarrow> event_row \<Rightarrow> bool" where
  "source_clash x y \<longleftrightarrow>
     e_source_extension_instance_id x \<noteq> None \<and> e_source_event_id x \<noteq> None \<and>
     e_source_extension_instance_id x = e_source_extension_instance_id y \<and>
     e_source_event_id x = e_source_event_id y"

definition event_insertable :: "event_row \<Rightarrow> database \<Rightarrow> bool" where
  "event_insertable row d \<longleftrightarrow>
     e_team_goal_id row \<in> set (map g_id (goals d)) \<and>
     e_event_id row \<notin> set (map e_event_id (events d)) \<and>
     list_all (\<lambda>e. \<not> source_clash row e) (events d)"

definition add_event :: "event_row \<Rightarrow> database \<Rightarrow> database" where
  "add_event row d =
     d\<lparr>events := events d @ [row], last_sequence := e_sequence row,
       goals := map (advance_cursor (e_team_goal_id row) (e_sequence row)) (goals d)\<rparr>"

definition event_row_of :: "insert_event_input \<Rightarrow> int \<Rightarrow> jstr \<Rightarrow> jstr \<Rightarrow> event_row" where
  "event_row_of input sequence eventId now =
     \<lparr>e_sequence = sequence, e_event_id = eventId,
      e_team_goal_id = ie_teamGoalId input, e_role = ie_role input,
      e_event_type = ie_eventType input,
      e_source_extension_instance_id = ie_sourceExtensionInstanceId input,
      e_source_event_id = ie_sourceEventId input,
      e_source_sequence = ie_sourceSequence input,
      e_payload_json = stringify (JObj (ie_payload input)), e_created_at = now\<rparr>"

definition insertEventTx :: "insert_event_input \<Rightarrow> int tx" where
  "insertEventTx input =
     bind_tx assertInTransaction (\<lambda>_.
     bind_tx (require_tx (utf8Bytes (stringify (JObj (ie_payload input))) \<le> eventPayload_limit)
                Event_payload_too_large) (\<lambda>_.
     bind_tx draw_id (\<lambda>eventId.
     bind_tx read_clock (\<lambda>now.
     bind_tx (gets (\<lambda>s. last_sequence (db s) + 1)) (\<lambda>sequence.
     let row = event_row_of input sequence eventId now
     in bind_tx (gets (\<lambda>s. event_insertable row (db s))) (\<lambda>ok.
        bind_tx (require_tx ok Constraint_violation) (\<lambda>_.
        bind_tx (update_db (add_event row)) (\<lambda>_.
        ret sequence))))))))"

definition source_event_exists :: "jstr \<Rightarrow> jstr \<Rightarrow> database \<Rightarrow> bool" where
  "source_event_exists x i d =
     list_ex (\<lambda>e. e_source_extension_instance_id e = Some x \<and> e_source_event_id e = Some i) (events d)"

definition sourceEventExistsTx :: "jstr \<Rightarrow> jstr \<Rightarrow> bool tx" where
  "sourceEventExistsTx x i =
     bind_tx assertInTransaction (\<lambda>_. gets (\<lambda>s. source_event_exists x i (db s)))"

definition or_else :: "'a option \<Rightarrow> 'a \<Rightarrow> 'a" where
  "or_else x d = (case x of None \<Rightarrow> d | Some y \<Rightarrow> y)"

definition patch_binding :: "binding_patch \<Rightarrow> binding_row \<Rightarrow> binding_row" where
  "patch_binding p b =
     b\<lparr>b_control_mode := or_else (bp_controlMode p) (b_control_mode b),
       b_agent_state := or_else (bp_agentState p) (b_agent_state b),
       b_last_source_sequence := or_else (bp_lastSourceSequence p) (b_last_source_sequence b),
       b_native_terminal_title := or_else (bp_nativeTerminalTitle p) (b_native_terminal_title b),
       b_pi_status := or_else (bp_piStatus p) (b_pi_status b)\<rparr>"

text \<open>The five columns that \<open>UPDATE role_bindings\<close> sets; all others are never written again.\<close>

definition write_binding :: "binding_row \<Rightarrow> binding_row \<Rightarrow> binding_row" where
  "write_binding new b =
     b\<lparr>b_control_mode := b_control_mode new, b_agent_state := b_agent_state new,
       b_last_source_sequence := b_last_source_sequence new,
       b_native_terminal_title := b_native_terminal_title new, b_pi_status := b_pi_status new\<rparr>"

definition set_binding :: "jstr \<Rightarrow> role \<Rightarrow> binding_row \<Rightarrow> database \<Rightarrow> database" where
  "set_binding g r new d =
     d\<lparr>bindings := map (\<lambda>b. if b_team_goal_id b = g \<and> b_role b = r then write_binding new b else b)
                      (bindings d)\<rparr>"

definition updateBindingTx :: "jstr \<Rightarrow> role \<Rightarrow> binding_patch \<Rightarrow> binding_row tx" where
  "updateBindingTx g r p =
     bind_tx assertInTransaction (\<lambda>_.
     bind_tx (getBinding g r) (\<lambda>current.
     let new = patch_binding p current
     in bind_tx (require_tx (0 \<le> b_last_source_sequence new) Constraint_violation) (\<lambda>_.
        bind_tx (update_db (set_binding g r new)) (\<lambda>_.
        getBinding g r))))"

definition patch_assignment :: "assignment_patch \<Rightarrow> jstr \<Rightarrow> assignment_row \<Rightarrow> assignment_row" where
  "patch_assignment p now a =
     a\<lparr>a_state := or_else (ap_state p) (a_state a),
       a_accepted_extension_instance_id :=
         or_else (ap_accepted p) (a_accepted_extension_instance_id a),
       a_last_ack_status :=
         (case ap_lastAckStatus p of None \<Rightarrow> a_last_ack_status a | Some k \<Rightarrow> Some k),
       a_updated_at := now\<rparr>"

definition set_assignment :: "jstr \<Rightarrow> assignment_row \<Rightarrow> database \<Rightarrow> database" where
  "set_assignment i new d =
     d\<lparr>assignments := map (\<lambda>a. if a_id a = i
        then a\<lparr>a_state := a_state new,
               a_accepted_extension_instance_id := a_accepted_extension_instance_id new,
               a_last_ack_status := a_last_ack_status new, a_updated_at := a_updated_at new\<rparr>
        else a) (assignments d)\<rparr>"

definition updateAssignmentTx :: "jstr \<Rightarrow> assignment_patch \<Rightarrow> assignment_row tx" where
  "updateAssignmentTx i p =
     bind_tx assertInTransaction (\<lambda>_.
     bind_tx (gets (getAssignmentById i)) (\<lambda>found.
     case found of
       None \<Rightarrow> throw Unknown_assignment
     | Some current \<Rightarrow>
         bind_tx read_clock (\<lambda>now.
         bind_tx (update_db (set_assignment i (patch_assignment p now current))) (\<lambda>_.
         bind_tx (gets (getAssignmentById i)) (\<lambda>updated.
         case updated of None \<Rightarrow> throw Assignment_disappeared | Some a \<Rightarrow> ret a)))))"

definition binding_insertable :: "binding_row \<Rightarrow> database \<Rightarrow> bool" where
  "binding_insertable b d \<longleftrightarrow>
     b_team_goal_id b \<in> set (map g_id (goals d)) \<and> 0 < b_host_pid b \<and>
     list_all (\<lambda>c. \<not> (b_team_goal_id c = b_team_goal_id b \<and> b_role c = b_role b)
       \<and> b_agent_run_id c \<noteq> b_agent_run_id b
       \<and> b_terminal_session_ref c \<noteq> b_terminal_session_ref b
       \<and> b_shell_run_id c \<noteq> b_shell_run_id b
       \<and> b_pi_session_id c \<noteq> b_pi_session_id b
       \<and> b_extension_instance_id c \<noteq> b_extension_instance_id b) (bindings d)"

definition assignment_insertable :: "assignment_row \<Rightarrow> database \<Rightarrow> bool" where
  "assignment_insertable a d \<longleftrightarrow>
     a_team_goal_id a \<in> set (map g_id (goals d)) \<and> a_role a = Builder \<and>
     a_id a \<notin> set (map a_id (assignments d))"

definition initial_binding :: "jstr \<Rightarrow> role_identity \<Rightarrow> role_labels \<Rightarrow> binding_row" where
  "initial_binding g i l =
     \<lparr>b_team_goal_id = g, b_role = ri_role i, b_agent_run_id = ri_agentRunId i,
      b_terminal_session_ref = ri_terminalSessionRef i, b_shell_run_id = ri_shellRunId i,
      b_pi_session_id = ri_piSessionId i, b_extension_instance_id = ri_extensionInstanceId i,
      b_host_pid = ri_hostPid i, b_control_mode = Managed, b_agent_state = Waiting,
      b_last_source_sequence = 0, b_native_terminal_title = nativeTerminalTitle l,
      b_pi_status = piStatus l\<rparr>"

definition insert_binding :: "binding_row \<Rightarrow> unit tx" where
  "insert_binding b =
     bind_tx (gets (\<lambda>s. binding_insertable b (db s))) (\<lambda>ok.
     bind_tx (require_tx ok Constraint_violation) (\<lambda>_.
     update_db (\<lambda>d. d\<lparr>bindings := bindings d @ [b]\<rparr>)))"

fun insert_bindings :: "jstr \<Rightarrow> (role \<Rightarrow> role_labels option) \<Rightarrow> role_identity list \<Rightarrow> unit tx" where
  "insert_bindings g labels [] = ret ()"
| "insert_bindings g labels (i # is) =
     (case labels (ri_role i) of
        None \<Rightarrow> throw Missing_initial_labels
      | Some l \<Rightarrow> bind_tx (insert_binding (initial_binding g i l)) (\<lambda>_. insert_bindings g labels is))"

definition bootstrapTx :: "bootstrap_config \<Rightarrow> (role \<Rightarrow> role_labels option) \<Rightarrow> unit tx" where
  "bootstrapTx config labels =
     bind_tx assertInTransaction (\<lambda>_.
     bind_tx read_clock (\<lambda>now.
     bind_tx (gets (\<lambda>s. bc_teamGoalId config \<notin> set (map g_id (goals (db s))))) (\<lambda>fresh.
     bind_tx (require_tx fresh Constraint_violation) (\<lambda>_.
     bind_tx (update_db (\<lambda>d. d\<lparr>goals := goals d @
       [\<lparr>g_id = bc_teamGoalId config, g_goal_text = bc_goalText config, g_event_cursor = 0,
         g_created_at = now\<rparr>]\<rparr>)) (\<lambda>_.
     bind_tx (insert_bindings (bc_teamGoalId config) labels (bc_roles config)) (\<lambda>_.
     let a = bc_assignment config;
         row = \<lparr>a_id = ac_id a, a_team_goal_id = bc_teamGoalId config, a_role = ac_role a,
                a_agent_run_id = ac_agentRunId a, a_prompt = ac_prompt a, a_state = Pending,
                a_accepted_extension_instance_id = None, a_last_ack_status = None,
                a_created_at = now, a_updated_at = now\<rparr>
     in bind_tx (gets (\<lambda>s. assignment_insertable row (db s))) (\<lambda>ok.
        bind_tx (require_tx ok Constraint_violation) (\<lambda>_.
        update_db (\<lambda>d. d\<lparr>assignments := assignments d @ [row]\<rparr>)))))))))"

section \<open>Weakest preconditions\<close>

text \<open>
  \<open>wp m Q E s\<close>: from \<open>s\<close> the computation either returns and \<open>Q\<close> holds of the value and the
  state, or throws and \<open>E\<close> holds of the failure and the state. Its rules are equations, so
  one calculation serves partial correctness (\<open>E\<close> true), success (\<open>E\<close> false) and rollback.
\<close>

named_theorems wp_simps \<open>weakest preconditions of the transactional computations\<close>

definition wp :: "'a tx \<Rightarrow> ('a \<Rightarrow> store \<Rightarrow> bool) \<Rightarrow> (failure \<Rightarrow> store \<Rightarrow> bool) \<Rightarrow> store \<Rightarrow> bool" where
  "wp m Q E s = (case m s of (Inr x, s') \<Rightarrow> Q x s' | (Inl e, s') \<Rightarrow> E e s')"

lemma wp_basic [wp_simps]:
  "wp (ret x) Q E s = Q x s"
  "wp (throw e) Q E s = E e s"
  "wp (gets f) R E s = R (f s) s"
  "wp (update_db h) U E s = U () (s\<lparr>db := h (db s)\<rparr>)"
  "wp draw_id J E s = J (random_ids s (ids_drawn s)) (s\<lparr>ids_drawn := Suc (ids_drawn s)\<rparr>)"
  "wp read_clock J E s = J (clock s (clock_reads s)) (s\<lparr>clock_reads := Suc (clock_reads s)\<rparr>)"
  by (simp_all add: wp_def ret_def throw_def gets_def update_db_def draw_id_def read_clock_def)

lemma wp_bind [wp_simps]: "wp (bind_tx m f) Q E s = wp m (\<lambda>x. wp (f x) Q E) E s"
  by (auto simp: wp_def bind_tx_def split: prod.split sum.split)

lemma wp_require [wp_simps]: "wp (require_tx b e) Q E s = (if b then Q () s else E e s)"
  by (simp add: require_tx_def wp_basic)

lemma wp_assert [wp_simps]:
  "wp assertInTransaction Q E s = (if inTransaction s then Q () s else E Outside_transaction s)"
  by (simp add: wp_def assertInTransaction_def require_tx_def ret_def throw_def)

lemma wp_getBinding [wp_simps]:
  "wp (getBinding g r) Q E s =
     (case find_binding g r (db s) of None \<Rightarrow> E No_role_binding s | Some b \<Rightarrow> Q b s)"
  by (simp add: wp_def getBinding_def ret_def throw_def split: option.split)

lemma wp_transaction [wp_simps]:
  "wp (withImmediateTransaction m) Q E s =
     (if inTransaction s then E Nested_transaction s
      else if next_fault s = Begin_fails then E Database_busy (s\<lparr>inTransaction := True, faults := tl (faults s)\<rparr>)
      else wp m (\<lambda>x s'. if next_fault s = Commit_fails then E Commit_failed (s'\<lparr>inTransaction := False, db := db s\<rparr>)
                        else Q x (s'\<lparr>inTransaction := False\<rparr>))
                (\<lambda>e s'. E e (s'\<lparr>inTransaction := False, db := db s\<rparr>)) (s\<lparr>inTransaction := True, faults := tl (faults s)\<rparr>))"
  by (auto simp: wp_def withImmediateTransaction_def split: prod.split sum.split)

lemma next_fault_Nil: "faults s = [] \<Longrightarrow> next_fault s = No_fault"
  by (simp add: next_fault_def)

lemma undisturbed: "\<not> inTransaction s \<Longrightarrow> faults s = [] \<Longrightarrow> s\<lparr>inTransaction := False, faults := []\<rparr> = s"
  by (cases s) simp

lemma wp_faulty:
  "next_fault s \<noteq> No_fault \<Longrightarrow> (\<And>e s'. db s' = db s \<Longrightarrow> E e s') \<Longrightarrow> wp (withImmediateTransaction m) Q E s"
  by (cases "next_fault s") (auto simp: wp_def withImmediateTransaction_def split: prod.split sum.split)

lemma wp_mono: "wp m Q E s \<Longrightarrow> (\<And>x s. Q x s \<Longrightarrow> Q' x s) \<Longrightarrow> (\<And>e s. E e s \<Longrightarrow> E' e s) \<Longrightarrow> wp m Q' E' s"
  by (auto simp: wp_def split: prod.splits sum.splits)

lemma wp_conj: "wp m (\<lambda>x s. Q x s \<and> Q' x s) (\<lambda>e s. E e s \<and> E' e s) s = (wp m Q E s \<and> wp m Q' E' s)"
  by (auto simp: wp_def split: prod.splits sum.splits)

lemma wp_result: "wp m (\<lambda>x s'. m s = (Inr x, s')) (\<lambda>e s'. m s = (Inl e, s')) s"
  by (auto simp: wp_def split: prod.splits sum.splits)

lemma wp_returned: "wp m Q E s \<Longrightarrow> m s = (Inr x, s') \<Longrightarrow> Q x s'"
  by (simp add: wp_def)

lemma wp_thrown: "wp m Q E s \<Longrightarrow> m s = (Inl e, s') \<Longrightarrow> E e s'"
  by (simp add: wp_def)

lemma wp_final: "wp m (\<lambda>_ s'. P s') (\<lambda>_ s'. P s') s \<longleftrightarrow> P (snd (m s))"
  by (auto simp: wp_def split: prod.splits sum.splits)

definition next_row :: "insert_event_input \<Rightarrow> store \<Rightarrow> event_row" where
  "next_row input s =
     event_row_of input (last_sequence (db s) + 1) (random_ids s (ids_drawn s)) (clock s (clock_reads s))"

lemma wp_insertEventTx [wp_simps]:
  "wp (insertEventTx input) Q E s =
     (if \<not> inTransaction s then E Outside_transaction s
      else if eventPayload_limit < utf8Bytes (stringify (JObj (ie_payload input)))
      then E Event_payload_too_large s
      else let s' = s\<lparr>ids_drawn := Suc (ids_drawn s), clock_reads := Suc (clock_reads s)\<rparr>
           in if event_insertable (next_row input s) (db s)
              then Q (last_sequence (db s) + 1) (s'\<lparr>db := add_event (next_row input s) (db s)\<rparr>)
              else E Constraint_violation s')"
  by (auto simp: insertEventTx_def wp_simps Let_def next_row_def not_less)

lemma wp_sourceEventExistsTx [wp_simps]:
  "wp (sourceEventExistsTx x i) Q E s =
     (if inTransaction s then Q (source_event_exists x i (db s)) s else E Outside_transaction s)"
  by (simp add: sourceEventExistsTx_def wp_simps)

lemma find_map_same:
  "(\<And>x. P (f x) = P x) \<Longrightarrow> List.find P (map f xs) = map_option f (List.find P xs)"
  by (induction xs) auto

lemma find_binding_set:
  "find_binding g r (set_binding g r new d) = map_option (write_binding new) (find_binding g r d)"
proof -
  have "find_binding g r (set_binding g r new d) =
      map_option (\<lambda>b. if b_team_goal_id b = g \<and> b_role b = r then write_binding new b else b) (find_binding g r d)"
    unfolding find_binding_def set_binding_def
    by (simp, rule find_map_same) (simp add: write_binding_def)
  then show ?thesis
    by (cases "find_binding g r d") (auto simp: find_binding_def dest!: find_Some_in)
qed

lemma wp_updateBindingTx [wp_simps]:
  "wp (updateBindingTx g r p) Q E s =
     (if \<not> inTransaction s then E Outside_transaction s
      else case find_binding g r (db s) of
        None \<Rightarrow> E No_role_binding s
      | Some b \<Rightarrow>
          if 0 \<le> b_last_source_sequence (patch_binding p b)
          then Q (patch_binding p b) (s\<lparr>db := set_binding g r (patch_binding p b) (db s)\<rparr>)
          else E Constraint_violation s)"
  by (auto simp: updateBindingTx_def wp_simps Let_def find_binding_set write_binding_def
      patch_binding_def split: option.split)

lemma find_assignment_set:
  "find_assignment i d = Some a \<Longrightarrow>
   find_assignment i (set_assignment i (patch_assignment p now a) d) = Some (patch_assignment p now a)"
proof -
  assume a: "find_assignment i d = Some a"
  have "find_assignment i (set_assignment i (patch_assignment p now a) d) =
      map_option (\<lambda>x. if a_id x = i then x\<lparr>a_state := a_state (patch_assignment p now a),
               a_accepted_extension_instance_id := a_accepted_extension_instance_id (patch_assignment p now a),
               a_last_ack_status := a_last_ack_status (patch_assignment p now a),
               a_updated_at := a_updated_at (patch_assignment p now a)\<rparr> else x) (find_assignment i d)"
    unfolding find_assignment_def set_assignment_def
    by (simp, rule find_map_same) simp
  with a show ?thesis
    by (auto simp: find_assignment_def patch_assignment_def dest!: find_Some_in)
qed

lemma wp_updateAssignmentTx [wp_simps]:
  "wp (updateAssignmentTx i p) Q E s =
     (if \<not> inTransaction s then E Outside_transaction s
      else case find_assignment i (db s) of
        None \<Rightarrow> E Unknown_assignment s
      | Some a \<Rightarrow>
          let new = patch_assignment p (clock s (clock_reads s)) a
          in Q new (s\<lparr>clock_reads := Suc (clock_reads s), db := set_assignment i new (db s)\<rparr>))"
  by (auto simp: updateAssignmentTx_def wp_simps Let_def getAssignmentById_def find_assignment_set
      split: option.split)

end
