(* ===== verification/Domain.thy ===== *)
theory Domain
  imports Store
begin

text \<open>
  src/domain.ts: the state transitions of the runner, each inside one immediate
  transaction on the tables of \<open>Store\<close>. A method of the class is a computation \<open>'a tx\<close>;
  what it throws is a \<open>failure\<close>. \<open>domain_op\<close> and \<open>run_ops\<close> are the sequences of calls a
  runner makes on one store; \<open>Other_process\<close> sets what will happen to the next
  transactions, also to the second one of a call that makes two.
\<close>

record transition_result =
  tr_changed :: bool
  tr_duplicate :: bool
  tr_stale :: bool
  tr_eventSequences :: "int list"
  tr_labels :: role_labels
  tr_eventCursor :: int

section \<open>Bootstrap\<close>

definition identity_mismatch :: "binding_row list \<Rightarrow> role_identity \<Rightarrow> bool" where
  "identity_mismatch bs i =
     (case List.find (\<lambda>b. b_role b = ri_role i) bs of
        None \<Rightarrow> True
      | Some b \<Rightarrow> b_agent_run_id b \<noteq> ri_agentRunId i
          \<or> b_terminal_session_ref b \<noteq> ri_terminalSessionRef i
          \<or> b_shell_run_id b \<noteq> ri_shellRunId i
          \<or> b_pi_session_id b \<noteq> ri_piSessionId i
          \<or> b_extension_instance_id b \<noteq> ri_extensionInstanceId i
          \<or> b_host_pid b \<noteq> ri_hostPid i)"

definition existingGoalMismatch :: "store \<Rightarrow> bootstrap_config \<Rightarrow> bool" where
  "existingGoalMismatch s config =
     (case getGoal s of
        None \<Rightarrow> True
      | Some g \<Rightarrow>
          g_id g \<noteq> bc_teamGoalId config \<or> g_goal_text g \<noteq> bc_goalText config
          \<or> length (getBindings s) \<noteq> length (bc_roles config)
          \<or> list_ex (identity_mismatch (getBindings s)) (bc_roles config)
          \<or> (case getAssignments s of
               [a] \<Rightarrow> a_id a \<noteq> ac_id (bc_assignment config)
                 \<or> a_role a \<noteq> ac_role (bc_assignment config)
                 \<or> a_agent_run_id a \<noteq> ac_agentRunId (bc_assignment config)
                 \<or> a_prompt a \<noteq> ac_prompt (bc_assignment config)
             | _ \<Rightarrow> True))"

definition initial_labels :: "bootstrap_config \<Rightarrow> role \<Rightarrow> role_labels option" where
  "initial_labels config =
     map_of (map (\<lambda>i. (ri_role i, presentationLabels (ri_role i) Managed Waiting None)) (bc_roles config))"

definition bootstrap_event :: "bootstrap_config \<Rightarrow> insert_event_input" where
  "bootstrap_event config =
     \<lparr>ie_teamGoalId = bc_teamGoalId config, ie_role = None, ie_eventType = js ''goal_bootstrapped'',
      ie_sourceExtensionInstanceId = None, ie_sourceEventId = None, ie_sourceSequence = None,
      ie_payload = [(js ''teamGoalId'', JStr (bc_teamGoalId config)),
                    (js ''roles'', JArr (map (\<lambda>i. JEnum ROLES (ri_role i)) (bc_roles config)))]\<rparr>"

definition bootstrapIfNeeded :: "bootstrap_config \<Rightarrow> bool tx" where
  "bootstrapIfNeeded config =
     bind_tx (gets getGoal) (\<lambda>existing.
     case existing of
       None \<Rightarrow>
         bind_tx (withImmediateTransaction
           (bind_tx (bootstrapTx config (initial_labels config)) (\<lambda>_.
            insertEventTx (bootstrap_event config)))) (\<lambda>_. ret True)
     | Some _ \<Rightarrow>
         bind_tx (gets (\<lambda>s. existingGoalMismatch s config)) (\<lambda>mismatch.
         bind_tx (require_tx (\<not> mismatch) Bootstrap_mismatch) (\<lambda>_. ret False)))"

section \<open>Snapshot\<close>

definition role_value :: "store \<Rightarrow> jstr \<Rightarrow> binding_row \<Rightarrow> role_projection" where
  "role_value s goalId b =
     \<lparr>rp_role = b_role b, rp_agentRunId = b_agent_run_id b,
      rp_terminalSessionRef = b_terminal_session_ref b, rp_piSessionId = b_pi_session_id b,
      rp_extensionInstanceId = b_extension_instance_id b, rp_hostPid = b_host_pid b,
      rp_shellRunId = b_shell_run_id b, rp_controlMode = b_control_mode b,
      rp_agentState = b_agent_state b,
      rp_assignmentState = map_option a_state (getActiveAssignmentForRole goalId (b_role b) s),
      rp_nativeTerminalTitle = b_native_terminal_title b, rp_piStatus = b_pi_status b\<rparr>"

definition assignment_row_value :: "assignment_row \<Rightarrow> assignment_value" where
  "assignment_row_value a =
     \<lparr>av_id = a_id a, av_role = a_role a, av_agentRunId = a_agent_run_id a, av_state = a_state a,
      av_lastAckStatus = a_last_ack_status a, av_prompt = a_prompt a,
      av_createdAt = a_created_at a, av_updatedAt = a_updated_at a\<rparr>"

definition snapshotTx :: "snapshot_body tx" where
  "snapshotTx =
     bind_tx (gets getGoal) (\<lambda>found.
     case found of
       None \<Rightarrow> throw Team_goal_missing
     | Some g \<Rightarrow> gets (\<lambda>s.
         \<lparr>sn_cursor = g_event_cursor g,
          sn_teamGoal = \<lparr>tg_id = g_id g, tg_goalText = g_goal_text g,
                         tg_createdAt = g_created_at g, tg_eventCursor = g_event_cursor g\<rparr>,
          sn_roles = map (role_value s (g_id g)) (getBindings s),
          sn_assignment = (if getAssignments s = [] then None
                           else Some (assignment_row_value (last (getAssignments s)))),
          sn_journal = journal s\<rparr>))"

definition snapshot :: "snapshot_body tx" where
  "snapshot = withImmediateTransaction snapshotTx"

section \<open>Bridge handshake\<close>

record handshake_result =
  hr_reconnected :: bool
  hr_snapshot :: snapshot_body
  hr_labels :: role_labels
  hr_eventCursor :: int

definition tuple_matches :: "binding_row \<Rightarrow> bridge_hello \<Rightarrow> bool" where
  "tuple_matches b h \<longleftrightarrow>
     b_agent_run_id b = bh_agentRunId h \<and> b_terminal_session_ref b = bh_terminalSessionRef h \<and>
     b_shell_run_id b = bh_shellRunId h \<and> b_pi_session_id b = bh_piSessionId h \<and>
     b_extension_instance_id b = bh_extensionInstanceId h \<and> b_host_pid b = bh_hostPid h"

definition binding_labels :: "binding_row \<Rightarrow> role_labels" where
  "binding_labels b = \<lparr>nativeTerminalTitle = b_native_terminal_title b, piStatus = b_pi_status b\<rparr>"

text \<open>\<open>goal === null ? sequence : goal.event_cursor\<close>.\<close>

definition cursor_or :: "int \<Rightarrow> store \<Rightarrow> int" where
  "cursor_or n s = (case getGoal s of None \<Rightarrow> n | Some g \<Rightarrow> g_event_cursor g)"

definition connected_event :: "bridge_hello \<Rightarrow> bool \<Rightarrow> insert_event_input" where
  "connected_event h reconnected =
     \<lparr>ie_teamGoalId = bh_teamGoalId h, ie_role = Some (bh_role h),
      ie_eventType = js ''bridge_connected'',
      ie_sourceExtensionInstanceId = Some (bh_extensionInstanceId h),
      ie_sourceEventId = None, ie_sourceSequence = None,
      ie_payload = [(js ''role'', JEnum ROLES (bh_role h)),
                    (js ''agentRunId'', JStr (bh_agentRunId h)),
                    (js ''shellRunId'', JStr (bh_shellRunId h)),
                    (js ''reconnected'', JBool reconnected)]\<rparr>"

definition bridgeHandshake :: "bridge_hello \<Rightarrow> handshake_result tx" where
  "bridgeHandshake h =
     bind_tx (getBinding (bh_teamGoalId h) (bh_role h)) (\<lambda>binding.
     bind_tx (require_tx (tuple_matches binding h) Identity_mismatch) (\<lambda>_.
     bind_tx (withImmediateTransaction
       (bind_tx (gets (countBridgeConnectedEvents (bh_teamGoalId h) (bh_role h))) (\<lambda>prior.
        bind_tx (insertEventTx (connected_event h (0 < prior))) (\<lambda>sequence.
        bind_tx (gets (cursor_or sequence)) (\<lambda>cursor. ret (0 < prior, cursor)))))) (\<lambda>(reconnected, cursor).
     bind_tx snapshot (\<lambda>snap.
     ret \<lparr>hr_reconnected = reconnected, hr_snapshot = snap, hr_labels = binding_labels binding,
          hr_eventCursor = cursor\<rparr>))))"

section \<open>Assignment acknowledgements\<close>

definition authorizedAssignment :: "jstr \<Rightarrow> role \<Rightarrow> jstr \<Rightarrow> bool \<Rightarrow> assignment_row tx" where
  "authorizedAssignment assignmentId r x requireAccepted =
     bind_tx (gets (getAssignmentById assignmentId)) (\<lambda>found.
     case found of
       None \<Rightarrow> throw Unknown_assignment
     | Some a \<Rightarrow>
         bind_tx (getBinding (a_team_goal_id a) r) (\<lambda>b.
         bind_tx (require_tx (a_role a = r \<and> a_agent_run_id a = b_agent_run_id b
                              \<and> b_extension_instance_id b = x) Assignment_not_authorized) (\<lambda>_.
         bind_tx (require_tx (requireAccepted \<longrightarrow>
             a_state a = Active \<and> a_accepted_extension_instance_id a = Some x) Assignment_not_accepted) (\<lambda>_.
         ret a))))"

definition authorizeAssignmentAcknowledgement :: "jstr \<Rightarrow> role \<Rightarrow> jstr \<Rightarrow> unit tx" where
  "authorizeAssignmentAcknowledgement assignmentId r x =
     bind_tx (authorizedAssignment assignmentId r x False) (\<lambda>_. ret ())"

definition ack_event :: "jstr \<Rightarrow> role \<Rightarrow> string \<Rightarrow> jstr \<Rightarrow> jstr \<Rightarrow> string \<Rightarrow> insert_event_input" where
  "ack_event goalId r eventType x assignmentId ack =
     \<lparr>ie_teamGoalId = goalId, ie_role = Some r, ie_eventType = js eventType,
      ie_sourceExtensionInstanceId = Some x, ie_sourceEventId = None, ie_sourceSequence = None,
      ie_payload = [(js ''assignmentId'', JStr assignmentId), (js ''role'', JEnum ROLES r),
                    (js ''ack'', JStr (js ack))]\<rparr>"

definition acceptAssignment :: "jstr \<Rightarrow> role \<Rightarrow> jstr \<Rightarrow> transition_result tx" where
  "acceptAssignment assignmentId r x =
     bind_tx (authorizedAssignment assignmentId r x False) (\<lambda>assignment.
     bind_tx (require_tx (a_state assignment = Pending) Assignment_not_pending) (\<lambda>_.
     withImmediateTransaction
       (bind_tx (updateAssignmentTx assignmentId
           \<lparr>ap_state = Some Active, ap_accepted = Some (Some x), ap_lastAckStatus = Some Accepted\<rparr>) (\<lambda>updated.
        bind_tx (getBinding (a_team_goal_id updated) (a_role updated)) (\<lambda>before.
        let labels = presentationLabels (a_role updated) (b_control_mode before) Working (Some Active)
        in bind_tx (updateBindingTx (a_team_goal_id updated) (a_role updated)
             \<lparr>bp_controlMode = None, bp_agentState = Some Working, bp_lastSourceSequence = None,
              bp_nativeTerminalTitle = Some (nativeTerminalTitle labels),
              bp_piStatus = Some (piStatus labels)\<rparr>) (\<lambda>_.
           bind_tx (insertEventTx (ack_event (a_team_goal_id updated) (a_role updated)
             ''assignment_accepted'' x assignmentId ''accepted'')) (\<lambda>sequence.
           bind_tx (gets (cursor_or sequence)) (\<lambda>cursor.
           ret \<lparr>tr_changed = True, tr_duplicate = False, tr_stale = False,
                tr_eventSequences = [sequence], tr_labels = labels, tr_eventCursor = cursor\<rparr>))))))))"

definition recordDuplicateAck :: "jstr \<Rightarrow> role \<Rightarrow> jstr \<Rightarrow> transition_result tx" where
  "recordDuplicateAck assignmentId r x =
     bind_tx (authorizedAssignment assignmentId r x True) (\<lambda>assignment.
     withImmediateTransaction
       (bind_tx (updateAssignmentTx assignmentId
           \<lparr>ap_state = None, ap_accepted = None, ap_lastAckStatus = Some Duplicate\<rparr>) (\<lambda>_.
        bind_tx (insertEventTx (ack_event (a_team_goal_id assignment) (a_role assignment)
             ''assignment_duplicate_acknowledged'' x assignmentId ''duplicate'')) (\<lambda>sequence.
        bind_tx (gets (cursor_or sequence)) (\<lambda>cursor.
        bind_tx (getBinding (a_team_goal_id assignment) (a_role assignment)) (\<lambda>binding.
        ret \<lparr>tr_changed = False, tr_duplicate = True, tr_stale = False,
             tr_eventSequences = [sequence], tr_labels = binding_labels binding,
             tr_eventCursor = cursor\<rparr>))))))"

section \<open>Events of a bridge\<close>

text \<open>The answer to a replayed or reordered source event: nothing is written.\<close>

definition unchanged_result :: "bool \<Rightarrow> binding_row \<Rightarrow> transition_result tx" where
  "unchanged_result duplicate binding =
     bind_tx (gets (cursor_or 0)) (\<lambda>cursor.
     ret \<lparr>tr_changed = False, tr_duplicate = duplicate, tr_stale = \<not> duplicate,
          tr_eventSequences = [], tr_labels = binding_labels binding, tr_eventCursor = cursor\<rparr>)"

text \<open>The literal \<open>{ role, ...payload }\<close>.\<close>

definition role_and :: "role \<Rightarrow> obj \<Rightarrow> obj" where
  "role_and r payload =
     fold (\<lambda>e. obj_put (fst e) (snd e)) payload [(js ''role'', JEnum ROLES r)]"

definition bridge_event_input :: "jstr \<Rightarrow> role \<Rightarrow> jstr \<Rightarrow> bridge_event \<Rightarrow> insert_event_input" where
  "bridge_event_input goalId r x event =
     \<lparr>ie_teamGoalId = goalId, ie_role = Some r, ie_eventType = be_eventType event,
      ie_sourceExtensionInstanceId = Some x, ie_sourceEventId = Some (be_eventId event),
      ie_sourceSequence = Some (be_sequence event), ie_payload = role_and r (be_payload event)\<rparr>"

definition recordBridgeEvent :: "jstr \<Rightarrow> role \<Rightarrow> jstr \<Rightarrow> bridge_event \<Rightarrow> transition_result tx" where
  "recordBridgeEvent goalId r x event =
     bind_tx (getBinding goalId r) (\<lambda>binding.
     withImmediateTransaction
       (bind_tx (sourceEventExistsTx x (be_eventId event)) (\<lambda>seen.
        if seen then unchanged_result True binding
        else if be_sequence event \<le> b_last_source_sequence binding then unchanged_result False binding
        else
          bind_tx (insertEventTx (bridge_event_input goalId r x event)) (\<lambda>sequence.
          bind_tx (updateBindingTx goalId r
            \<lparr>bp_controlMode = None, bp_agentState = None,
             bp_lastSourceSequence = Some (be_sequence event),
             bp_nativeTerminalTitle = None, bp_piStatus = None\<rparr>) (\<lambda>_.
          bind_tx (gets (cursor_or sequence)) (\<lambda>cursor.
          ret \<lparr>tr_changed = True, tr_duplicate = False, tr_stale = False,
               tr_eventSequences = [sequence], tr_labels = binding_labels binding,
               tr_eventCursor = cursor\<rparr>))))))"

definition human_input_event :: "jstr \<Rightarrow> role \<Rightarrow> jstr \<Rightarrow> bridge_event \<Rightarrow> insert_event_input" where
  "human_input_event goalId r x event =
     \<lparr>ie_teamGoalId = goalId, ie_role = Some r, ie_eventType = js ''human_input_submitted'',
      ie_sourceExtensionInstanceId = Some x, ie_sourceEventId = Some (be_eventId event),
      ie_sourceSequence = Some (be_sequence event),
      ie_payload =
        [(js ''role'', JEnum ROLES r),
         (js ''inputSource'',
            (case own_prop (be_payload event) ''inputSource'' of
               None \<Rightarrow> JStr (js ''interactive'')
             | Some v \<Rightarrow> if v = JNull then JStr (js ''interactive'') else v)),
         (js ''charCount'',
            (case own_prop (be_payload event) ''charCount'' of
               Some (JNum n) \<Rightarrow> JNum n
             | _ \<Rightarrow> JNull))]\<rparr>"

definition takeover_event ::
    "jstr \<Rightarrow> role \<Rightarrow> jstr \<Rightarrow> control_mode \<Rightarrow> jstr option \<Rightarrow> assignment_state option \<Rightarrow> insert_event_input" where
  "takeover_event goalId r x from_mode assignmentId assignmentState =
     \<lparr>ie_teamGoalId = goalId, ie_role = Some r, ie_eventType = js ''manual_takeover'',
      ie_sourceExtensionInstanceId = Some x, ie_sourceEventId = None, ie_sourceSequence = None,
      ie_payload =
        [(js ''role'', JEnum ROLES r), (js ''from'', JEnum CONTROL_MODES from_mode),
         (js ''to'', JStr (js ''manual_takeover'')), (js ''assignmentId'', null_or JStr assignmentId),
         (js ''assignmentState'', null_or (JEnum ASSIGNMENT_STATES) assignmentState)]\<rparr>"

text \<open>The assignment of the role after the takeover: an active one needs reconciliation.\<close>

definition take_over_assignment :: "assignment_row option \<Rightarrow> assignment_state option tx" where
  "take_over_assignment assignment =
     (case assignment of
        None \<Rightarrow> ret None
      | Some a \<Rightarrow>
          if a_state a = Active
          then bind_tx (updateAssignmentTx (a_id a)
                 \<lparr>ap_state = Some Needs_reconciliation, ap_accepted = None, ap_lastAckStatus = None\<rparr>)
                 (\<lambda>updated. ret (Some (a_state updated)))
          else ret (Some (a_state a)))"

definition applyInteractiveInput :: "jstr \<Rightarrow> role \<Rightarrow> jstr \<Rightarrow> bridge_event \<Rightarrow> transition_result tx" where
  "applyInteractiveInput goalId r x event =
     bind_tx (getBinding goalId r) (\<lambda>binding.
     withImmediateTransaction
       (bind_tx (sourceEventExistsTx x (be_eventId event)) (\<lambda>seen.
        if seen then unchanged_result True binding
        else if be_sequence event \<le> b_last_source_sequence binding then unchanged_result False binding
        else
          bind_tx (insertEventTx (human_input_event goalId r x event)) (\<lambda>first.
          bind_tx (gets (getActiveAssignmentForRole goalId r)) (\<lambda>assignment.
          bind_tx (take_over_assignment assignment) (\<lambda>assignmentState.
          let labels = presentationLabels r Manual_takeover (b_agent_state binding) assignmentState
          in bind_tx (updateBindingTx goalId r
               \<lparr>bp_controlMode = Some Manual_takeover, bp_agentState = None,
                bp_lastSourceSequence = Some (be_sequence event),
                bp_nativeTerminalTitle = Some (nativeTerminalTitle labels),
                bp_piStatus = Some (piStatus labels)\<rparr>) (\<lambda>_.
             bind_tx (insertEventTx (takeover_event goalId r x (b_control_mode binding)
                        (map_option a_id assignment) assignmentState)) (\<lambda>second.
             bind_tx (gets (cursor_or second)) (\<lambda>cursor.
             ret \<lparr>tr_changed = True, tr_duplicate = False, tr_stale = False,
                  tr_eventSequences = [first, second], tr_labels = labels,
                  tr_eventCursor = cursor\<rparr>)))))))))"

section \<open>Events of the runner\<close>

definition markRunnerRestarted :: "jstr \<Rightarrow> int \<Rightarrow> int tx" where
  "markRunnerRestarted goalId runnerPid =
     withImmediateTransaction (insertEventTx
       \<lparr>ie_teamGoalId = goalId, ie_role = None, ie_eventType = js ''runner_restarted'',
        ie_sourceExtensionInstanceId = None, ie_sourceEventId = None, ie_sourceSequence = None,
        ie_payload = [(js ''runnerPid'', JWhole runnerPid)]\<rparr>)"

definition recordRunnerObservation :: "jstr \<Rightarrow> role \<Rightarrow> jstr \<Rightarrow> obj \<Rightarrow> int tx" where
  "recordRunnerObservation goalId r eventType payload =
     withImmediateTransaction (insertEventTx
       \<lparr>ie_teamGoalId = goalId, ie_role = Some r, ie_eventType = eventType,
        ie_sourceExtensionInstanceId = None, ie_sourceEventId = None, ie_sourceSequence = None,
        ie_payload = payload\<rparr>)"

definition eventsAfter :: "int \<Rightarrow> int \<Rightarrow> event_record list tx" where
  "eventsAfter cursor limit = getEventsAfter cursor limit"

section \<open>Sequences of calls\<close>

datatype domain_op =
    Bootstrap bootstrap_config
  | Handshake bridge_hello
  | Authorize jstr role jstr
  | Accept jstr role jstr
  | Duplicate_ack jstr role jstr
  | Record_event jstr role jstr bridge_event
  | Interactive_input jstr role jstr bridge_event
  | Read_snapshot
  | Read_events int int
  | Restarted jstr int
  | Observation jstr role jstr obj
  | Other_process "transaction_fault list"

definition discard :: "'a tx \<Rightarrow> unit tx" where
  "discard m = bind_tx m (\<lambda>_. ret ())"

fun exec_op :: "domain_op \<Rightarrow> unit tx" where
  "exec_op (Bootstrap c) = discard (bootstrapIfNeeded c)"
| "exec_op (Handshake h) = discard (bridgeHandshake h)"
| "exec_op (Authorize i r x) = authorizeAssignmentAcknowledgement i r x"
| "exec_op (Accept i r x) = discard (acceptAssignment i r x)"
| "exec_op (Duplicate_ack i r x) = discard (recordDuplicateAck i r x)"
| "exec_op (Record_event g r x e) = discard (recordBridgeEvent g r x e)"
| "exec_op (Interactive_input g r x e) = discard (applyInteractiveInput g r x e)"
| "exec_op Read_snapshot = discard snapshot"
| "exec_op (Read_events c l) = discard (eventsAfter c l)"
| "exec_op (Restarted g p) = discard (markRunnerRestarted g p)"
| "exec_op (Observation g r t p) = discard (recordRunnerObservation g r t p)"
| "exec_op (Other_process fs) = (\<lambda>s. (Inr (), s\<lparr>faults := fs\<rparr>))"

text \<open>A call that throws leaves its caller running: the next call sees the state it left.\<close>

fun run_ops :: "domain_op list \<Rightarrow> store \<Rightarrow> store" where
  "run_ops [] s = s"
| "run_ops (op # ops) s = run_ops ops (snd (exec_op op s))"

definition empty_database :: database where
  "empty_database = \<lparr>goals = [], bindings = [], assignments = [], events = [], last_sequence = 0\<rparr>"

definition open_store :: "journal_value \<Rightarrow> (nat \<Rightarrow> jstr) \<Rightarrow> (nat \<Rightarrow> jstr) \<Rightarrow> store" where
  "open_store j ids ticks =
     \<lparr>db = empty_database, inTransaction = False, journal = j, faults = [],
      random_ids = ids, ids_drawn = 0, clock = ticks, clock_reads = 0\<rparr>"

end
