(* ===== verification/DomainInvariants.thy ===== *)
theory DomainInvariants
  imports Domain
begin

text \<open>
  Invariants of the tables that every call of the domain keeps: the event log is numbered
  without gaps and the goal's cursor is its length (\<open>log_ok\<close>), the keys of the bindings and
  the single assignment (\<open>base_ok\<close>), and the source sequence numbers of each bridge
  (\<open>source_ok\<close>).
\<close>

section \<open>The event log\<close>

definition log_ok :: "database \<Rightarrow> bool" where
  "log_ok d \<longleftrightarrow>
     length (goals d) \<le> 1 \<and> 0 \<le> last_sequence d \<and>
     map e_sequence (events d) = [1..last_sequence d] \<and>
     distinct (map e_event_id (events d)) \<and>
     sorted_wrt (\<lambda>x y. \<not> source_clash y x) (events d) \<and>
     (\<forall>e \<in> set (events d). e_team_goal_id e \<in> set (map g_id (goals d))) \<and>
     (\<forall>g \<in> set (goals d). g_event_cursor g = last_sequence d)"

named_theorems db_simps \<open>effects of the table updates on the tables\<close>

lemma update_sel [db_simps]:
  "goals (set_binding g r b d) = goals d" "assignments (set_binding g r b d) = assignments d"
  "events (set_binding g r b d) = events d" "last_sequence (set_binding g r b d) = last_sequence d"
  "goals (set_assignment i a d) = goals d" "bindings (set_assignment i a d) = bindings d"
  "events (set_assignment i a d) = events d" "last_sequence (set_assignment i a d) = last_sequence d"
  "bindings (add_event row d) = bindings d" "assignments (add_event row d) = assignments d"
  "events (add_event row d) = events d @ [row]" "last_sequence (add_event row d) = e_sequence row"
  by (simp_all add: set_binding_def set_assignment_def add_event_def)

lemma find_binding_frame [db_simps]:
  "find_binding g r (add_event row d) = find_binding g r d"
  "find_binding g r (set_assignment i a d) = find_binding g r d"
  "find_assignment j (add_event row d) = find_assignment j d"
  "find_assignment j (set_binding g r b d) = find_assignment j d"
  by (simp_all add: find_binding_def find_assignment_def db_simps)

lemma row_sel [db_simps]:
  "e_sequence (next_row i s) = last_sequence (db s) + 1"
  "e_team_goal_id (next_row i s) = ie_teamGoalId i"
  "e_role (next_row i s) = ie_role i"
  "e_event_type (next_row i s) = ie_eventType i"
  "e_source_sequence (next_row i s) = ie_sourceSequence i"
  "e_source_event_id (next_row i s) = ie_sourceEventId i"
  "e_source_extension_instance_id (next_row i s) = ie_sourceExtensionInstanceId i"
  by (simp_all add: next_row_def event_row_of_def)

lemma log_ok_frame [simp]:
  "log_ok (set_binding g r b d) = log_ok d"
  "log_ok (set_assignment i a d) = log_ok d"
  by (simp_all add: log_ok_def db_simps)

lemma log_ok_add_event [simp]:
  assumes ok: "log_ok d" and ins: "event_insertable row d" and seq: "e_sequence row = last_sequence d + 1"
  shows "log_ok (add_event row d)"
proof -
  obtain g where g: "goals d = [g]" "e_team_goal_id row = g_id g"
    using ok ins by (cases "goals d") (auto simp: log_ok_def event_insertable_def)
  have up: "[1..last_sequence d + 1] = [1..last_sequence d] @ [last_sequence d + 1]"
    using ok by (simp add: upto_rec2 log_ok_def)
  show ?thesis
    using ok ins g seq up
    by (auto simp: log_ok_def db_simps event_insertable_def add_event_def advance_cursor_def
        sorted_wrt_append list_all_iff)
qed

definition bindings_compatible :: "binding_row \<Rightarrow> binding_row \<Rightarrow> bool" where
  "bindings_compatible b c \<longleftrightarrow>
     \<not> (b_team_goal_id c = b_team_goal_id b \<and> b_role c = b_role b)
     \<and> b_agent_run_id c \<noteq> b_agent_run_id b
     \<and> b_terminal_session_ref c \<noteq> b_terminal_session_ref b
     \<and> b_shell_run_id c \<noteq> b_shell_run_id b
     \<and> b_pi_session_id c \<noteq> b_pi_session_id b
     \<and> b_extension_instance_id c \<noteq> b_extension_instance_id b"

text \<open>The keys of the table \<open>role_bindings\<close>.\<close>

definition keys_ok :: "database \<Rightarrow> bool" where
  "keys_ok d \<longleftrightarrow>
     sorted_wrt (\<lambda>c b. bindings_compatible b c) (bindings d) \<and>
     (\<forall>b \<in> set (bindings d). b_team_goal_id b \<in> set (map g_id (goals d)) \<and> 0 < b_host_pid b)"

definition bootstrap_bindings :: "jstr \<Rightarrow> (role \<Rightarrow> role_labels option) \<Rightarrow> role_identity list \<Rightarrow> binding_row list" where
  "bootstrap_bindings g labels is = map (\<lambda>i. initial_binding g i (the (labels (ri_role i)))) is"

lemma wp_insert_binding [wp_simps]:
  "wp (insert_binding b) Q E s =
     (if binding_insertable b (db s) then Q () (s\<lparr>db := (db s)\<lparr>bindings := bindings (db s) @ [b]\<rparr>\<rparr>)
      else E Constraint_violation s)"
  by (simp add: insert_binding_def wp_simps)

lemma keys_ok_insert:
  "keys_ok d \<Longrightarrow> binding_insertable b d \<Longrightarrow> keys_ok (d\<lparr>bindings := bindings d @ [b]\<rparr>)"
  by (auto simp: keys_ok_def binding_insertable_def bindings_compatible_def sorted_wrt_append list_all_iff)

lemma wp_insert_bindings:
  assumes "keys_ok (db s)"
    and "\<And>e bs. E e (s\<lparr>db := (db s)\<lparr>bindings := bs\<rparr>\<rparr>)"
    and "\<lbrakk>list_all (\<lambda>i. labels (ri_role i) \<noteq> None) is;
      keys_ok ((db s)\<lparr>bindings := bindings (db s) @ bootstrap_bindings g labels is\<rparr>)\<rbrakk>
      \<Longrightarrow> Q () (s\<lparr>db := (db s)\<lparr>bindings := bindings (db s) @ bootstrap_bindings g labels is\<rparr>\<rparr>)"
  shows "wp (insert_bindings g labels is) Q E s"
  using assms
proof (induction "is" arbitrary: s)
  case Nil
  then show ?case by (simp add: wp_simps bootstrap_bindings_def)
next
  case (Cons i "is")
  have same: "E e s" for e using Cons.prems(2) [of e "bindings (db s)"] by simp
  show ?case
  proof (cases "labels (ri_role i)")
    case None
    then show ?thesis using same by (simp add: wp_simps)
  next
    case (Some l)
    let ?b = "initial_binding g i l"
    let ?s = "s\<lparr>db := (db s)\<lparr>bindings := bindings (db s) @ [?b]\<rparr>\<rparr>"
    have "wp (insert_bindings g labels is) Q E ?s" if ins: "binding_insertable ?b (db s)"
    proof (rule Cons.IH)
      show "keys_ok (db ?s)" using keys_ok_insert [OF Cons.prems(1) ins] by simp
      show "E e (?s\<lparr>db := (db ?s)\<lparr>bindings := bs\<rparr>\<rparr>)" for e bs using Cons.prems(2) by simp
    next
      assume "list_all (\<lambda>i. labels (ri_role i) \<noteq> None) is"
        and "keys_ok ((db ?s)\<lparr>bindings := bindings (db ?s) @ bootstrap_bindings g labels is\<rparr>)"
      then show "Q () (?s\<lparr>db := (db ?s)\<lparr>bindings := bindings (db ?s) @ bootstrap_bindings g labels is\<rparr>\<rparr>)"
        using Cons.prems(3) Some by (simp add: bootstrap_bindings_def)
    qed
    then show ?thesis using Some same by (simp add: wp_simps)
  qed
qed

lemma getGoal_None_iff: "getGoal s = None \<longleftrightarrow> goals (db s) = []"
  by (cases "sort_key g_created_at (goals (db s))") (auto simp: getGoal_def first_by_def dest: arg_cong [of _ _ length])

text \<open>The tables a successful bootstrap leaves.\<close>

definition bootstrapped :: "bootstrap_config \<Rightarrow> jstr \<Rightarrow> database" where
  "bootstrapped config now =
     \<lparr>goals = [\<lparr>g_id = bc_teamGoalId config, g_goal_text = bc_goalText config, g_event_cursor = 0,
               g_created_at = now\<rparr>],
      bindings = bootstrap_bindings (bc_teamGoalId config) (initial_labels config) (bc_roles config),
      assignments = [\<lparr>a_id = ac_id (bc_assignment config), a_team_goal_id = bc_teamGoalId config,
                a_role = ac_role (bc_assignment config),
                a_agent_run_id = ac_agentRunId (bc_assignment config),
                a_prompt = ac_prompt (bc_assignment config), a_state = Pending,
                a_accepted_extension_instance_id = None, a_last_ack_status = None,
                a_created_at = now, a_updated_at = now\<rparr>],
      events = [], last_sequence = 0\<rparr>"

lemma wp_bootstrapTx:
  assumes "db s = empty_database" "inTransaction s"
    and E: "\<And>e c d. E e (s\<lparr>clock_reads := c, db := d\<rparr>)"
    and Q: "keys_ok (bootstrapped config (clock s (clock_reads s))) \<Longrightarrow> ac_role (bc_assignment config) = Builder \<Longrightarrow>
      Q () (s\<lparr>clock_reads := Suc (clock_reads s), db := bootstrapped config (clock s (clock_reads s))\<rparr>)"
  shows "wp (bootstrapTx config (initial_labels config)) Q E s"
proof -
  have 1: "E e (s\<lparr>clock_reads := c\<rparr>)" for e c using E [where c = c and d = "db s"] by simp
  show ?thesis
    unfolding bootstrapTx_def
    apply (simp add: wp_simps assms(1,2) empty_database_def 1 Let_def)
    apply (rule wp_insert_bindings)
      apply (simp add: keys_ok_def)
     apply (simp add: E)
    using Q by (auto simp: wp_simps Let_def E assignment_insertable_def bootstrapped_def keys_ok_def)
qed

definition one_assignment :: "database \<Rightarrow> bool" where
  "one_assignment d \<longleftrightarrow>
     (if goals d = [] then assignments d = []
      else \<exists>a. assignments d = [a] \<and> a_role a = Builder \<and> a_team_goal_id a \<in> set (map g_id (goals d)))"

definition base_ok :: "database \<Rightarrow> bool" where
  "base_ok d \<longleftrightarrow> log_ok d \<and> keys_ok d \<and> one_assignment d"

lemma advance_cursor_id [simp]: "g_id (advance_cursor g n row) = g_id row"
  by (simp add: advance_cursor_def)

lemma map_advance_cursor_id [simp]: "map (g_id \<circ> advance_cursor g n) rows = map g_id rows"
  by simp

lemma goal_ids_add_event [db_simps]: "map g_id (goals (add_event row d)) = map g_id (goals d)"
  by (simp add: add_event_def)

lemma goals_add_event_Nil [db_simps]: "goals (add_event row d) = [] \<longleftrightarrow> goals d = []"
  by (simp add: add_event_def)

lemma keys_ok_frame [simp]:
  "keys_ok (set_binding g r b d) = keys_ok d"
  "keys_ok (set_assignment i a d) = keys_ok d"
  "keys_ok (add_event row d) = keys_ok d"
proof -
  define w where "w = (\<lambda>c. if b_team_goal_id c = g \<and> b_role c = r then write_binding b c else c)"
  have k: "b_team_goal_id (w c) = b_team_goal_id c" "b_role (w c) = b_role c"
    "b_agent_run_id (w c) = b_agent_run_id c" "b_terminal_session_ref (w c) = b_terminal_session_ref c"
    "b_shell_run_id (w c) = b_shell_run_id c" "b_pi_session_id (w c) = b_pi_session_id c"
    "b_extension_instance_id (w c) = b_extension_instance_id c" "b_host_pid (w c) = b_host_pid c" for c
    by (simp_all add: w_def write_binding_def)
  have "bindings_compatible (w c) (w e) = bindings_compatible c e" for c e
    unfolding bindings_compatible_def by (simp only: k)
  moreover have "set_binding g r b d = d\<lparr>bindings := map w (bindings d)\<rparr>"
    by (simp add: set_binding_def w_def)
  ultimately show "keys_ok (set_binding g r b d) = keys_ok d"
    by (simp add: keys_ok_def sorted_wrt_map k)
  show "keys_ok (set_assignment i a d) = keys_ok d"
    by (simp add: keys_ok_def db_simps)
  have "set (map g_id (goals (add_event row d))) = set (map g_id (goals d))" by (simp only: db_simps)
  then show "keys_ok (add_event row d) = keys_ok d"
    unfolding keys_ok_def db_simps by (simp only:)
qed

lemma one_assignment_frame [simp]:
  "one_assignment (set_binding g r b d) = one_assignment d"
  "one_assignment (add_event row d) = one_assignment d"
  unfolding one_assignment_def db_simps by (rule refl)+

lemma one_assignment_set [simp]: "one_assignment d \<Longrightarrow> one_assignment (set_assignment i a d)"
  by (auto simp: one_assignment_def set_assignment_def split: if_splits)

lemma base_ok_frame [simp]:
  "base_ok (set_binding g r b d) = base_ok d"
  "base_ok d \<Longrightarrow> base_ok (set_assignment i a d)"
  "base_ok d \<Longrightarrow> event_insertable (next_row input s) d \<Longrightarrow> last_sequence (db s) = last_sequence d \<Longrightarrow>
   base_ok (add_event (next_row input s) d)"
  by (auto simp: base_ok_def db_simps)

lemma base_ok_empty: "base_ok d \<Longrightarrow> goals d = [] \<Longrightarrow> d = empty_database"
  by (cases d) (auto simp: base_ok_def log_ok_def keys_ok_def one_assignment_def empty_database_def)

lemma base_ok_bootstrapped:
  "keys_ok (bootstrapped config now) \<Longrightarrow> ac_role (bc_assignment config) = Builder \<Longrightarrow>
   base_ok (bootstrapped config now)"
  by (simp add: base_ok_def log_ok_def one_assignment_def bootstrapped_def)

lemma wp_ret_fun: "wp (ret x) Q E = Q x"
  by (rule ext) (simp add: wp_basic)

lemma wp_getEventsAfter [wp_simps]:
  "wp (getEventsAfter c l) Q E s =
     (case fst (getEventsAfter c l s) of Inr x \<Rightarrow> Q x s | Inl e \<Rightarrow> E e s)"
  by (simp add: wp_def getEventsAfter_def Let_def split: sum.split)

lemma base_bootstrap:
  assumes "base_ok (db s)"
  shows "wp (bootstrapIfNeeded config) (\<lambda>_ s'. base_ok (db s')) (\<lambda>_ s'. base_ok (db s')) s"
proof (cases "getGoal s")
  case None
  then have "db s = empty_database" using assms base_ok_empty getGoal_None_iff by blast
  with None assms show ?thesis
    by (auto simp: bootstrapIfNeeded_def wp_simps Let_def intro!: wp_bootstrapTx base_ok_frame base_ok_bootstrapped)
next
  case (Some g)
  with assms show ?thesis by (simp add: bootstrapIfNeeded_def wp_simps)
qed

lemmas exec_defs = discard_def bridgeHandshake_def authorizeAssignmentAcknowledgement_def
  authorizedAssignment_def acceptAssignment_def recordDuplicateAck_def recordBridgeEvent_def
  applyInteractiveInput_def snapshot_def snapshotTx_def eventsAfter_def markRunnerRestarted_def
  recordRunnerObservation_def unchanged_result_def take_over_assignment_def Let_def

lemma base_exec_op:
  assumes ok: "base_ok (db s)"
  shows "base_ok (db (snd (exec_op op s)))"
proof -
  have "wp (exec_op op) (\<lambda>_ s'. base_ok (db s')) (\<lambda>_ s'. base_ok (db s')) s"
  proof (cases op)
    case (Bootstrap c)
    then show ?thesis using base_bootstrap [OF ok, of c] by (simp add: discard_def wp_bind wp_ret_fun)
  next
    case (Handshake h)
    then show ?thesis using ok by (simp add: exec_defs wp_simps db_simps split: option.split prod.split)
  next
    case (Accept i r x)
    then show ?thesis using ok by (simp add: exec_defs wp_simps db_simps split: option.split)
  next
    case (Duplicate_ack i r x)
    then show ?thesis using ok by (simp add: exec_defs wp_simps db_simps split: option.split)
  next
    case (Record_event g r x e)
    then show ?thesis using ok by (simp add: exec_defs wp_simps db_simps split: option.split)
  next
    case (Interactive_input g r x e)
    then show ?thesis using ok by (simp add: exec_defs wp_simps db_simps split: option.split)
  qed (simp_all add: ok exec_defs wp_simps split: option.split sum.split, simp add: ok wp_def)
  then show ?thesis by (simp add: wp_final)
qed

section \<open>Source sequences\<close>

text \<open>The sequence numbers a bridge gave to the events of its role, in the order of the log.\<close>

definition source_sequences :: "jstr \<Rightarrow> role \<Rightarrow> event_row list \<Rightarrow> int list" where
  "source_sequences g r es =
     map (\<lambda>e. the (e_source_sequence e))
       (filter (\<lambda>e. e_team_goal_id e = g \<and> e_role e = Some r \<and> e_source_sequence e \<noteq> None) es)"

definition sources_below :: "binding_row \<Rightarrow> event_row list \<Rightarrow> bool" where
  "sources_below b es \<longleftrightarrow>
     (let ns = 0 # source_sequences (b_team_goal_id b) (b_role b) es
      in sorted_wrt (<) ns \<and> b_last_source_sequence b = last ns)"

lemma sources_below_last: "sources_below b es \<Longrightarrow> 0 \<le> b_last_source_sequence b"
  by (auto simp: sources_below_def Let_def dest!: last_in_set intro: less_imp_le split: if_splits)

lemma sorted_snoc: "sorted_wrt (<) (ns @ [n]) \<longleftrightarrow> sorted_wrt (<) ns \<and> (ns = [] \<or> last ns < n)" for n :: int
proof -
  have "k \<le> last ns" if "sorted_wrt (<) ns" "k \<in> set ns" for k :: int and ns
    using that by (induction ns) (auto simp: less_le_trans intro: less_imp_le dest: last_in_set)
  then show ?thesis
    by (cases "ns = []") (auto simp: sorted_wrt_append intro: le_less_trans)
qed

definition source_ok :: "database \<Rightarrow> bool" where
  "source_ok d \<longleftrightarrow> (\<forall>b \<in> set (bindings d). sources_below b (events d))"

lemma source_sequences_snoc:
  "source_sequences g r (es @ [row]) = source_sequences g r es @
     (if e_team_goal_id row = g \<and> e_role row = Some r \<and> e_source_sequence row \<noteq> None
      then [the (e_source_sequence row)] else [])"
  by (simp add: source_sequences_def)

lemma unique_binding:
  assumes "keys_ok d" "find_binding g r d = Some b" "c \<in> set (bindings d)" "b_team_goal_id c = g" "b_role c = r"
  shows "c = b"
proof -
  have b: "b \<in> set (bindings d)" "b_team_goal_id b = g" "b_role b = r"
    using assms(2) by (auto simp: find_binding_def dest!: find_Some_in)
  obtain i j where ij: "i < length (bindings d)" "j < length (bindings d)" "bindings d ! i = b" "bindings d ! j = c"
    using b(1) assms(3) by (metis in_set_conv_nth)
  have s: "sorted_wrt (\<lambda>c b. bindings_compatible b c) (bindings d)" using assms(1) by (simp add: keys_ok_def)
  have "\<not> i < j" "\<not> j < i"
    using sorted_wrt_nth_less [OF s, of i j] sorted_wrt_nth_less [OF s, of j i] ij b assms(4,5)
    by (auto simp: bindings_compatible_def)
  with ij show ?thesis by (simp add: linorder_neq_iff)
qed

lemma found_binding:
  "find_binding g r d = Some b \<Longrightarrow> b \<in> set (bindings d) \<and> b_team_goal_id b = g \<and> b_role b = r"
  by (auto simp: find_binding_def dest!: find_Some_in)

lemma write_binding_sel [simp]:
  "b_team_goal_id (write_binding n b) = b_team_goal_id b" "b_role (write_binding n b) = b_role b"
  "b_extension_instance_id (write_binding n b) = b_extension_instance_id b"
  "b_agent_run_id (write_binding n b) = b_agent_run_id b"
  "b_terminal_session_ref (write_binding n b) = b_terminal_session_ref b"
  "b_shell_run_id (write_binding n b) = b_shell_run_id b"
  "b_pi_session_id (write_binding n b) = b_pi_session_id b"
  "b_host_pid (write_binding n b) = b_host_pid b"
  "b_last_source_sequence (write_binding n b) = b_last_source_sequence n"
  "b_control_mode (write_binding n b) = b_control_mode n"
  "b_agent_state (write_binding n b) = b_agent_state n"
  "b_native_terminal_title (write_binding n b) = b_native_terminal_title n"
  "b_pi_status (write_binding n b) = b_pi_status n"
  by (simp_all add: write_binding_def)

text \<open>The bindings after a write: the one of the role, all others as they were.\<close>

lemma set_binding_map:
  assumes "keys_ok d" "find_binding g r d = Some b"
  shows "bindings (set_binding g r new d) = map (\<lambda>c. if c = b then write_binding new b else c) (bindings d)"
proof -
  have "(b_team_goal_id c = g \<and> b_role c = r) = (c = b)" if "c \<in> set (bindings d)" for c
    using that found_binding [OF assms(2)] unique_binding [OF assms that] by auto
  then show ?thesis by (auto simp: set_binding_def)
qed

lemma in_set_binding:
  "keys_ok d \<Longrightarrow> find_binding g r d = Some b \<Longrightarrow> c \<in> set (bindings (set_binding g r new d)) \<longleftrightarrow>
     c = write_binding new b \<or> c \<in> set (bindings d) \<and> c \<noteq> b"
  using found_binding [of g r d b] by (subst set_binding_map) auto

lemma source_ok_frame [simp]:
  "source_ok (set_assignment i a d) = source_ok d"
  "e_source_sequence row = None \<Longrightarrow> source_ok (add_event row d) = source_ok d"
  by (simp_all add: source_ok_def sources_below_def db_simps source_sequences_snoc)

lemma set_binding_assignment [db_simps]:
  "set_binding g r b (set_assignment i a d) = set_assignment i a (set_binding g r b d)"
  by (simp add: set_binding_def set_assignment_def)

lemma source_ok_advance:
  assumes "keys_ok d" "source_ok d" "find_binding g r d = Some b"
    and row: "e_team_goal_id row = g" "e_role row = Some r" "e_source_sequence row = Some n"
    and n: "b_last_source_sequence b < n" "b_last_source_sequence new = n"
  shows "source_ok (set_binding g r new (add_event row d))"
proof -
  have k: "keys_ok (add_event row d)" "find_binding g r (add_event row d) = Some b"
    using assms(1,3) by (simp_all add: db_simps)
  have "sources_below c (events d @ [row])"
    if c: "c = write_binding new b \<or> c \<in> set (bindings d) \<and> c \<noteq> b" for c
    using c
  proof
    assume "c = write_binding new b"
    moreover have "sources_below b (events d)" using assms(2) found_binding [OF assms(3)] by (simp add: source_ok_def)
    ultimately show ?thesis
      using row n found_binding [OF assms(3)] sorted_snoc [of "0 # source_sequences g r (events d)" "n"]
      by (simp add: sources_below_def source_sequences_snoc Let_def)
  next
    assume c: "c \<in> set (bindings d) \<and> c \<noteq> b"
    then have "\<not> (b_team_goal_id c = g \<and> b_role c = r)" using unique_binding [OF assms(1,3)] by blast
    moreover have "sources_below c (events d)" using assms(2) c by (simp add: source_ok_def)
    ultimately show ?thesis using row by (auto simp: sources_below_def source_sequences_snoc)
  qed
  then show ?thesis
    using in_set_binding [OF k] by (simp add: source_ok_def db_simps)
qed

lemma source_ok_same:
  assumes "keys_ok d" "find_binding g r d = Some b" "b_last_source_sequence new = b_last_source_sequence b"
    and "source_ok d"
  shows "source_ok (set_binding g r new d)"
  using assms found_binding [OF assms(2)] in_set_binding [OF assms(1,2)]
  by (auto simp: source_ok_def db_simps sources_below_def)

lemma patch_binding_last [simp]:
  "b_last_source_sequence (patch_binding p b) = or_else (bp_lastSourceSequence p) (b_last_source_sequence b)"
  by (simp add: patch_binding_def)

lemma or_else_simps [simp]: "or_else None d = d" "or_else (Some x) d = x"
  by (simp_all add: or_else_def)

lemma source_ok_bootstrapped: "source_ok (bootstrapped config now)"
  by (auto simp: source_ok_def sources_below_def bootstrapped_def bootstrap_bindings_def
      initial_binding_def source_sequences_def)

lemma event_input_sel [db_simps]:
  "ie_sourceSequence (bootstrap_event c) = None"
  "ie_sourceSequence (connected_event h b) = None"
  "ie_sourceSequence (ack_event g r t x i k) = None"
  "ie_sourceSequence (takeover_event g r x m j t') = None"
  "ie_sourceSequence (bridge_event_input g r x e) = Some (be_sequence e)"
  "ie_sourceSequence (human_input_event g r x e) = Some (be_sequence e)"
  "ie_teamGoalId (bridge_event_input g r x e) = g"
  "ie_teamGoalId (human_input_event g r x e) = g"
  "ie_role (bridge_event_input g r x e) = Some r"
  "ie_role (human_input_event g r x e) = Some r"
  by (simp_all add: bootstrap_event_def connected_event_def ack_event_def takeover_event_def
      bridge_event_input_def human_input_event_def)

lemma source_bootstrap:
  assumes "base_ok (db s)" "source_ok (db s)"
  shows "wp (bootstrapIfNeeded config) (\<lambda>_ s'. source_ok (db s')) (\<lambda>_ s'. source_ok (db s')) s"
proof (cases "getGoal s")
  case None
  then have "db s = empty_database" using assms base_ok_empty getGoal_None_iff by blast
  with None assms show ?thesis
    by (auto simp: bootstrapIfNeeded_def wp_simps Let_def db_simps source_ok_bootstrapped intro!: wp_bootstrapTx)
next
  case (Some g)
  with assms show ?thesis by (simp add: bootstrapIfNeeded_def wp_simps)
qed

lemma source_exec_op:
  assumes "base_ok (db s)" and ok: "source_ok (db s)"
  shows "source_ok (db (snd (exec_op op s)))"
proof -
  have k: "keys_ok (db s)" using assms(1) by (simp add: base_ok_def)
  have "wp (exec_op op) (\<lambda>_ s'. source_ok (db s')) (\<lambda>_ s'. source_ok (db s')) s"
  proof (cases op)
    case (Bootstrap c)
    then show ?thesis using source_bootstrap [OF assms, of c] by (simp add: discard_def wp_bind wp_ret_fun)
  next
    case (Handshake h)
    then show ?thesis using ok by (simp add: exec_defs wp_simps db_simps split: option.split prod.split)
  next
    case (Accept i r x)
    then show ?thesis using ok k
      by (auto simp: exec_defs wp_simps db_simps source_ok_same split: option.split)
  next
    case (Duplicate_ack i r x)
    then show ?thesis using ok by (simp add: exec_defs wp_simps db_simps split: option.split)
  next
    case (Record_event g r x e)
    then show ?thesis using ok k
      by (auto simp: exec_defs wp_simps db_simps split: option.split intro!: source_ok_advance)
  next
    case (Interactive_input g r x e)
    then show ?thesis using ok k
      by (auto simp: exec_defs wp_simps db_simps split: option.split intro!: source_ok_advance)
  qed (simp_all add: ok exec_defs wp_simps db_simps split: option.split sum.split, simp add: ok wp_def)
  then show ?thesis by (simp add: wp_final)
qed

section \<open>What is never rewritten\<close>

definition goal_fixed :: "goal_row \<Rightarrow> jstr \<times> jstr \<times> jstr" where
  "goal_fixed g = (g_id g, g_goal_text g, g_created_at g)"

definition binding_fixed :: "binding_row \<Rightarrow> jstr \<times> role_identity" where
  "binding_fixed b = (b_team_goal_id b,
     \<lparr>ri_role = b_role b, ri_agentRunId = b_agent_run_id b,
      ri_terminalSessionRef = b_terminal_session_ref b, ri_shellRunId = b_shell_run_id b,
      ri_piSessionId = b_pi_session_id b, ri_extensionInstanceId = b_extension_instance_id b,
      ri_hostPid = b_host_pid b\<rparr>)"

definition assignment_fixed :: "assignment_row \<Rightarrow> jstr \<times> jstr \<times> assignment_config \<times> jstr" where
  "assignment_fixed a = (a_id a, a_team_goal_id a,
     \<lparr>ac_id = a_id a, ac_role = a_role a, ac_agentRunId = a_agent_run_id a, ac_prompt = a_prompt a\<rparr>,
     a_created_at a)"

definition history_kept :: "database \<Rightarrow> database \<Rightarrow> bool" where
  "history_kept d d' \<longleftrightarrow>
     take (length (events d)) (events d') = events d \<and>
     (goals d \<noteq> [] \<longrightarrow>
        map goal_fixed (goals d') = map goal_fixed (goals d) \<and>
        map binding_fixed (bindings d') = map binding_fixed (bindings d) \<and>
        map assignment_fixed (assignments d') = map assignment_fixed (assignments d))"

lemma history_kept_refl [simp]: "history_kept d d"
  by (simp add: history_kept_def)

lemma history_kept_trans: "history_kept d d' \<Longrightarrow> history_kept d' d'' \<Longrightarrow> history_kept d d''"
  apply (clarsimp simp: history_kept_def)
  apply (rule conjI)
   apply (metis append_eq_conv_conj append_take_drop_id append_assoc)
  by (metis map_is_Nil_conv)

lemma history_kept_steps [simp]:
  "history_kept d (set_binding g r b d')" if "history_kept d d'"
  for d d'
proof -
  have "map binding_fixed (bindings (set_binding g r b d')) = map binding_fixed (bindings d')"
    by (auto simp: set_binding_def binding_fixed_def)
  with that show ?thesis by (simp add: history_kept_def db_simps)
qed

lemma history_kept_assignment [simp]:
  "history_kept d (set_assignment i a d')" if "history_kept d d'"
  for d d'
proof -
  have "map assignment_fixed (assignments (set_assignment i a d')) = map assignment_fixed (assignments d')"
    by (auto simp: set_assignment_def assignment_fixed_def)
  with that show ?thesis by (simp add: history_kept_def db_simps)
qed

lemma history_kept_event [simp]:
  "history_kept d (add_event row d')" if "history_kept d d'"
  for d d'
proof -
  have "map goal_fixed (goals (add_event row d')) = map goal_fixed (goals d')"
    by (auto simp: add_event_def advance_cursor_def goal_fixed_def)
  moreover have "take (length (events d)) (events d' @ [row]) = events d"
    using that by (metis history_kept_def append_eq_conv_conj append_take_drop_id append_assoc)
  ultimately show ?thesis using that by (simp add: history_kept_def db_simps)
qed

lemma history_bootstrap:
  assumes "base_ok (db s)"
  shows "wp (bootstrapIfNeeded config) (\<lambda>_ s'. history_kept (db s) (db s')) (\<lambda>_ s'. db s' = db s) s"
proof (cases "getGoal s")
  case None
  then have e: "db s = empty_database" using assms base_ok_empty getGoal_None_iff by blast
  then have "history_kept (db s) (bootstrapped config now)" for now
    by (simp add: history_kept_def empty_database_def)
  with None e show ?thesis
    by (auto simp: bootstrapIfNeeded_def wp_simps Let_def intro!: wp_bootstrapTx)
next
  case (Some g)
  then show ?thesis by (simp add: bootstrapIfNeeded_def wp_simps)
qed

text \<open>A binding exists only together with its goal, so the snapshot after a handshake has one.\<close>

lemma binding_goal: "base_ok d \<Longrightarrow> find_binding g r d = Some b \<Longrightarrow> goals d \<noteq> []"
  using found_binding [of g r d b] by (auto simp: base_ok_def keys_ok_def)

lemma history_exec_op:
  assumes "base_ok (db s)"
  shows "wp (exec_op op) (\<lambda>_ s'. history_kept (db s) (db s')) (\<lambda>_ s'. history_kept (db s) (db s')) s"
proof (cases op)
  case (Bootstrap c)
  have "wp (bootstrapIfNeeded c) (\<lambda>_ s'. history_kept (db s) (db s')) (\<lambda>_ s'. history_kept (db s) (db s')) s"
    by (rule wp_mono [OF history_bootstrap [OF assms]]) simp_all
  with Bootstrap show ?thesis by (simp add: discard_def wp_bind wp_ret_fun)
next
  case (Handshake h)
  then show ?thesis by (auto simp: exec_defs wp_simps db_simps split: option.split prod.split)
next
  case (Accept i r x)
  then show ?thesis by (simp add: exec_defs wp_simps db_simps split: option.split)
next
  case (Duplicate_ack i r x)
  then show ?thesis by (simp add: exec_defs wp_simps db_simps split: option.split)
next
  case (Record_event g r x e)
  then show ?thesis by (simp add: exec_defs wp_simps db_simps split: option.split)
next
  case (Interactive_input g r x e)
  then show ?thesis by (simp add: exec_defs wp_simps db_simps split: option.split)
qed (simp_all add: exec_defs wp_simps split: option.split sum.split, simp add: wp_def)

text \<open>
  A call that throws has written nothing, with one exception: a handshake commits its event before
  it reads the snapshot in a transaction of its own, and that one may find no lock.
\<close>

definition connected_row :: "bridge_hello \<Rightarrow> database \<Rightarrow> event_row \<Rightarrow> bool" where
  "connected_row h d row \<longleftrightarrow>
     e_sequence row = last_sequence d + 1 \<and> e_team_goal_id row = bh_teamGoalId h \<and> e_role row = Some (bh_role h) \<and>
     e_event_type row = js ''bridge_connected'' \<and> e_source_extension_instance_id row = Some (bh_extensionInstanceId h) \<and>
     e_source_event_id row = None \<and> e_source_sequence row = None"

definition only_connected :: "bridge_hello \<Rightarrow> database \<Rightarrow> database \<Rightarrow> bool" where
  "only_connected h d d' \<longleftrightarrow> (\<exists>row. connected_row h d row \<and> d' = add_event row d)"

definition unwritten :: "domain_op \<Rightarrow> failure \<Rightarrow> database \<Rightarrow> database \<Rightarrow> bool" where
  "unwritten op e d d' \<longleftrightarrow>
     d' = d \<or> (case op of Handshake h \<Rightarrow> e \<in> {Database_busy, Commit_failed} \<and> only_connected h d d' | _ \<Rightarrow> False)"

lemma failed_handshake:
  assumes "base_ok (db s)"
  shows "wp (bridgeHandshake h) (\<lambda>_ _. True) (\<lambda>e s'. unwritten (Handshake h) e (db s) (db s')) s"
proof (cases "find_binding (bh_teamGoalId h) (bh_role h) (db s)")
  case None
  then show ?thesis by (simp add: bridgeHandshake_def wp_simps unwritten_def)
next
  case (Some b)
  have c: "only_connected h (db s) (add_event (next_row (connected_event h r) t) (db s))" if "db t = db s" for r t
    unfolding only_connected_def using that
    by (intro exI [of _ "next_row (connected_event h r) t"]) (simp add: connected_row_def db_simps connected_event_def)
  show ?thesis using binding_goal [OF assms Some] Some c
    by (auto simp: unwritten_def bridgeHandshake_def snapshot_def snapshotTx_def Let_def wp_simps db_simps getGoal_None_iff split: option.split)
qed

lemma failed_exec_op:
  assumes "base_ok (db s)"
  shows "wp (exec_op op) (\<lambda>_ _. True) (\<lambda>e s'. unwritten op e (db s) (db s')) s"
proof (cases op)
  case (Bootstrap c)
  have "wp (bootstrapIfNeeded c) (\<lambda>_ _. True) (\<lambda>_ s'. db s' = db s) s"
    by (rule wp_mono [OF history_bootstrap [OF assms]]) simp_all
  with Bootstrap show ?thesis by (simp add: unwritten_def discard_def wp_bind wp_ret_fun)
next
  case (Handshake h)
  show ?thesis unfolding Handshake exec_op.simps discard_def wp_bind wp_ret_fun
    by (rule wp_mono [OF failed_handshake [OF assms]]) simp_all
next
  case (Accept i r x)
  then show ?thesis by (simp add: unwritten_def exec_defs wp_simps db_simps split: option.split)
next
  case (Duplicate_ack i r x)
  then show ?thesis by (simp add: unwritten_def exec_defs wp_simps db_simps split: option.split)
next
  case (Record_event g r x e)
  then show ?thesis by (simp add: unwritten_def exec_defs wp_simps db_simps split: option.split)
next
  case (Interactive_input g r x e)
  then show ?thesis by (simp add: unwritten_def exec_defs wp_simps db_simps split: option.split)
qed (simp_all add: unwritten_def exec_defs wp_simps split: option.split sum.split, simp add: wp_def)

end
