(* ===== verification/DomainTeam.thy ===== *)
theory DomainTeam
  imports DomainInvariants
begin

text \<open>
  What the domain promises about the team: the labels of a role always show its state, and
  every call is a step of a small abstract machine (\<open>team_step\<close>) on the control modes of
  the roles and the state of the one assignment.
\<close>

section \<open>Labels follow the state\<close>

definition role_assignment :: "database \<Rightarrow> role \<Rightarrow> assignment_state option" where
  "role_assignment d r =
     (case assignments d of a # _ \<Rightarrow> if a_role a = r then Some (a_state a) else None | [] \<Rightarrow> None)"

definition binding_labelled :: "assignment_state option \<Rightarrow> binding_row \<Rightarrow> bool" where
  "binding_labelled t b \<longleftrightarrow>
     binding_labels b = presentationLabels (b_role b) (b_control_mode b) (b_agent_state b) t \<and>
     (b_agent_state b = Working \<longleftrightarrow> t = Some Active \<or> t = Some Needs_reconciliation)"

definition team_ok :: "database \<Rightarrow> bool" where
  "team_ok d \<longleftrightarrow>
     (\<forall>b \<in> set (bindings d). binding_labelled (role_assignment d (b_role b)) b) \<and>
     (\<forall>a \<in> set (assignments d). (a_accepted_extension_instance_id a = None) = (a_state a = Pending))"

lemma role_assignment_frame [db_simps]:
  "role_assignment (set_binding g r b d) = role_assignment d"
  "role_assignment (add_event row d) = role_assignment d"
  by (simp_all add: role_assignment_def db_simps fun_eq_iff)

lemma team_ok_event [simp]: "team_ok (add_event row d) = team_ok d"
  by (simp add: team_ok_def db_simps)

lemma the_assignment:
  "one_assignment d \<Longrightarrow> find_assignment i d = Some a \<Longrightarrow> assignments d = [a] \<and> a_id a = i"
  by (auto simp: one_assignment_def find_assignment_def split: if_splits)

lemma set_the_assignment:
  "assignments d = [a] \<Longrightarrow> a_id a = i \<Longrightarrow>
   assignments (set_assignment i (patch_assignment p now a) d) = [patch_assignment p now a]"
  by (simp add: set_assignment_def patch_assignment_def)

lemma patch_sel [simp]:
  "a_role (patch_assignment p now a) = a_role a" "a_id (patch_assignment p now a) = a_id a"
  "a_team_goal_id (patch_assignment p now a) = a_team_goal_id a"
  "a_agent_run_id (patch_assignment p now a) = a_agent_run_id a"
  "a_state (patch_assignment p now a) = or_else (ap_state p) (a_state a)"
  "a_accepted_extension_instance_id (patch_assignment p now a) =
     or_else (ap_accepted p) (a_accepted_extension_instance_id a)"
  by (simp_all add: patch_assignment_def)

lemma patch_binding_sel [simp]:
  "b_control_mode (patch_binding q b) = or_else (bp_controlMode q) (b_control_mode b)"
  "b_agent_state (patch_binding q b) = or_else (bp_agentState q) (b_agent_state b)"
  "b_native_terminal_title (patch_binding q b) = or_else (bp_nativeTerminalTitle q) (b_native_terminal_title b)"
  "b_pi_status (patch_binding q b) = or_else (bp_piStatus q) (b_pi_status b)"
  by (simp_all add: patch_binding_def)

text \<open>One write to the binding of a role together with one to the assignment.\<close>

lemma team_ok_update:
  assumes "keys_ok d" "team_ok d" "find_binding g r d = Some b"
    and a: "assignments d = [a]" "assignments d' = [a']" "a_role a' = a_role a"
    and b: "bindings d' = bindings (set_binding g r new d)"
    and new: "binding_labelled (if a_role a = r then Some (a_state a') else None) (write_binding new b)"
    and other: "a_role a \<noteq> r \<Longrightarrow> a_state a' = a_state a"
    and acc: "(a_accepted_extension_instance_id a' = None) = (a_state a' = Pending)"
    and uniq: "\<And>c. c \<in> set (bindings d) \<Longrightarrow> b_role c = r \<Longrightarrow> c = b"
  shows "team_ok d'"
proof -
  have "binding_labelled (role_assignment d' (b_role c)) c" if c: "c \<in> set (bindings d')" for c
  proof -
    consider "c = write_binding new b" | "c \<in> set (bindings d)" "c \<noteq> b"
      using c unfolding b in_set_binding [OF assms(1,3)] by blast
    then show ?thesis
    proof cases
      case 1
      then show ?thesis using new a found_binding [OF assms(3)]
        by (simp add: role_assignment_def)
    next
      case 2
      then have "b_role c \<noteq> r" using uniq by blast
      then have "role_assignment d' (b_role c) = role_assignment d (b_role c)"
        using a other by (auto simp: role_assignment_def)
      with 2 assms(2) show ?thesis by (simp add: team_ok_def)
    qed
  qed
  then show ?thesis using acc a by (simp add: team_ok_def)
qed

lemma one_goal:
  "base_ok d \<Longrightarrow> b \<in> set (bindings d) \<Longrightarrow> c \<in> set (bindings d) \<Longrightarrow> b_team_goal_id b = b_team_goal_id c"
  by (cases "goals d") (auto simp: base_ok_def log_ok_def keys_ok_def)

lemma role_unique:
  assumes "base_ok d" "find_binding g r d = Some b" "c \<in> set (bindings d)" "b_role c = r"
  shows "c = b"
  using assms found_binding [OF assms(2)] one_goal [OF assms(1,3), of b]
  by (intro unique_binding [of d g r]) (auto simp: base_ok_def)

lemma binding_labelled_write:
  "nativeTerminalTitle (presentationLabels (b_role b) (b_control_mode new) (b_agent_state new) t)
      = b_native_terminal_title new \<Longrightarrow>
   piStatus (presentationLabels (b_role b) (b_control_mode new) (b_agent_state new) t) = b_pi_status new \<Longrightarrow>
   (b_agent_state new = Working \<longleftrightarrow> t = Some Active \<or> t = Some Needs_reconciliation) \<Longrightarrow>
   binding_labelled t (write_binding new b)"
  by (simp add: binding_labelled_def binding_labels_def presentationLabels_def Let_def)

lemma team_ok_accept:
  assumes ok: "base_ok d" "team_ok d" and b: "find_binding (a_team_goal_id a) (a_role a) d = Some b"
    and a: "find_assignment i d = Some a"
    and p: "ap_state p = Some Active" "ap_accepted p = Some (Some x)"
    and q: "bp_controlMode q = None" "bp_agentState q = Some Working"
      "bp_nativeTerminalTitle q = Some (nativeTerminalTitle (presentationLabels (a_role a) (b_control_mode b) Working (Some Active)))"
      "bp_piStatus q = Some (piStatus (presentationLabels (a_role a) (b_control_mode b) Working (Some Active)))"
  shows "team_ok (set_assignment i (patch_assignment p now a)
           (set_binding (a_team_goal_id a) (a_role a) (patch_binding q b) d))"
proof (rule team_ok_update [OF _ ok(2) b, where new = "patch_binding q b"])
  have one: "assignments d = [a]" "a_id a = i" using the_assignment [OF _ a] ok(1) by (auto simp: base_ok_def)
  show "keys_ok d" using ok(1) by (simp add: base_ok_def)
  show "assignments d = [a]" by (rule one)
  show "assignments (set_assignment i (patch_assignment p now a)
           (set_binding (a_team_goal_id a) (a_role a) (patch_binding q b) d)) = [patch_assignment p now a]"
    by (rule set_the_assignment) (simp_all add: db_simps one)
  show "binding_labelled (if a_role a = a_role a then Some (a_state (patch_assignment p now a)) else None)
     (write_binding (patch_binding q b) b)"
    using found_binding [OF b] by (intro binding_labelled_write) (simp_all add: p q)
qed (use p role_unique [OF ok(1) b] in \<open>auto simp: db_simps\<close>)

lemma active_assignment:
  assumes "base_ok (db s)" "find_binding g r (db s) = Some b"
  shows "getActiveAssignmentForRole g r s =
     (case assignments (db s) of a # _ \<Rightarrow> if a_role a = r then Some a else None | [] \<Rightarrow> None)"
proof -
  obtain g0 a where g: "goals (db s) = [g0]" "assignments (db s) = [a]" "a_team_goal_id a = g_id g0"
    using assms binding_goal [OF assms]
    by (cases "goals (db s)") (auto simp: base_ok_def log_ok_def one_assignment_def)
  have "g = g_id g0" using found_binding [OF assms(2)] assms(1) g by (auto simp: base_ok_def keys_ok_def)
  moreover have "a_state a \<in> {Pending, Active, Needs_reconciliation}" by (cases "a_state a") auto
  ultimately show ?thesis using g by (simp add: getActiveAssignmentForRole_def)
qed

lemma team_ok_takeover:
  assumes ok: "base_ok d" "team_ok d" and b: "find_binding g r d = Some b"
    and a: "assignments d = [a]" "assignments d' = [a']" "a_role a' = a_role a"
      "a_accepted_extension_instance_id a' = a_accepted_extension_instance_id a"
      "a_state a' = (if a_role a = r \<and> a_state a = Active then Needs_reconciliation else a_state a)"
    and t: "t = (if a_role a = r then Some (a_state a') else None)"
    and b': "bindings d' = bindings (set_binding g r (patch_binding q b) d)"
    and q: "bp_controlMode q = Some Manual_takeover" "bp_agentState q = None"
      "bp_nativeTerminalTitle q = Some (nativeTerminalTitle (presentationLabels r Manual_takeover (b_agent_state b) t))"
      "bp_piStatus q = Some (piStatus (presentationLabels r Manual_takeover (b_agent_state b) t))"
  shows "team_ok d'"
proof (rule team_ok_update [OF _ ok(2) b a(1,2,3) b'])
  have l: "binding_labelled (role_assignment d r) b"
    using ok(2) found_binding [OF b] by (auto simp: team_ok_def)
  show "binding_labelled (if a_role a = r then Some (a_state a') else None) (write_binding (patch_binding q b) b)"
    using l a found_binding [OF b]
    by (intro binding_labelled_write)
       (auto simp: q t role_assignment_def binding_labelled_def derivePresentationState_def)
  show "keys_ok d" using ok(1) by (simp add: base_ok_def)
  show "(a_accepted_extension_instance_id a' = None) = (a_state a' = Pending)"
    using ok(2) a by (auto simp: team_ok_def)
  show "\<And>c. c \<in> set (bindings d) \<Longrightarrow> b_role c = r \<Longrightarrow> c = b" using role_unique [OF ok(1) b] by blast
qed (use a in auto)

lemma initial_labels_in:
  "i \<in> set (bc_roles config) \<Longrightarrow>
   initial_labels config (ri_role i) = Some (presentationLabels (ri_role i) Managed Waiting None)"
proof -
  have "i \<in> set is \<Longrightarrow> map_of (map (\<lambda>i. (ri_role i, presentationLabels (ri_role i) Managed Waiting None)) is) (ri_role i)
      = Some (presentationLabels (ri_role i) Managed Waiting None)" for "is"
    by (induction "is") auto
  then show "i \<in> set (bc_roles config) \<Longrightarrow> ?thesis" by (simp add: initial_labels_def)
qed

lemma team_ok_bootstrapped: "team_ok (bootstrapped config now)"
proof -
  have "binding_labelled (role_assignment (bootstrapped config now) (ri_role i))
      (initial_binding g i (presentationLabels (ri_role i) Managed Waiting None))" for i g
    by (simp add: binding_labelled_def binding_labels_def initial_binding_def presentationLabels_def Let_def
        derivePresentationState_def role_assignment_def bootstrapped_def)
  moreover have "b_role (initial_binding g i l) = ri_role i" for g i l
    by (simp add: initial_binding_def)
  ultimately show ?thesis
    by (auto simp: team_ok_def initial_labels_in bootstrap_bindings_def bootstrapped_def role_assignment_def)
qed

lemma team_bootstrap:
  assumes "base_ok (db s)" "team_ok (db s)"
  shows "wp (bootstrapIfNeeded config) (\<lambda>_ s'. team_ok (db s')) (\<lambda>_ s'. team_ok (db s')) s"
proof (cases "getGoal s")
  case None
  then have "db s = empty_database" using assms base_ok_empty getGoal_None_iff by blast
  with None assms show ?thesis
    by (auto simp: bootstrapIfNeeded_def wp_simps Let_def db_simps team_ok_bootstrapped intro!: wp_bootstrapTx)
next
  case (Some g)
  with assms show ?thesis by (simp add: bootstrapIfNeeded_def wp_simps)
qed

section \<open>The abstract team\<close>

record team =
  mode :: "role \<Rightarrow> control_mode option"
  task :: "assignment_state option"

definition view :: "database \<Rightarrow> team" where
  "view d = \<lparr>mode = (\<lambda>r. map_option b_control_mode (List.find (\<lambda>b. b_role b = r) (bindings d))),
             task = role_assignment d Builder\<rparr>"

inductive team_step :: "team \<Rightarrow> team \<Rightarrow> bool" where
  begin_team: "task t = None \<Longrightarrow> mode t = (\<lambda>_. None) \<Longrightarrow> (\<And>r. m r = None \<or> m r = Some Managed) \<Longrightarrow>
     team_step t \<lparr>mode = m, task = Some Pending\<rparr>"
| accept: "task t = Some Pending \<Longrightarrow> mode t Builder \<noteq> None \<Longrightarrow> team_step t (t\<lparr>task := Some Active\<rparr>)"
| take_over: "mode t r \<noteq> None \<Longrightarrow> task' = (if r = Builder \<and> task t = Some Active then Some Needs_reconciliation
        else task t) \<Longrightarrow>
     team_step t \<lparr>mode = (mode t)(r \<mapsto> Manual_takeover), task = task'\<rparr>"

lemma view_frame [db_simps]: "view (add_event row d) = view d"
  by (simp add: view_def db_simps)

lemma find_role:
  assumes "base_ok d" "find_binding g r d = Some b"
  shows "List.find (\<lambda>b. b_role b = r) (bindings d) = Some b"
proof -
  obtain c where c: "List.find (\<lambda>b. b_role b = r) (bindings d) = Some c"
    using found_binding [OF assms(2)]
    by (cases "List.find (\<lambda>b. b_role b = r) (bindings d)") (auto simp: find_None_iff2)
  moreover have "c = b" using role_unique [OF assms] find_Some_in [OF c] by blast
  ultimately show ?thesis by simp
qed

lemma find_role_set:
  assumes "base_ok d" "find_binding g r d = Some b"
  shows "List.find (\<lambda>b. b_role b = r') (bindings (set_binding g r new d)) =
     (if r' = r then Some (write_binding new b) else List.find (\<lambda>b. b_role b = r') (bindings d))"
proof -
  have k: "keys_ok d" using assms(1) by (simp add: base_ok_def)
  have "List.find (\<lambda>b. b_role b = r') (bindings (set_binding g r new d)) =
      map_option (\<lambda>c. if c = b then write_binding new b else c) (List.find (\<lambda>b. b_role b = r') (bindings d))"
    unfolding set_binding_map [OF k assms(2)] by (rule find_map_same) simp
  then show ?thesis
    using find_role [OF assms] found_binding [OF assms(2)]
    by (cases "List.find (\<lambda>b. b_role b = r') (bindings d)") (auto dest: find_Some_in)
qed

lemma view_set_binding:
  "base_ok d \<Longrightarrow> find_binding g r d = Some b \<Longrightarrow>
   view (set_binding g r new d) = (view d)\<lparr>mode := (mode (view d))(r \<mapsto> b_control_mode new)\<rparr>"
  by (auto simp: view_def find_role_set role_assignment_frame fun_eq_iff)

lemma mode_view: "base_ok d \<Longrightarrow> find_binding g r d = Some b \<Longrightarrow> mode (view d) r = Some (b_control_mode b)"
  by (simp add: view_def find_role)

lemma view_set_binding_same:
  "base_ok d \<Longrightarrow> find_binding g r d = Some b \<Longrightarrow> b_control_mode new = b_control_mode b \<Longrightarrow>
   view (set_binding g r new d) = view d"
  by (simp add: view_set_binding) (auto simp: mode_view fun_upd_idem)

lemma view_set_assignment:
  assumes "base_ok d" "find_assignment i d = Some a"
  shows "view (set_assignment i (patch_assignment p now a) d) = (view d)\<lparr>task := Some (or_else (ap_state p) (a_state a))\<rparr>"
    and "task (view d) = Some (a_state a)" and "a_role a = Builder" and "assignments d = [a]"
proof -
  have one: "assignments d = [a]" "a_id a = i" "a_role a = Builder"
    using the_assignment [OF _ assms(2)] assms(1) by (auto simp: base_ok_def one_assignment_def split: if_splits)
  show "assignments d = [a]" by (rule one)
  show "a_role a = Builder" by (rule one)
  show "task (view d) = Some (a_state a)" using one by (simp add: view_def role_assignment_def)
  show "view (set_assignment i (patch_assignment p now a) d) = (view d)\<lparr>task := Some (or_else (ap_state p) (a_state a))\<rparr>"
    using one set_the_assignment [OF one(1,2), of p now]
    by (simp add: view_def role_assignment_def db_simps)
qed

lemma view_bootstrapped:
  "team_step (view empty_database) (view (bootstrapped config now))" if "ac_role (bc_assignment config) = Builder"
proof -
  have "view (bootstrapped config now) =
      \<lparr>mode = mode (view (bootstrapped config now)), task = Some Pending\<rparr>"
    using that by (simp add: view_def role_assignment_def bootstrapped_def)
  moreover have "mode (view (bootstrapped config now)) r = None \<or> mode (view (bootstrapped config now)) r = Some Managed" for r
    by (cases "List.find (\<lambda>b. b_role b = r) (bindings (bootstrapped config now))")
       (auto simp: view_def bootstrapped_def bootstrap_bindings_def initial_binding_def dest!: find_Some_in)
  ultimately show ?thesis
    using begin_team [of "view empty_database" "mode (view (bootstrapped config now))"]
    by (simp add: view_def empty_database_def role_assignment_def)
qed

definition team_moves :: "database \<Rightarrow> database \<Rightarrow> bool" where
  "team_moves d d' \<longleftrightarrow> team_ok d' \<and> (view d' = view d \<or> team_step (view d) (view d'))"

lemma team_moves_simps [simp]:
  "team_moves d (add_event row d') = team_moves d d'"
  "team_ok d \<Longrightarrow> team_moves d d"
  by (simp_all add: team_moves_def db_simps)

lemma moves_bootstrap:
  assumes "base_ok (db s)" "team_ok (db s)"
  shows "wp (bootstrapIfNeeded config) (\<lambda>_ s'. team_moves (db s) (db s')) (\<lambda>_ s'. db s' = db s) s"
proof (cases "getGoal s")
  case None
  then have e: "db s = empty_database" using assms base_ok_empty getGoal_None_iff by blast
  have m: "ac_role (bc_assignment config) = Builder \<Longrightarrow> team_moves (db s) (bootstrapped config now)" for now
    using e by (simp add: team_moves_def team_ok_bootstrapped view_bootstrapped)
  with None e show ?thesis
    by (auto simp: bootstrapIfNeeded_def wp_simps Let_def intro!: wp_bootstrapTx)
next
  case (Some g)
  with assms show ?thesis by (simp add: bootstrapIfNeeded_def wp_simps)
qed

lemma moves_accept:
  assumes ok: "base_ok (db s)" "team_ok (db s)"
  shows "wp (acceptAssignment i r x) (\<lambda>_ s'. team_moves (db s) (db s')) (\<lambda>_ s'. db s' = db s) s"
proof -
  have "team_moves (db s) (set_assignment i (patch_assignment p now a)
           (set_binding (a_team_goal_id a) (a_role a) (patch_binding q b) (db s)))"
    if "find_assignment i (db s) = Some a" "find_binding (a_team_goal_id a) (a_role a) (db s) = Some b"
      "a_state a = Pending"
      "p = \<lparr>ap_state = Some Active, ap_accepted = Some (Some x), ap_lastAckStatus = Some Accepted\<rparr>"
      "q = \<lparr>bp_controlMode = None, bp_agentState = Some Working, bp_lastSourceSequence = None,
           bp_nativeTerminalTitle = Some (nativeTerminalTitle (presentationLabels (a_role a) (b_control_mode b) Working (Some Active))),
           bp_piStatus = Some (piStatus (presentationLabels (a_role a) (b_control_mode b) Working (Some Active)))\<rparr>"
    for a b p q now
  proof -
    have t: "team_ok (set_assignment i (patch_assignment p now a)
           (set_binding (a_team_goal_id a) (a_role a) (patch_binding q b) (db s)))"
      using that by (intro team_ok_accept [OF ok that(2,1)]) simp_all
    have a: "find_assignment i (set_binding (a_team_goal_id a) (a_role a) (patch_binding q b) (db s)) = Some a"
      using that by (simp add: db_simps)
    have "view (set_assignment i (patch_assignment p now a)
           (set_binding (a_team_goal_id a) (a_role a) (patch_binding q b) (db s))) = (view (db s))\<lparr>task := Some Active\<rparr>"
      using that view_set_assignment(1) [OF _ a] ok view_set_binding_same [OF ok(1) that(2)] by simp
    moreover have "task (view (db s)) = Some Pending" "a_role a = Builder"
      using view_set_assignment(2,3) [OF ok(1) that(1)] that(3) by simp_all
    moreover have "mode (view (db s)) Builder \<noteq> None"
      using mode_view [OF ok(1) that(2)] \<open>a_role a = Builder\<close> by simp
    ultimately show ?thesis using t accept [of "view (db s)"] by (simp add: team_moves_def)
  qed
  then show ?thesis
    by (auto simp: acceptAssignment_def authorizedAssignment_def getAssignmentById_def Let_def wp_simps db_simps split: option.split)
qed

lemma moves_duplicate:
  assumes ok: "base_ok (db s)" "team_ok (db s)"
  shows "wp (recordDuplicateAck i r x) (\<lambda>_ s'. team_moves (db s) (db s')) (\<lambda>_ s'. db s' = db s) s"
proof -
  have "team_moves (db s) (set_assignment i (patch_assignment p now a) (db s))"
    if a: "find_assignment i (db s) = Some a" and p: "ap_state p = None" "ap_accepted p = None" for a p now
  proof -
    have one: "assignments (db s) = [a]" "a_id a = i" using the_assignment [OF _ a] ok(1) by (auto simp: base_ok_def)
    have "view (set_assignment i (patch_assignment p now a) (db s)) = view (db s)"
      using view_set_assignment(1) [OF ok(1) a, of p now] view_set_assignment(2) [OF ok(1) a] p by simp
    moreover have "team_ok (set_assignment i (patch_assignment p now a) (db s))"
      using ok(2) one p set_the_assignment [OF one, of p now]
      by (auto simp: team_ok_def role_assignment_def db_simps)
    ultimately show ?thesis by (simp add: team_moves_def)
  qed
  then show ?thesis
    by (auto simp: recordDuplicateAck_def authorizedAssignment_def getAssignmentById_def Let_def wp_simps db_simps split: option.split)
qed

lemma moves_record:
  assumes ok: "base_ok (db s)" "team_ok (db s)"
  shows "wp (recordBridgeEvent g r x e) (\<lambda>_ s'. team_moves (db s) (db s')) (\<lambda>_ s'. db s' = db s) s"
proof -
  have "team_moves (db s) (set_binding g r (patch_binding q b) (add_event row (db s)))"
    if b: "find_binding g r (db s) = Some b" and ins: "event_insertable row (db s)" "e_sequence row = last_sequence (db s) + 1"
      and q: "q = \<lparr>bp_controlMode = None, bp_agentState = None, bp_lastSourceSequence = Some n,
             bp_nativeTerminalTitle = None, bp_piStatus = None\<rparr>" for b row q n
  proof -
    let ?d = "add_event row (db s)"
    have o: "base_ok ?d" "find_binding g r ?d = Some b"
      using ok ins b by (simp_all add: base_ok_def db_simps)
    have k: "keys_ok ?d" using o by (simp add: base_ok_def)
    have "team_ok ?d" using ok(2) by simp
    then have "team_ok (set_binding g r (patch_binding q b) ?d)"
      using found_binding [OF o(2)] unfolding team_ok_def Ball_def in_set_binding [OF k o(2)]
      by (auto simp: role_assignment_frame update_sel q binding_labelled_def binding_labels_def)
    moreover have "view (set_binding g r (patch_binding q b) ?d) = view (db s)"
      using view_set_binding_same [OF o, of "patch_binding q b"] q by (simp add: db_simps)
    ultimately show ?thesis by (simp add: team_moves_def)
  qed
  then show ?thesis
    using ok by (auto simp: recordBridgeEvent_def unchanged_result_def Let_def wp_simps db_simps split: option.split)
qed

text \<open>The database after an interactive input that is neither replayed nor stale, without its events.\<close>

definition taken_over :: "jstr \<Rightarrow> role \<Rightarrow> int \<Rightarrow> jstr \<Rightarrow> binding_row \<Rightarrow> database \<Rightarrow> database" where
  "taken_over g r n now b d =
     (let t = (case assignments d of a # _ \<Rightarrow> if a_role a = r \<and> a_state a = Active then Some Needs_reconciliation
                                             else role_assignment d r | [] \<Rightarrow> None);
          l = presentationLabels r Manual_takeover (b_agent_state b) t;
          d' = set_binding g r (patch_binding
                 \<lparr>bp_controlMode = Some Manual_takeover, bp_agentState = None, bp_lastSourceSequence = Some n,
                  bp_nativeTerminalTitle = Some (nativeTerminalTitle l), bp_piStatus = Some (piStatus l)\<rparr> b) d
      in (case assignments d of
            a # _ \<Rightarrow> if a_role a = r \<and> a_state a = Active
                     then set_assignment (a_id a) (patch_assignment
                       \<lparr>ap_state = Some Needs_reconciliation, ap_accepted = None, ap_lastAckStatus = None\<rparr> now a) d'
                     else d'
          | [] \<Rightarrow> d'))"

lemma moves_taken_over:
  assumes ok: "base_ok d" "team_ok d" and b: "find_binding g r d = Some b"
  shows "team_ok (taken_over g r n now b d)"
    and "view (taken_over g r n now b d) =
      \<lparr>mode = (mode (view d))(r \<mapsto> Manual_takeover),
       task = (if r = Builder \<and> task (view d) = Some Active then Some Needs_reconciliation else task (view d))\<rparr>"
proof -
  obtain a where a: "assignments d = [a]" "a_role a = Builder"
    using ok(1) binding_goal [OF ok(1) b] by (auto simp: base_ok_def one_assignment_def)
  have fa: "find_assignment (a_id a) d = Some a" using a by (simp add: find_assignment_def)
  define t where "t = (if a_role a = r \<and> a_state a = Active then Some Needs_reconciliation else role_assignment d r)"
  define l where "l = presentationLabels r Manual_takeover (b_agent_state b) t"
  define q where "q = \<lparr>bp_controlMode = Some Manual_takeover, bp_agentState = None, bp_lastSourceSequence = Some n,
                  bp_nativeTerminalTitle = Some (nativeTerminalTitle l), bp_piStatus = Some (piStatus l)\<rparr>"
  define p where "p = \<lparr>ap_state = Some Needs_reconciliation, ap_accepted = (None :: jstr option option), ap_lastAckStatus = (None :: ack_status option)\<rparr>"
  define a' where "a' = (if a_role a = r \<and> a_state a = Active then patch_assignment p now a else a)"
  let ?d = "set_binding g r (patch_binding q b) d"
  have eq: "taken_over g r n now b d = (if a_role a = r \<and> a_state a = Active
      then set_assignment (a_id a) (patch_assignment p now a) ?d else ?d)"
    using a by (simp add: taken_over_def Let_def t_def l_def q_def p_def)
  have as: "assignments (taken_over g r n now b d) = [a']"
    using a set_the_assignment [of ?d a "a_id a" p now] by (auto simp: eq a'_def db_simps)
  show "team_ok (taken_over g r n now b d)"
    by (rule team_ok_takeover [OF ok b a(1) as, where q = q and t = t])
       (auto simp: a'_def p_def t_def q_def l_def eq db_simps role_assignment_def a(1))
  have fa': "find_assignment (a_id a) ?d = Some a" using fa by (simp add: db_simps)
  have o: "base_ok ?d" using ok(1) by simp
  have v: "view ?d = (view d)\<lparr>mode := (mode (view d))(r \<mapsto> Manual_takeover)\<rparr>"
    using view_set_binding [OF ok(1) b, of "patch_binding q b"] by (simp add: q_def)
  show "view (taken_over g r n now b d) =
      \<lparr>mode = (mode (view d))(r \<mapsto> Manual_takeover),
       task = (if r = Builder \<and> task (view d) = Some Active then Some Needs_reconciliation else task (view d))\<rparr>"
    using a v view_set_assignment(1) [OF o fa', of p now] view_set_assignment(2) [OF ok(1) fa]
    by (auto simp: eq p_def)
qed

lemma taken_over_cases:
  assumes "assignments d = [a]"
  shows "a_role a = r \<and> a_state a = Active \<Longrightarrow>
     set_assignment (a_id a) (patch_assignment
          \<lparr>ap_state = Some Needs_reconciliation, ap_accepted = None, ap_lastAckStatus = None\<rparr> now a)
       (set_binding g r (patch_binding
          \<lparr>bp_controlMode = Some Manual_takeover, bp_agentState = None, bp_lastSourceSequence = Some n,
           bp_nativeTerminalTitle = Some (nativeTerminalTitle
             (presentationLabels r Manual_takeover (b_agent_state b) (Some Needs_reconciliation))),
           bp_piStatus = Some (piStatus
             (presentationLabels r Manual_takeover (b_agent_state b) (Some Needs_reconciliation)))\<rparr> b) d)
     = taken_over g r n now b d"
    and "a_role a = r \<and> a_state a \<noteq> Active \<Longrightarrow>
     set_binding g r (patch_binding
          \<lparr>bp_controlMode = Some Manual_takeover, bp_agentState = None, bp_lastSourceSequence = Some n,
           bp_nativeTerminalTitle = Some (nativeTerminalTitle
             (presentationLabels r Manual_takeover (b_agent_state b) (Some (a_state a)))),
           bp_piStatus = Some (piStatus
             (presentationLabels r Manual_takeover (b_agent_state b) (Some (a_state a))))\<rparr> b) d
     = taken_over g r n now b d"
    and "a_role a \<noteq> r \<Longrightarrow>
     set_binding g r (patch_binding
          \<lparr>bp_controlMode = Some Manual_takeover, bp_agentState = None, bp_lastSourceSequence = Some n,
           bp_nativeTerminalTitle = Some (nativeTerminalTitle
             (presentationLabels r Manual_takeover (b_agent_state b) None)),
           bp_piStatus = Some (piStatus
             (presentationLabels r Manual_takeover (b_agent_state b) None))\<rparr> b) d
     = taken_over g r n now b d"
  using assms by (auto simp: taken_over_def Let_def role_assignment_def)

lemma cursor_or_last: "base_ok (db s) \<Longrightarrow> goals (db s) \<noteq> [] \<Longrightarrow> cursor_or k s = last_sequence (db s)"
  by (cases "goals (db s)") (auto simp: cursor_or_def getGoal_def first_by_def base_ok_def log_ok_def)

lemma taken_over_frame [db_simps]:
  "events (taken_over g r n now b d) = events d" "last_sequence (taken_over g r n now b d) = last_sequence d"
  "goals (taken_over g r n now b d) = goals d"
  by (auto simp: taken_over_def Let_def db_simps split: list.split)

lemma taken_over_base [simp]: "base_ok d \<Longrightarrow> base_ok (taken_over g r n now b d)"
  by (auto simp: taken_over_def Let_def split: list.split)

lemma role_assignment_taken_over:
  "assignments d = [a] \<Longrightarrow> role_assignment (taken_over g r n now b d) r =
     (if a_role a = r then Some (if a_state a = Active then Needs_reconciliation else a_state a) else None)"
  by (auto simp: taken_over_def Let_def role_assignment_def db_simps set_assignment_def)

lemma wp_take_over:
  assumes ok: "base_ok (db s)" and b: "find_binding g r (db s) = Some b"
    and st: "\<not> inTransaction s" "next_fault s = No_fault"
    and fresh: "\<not> source_event_exists x (be_eventId e) (db s)" "b_last_source_sequence b < be_sequence e"
    and n: "0 \<le> be_sequence e"
    and Q: "\<And>row1 row2 now res s'.
      \<lbrakk>row1 = next_row (human_input_event g r x e) (s\<lparr>inTransaction := True, faults := tl (faults s)\<rparr>);
       db s' = add_event row2 (taken_over g r (be_sequence e) now b (add_event row1 (db s)));
       event_insertable row1 (db s);
       event_insertable row2 (taken_over g r (be_sequence e) now b (add_event row1 (db s)));
       e_sequence row2 = last_sequence (db s) + 2; e_source_sequence row2 = None;
       e_role row2 = Some r; e_team_goal_id row2 = g; e_event_type row2 = js ''manual_takeover'';
       \<not> inTransaction s';
       res = \<lparr>tr_changed = True, tr_duplicate = False, tr_stale = False,
         tr_eventSequences = [last_sequence (db s) + 1, last_sequence (db s) + 2],
         tr_labels = presentationLabels r Manual_takeover (b_agent_state b) (role_assignment (db s') r),
         tr_eventCursor = last_sequence (db s) + 2\<rparr>\<rbrakk> \<Longrightarrow> Q res s'"
    and E: "\<And>f s'. db s' = db s \<Longrightarrow> \<not> inTransaction s' \<Longrightarrow> E f s'"
  shows "wp (applyInteractiveInput g r x e) Q E s"
proof -
  obtain a where a: "assignments (db s) = [a]" "a_role a = Builder"
    using ok binding_goal [OF ok b] by (auto simp: base_ok_def one_assignment_def)
  have fa: "find_assignment (a_id a) (db s) = Some a" using a by (simp add: find_assignment_def)
  let ?row1 = "next_row (human_input_event g r x e) (s\<lparr>inTransaction := True, faults := tl (faults s)\<rparr>)"
  have ok1: "event_insertable ?row1 (db s) \<Longrightarrow> base_ok (add_event ?row1 (db s))"
    using ok by simp
  have act: "getActiveAssignmentForRole g r s' = (if a_role a = r then Some a else None)"
    if "db s' = add_event ?row1 (db s)" "event_insertable ?row1 (db s)" for s'
    using active_assignment [of s' g r b] that ok b a by (simp add: db_simps)
  have a1: "assignments (add_event ?row1 (db s)) = [a]" using a by (simp add: db_simps)
  note taken = taken_over_cases [OF a1, where now = "clock s (Suc (clock_reads s))"]
  have g: "goals (db s) \<noteq> []" using binding_goal [OF ok b] .
  show ?thesis
  proof -
    consider "a_role a = r \<and> a_state a = Active" | "a_role a = r \<and> a_state a \<noteq> Active"
      | "a_role a \<noteq> r" by blast
    then show ?thesis
      using fresh st b n
      apply cases
        apply (simp_all add: applyInteractiveInput_def wp_simps E act take_over_assignment_def db_simps fa
          Let_def taken del: stringify.simps presentationLabels_sel)
        apply (intro impI, rule Q, rule refl, simp add: taken,
          (simp add: db_simps takeover_event_def cursor_or_last ok1 g role_assignment_taken_over [OF a1]; fail)+)+
      done
  qed
qed

lemma wp_unchanged [wp_simps]:
  "wp (unchanged_result dup b) Q E s =
     Q \<lparr>tr_changed = False, tr_duplicate = dup, tr_stale = \<not> dup, tr_eventSequences = [],
        tr_labels = binding_labels b, tr_eventCursor = cursor_or 0 s\<rparr> s"
  by (simp add: unchanged_result_def wp_simps)

lemma moves_interactive:
  assumes ok: "base_ok (db s)" "team_ok (db s)" and nn: "source_ok (db s)"
  shows "wp (applyInteractiveInput g r x e) (\<lambda>_ s'. team_moves (db s) (db s')) (\<lambda>_ s'. db s' = db s) s"
proof (cases "find_binding g r (db s)")
  case None
  then show ?thesis by (simp add: applyInteractiveInput_def wp_simps)
next
  case (Some b)
  show ?thesis
  proof (cases "inTransaction s \<or> next_fault s \<noteq> No_fault \<or> source_event_exists x (be_eventId e) (db s)
      \<or> be_sequence e \<le> b_last_source_sequence b")
    case True
    have "wp (applyInteractiveInput g r x e) (\<lambda>_ s'. team_moves (db s) (db s')) (\<lambda>_ s'. db s' = db s) s"
      if "next_fault s \<noteq> No_fault"
      using Some unfolding applyInteractiveInput_def wp_bind wp_getBinding by (simp add: wp_faulty [OF that])
    with True show ?thesis using Some ok by (cases "next_fault s") (auto simp: applyInteractiveInput_def wp_simps)
  next
    case False
    have "0 \<le> b_last_source_sequence b"
      using nn found_binding [OF Some] by (auto simp: source_ok_def intro: sources_below_last)
    then have n: "0 \<le> be_sequence e" using False by linarith
    have mv: "team_moves (db s) (taken_over g r k now b (add_event row (db s)))"
      if "event_insertable row (db s)" "e_sequence row = last_sequence (db s) + 1" for k now row
    proof -
      let ?d = "add_event row (db s)"
      have o: "base_ok ?d" "team_ok ?d" "find_binding g r ?d = Some b"
        using ok that Some by (simp_all add: base_ok_def db_simps)
      have m: "mode (view (db s)) r \<noteq> None" using mode_view [OF ok(1) Some] by simp
      show ?thesis
        unfolding team_moves_def moves_taken_over(2) [OF o] view_frame
        using moves_taken_over(1) [OF o] take_over [OF m refl] by blast
    qed
    show ?thesis
      by (rule wp_take_over [OF ok(1) Some]) (use False n mv in \<open>auto simp: db_simps\<close>)
  qed
qed

lemma moves_discard:
  assumes "team_ok (db s)" "wp m (\<lambda>_ s'. team_moves (db s) (db s')) (\<lambda>_ s'. db s' = db s) s"
  shows "wp (discard m) (\<lambda>_ s'. team_moves (db s) (db s')) (\<lambda>_ s'. team_moves (db s) (db s')) s"
  unfolding discard_def wp_bind wp_ret_fun by (rule wp_mono [OF assms(2)]) (simp_all add: assms(1))

theorem moves_exec_op:
  assumes "base_ok (db s)" "source_ok (db s)" "team_ok (db s)"
  shows "wp (exec_op op) (\<lambda>_ s'. team_moves (db s) (db s')) (\<lambda>_ s'. team_moves (db s) (db s')) s"
proof (cases op)
  case (Bootstrap c)
  then show ?thesis using moves_discard [OF assms(3) moves_bootstrap [OF assms(1,3), of c]] by simp
next
  case (Handshake h)
  then show ?thesis using binding_goal [OF assms(1)] assms(3)
    by (auto simp: exec_defs wp_simps db_simps getGoal_None_iff split: option.split prod.split)
next
  case (Accept i r x)
  then show ?thesis using moves_discard [OF assms(3) moves_accept [OF assms(1,3)]] by simp
next
  case (Duplicate_ack i r x)
  then show ?thesis using moves_discard [OF assms(3) moves_duplicate [OF assms(1,3)]] by simp
next
  case (Record_event g r x e)
  then show ?thesis using moves_discard [OF assms(3) moves_record [OF assms(1,3)]] by simp
next
  case (Interactive_input g r x e)
  then show ?thesis using moves_discard [OF assms(3) moves_interactive [OF assms(1,3,2)]] by simp
qed (simp_all add: assms exec_defs wp_simps split: option.split sum.split, simp_all add: assms wp_def)

section \<open>Reachable stores\<close>

definition db_ok :: "database \<Rightarrow> bool" where
  "db_ok d \<longleftrightarrow> base_ok d \<and> source_ok d \<and> team_ok d"

lemma db_ok_empty [simp]: "db_ok empty_database"
  by (simp add: db_ok_def base_ok_def log_ok_def keys_ok_def one_assignment_def source_ok_def team_ok_def
      empty_database_def)

lemma db_ok_exec_op: "db_ok (db s) \<Longrightarrow> db_ok (db (snd (exec_op op s)))"
  using base_exec_op [of s op] source_exec_op [of s op] moves_exec_op [of s op]
  by (auto simp: db_ok_def team_moves_def wp_def split: prod.splits sum.splits)

lemma db_ok_run_ops: "db_ok (db s) \<Longrightarrow> db_ok (db (run_ops ops s))"
  by (induction ops arbitrary: s) (simp_all add: db_ok_exec_op)

lemma open_store_ok [simp]: "db_ok (db (open_store j ids ticks))" "inTransaction (open_store j ids ticks) = False"
  by (simp_all add: open_store_def)

end
