(* ===== verification/Framing.thy ===== *)
theory Framing
  imports Json
begin

text \<open>
  Newline-delimited framing, shared by the two decoders of the program
  (\<open>NdjsonDecoder\<close> of src/protocol.ts and of observer/contracts.ts): the buffered text is
  cut at line breaks, each line is parsed, and what follows the last break stays buffered.
  The codec itself (how one line is parsed) is a parameter here; the locale \<open>line_codec\<close>
  states what a codec promises, and both codecs interpret it.
\<close>

definition split_line :: "jstr \<Rightarrow> (jstr \<times> jstr) option" where
  "split_line s =
     (if 10 \<in> set s then Some (takeWhile (\<lambda>c. c \<noteq> 10) s, tl (dropWhile (\<lambda>c. c \<noteq> 10) s)) else None)"

definition strip_cr :: "jstr \<Rightarrow> jstr" where
  "strip_cr s = (if s \<noteq> [] \<and> last s = 13 then butlast s else s)"

lemma split_line_length: "split_line s = Some (l, r) \<Longrightarrow> length r < length s"
proof -
  assume "split_line s = Some (l, r)"
  then have i: "10 \<in> set s" and r: "r = tl (dropWhile (\<lambda>c. c \<noteq> 10) s)"
    by (auto simp: split_line_def split: if_splits)
  then have "dropWhile (\<lambda>c. c \<noteq> 10) s \<noteq> []" by (auto simp: dropWhile_eq_Nil_conv)
  then have "length r < length (dropWhile (\<lambda>c. c \<noteq> 10) s)" using r by simp
  then show ?thesis by (metis length_dropWhile_le less_le_trans)
qed

lemma split_line_break: "10 \<notin> set l \<Longrightarrow> split_line (l @ 10 # r) = Some (l, r)"
  by (simp add: split_line_def takeWhile_append dropWhile_append)

lemma split_line_append: "split_line s = Some (l, r) \<Longrightarrow> split_line (s @ t) = Some (l, r @ t)"
proof -
  assume a: "split_line s = Some (l, r)"
  then have i: "10 \<in> set s" by (auto simp: split_line_def split: if_splits)
  then obtain u v where s: "s = u @ 10 # v" "10 \<notin> set u" by (metis split_list_first)
  then have "l = u" "r = v" using a by (simp_all add: split_line_break)
  then show ?thesis using s by (simp add: split_line_break)
qed

text \<open>The receive loop: take complete lines off the front of the buffer, in order.\<close>

function drain :: "(jstr \<Rightarrow> 'e + 'f) \<Rightarrow> 'e \<Rightarrow> jstr \<Rightarrow> 'e + ('f list \<times> jstr)" where
  "drain parse_line empty_line buf =
     (case split_line buf of
        None \<Rightarrow> Inr ([], buf)
      | Some (line, rest) \<Rightarrow>
          (let line' = strip_cr line
           in if line' = [] then Inl empty_line
              else andThen (parse_line line')
                (\<lambda>f. andThen (drain parse_line empty_line rest) (\<lambda>(fs, b). Inr (f # fs, b)))))"
  by pat_completeness auto
termination
  by (relation "measure (\<lambda>(p, e, b). length b)") (auto dest: split_line_length)

declare drain.simps [simp del]

record decoder =
  buffer :: jstr
  lineOffset :: nat

definition fresh_decoder :: decoder where
  "fresh_decoder = \<lparr>buffer = [], lineOffset = 0\<rparr>"

lemma drain_None: "split_line buf = None \<Longrightarrow> drain p e buf = Inr ([], buf)"
  by (simp add: drain.simps)

lemma drain_rest: "drain p e buf = Inr (fs, b) \<Longrightarrow> split_line b = None"
proof (induction p e buf arbitrary: fs b rule: drain.induct)
  case (1 p e buf)
  show ?case
  proof (cases "split_line buf")
    case None
    with 1 show ?thesis by (simp add: drain.simps)
  next
    case (Some x)
    obtain line rest where x: "x = (line, rest)" by (cases x)
    from "1.prems" Some x obtain f fs' where
      "strip_cr line \<noteq> []" "p (strip_cr line) = Inr f" "drain p e rest = Inr (fs', b)"
      by (subst (asm) drain.simps) (auto simp: Let_def result_simps split: if_splits)
    with "1.IH" Some x show ?thesis by blast
  qed
qed

lemma drain_append:
  "drain p e s = Inr (fs, b) \<Longrightarrow>
   drain p e (s @ t) = andThen (drain p e (b @ t)) (\<lambda>(gs, c). Inr (fs @ gs, c))"
proof (induction p e s arbitrary: fs b rule: drain.induct)
  case (1 p e s)
  show ?case
  proof (cases "split_line s")
    case None
    with "1.prems" have "fs = []" "b = s" by (simp_all add: drain.simps)
    then show ?thesis by (cases "drain p e (s @ t)") auto
  next
    case (Some x)
    obtain line rest where x: "x = (line, rest)" by (cases x)
    from "1.prems" Some x obtain f fs' where f:
      "strip_cr line \<noteq> []" "p (strip_cr line) = Inr f" "drain p e rest = Inr (fs', b)" "fs = f # fs'"
      by (subst (asm) drain.simps) (auto simp: Let_def result_simps split: if_splits)
    have "drain p e (rest @ t) = andThen (drain p e (b @ t)) (\<lambda>(gs, c). Inr (fs' @ gs, c))"
      using "1.IH" Some x f by blast
    moreover have "split_line (s @ t) = Some (line, rest @ t)"
      using Some x by (simp add: split_line_append)
    ultimately show ?thesis using f
      by (subst drain.simps) (auto simp: Let_def andThen_assoc split: sum.splits prod.splits
          intro!: arg_cong [where f = "andThen _"] simp: andThen_def)
  qed
qed

text \<open>
  One received chunk: it is appended to the buffer, the complete lines are taken off, and
  what remains must stay below the buffer limit.
\<close>

definition push_with ::
    "(jstr \<Rightarrow> 'e + 'f) \<Rightarrow> 'e \<Rightarrow> nat \<Rightarrow> 'e \<Rightarrow> decoder \<Rightarrow> jstr \<Rightarrow> 'e + ('f list \<times> decoder)" where
  "push_with parse_line empty_line limit overflow d chunk =
     andThen (drain parse_line empty_line (buffer d @ chunk)) (\<lambda>(frames, rest).
     andThen (guardR (utf8Bytes rest \<le> limit) overflow) (\<lambda>_.
     Inr (frames, \<lparr>buffer = rest, lineOffset = lineOffset d + length frames\<rparr>)))"

fun push_all_with ::
    "(jstr \<Rightarrow> 'e + 'f) \<Rightarrow> 'e \<Rightarrow> nat \<Rightarrow> 'e \<Rightarrow> decoder \<Rightarrow> jstr list \<Rightarrow> 'e + ('f list \<times> decoder)" where
  "push_all_with p e l ov d [] = Inr ([], d)"
| "push_all_with p e l ov d (c # cs) =
     andThen (push_with p e l ov d c) (\<lambda>(fs, d').
     andThen (push_all_with p e l ov d' cs) (\<lambda>(gs, d''). Inr (fs @ gs, d'')))"

lemma push_with_Inr:
  "push_with p e l ov d c = Inr (fs, d') \<longleftrightarrow>
     drain p e (buffer d @ c) = Inr (fs, buffer d') \<and> utf8Bytes (buffer d') \<le> l \<and>
     lineOffset d' = lineOffset d + length fs"
  by (cases d') (auto simp: push_with_def andThen_Inr_iff guardR_Inr_iff split: prod.splits)

text \<open>Cutting a stream in two chunks instead of one changes nothing when both are accepted.\<close>

lemma push_with_append:
  assumes "push_with p e l ov d c1 = Inr (fs, d1)" and "push_with p e l ov d1 c2 = Inr (gs, d2)"
  shows "push_with p e l ov d (c1 @ c2) = Inr (fs @ gs, d2)"
  using assms drain_append [of p e "buffer d @ c1" fs "buffer d1" c2]
  by (simp add: push_with_Inr)

lemma utf8Bytes_prefix: "utf8Bytes s \<le> utf8Bytes (s @ t)"
proof (induction s rule: utf8Bytes.induct)
  case (2 c)
  then show ?case by (cases t) auto
qed auto

text \<open>The text of a sequence of frames: each line closed by a line break.\<close>

definition wire :: "('f \<Rightarrow> jstr) \<Rightarrow> 'f list \<Rightarrow> jstr" where
  "wire line_of fs = concat (map (\<lambda>f. line_of f @ [10]) fs)"

text \<open>
  What a codec promises: every frame that satisfies \<open>good\<close> is written as one line that
  parses back to it.
\<close>

locale line_codec =
  fixes line_of :: "'f \<Rightarrow> jstr"
    and parse_line :: "jstr \<Rightarrow> 'e + 'f"
    and good :: "'f \<Rightarrow> bool"
    and empty_line :: 'e
    and limit :: nat
    and overflow :: 'e
  assumes line_clean: "good f \<Longrightarrow> clean (line_of f)"
    and line_parses: "good f \<Longrightarrow> parse_line (line_of f) = Inr f"
    and line_nonempty: "good f \<Longrightarrow> line_of f \<noteq> []"
    and line_bounded: "good f \<Longrightarrow> utf8Bytes (line_of f) \<le> limit"
begin

lemma strip_cr_line: "good f \<Longrightarrow> strip_cr (line_of f) = line_of f"
  using clean_no_break [OF line_clean [of f]] line_nonempty [of f]
  by (auto simp: strip_cr_def dest: last_in_set)

lemma drain_line:
  "good f \<Longrightarrow> drain parse_line empty_line (line_of f @ 10 # r) =
     andThen (drain parse_line empty_line r) (\<lambda>(fs, b). Inr (f # fs, b))"
  using clean_no_break [OF line_clean [of f]]
  by (subst drain.simps) (simp add: split_line_break strip_cr_line line_nonempty line_parses)

lemma drain_wire:
  "list_all good fs \<Longrightarrow> drain parse_line empty_line (wire line_of fs @ r) =
     andThen (drain parse_line empty_line r) (\<lambda>(gs, b). Inr (fs @ gs, b))"
proof (induction fs)
  case Nil
  then show ?case by (cases "drain parse_line empty_line r") (auto simp: wire_def)
next
  case (Cons f fs)
  then show ?case
    by (cases "drain parse_line empty_line r") (auto simp: wire_def drain_line)
qed

lemma drain_wire_all: "list_all good fs \<Longrightarrow> drain parse_line empty_line (wire line_of fs) = Inr (fs, [])"
  using drain_wire [of fs "[]"] by (simp add: drain_None split_line_def)

text \<open>Any prefix of the text is some whole frames and the beginning of a line.\<close>

lemma wire_prefix:
  "list_all good fs \<Longrightarrow> p @ q = wire line_of fs \<Longrightarrow>
   \<exists>fs1 fs2 b. fs = fs1 @ fs2 \<and> p = wire line_of fs1 @ b \<and> b @ q = wire line_of fs2 \<and>
     10 \<notin> set b \<and> utf8Bytes b \<le> limit"
proof (induction fs arbitrary: p)
  case Nil
  then show ?case by (auto simp: wire_def)
next
  case (Cons f fs)
  let ?l = "line_of f @ [10]"
  have eq: "p @ q = ?l @ wire line_of fs" using Cons.prems(2) by (simp add: wire_def)
  then obtain us where us: "(p = ?l @ us \<and> us @ q = wire line_of fs) \<or> (p @ us = ?l \<and> q = us @ wire line_of fs)"
    unfolding append_eq_append_conv2 by blast
  consider u where "p = ?l @ u" "u @ q = wire line_of fs"
    | u where "p @ u = ?l" "q = u @ wire line_of fs" "u \<noteq> []"
  proof (cases "us = []")
    case True
    with us have "p = ?l @ []" "[] @ q = wire line_of fs" by auto
    then show ?thesis by (rule that(1))
  next
    case False
    with us that show ?thesis by blast
  qed
  then show ?case
  proof cases
    case 1
    have "list_all good fs" using Cons.prems(1) by simp
    from Cons.IH [OF this 1(2)] obtain fs1 fs2 b where
      i: "fs = fs1 @ fs2" "u = wire line_of fs1 @ b" "b @ q = wire line_of fs2"
      "10 \<notin> set b" "utf8Bytes b \<le> limit" by blast
    then show ?thesis using 1
      by (intro exI [of _ "f # fs1"] exI [of _ fs2] exI [of _ b]) (simp add: i wire_def)
  next
    case 2
    have "\<exists>v. line_of f = p @ v"
      using 2(1,3) by (metis butlast_append butlast_snoc)
    then obtain v where v: "line_of f = p @ v" by blast
    have g: "good f" using Cons.prems(1) by simp
    have "10 \<notin> set p" "utf8Bytes p \<le> limit"
      using clean_no_break [OF line_clean [OF g]] line_bounded [OF g] utf8Bytes_prefix [of p v] v by auto
    then show ?thesis using 2 eq
      by (intro exI [of _ "[]"] exI [of _ "f # fs"] exI [of _ p]) (simp add: wire_def)
  qed
qed

lemma no_break_wire: "10 \<notin> set (wire line_of fs) \<Longrightarrow> fs = []"
  by (cases fs) (auto simp: wire_def)

text \<open>
  However the text of a sequence of good frames is cut into chunks, the decoder returns
  exactly that sequence and an empty buffer.
\<close>

lemma push_all_wire:
  "list_all good fs \<Longrightarrow> 10 \<notin> set (buffer d) \<Longrightarrow> buffer d @ concat cs = wire line_of fs \<Longrightarrow>
   push_all_with parse_line empty_line limit overflow d cs =
     Inr (fs, \<lparr>buffer = [], lineOffset = lineOffset d + length fs\<rparr>)"
proof (induction cs arbitrary: d fs)
  case Nil
  then have "fs = []" using no_break_wire [of fs] by simp
  with Nil show ?case by (simp add: wire_def)
next
  case (Cons c cs)
  have "(buffer d @ c) @ concat cs = wire line_of fs" using Cons.prems by simp
  from wire_prefix [OF Cons.prems(1) this] obtain fs1 fs2 b where
    s: "fs = fs1 @ fs2" "buffer d @ c = wire line_of fs1 @ b" "b @ concat cs = wire line_of fs2"
    "10 \<notin> set b" "utf8Bytes b \<le> limit" by blast
  have g: "list_all good fs1" "list_all good fs2" using Cons.prems(1) s(1) by simp_all
  have "drain parse_line empty_line (buffer d @ c) = Inr (fs1, b)"
    using drain_wire [OF g(1), of b] s by (simp add: drain_None split_line_def)
  then have "push_with parse_line empty_line limit overflow d c =
      Inr (fs1, \<lparr>buffer = b, lineOffset = lineOffset d + length fs1\<rparr>)"
    using s(5) by (simp add: push_with_Inr)
  moreover have "push_all_with parse_line empty_line limit overflow
      \<lparr>buffer = b, lineOffset = lineOffset d + length fs1\<rparr> cs =
      Inr (fs2, \<lparr>buffer = [], lineOffset = lineOffset d + length fs1 + length fs2\<rparr>)"
    using Cons.IH [OF g(2)] s by simp
  ultimately show ?case using s(1) by (simp add: add.assoc)
qed

end

end
