(* ===== verification/Codec.thy ===== *)
theory Codec
  imports Framing RunnerFrames
begin

text \<open>
  The frame codec of src/protocol.ts: \<open>parseFrameLine\<close>, the incremental
  \<open>NdjsonDecoder\<close> and \<open>encodeFrame\<close>. The codec interprets the locale \<open>line_codec\<close>, so the
  framing lemmas hold for it. The offset of a line appears in error details only, which are
  not modelled; the decoder still counts it.
\<close>

record decoded_frame =
  df_type :: jstr
  df_messageId :: jstr
  df_body :: frame_body

definition isClientFrameType :: "jstr \<Rightarrow> bool" where
  "isClientFrameType t = (t \<in> set (map js CLIENT_FRAME_TYPES))"

definition isRunnerFrameType :: "jstr \<Rightarrow> bool" where
  "isRunnerFrameType t = (t \<in> set (map js RUNNER_FRAME_TYPES))"

definition parseFrameLine :: "jstr \<Rightarrow> protocol_code + decoded_frame" where
  "parseFrameLine line =
     (case parse_json line of
        None \<Rightarrow> Inl Malformed_json
      | Some parsed \<Rightarrow>
          (case object_of (Some parsed) of
             None \<Rightarrow> Inl Malformed_frame
           | Some m \<Rightarrow>
               andThen (requireExactFields m [''protocol'', ''type'', ''messageId'', ''body'']) (\<lambda>_.
               andThen (guardR (own_prop m ''protocol'' = Some (JStr PROTOCOL_ID)) Unsupported_protocol) (\<lambda>_.
               (case string_of (own_prop m ''type'') of
                  None \<Rightarrow> Inl Unknown_frame_type
                | Some type \<Rightarrow>
                    andThen (guardR (isClientFrameType type \<or> isRunnerFrameType type) Unknown_frame_type) (\<lambda>_.
                    (case string_of (own_prop m ''messageId'') of
                       None \<Rightarrow> Inl Invalid_id
                     | Some messageId \<Rightarrow>
                         andThen (guardR (MESSAGE_ID_RE messageId) Invalid_id) (\<lambda>_.
                         andThen (requireObject (own_prop m ''body'')) (\<lambda>b.
                         andThen (guardR (utf8Bytes line \<le> MAX_FRAME_BYTES) Frame_too_large) (\<lambda>_.
                         andThen (validateBodyForType type (Some (JObj b))) (\<lambda>body.
                         Inr \<lparr>df_type = type, df_messageId = messageId, df_body = body\<rparr>)))))))))))"

definition push :: "decoder \<Rightarrow> jstr \<Rightarrow> protocol_code + (decoded_frame list \<times> decoder)" where
  "push d chunk = push_with parseFrameLine Malformed_frame MAX_DECODE_BUFFER_BYTES Decoder_overflow d chunk"

definition push_all :: "decoder \<Rightarrow> jstr list \<Rightarrow> protocol_code + (decoded_frame list \<times> decoder)" where
  "push_all d chunks =
     push_all_with parseFrameLine Malformed_frame MAX_DECODE_BUFFER_BYTES Decoder_overflow d chunks"

definition frame_json :: "jstr \<Rightarrow> jstr \<Rightarrow> frame_body \<Rightarrow> json" where
  "frame_json type messageId body =
     JObj [(js ''protocol'', JStr PROTOCOL_ID), (js ''type'', JStr type),
           (js ''messageId'', JStr messageId), (js ''body'', JObj (body_json body))]"

definition encodeFrame :: "jstr \<Rightarrow> jstr \<Rightarrow> obj \<Rightarrow> protocol_code + jstr" where
  "encodeFrame type messageId body =
     andThen (guardR (isClientFrameType type \<or> isRunnerFrameType type) Unknown_frame_type) (\<lambda>_.
     andThen (guardR (MESSAGE_ID_RE messageId) Invalid_id) (\<lambda>_.
     andThen (validateBodyForType type (Some (JObj body))) (\<lambda>validatedBody.
     let line = stringify (frame_json type messageId validatedBody)
     in andThen (guardR (utf8Bytes line \<le> MAX_FRAME_BYTES) Frame_too_large) (\<lambda>_.
        Inr (line @ [10])))))"

section \<open>The objects of frames are written and read back\<close>

lemma insert_prop_plain: "\<not> is_index k \<Longrightarrow> insert_prop k v m = m @ [(k, v)]"
  by (induction k v m rule: insert_prop.induct) auto

lemma build_obj_plain_acc:
  "distinct (map fst (acc @ m)) \<Longrightarrow> list_all (\<lambda>e. \<not> is_index (fst e)) m \<Longrightarrow>
   fold (\<lambda>e. obj_put (fst e) (snd e)) m acc = acc @ m"
proof (induction m arbitrary: acc)
  case (Cons e m)
  have "obj_put (fst e) (snd e) acc = acc @ [e]"
    using Cons.prems by (auto simp: obj_put_def insert_prop_plain)
  then show ?case using Cons.prems Cons.IH [of "acc @ [e]"] by simp
qed simp

lemma build_obj_plain:
  "distinct (map fst m) \<Longrightarrow> list_all (\<lambda>e. \<not> is_index (fst e)) m \<Longrightarrow> build_obj m = m"
  using build_obj_plain_acc [of "[]" m] by (simp add: build_obj_def)

text \<open>A name with a letter in it is no array index.\<close>

lemma js_not_index: "list_ex (\<lambda>c. \<not> is_digit (of_char c)) s \<Longrightarrow> \<not> is_index (js s)"
  by (auto simp: is_index_def js_def list_ex_iff list_all_iff)

lemma json_ok_obj:
  "distinct (map fst m) \<Longrightarrow> list_all (\<lambda>e. \<not> is_index (fst e) \<and> json_ok (snd e)) m \<Longrightarrow> json_ok (JObj m)"
  by (auto simp: list_all_iff intro: build_obj_plain)

lemma json_ok_whole: "\<bar>n\<bar> \<le> MAX_SAFE_INTEGER \<Longrightarrow> json_ok (JWhole n)"
  by (simp add: MAX_SAFE_INTEGER_def safe_limit_def)

lemma json_ok_null_or: "(\<And>y. x = Some y \<Longrightarrow> json_ok (f y)) \<Longrightarrow> json_ok (null_or f x)"
  by (cases x) (simp_all add: null_or_def)

text \<open>The payloads are the only part of a body whose objects come from outside.\<close>

fun payloads_ok :: "frame_body \<Rightarrow> bool" where
  "payloads_ok (Bridge_event b) = json_ok (JObj (be_payload b))"
| "payloads_ok (Event b) = json_ok (JObj (er_payload b))"
| "payloads_ok (Event_page b) = list_all (\<lambda>e. json_ok (JObj (er_payload e))) (ep_events b)"
| "payloads_ok _ = True"

lemma nums_ok: "0 \<le> n \<Longrightarrow> n \<le> MAX_SAFE_INTEGER \<Longrightarrow> json_ok (JWhole n)"
  "1 \<le> n \<Longrightarrow> n \<le> MAX_SAFE_INTEGER \<Longrightarrow> json_ok (JWhole n)"
  "1 \<le> n \<Longrightarrow> n \<le> host_pid_max \<Longrightarrow> json_ok (JWhole n)"
  by (auto simp: host_pid_max_def MAX_SAFE_INTEGER_def safe_limit_def)

lemma event_record_json_ok:
  "event_record_ok e \<Longrightarrow> json_ok (JObj (er_payload e)) \<Longrightarrow> json_ok (JObj (event_record_json e))"
  by (rule json_ok_obj)
     (auto simp del: json_ok.simps(1,3) simp: event_record_json_def event_record_ok_def nums_ok js_not_index is_digit_def
       intro!: json_ok_null_or)

lemma role_projection_json_ok:
  "role_projection_ok r \<Longrightarrow> json_ok (JObj (role_projection_json r))"
  by (rule json_ok_obj)
     (auto simp del: json_ok.simps(1,3) simp: role_projection_json_def role_projection_ok_def nums_ok js_not_index is_digit_def
       intro!: json_ok_null_or)




lemmas json_ok_rules = json_ok_obj json_ok_null_or

lemma snapshot_json_ok: "snapshot_ok s \<Longrightarrow> json_ok (JObj (snapshot_json s))"
proof -
  assume ok: "snapshot_ok s"
  have t: "json_ok (JObj (team_goal_json (sn_teamGoal s)))"
    using ok by (intro json_ok_obj)
      (auto simp del: json_ok.simps(1,3) simp: team_goal_json_def snapshot_ok_def team_goal_ok_def
        cursor_ok_def nums_ok js_not_index is_digit_def)
  have r: "\<forall>r \<in> set (sn_roles s). json_ok (JObj (role_projection_json r))"
    using ok by (auto simp: snapshot_ok_def list_all_iff simp del: json_ok.simps intro: role_projection_json_ok)
  have a: "sn_assignment s = Some a \<Longrightarrow> json_ok (JObj (assignment_value_json a))" for a
    by (intro json_ok_obj)
      (auto simp del: json_ok.simps(1,3) simp: assignment_value_json_def js_not_index is_digit_def
        intro!: json_ok_null_or)
  have j: "json_ok (JObj (journal_json (sn_journal s)))"
    by (intro json_ok_obj) (auto simp: journal_json_def js_not_index is_digit_def)
  have c: "json_ok (JWhole (sn_cursor s))"
    using ok by (simp add: snapshot_ok_def cursor_ok_def nums_ok del: json_ok.simps)
  have n: "json_ok (null_or (\<lambda>a. JObj (assignment_value_json a)) (sn_assignment s))"
    using a by (rule json_ok_null_or)
  show ?thesis
    by (rule json_ok_obj)
      (simp_all del: json_ok.simps(1,3) add: snapshot_json_def t r j c n js_not_index is_digit_def list_all_iff)
qed

lemma event_page_json_ok:
  "event_page_ok b \<Longrightarrow> payloads_ok (Event_page b) \<Longrightarrow> json_ok (JObj (event_page_json b))"
proof -
  assume ok: "event_page_ok b" "payloads_ok (Event_page b)"
  then have "\<forall>e \<in> set (ep_events b). json_ok (JObj (event_record_json e))"
    by (auto simp: event_page_ok_def list_all_iff simp del: json_ok.simps intro: event_record_json_ok)
  with ok show ?thesis
    by (intro json_ok_obj)
      (simp_all del: json_ok.simps(1,3) add: event_page_json_def event_page_ok_def cursor_ok_def nums_ok
        js_not_index is_digit_def list_all_iff)
qed

lemma small_bodies_json_ok:
  "bridge_hello_ok b1 \<Longrightarrow> json_ok (JObj (bridge_hello_json b1))"
  "json_ok (JObj (assignment_ack_json b2))"
  "bridge_event_ok b3 \<Longrightarrow> json_ok (JObj (be_payload b3)) \<Longrightarrow> json_ok (JObj (bridge_event_json b3))"
  "projection_hello_ok b4 \<Longrightarrow> json_ok (JObj (projection_hello_json b4))"
  "json_ok (JObj (hello_ack_json b5))"
  "json_ok (JObj (assignment_body_json b6))"
  "presentation_update_ok b7 \<Longrightarrow> json_ok (JObj (presentation_update_json b7))"
  "json_ok (JObj (error_body_json b8))"
  by (rule json_ok_obj;
      auto simp del: json_ok.simps(1,3) simp: body_simps nums_ok js_not_index is_digit_def
        pred_option_def intro!: json_ok_null_or)+

lemma body_json_ok: "body_ok b \<Longrightarrow> payloads_ok b \<Longrightarrow> json_ok (JObj (body_json b))"
  by (cases b)
     (simp_all add: small_bodies_json_ok snapshot_json_ok event_page_json_ok event_record_json_ok
       del: json_ok.simps)

definition frame_line :: "decoded_frame \<Rightarrow> jstr" where
  "frame_line f = stringify (frame_json (df_type f) (df_messageId f) (df_body f))"

definition frame_ok :: "decoded_frame \<Rightarrow> bool" where
  "frame_ok f \<longleftrightarrow>
     df_type f = body_type (df_body f) \<and> MESSAGE_ID_RE (df_messageId f) \<and> body_ok (df_body f) \<and>
     payloads_ok (df_body f) \<and> utf8Bytes (frame_line f) \<le> MAX_FRAME_BYTES"

lemma body_type_known: "isClientFrameType (body_type b) \<or> isRunnerFrameType (body_type b)"
  by (cases b) (simp_all add: isClientFrameType_def isRunnerFrameType_def CLIENT_FRAME_TYPES_def RUNNER_FRAME_TYPES_def)

lemma frame_json_ok: "frame_ok f \<Longrightarrow> json_ok (frame_json (df_type f) (df_messageId f) (df_body f))"
  unfolding frame_json_def
  by (rule json_ok_obj)
     (simp_all add: frame_ok_def body_json_ok js_not_index is_digit_def del: json_ok.simps(3))

lemma parseFrameLine_frame_line:
  assumes ok: "frame_ok f"
  shows "parseFrameLine (frame_line f) = Inr f"
proof -
  have p: "parse_json (frame_line f) = Some (frame_json (df_type f) (df_messageId f) (df_body f))"
    unfolding frame_line_def by (rule parse_stringify) (rule frame_json_ok [OF ok])
  have v: "validateBodyForType (df_type f) (Some (JObj (body_json (df_body f)))) = Inr (df_body f)"
    using ok validateBodyForType_complete by (simp add: frame_ok_def)
  have k: "requireExactFields
      [(js ''protocol'', JStr PROTOCOL_ID), (js ''type'', JStr (df_type f)),
       (js ''messageId'', JStr (df_messageId f)), (js ''body'', JObj (body_json (df_body f)))]
      [''protocol'', ''type'', ''messageId'', ''body''] = Inr ()"
    by (simp add: requireExactFields_iff exact_keys_iff add_mset_commute)
  show ?thesis
    using ok v k body_type_known [of "df_body f"]
    unfolding parseFrameLine_def p
    by (simp add: frame_json_def frame_ok_def)
qed

interpretation protocol_codec: line_codec frame_line parseFrameLine frame_ok Malformed_frame
  MAX_DECODE_BUFFER_BYTES Decoder_overflow
proof unfold_locales
  fix f assume ok: "frame_ok f"
  show "clean (frame_line f)"
    unfolding frame_line_def by (rule clean_stringify) (rule frame_json_ok [OF ok])
  show "parseFrameLine (frame_line f) = Inr f" using ok by (rule parseFrameLine_frame_line)
  show "frame_line f \<noteq> []" by (simp add: frame_line_def frame_json_def)
  show "utf8Bytes (frame_line f) \<le> MAX_DECODE_BUFFER_BYTES"
    using ok by (simp add: frame_ok_def MAX_FRAME_BYTES_def MAX_DECODE_BUFFER_BYTES_def)
qed

text \<open>What \<open>encodeFrame\<close> returns is the line of a frame that satisfies \<open>frame_ok\<close>.\<close>

lemma encodeFrame_Inr:
  assumes "encodeFrame type messageId body = Inr text"
  obtains b where "validateBodyForType type (Some (JObj body)) = Inr b"
    and "text = frame_line \<lparr>df_type = type, df_messageId = messageId, df_body = b\<rparr> @ [10]"
    and "payloads_ok b \<Longrightarrow> frame_ok \<lparr>df_type = type, df_messageId = messageId, df_body = b\<rparr>"
proof -
  from assms obtain b where b: "validateBodyForType type (Some (JObj body)) = Inr b"
    "MESSAGE_ID_RE messageId" "utf8Bytes (stringify (frame_json type messageId b)) \<le> MAX_FRAME_BYTES"
    "text = stringify (frame_json type messageId b) @ [10]"
    unfolding encodeFrame_def Let_def by (auto simp: andThen_Inr_iff guardR_Inr_iff)
  from validateBodyForType_sound [OF b(1)] b that show thesis
    by (simp add: frame_line_def frame_ok_def)
qed


section \<open>Sizes of texts without escapes\<close>

definition plain :: "jstr \<Rightarrow> bool" where
  "plain s = list_all (\<lambda>c. 32 \<le> c \<and> c < 128 \<and> c \<noteq> 34 \<and> c \<noteq> 92) s"

definition ascii :: "jstr \<Rightarrow> bool" where
  "ascii s = list_all (\<lambda>c. c < 128) s"

lemma ascii_simps [simp]: "ascii []" "ascii (c # s) \<longleftrightarrow> c < 128 \<and> ascii s" "ascii (s @ t) \<longleftrightarrow> ascii s \<and> ascii t"
  by (auto simp: ascii_def)

lemma escape_plain: "plain s \<Longrightarrow> escape s = s"
  by (induction s rule: escape.induct)
     (auto simp: plain_def escape_unit_def is_high_surrogate_def is_low_surrogate_def)

lemma quote_plain: "plain s \<Longrightarrow> quote s = 34 # s @ [34]" "plain s \<Longrightarrow> ascii s"
  by (auto simp: quote_def escape_plain plain_def ascii_def list_all_iff)

lemma utf8_ascii: "ascii s \<Longrightarrow> utf8Bytes s = length s"
  by (simp add: ascii_def utf8Bytes_ascii)

lemma plain_js: "plain (js s) \<longleftrightarrow> list_all (\<lambda>c. (32 :: nat) \<le> of_char c \<and> of_char c < (128 :: nat) \<and> of_char c \<noteq> (34 :: nat) \<and> of_char c \<noteq> (92 :: nat)) s"
  by (simp add: plain_def js_def list_all_iff)

section \<open>Properties of the codec\<close>

text \<open>
  C13. Framing is independent of how the transport cuts the stream: for any frames whose
  types, identifiers, bodies and sizes the codec admits, and any division of their text into
  chunks, the decoder returns exactly those frames, in order, and keeps nothing buffered.
\<close>

theorem decoder_any_chunking:
  assumes "list_all frame_ok frames" and "concat chunks = wire frame_line frames"
  shows "push_all fresh_decoder chunks = Inr (frames, \<lparr>buffer = [], lineOffset = length frames\<rparr>)"
  using protocol_codec.push_all_wire [OF assms(1), of fresh_decoder chunks] assms(2)
  by (simp add: push_all_def fresh_decoder_def)

definition demo_hello_frame :: decoded_frame where
  "demo_hello_frame = \<lparr>df_type = js ''projection.hello'', df_messageId = js ''m1'',
     df_body = Projection_hello \<lparr>ph_teamGoalId = js ''goal-1'', ph_clientId = js ''client-1'', ph_resumeAfter = Some 0\<rparr>\<rparr>"

lemma demo_hello_frame_ok: "frame_ok demo_hello_frame"
proof -
  have "utf8Bytes (frame_line demo_hello_frame) \<le> 1000"
    by (simp add: frame_line_def frame_json_def demo_hello_frame_def body_simps null_or_def PROTOCOL_ID_def
        quote_plain utf8_ascii plain_js int_text_def)
  then show ?thesis
    by (simp add: frame_ok_def MAX_FRAME_BYTES_def)
       (simp add: demo_hello_frame_def body_simps ID_RE_def MESSAGE_ID_RE_def matches_head_tail_def js_def
          is_alnum_def is_lower_def is_upper_def is_digit_def id_tail_def MAX_SAFE_INTEGER_def)
qed

theorem decoder_any_chunking_witness:
  "list_all frame_ok [demo_hello_frame, demo_hello_frame] \<and>
   push_all fresh_decoder [take 9 (wire frame_line [demo_hello_frame, demo_hello_frame]),
     drop 9 (wire frame_line [demo_hello_frame, demo_hello_frame])] =
   Inr ([demo_hello_frame, demo_hello_frame], \<lparr>buffer = [], lineOffset = 2\<rparr>)"
  using decoder_any_chunking [of "[demo_hello_frame, demo_hello_frame]"
      "[take 9 (wire frame_line [demo_hello_frame, demo_hello_frame]),
        drop 9 (wire frame_line [demo_hello_frame, demo_hello_frame])]"] demo_hello_frame_ok
  by simp

end
