(* ===== verification/DomainContents.thy ===== *)
theory DomainContents
  imports DomainTeam Codec
begin

text \<open>
  What the rows of a reachable store hold: events and identities that the frame validators
  accept, and the fixed columns of the configuration the Team Goal was created with.
\<close>

section \<open>Contents of the rows\<close>

definition config_ok :: "bootstrap_config \<Rightarrow> bool" where
  "config_ok c \<longleftrightarrow>
     ID_RE (bc_teamGoalId c) \<and> bounded_text (bc_goalText c) goalText_limit \<and>
     mset (map ri_role (bc_roles c)) = mset [Coordinator, Builder, Reviewer] \<and>
     list_all (\<lambda>i. ID_RE (ri_agentRunId i) \<and> ID_RE (ri_terminalSessionRef i) \<and> ID_RE (ri_shellRunId i) \<and>
        ID_RE (ri_piSessionId i) \<and> ID_RE (ri_extensionInstanceId i) \<and> ri_hostPid i \<le> host_pid_max) (bc_roles c) \<and>
     ID_RE (ac_id (bc_assignment c)) \<and> ID_RE (ac_agentRunId (bc_assignment c)) \<and>
     bounded_text (ac_prompt (bc_assignment c)) prompt_limit"

definition op_ok :: "domain_op \<Rightarrow> bool" where
  "op_ok op =
     (case op of
        Bootstrap c \<Rightarrow> config_ok c
      | Record_event _ _ _ e \<Rightarrow> bridge_event_ok e \<and> json_ok (JObj (be_payload e))
      | Interactive_input _ _ _ e \<Rightarrow> bridge_event_ok e \<and> json_ok (JObj (be_payload e))
      | Observation _ _ t p \<Rightarrow> EVENT_TYPE_RE t \<and> json_ok (JObj p)
      | Restarted _ p \<Rightarrow> \<bar>p\<bar> \<le> host_pid_max
      | _ \<Rightarrow> True)"

definition event_row_ok :: "event_row \<Rightarrow> bool" where
  "event_row_ok e \<longleftrightarrow>
     ID_RE (e_event_id e) \<and> EVENT_TYPE_RE (e_event_type e) \<and> bounded_text (e_created_at e) 64 \<and>
     utf8Bytes (e_payload_json e) \<le> eventPayload_limit \<and>
     (\<exists>p. json_ok (JObj p) \<and> e_payload_json e = stringify (JObj p))"

definition rows_ok :: "database \<Rightarrow> bool" where
  "rows_ok d \<longleftrightarrow> (\<forall>e \<in> set (events d). event_row_ok e) \<and>
     (\<forall>a \<in> set (assignments d). bounded_text (a_updated_at a) 64)"

definition input_ok :: "insert_event_input \<Rightarrow> bool" where
  "input_ok i \<longleftrightarrow> EVENT_TYPE_RE (ie_eventType i) \<and> json_ok (JObj (ie_payload i))"

text \<open>What the runner takes from outside: the random identifiers, the clock, the journal report.\<close>

definition world_ok :: "store \<Rightarrow> bool" where
  "world_ok s \<longleftrightarrow> (\<forall>k. ID_RE (random_ids s k)) \<and> (\<forall>k. bounded_text (clock s k) 64) \<and> journal_ok (journal s)"

lemma world_ok_frame [simp]:
  "world_ok (s\<lparr>db := d\<rparr>) = world_ok s" "world_ok (s\<lparr>inTransaction := b\<rparr>) = world_ok s"
  "world_ok (s\<lparr>ids_drawn := k\<rparr>) = world_ok s" "world_ok (s\<lparr>clock_reads := k\<rparr>) = world_ok s"
  "world_ok (s\<lparr>faults := fs\<rparr>) = world_ok s"
  by (simp_all add: world_ok_def)

lemma next_row_ok:
  "world_ok s \<Longrightarrow> input_ok i \<Longrightarrow> utf8Bytes (stringify (JObj (ie_payload i))) \<le> eventPayload_limit \<Longrightarrow>
   event_row_ok (next_row i s)"
  unfolding event_row_ok_def next_row_def event_row_of_def input_ok_def world_ok_def by auto

lemma rows_ok_frame [simp]:
  "rows_ok (set_binding g r b d) = rows_ok d"
  "rows_ok (add_event row d) = (rows_ok d \<and> event_row_ok row)"
  by (auto simp: rows_ok_def db_simps)

lemma rows_ok_assignment [simp]:
  "rows_ok d \<Longrightarrow> bounded_text now 64 \<Longrightarrow> rows_ok (set_assignment i (patch_assignment p now a) d)"
  by (auto simp: rows_ok_def set_assignment_def patch_assignment_def)

lemma world_clock [simp]: "world_ok s \<Longrightarrow> bounded_text (clock s k) 64"
  by (simp add: world_ok_def)

text \<open>The order of the keys of an object: array indices ascending, then the others as inserted.\<close>

definition key_before :: "jstr \<Rightarrow> jstr \<Rightarrow> bool" where
  "key_before a b \<longleftrightarrow> (is_index b \<longrightarrow> is_index a \<and> digits_value a \<le> digits_value b)"

definition obj_normal :: "obj \<Rightarrow> bool" where
  "obj_normal m \<longleftrightarrow> distinct (map fst m) \<and> sorted_wrt key_before (map fst m)"

lemma insert_prop_last: "\<forall>a \<in> fst ` set m. key_before a k \<Longrightarrow> insert_prop k v m = m @ [(k, v)]"
  by (induction k v m rule: insert_prop.induct) (auto simp: key_before_def)

lemma set_insert_prop [simp]: "set (insert_prop k v m) = insert (k, v) (set m)"
  by (induction k v m rule: insert_prop.induct) auto

lemma distinct_insert_prop: "k \<notin> fst ` set m \<Longrightarrow> distinct (map fst m) \<Longrightarrow> distinct (map fst (insert_prop k v m))"
  by (induction k v m rule: insert_prop.induct) auto

lemma sorted_insert_prop: "sorted_wrt key_before (map fst m) \<Longrightarrow> sorted_wrt key_before (map fst (insert_prop k v m))"
proof (induction k v m rule: insert_prop.induct)
  case (2 k v k' v' m)
  show ?case
  proof (cases "is_index k \<and> (is_index k' \<longrightarrow> digits_value k < digits_value k')")
    case True
    then have "key_before k a" if "a \<in> fst ` set ((k', v') # m)" for a
      using 2(2) that by (fastforce simp: key_before_def)
    with True 2(2) show ?thesis by simp
  next
    case False
    then have "key_before k' k" by (auto simp: key_before_def)
    with False 2 show ?thesis by auto
  qed
qed simp

lemma keys_assoc_put: "k \<in> fst ` set m \<Longrightarrow> map fst (assoc_put k v m) = map fst m"
  by (induction k v m rule: assoc_put.induct) auto

lemma obj_normal_put: "obj_normal m \<Longrightarrow> obj_normal (obj_put k v m)"
  by (simp add: obj_normal_def obj_put_def keys_assoc_put distinct_insert_prop sorted_insert_prop)

lemma obj_normal_fold: "obj_normal m \<Longrightarrow> obj_normal (fold (\<lambda>e. obj_put (fst e) (snd e)) es m)"
  by (induction es arbitrary: m) (simp_all add: obj_normal_put)

lemma build_obj_normal_acc:
  "obj_normal (acc @ m) \<Longrightarrow> fold (\<lambda>e. obj_put (fst e) (snd e)) m acc = acc @ m"
proof (induction m arbitrary: acc)
  case (Cons e m)
  have "obj_put (fst e) (snd e) acc = acc @ [e]"
    using Cons.prems by (auto simp: obj_put_def obj_normal_def sorted_wrt_append insert_prop_last)
  then show ?case using Cons.prems Cons.IH [of "acc @ [e]"] by simp
qed simp

lemma build_obj_iff: "build_obj m = m \<longleftrightarrow> obj_normal m"
  using build_obj_normal_acc [of "[]" m] obj_normal_fold [of "[]" m]
  by (auto simp: build_obj_def obj_normal_def)

lemma obj_put_values: "e \<in> set (obj_put k v m) \<Longrightarrow> e = (k, v) \<or> e \<in> set m"
proof -
  have "e \<in> set (assoc_put k v m) \<Longrightarrow> e = (k, v) \<or> e \<in> set m"
    by (induction k v m rule: assoc_put.induct) (auto split: if_splits)
  then show "e \<in> set (obj_put k v m) \<Longrightarrow> ?thesis" by (auto simp: obj_put_def split: if_splits)
qed

lemma spread_json_ok:
  "json_ok (JObj m) \<Longrightarrow> list_all (\<lambda>e. json_ok (snd e)) es \<Longrightarrow>
   json_ok (JObj (fold (\<lambda>e. obj_put (fst e) (snd e)) es m))"
proof (induction es arbitrary: m)
  case (Cons e es)
  have "json_ok (JObj (obj_put (fst e) (snd e) m))"
    using Cons.prems obj_put_values [of _ "fst e" "snd e" m]
    by (fastforce simp: build_obj_iff obj_normal_put list_all_iff)
  then show ?case using Cons by simp
qed simp

lemma own_prop_json_ok: "json_ok (JObj m) \<Longrightarrow> own_prop m k = Some v \<Longrightarrow> json_ok v"
  by (auto simp: own_prop_def list_all_iff dest!: map_of_SomeD)

lemma payload_names [simp]:
  "\<not> is_index (js ''role'')" "\<not> is_index (js ''teamGoalId'')" "\<not> is_index (js ''roles'')"
  "\<not> is_index (js ''agentRunId'')" "\<not> is_index (js ''shellRunId'')" "\<not> is_index (js ''reconnected'')"
  "\<not> is_index (js ''assignmentId'')" "\<not> is_index (js ''ack'')" "\<not> is_index (js ''inputSource'')"
  "\<not> is_index (js ''charCount'')" "\<not> is_index (js ''from'')" "\<not> is_index (js ''to'')"
  "\<not> is_index (js ''assignmentState'')" "\<not> is_index (js ''runnerPid'')"
  by (simp_all add: js_not_index is_digit_def)

lemma event_types [simp]:
  "EVENT_TYPE_RE (js ''goal_bootstrapped'')" "EVENT_TYPE_RE (js ''bridge_connected'')"
  "EVENT_TYPE_RE (js ''manual_takeover'')" "EVENT_TYPE_RE (js ''human_input_submitted'')"
  "EVENT_TYPE_RE (js ''runner_restarted'')" "EVENT_TYPE_RE (js ''assignment_accepted'')"
  "EVENT_TYPE_RE (js ''assignment_duplicate_acknowledged'')" "EVENT_TYPE_RE (js ''assignment_acknowledged'')"
  by (simp_all add: EVENT_TYPE_RE_def matches_head_tail_def js_def is_lower_def is_digit_def)

lemma inputs_ok [simp]:
  "input_ok (bootstrap_event c)" "input_ok (connected_event h b)"
  "EVENT_TYPE_RE (js t) \<Longrightarrow> input_ok (ack_event g r t x i k)"
  "input_ok (takeover_event g r x m j t')"
  unfolding input_ok_def bootstrap_event_def connected_event_def ack_event_def takeover_event_def
  by (auto intro!: json_ok_obj json_ok_null_or simp: list_all_iff simp del: json_ok.simps(3))

lemma bridge_inputs_ok [simp]:
  assumes "bridge_event_ok e" "json_ok (JObj (be_payload e))"
  shows "input_ok (bridge_event_input g r x e)" "input_ok (human_input_event g r x e)"
proof -
  have "json_ok (JObj [(js ''role'', JEnum ROLES r)])" by (rule json_ok_obj) simp_all
  then have "json_ok (JObj (role_and r (be_payload e)))"
    using assms(2) unfolding role_and_def by (intro spread_json_ok) simp_all
  then show "input_ok (bridge_event_input g r x e)"
    using assms(1) by (simp add: input_ok_def bridge_event_input_def bridge_event_ok_def)
  have "own_prop (be_payload e) k = Some (JNum n) \<Longrightarrow> number_ok n" for k n
    using own_prop_json_ok [OF assms(2), of k "JNum n"] by simp
  then show "input_ok (human_input_event g r x e)"
    using own_prop_json_ok [OF assms(2)]
    unfolding input_ok_def human_input_event_def
    by (auto intro!: json_ok_obj split: option.split json.split simp del: json_ok.simps(3))
qed

lemma rows_insert [simp]:
  "world_ok s \<Longrightarrow> input_ok i \<Longrightarrow> \<not> eventPayload_limit < utf8Bytes (stringify (JObj (ie_payload i))) \<Longrightarrow>
   event_row_ok (next_row i s)"
  by (rule next_row_ok) simp_all

lemma rows_bootstrapped: "bounded_text now 64 \<Longrightarrow> rows_ok (bootstrapped config now)"
  by (simp add: rows_ok_def bootstrapped_def)

lemma rows_bootstrap:
  assumes "base_ok (db s)" "rows_ok (db s)" "world_ok s"
  shows "wp (bootstrapIfNeeded config) (\<lambda>_ s'. rows_ok (db s') \<and> world_ok s') (\<lambda>_ s'. rows_ok (db s') \<and> world_ok s') s"
proof (cases "getGoal s")
  case None
  then have e: "db s = empty_database" using assms base_ok_empty getGoal_None_iff by blast
  have r: "rows_ok (bootstrapped config (clock s k))" for k using rows_bootstrapped assms(3) by simp
  show ?thesis
    using None e assms
    by (auto simp: bootstrapIfNeeded_def wp_simps Let_def r simp del: stringify.simps intro!: wp_bootstrapTx)
next
  case (Some g)
  with assms show ?thesis by (simp add: bootstrapIfNeeded_def wp_simps)
qed

lemma rows_exec_op:
  assumes "base_ok (db s)" and ok: "rows_ok (db s)" "world_ok s" and op: "op_ok op"
  shows "rows_ok (db (snd (exec_op op s))) \<and> world_ok (snd (exec_op op s))"
proof -
  have "wp (exec_op op) (\<lambda>_ s'. rows_ok (db s') \<and> world_ok s') (\<lambda>_ s'. rows_ok (db s') \<and> world_ok s') s"
  proof (cases op)
    case (Bootstrap c)
    then show ?thesis using rows_bootstrap [OF assms(1) ok, of c] by (simp add: discard_def wp_bind wp_ret_fun)
  next
    case (Handshake h)
    then show ?thesis using ok by (simp add: exec_defs wp_simps db_simps del: stringify.simps split: option.split prod.split)
  next
    case (Accept i r x)
    then show ?thesis using ok by (simp add: exec_defs wp_simps db_simps del: stringify.simps split: option.split)
  next
    case (Duplicate_ack i r x)
    then show ?thesis using ok by (simp add: exec_defs wp_simps db_simps del: stringify.simps split: option.split)
  next
    case (Record_event g r x e)
    then show ?thesis using ok op
      by (simp add: op_ok_def exec_defs wp_simps db_simps del: stringify.simps split: option.split)
  next
    case (Interactive_input g r x e)
    then show ?thesis using ok op
      by (simp add: op_ok_def exec_defs wp_simps db_simps del: stringify.simps split: option.split)
  next
    case (Restarted g p)
    have "input_ok \<lparr>ie_teamGoalId = g, ie_role = None, ie_eventType = js ''runner_restarted'',
        ie_sourceExtensionInstanceId = None, ie_sourceEventId = None, ie_sourceSequence = None,
        ie_payload = [(js ''runnerPid'', JWhole p)]\<rparr>"
      using op Restarted by (auto simp: input_ok_def op_ok_def host_pid_max_def safe_limit_def
          simp del: json_ok.simps(3) intro!: json_ok_obj)
    with Restarted show ?thesis using ok
      by (simp add: exec_defs wp_simps db_simps del: stringify.simps)
  next
    case (Observation g r t p)
    then have "input_ok \<lparr>ie_teamGoalId = g, ie_role = Some r, ie_eventType = t,
        ie_sourceExtensionInstanceId = None, ie_sourceEventId = None, ie_sourceSequence = None,
        ie_payload = p\<rparr>" using op by (simp add: input_ok_def op_ok_def)
    with Observation show ?thesis using ok
      by (simp add: exec_defs wp_simps db_simps del: stringify.simps json_ok.simps)
  qed (simp_all add: ok exec_defs wp_simps split: option.split sum.split, simp add: ok wp_def)
  then show ?thesis by (simp add: wp_final [where P = "\<lambda>s. rows_ok (db s) \<and> world_ok s"])
qed

section \<open>The founding configuration\<close>

text \<open>The fixed columns of all rows are those of the configuration the goal was created with.\<close>

definition founded_by :: "bootstrap_config \<Rightarrow> jstr \<Rightarrow> database \<Rightarrow> bool" where
  "founded_by config now d \<longleftrightarrow>
     map goal_fixed (goals d) = map goal_fixed (goals (bootstrapped config now)) \<and>
     map binding_fixed (bindings d) = map binding_fixed (bindings (bootstrapped config now)) \<and>
     map assignment_fixed (assignments d) = map assignment_fixed (assignments (bootstrapped config now))"

lemma founded_goals: "founded_by c now d \<Longrightarrow> goals d \<noteq> []"
  by (auto simp: founded_by_def bootstrapped_def)

lemma founded_kept: "founded_by c now d \<Longrightarrow> history_kept d d' \<Longrightarrow> founded_by c now d'"
  using founded_goals by (fastforce simp: founded_by_def history_kept_def)

lemma founded_add_event [simp]: "founded_by c now (add_event row d) = founded_by c now d"
proof -
  have "map goal_fixed (goals (add_event row d)) = map goal_fixed (goals d)"
    by (auto simp: add_event_def advance_cursor_def goal_fixed_def)
  then show ?thesis by (simp add: founded_by_def db_simps)
qed

lemma founding_call:
  assumes "base_ok (db s)" "goals (db s) = []"
  shows "wp (bootstrapIfNeeded c) (\<lambda>b s'. b \<and> founded_by c (clock s (clock_reads s)) (db s')) (\<lambda>_ s'. db s' = db s) s"
proof -
  have "getGoal s = None" "db s = empty_database"
    using assms base_ok_empty getGoal_None_iff by blast+
  moreover have "founded_by c now (bootstrapped c now)" for now by (simp add: founded_by_def)
  ultimately show ?thesis
    by (auto simp: bootstrapIfNeeded_def wp_simps Let_def intro!: wp_bootstrapTx)
qed

lemma history_op:
  assumes "base_ok (db s)"
  shows "history_kept (db s) (db (snd (exec_op op s)))"
  using history_exec_op [OF assms, of op] by (auto simp: wp_def split: prod.splits sum.splits)

lemma founded_exec_op:
  "base_ok (db s) \<Longrightarrow> founded_by c now (db s) \<Longrightarrow> founded_by c now (db (snd (exec_op op s)))"
  using history_op founded_kept by blast

text \<open>Without a goal, only a bootstrap writes.\<close>

lemma founded_or_empty:
  assumes "base_ok (db s)" "op_ok op" "world_ok s" and
    "db s = empty_database \<or> (\<exists>c now. config_ok c \<and> bounded_text now 64 \<and> founded_by c now (db s))"
  shows "db (snd (exec_op op s)) = empty_database \<or>
     (\<exists>c now. config_ok c \<and> bounded_text now 64 \<and> founded_by c now (db (snd (exec_op op s))))"
proof (cases "db s = empty_database")
  case False
  then show ?thesis using assms founded_exec_op by blast
next
  case True
  show ?thesis
  proof (cases "\<exists>c. op = Bootstrap c")
    case True
    then obtain c where c: "op = Bootstrap c" by blast
    have "goals (db s) = []" using \<open>db s = empty_database\<close> by (simp add: empty_database_def)
    from founding_call [OF assms(1) this, of c] c assms(2,3) True \<open>db s = empty_database\<close> show ?thesis
      by (auto simp: op_ok_def wp_def discard_def bind_tx_def ret_def world_ok_def split: prod.splits sum.splits)
  next
    case False
    have none: "find_binding g r empty_database = None" "find_assignment i empty_database = None" for g r i
      by (simp_all add: find_binding_def find_assignment_def empty_database_def)
    have no: "\<not> event_insertable row empty_database" for row
      by (simp add: event_insertable_def empty_database_def)
    have "wp (exec_op op) (\<lambda>_ s'. db s' = empty_database) (\<lambda>_ s'. db s' = empty_database) s"
      using False True
      by (cases op) (simp_all add: exec_defs wp_simps none no getAssignmentById_def split: option.split sum.split, simp_all add: wp_def)
    then show ?thesis using wp_final [of "exec_op op" "\<lambda>s. db s = empty_database"] by simp
  qed
qed

section \<open>Snapshots\<close>

definition valid_store :: "store \<Rightarrow> bool" where
  "valid_store s \<longleftrightarrow> db_ok (db s) \<and> rows_ok (db s) \<and> world_ok s \<and>
     (db s = empty_database \<or> (\<exists>c now. config_ok c \<and> bounded_text now 64 \<and> founded_by c now (db s)))"

lemma valid_exec_op: "valid_store s \<Longrightarrow> op_ok op \<Longrightarrow> valid_store (snd (exec_op op s))"
  using db_ok_exec_op [of s op] rows_exec_op [of s op] founded_or_empty [of s op]
  by (simp add: valid_store_def db_ok_def)

lemma valid_run_ops: "valid_store s \<Longrightarrow> list_all op_ok ops \<Longrightarrow> valid_store (run_ops ops s)"
  by (induction ops arbitrary: s) (simp_all add: valid_exec_op)

definition world_inputs_ok :: "journal_value \<Rightarrow> (nat \<Rightarrow> jstr) \<Rightarrow> (nat \<Rightarrow> jstr) \<Rightarrow> bool" where
  "world_inputs_ok j ids ticks \<longleftrightarrow> journal_ok j \<and> (\<forall>k. ID_RE (ids k)) \<and> (\<forall>k. bounded_text (ticks k) 64)"

lemma valid_open: "world_inputs_ok j ids ticks \<Longrightarrow> valid_store (open_store j ids ticks)"
  by (simp add: valid_store_def world_inputs_ok_def open_store_def rows_ok_def world_ok_def empty_database_def [symmetric])
     (simp add: empty_database_def)

lemma initial_binding_fixed: "binding_fixed (initial_binding g i l) = (g, i)"
  by (simp add: binding_fixed_def initial_binding_def)

lemma founded_binding:
  assumes "founded_by c now d" "b \<in> set (bindings d)"
  obtains i where "i \<in> set (bc_roles c)" "binding_fixed b = (bc_teamGoalId c, i)"
proof -
  have "binding_fixed b \<in> set (map binding_fixed (bindings d))" using assms(2) by simp
  also have "\<dots> = set (map (\<lambda>i. (bc_teamGoalId c, i)) (bc_roles c))"
    using assms(1) by (simp add: founded_by_def bootstrapped_def bootstrap_bindings_def comp_def initial_binding_fixed)
  finally show thesis using that by auto
qed

lemma founded_roles: "founded_by c now d \<Longrightarrow> map b_role (bindings d) = map ri_role (bc_roles c)"
proof -
  assume f: "founded_by c now d"
  have "map b_role (bindings d) = map (ri_role \<circ> snd) (map binding_fixed (bindings d))"
    by (simp add: binding_fixed_def)
  also have "map binding_fixed (bindings d) = map (\<lambda>i. (bc_teamGoalId c, i)) (bc_roles c)"
    using f by (simp add: founded_by_def bootstrapped_def bootstrap_bindings_def comp_def initial_binding_fixed)
  finally show ?thesis by simp
qed

lemma roles_unique_iff: "roles_unique rs \<longleftrightarrow> card (set (map rp_role rs)) = 3"
  by (simp add: roles_unique_def ROLES_def length_remdups_card_conv numeral_eq_Suc)

lemma role_order:
  assumes "mset xs = mset [Coordinator, Builder, Reviewer]" "sorted (map role_rank xs)"
  shows "xs = [Coordinator, Builder, Reviewer]"
proof -
  have "mset (map role_rank xs) = mset [0, 1, 2]" using arg_cong [OF assms(1), of "image_mset role_rank"] by simp
  then have "map role_rank xs = map role_rank [Coordinator, Builder, Reviewer]"
    using properties_for_sort [of "map role_rank xs" "[0, 1, 2]"] assms(2)
      properties_for_sort [of "[0, 1, 2 :: nat]" "[0, 1, 2]"] by simp
  moreover have "inj role_rank" by (rule injI, case_tac x; case_tac y) simp_all
  ultimately show ?thesis by (metis inj_map_eq_map)
qed

lemma founded_snapshot_order:
  assumes "founded_by c now (db s)" "config_ok c"
  shows "map b_role (getBindings s) = [Coordinator, Builder, Reviewer]"
proof (rule role_order)
  have "mset (map b_role (getBindings s)) = mset (map b_role (bindings (db s)))" by (simp add: getBindings_def)
  then show "mset (map b_role (getBindings s)) = mset [Coordinator, Builder, Reviewer]"
    using founded_roles [OF assms(1)] assms(2) by (simp only: config_ok_def)
  show "sorted (map role_rank (map b_role (getBindings s)))"
    using sorted_sort_key [of "\<lambda>b. role_rank (b_role b)" "bindings (db s)"] by (simp add: getBindings_def comp_def)
qed

lemma founded_role_ok:
  assumes f: "founded_by c now (db s)" "config_ok c" and b: "b \<in> set (bindings (db s))"
    and l: "binding_labelled t b" and h: "0 < b_host_pid b"
  shows "role_projection_ok (role_value s' g b)"
proof -
  from founded_binding [OF f(1) b] obtain i where i: "i \<in> set (bc_roles c)" "binding_fixed b = (bc_teamGoalId c, i)" .
  have "ID_RE (ri_agentRunId i) \<and> ID_RE (ri_terminalSessionRef i) \<and> ID_RE (ri_shellRunId i) \<and>
        ID_RE (ri_piSessionId i) \<and> ID_RE (ri_extensionInstanceId i) \<and> ri_hostPid i \<le> host_pid_max"
    using f(2) i(1) by (auto simp: config_ok_def list_all_iff)
  then show ?thesis
    using i(2) l h labels_bounded
    by (auto simp: role_projection_ok_def role_value_def binding_fixed_def binding_labelled_def binding_labels_def
        presentationLabels_def Let_def)
qed

lemma last_sequence_length: "base_ok d \<Longrightarrow> last_sequence d = int (length (events d))"
proof -
  assume "base_ok d"
  then have "length (map e_sequence (events d)) = length [1..last_sequence d]" "0 \<le> last_sequence d"
    by (simp_all add: base_ok_def log_ok_def del: length_map)
  then show ?thesis by simp
qed

lemma snapshot_runs:
  assumes v: "valid_store s" and g: "goals (db s) \<noteq> []" and st: "\<not> inTransaction s" "faults s = []"
    and m: "int (length (events (db s))) \<le> MAX_SAFE_INTEGER"
  shows "wp snapshot (\<lambda>sn s'. snapshot_ok sn \<and> sn_cursor sn = int (length (events (db s))) \<and>
      map rp_role (sn_roles sn) = [Coordinator, Builder, Reviewer] \<and> s' = s) (\<lambda>_ _. False) s"
proof -
  have "db s \<noteq> empty_database" using g by (auto simp: empty_database_def)
  then obtain c now where c: "config_ok c" "bounded_text now 64" "founded_by c now (db s)"
    using v by (auto simp: valid_store_def)
  have base: "base_ok (db s)" and team: "team_ok (db s)" and rows: "rows_ok (db s)" and w: "world_ok s"
    using v by (auto simp: valid_store_def db_ok_def)
  obtain g0 where g0: "goals (db s) = [g0]"
    using base g by (cases "goals (db s)") (auto simp: base_ok_def log_ok_def)
  have cur: "g_event_cursor g0 = int (length (events (db s)))"
    using last_sequence_length [OF base] base g0 by (auto simp: base_ok_def log_ok_def)
  have fix0: "goal_fixed g0 = (bc_teamGoalId c, bc_goalText c, now)"
    using c(3) g0 by (simp add: founded_by_def bootstrapped_def goal_fixed_def)
  obtain a where a: "assignments (db s) = [a]" using base g0 by (auto simp: base_ok_def one_assignment_def)
  have fixa: "assignment_fixed a = (ac_id (bc_assignment c), bc_teamGoalId c, bc_assignment c, now)"
    using c(3) a by (simp add: founded_by_def bootstrapped_def assignment_fixed_def)
  have "bc_assignment c = \<lparr>ac_id = a_id a, ac_role = a_role a, ac_agentRunId = a_agent_run_id a,
      ac_prompt = a_prompt a\<rparr>" using fixa unfolding assignment_fixed_def prod.inject by (elim conjE) (rule sym)
  moreover have "a_created_at a = now" using fixa by (simp add: assignment_fixed_def)
  ultimately have av: "assignment_value_ok (assignment_row_value a)"
    using c(1,2) rows a by (simp add: assignment_value_ok_def assignment_row_value_def config_ok_def rows_ok_def)
  let ?s = "s\<lparr>inTransaction := True, faults := []\<rparr>"
  let ?roles = "map (role_value ?s (g_id g0)) (getBindings ?s)"
  have getG: "getGoal ?s = Some g0" using g0 by (simp add: getGoal_def first_by_def)
  have getA: "getAssignments ?s = [a]" using a by (simp add: getAssignments_def)
  have roles: "map rp_role ?roles = [Coordinator, Builder, Reviewer]"
    using founded_snapshot_order [of c now ?s] c by (simp add: role_value_def comp_def)
  have "role_projection_ok (role_value ?s (g_id g0) b)" if "b \<in> set (bindings (db s))" for b
    using that team base by (intro founded_role_ok [OF c(3,1)]) (auto simp: team_ok_def base_ok_def keys_ok_def)
  then have ok: "list_all role_projection_ok ?roles" by (simp add: list_all_iff getBindings_def)
  have "team_goal_ok \<lparr>tg_id = g_id g0, tg_goalText = g_goal_text g0, tg_createdAt = g_created_at g0,
      tg_eventCursor = g_event_cursor g0\<rparr>"
    using fix0 c(1,2) cur m by (simp add: goal_fixed_def team_goal_ok_def config_ok_def cursor_ok_def)
  moreover have "length ?roles = length ROLES" "roles_unique ?roles"
    using arg_cong [OF roles, of length] arg_cong [OF roles, of set] by (simp_all add: ROLES_def roles_unique_iff)
  ultimately have "snapshot_ok \<lparr>sn_cursor = g_event_cursor g0,
      sn_teamGoal = \<lparr>tg_id = g_id g0, tg_goalText = g_goal_text g0, tg_createdAt = g_created_at g0,
                     tg_eventCursor = g_event_cursor g0\<rparr>,
      sn_roles = ?roles, sn_assignment = Some (assignment_row_value a), sn_journal = journal s\<rparr>"
    using av ok w cur m by (simp add: snapshot_ok_def cursor_ok_def world_ok_def)
  then show ?thesis
    using st roles cur getG getA undisturbed [OF st]
    by (simp add: snapshot_def snapshotTx_def wp_simps next_fault_Nil)
qed

end
