(* ===== verification/DomainProperties.thy ===== *)
theory DomainProperties
  imports DomainContents
begin

text \<open>
  The properties of the durable domain over all sequences of calls on a store opened empty.
\<close>

lemma list_all_ball: "(\<forall>x \<in> set xs. P x) = list_all P xs"
  by (simp add: list_all_iff)

text \<open>
  C12. Atomicity and its one exception: whatever calls were made before on a store opened empty and
  whatever happens to the transactions, a call of the domain that throws leaves every table as it
  was, except a handshake whose snapshot could not begin or commit its own transaction: that one has
  already recorded exactly one \<open>bridge_connected\<close> event of its role and nothing else.
\<close>

theorem failed_call_changes_no_table:
  assumes "exec_op op (run_ops ops (open_store j ids ticks)) = (Inl e, s')"
  shows "unwritten op e (db (run_ops ops (open_store j ids ticks))) (db s')"
proof -
  have "base_ok (db (run_ops ops (open_store j ids ticks)))"
    using db_ok_run_ops [OF open_store_ok(1)] by (simp add: db_ok_def)
  from wp_thrown [OF failed_exec_op [OF this] assms] show ?thesis .
qed

text \<open>
  C3. The durable log: after any sequence of calls the events are numbered 1, 2, ..., n in
  the order they were inserted, no two have the same identifier, no source event is recorded
  twice, and the cursor of the Team Goal is n.
\<close>

theorem event_log_gapless:
  "let d = db (run_ops ops (open_store j ids ticks))
   in map e_sequence (events d) = [1..int (length (events d))] \<and>
      distinct (map e_event_id (events d)) \<and>
      sorted_wrt (\<lambda>x y. \<not> source_clash y x) (events d) \<and>
      list_all (\<lambda>g. g_event_cursor g = int (length (events d))) (goals d)"
proof -
  have "base_ok (db (run_ops ops (open_store j ids ticks)))"
    using db_ok_run_ops [OF open_store_ok(1)] by (simp add: db_ok_def)
  then show ?thesis
    using last_sequence_length [of "db (run_ops ops (open_store j ids ticks))"]
    unfolding base_ok_def log_ok_def Let_def list_all_ball [symmetric] by simp
qed

text \<open>
  C5. Replay protection: for every role, the source sequence numbers of the recorded bridge
  events are positive and strictly increase along the log, and the role's
  \<open>last_source_sequence\<close> is exactly the last of them, or 0 when there is none.
\<close>

theorem source_sequences_increase:
  "let d = db (run_ops ops (open_store j ids ticks))
   in list_all (\<lambda>b. let ns = source_sequences (b_team_goal_id b) (b_role b) (events d)
        in sorted_wrt (<) (0 # ns) \<and> b_last_source_sequence b = (if ns = [] then 0 else last ns)) (bindings d)"
  using db_ok_run_ops [OF open_store_ok(1), of ops]
  by (auto simp: Let_def db_ok_def source_ok_def sources_below_def list_all_iff)

text \<open>
  The labels of a role (terminal title and Pi status) are at all times the ones derived
  from its stored control mode, agent state and assignment; an agent is shown as working
  exactly when its assignment was accepted.
\<close>

theorem labels_show_state:
  "let d = db (run_ops ops (open_store j ids ticks))
   in list_all (\<lambda>b.
        binding_labels b = presentationLabels (b_role b) (b_control_mode b) (b_agent_state b)
          (role_assignment d (b_role b)) \<and>
        (b_agent_state b = Working) = (role_assignment d (b_role b) \<in> {Some Active, Some Needs_reconciliation}))
      (bindings d)"
  using db_ok_run_ops [OF open_store_ok(1), of ops]
  by (auto simp: Let_def db_ok_def team_ok_def binding_labelled_def list_all_iff)

text \<open>
  C4. Refinement: seen through \<open>view\<close>, every call on a reachable store either leaves the team
  as it was or is one step of the abstract machine \<open>team_step\<close> (begin, accept, take over).
\<close>

theorem domain_refines_team:
  "let s = run_ops ops (open_store j ids ticks)
   in (view (db s) = view (db (snd (exec_op op s)))) \<or> team_step (view (db s)) (view (db (snd (exec_op op s))))"
proof -
  have "db_ok (db (run_ops ops (open_store j ids ticks)))" by (rule db_ok_run_ops) simp
  then have "wp (exec_op op) (\<lambda>_ s'. team_moves (db (run_ops ops (open_store j ids ticks))) (db s'))
     (\<lambda>_ s'. team_moves (db (run_ops ops (open_store j ids ticks))) (db s')) (run_ops ops (open_store j ids ticks))"
    by (intro moves_exec_op) (simp_all add: db_ok_def)
  then show ?thesis by (auto simp: wp_def Let_def team_moves_def split: prod.splits sum.splits)
qed

lemma history_run_ops: "db_ok (db s) \<Longrightarrow> history_kept (db s) (db (run_ops ops s))"
proof (induction ops arbitrary: s)
  case (Cons op ops)
  have "history_kept (db s) (db (snd (exec_op op s)))"
    using history_op Cons.prems by (simp add: db_ok_def)
  with Cons.IH [OF db_ok_exec_op [OF Cons.prems]] show ?case
    using history_kept_trans by fastforce
qed simp

text \<open>
  C14. History is append-only and identities are immutable: later calls only add events after
  the existing ones, and once a Team Goal exists its text, the identity tuple of every role
  and the assignment's identity and prompt never change.
\<close>

theorem history_append_only:
  "let d = db (run_ops ops (open_store j ids ticks));
       d' = db (run_ops (ops @ later) (open_store j ids ticks))
   in take (length (events d)) (events d') = events d \<and>
      (goals d = [] \<or>
        map goal_fixed (goals d') = map goal_fixed (goals d) \<and>
        map binding_fixed (bindings d') = map binding_fixed (bindings d) \<and>
        map assignment_fixed (assignments d') = map assignment_fixed (assignments d))"
proof -
  have "run_ops (ops @ later) s = run_ops later (run_ops ops s)" for s
    by (induction ops arbitrary: s) simp_all
  then show ?thesis
    using history_run_ops [OF db_ok_run_ops [OF open_store_ok(1)], of ops j ids ticks later]
    by (auto simp: Let_def history_kept_def)
qed

section \<open>Manual takeover\<close>

definition is_takeover_pair :: "role \<Rightarrow> jstr \<Rightarrow> bridge_event \<Rightarrow> event_row list \<Rightarrow> bool" where
  "is_takeover_pair r x e rows =
     (case rows of
        [h, t] \<Rightarrow> e_event_type h = js ''human_input_submitted'' \<and> e_role h = Some r \<and>
          e_source_extension_instance_id h = Some x \<and> e_source_event_id h = Some (be_eventId e) \<and>
          e_source_sequence h = Some (be_sequence e) \<and>
          e_event_type t = js ''manual_takeover'' \<and> e_role t = Some r \<and> e_source_sequence t = None
      | _ \<Rightarrow> False)"

definition takeover_binding :: "role \<Rightarrow> int \<Rightarrow> binding_row \<Rightarrow> binding_row" where
  "takeover_binding r n b =
     (if b_role b = r
      then b\<lparr>b_control_mode := Manual_takeover, b_last_source_sequence := n,
             b_native_terminal_title := renderNativeTerminalTitle r P_manual_takeover,
             b_pi_status := renderPiStatus r P_manual_takeover\<rparr>
      else b)"

lemma taken_over_bindings:
  assumes "base_ok d" "find_binding g r d = Some b"
  shows "bindings (taken_over g r n now b d) = map (takeover_binding r n) (bindings d)"
proof -
  have k: "keys_ok d" using assms(1) by (simp add: base_ok_def)
  have "bindings (taken_over g r n now b d) = map (\<lambda>c. if c = b then takeover_binding r n b else c) (bindings d)"
    using found_binding [OF assms(2)]
    by (auto simp: taken_over_def Let_def update_sel set_binding_map [OF k assms(2)] write_binding_def
        patch_binding_def takeover_binding_def presentationLabels_def derivePresentationState_def
        split: list.split)
  also have "\<dots> = map (takeover_binding r n) (bindings d)"
    using role_unique [OF assms] by (auto simp: takeover_binding_def)
  finally show ?thesis .
qed

lemma taken_over_states:
  "assignments d = [a] \<Longrightarrow> map a_state (assignments (taken_over g r n now b d)) =
     map (\<lambda>a. if a_role a = r \<and> a_state a = Active then Needs_reconciliation else a_state a) (assignments d)"
  by (simp add: taken_over_def Let_def update_sel set_the_assignment [OF _ refl])

text \<open>The whole effect of a takeover by role \<open>r\<close> on tables \<open>d\<close>, with the result it reports.\<close>

definition takeover_done ::
    "role \<Rightarrow> jstr \<Rightarrow> bridge_event \<Rightarrow> database \<Rightarrow> database \<Rightarrow> transition_result \<Rightarrow> bool" where
  "takeover_done r x e d d' res =
     (let n = length (events d)
      in take n (events d') = events d \<and> is_takeover_pair r x e (drop n (events d')) \<and>
         tr_eventSequences res = [int n + 1, int n + 2] \<and> tr_eventCursor res = int n + 2 \<and>
         bindings d' = map (takeover_binding r (be_sequence e)) (bindings d) \<and>
         map a_state (assignments d') =
           map (\<lambda>a. if a_role a = r \<and> a_state a = Active then Needs_reconciliation else a_state a) (assignments d) \<and>
         tr_labels res = \<lparr>nativeTerminalTitle = renderNativeTerminalTitle r P_manual_takeover,
                          piStatus = renderPiStatus r P_manual_takeover\<rparr>)"

lemma changed_input:
  assumes "applyInteractiveInput g r x e s = (Inr res, s')" "tr_changed res" "find_binding g r (db s) = Some b"
  shows "\<not> inTransaction s" "next_fault s = No_fault" "\<not> source_event_exists x (be_eventId e) (db s)"
    "b_last_source_sequence b < be_sequence e"
proof -
  have "wp (applyInteractiveInput g r x e) (\<lambda>res _. tr_changed res \<longrightarrow> \<not> inTransaction s \<and> next_fault s = No_fault \<and>
     \<not> source_event_exists x (be_eventId e) (db s) \<and> b_last_source_sequence b < be_sequence e) (\<lambda>_ _. True) s"
  proof (cases "inTransaction s \<or> next_fault s \<noteq> No_fault \<or> source_event_exists x (be_eventId e) (db s) \<or>
     \<not> b_last_source_sequence b < be_sequence e")
    case True
    have "wp (applyInteractiveInput g r x e) (\<lambda>res _. False) (\<lambda>_ _. True) s" if "next_fault s \<noteq> No_fault"
      using assms(3) unfolding applyInteractiveInput_def wp_bind wp_getBinding by (simp add: wp_faulty [OF that])
    then have "next_fault s \<noteq> No_fault \<Longrightarrow> ?thesis" by (auto elim: wp_mono)
    with True assms(3) show ?thesis by (cases "next_fault s = No_fault") (auto simp: applyInteractiveInput_def wp_simps)
  next
    case False
    then show ?thesis by (simp add: wp_def split: prod.split sum.split)
  qed
  from wp_returned [OF this assms(1)] assms(2)
  show "\<not> inTransaction s" "next_fault s = No_fault" "\<not> source_event_exists x (be_eventId e) (db s)"
    "b_last_source_sequence b < be_sequence e" by simp_all
qed

lemma takeover_wp:
  assumes ok: "db_ok (db s)" and b: "find_binding g r (db s) = Some b"
    and acts: "\<not> inTransaction s" "next_fault s = No_fault" "\<not> source_event_exists x (be_eventId e) (db s)"
      "b_last_source_sequence b < be_sequence e"
  shows "wp (applyInteractiveInput g r x e) (\<lambda>res s'. takeover_done r x e (db s) (db s') res) (\<lambda>_ _. True) s"
proof -
  have base: "base_ok (db s)" using ok by (simp add: db_ok_def)
  obtain a where a: "assignments (db s) = [a]"
    using base binding_goal [OF base b] by (auto simp: base_ok_def one_assignment_def)
  have "0 \<le> b_last_source_sequence b"
    using ok found_binding [OF b] by (auto simp: db_ok_def source_ok_def intro: sources_below_last)
  then have pos: "0 \<le> be_sequence e" using acts(4) by simp
  have n: "last_sequence (db s) = int (length (events (db s)))" by (rule last_sequence_length [OF base])
  show ?thesis
  proof (rule wp_take_over [OF base b acts pos])
    fix row1 row2 now res s'
    assume row1: "row1 = next_row (human_input_event g r x e) (s\<lparr>inTransaction := True, faults := tl (faults s)\<rparr>)"
      and db: "db s' = add_event row2 (taken_over g r (be_sequence e) now b (add_event row1 (db s)))"
      and ins: "event_insertable row1 (db s)"
      and row2: "e_source_sequence row2 = None" "e_role row2 = Some r" "e_event_type row2 = js ''manual_takeover''"
      and res: "res = \<lparr>tr_changed = True, tr_duplicate = False, tr_stale = False,
         tr_eventSequences = [last_sequence (db s) + 1, last_sequence (db s) + 2],
         tr_labels = presentationLabels r Manual_takeover (b_agent_state b) (role_assignment (db s') r),
         tr_eventCursor = last_sequence (db s) + 2\<rparr>"
    let ?d = "add_event row1 (db s)"
    have d: "base_ok ?d" "find_binding g r ?d = Some b" "assignments ?d = [a]"
      using base ins b a row1 by (simp_all add: db_simps)
    show "takeover_done r x e (db s) (db s') res"
      using taken_over_bindings [OF d(1,2)] taken_over_states [OF d(3)] row1 row2
      by (simp add: takeover_done_def db db_simps res n is_takeover_pair_def human_input_event_def
          presentationLabels_def derivePresentationState_def)
  qed simp
qed

text \<open>
  C1. Manual takeover has exactly its stated effect: when an interactive input changes the
  team, the log gains the input event and the takeover event of that role and nothing else,
  the role's binding goes to \<open>manual_takeover\<close> with the matching labels and the input's
  sequence number, every other binding is untouched, and an active assignment of that role
  (and no other) needs reconciliation.
\<close>

theorem takeover_effect:
  assumes run: "applyInteractiveInput g r x e (run_ops ops (open_store j ids ticks)) = (Inr res, s')"
    and changed: "tr_changed res"
  shows "takeover_done r x e (db (run_ops ops (open_store j ids ticks))) (db s') res"
proof (cases "find_binding g r (db (run_ops ops (open_store j ids ticks)))")
  case None
  then show ?thesis using run by (simp add: applyInteractiveInput_def bind_tx_def getBinding_def throw_def)
next
  case (Some b)
  have "db_ok (db (run_ops ops (open_store j ids ticks)))" by (rule db_ok_run_ops) simp
  from wp_returned [OF takeover_wp [OF this Some changed_input [OF run changed Some]] run] show ?thesis .
qed

section \<open>Replay\<close>

lemma source_event_kept:
  "history_kept d d' \<Longrightarrow> source_event_exists x i d \<Longrightarrow> source_event_exists x i d'"
proof -
  assume k: "history_kept d d'" and s: "source_event_exists x i d"
  have "set (events d) \<subseteq> set (events d')" using k by (metis history_kept_def set_take_subset)
  with s show ?thesis by (auto simp: source_event_exists_def list_ex_iff)
qed

lemma binding_kept:
  assumes "history_kept d d'" "goals d \<noteq> []" "find_binding g r d = Some b"
  shows "find_binding g r d' \<noteq> None"
proof -
  have "map binding_fixed (bindings d') = map binding_fixed (bindings d)"
    using assms(1,2) by (simp add: history_kept_def)
  moreover have "binding_fixed b \<in> set (map binding_fixed (bindings d))" using found_binding [OF assms(3)] by simp
  ultimately have "binding_fixed b \<in> binding_fixed ` set (bindings d')" by (metis list.set_map)
  then obtain b' where "b' \<in> set (bindings d')" "binding_fixed b' = binding_fixed b" by (metis imageE)
  then show ?thesis
    using found_binding [OF assms(3)] by (auto simp: find_binding_def find_None_iff2 binding_fixed_def)
qed

text \<open>What an accepted source event leaves behind.\<close>

definition recorded :: "jstr \<Rightarrow> role \<Rightarrow> jstr \<Rightarrow> jstr \<Rightarrow> database \<Rightarrow> bool" where
  "recorded g r x i d \<longleftrightarrow> goals d \<noteq> [] \<and> find_binding g r d \<noteq> None \<and> source_event_exists x i d"

lemma recorded_kept: "recorded g r x i d \<Longrightarrow> history_kept d d' \<Longrightarrow> recorded g r x i d'"
proof -
  assume r: "recorded g r x i d" and h: "history_kept d d'"
  from r obtain b where b: "find_binding g r d = Some b" "goals d \<noteq> []" "source_event_exists x i d"
    by (auto simp: recorded_def)
  have "length (goals d') = length (goals d)"
    using h b(2) by (metis history_kept_def length_map)
  then show ?thesis using b binding_kept [OF h b(2,1)] source_event_kept [OF h b(3)]
    by (auto simp: recorded_def)
qed

lemma record_records:
  assumes "base_ok (db s)"
  shows "wp (recordBridgeEvent g r x e) (\<lambda>res s'. tr_changed res \<longrightarrow> recorded g r x (be_eventId e) (db s')) (\<lambda>_ _. True) s"
  using binding_goal [OF assms, of g r]
  by (auto simp: recordBridgeEvent_def wp_simps db_simps recorded_def source_event_exists_def Let_def
      find_binding_set bridge_event_input_def split: option.split)

lemma input_records:
  assumes ok: "db_ok (db s)" and run: "applyInteractiveInput g r x e s = (Inr res, s')" "tr_changed res"
  shows "recorded g r x (be_eventId e) (db s')"
proof (cases "find_binding g r (db s)")
  case None
  then show ?thesis using run by (simp add: applyInteractiveInput_def bind_tx_def getBinding_def throw_def)
next
  case (Some b)
  have base: "base_ok (db s)" using ok by (simp add: db_ok_def)
  have t: "takeover_done r x e (db s) (db s') res"
    by (rule wp_returned [OF takeover_wp [OF ok Some changed_input [OF run Some]] run(1)])
  have h: "history_kept (db s) (db s')"
    using history_exec_op [OF base, of "Interactive_input g r x e"] run
    by (simp add: wp_def discard_def bind_tx_def ret_def)
  have "goals (db s) \<noteq> []" by (rule binding_goal [OF base Some])
  moreover from this have "length (goals (db s')) = length (goals (db s))"
    using h by (metis history_kept_def length_map)
  moreover obtain u v where "drop (length (events (db s))) (events (db s')) = [u, v]"
    "e_source_extension_instance_id u = Some x" "e_source_event_id u = Some (be_eventId e)"
    using t by (auto simp: takeover_done_def Let_def is_takeover_pair_def split: list.splits)
  then have "u \<in> set (events (db s'))" by (metis in_set_dropD list.set_intros(1))
  ultimately show ?thesis
    using binding_kept [OF h _ Some] \<open>e_source_extension_instance_id u = Some x\<close> \<open>e_source_event_id u = Some (be_eventId e)\<close>
    by (auto simp: recorded_def source_event_exists_def list_ex_iff)
qed

definition ignored :: "(failure + transition_result) \<times> store \<Rightarrow> store \<Rightarrow> bool" where
  "ignored out s =
     (case out of
        (Inr res, s') \<Rightarrow> s' = s \<and> \<not> tr_changed res \<and> tr_duplicate res \<and> tr_eventSequences res = []
      | _ \<Rightarrow> False)"

lemma recorded_ignored:
  assumes "recorded g r x (be_eventId e) (db s)" "\<not> inTransaction s" "faults s = []"
  shows "ignored (recordBridgeEvent g r x e s) s" "ignored (applyInteractiveInput g r x e s) s"
proof -
  obtain b where "find_binding g r (db s) = Some b" "source_event_exists x (be_eventId e) (db s)"
    using assms(1) by (auto simp: recorded_def)
  moreover have "s\<lparr>inTransaction := False, faults := []\<rparr> = s" by (rule undisturbed [OF assms(2,3)])
  ultimately have "wp (recordBridgeEvent g r x e) (\<lambda>res s'. s' = s \<and> \<not> tr_changed res \<and> tr_duplicate res \<and> tr_eventSequences res = []) (\<lambda>_ _. False) s"
    "wp (applyInteractiveInput g r x e) (\<lambda>res s'. s' = s \<and> \<not> tr_changed res \<and> tr_duplicate res \<and> tr_eventSequences res = []) (\<lambda>_ _. False) s"
    using assms(2,3) by (simp_all add: recordBridgeEvent_def applyInteractiveInput_def wp_simps next_fault_Nil)
  then show "ignored (recordBridgeEvent g r x e s) s" "ignored (applyInteractiveInput g r x e s) s"
    by (auto simp: ignored_def wp_def split: prod.splits sum.splits)
qed

text \<open>
  C2. At most once: after a bridge event (or interactive input) was recorded, presenting any
  event with the same identifier again, at any later time and on either path, changes nothing
  and is answered as a duplicate without event sequences.
\<close>

theorem recorded_event_replay_ignored:
  fixes s0 s1 s2 :: store
  assumes "s0 = run_ops ops (open_store j ids ticks)"
    and "recordBridgeEvent g r x e s0 = (Inr res, s1) \<or> applyInteractiveInput g r x e s0 = (Inr res, s1)"
    and "tr_changed res" and "s2 = run_ops later s1"
    and "\<not> inTransaction s2" "faults s2 = []" and "be_eventId e' = be_eventId e"
  shows "ignored (recordBridgeEvent g r x e' s2) s2 \<and> ignored (applyInteractiveInput g r x e' s2) s2"
proof -
  have ok: "db_ok (db s0)" unfolding assms(1) by (rule db_ok_run_ops) simp
  have base: "base_ok (db s0)" using ok by (simp add: db_ok_def)
  have "recorded g r x (be_eventId e) (db s1) \<and> db_ok (db s1)"
    using assms(2)
  proof
    assume run: "recordBridgeEvent g r x e s0 = (Inr res, s1)"
    have "s1 = snd (exec_op (Record_event g r x e) s0)"
      using run by (simp add: discard_def bind_tx_def ret_def)
    then have "db_ok (db s1)" using db_ok_exec_op [OF ok] by (simp only:)
    then show ?thesis using wp_returned [OF record_records [OF base] run] assms(3) by simp
  next
    assume run: "applyInteractiveInput g r x e s0 = (Inr res, s1)"
    have "s1 = snd (exec_op (Interactive_input g r x e) s0)"
      using run by (simp add: discard_def bind_tx_def ret_def)
    then have "db_ok (db s1)" using db_ok_exec_op [OF ok] by (simp only:)
    then show ?thesis using input_records [OF ok run assms(3)] by simp
  qed
  then have "recorded g r x (be_eventId e) (db s2)"
    using recorded_kept history_run_ops assms(4) by blast
  then show ?thesis using recorded_ignored [of g r x e' s2] assms(5-7) by simp
qed

section \<open>Restart\<close>

lemma same_role:
  assumes "base_ok d" "b \<in> set (bindings d)" "c \<in> set (bindings d)" "b_role b = b_role c"
  shows "b = c"
proof -
  obtain b0 where b0: "find_binding (b_team_goal_id b) (b_role b) d = Some b0"
    using assms(2) by (cases "find_binding (b_team_goal_id b) (b_role b) d") (auto simp: find_binding_def find_None_iff2)
  show ?thesis using role_unique [OF assms(1) b0] assms(2-4) by metis
qed

lemma founded_identity:
  assumes base: "base_ok (db s)" and f: "founded_by c now (db s)"
  shows "\<not> identity_mismatch (getBindings s) i \<longleftrightarrow> i \<in> set (bc_roles c)"
proof -
  have bs: "set (getBindings s) = set (bindings (db s))" by (simp add: getBindings_def)
  have fixed: "map binding_fixed (bindings (db s)) = map (\<lambda>i. (bc_teamGoalId c, i)) (bc_roles c)"
    using f by (simp add: founded_by_def bootstrapped_def bootstrap_bindings_def comp_def initial_binding_fixed)
  show ?thesis
  proof
    assume "\<not> identity_mismatch (getBindings s) i"
    then obtain b where "List.find (\<lambda>b. b_role b = ri_role i) (getBindings s) = Some b"
      and eq: "b_agent_run_id b = ri_agentRunId i" "b_terminal_session_ref b = ri_terminalSessionRef i"
        "b_shell_run_id b = ri_shellRunId i" "b_pi_session_id b = ri_piSessionId i"
        "b_extension_instance_id b = ri_extensionInstanceId i" "b_host_pid b = ri_hostPid i"
      by (auto simp: identity_mismatch_def split: option.splits)
    then have b: "b \<in> set (bindings (db s))" "b_role b = ri_role i" using find_Some_in bs by fast+
    then obtain k where "k \<in> set (bc_roles c)" "binding_fixed b = (bc_teamGoalId c, k)"
      using founded_binding [OF f] by blast
    moreover have "binding_fixed b = (b_team_goal_id b, i)"
      using b(2) eq by (cases i) (simp add: binding_fixed_def)
    ultimately show "i \<in> set (bc_roles c)" by simp
  next
    assume "i \<in> set (bc_roles c)"
    then have "(bc_teamGoalId c, i) \<in> set (map binding_fixed (bindings (db s)))" unfolding fixed by simp
    then obtain b where b: "b \<in> set (bindings (db s))" "binding_fixed b = (bc_teamGoalId c, i)"
      by (metis (no_types, lifting) imageE list.set_map)
    then have r: "b_role b = ri_role i" by (auto simp: binding_fixed_def)
    obtain k where k: "List.find (\<lambda>b. b_role b = ri_role i) (getBindings s) = Some k"
      using b(1) r bs by (cases "List.find (\<lambda>b. b_role b = ri_role i) (getBindings s)") (auto simp: find_None_iff2)
    have "k = b" using find_Some_in [OF k] bs b(1) r by (intro same_role [OF base]) auto
    then show "\<not> identity_mismatch (getBindings s) i"
      using k b(2) by (auto simp: identity_mismatch_def binding_fixed_def)
  qed
qed

text \<open>
  The restart check accepts a configuration with the founding goal, text and assignment whose
  roles are among the founding ones, as many of them.
\<close>

definition same_founding :: "bootstrap_config \<Rightarrow> bootstrap_config \<Rightarrow> bool" where
  "same_founding c c' \<longleftrightarrow>
     bc_teamGoalId c' = bc_teamGoalId c \<and> bc_goalText c' = bc_goalText c \<and>
     length (bc_roles c') = length (bc_roles c) \<and> set (bc_roles c') \<subseteq> set (bc_roles c) \<and>
     bc_assignment c' = bc_assignment c"

lemma mismatch_iff:
  assumes base: "base_ok (db s)" and f: "founded_by c now (db s)"
  shows "existingGoalMismatch s c' \<longleftrightarrow> \<not> same_founding c c'"
proof -
  obtain g where g: "goals (db s) = [g]" using base founded_goals [OF f]
    by (cases "goals (db s)") (auto simp: base_ok_def log_ok_def)
  obtain a where a: "assignments (db s) = [a]" using base g by (auto simp: base_ok_def one_assignment_def)
  have "goal_fixed g = (bc_teamGoalId c, bc_goalText c, now)" "length (bindings (db s)) = length (bc_roles c)"
    using f g by (simp_all add: founded_by_def bootstrapped_def bootstrap_bindings_def goal_fixed_def)
       (metis length_map)
  moreover have "assignment_fixed a = (ac_id (bc_assignment c), bc_teamGoalId c, bc_assignment c, now)"
    using f a by (simp add: founded_by_def bootstrapped_def assignment_fixed_def)
  then have ac: "bc_assignment c = \<lparr>ac_id = a_id a, ac_role = a_role a, ac_agentRunId = a_agent_run_id a,
      ac_prompt = a_prompt a\<rparr>" unfolding assignment_fixed_def prod.inject by (elim conjE) (rule sym)
  have "list_ex (identity_mismatch (getBindings s)) (bc_roles c') \<longleftrightarrow> \<not> set (bc_roles c') \<subseteq> set (bc_roles c)"
    using founded_identity [OF base f] by (auto simp: list_ex_iff)
  moreover have "(a_id a \<noteq> ac_id k \<or> a_role a \<noteq> ac_role k \<or> a_agent_run_id a \<noteq> ac_agentRunId k \<or> a_prompt a \<noteq> ac_prompt k)
      = (k \<noteq> bc_assignment c)" for k unfolding ac by (cases k) auto
  ultimately show ?thesis
    using g a
    by (auto simp: existingGoalMismatch_def same_founding_def getGoal_def first_by_def getBindings_def
        getAssignments_def goal_fixed_def)
qed

text \<open>
  Restart: once \<open>bootstrapIfNeeded c\<close> created the Team Goal, and after any further calls,
  bootstrapping with \<open>c\<close> again succeeds without creating or writing anything, and with another
  configuration it succeeds exactly when that one agrees with \<open>c\<close> on goal, text, assignment
  and role identities; otherwise it fails closed. It never writes.
\<close>

theorem restart_verifies_founding:
  assumes "bootstrapIfNeeded c (open_store j ids ticks) = (Inr created, s0)" and "s = run_ops ops s0"
  shows "created \<and> bootstrapIfNeeded c s = (Inr False, s) \<and>
    bootstrapIfNeeded c' s = ((if same_founding c c' then Inr False else Inl Bootstrap_mismatch), s)"
proof -
  have e: "base_ok (db (open_store j ids ticks))" "goals (db (open_store j ids ticks)) = []"
    using db_ok_empty by (simp_all add: open_store_def db_ok_def) (simp add: empty_database_def)
  have f0: "created \<and> founded_by c (ticks 0) (db s0)"
    using wp_returned [OF founding_call [OF e] assms(1)] by (simp add: open_store_def)
  have "s0 = snd (exec_op (Bootstrap c) (open_store j ids ticks))"
    using assms(1) by (simp add: discard_def bind_tx_def ret_def)
  then have ok0: "db_ok (db s0)" using db_ok_exec_op [OF open_store_ok(1)] by (simp only:)
  have ok: "db_ok (db s)" unfolding assms(2) by (rule db_ok_run_ops [OF ok0])
  have f: "founded_by c (ticks 0) (db s)"
    unfolding assms(2) using founded_kept history_run_ops [OF ok0] f0 by blast
  have base: "base_ok (db s)" using ok by (simp add: db_ok_def)
  obtain g where "getGoal s = Some g" using founded_goals [OF f] getGoal_None_iff by (cases "getGoal s") auto
  then have "bootstrapIfNeeded k s = ((if same_founding c k then Inr False else Inl Bootstrap_mismatch), s)" for k
    by (simp add: bootstrapIfNeeded_def bind_tx_def gets_def mismatch_iff [OF base f] require_tx_def ret_def throw_def)
  moreover have "same_founding c c" by (simp add: same_founding_def)
  ultimately show ?thesis using f0 by simp
qed

section \<open>An example team\<close>

definition demo_identity :: "role \<Rightarrow> string \<Rightarrow> role_identity" where
  "demo_identity r k =
     \<lparr>ri_role = r, ri_agentRunId = js (''run-'' @ k), ri_terminalSessionRef = js (''term-'' @ k),
      ri_shellRunId = js (''shell-'' @ k), ri_piSessionId = js (''pi-'' @ k),
      ri_extensionInstanceId = js (''ext-'' @ k), ri_hostPid = 4242\<rparr>"

definition demo_config :: bootstrap_config where
  "demo_config =
     \<lparr>bc_teamGoalId = js ''goal-1'', bc_goalText = js ''Ship the slice'',
      bc_roles = [demo_identity Coordinator ''c'', demo_identity Builder ''b'', demo_identity Reviewer ''r''],
      bc_assignment = \<lparr>ac_id = js ''task-1'', ac_role = Builder, ac_agentRunId = js ''run-b'',
                       ac_prompt = js ''Build it''\<rparr>\<rparr>"

definition demo_ids :: "nat \<Rightarrow> jstr" where "demo_ids k = js ''evt-'' @ digits (k mod 100)"
definition demo_ticks :: "nat \<Rightarrow> jstr" where "demo_ticks k = js ''2026-01-01T00:00:00.000Z''"
definition demo_journal :: journal_value where
  "demo_journal = \<lparr>jv_requested = Default_journal, jv_effective = js ''delete'', jv_sqliteVersion = js ''3.50''\<rparr>"

definition demo_store :: store where "demo_store = open_store demo_journal demo_ids demo_ticks"

definition demo_input :: "int \<Rightarrow> bridge_event" where
  "demo_input n = \<lparr>be_eventId = js ''src-1'', be_sequence = n, be_eventType = js ''human_input_submitted'',
     be_payload = [(js ''inputSource'', JStr (js ''interactive'')), (js ''charCount'', JWhole 3)]\<rparr>"

definition demo_accept :: "domain_op list" where
  "demo_accept = [Bootstrap demo_config, Accept (js ''task-1'') Builder (js ''ext-b'')]"

lemma enum_texts [simp]:
  "enum_text ROLES Coordinator = js ''coordinator''" "enum_text ROLES Builder = js ''builder''"
  "enum_text ROLES Reviewer = js ''reviewer''"
  "enum_text CONTROL_MODES Managed = js ''managed''" "enum_text CONTROL_MODES Manual_takeover = js ''manual_takeover''"
  "enum_text ASSIGNMENT_STATES Pending = js ''pending''" "enum_text ASSIGNMENT_STATES Active = js ''active''"
  "enum_text ASSIGNMENT_STATES Needs_reconciliation = js ''needs_reconciliation''"
  by (simp_all add: enum_text_def ROLES_def CONTROL_MODES_def ASSIGNMENT_STATES_def)

lemmas size_simps = quote_plain utf8_ascii plain_js eventPayload_limit_def

lemma demo_event_size: "utf8Bytes (stringify (JObj (ie_payload (bootstrap_event demo_config)))) \<le> eventPayload_limit"
  by (simp add: bootstrap_event_def demo_config_def demo_identity_def size_simps)

lemma demo_keys: "keys_ok (bootstrapped demo_config now)"
  by (simp add: keys_ok_def bootstrapped_def bootstrap_bindings_def demo_config_def demo_identity_def
      bindings_compatible_def initial_binding_def)

definition demo_tick :: jstr where "demo_tick = js ''2026-01-01T00:00:00.000Z''"

definition demo_created :: database where
  "demo_created = add_event (event_row_of (bootstrap_event demo_config) 1 (demo_ids 0) demo_tick)
     (bootstrapped demo_config demo_tick)"

lemma initial_labels_demo: "initial_labels demo_config r = Some (presentationLabels r Managed Waiting None)"
  by (cases r) (simp_all add: initial_labels_def demo_config_def demo_identity_def)

lemma demo_sel [simp]:
  "bc_teamGoalId demo_config = js ''goal-1''" "bc_goalText demo_config = js ''Ship the slice''"
  "bc_roles demo_config = [demo_identity Coordinator ''c'', demo_identity Builder ''b'', demo_identity Reviewer ''r'']"
  "bc_assignment demo_config = \<lparr>ac_id = js ''task-1'', ac_role = Builder, ac_agentRunId = js ''run-b'',
                       ac_prompt = js ''Build it''\<rparr>"
  by (simp_all add: demo_config_def)

lemma demo_store_sel [simp]:
  "db demo_store = empty_database" "inTransaction demo_store = False" "faults demo_store = []"
  "random_ids demo_store = demo_ids" "ids_drawn demo_store = 0" "clock demo_store k = demo_tick"
  "clock_reads demo_store = 0" "journal demo_store = demo_journal"
  by (simp_all add: demo_store_def open_store_def demo_ticks_def demo_tick_def fun_eq_iff)

lemma demo_create:
  "exec_op (Bootstrap demo_config) demo_store =
     (Inr (), demo_store\<lparr>db := demo_created, ids_drawn := 1, clock_reads := 2\<rparr>)"
proof -
  have "wp (exec_op (Bootstrap demo_config)) (\<lambda>u s'. s' = demo_store\<lparr>db := demo_created, ids_drawn := 1, clock_reads := 2\<rparr>) (\<lambda>_ _. False) demo_store"
    using demo_event_size
    apply (simp add: next_fault_def discard_def bootstrapIfNeeded_def wp_simps getGoal_def first_by_def empty_database_def
      bootstrapTx_def Let_def initial_labels_demo demo_identity_def binding_insertable_def initial_binding_def
      assignment_insertable_def event_insertable_def del: stringify.simps presentationLabels_sel)
    apply (simp add: next_row_def event_row_of_def demo_created_def bootstrapped_def bootstrap_bindings_def
      add_event_def advance_cursor_def initial_labels_demo demo_identity_def initial_binding_def bootstrap_event_def numeral_2_eq_2
      del: stringify.simps presentationLabels_sel)
    done
  then show ?thesis by (auto simp: wp_def split: prod.splits sum.splits)
qed

lemma demo_created_sel:
  "find_assignment (js ''task-1'') demo_created = Some \<lparr>a_id = js ''task-1'', a_team_goal_id = js ''goal-1'',
     a_role = Builder, a_agent_run_id = js ''run-b'', a_prompt = js ''Build it'', a_state = Pending,
     a_accepted_extension_instance_id = None, a_last_ack_status = None, a_created_at = demo_tick,
     a_updated_at = demo_tick\<rparr>"
  "find_binding (js ''goal-1'') Builder demo_created =
     Some (initial_binding (js ''goal-1'') (demo_identity Builder ''b'') (presentationLabels Builder Managed Waiting None))"
  "map g_id (goals demo_created) = [js ''goal-1'']"
  "events demo_created = [event_row_of (bootstrap_event demo_config) 1 (demo_ids 0) demo_tick]"
  "last_sequence demo_created = 1"
  by (simp_all add: find_assignment_def find_binding_def demo_created_def db_simps bootstrapped_def
      bootstrap_bindings_def initial_labels_demo demo_identity_def initial_binding_def event_row_of_def
      add_event_def del: presentationLabels_sel)

definition demo_ready :: store where
  "demo_ready = run_ops [Bootstrap demo_config] demo_store"

lemma demo_ready: "demo_ready = demo_store\<lparr>db := demo_created, ids_drawn := 1, clock_reads := 2\<rparr>"
  by (simp add: demo_ready_def demo_create del: exec_op.simps)

lemma demo_ids_few:
  "demo_ids 0 = js ''evt-0''" "demo_ids (Suc 0) = js ''evt-1''" "demo_ids (Suc (Suc 0)) = js ''evt-2''"
  by (simp_all add: demo_ids_def js_def digits.simps [of "Suc 0"] digits.simps [of "Suc (Suc 0)"])

lemma demo_input_size:
  "utf8Bytes (stringify (JObj (ie_payload (human_input_event (js ''goal-1'') Builder (js ''ext-b'') (demo_input 1))))) \<le> eventPayload_limit"
  by (simp add: human_input_event_def demo_input_def size_simps int_text_def digits.simps)

lemma demo_takeover_size:
  "utf8Bytes (stringify (JObj (ie_payload (takeover_event (js ''goal-1'') Builder (js ''ext-b'') Managed
      (Some (js ''task-1'')) (Some Pending))))) \<le> eventPayload_limit"
  by (simp add: takeover_event_def null_or_def size_simps)

text \<open>The Builder's human types into the terminal: the takeover happens.\<close>

lemma demo_active:
  "assignments (db s) = assignments demo_created \<Longrightarrow>
   getActiveAssignmentForRole (js ''goal-1'') Builder s = find_assignment (js ''task-1'') demo_created"
  by (simp add: getActiveAssignmentForRole_def find_assignment_def demo_created_def db_simps bootstrapped_def)

lemma demo_takeover:
  "wp (applyInteractiveInput (js ''goal-1'') Builder (js ''ext-b'') (demo_input 1))
     (\<lambda>res s'. tr_changed res \<and> \<not> inTransaction s' \<and> faults s' = []) (\<lambda>_ _. False) demo_ready"
  using demo_input_size demo_takeover_size
  apply (simp add: next_fault_def demo_ready applyInteractiveInput_def wp_simps demo_created_sel db_simps source_event_exists_def
    event_row_of_def bootstrap_event_def initial_binding_def demo_active take_over_assignment_def Let_def
    event_insertable_def source_clash_def next_row_def demo_ids_few del: stringify.simps)
  apply (simp add: takeover_event_def human_input_event_def demo_input_def)
  done

lemma demo_open: "demo_store = open_store demo_journal demo_ids demo_ticks"
  by (rule demo_store_def)

lemma demo_bootstrap: "exec_op (Bootstrap demo_config) demo_store = (Inr (), demo_ready)"
  unfolding demo_ready by (rule demo_create)

lemma demo_ready_db: "db demo_ready = demo_created" "inTransaction demo_ready = False" "faults demo_ready = []"
  by (simp_all add: demo_ready)

section \<open>Witnesses\<close>

theorem failed_call_changes_no_table_witness:
  "db (snd (exec_op (Accept (js ''nope'') Builder (js ''ext-b'')) demo_ready)) = demo_created"
proof -
  have "exec_op (Accept (js ''nope'') Builder (js ''ext-b'')) (run_ops [Bootstrap demo_config] (open_store demo_journal demo_ids demo_ticks))
      = (Inl Unknown_assignment, demo_ready)"
    unfolding demo_open [symmetric] demo_ready_def [symmetric]
    by (simp add: discard_def acceptAssignment_def authorizedAssignment_def bind_tx_def gets_def
        getAssignmentById_def demo_ready_db throw_def find_assignment_def demo_created_def db_simps bootstrapped_def)
  from failed_call_changes_no_table [OF this] this show ?thesis
    unfolding demo_open [symmetric] demo_ready_def [symmetric] by (simp add: demo_ready_db unwritten_def)
qed

definition demo_hello :: bridge_hello where
  "demo_hello =
     \<lparr>bh_teamGoalId = js ''goal-1'', bh_role = Builder, bh_agentRunId = js ''run-b'', bh_terminalSessionRef = js ''term-b'',
      bh_piSessionId = js ''pi-b'', bh_extensionInstanceId = js ''ext-b'', bh_hostPid = 4242, bh_shellRunId = js ''shell-b''\<rparr>"

text \<open>The exception happens: the event of the handshake is recorded although the handshake throws.\<close>

lemma handshake_not_atomic:
  "wp (exec_op (Handshake demo_hello)) (\<lambda>_ _. False)
     (\<lambda>e s'. e = Database_busy \<and> inTransaction s' \<and> map e_event_type (events (db s')) = [js ''goal_bootstrapped'', js ''bridge_connected''])
     (demo_ready\<lparr>faults := [No_fault, Begin_fails]\<rparr>)"
proof -
  have size: "utf8Bytes (stringify (JObj (ie_payload (connected_event demo_hello False)))) \<le> eventPayload_limit"
    by (simp add: connected_event_def demo_hello_def size_simps)
  have "tuple_matches (initial_binding (js ''goal-1'') (demo_identity Builder ''b'') (presentationLabels Builder Managed Waiting None)) demo_hello"
    by (simp add: tuple_matches_def initial_binding_def demo_identity_def demo_hello_def)
  moreover have "countBridgeConnectedEvents (js ''goal-1'') Builder s = 0" if "db s = demo_created" for s
    using that by (simp add: countBridgeConnectedEvents_def demo_created_sel event_row_of_def bootstrap_event_def)
  ultimately show ?thesis
    using size
    apply (simp add: demo_hello_def discard_def bridgeHandshake_def wp_simps demo_ready demo_created_sel next_fault_def snapshot_def
        del: stringify.simps)
    apply (simp add: event_insertable_def demo_created_sel db_simps source_clash_def next_row_def event_row_of_def
        connected_event_def bootstrap_event_def demo_ids_few add_event_def del: stringify.simps)
    done
qed

theorem takeover_effect_witness:
  "\<exists>res s'. applyInteractiveInput (js ''goal-1'') Builder (js ''ext-b'') (demo_input 1) demo_ready = (Inr res, s') \<and>
     takeover_done Builder (js ''ext-b'') (demo_input 1) demo_created (db s') res"
proof -
  obtain res s' where r: "applyInteractiveInput (js ''goal-1'') Builder (js ''ext-b'') (demo_input 1) demo_ready = (Inr res, s')"
    "tr_changed res" using demo_takeover by (auto simp: wp_def split: prod.splits sum.splits)
  with takeover_effect [of "js ''goal-1''" Builder "js ''ext-b''" "demo_input 1" "[Bootstrap demo_config]" demo_journal demo_ids demo_ticks res s']
  show ?thesis unfolding demo_open [symmetric] demo_ready_def [symmetric] by (auto simp: demo_ready_db)
qed

theorem recorded_event_replay_ignored_witness:
  "\<exists>res s1. applyInteractiveInput (js ''goal-1'') Builder (js ''ext-b'') (demo_input 1) demo_ready = (Inr res, s1) \<and>
     ignored (recordBridgeEvent (js ''goal-1'') Builder (js ''ext-b'') (demo_input 2) s1) s1"
proof -
  obtain res s1 where r: "applyInteractiveInput (js ''goal-1'') Builder (js ''ext-b'') (demo_input 1) demo_ready = (Inr res, s1)"
    "tr_changed res" "\<not> inTransaction s1" "faults s1 = []"
    using demo_takeover by (auto simp: wp_def split: prod.splits sum.splits)
  have "ignored (recordBridgeEvent (js ''goal-1'') Builder (js ''ext-b'') (demo_input 2) s1) s1 \<and>
      ignored (applyInteractiveInput (js ''goal-1'') Builder (js ''ext-b'') (demo_input 2) s1) s1"
    using r by (intro recorded_event_replay_ignored [OF demo_ready_def [unfolded demo_open] disjI2 [OF r(1)] r(2), of s1 "[]"])
       (simp_all add: demo_input_def)
  with r show ?thesis by blast
qed

theorem restart_verifies_founding_witness:
  "bootstrapIfNeeded (demo_config\<lparr>bc_goalText := js ''Other''\<rparr>) demo_ready = (Inl Bootstrap_mismatch, demo_ready)"
proof -
  obtain b where b: "bootstrapIfNeeded demo_config (open_store demo_journal demo_ids demo_ticks) = (Inr b, demo_ready)"
    using demo_bootstrap unfolding demo_open
    by (auto simp: discard_def bind_tx_def ret_def split: prod.splits sum.splits)
  have "\<not> same_founding demo_config (demo_config\<lparr>bc_goalText := js ''Other''\<rparr>)" by (simp add: same_founding_def)
  then show ?thesis
    using restart_verifies_founding [OF b, of demo_ready "[]" "demo_config\<lparr>bc_goalText := js ''Other''\<rparr>"] by simp
qed

section \<open>Snapshots and failures\<close>


lemma digits_length: "length (digits n) \<le> Suc n"
proof (induction n rule: digits.induct)
  case (1 n)
  then show ?case by (subst digits.simps) fastforce
qed

lemma demo_world: "world_inputs_ok demo_journal demo_ids demo_ticks"
proof -
  have "ID_RE (demo_ids k)" for k
  proof -
    have "list_all id_tail (digits (k mod 100))"
      using digits_all [of "k mod 100"] by (auto simp: list_all_iff id_tail_def is_alnum_def)
    moreover have "length (digits (k mod 100)) \<le> 100"
      using digits_length [of "k mod 100"] by (simp add: le_trans [of _ "Suc (k mod 100)"])
    ultimately show ?thesis
      by (simp add: demo_ids_def ID_RE_def matches_head_tail_def js_def is_alnum_def is_lower_def id_tail_def is_upper_def is_digit_def)
  qed
  then show ?thesis
    by (simp add: world_inputs_ok_def demo_ticks_def demo_journal_def journal_ok_def bounded_text_def)
qed

lemma demo_config_ok: "config_ok demo_config"
  by (simp add: config_ok_def demo_identity_def ID_RE_def matches_head_tail_def js_def is_alnum_def is_lower_def
      is_upper_def is_digit_def id_tail_def bounded_text_def goalText_limit_def prompt_limit_def host_pid_max_def)


section \<open>Two flaws of the store\<close>

lemma stuck_step:
  assumes "inTransaction s"
  shows "wp (exec_op op) (\<lambda>_ s'. inTransaction s' \<and> db s' = db s) (\<lambda>_ s'. inTransaction s' \<and> db s' = db s) s"
  using assms
  by (cases op) (simp_all add: exec_defs bootstrapIfNeeded_def wp_simps getAssignmentById_def split: option.split sum.split,
    simp_all add: wp_def)

lemma stuck_run: "inTransaction s \<Longrightarrow> inTransaction (run_ops ops s) \<and> db (run_ops ops s) = db s"
proof (induction ops arbitrary: s)
  case (Cons op ops)
  have "inTransaction (snd (exec_op op s)) \<and> db (snd (exec_op op s)) = db s"
    using stuck_step [OF Cons.prems, of op] by (simp add: wp_final [where P = "\<lambda>s'. inTransaction s' \<and> db s' = db s"])
  then show ?case using Cons.IH by simp
qed simp

text \<open>
  C15. A transaction whose \<open>BEGIN IMMEDIATE\<close> throws, because another process holds the write lock
  for longer than the busy timeout, leaves the transaction flag set for ever: whatever is called
  afterwards and however free the lock is by then, every transaction on this store is refused as
  nested and no table ever changes again.
\<close>

theorem busy_lock_wedges_store:
  assumes "\<not> inTransaction s" "next_fault s = Begin_fails"
    and "s' = run_ops ops (snd (withImmediateTransaction m s))"
  shows "fst (withImmediateTransaction m s) = Inl Database_busy \<and>
     fst (withImmediateTransaction m' s') = Inl Nested_transaction \<and> db s' = db s"
  using assms stuck_run [of "snd (withImmediateTransaction m s)" ops]
  by (simp add: withImmediateTransaction_def)

theorem busy_lock_wedges_store_witness:
  "fst (withImmediateTransaction snapshotTx
     (run_ops [Other_process []] (snd (withImmediateTransaction snapshotTx (demo_ready\<lparr>faults := [Begin_fails]\<rparr>)))))
   = Inl Nested_transaction"
  using busy_lock_wedges_store [of "demo_ready\<lparr>faults := [Begin_fails]\<rparr>" _ "[Other_process []]" snapshotTx snapshotTx]
  by (simp add: demo_ready_db next_fault_def)

definition oversized_event :: bridge_event where
  "oversized_event =
     \<lparr>be_eventId = js ''big-1'', be_sequence = 1, be_eventType = js ''agent_output'',
      be_payload = [(js ''k'', JStr (replicate 4088 97))]\<rparr>"

lemma plain_replicate: "plain (replicate n 97)"
  by (simp add: plain_def list_all_iff)

text \<open>
  The frame validator admits bridge events the domain can never record: the payload limit
  is checked before the role is added to the payload, so an event within the limit is refused
  by every store that does not know it yet, and the exception closes its connection.
\<close>

theorem validated_event_never_recorded:
  "bridge_event_ok oversized_event \<and> json_ok (JObj (be_payload oversized_event)) \<and>
   \<not> (case recordBridgeEvent g r x oversized_event s of (Inr res, _) \<Rightarrow> tr_changed res | (Inl _, _) \<Rightarrow> False)"
proof -
  have small: "utf8Bytes (stringify (JObj (be_payload oversized_event))) = 4096"
    by (simp add: oversized_event_def size_simps plain_replicate is_high_surrogate_def)
  have big: "eventPayload_limit < utf8Bytes (stringify (JObj (ie_payload (bridge_event_input g r x oversized_event))))"
    by (cases r) (simp_all add: bridge_event_input_def role_and_def oversized_event_def obj_put_def
      js_not_index is_digit_def insert_prop_plain size_simps plain_replicate is_high_surrogate_def)
  have "bridge_event_ok oversized_event"
    using small by (simp add: bridge_event_ok_def oversized_event_def eventPayload_limit_def ID_RE_def EVENT_TYPE_RE_def
      matches_head_tail_def js_def is_alnum_def is_lower_def is_upper_def is_digit_def id_tail_def MAX_SAFE_INTEGER_def
      del: stringify.simps)
  moreover have "json_ok (JObj (be_payload oversized_event))"
    by (simp add: oversized_event_def build_obj_def obj_put_def)
  moreover have "wp (recordBridgeEvent g r x oversized_event) (\<lambda>res _. \<not> tr_changed res) (\<lambda>_ _. True) s"
    using big by (simp add: recordBridgeEvent_def wp_simps Let_def del: stringify.simps split: option.split)
  ultimately show ?thesis by (auto simp: wp_def split: prod.splits sum.splits)
qed

end
