(* ===== verification/Runner.thy ===== *)
theory Runner
  imports DomainProperties
begin

text \<open>
  src/runner.ts with the connections of src/transport.ts: a runner owns the store and the
  sessions of its clients. \<open>on_data\<close> is the socket's data handler (decoder, then one handler
  call per frame), so the order in which frames, failures and closings act on the sessions is
  that of the event loop. A session is an index into \<open>rn_objs\<close>; the collections of the class
  hold such indices in insertion order. \<open>se_sent\<close> are the frames whose lines were written to
  the socket. Listening, the socket file and its permissions are not modelled.
\<close>

section \<open>State\<close>

datatype session_kind = Pending_kind | Bridge_session | Projection_session

record session =
  se_kind :: session_kind
  se_role :: "role option"
  se_lastSentSequence :: int
  se_closed :: bool
  se_decoder :: decoder
  se_sent :: "decoded_frame list"

datatype runner_failure =
    Domain_failure failure
  | Protocol_failure protocol_code
  | Already_started

record runner =
  rn_store :: store
  rn_objs :: "session list"
  rn_sessions :: "nat list"
  rn_bridges :: "(role \<times> nat) list"
  rn_projections :: "nat list"
  rn_counter :: nat
  rn_started :: bool
  rn_message :: "runner_failure \<Rightarrow> jstr"

type_synonym 'a rn = "runner \<Rightarrow> (runner_failure + 'a) \<times> runner"

definition ret_rn :: "'a \<Rightarrow> 'a rn" where "ret_rn x r = (Inr x, r)"
definition throw_rn :: "runner_failure \<Rightarrow> 'a rn" where "throw_rn e r = (Inl e, r)"
definition gets_rn :: "(runner \<Rightarrow> 'a) \<Rightarrow> 'a rn" where "gets_rn f r = (Inr (f r), r)"
definition modify_rn :: "(runner \<Rightarrow> runner) \<Rightarrow> unit rn" where "modify_rn f r = (Inr (), f r)"

definition bind_rn :: "'a rn \<Rightarrow> ('a \<Rightarrow> 'b rn) \<Rightarrow> 'b rn" where
  "bind_rn m f r = (case m r of (Inl e, r') \<Rightarrow> (Inl e, r') | (Inr x, r') \<Rightarrow> f x r')"

definition then_rn :: "unit rn \<Rightarrow> 'b rn \<Rightarrow> 'b rn" where
  "then_rn m n = bind_rn m (\<lambda>_. n)"

definition catch_rn :: "'a rn \<Rightarrow> (runner_failure \<Rightarrow> 'a rn) \<Rightarrow> 'a rn" where
  "catch_rn m h r = (case m r of (Inl e, r') \<Rightarrow> h e r' | (Inr x, r') \<Rightarrow> (Inr x, r'))"

definition on_store :: "'a tx \<Rightarrow> 'a rn" where
  "on_store m r =
     (case m (rn_store r) of
        (Inl e, s) \<Rightarrow> (Inl (Domain_failure e), r\<lparr>rn_store := s\<rparr>)
      | (Inr x, s) \<Rightarrow> (Inr x, r\<lparr>rn_store := s\<rparr>))"

definition on_result :: "protocol_code + 'a \<Rightarrow> 'a rn" where
  "on_result m = (case m of Inl e \<Rightarrow> throw_rn (Protocol_failure e) | Inr x \<Rightarrow> ret_rn x)"

fun each_rn :: "('a \<Rightarrow> unit rn) \<Rightarrow> 'a list \<Rightarrow> unit rn" where
  "each_rn f [] = ret_rn ()"
| "each_rn f (x # xs) = then_rn (f x) (each_rn f xs)"

definition the_session :: "nat \<Rightarrow> runner \<Rightarrow> session" where
  "the_session i r = rn_objs r ! i"

definition update_session :: "nat \<Rightarrow> (session \<Rightarrow> session) \<Rightarrow> unit rn" where
  "update_session i f = modify_rn (\<lambda>r. r\<lparr>rn_objs := (rn_objs r)[i := f (rn_objs r ! i)]\<rparr>)"

definition set_add :: "'a \<Rightarrow> 'a list \<Rightarrow> 'a list" where
  "set_add x xs = (if x \<in> set xs then xs else xs @ [x])"

section \<open>Connections\<close>

text \<open>\<open>FrameChannel.send\<close> below \<open>Runner.send\<close>: the counter is spent also when encoding fails.\<close>

definition message_id :: "jstr \<Rightarrow> nat \<Rightarrow> jstr" where
  "message_id type n = js ''runner-'' @ type @ js ''-'' @ digits n"

definition channel_send :: "nat \<Rightarrow> jstr \<Rightarrow> frame_body \<Rightarrow> unit rn" where
  "channel_send i messageId body =
     bind_rn (gets_rn (\<lambda>r. se_closed (the_session i r))) (\<lambda>closed.
     if closed then throw_rn (Protocol_failure Connection_closed)
     else bind_rn (on_result (encodeFrame (body_type body) messageId (body_json body))) (\<lambda>_.
       update_session i (\<lambda>s. s\<lparr>se_sent := se_sent s @
         [\<lparr>df_type = body_type body, df_messageId = messageId, df_body = body\<rparr>]\<rparr>)))"

definition send :: "nat \<Rightarrow> frame_body \<Rightarrow> unit rn" where
  "send i body =
     then_rn (modify_rn (\<lambda>r. r\<lparr>rn_counter := Suc (rn_counter r)\<rparr>))
       (bind_rn (gets_rn rn_counter) (\<lambda>n. channel_send i (message_id (body_type body) n) body))"

definition channel_close :: "nat \<Rightarrow> unit rn" where
  "channel_close i = update_session i (\<lambda>s. s\<lparr>se_closed := True\<rparr>)"

definition handleClose :: "nat \<Rightarrow> unit rn" where
  "handleClose i =
     then_rn (modify_rn (\<lambda>r.
       let s = the_session i r;
           r1 = r\<lparr>rn_sessions := removeAll i (rn_sessions r)\<rparr>;
           r2 = (case (se_kind s, se_role s) of
                   (Bridge_session, Some role) \<Rightarrow>
                     if map_of (rn_bridges r1) role = Some i
                     then r1\<lparr>rn_bridges := assoc_del role (rn_bridges r1)\<rparr> else r1
                 | _ \<Rightarrow> r1)
       in if se_kind s = Projection_session
          then r2\<lparr>rn_projections := removeAll i (rn_projections r2)\<rparr> else r2))
     (channel_close i)"

definition error_frame :: "string \<Rightarrow> jstr \<Rightarrow> frame_body" where
  "error_frame code detail = Protocol_error \<lparr>eb_code = js code, eb_detail = detail\<rparr>"

text \<open>The refusal of a connection: an error frame, then the channel and the session are closed.\<close>

definition refuse :: "nat \<Rightarrow> string \<Rightarrow> jstr \<Rightarrow> unit rn" where
  "refuse i code detail =
     then_rn (send i (error_frame code detail)) (then_rn (channel_close i) (handleClose i))"

section \<open>Streaming to projections\<close>

fun committed_records :: "int list \<Rightarrow> event_record list rn" where
  "committed_records [] = ret_rn []"
| "committed_records (n # ns) =
     bind_rn (on_store (eventsAfter (n - 1) 1)) (\<lambda>events.
     bind_rn (committed_records ns) (\<lambda>rest. ret_rn (take 1 events @ rest)))"

definition push_record :: "nat \<Rightarrow> event_record \<Rightarrow> unit rn" where
  "push_record p record =
     bind_rn (gets_rn (\<lambda>r. se_lastSentSequence (the_session p r))) (\<lambda>sent.
     if sent < er_sequence record
     then then_rn (send p (Event record))
            (update_session p (\<lambda>s. s\<lparr>se_lastSentSequence := er_sequence record\<rparr>))
     else ret_rn ())"

definition pushEventsToProjections :: "int list \<Rightarrow> unit rn" where
  "pushEventsToProjections sequences =
     (if sequences = [] then ret_rn ()
      else bind_rn (committed_records sequences) (\<lambda>records.
           bind_rn (gets_rn rn_projections) (\<lambda>projections.
           each_rn (\<lambda>p. each_rn (push_record p) records) projections)))"

definition current_goal_id :: "runner \<Rightarrow> jstr" where
  "current_goal_id r = (case getGoal (rn_store r) of None \<Rightarrow> [] | Some g \<Rightarrow> g_id g)"

definition afterCommit :: "role \<Rightarrow> int \<Rightarrow> int list \<Rightarrow> unit rn" where
  "afterCommit role cursor sequences =
     bind_rn (gets_rn current_goal_id) (\<lambda>goalId.
     bind_rn (on_store (getBinding goalId role)) (\<lambda>binding.
     bind_rn (gets_rn (\<lambda>r. map_of (rn_bridges r) role)) (\<lambda>bridge.
     then_rn (case bridge of
                None \<Rightarrow> ret_rn ()
              | Some b \<Rightarrow> send b (Presentation_update
                  (buildPresentationUpdate role (b_agent_run_id binding) cursor (binding_labels binding))))
       (pushEventsToProjections sequences))))"

section \<open>Handshakes\<close>

definition replayable :: "assignment_row option \<Rightarrow> bool" where
  "replayable a = (case a of None \<Rightarrow> False | Some x \<Rightarrow> a_state x = Pending \<or> a_state x = Active)"

definition accept_bridge :: "nat \<Rightarrow> bridge_hello \<Rightarrow> handshake_result \<Rightarrow> unit rn" where
  "accept_bridge i hello handshake =
     then_rn (update_session i (\<lambda>s. s\<lparr>se_kind := Bridge_session, se_role := Some (bh_role hello),
                se_lastSentSequence := hr_eventCursor handshake\<rparr>))
     (then_rn (modify_rn (\<lambda>r. r\<lparr>rn_bridges := assoc_put (bh_role hello) i (rn_bridges r)\<rparr>))
     (then_rn (send i (Hello_ack \<lparr>ha_connectionKind = Bridge_kind,
                ha_teamGoalId = bh_teamGoalId hello, ha_role = Some (bh_role hello)\<rparr>))
     (then_rn (send i (Snapshot (hr_snapshot handshake)))
     (bind_rn (on_store (getBinding (bh_teamGoalId hello) (bh_role hello))) (\<lambda>binding.
      then_rn (send i (Presentation_update (buildPresentationUpdate (bh_role hello)
                 (b_agent_run_id binding) (hr_eventCursor handshake) (hr_labels handshake))))
      (bind_rn (gets_rn (\<lambda>r. getActiveAssignmentForRole (bh_teamGoalId hello) (bh_role hello) (rn_store r)))
        (\<lambda>assignment.
         then_rn (case assignment of
                    Some a \<Rightarrow> if b_control_mode binding = Managed \<and> replayable assignment
                      then send i (Assignment \<lparr>ab_assignmentId = a_id a, ab_role = a_role a,
                             ab_agentRunId = a_agent_run_id a, ab_prompt = a_prompt a\<rparr>)
                      else ret_rn ()
                  | None \<Rightarrow> ret_rn ())
         (pushEventsToProjections [hr_eventCursor handshake]))))))))"

definition handleBridgeHello :: "nat \<Rightarrow> bridge_hello \<Rightarrow> unit rn" where
  "handleBridgeHello i hello =
     bind_rn (gets_rn (\<lambda>r. getGoal (rn_store r))) (\<lambda>goal.
     if map_option g_id goal \<noteq> Some (bh_teamGoalId hello)
     then refuse i ''unknown_team_goal'' (js ''unknown Team Goal for handshake'')
     else bind_rn (gets_rn (\<lambda>r. map_of (rn_bridges r) (bh_role hello))) (\<lambda>existing.
       if existing \<noteq> None \<and> existing \<noteq> Some i
       then refuse i ''role_busy'' (js ''only one connection may own a role at a time'')
       else bind_rn (catch_rn (bind_rn (on_store (bridgeHandshake hello)) (\<lambda>h. ret_rn (Some h)))
                (\<lambda>e. bind_rn (gets_rn (\<lambda>r. rn_message r e)) (\<lambda>detail.
                     then_rn (refuse i ''identity_mismatch'' detail) (ret_rn None)))) (\<lambda>handshake.
         case handshake of None \<Rightarrow> ret_rn () | Some h \<Rightarrow> accept_bridge i hello h)))"

text \<open>
  The replay loop: pages of at most two events up to the captured cursor. Each turn moves the
  page cursor forward, so \<open>currentCursor - pageCursor\<close> turns are enough.
\<close>

fun replay_loop :: "nat \<Rightarrow> nat \<Rightarrow> int \<Rightarrow> int \<Rightarrow> unit rn" where
  "replay_loop 0 i currentCursor pageCursor = ret_rn ()"
| "replay_loop (Suc n) i currentCursor pageCursor =
     (if currentCursor \<le> pageCursor then ret_rn ()
      else bind_rn (on_store (eventsAfter pageCursor (min (int MAX_EVENTS_PER_PAGE) 2))) (\<lambda>found.
        let events = filter (\<lambda>e. er_sequence e \<le> currentCursor) found
        in if events = [] then throw_rn (Domain_failure History_missing)
           else let toCursor = er_sequence (last events)
                in then_rn (send i (Event_page \<lparr>ep_fromCursor = pageCursor, ep_toCursor = toCursor,
                              ep_events = events\<rparr>))
                     (replay_loop n i currentCursor toCursor)))"

definition replay :: "nat \<Rightarrow> int \<Rightarrow> int \<Rightarrow> unit rn" where
  "replay i currentCursor resumeAfter =
     then_rn (replay_loop (nat (currentCursor - resumeAfter)) i currentCursor resumeAfter)
       (if resumeAfter < currentCursor then ret_rn ()
        else send i (Event_page \<lparr>ep_fromCursor = resumeAfter, ep_toCursor = resumeAfter, ep_events = []\<rparr>))"

definition too_far :: "int option \<Rightarrow> int \<Rightarrow> bool" where
  "too_far resumeAfter cursor = (case resumeAfter of None \<Rightarrow> False | Some n \<Rightarrow> cursor < n)"

definition cursor_detail :: "int option \<Rightarrow> int \<Rightarrow> jstr" where
  "cursor_detail resumeAfter cursor =
     js ''resumeAfter '' @ (case resumeAfter of None \<Rightarrow> js ''null'' | Some n \<Rightarrow> int_text n) @
     js '' is greater than the durable cursor '' @ int_text cursor"

definition handleProjectionHello :: "nat \<Rightarrow> projection_hello \<Rightarrow> unit rn" where
  "handleProjectionHello i hello =
     bind_rn (gets_rn (\<lambda>r. getGoal (rn_store r))) (\<lambda>found.
     case found of
       None \<Rightarrow> refuse i ''unknown_team_goal'' (js ''unknown Team Goal for handshake'')
     | Some goal \<Rightarrow>
         if g_id goal \<noteq> ph_teamGoalId hello
         then refuse i ''unknown_team_goal'' (js ''unknown Team Goal for handshake'')
         else let currentCursor = g_event_cursor goal
         in if too_far (ph_resumeAfter hello) currentCursor 
            then refuse i ''invalid_cursor'' (cursor_detail (ph_resumeAfter hello) currentCursor)
            else then_rn (update_session i (\<lambda>s. s\<lparr>se_kind := Projection_session,
                   se_lastSentSequence := currentCursor\<rparr>))
              (then_rn (modify_rn (\<lambda>r. r\<lparr>rn_projections := set_add i (rn_projections r)\<rparr>))
              (then_rn (send i (Hello_ack \<lparr>ha_connectionKind = Projection_kind,
                   ha_teamGoalId = ph_teamGoalId hello, ha_role = None\<rparr>))
              (then_rn (case ph_resumeAfter hello of
                          None \<Rightarrow> ret_rn () | Some resumeAfter \<Rightarrow> replay i currentCursor resumeAfter)
              (bind_rn (on_store snapshot) (\<lambda>snap. send i (Snapshot snap)))))))"

definition handleFirstFrame :: "nat \<Rightarrow> decoded_frame \<Rightarrow> unit rn" where
  "handleFirstFrame i frame =
     (let body = Some (JObj (body_json (df_body frame)))
      in if df_type frame = js ''bridge.hello''
         then bind_rn (on_result (validateBridgeHello body)) (handleBridgeHello i)
         else if df_type frame = js ''projection.hello''
         then bind_rn (on_result (validateProjectionHello body)) (handleProjectionHello i)
         else refuse i ''invalid_handshake_order''
           (js ''the first frame on every connection must be a bridge.hello or projection.hello''))"

section \<open>Frames of a bridge\<close>

definition observation_payload :: "assignment_ack \<Rightarrow> role \<Rightarrow> obj" where
  "observation_payload ack role =
     [(js ''assignmentId'', JStr (aa_assignmentId ack)), (js ''ack'', JEnum ACK_STATUSES (aa_ack ack)),
      (js ''role'', JEnum ROLES role)]"

definition acknowledge :: "assignment_ack \<Rightarrow> role \<Rightarrow> jstr \<Rightarrow> jstr \<Rightarrow> transition_result option rn" where
  "acknowledge ack role goalId x =
     then_rn (on_store (authorizeAssignmentAcknowledgement (aa_assignmentId ack) role x))
     (case aa_ack ack of
        Accepted \<Rightarrow> bind_rn (on_store (acceptAssignment (aa_assignmentId ack) role x)) (\<lambda>t. ret_rn (Some t))
      | Duplicate \<Rightarrow> bind_rn (on_store (recordDuplicateAck (aa_assignmentId ack) role x)) (\<lambda>t. ret_rn (Some t))
      | _ \<Rightarrow> bind_rn (on_store (recordRunnerObservation goalId role (js ''assignment_acknowledged'')
                 (observation_payload ack role))) (\<lambda>sequence.
             then_rn (pushEventsToProjections [sequence]) (ret_rn None)))"

definition handleAssignmentAck :: "nat \<Rightarrow> role \<Rightarrow> assignment_ack \<Rightarrow> unit rn" where
  "handleAssignmentAck i role ack =
     bind_rn (gets_rn (\<lambda>r. getGoal (rn_store r))) (\<lambda>found.
     case found of
       None \<Rightarrow> ret_rn ()
     | Some goal \<Rightarrow>
         bind_rn (on_store (getBinding (g_id goal) role)) (\<lambda>binding.
         bind_rn (catch_rn
             (bind_rn (acknowledge ack role (g_id goal) (b_extension_instance_id binding)) (\<lambda>t. ret_rn (Some t)))
             (\<lambda>e. bind_rn (gets_rn (\<lambda>r. rn_message r e)) (\<lambda>detail.
                  then_rn (refuse i ''unauthorized_assignment_ack'' detail) (ret_rn None)))) (\<lambda>outcome.
         case outcome of
           Some (Some t) \<Rightarrow>
             if tr_changed t then afterCommit role (tr_eventCursor t) (tr_eventSequences t)
             else pushEventsToProjections (tr_eventSequences t)
         | _ \<Rightarrow> ret_rn ())))"

definition isInteractiveInput :: "bridge_event \<Rightarrow> bool" where
  "isInteractiveInput e \<longleftrightarrow>
     be_eventType e = js ''human_input_submitted'' \<and>
     own_prop (be_payload e) ''inputSource'' = Some (JStr (js ''interactive''))"

definition handleBridgeEvent :: "role \<Rightarrow> jstr \<Rightarrow> bridge_event \<Rightarrow> unit rn" where
  "handleBridgeEvent role goalId event =
     bind_rn (on_store (getBinding goalId role)) (\<lambda>binding.
     if isInteractiveInput event
     then bind_rn (on_store (applyInteractiveInput goalId role (b_extension_instance_id binding) event)) (\<lambda>t.
            if tr_changed t then afterCommit role (tr_eventCursor t) (tr_eventSequences t) else ret_rn ())
     else bind_rn (on_store (recordBridgeEvent goalId role (b_extension_instance_id binding) event)) (\<lambda>t.
            pushEventsToProjections (tr_eventSequences t)))"

definition handleBridgeFrame :: "nat \<Rightarrow> decoded_frame \<Rightarrow> unit rn" where
  "handleBridgeFrame i frame =
     bind_rn (gets_rn (\<lambda>r. se_role (the_session i r))) (\<lambda>role.
     bind_rn (gets_rn (\<lambda>r. getGoal (rn_store r))) (\<lambda>goal.
     case (role, goal) of
       (Some role, Some goal) \<Rightarrow>
         let body = Some (JObj (body_json (df_body frame)))
         in if df_type frame = js ''bridge.assignment_ack''
            then bind_rn (on_result (validateAssignmentAck body)) (handleAssignmentAck i role)
            else if df_type frame = js ''bridge.event''
            then bind_rn (on_result (validateBridgeEvent body)) (handleBridgeEvent role (g_id goal))
            else refuse i ''unexpected_frame'' (js ''bridge connections may not send '' @ df_type frame)
     | _ \<Rightarrow> ret_rn ()))"

definition handleFrame :: "nat \<Rightarrow> decoded_frame \<Rightarrow> unit rn" where
  "handleFrame i frame =
     bind_rn (gets_rn (\<lambda>r. se_kind (the_session i r))) (\<lambda>kind.
     case kind of
       Pending_kind \<Rightarrow> handleFirstFrame i frame
     | Bridge_session \<Rightarrow> handleBridgeFrame i frame
     | Projection_session \<Rightarrow> refuse i ''unexpected_frame''
         (js ''projection connections may send only the initial handshake''))"

section \<open>The event loop\<close>

text \<open>\<open>FrameChannel.fail\<close>: the close handler runs once, then the socket is destroyed.\<close>

definition fail :: "nat \<Rightarrow> runner \<Rightarrow> runner" where
  "fail i r =
     (if se_closed (the_session i r) then r
      else snd (then_rn (channel_close i) (handleClose i) r))"

fun deliver :: "nat \<Rightarrow> decoded_frame list \<Rightarrow> runner \<Rightarrow> runner" where
  "deliver i [] r = r"
| "deliver i (f # fs) r =
     (case handleFrame i f r of
        (Inl _, r') \<Rightarrow> fail i r'
      | (Inr _, r') \<Rightarrow> deliver i fs r')"

definition on_data :: "nat \<Rightarrow> jstr \<Rightarrow> runner \<Rightarrow> runner" where
  "on_data i chunk r =
     (case push (se_decoder (the_session i r)) chunk of
        Inl _ \<Rightarrow> fail i r
      | Inr (frames, d) \<Rightarrow> deliver i frames (snd (update_session i (\<lambda>s. s\<lparr>se_decoder := d\<rparr>) r)))"

definition on_connection :: "runner \<Rightarrow> runner" where
  "on_connection r =
     r\<lparr>rn_objs := rn_objs r @ [\<lparr>se_kind = Pending_kind, se_role = None, se_lastSentSequence = 0,
                                se_closed = False, se_decoder = fresh_decoder, se_sent = []\<rparr>],
       rn_sessions := rn_sessions r @ [length (rn_objs r)]\<rparr>"

definition start :: "bool \<Rightarrow> int \<Rightarrow> unit rn" where
  "start freshBootstrap pid =
     bind_rn (gets_rn rn_started) (\<lambda>started.
     if started then throw_rn Already_started
     else bind_rn (gets_rn (\<lambda>r. getGoal (rn_store r))) (\<lambda>goal.
       then_rn (case goal of
                  Some g \<Rightarrow> if freshBootstrap then ret_rn ()
                            else bind_rn (on_store (markRunnerRestarted (g_id g) pid)) (\<lambda>_. ret_rn ())
                | None \<Rightarrow> ret_rn ())
         (modify_rn (\<lambda>r. r\<lparr>rn_started := True\<rparr>))))"

definition stop :: "unit rn" where
  "stop =
     bind_rn (gets_rn rn_sessions) (\<lambda>ids.
     then_rn (each_rn handleClose ids) (modify_rn (\<lambda>r. r\<lparr>rn_started := False\<rparr>)))"

text \<open>
  What the outside can do to a runner. Data arrives on open connections only: a destroyed
  socket emits no more chunks.
\<close>

datatype runner_input =
    Connect
  | Data nat jstr
  | Hang_up nat
  | Lock_elsewhere "transaction_fault list"
  | Start bool int
  | Stop

fun runner_step :: "runner_input \<Rightarrow> runner \<Rightarrow> runner" where
  "runner_step Connect r = on_connection r"
| "runner_step (Data i chunk) r =
     (if i < length (rn_objs r) \<and> \<not> se_closed (the_session i r) then on_data i chunk r else r)"
| "runner_step (Hang_up i) r = (if i < length (rn_objs r) then fail i r else r)"
| "runner_step (Lock_elsewhere fs) r = r\<lparr>rn_store := (rn_store r)\<lparr>faults := fs\<rparr>\<rparr>"
| "runner_step (Start fresh pid) r = snd (start fresh pid r)"
| "runner_step Stop r = snd (stop r)"

fun runner_run :: "runner_input list \<Rightarrow> runner \<Rightarrow> runner" where
  "runner_run [] r = r"
| "runner_run (x # xs) r = runner_run xs (runner_step x r)"

definition new_runner :: "store \<Rightarrow> (runner_failure \<Rightarrow> jstr) \<Rightarrow> runner" where
  "new_runner s messages =
     \<lparr>rn_store = s, rn_objs = [], rn_sessions = [], rn_bridges = [], rn_projections = [],
      rn_counter = 0, rn_started = False, rn_message = messages\<rparr>"

end
