(* ===== verification/Decoding.thy ===== *)
theory Decoding
  imports DomainContents
begin

text \<open>
  The other direction of the codec: whatever text arrives, a value the parser returns is in the
  normal form the printer reproduces (\<open>parse_json_ok\<close>), and a frame the decoder delivers satisfies
  every predicate of its type (\<open>frame_valid\<close>). The runner relies on it: what it hands to the
  domain is then admissible input.
\<close>


section \<open>What a parser returns\<close>

lemma scan_digits_prefix:
  "scan_digits s = Some (ds, t) \<Longrightarrow> s = ds @ t \<and> list_all is_digit ds \<and> ds \<noteq> []"
  by (auto simp: scan_digits_def Let_def list_all_iff dest: set_takeWhileD split: if_splits)

lemma scan_digits_whole: "scan_digits s = Some (ds, t) \<Longrightarrow> scan_digits ds = Some (ds, [])"
  using scan_digits_prefix [of s ds t] scan_digits_append [of ds "[]"] by simp

lemma scan_fraction_prefix:
  assumes "scan_fraction s = Some (fs, t)"
  shows "\<exists>p. s = p @ t \<and> scan_fraction p = Some (fs, []) \<and> (p \<noteq> [] \<longrightarrow> hd p = 46)"
proof (cases s)
  case Nil
  then show ?thesis using assms by (intro exI [of _ "[]"]) (auto simp: scan_fraction_def)
next
  case (Cons c cs)
  show ?thesis
  proof (cases "c = 46")
    case True
    then have "scan_digits cs = Some (fs, t)" using assms Cons by (simp add: scan_fraction_def)
    then show ?thesis using True Cons scan_digits_prefix [of cs] scan_digits_whole [of cs]
      by (intro exI [of _ "46 # fs"]) (simp add: scan_fraction_def)
  next
    case False
    then show ?thesis using assms Cons by (intro exI [of _ "[]"]) (auto simp: scan_fraction_def)
  qed
qed

lemma scan_exponent_prefix:
  assumes "scan_exponent s = Some (e, t)"
  shows "\<exists>p. s = p @ t \<and> scan_exponent p = Some (e, []) \<and> (p \<noteq> [] \<longrightarrow> hd p = 101 \<or> hd p = 69)"
proof (cases s)
  case Nil
  then show ?thesis using assms by (intro exI [of _ "[]"]) (auto simp: scan_exponent_def)
next
  case (Cons c cs)
  show ?thesis
  proof (cases "c = 101 \<or> c = 69")
    case False
    then show ?thesis using assms Cons by (intro exI [of _ "[]"]) (auto simp: scan_exponent_def)
  next
    case True
    then obtain d ds where d: "cs = d # ds" using assms Cons by (cases cs) (auto simp: scan_exponent_def)
    show ?thesis
    proof (cases "d = 45 \<or> d = 43")
      case sign: True
      then obtain k where k: "scan_digits ds = Some (k, t)" using assms Cons d True by (auto simp: scan_exponent_def)
      then show ?thesis using assms True Cons d sign scan_digits_prefix [OF k] scan_digits_whole [OF k]
        by (intro exI [of _ "c # d # k"]) (auto simp: scan_exponent_def)
    next
      case nosign: False
      then obtain k where k: "scan_digits cs = Some (k, t)" using assms Cons d True by (auto simp: scan_exponent_def)
      then obtain k' where h: "k = d # k'" using scan_digits_prefix [OF k] d by (cases k) auto
      have w: "scan_digits k = Some (k, [])" by (rule scan_digits_whole [OF k])
      have "scan_exponent (c # k) = Some (int (digits_value k), [])"
        using True nosign w unfolding h by (simp add: scan_exponent_def)
      moreover have "e = int (digits_value k)" using assms Cons d True nosign k by (auto simp: scan_exponent_def)
      ultimately show ?thesis using True Cons scan_digits_prefix [OF k]
        by (intro exI [of _ "c # k"]) simp
    qed
  qed
qed

lemma scan_unsigned_prefix:
  assumes "scan_unsigned s = Some (ds, fs, e, t)"
  shows "\<exists>p. s = p @ t \<and> scan_unsigned p = Some (ds, fs, e, []) \<and> p \<noteq> [] \<and> is_digit (hd p)"
proof -
  obtain u v where u: "scan_digits s = Some (ds, u)" and h: "\<not> (hd ds = 48 \<and> 1 < length ds)"
    and v: "scan_fraction u = Some (fs, v)" and w: "scan_exponent v = Some (e, t)"
    using assms by (auto simp: scan_unsigned_def split: option.splits if_splits)
  obtain p where p: "u = p @ v" "scan_fraction p = Some (fs, [])" "p \<noteq> [] \<longrightarrow> hd p = 46"
    using scan_fraction_prefix [OF v] by blast
  obtain q where q: "v = q @ t" "scan_exponent q = Some (e, [])" "q \<noteq> [] \<longrightarrow> hd q = 101 \<or> hd q = 69"
    using scan_exponent_prefix [OF w] by blast
  have ds: "s = ds @ u" "list_all is_digit ds" "ds \<noteq> []" using scan_digits_prefix [OF u] by auto
  have nd: "p @ q = [] \<or> \<not> is_digit (hd (p @ q))"
    using p(3) q(3) by (cases p; cases q) (auto simp: is_digit_def)
  have a: "scan_digits (ds @ p @ q) = Some (ds, p @ q)" by (rule scan_digits_append [OF ds(2,3) nd])
  have b: "scan_fraction (p @ q) = Some (fs, q)"
  proof (cases p)
    case Nil
    then show ?thesis using p(2) q(3) by (cases q) (auto simp: scan_fraction_def)
  next
    case (Cons c cs)
    then have "scan_digits cs = Some (fs, [])" using p(2,3) by (simp add: scan_fraction_def)
    then have "scan_digits (cs @ q) = Some (fs, [] @ q)"
      using q(3) by (intro scan_digits_extend) (auto simp: is_digit_def)
    then show ?thesis using Cons p(3) by (simp add: scan_fraction_def)
  qed
  show ?thesis
    using a b q(2) h ds p(1) q(1) by (intro exI [of _ "ds @ p @ q"]) (cases ds, auto simp: scan_unsigned_def)
qed

lemma number_of_small: "number_of neg ds fs e token = Whole n \<Longrightarrow> \<bar>n\<bar> \<le> safe_limit"
proof -
  assume a: "number_of neg ds fs e token = Whole n"
  have "\<exists>k. 0 \<le> k \<and> k \<le> safe_limit \<and> (n = k \<or> n = - k)"
  proof -
    define m where "m = int (digits_value (ds @ fs))"
    have "0 \<le> m div 10 ^ j" "0 \<le> m * 10 ^ j" for j
      by (simp_all add: m_def pos_imp_zdiv_nonneg_iff)
    then show ?thesis
      using a unfolding number_of_def Let_def m_def [symmetric]
      by (auto simp: safe_limit_def split: if_splits intro: exI [of _ "m * 10 ^ nat (e - int (length fs))"]
        exI [of _ "m div 10 ^ nat (int (length fs) - e)"] exI [of _ 0])
  qed
  then show ?thesis by auto
qed

lemma parse_number_ok:
  assumes "parse_number s = Some (n, r)"
  shows "number_ok n"
proof -
  define neg where "neg = (case s of [] \<Rightarrow> False | c # _ \<Rightarrow> c = 45)"
  define u where "u = (if neg then tl s else s)"
  obtain ds fs e where d: "scan_unsigned u = Some (ds, fs, e, r)"
    and n: "n = number_of neg ds fs e (take (length s - length r) s)"
    using assms by (auto simp: parse_number_def Let_def neg_def u_def split: option.splits)
  obtain p where p: "u = p @ r" "scan_unsigned p = Some (ds, fs, e, [])" "p \<noteq> []" "is_digit (hd p)"
    using scan_unsigned_prefix [OF d] by blast
  define k where "k = (if neg then 45 # p else p)"
  have s: "s = k @ r" using p(1) by (cases s) (auto simp: k_def u_def neg_def)
  then have t: "take (length s - length r) s = k" by simp
  have neg': "(case k of [] \<Rightarrow> False | c # _ \<Rightarrow> c = 45) = neg"
    using p(3,4) by (cases p) (auto simp: k_def is_digit_def)
  have pk: "parse_number k = Some (number_of neg ds fs e k, [])"
    unfolding parse_number_def neg' using p(2) by (auto simp: k_def)
  have k: "n = number_of neg ds fs e k" using n t by simp
  show ?thesis
  proof (cases n)
    case (Whole m)
    then show ?thesis using number_of_small [of neg ds fs e k m] k by simp
  next
    case (Other token)
    have "token = k" using Other k by (auto simp: number_of_def Let_def split: if_splits)
    then show ?thesis using pk Other k by simp
  qed
qed

lemma json_ok_build_obj: "list_all (\<lambda>e. json_ok (snd e)) m \<Longrightarrow> json_ok (JObj (build_obj m))"
proof -
  assume m: "list_all (\<lambda>e. json_ok (snd e)) m"
  have put: "list_all (\<lambda>e. json_ok (snd e)) (obj_put k v acc)"
    if "json_ok v" "list_all (\<lambda>e. json_ok (snd e)) acc" for k v acc
    using that by (auto simp: list_all_iff dest!: obj_put_values)
  have "list_all (\<lambda>e. json_ok (snd e)) acc \<Longrightarrow>
    list_all (\<lambda>e. json_ok (snd e)) (fold (\<lambda>e. obj_put (fst e) (snd e)) m acc)" for acc
    using m by (induction m arbitrary: acc) (simp_all add: put)
  moreover have "build_obj (build_obj m) = build_obj m"
    unfolding build_obj_iff unfolding build_obj_def by (rule obj_normal_fold) (simp add: obj_normal_def)
  ultimately show ?thesis by (simp add: build_obj_def)
qed

lemma parse_literal_ok: "parse_literal s = Some (v, r) \<Longrightarrow> json_ok v"
  by (auto simp: parse_literal_def parse_number_ok split: option.splits)

lemma json_ok_empty: "json_ok (JObj [])" by (simp add: build_obj_def)

lemma parse_value_ok:
  "parse_value n s = Some (v, r) \<Longrightarrow> json_ok v"
  "parse_elements n s = Some (vs, r) \<Longrightarrow> list_all json_ok vs"
  "parse_members n s = Some (m, r) \<Longrightarrow> list_all (\<lambda>e. json_ok (snd e)) m"
proof (induction n arbitrary: s v vs m r)
  case (Suc n)
  {
    case 1
    then show ?case using Suc
      by (auto simp: parse_literal_ok json_ok_build_obj json_ok_empty split: list.splits if_splits simp del: json_ok.simps(3))
  next
    case 2
    then show ?case using Suc by (auto split: list.splits if_splits option.splits)
  next
    case 3
    then show ?case using Suc by (auto split: list.splits if_splits option.splits)
  }
qed simp_all

theorem parse_json_ok: "parse_json s = Some v \<Longrightarrow> json_ok v"
  unfolding parse_json_def by (auto dest: parse_value_ok(1) split: option.splits if_splits simp del: parse_value.simps)

section \<open>What the decoder delivers\<close>

lemma json_ok_prop: "json_ok (JObj m) \<Longrightarrow> own_prop m k = Some v \<Longrightarrow> json_ok v"
  by (auto simp: own_prop_def list_all_iff dest!: map_of_SomeD)

lemma json_ok_event: "json_ok v \<Longrightarrow> validateEventRecord (Some v) = Inr b \<Longrightarrow> json_ok (JObj (er_payload b))"
  by (auto simp: validateEventRecord_def result_simps simp del: json_ok.simps dest: json_ok_prop)

lemma json_ok_bridge_event: "json_ok v \<Longrightarrow> validateBridgeEvent (Some v) = Inr b \<Longrightarrow> json_ok (JObj (be_payload b))"
  by (auto simp: validateBridgeEvent_def result_simps simp del: json_ok.simps stringify.simps dest: json_ok_prop)

lemma json_ok_page:
  assumes "json_ok v" "validateEventPageBody (Some v) = Inr b"
  shows "list_all (\<lambda>e. json_ok (JObj (er_payload e))) (ep_events b)"
proof -
  obtain m vs where m: "v = JObj m" "own_prop m ''events'' = Some (JArr vs)"
      "mapR (\<lambda>v. validateEventRecord (Some v)) vs = Inr (ep_events b)"
    using assms(2) by (auto simp: validateEventPageBody_def andThen_Inr_iff requireObject_iff requireArray_iff guardR_Inr_iff)
  have "list_all json_ok vs" using json_ok_prop [of m] assms(1) m by fastforce
  then show ?thesis
    using m(3) by (auto simp: list_all_iff simp del: json_ok.simps dest!: mapR_Inr_set intro: json_ok_event)
qed

lemma payloads_ok_body: "json_ok v \<Longrightarrow> validateBodyForType t (Some v) = Inr b \<Longrightarrow> payloads_ok b"
  unfolding validateBodyForType_def
  by (auto simp: mapOk_iff simp del: json_ok.simps split: if_splits
      intro: json_ok_event json_ok_bridge_event json_ok_page)

definition frame_valid :: "decoded_frame \<Rightarrow> bool" where
  "frame_valid f \<longleftrightarrow> df_type f = body_type (df_body f) \<and> MESSAGE_ID_RE (df_messageId f) \<and>
     body_ok (df_body f) \<and> payloads_ok (df_body f)"

lemma parseFrameLine_valid:
  assumes "parseFrameLine line = Inr f"
  shows "frame_valid f"
proof -
  obtain v where v: "parse_json line = Some v" using assms by (auto simp: parseFrameLine_def split: option.splits)
  obtain m where m: "object_of (Some v) = Some m" using assms v by (auto simp: parseFrameLine_def split: option.splits)
  obtain t i b body where t: "MESSAGE_ID_RE i" "requireObject (own_prop m ''body'') = Inr b"
      "validateBodyForType t (Some (JObj b)) = Inr body" "f = \<lparr>df_type = t, df_messageId = i, df_body = body\<rparr>"
    using assms v m by (auto simp: parseFrameLine_def andThen_Inr_iff guardR_Inr_iff split: option.splits)
  have "json_ok v" by (rule parse_json_ok [OF v])
  then have "json_ok (JObj b)"
    using m t(2) json_ok_prop [of m "''body''" "JObj b"]
    by (auto simp: object_of_def requireObject_iff simp del: json_ok.simps split: json.splits)
  then show ?thesis
    using t validateBodyForType_sound [OF t(3)] payloads_ok_body [OF _ t(3)] by (simp add: frame_valid_def del: json_ok.simps)
qed

lemma drain_all: "drain p e buf = Inr (fs, b) \<Longrightarrow> (\<And>l f. p l = Inr f \<Longrightarrow> P f) \<Longrightarrow> list_all P fs"
proof (induction p e buf arbitrary: fs b rule: drain.induct)
  case (1 p e buf)
  then show ?case
    by (subst (asm) (2) drain.simps)
       (auto simp: Let_def andThen_Inr_iff split: option.splits if_splits prod.splits)
qed

lemma push_valid: "push d chunk = Inr (fs, d') \<Longrightarrow> list_all frame_valid fs"
  by (auto simp: push_def push_with_def Let_def andThen_Inr_iff split: if_splits prod.splits
      intro: drain_all [where P = frame_valid] parseFrameLine_valid)

lemma push_all_valid:
  "push_all d chunks = Inr (fs, d') \<Longrightarrow> utf8Bytes (buffer d) \<le> MAX_DECODE_BUFFER_BYTES \<Longrightarrow>
   list_all frame_valid fs \<and> lineOffset d' = lineOffset d + length fs \<and>
   utf8Bytes (buffer d') \<le> MAX_DECODE_BUFFER_BYTES"
proof (induction chunks arbitrary: d fs)
  case (Cons c cs)
  then obtain gs d1 hs where "push d c = Inr (gs, d1)" "push_all d1 cs = Inr (hs, d')" "fs = gs @ hs"
    by (auto simp: push_all_def push_def andThen_Inr_iff)
  then show ?case using Cons.IH [of d1 hs] push_valid [of d c gs d1] by (simp add: push_def push_with_Inr)
qed (simp add: push_all_def)

text \<open>
  C19. Nothing unvalidated passes the codec: on any text whatever, cut in any way, every frame the
  decoder delivers has the type of its body, a message identifier within the grammar, a body
  that satisfies the predicate of its type, and payloads that print and parse back unchanged;
  and what stays buffered is within the bound.
\<close>

theorem decoder_delivers_valid_frames:
  "case push_all fresh_decoder chunks of Inl _ \<Rightarrow> True
   | Inr (fs, d) \<Rightarrow> list_all frame_valid fs \<and> lineOffset d = length fs \<and>
       utf8Bytes (buffer d) \<le> MAX_DECODE_BUFFER_BYTES"
  using push_all_valid [of fresh_decoder chunks]
  by (auto simp: fresh_decoder_def split: sum.split)

end
