(* ===== verification/RunnerLog.thy ===== *)
theory RunnerLog
  imports Runner Decoding
begin

text \<open>
  The event log as a projection reads it: the rows of a reachable store decode, a page is a
  segment of the log, and an event record has at most 4800 bytes, so that a page of two
  events always fits in a frame.
\<close>


section \<open>Reading the log\<close>

definition record_of :: "event_row \<Rightarrow> event_record" where
  "record_of row = (case rowToEventRecord row of Inr r \<Rightarrow> r | Inl _ \<Rightarrow> undefined)"

lemma record_of_ok:
  assumes "event_row_ok row"
  shows "rowToEventRecord row = Inr (record_of row)"
    and "er_sequence (record_of row) = e_sequence row"
    and "json_ok (JObj (er_payload (record_of row)))"
    and "stringify (JObj (er_payload (record_of row))) = e_payload_json row"
    and "er_eventId (record_of row) = e_event_id row" "er_eventType (record_of row) = e_event_type row"
      "er_createdAt (record_of row) = e_created_at row" "er_role (record_of row) = e_role row"
proof -
  obtain p where p: "json_ok (JObj p)" "e_payload_json row = stringify (JObj p)"
    using assms by (auto simp: event_row_ok_def)
  have "parse_json (e_payload_json row) = Some (JObj p)" unfolding p(2) by (rule parse_stringify [OF p(1)])
  then have r: "rowToEventRecord row = Inr \<lparr>er_sequence = e_sequence row, er_eventId = e_event_id row,
                      er_eventType = e_event_type row, er_role = e_role row, er_payload = p,
                      er_createdAt = e_created_at row\<rparr>" by (simp add: rowToEventRecord_def)
  show "rowToEventRecord row = Inr (record_of row)" unfolding record_of_def r by simp
  show "er_sequence (record_of row) = e_sequence row" "json_ok (JObj (er_payload (record_of row)))"
    "stringify (JObj (er_payload (record_of row))) = e_payload_json row"
    "er_eventId (record_of row) = e_event_id row" "er_eventType (record_of row) = e_event_type row"
    "er_createdAt (record_of row) = e_created_at row" "er_role (record_of row) = e_role row"
    unfolding record_of_def r using p by (simp_all del: stringify.simps)
qed

definition log_records :: "database \<Rightarrow> event_record list" where
  "log_records d = map record_of (events d)"

lemma numbered_filter:
  "map e_sequence es = [1..int (length es)] \<Longrightarrow> 0 \<le> c \<Longrightarrow> filter (\<lambda>e. c < e_sequence e) es = drop (nat c) es"
proof (induction es rule: rev_induct)
  case (snoc e es)
  have u: "[1..int (Suc (length es))] = [1..int (length es)] @ [int (Suc (length es))]" by (simp add: upto_rec2)
  from snoc.prems(1) have "map e_sequence es = [1..int (length es)]" "e_sequence e = int (Suc (length es))"
    unfolding length_append_singleton u by (simp_all del: of_nat_Suc)
  with snoc.IH snoc.prems(2) show ?case by (auto simp: nat_le_iff)
qed simp

lemma numbered_after:
  assumes "map e_sequence es = [1..int (length es)]" "0 \<le> c"
  shows "sort_key e_sequence (filter (\<lambda>e. c < e_sequence e) es) = drop (nat c) es"
proof -
  have "sorted (map e_sequence (drop (nat c) es))"
    using assms(1) by (metis drop_map sorted_upto sorted_wrt_drop)
  then show ?thesis using numbered_filter [OF assms] by (simp add: sort_key_id_if_sorted)
qed

lemma numbered:
  assumes "base_ok d"
  shows "map e_sequence (events d) = [1..int (length (events d))]"
proof -
  have "map e_sequence (events d) = [1..last_sequence d]"
    using assms unfolding base_ok_def log_ok_def by blast
  then show ?thesis unfolding last_sequence_length [OF assms] .
qed

text \<open>A page of the store is the next records of the log.\<close>

lemma getEventsAfter_log:
  assumes "base_ok (db s)" "rows_ok (db s)" "0 \<le> c"
  shows "getEventsAfter c l s = (Inr (take (nat (min (max 1 l) 256)) (drop (nat c) (log_records (db s)))), s)"
proof -
  let ?rows = "take (nat (min (max 1 l) 256)) (drop (nat c) (events (db s)))"
  have "mapR rowToEventRecord (map (\<lambda>r. r) ?rows) = Inr (map record_of ?rows)"
    by (rule mapR_map)
       (use assms(2) in \<open>auto simp: rows_ok_def dest!: in_set_takeD in_set_dropD intro: record_of_ok\<close>)
  then show ?thesis
    by (simp add: getEventsAfter_def Let_def numbered_after [OF numbered [OF assms(1)] assms(3)]
        log_records_def take_map drop_map)
qed

lemma log_record_nth:
  assumes "base_ok d" "rows_ok d" "k < length (log_records d)"
  shows "er_sequence (log_records d ! k) = int k + 1"
proof -
  have k: "k < length (events d)" using assms(3) by (simp add: log_records_def)
  then have "event_row_ok (events d ! k)" using assms(2) by (simp add: rows_ok_def)
  moreover have "map e_sequence (events d) ! k = [1..int (length (events d))] ! k"
    using numbered [OF assms(1)] by simp
  ultimately show ?thesis using k by (simp add: log_records_def record_of_ok(2))
qed

lemma log_contiguous:
  assumes "base_ok d" "rows_ok d"
  shows "contiguous (int k + 1) (take m (drop k (log_records d)))"
proof (induction m arbitrary: k)
  case (Suc m)
  show ?case
  proof (cases "k < length (log_records d)")
    case True
    then have "drop k (log_records d) = log_records d ! k # drop (Suc k) (log_records d)"
      by (simp add: Cons_nth_drop_Suc)
    with Suc [of "Suc k"] log_record_nth [OF assms True] show ?thesis by (simp add: add.commute)
  qed simp
qed simp

lemma log_length [simp]: "length (log_records d) = length (events d)"
  by (simp add: log_records_def)

lemma log_event_ok:
  assumes "rows_ok d" "base_ok d" "int (length (events d)) \<le> MAX_SAFE_INTEGER" "e \<in> set (log_records d)"
  shows "event_record_ok e \<and> json_ok (JObj (er_payload e)) \<and> utf8Bytes (stringify (JObj (er_payload e))) \<le> eventPayload_limit"
proof -
  from assms(4) obtain k where k: "k < length (log_records d)" "e = log_records d ! k" by (metis in_set_conv_nth)
  then have row: "event_row_ok (events d ! k)" using assms(1) by (simp add: rows_ok_def)
  have e: "e = record_of (events d ! k)" using k by (simp add: log_records_def)
  have "er_sequence e = int k + 1" using log_record_nth [OF assms(2,1) k(1)] k(2) by simp
  then have "1 \<le> er_sequence e" "er_sequence e \<le> MAX_SAFE_INTEGER" using k(1) assms(3) by simp_all
  then show ?thesis
    using row record_of_ok [OF row] unfolding e
    by (simp add: event_record_ok_def event_row_ok_def bounded_text_def del: stringify.simps json_ok.simps)
qed

section \<open>Sizes\<close>

lemma utf8Bytes_append_le: "utf8Bytes (s @ t) \<le> utf8Bytes s + utf8Bytes t"
proof (induction s rule: utf8Bytes.induct)
  case (2 c)
  show ?case by (cases t rule: utf8Bytes.cases) (auto simp: is_high_surrogate_def is_low_surrogate_def)
qed auto

lemma utf8Bytes_Cons_le: "c < 128 \<Longrightarrow> utf8Bytes (c # s) \<le> 1 + utf8Bytes s"
  using utf8Bytes_append_le [of "[c]" s] by simp

lemma hex_digit_ascii: "hex_digit (c mod 16) < 128"
  using mod_less_divisor [of 16 c] by (simp add: hex_digit_def del: mod_less_divisor)

lemma unicode_escape_bytes: "utf8Bytes (unicode_escape c) = 6"
  using hex_digit_ascii [of c] hex_digit_ascii [of "c div 16"] hex_digit_ascii [of "c div 256"] hex_digit_ascii [of "c div 4096"]
  by (subst utf8_ascii) (simp_all add: unicode_escape_def)

lemma escape_unit_bytes: "utf8Bytes (escape_unit c) \<le> 6"
  by (simp add: escape_unit_def unicode_escape_bytes is_high_surrogate_def)

lemma escaped_bytes:
  "utf8Bytes (if is_high_surrogate c \<or> is_low_surrogate c then unicode_escape c else escape_unit c) \<le> 6"
  using escape_unit_bytes unicode_escape_bytes by simp

lemma utf8_escape: "utf8Bytes (escape s) \<le> 6 * length s"
proof (induction s rule: escape.induct)
  case (2 c)
  then show ?case using escaped_bytes [of c] by simp
next
  case (3 c d cs)
  show ?case
  proof (cases "is_high_surrogate c \<and> is_low_surrogate d")
    case True
    then show ?thesis using 3(1) by simp
  next
    case False
    then show ?thesis
      using 3(2) escaped_bytes [of c] utf8Bytes_append_le [of "if is_high_surrogate c \<or> is_low_surrogate c then unicode_escape c else escape_unit c" "escape (d # cs)"]
      by (auto simp del: utf8Bytes.simps)
  qed
qed simp

lemma utf8_quote: "utf8Bytes (quote s) \<le> 6 * length s + 2"
  using utf8Bytes_Cons_le [of 34 "escape s @ [34]"] utf8Bytes_append_le [of "escape s" "[34]"] utf8_escape [of s]
  by (simp add: quote_def)

lemma utf8_quote_plain: "plain s \<Longrightarrow> utf8Bytes (quote s) = length s + 2"
  by (simp add: quote_plain utf8_ascii)

lemma digits_short: "n < 10 ^ Suc k \<Longrightarrow> length (digits n) \<le> Suc k"
proof (induction k arbitrary: n)
  case 0
  then show ?case by (subst digits.simps) simp
next
  case (Suc k)
  then have "n div 10 < 10 ^ Suc k" by (simp add: less_mult_imp_div_less)
  with Suc.IH [of "n div 10"] show ?case by (subst digits.simps) simp
qed

lemma ascii_digits: "ascii (digits n)"
  using digits_all [of n] by (auto simp: ascii_def list_all_iff is_digit_def)

lemma whole_bytes: "0 \<le> n \<Longrightarrow> n \<le> MAX_SAFE_INTEGER \<Longrightarrow> utf8Bytes (stringify (JWhole n)) \<le> 16"
  using digits_short [of "nat n" 15] by (simp add: int_text_def utf8_ascii ascii_digits MAX_SAFE_INTEGER_def)

lemma id_bytes:
  "ID_RE s \<Longrightarrow> utf8Bytes (quote s) \<le> 130" "MESSAGE_ID_RE s \<Longrightarrow> utf8Bytes (quote s) \<le> 66"
  "EVENT_TYPE_RE s \<Longrightarrow> utf8Bytes (quote s) \<le> 66"
proof -
  have p: "plain s" if "matches_head_tail a b n s" "\<And>c. a c \<Longrightarrow> c < 123 \<and> 45 \<le> c \<and> c \<noteq> 92" "\<And>c. b c \<Longrightarrow> c < 123 \<and> 45 \<le> c \<and> c \<noteq> 92" for a b n
    using matches_head_tail_all [OF that(1), of "\<lambda>c. 32 \<le> c \<and> c < 128 \<and> c \<noteq> 34 \<and> c \<noteq> 92"] that(2,3)
    unfolding plain_def by force
  have c: "id_tail c \<Longrightarrow> c < 123 \<and> 45 \<le> c \<and> c \<noteq> 92" "is_alnum c \<Longrightarrow> c < 123 \<and> 45 \<le> c \<and> c \<noteq> 92" for c
    by (auto simp: id_tail_def char_class_defs)
  show "ID_RE s \<Longrightarrow> utf8Bytes (quote s) \<le> 130" "MESSAGE_ID_RE s \<Longrightarrow> utf8Bytes (quote s) \<le> 66"
    unfolding ID_RE_def MESSAGE_ID_RE_def
    by (frule matches_head_tail_length, drule p, auto simp: utf8_quote_plain c)+
  show "EVENT_TYPE_RE s \<Longrightarrow> utf8Bytes (quote s) \<le> 66"
    unfolding EVENT_TYPE_RE_def
    by (frule matches_head_tail_length, drule p, auto simp: utf8_quote_plain char_class_defs)
qed

lemma join_bytes: "c < 128 \<Longrightarrow> utf8Bytes (join_with c ss) \<le> sum_list (map utf8Bytes ss) + length ss"
proof (induction ss rule: induct_list012)
  case (3 s t ss)
  then show ?case
    using utf8Bytes_append_le [of s "c # join_with c (t # ss)"] utf8Bytes_Cons_le [of c "join_with c (t # ss)"] by simp
qed simp_all

lemma member_bytes: "utf8Bytes (member_text e) \<le> utf8Bytes (quote (fst e)) + 1 + utf8Bytes (stringify (snd e))"
  using utf8Bytes_append_le [of "quote (fst e)" "58 # stringify (snd e)"] utf8Bytes_Cons_le [of 58 "stringify (snd e)"]
  by (simp add: member_text_def)

lemma obj_bytes:
  "utf8Bytes (stringify (JObj m)) \<le> 2 + sum_list (map (\<lambda>e. utf8Bytes (quote (fst e)) + utf8Bytes (stringify (snd e)) + 2) m)"
proof -
  have "sum_list (map utf8Bytes (map member_text m)) \<le> sum_list (map (\<lambda>e. utf8Bytes (quote (fst e)) + 1 + utf8Bytes (stringify (snd e))) m)"
    using member_bytes by (simp add: comp_def sum_list_mono)
  moreover have "sum_list (map (\<lambda>e. utf8Bytes (quote (fst e)) + utf8Bytes (stringify (snd e)) + 2) m) =
     sum_list (map (\<lambda>e. utf8Bytes (quote (fst e)) + 1 + utf8Bytes (stringify (snd e))) m) + length m"
    by (induction m) simp_all
  ultimately show ?thesis
    using join_bytes [of 44 "map member_text m"] utf8Bytes_append_le [of "join_with 44 (map member_text m)" "[125]"]
      utf8Bytes_Cons_le [of 123 "join_with 44 (map member_text m) @ [125]"]
    unfolding stringify_obj by simp
qed

lemma arr_bytes: "utf8Bytes (stringify (JArr vs)) \<le> 2 + sum_list (map (\<lambda>v. utf8Bytes (stringify v)) vs) + length vs"
  using join_bytes [of 44 "map stringify vs"] utf8Bytes_append_le [of "join_with 44 (map stringify vs)" "[93]"]
    utf8Bytes_Cons_le [of 91 "join_with 44 (map stringify vs) @ [93]"]
  by (simp add: comp_def)

lemma name_bytes: "plain (js s) \<Longrightarrow> utf8Bytes (quote (js s)) = length s + 2"
  by (simp add: utf8_quote_plain)

lemma role_bytes: "utf8Bytes (stringify (null_or (JEnum ROLES) r)) \<le> 13"
proof (cases r)
  case (Some x)
  then show ?thesis by (cases x) (simp_all add: null_or_def name_bytes plain_js)
qed (simp add: null_or_def js_def is_high_surrogate_def)

lemma event_bytes:
  assumes "event_record_ok e" "utf8Bytes (stringify (JObj (er_payload e))) \<le> eventPayload_limit"
  shows "utf8Bytes (stringify (JObj (event_record_json e))) \<le> 4800"
proof -
  have "utf8Bytes (quote (er_createdAt e)) \<le> 386"
    using utf8_quote [of "er_createdAt e"] assms(1) by (simp add: event_record_ok_def)
  moreover have "utf8Bytes (stringify (JWhole (er_sequence e))) \<le> 16"
    using assms(1) by (intro whole_bytes) (simp_all add: event_record_ok_def)
  moreover have "utf8Bytes (quote (er_eventId e)) \<le> 130" "utf8Bytes (quote (er_eventType e)) \<le> 66"
    using assms(1) id_bytes by (simp_all add: event_record_ok_def)
  moreover have "stringify (JStr s) = quote s" for s by simp
  ultimately show ?thesis
    using obj_bytes [of "event_record_json e"] assms(2) role_bytes [of "er_role e"]
    unfolding event_record_json_def
    by (simp add: name_bytes plain_js eventPayload_limit_def del: stringify.simps)
qed
end
