(* ===== verification/RunnerCalls.thy ===== *)
theory RunnerCalls
  imports RunnerLog
begin

text \<open>
  A calculus of postconditions for the runner's calls, and the first refinement: whatever the
  clients send, the store of a runner moves only by admissible calls of the domain
  (\<open>calls_between\<close>), so every property of \<open>run_ops\<close> holds of the store of a running runner.
\<close>


section \<open>Postconditions of runner calls\<close>

named_theorems wpr_simps \<open>weakest preconditions of the runner's primitives\<close>
named_theorems keeps_intros \<open>calls that keep a predicate of the runner\<close>

definition wpr :: "'a rn \<Rightarrow> ('a \<Rightarrow> runner \<Rightarrow> bool) \<Rightarrow> (runner_failure \<Rightarrow> runner \<Rightarrow> bool) \<Rightarrow> runner \<Rightarrow> bool" where
  "wpr m Q E r = (case m r of (Inl e, r') \<Rightarrow> E e r' | (Inr x, r') \<Rightarrow> Q x r')"

lemma wpr_basic [wpr_simps]:
  "wpr (ret_rn x) Q E r = Q x r"
  "wpr (throw_rn e) Q E r = E e r"
  "wpr (gets_rn f) T E r = T (f r) r"
  "wpr (modify_rn g) U E r = U () (g r)"
  by (simp_all add: wpr_def ret_rn_def throw_rn_def gets_rn_def modify_rn_def)

lemma wpr_bind [wpr_simps]: "wpr (bind_rn m f) Q E r = wpr m (\<lambda>x. wpr (f x) Q E) E r"
  by (auto simp: wpr_def bind_rn_def split: prod.split sum.split)

lemma wpr_then [wpr_simps]: "wpr (then_rn m n) Q E r = wpr m (\<lambda>_. wpr n Q E) E r"
  by (simp add: then_rn_def wpr_bind)

lemma wpr_catch [wpr_simps]: "wpr (catch_rn m h) Q E r = wpr m Q (\<lambda>e. wpr (h e) Q E) r"
  by (auto simp: wpr_def catch_rn_def split: prod.split sum.split)

lemma wpr_on_store [wpr_simps]:
  "wpr (on_store m) Q E r =
     wp m (\<lambda>x s. Q x (r\<lparr>rn_store := s\<rparr>)) (\<lambda>e s. E (Domain_failure e) (r\<lparr>rn_store := s\<rparr>)) (rn_store r)"
  by (auto simp: wpr_def wp_def on_store_def split: prod.split sum.split)

lemma wpr_on_result [wpr_simps]:
  "wpr (on_result m) Q E r = (case m of Inl e \<Rightarrow> E (Protocol_failure e) r | Inr x \<Rightarrow> Q x r)"
  by (simp add: on_result_def wpr_basic split: sum.split)

lemma wpr_update [wpr_simps]:
  "wpr (update_session i f) U E r = U () (r\<lparr>rn_objs := (rn_objs r)[i := f (rn_objs r ! i)]\<rparr>)"
  by (simp add: update_session_def wpr_basic)

lemma wpr_mono: "wpr m Q E r \<Longrightarrow> (\<And>x r. Q x r \<Longrightarrow> Q' x r) \<Longrightarrow> (\<And>e r. E e r \<Longrightarrow> E' e r) \<Longrightarrow> wpr m Q' E' r"
  by (auto simp: wpr_def split: prod.splits sum.splits)

lemma wpr_final: "wpr m (\<lambda>_. P) (\<lambda>_. P) r \<longleftrightarrow> P (snd (m r))"
  by (auto simp: wpr_def split: prod.splits sum.splits)

definition keeps :: "(runner \<Rightarrow> bool) \<Rightarrow> 'a rn \<Rightarrow> bool" where
  "keeps I m \<longleftrightarrow> (\<forall>r. I r \<longrightarrow> wpr m (\<lambda>_. I) (\<lambda>_. I) r)"

lemma keepsI: "(\<And>r. I r \<Longrightarrow> wpr m (\<lambda>_. I) (\<lambda>_. I) r) \<Longrightarrow> keeps I m"
  by (simp add: keeps_def)

lemma keepsD: "keeps I m \<Longrightarrow> I r \<Longrightarrow> wpr m (\<lambda>_. I) (\<lambda>_. I) r"
  by (simp add: keeps_def)

lemma keeps_final: "keeps I m \<Longrightarrow> I r \<Longrightarrow> I (snd (m r))"
  by (simp add: keeps_def wpr_final)

lemma keeps_basic [keeps_intros]: "keeps I (ret_rn x)" "keeps I (throw_rn e)" "keeps I (gets_rn f)" "keeps I (on_result m)"
  by (auto simp: keeps_def wpr_simps split: sum.split)

lemma keeps_bind [keeps_intros]: "keeps I m \<Longrightarrow> (\<And>x. keeps I (f x)) \<Longrightarrow> keeps I (bind_rn m f)"
  unfolding keeps_def wpr_bind by (blast intro: wpr_mono)

lemma keeps_result [keeps_intros]: "(\<And>x. m = Inr x \<Longrightarrow> keeps I (f x)) \<Longrightarrow> keeps I (bind_rn (on_result m) f)"
  by (auto simp: keeps_def wpr_simps split: sum.split)

lemma keeps_then [keeps_intros]: "keeps I m \<Longrightarrow> keeps I n \<Longrightarrow> keeps I (then_rn m n)"
  by (simp add: then_rn_def keeps_bind)

lemma keeps_catch [keeps_intros]: "keeps I m \<Longrightarrow> (\<And>e. keeps I (h e)) \<Longrightarrow> keeps I (catch_rn m h)"
  unfolding keeps_def wpr_catch by (blast intro: wpr_mono)

lemma keeps_each [keeps_intros]: "(\<And>x. keeps I (f x)) \<Longrightarrow> keeps I (each_rn f xs)"
  by (induction xs) (simp_all add: keeps_intros)

lemma keeps_if [keeps_intros]: "(b \<Longrightarrow> keeps I m) \<Longrightarrow> (\<not> b \<Longrightarrow> keeps I n) \<Longrightarrow> keeps I (if b then m else n)"
  by simp

lemma keeps_option [keeps_intros]:
  "(x = None \<Longrightarrow> keeps I m) \<Longrightarrow> (\<And>y. x = Some y \<Longrightarrow> keeps I (f y)) \<Longrightarrow> keeps I (case x of None \<Rightarrow> m | Some y \<Rightarrow> f y)"
  by (cases x) simp_all

lemma keeps_let [keeps_intros]: "keeps I (f x) \<Longrightarrow> keeps I (Let x f)"
  by simp

lemma keeps_modify: "(\<And>r. I r \<Longrightarrow> I (g r)) \<Longrightarrow> keeps I (modify_rn g)"
  by (simp add: keeps_def wpr_simps)

section \<open>The runner reaches its store only through the domain\<close>

definition calls_between :: "runner \<Rightarrow> runner \<Rightarrow> bool" where
  "calls_between r r' \<longleftrightarrow> (\<exists>ops. list_all op_ok ops \<and> rn_store r' = run_ops ops (rn_store r))"

lemma run_ops_append: "run_ops (xs @ ys) s = run_ops ys (run_ops xs s)"
  by (induction xs arbitrary: s) simp_all

lemma calls_refl [simp]: "rn_store r' = rn_store r \<Longrightarrow> calls_between r r'"
  by (auto simp: calls_between_def intro: exI [of _ "[]"])

lemma calls_trans: "calls_between a b \<Longrightarrow> calls_between b c \<Longrightarrow> calls_between a c"
  unfolding calls_between_def using run_ops_append by (metis list_all_append)

lemma keeps_calls:
  assumes "\<And>s. snd (m s) = s \<or> (\<exists>op. op_ok op \<and> snd (m s) = snd (exec_op op s))"
  shows "keeps (calls_between r0) (on_store m)"
proof (rule keepsI, unfold wpr_final)
  fix r assume r: "calls_between r0 r"
  have s: "rn_store (snd (on_store m r)) = snd (m (rn_store r))"
    by (auto simp: on_store_def split: prod.split sum.split)
  have "calls_between r (snd (on_store m r))"
    using assms [of "rn_store r"]
  proof (elim disjE exE conjE)
    fix op assume "op_ok op" "snd (m (rn_store r)) = snd (exec_op op (rn_store r))"
    then show ?thesis using s by (auto simp: calls_between_def intro: exI [of _ "[op]"])
  qed (simp add: s)
  then show "calls_between r0 (snd (on_store m r))" using r calls_trans by blast
qed

lemma snd_discard: "snd (discard m s) = snd (m s)"
  by (auto simp: discard_def bind_tx_def ret_def split: prod.split sum.split)

lemma keeps_calls_op [keeps_intros]:
  "keeps (calls_between r0) (on_store (bridgeHandshake h))"
  "keeps (calls_between r0) (on_store (authorizeAssignmentAcknowledgement i r x))"
  "keeps (calls_between r0) (on_store (acceptAssignment i r x))"
  "keeps (calls_between r0) (on_store (recordDuplicateAck i r x))"
  "keeps (calls_between r0) (on_store snapshot)"
  "keeps (calls_between r0) (on_store (eventsAfter c l))"
  "keeps (calls_between r0) (on_store (getBinding g r))"
  by (rule keeps_calls, rule disjI2, rule exI [of _ "Handshake h"], simp add: op_ok_def snd_discard)
     (rule keeps_calls, rule disjI2, rule exI [of _ "Authorize i r x"], simp add: op_ok_def snd_discard,
      rule keeps_calls, rule disjI2, rule exI [of _ "Accept i r x"], simp add: op_ok_def snd_discard,
      rule keeps_calls, rule disjI2, rule exI [of _ "Duplicate_ack i r x"], simp add: op_ok_def snd_discard,
      rule keeps_calls, rule disjI2, rule exI [of _ "Read_snapshot"], simp add: op_ok_def snd_discard,
      rule keeps_calls, rule disjI2, rule exI [of _ "Read_events c l"], simp add: op_ok_def snd_discard,
      rule keeps_calls, simp add: getBinding_def ret_def throw_def split: option.split)

lemma keeps_calls_event [keeps_intros]:
  "bridge_event_ok e \<Longrightarrow> json_ok (JObj (be_payload e)) \<Longrightarrow> keeps (calls_between r0) (on_store (recordBridgeEvent g r x e))"
  "bridge_event_ok e \<Longrightarrow> json_ok (JObj (be_payload e)) \<Longrightarrow> keeps (calls_between r0) (on_store (applyInteractiveInput g r x e))"
  by (rule keeps_calls, rule disjI2, rule exI [of _ "Record_event g r x e"], simp add: op_ok_def snd_discard del: json_ok.simps)
     (rule keeps_calls, rule disjI2, rule exI [of _ "Interactive_input g r x e"], simp add: op_ok_def snd_discard del: json_ok.simps)

lemma observation_ok: "op_ok (Observation g r (js ''assignment_acknowledged'') (observation_payload a r'))"
proof -
  have "json_ok (JObj (observation_payload a r'))"
    by (simp add: observation_payload_def build_obj_def obj_put_def js_not_index is_digit_def)
  moreover have "EVENT_TYPE_RE (js ''assignment_acknowledged'')"
    by (simp add: EVENT_TYPE_RE_def matches_head_tail_def js_def is_lower_def)
  ultimately show ?thesis by (simp add: op_ok_def del: json_ok.simps)
qed

lemma keeps_calls_observation [keeps_intros]:
  "keeps (calls_between r0) (on_store (recordRunnerObservation g r (js ''assignment_acknowledged'') (observation_payload a r')))"
  by (rule keeps_calls, rule disjI2, rule exI, rule conjI [OF observation_ok]) (simp add: snd_discard)

lemma keeps_calls_session [keeps_intros]:
  "keeps (calls_between r0) (update_session i f)"
  by (rule keepsI) (simp add: wpr_simps calls_between_def)

lemma keeps_calls_modify [keeps_intros]:
  "(\<And>r. rn_store (g r) = rn_store r) \<Longrightarrow> keeps (calls_between r0) (modify_rn g)"
  by (rule keepsI) (simp add: wpr_simps calls_between_def)


lemma keeps_calls_send [keeps_intros]: "keeps (calls_between r0) (send i b)"
  unfolding send_def channel_send_def by (intro keeps_intros) simp

lemma keeps_calls_handleClose [keeps_intros]: "keeps (calls_between r0) (handleClose i)"
  unfolding handleClose_def channel_close_def
  by (intro keeps_intros) (simp add: Let_def split: session_kind.split option.split)

lemma keeps_calls_refuse [keeps_intros]: "keeps (calls_between r0) (refuse i c d)"
  unfolding refuse_def channel_close_def by (intro keeps_intros)

lemma keeps_calls_records [keeps_intros]: "keeps (calls_between r0) (committed_records ns)"
  by (induction ns) (simp_all add: keeps_intros)

lemma keeps_calls_push [keeps_intros]: "keeps (calls_between r0) (pushEventsToProjections ns)"
  unfolding pushEventsToProjections_def push_record_def by (intro keeps_intros)

lemma keeps_calls_commit [keeps_intros]: "keeps (calls_between r0) (afterCommit role cursor ns)"
  unfolding afterCommit_def by (intro keeps_intros)

lemma keeps_calls_accept [keeps_intros]: "keeps (calls_between r0) (accept_bridge i h k)"
  unfolding accept_bridge_def by (intro keeps_intros) simp

lemma keeps_calls_hello [keeps_intros]: "keeps (calls_between r0) (handleBridgeHello i h)"
  unfolding handleBridgeHello_def by (intro keeps_intros)

lemma keeps_calls_replay [keeps_intros]: "keeps (calls_between r0) (replay_loop n i cur page)"
  by (induction n arbitrary: page) (simp_all add: Let_def keeps_intros)

lemma keeps_calls_projection [keeps_intros]: "keeps (calls_between r0) (handleProjectionHello i h)"
  unfolding handleProjectionHello_def replay_def by (intro keeps_intros) simp

lemma keeps_calls_ack [keeps_intros]: "keeps (calls_between r0) (handleAssignmentAck i role a)"
  unfolding handleAssignmentAck_def acknowledge_def
  by (cases "aa_ack a") (simp_all add: keeps_intros split: option.split)

lemma bridge_event_frame:
  assumes "frame_valid f" "df_type f = js ''bridge.event''"
    "validateBridgeEvent (Some (JObj (body_json (df_body f)))) = Inr e"
  shows "bridge_event_ok e \<and> json_ok (JObj (be_payload e))"
proof -
  obtain b where b: "df_body f = Bridge_event b"
    using assms(1,2) by (cases "df_body f") (auto simp: frame_valid_def)
  then have "e = b" using assms(1,3) bridge_event_complete [of b] by (simp add: frame_valid_def)
  then show ?thesis using assms(1) b by (simp add: frame_valid_def del: json_ok.simps)
qed

lemma keeps_calls_frame [keeps_intros]:
  "frame_valid f \<Longrightarrow> keeps (calls_between r0) (handleFrame i f)"
  unfolding handleFrame_def handleFirstFrame_def handleBridgeFrame_def handleBridgeEvent_def Let_def
  by (intro keeps_intros; simp split: session_kind.split option.split prod.split)
     (auto intro!: keeps_intros dest!: bridge_event_frame simp del: json_ok.simps)


lemma calls_deliver: "list_all frame_valid fs \<Longrightarrow> calls_between r (deliver i fs r)"
proof (induction fs arbitrary: r)
  case (Cons f fs)
  have h: "calls_between r (snd (handleFrame i f r))"
    using Cons.prems by (intro keeps_final [OF keeps_calls_frame]) simp_all
  have "calls_between r' (fail i r')" for r'
    unfolding fail_def channel_close_def
    by (auto intro!: keeps_final [where I = "calls_between r'"] keeps_intros)
  with h Cons show ?case
    by (auto split: prod.split sum.split intro: calls_trans)
qed simp

lemma calls_fail: "calls_between r (fail i r)"
  unfolding fail_def channel_close_def
  by (auto intro!: keeps_final [where I = "calls_between r"] keeps_intros)

fun runner_input_ok :: "runner_input \<Rightarrow> bool" where
  "runner_input_ok (Start _ pid) = (\<bar>pid\<bar> \<le> host_pid_max)"
| "runner_input_ok _ = True"

lemma calls_step: "runner_input_ok x \<Longrightarrow> calls_between r (runner_step x r)"
proof (cases x)
  case (Data i chunk)
  have "calls_between r (on_data i chunk r)"
  proof (cases "push (se_decoder (the_session i r)) chunk")
    case (Inr p)
    obtain fs d where p: "p = (fs, d)" by (cases p)
    let ?r = "snd (update_session i (\<lambda>s. s\<lparr>se_decoder := d\<rparr>) r)"
    have "calls_between r ?r" by (simp add: update_session_def modify_rn_def)
    moreover have "calls_between ?r (deliver i fs ?r)" using Inr p by (intro calls_deliver) (simp add: push_valid)
    ultimately show ?thesis using Inr p by (auto simp: on_data_def intro: calls_trans)
  qed (simp add: on_data_def calls_fail)
  then show ?thesis using Data by simp
next
  case (Lock_elsewhere fs)
  then show ?thesis by (auto simp: calls_between_def op_ok_def intro!: exI [of _ "[Other_process fs]"])
next
  case (Start fresh pid)
  assume "runner_input_ok x"
  then have k: "keeps (calls_between r) (on_store (markRunnerRestarted g pid))" for g
    using Start by (intro keeps_calls disjI2 exI [of _ "Restarted g pid"]) (simp add: op_ok_def snd_discard)
  show ?thesis unfolding Start runner_step.simps start_def
    by (rule keeps_final [where I = "calls_between r"]) (auto intro!: keeps_intros k)
next
  case Stop
  show ?thesis unfolding Stop runner_step.simps stop_def
    by (rule keeps_final [where I = "calls_between r"]) (auto intro!: keeps_intros)
qed (simp_all add: calls_fail on_connection_def)

lemma calls_run: "list_all runner_input_ok xs \<Longrightarrow> calls_between r (runner_run xs r)"
  by (induction xs arbitrary: r) (auto intro: calls_trans calls_step)

text \<open>
  C16. The runner moves its store only through the domain: whatever text the clients send, in
  whatever chunks, and however the runner is started and stopped, the store it ends with is the
  one some sequence of admissible domain calls produces; so every property of a sequence of
  calls holds of a running system, and no unvalidated value reaches a table.
\<close>

theorem runner_moves_by_domain_calls:
  assumes "list_all runner_input_ok xs"
  shows "\<exists>ops. list_all op_ok ops \<and> rn_store (runner_run xs (new_runner s messages)) = run_ops ops s"
  using calls_run [OF assms, of "new_runner s messages"] by (simp add: calls_between_def new_runner_def)

lemma runner_moves_by_domain_calls_witness:
  "\<exists>ops. list_all op_ok ops \<and>
     rn_store (runner_run [Start True 4711, Connect, Data 0 (js ''{}'' @ [10]), Hang_up 0, Stop]
       (new_runner (open_store \<lparr>jv_requested = Wal_journal, jv_effective = js ''wal'', jv_sqliteVersion = js ''3.45''\<rparr> (\<lambda>_. js ''id'') (\<lambda>_. js ''now'')) (\<lambda>_. js ''m''))) =
     run_ops ops (open_store \<lparr>jv_requested = Wal_journal, jv_effective = js ''wal'', jv_sqliteVersion = js ''3.45''\<rparr> (\<lambda>_. js ''id'') (\<lambda>_. js ''now''))"
  by (rule runner_moves_by_domain_calls) (simp add: host_pid_max_def)

end
