(* ===== verification/RunnerTable.thy ===== *)
theory RunnerTable
  imports RunnerCalls
begin

text \<open>
  The connection table of a runner (kinds, closed flags, the owner of each role, the
  registered projections) as an abstract state machine \<open>table_step\<close>, its invariant \<open>table_ok\<close> by
  rule induction, and the refinement: every event of the loop moves the table of the runner by
  such steps (\<open>steps_run\<close>).
\<close>


section \<open>The table of connections\<close>

record table =
  tb_kinds :: "(session_kind \<times> role option) list"
  tb_closed :: "bool list"
  tb_open :: "nat list"
  tb_owner :: "role \<rightharpoonup> nat"
  tb_projections :: "nat set"

definition table :: "runner \<Rightarrow> table" where
  "table r =
     \<lparr>tb_kinds = map (\<lambda>s. (se_kind s, se_role s)) (rn_objs r), tb_closed = map se_closed (rn_objs r),
      tb_open = rn_sessions r, tb_owner = map_of (rn_bridges r), tb_projections = set (rn_projections r)\<rparr>"

definition drop_session :: "nat \<Rightarrow> table \<Rightarrow> table" where
  "drop_session i t =
     t\<lparr>tb_closed := (tb_closed t)[i := True],
       tb_open := removeAll i (tb_open t),
       tb_owner := (case tb_kinds t ! i of
          (Bridge_session, Some role) \<Rightarrow>
            if tb_owner t role = Some i then (tb_owner t)(role := None) else tb_owner t
        | _ \<Rightarrow> tb_owner t),
       tb_projections := (if fst (tb_kinds t ! i) = Projection_session
                          then tb_projections t - {i} else tb_projections t)\<rparr>"

text \<open>
  The connection table as a state machine. A session is registered once, as a bridge when its
  role is free, or as a projection; it leaves the table only while the runner still lists it.
\<close>

inductive table_step :: "table \<Rightarrow> table \<Rightarrow> bool" where
  connected: "table_step t (t\<lparr>tb_kinds := tb_kinds t @ [(Pending_kind, None)], tb_closed := tb_closed t @ [False],
                tb_open := tb_open t @ [length (tb_kinds t)]\<rparr>)"
| claimed: "i < length (tb_kinds t) \<Longrightarrow> fst (tb_kinds t ! i) = Pending_kind \<Longrightarrow>
     tb_owner t role = None \<or> tb_owner t role = Some i \<Longrightarrow>
     table_step t (t\<lparr>tb_kinds := (tb_kinds t)[i := (Bridge_session, Some role)],
                     tb_owner := (tb_owner t)(role \<mapsto> i)\<rparr>)"
| watching: "i < length (tb_kinds t) \<Longrightarrow> fst (tb_kinds t ! i) = Pending_kind \<Longrightarrow>
     table_step t (t\<lparr>tb_kinds := (tb_kinds t)[i := (Projection_session, snd (tb_kinds t ! i))],
                     tb_projections := insert i (tb_projections t)\<rparr>)"
| closed_by_peer: "i < length (tb_kinds t) \<Longrightarrow> \<not> tb_closed t ! i \<Longrightarrow> table_step t (drop_session i t)"
| stopped: "i \<in> set (tb_open t) \<Longrightarrow> table_step t (drop_session i t)"

definition lists_ok :: "table \<Rightarrow> bool" where
  "lists_ok t \<longleftrightarrow> length (tb_closed t) = length (tb_kinds t) \<and> distinct (tb_open t) \<and>
     (\<forall>i. i \<in> set (tb_open t) \<longleftrightarrow> i < length (tb_kinds t) \<and> \<not> tb_closed t ! i)"

definition bridges_registered :: "table \<Rightarrow> bool" where
  "bridges_registered t \<longleftrightarrow>
     (\<forall>i \<in> set (tb_open t). fst (tb_kinds t ! i) = Bridge_session \<longrightarrow>
        (\<exists>role. snd (tb_kinds t ! i) = Some role \<and> tb_owner t role = Some i))"

definition projections_registered :: "table \<Rightarrow> bool" where
  "projections_registered t \<longleftrightarrow>
     (\<forall>i \<in> set (tb_open t). fst (tb_kinds t ! i) = Projection_session \<longrightarrow> i \<in> tb_projections t)"

definition owners_ok :: "table \<Rightarrow> bool" where
  "owners_ok t \<longleftrightarrow>
     (\<forall>role i. tb_owner t role = Some i \<longrightarrow> i < length (tb_kinds t) \<and> tb_kinds t ! i = (Bridge_session, Some role)) \<and>
     (\<forall>i \<in> tb_projections t. i < length (tb_kinds t) \<and> fst (tb_kinds t ! i) = Projection_session)"

definition table_ok :: "table \<Rightarrow> bool" where
  "table_ok t \<longleftrightarrow> lists_ok t \<and> bridges_registered t \<and> projections_registered t \<and> owners_ok t"

lemmas table_defs = lists_ok_def bridges_registered_def projections_registered_def owners_ok_def

lemma update_nth: "j < length xs \<Longrightarrow> xs[i := x] ! j = (if i = j then x else xs ! j)"
  by (simp add: nth_list_update)

lemma drop_sel [simp]:
  "tb_kinds (drop_session i t) = tb_kinds t" "tb_closed (drop_session i t) = (tb_closed t)[i := True]"
  "tb_open (drop_session i t) = removeAll i (tb_open t)"
  by (simp_all add: drop_session_def)

lemma drop_owner: "owners_ok t \<Longrightarrow> tb_owner (drop_session i t) role = Some j \<longleftrightarrow> tb_owner t role = Some j \<and> j \<noteq> i"
  unfolding owners_ok_def drop_session_def
  by (cases "tb_kinds t ! i"; cases "fst (tb_kinds t ! i)"; cases "snd (tb_kinds t ! i)") auto

lemma drop_projections: "owners_ok t \<Longrightarrow> tb_projections (drop_session i t) = tb_projections t - {i}"
  by (auto simp: drop_session_def owners_ok_def)

lemma distinct_removeAll: "distinct xs \<Longrightarrow> distinct (removeAll i xs)"
  by (induction xs) auto

lemma drop_ok:
  assumes "table_ok t"
  shows "table_ok (drop_session i t)"
proof -
  have "lists_ok (drop_session i t)"
    using assms by (simp add: table_ok_def lists_ok_def update_nth distinct_removeAll cong: conj_cong)
  moreover have "bridges_registered (drop_session i t)"
    using assms by (auto simp: table_ok_def bridges_registered_def drop_owner)
  moreover have "projections_registered (drop_session i t)"
    using assms by (auto simp: table_ok_def projections_registered_def drop_projections)
  moreover have "owners_ok (drop_session i t)"
    using assms unfolding owners_ok_def [of "drop_session i t"]
    by (auto simp: table_ok_def drop_owner drop_projections) (auto simp: owners_ok_def)
  ultimately show ?thesis by (simp add: table_ok_def)
qed

lemma open_iff: "table_ok t \<Longrightarrow> i \<in> set (tb_open t) \<longleftrightarrow> i < length (tb_kinds t) \<and> \<not> tb_closed t ! i"
  by (simp add: table_ok_def lists_ok_def)

lemma set_add_set [simp]: "set (set_add x xs) = insert x (set xs)"
  by (auto simp: set_add_def)

lemma connected_ok:
  assumes "table_ok t"
  shows "table_ok (t\<lparr>tb_kinds := tb_kinds t @ [(Pending_kind, None)], tb_closed := tb_closed t @ [False],
           tb_open := tb_open t @ [length (tb_kinds t)]\<rparr>)" (is "table_ok ?t")
proof -
  have o: "i < length (tb_kinds t)" if "i \<in> set (tb_open t)" for i using that assms by (simp add: open_iff)
  have "lists_ok ?t"
    using assms by (simp add: table_ok_def lists_ok_def nth_append less_Suc_eq cong: conj_cong)
  moreover have "bridges_registered ?t"
    using assms o by (auto simp: table_ok_def bridges_registered_def nth_append)
  moreover have "projections_registered ?t"
    using assms o by (auto simp: table_ok_def projections_registered_def nth_append)
  moreover have "owners_ok ?t"
    using assms unfolding owners_ok_def by (fastforce simp: table_ok_def owners_ok_def nth_append)
  ultimately show ?thesis by (simp add: table_ok_def)
qed

lemma registered_ok:
  assumes t: "table_ok t" and i: "i < length (tb_kinds t)" "fst (tb_kinds t ! i) = Pending_kind"
  shows "tb_owner t role = None \<or> tb_owner t role = Some i \<Longrightarrow>
      table_ok (t\<lparr>tb_kinds := (tb_kinds t)[i := (Bridge_session, Some role)], tb_owner := (tb_owner t)(role \<mapsto> i)\<rparr>)"
    and "table_ok (t\<lparr>tb_kinds := (tb_kinds t)[i := (Projection_session, snd (tb_kinds t ! i))],
           tb_projections := insert i (tb_projections t)\<rparr>)"
proof -
  have o: "j < length (tb_kinds t)" if "j \<in> set (tb_open t)" for j using that t by (simp add: open_iff)
  have ow: "tb_owner t a = Some j \<Longrightarrow> j < length (tb_kinds t) \<and> j \<noteq> i \<and> tb_kinds t ! j = (Bridge_session, Some a)"
    "j \<in> tb_projections t \<Longrightarrow> j < length (tb_kinds t) \<and> j \<noteq> i \<and> fst (tb_kinds t ! j) = Projection_session" for a j
    using t i by (auto simp: table_ok_def owners_ok_def)
  have b: "\<exists>a. snd (tb_kinds t ! j) = Some a \<and> tb_owner t a = Some j" if "j \<in> set (tb_open t)" "fst (tb_kinds t ! j) = Bridge_session" for j
    using that t by (auto simp: table_ok_def bridges_registered_def)
  have p: "j \<in> tb_projections t" if "j \<in> set (tb_open t)" "fst (tb_kinds t ! j) = Projection_session" for j
    using that t by (auto simp: table_ok_def projections_registered_def)
  have l: "lists_ok t" using t by (simp add: table_ok_def)
  show "table_ok (t\<lparr>tb_kinds := (tb_kinds t)[i := (Bridge_session, Some role)], tb_owner := (tb_owner t)(role \<mapsto> i)\<rparr>)"
    if r: "tb_owner t role = None \<or> tb_owner t role = Some i"
  proof -
    let ?t = "t\<lparr>tb_kinds := (tb_kinds t)[i := (Bridge_session, Some role)], tb_owner := (tb_owner t)(role \<mapsto> i)\<rparr>"
    have "bridges_registered ?t"
      unfolding bridges_registered_def
    proof (intro ballI impI)
      fix j assume j: "j \<in> set (tb_open ?t)" "fst (tb_kinds ?t ! j) = Bridge_session"
      then have "j < length (tb_kinds t)" by (simp add: o)
      with j b [of j] r i(1) show "\<exists>a. snd (tb_kinds ?t ! j) = Some a \<and> tb_owner ?t a = Some j"
        by (cases "j = i") (auto, (metis option.sel option.distinct(1))+)
    qed
    then show ?thesis
      using l i(1) unfolding table_ok_def
      by (intro conjI)
         (simp add: lists_ok_def, assumption,
          auto simp: projections_registered_def owners_ok_def update_nth o dest: ow p)
  qed
  show "table_ok (t\<lparr>tb_kinds := (tb_kinds t)[i := (Projection_session, snd (tb_kinds t ! i))],
           tb_projections := insert i (tb_projections t)\<rparr>)"
    using l i(1) unfolding table_ok_def
    by (intro conjI)
       (simp add: lists_ok_def,
        auto simp: bridges_registered_def projections_registered_def owners_ok_def update_nth o dest: ow b p)
qed

lemma table_step_ok: "table_step t t' \<Longrightarrow> table_ok t \<Longrightarrow> table_ok t'"
  by (induction rule: table_step.induct) (simp_all add: drop_ok connected_ok registered_ok)

lemma table_steps_ok: "table_step\<^sup>*\<^sup>* t t' \<Longrightarrow> table_ok t \<Longrightarrow> table_ok t'"
  by (induction rule: rtranclp_induct) (auto intro: table_step_ok)

text \<open>A closed session still registered stays registered: nothing removes it.\<close>

definition orphan :: "nat \<Rightarrow> table \<Rightarrow> bool" where
  "orphan i t \<longleftrightarrow> i < length (tb_kinds t) \<and> tb_closed t ! i \<and>
     (case tb_kinds t ! i of
        (Bridge_session, Some role) \<Rightarrow> tb_owner t role = Some i
      | (Projection_session, _) \<Rightarrow> i \<in> tb_projections t
      | _ \<Rightarrow> False)"

lemma orphan_step:
  assumes "table_step t t'" "table_ok t" "orphan i t"
  shows "orphan i t' \<and> tb_kinds t' ! i = tb_kinds t ! i"
proof -
  obtain k ro where k: "tb_kinds t ! i = (k, ro)" by (cases "tb_kinds t ! i")
  have i: "i < length (tb_kinds t)" "tb_closed t ! i" "k \<noteq> Pending_kind"
    using assms(3) k by (auto simp: orphan_def)
  have no: "i \<notin> set (tb_open t)" using i open_iff [OF assms(2)] by simp
  have l: "length (tb_closed t) = length (tb_kinds t)" and o: "owners_ok t"
    using assms(2) by (simp_all add: table_ok_def lists_ok_def)
  from assms(1) show ?thesis
  proof cases
    case connected
    then show ?thesis using i l k assms(3) by (cases k; cases ro) (simp_all add: orphan_def nth_append)
  next
    case (claimed j role)
    then have "i \<noteq> j" using i k by auto
    then show ?thesis using claimed i k assms(3)
      by (auto simp: orphan_def split: session_kind.splits option.splits)
  next
    case (watching j)
    then have "i \<noteq> j" using i k by auto
    then show ?thesis using watching i k assms(3)
      by (auto simp: orphan_def split: session_kind.splits option.splits)
  next
    case (closed_by_peer j)
    then have "i \<noteq> j" using i by auto
    then show ?thesis using closed_by_peer i k assms(3) drop_owner [OF o] drop_projections [OF o]
      by (auto simp: orphan_def split: session_kind.splits option.splits)
  next
    case (stopped j)
    then have "i \<noteq> j" using no by auto
    then show ?thesis using stopped i k assms(3) drop_owner [OF o] drop_projections [OF o]
      by (auto simp: orphan_def split: session_kind.splits option.splits)
  qed
qed

lemma orphan_steps:
  "table_step\<^sup>*\<^sup>* t t' \<Longrightarrow> table_ok t \<Longrightarrow> orphan i t \<Longrightarrow> orphan i t' \<and> tb_kinds t' ! i = tb_kinds t ! i"
proof (induction rule: rtranclp_induct)
  case (step u v)
  then show ?case using orphan_step [of u v i] table_steps_ok [of t u] by simp
qed simp

section \<open>The runner moves its table by these steps\<close>

named_theorems quiet_intros \<open>calls that leave the table of connections alone\<close>

lemma quiet_on_store [quiet_intros]: "keeps (\<lambda>r. P (table r)) (on_store m)"
  by (rule keepsI) (auto simp: wpr_final on_store_def table_def split: prod.split sum.split)

lemma quiet_session [quiet_intros]:
  "(\<And>s. se_kind (f s) = se_kind s \<and> se_role (f s) = se_role s \<and> se_closed (f s) = se_closed s) \<Longrightarrow>
   keeps (\<lambda>r. P (table r)) (update_session i f)"
proof (rule keepsI, simp add: wpr_simps)
  fix r assume f: "\<And>s. se_kind (f s) = se_kind s \<and> se_role (f s) = se_role s \<and> se_closed (f s) = se_closed s"
  assume "P (table r)"
  moreover have "table (r\<lparr>rn_objs := (rn_objs r)[i := f (rn_objs r ! i)]\<rparr>) = table r"
    by (cases "i < length (rn_objs r)") (auto simp: table_def f intro!: nth_equalityI simp: nth_list_update split: if_splits)
  ultimately show "P (table (r\<lparr>rn_objs := (rn_objs r)[i := f (rn_objs r ! i)]\<rparr>))" by simp
qed

lemma quiet_modify [quiet_intros]:
  "(\<And>r. table (g r) = table r) \<Longrightarrow> keeps (\<lambda>r. P (table r)) (modify_rn g)"
  by (rule keeps_modify) simp

lemma quiet_send [quiet_intros]: "keeps (\<lambda>r. P (table r)) (send i b)"
  unfolding send_def channel_send_def by (intro keeps_intros quiet_intros) (simp_all add: table_def)

lemma quiet_records [quiet_intros]: "keeps (\<lambda>r. P (table r)) (committed_records ns)"
  by (induction ns) (auto intro!: keeps_intros quiet_intros)

lemma quiet_push [quiet_intros]: "keeps (\<lambda>r. P (table r)) (pushEventsToProjections ns)"
  unfolding pushEventsToProjections_def push_record_def by (intro keeps_intros quiet_intros) simp

lemma quiet_commit [quiet_intros]: "keeps (\<lambda>r. P (table r)) (afterCommit role cursor ns)"
  unfolding afterCommit_def by (intro keeps_intros quiet_intros)

lemma quiet_replay [quiet_intros]: "keeps (\<lambda>r. P (table r)) (replay_loop n i cur page)"
  by (induction n arbitrary: page) (auto simp: Let_def intro!: keeps_intros quiet_intros)

lemma wpr_send_open:
  "wpr (send i b) (\<lambda>_ r'. table r' = table r \<and> \<not> se_closed (the_session i r)) (\<lambda>_ r'. table r' = table r) r"
proof -
  have q: "wpr (send i b) (\<lambda>_ r'. table r' = table r) (\<lambda>_ r'. table r' = table r) r"
    using quiet_send [of "\<lambda>t. t = table r" i b] by (simp add: keeps_def)
  have "wpr (send i b) (\<lambda>_ _. \<not> se_closed (the_session i r)) (\<lambda>_ _. True) r"
    by (simp add: send_def channel_send_def wpr_simps the_session_def split: sum.split)
  with q show ?thesis by (auto simp: wpr_def split: prod.splits sum.splits)
qed


text \<open>What a call keeps while it moves the table: the steps so far and the session's existence.\<close>

definition moved :: "table \<Rightarrow> nat \<Rightarrow> table \<Rightarrow> bool" where
  "moved t0 i t \<longleftrightarrow> table_step\<^sup>*\<^sup>* t0 t \<and> i < length (tb_kinds t)"

lemma table_sel [simp]:
  "tb_open (table r) = rn_sessions r" "tb_owner (table r) = map_of (rn_bridges r)"
  "tb_projections (table r) = set (rn_projections r)" "length (tb_kinds (table r)) = length (rn_objs r)"
  "length (tb_closed (table r)) = length (rn_objs r)"
  by (simp_all add: table_def)

lemma table_nth [simp]:
  "i < length (rn_objs r) \<Longrightarrow> tb_kinds (table r) ! i = (se_kind (the_session i r), se_role (the_session i r))"
  "i < length (rn_objs r) \<Longrightarrow> tb_closed (table r) ! i = se_closed (the_session i r)"
  by (simp_all add: table_def the_session_def)

lemma table_handleClose:
  assumes "i < length (rn_objs r)"
  shows "wpr (handleClose i) (\<lambda>_ r'. table r' = drop_session i (table r)) (\<lambda>_ _. False) r"
  using assms
  by (simp add: handleClose_def channel_close_def wpr_simps Let_def the_session_def)
     (auto simp: table_def drop_session_def map_update list_update_same_conv
        split: session_kind.split option.split)

lemma drop_twice:
  "i < length (tb_kinds t) \<Longrightarrow> drop_session i (t\<lparr>tb_closed := (tb_closed t)[i := True]\<rparr>) = drop_session i t"
  by (cases t) (simp add: drop_session_def split: prod.split session_kind.split option.split)

lemma table_channel_close:
  assumes "i < length (rn_objs r)"
  shows "wpr (channel_close i) (\<lambda>_ r'. table r' = (table r)\<lparr>tb_closed := (tb_closed (table r))[i := True]\<rparr>)
     (\<lambda>_ _. False) r"
  using assms
  by (simp add: channel_close_def wpr_simps) (auto simp: table_def map_update list_update_same_conv)

lemma table_close:
  assumes "i < length (rn_objs r)"
  shows "wpr (then_rn (channel_close i) (handleClose i)) (\<lambda>_ r'. table r' = drop_session i (table r)) (\<lambda>_ _. False) r"
  unfolding wpr_then
proof (rule wpr_mono [OF table_channel_close [OF assms]])
  fix r' assume t: "table r' = (table r)\<lparr>tb_closed := (tb_closed (table r))[i := True]\<rparr>"
  then have "length (rn_objs r') = length (rn_objs r)"
    using table_sel(4) [of r'] by (simp del: table_sel(4)) (simp add: table_def)
  with assms show "wpr (handleClose i) (\<lambda>_ r'. table r' = drop_session i (table r)) (\<lambda>_ _. False) r'"
    by (intro wpr_mono [OF table_handleClose]) (simp_all add: t drop_twice)
qed simp_all

lemma moved_step: "moved t0 i t \<Longrightarrow> table_step t t' \<Longrightarrow> length (tb_kinds t) \<le> length (tb_kinds t') \<Longrightarrow> moved t0 i t'"
  unfolding moved_def by (meson rtranclp.rtrancl_into_rtrancl order.strict_trans2)

lemma moved_refuse [quiet_intros]: "keeps (\<lambda>r. moved t0 i (table r)) (refuse i c d)"
proof (rule keepsI)
  fix r assume m: "moved t0 i (table r)"
  show "wpr (refuse i c d) (\<lambda>_ r. moved t0 i (table r)) (\<lambda>_ r. moved t0 i (table r)) r"
    unfolding refuse_def wpr_then [of "send i (error_frame c d)"]
  proof (rule wpr_mono [OF wpr_send_open])
    fix r' assume t: "table r' = table r \<and> \<not> se_closed (the_session i r)"
    have r: "i < length (rn_objs r)" using m by (simp add: moved_def)
    then have i: "i < length (rn_objs r')" using t table_sel(4) [of r'] by simp
    have "table_step (table r') (drop_session i (table r'))"
      using t r by (intro table_step.closed_by_peer) simp_all
    then have "moved t0 i (drop_session i (table r'))"
      using m t by (simp add: moved_step [of t0 i "table r'"])
    then show "wpr (then_rn (channel_close i) (handleClose i)) (\<lambda>_ r. moved t0 i (table r)) (\<lambda>_ r. moved t0 i (table r)) r'"
      by (intro wpr_mono [OF table_close [OF i]]) simp_all
  next
    fix e r' assume "table r' = table r"
    then show "moved t0 i (table r')" using m by simp
  qed
qed

lemma moved_accept:
  assumes m: "moved t0 i (table r)" and k: "se_kind (the_session i r) = Pending_kind"
    and o: "map_of (rn_bridges r) (bh_role h) = None \<or> map_of (rn_bridges r) (bh_role h) = Some i"
  shows "wpr (accept_bridge i h hs) (\<lambda>_ r. moved t0 i (table r)) (\<lambda>_ r. moved t0 i (table r)) r"
proof -
  let ?r = "r\<lparr>rn_objs := (rn_objs r)[i := (rn_objs r ! i)\<lparr>se_kind := Bridge_session, se_role := Some (bh_role h),
      se_lastSentSequence := hr_eventCursor hs\<rparr>], rn_bridges := assoc_put (bh_role h) i (rn_bridges r)\<rparr>"
  have i: "i < length (rn_objs r)" using m by (simp add: moved_def)
  have t: "table ?r = (table r)\<lparr>tb_kinds := (tb_kinds (table r))[i := (Bridge_session, Some (bh_role h))],
      tb_owner := (tb_owner (table r))(bh_role h \<mapsto> i)\<rparr>"
    using i by (auto simp: table_def map_update list_update_same_conv)
  have "table_step (table r) (table ?r)"
    unfolding t using i k o by (intro table_step.claimed) auto
  then have "moved t0 i (table ?r)" by (rule moved_step [OF m]) (simp add: table_def)
  then show ?thesis
    unfolding accept_bridge_def wpr_then [of "update_session _ _"] wpr_then [of "modify_rn _"] wpr_update wpr_basic
    apply (intro keepsD [where I = "\<lambda>r. moved t0 i (table r)"] keeps_intros quiet_intros)
    apply simp
    done
qed

lemma moved_bridge_hello:
  assumes "moved t0 i (table r)" "se_kind (the_session i r) = Pending_kind"
  shows "wpr (handleBridgeHello i h) (\<lambda>_ r. moved t0 i (table r)) (\<lambda>_ r. moved t0 i (table r)) r"
proof -
  let ?I = "\<lambda>r. moved t0 i (table r)"
  have refuse: "wpr (refuse i c d) (\<lambda>_. ?I) (\<lambda>_. ?I) r'" if "?I r'" for c d r'
    using that by (rule keepsD [OF moved_refuse])
  have hand: "wpr (on_store (bridgeHandshake h)) (\<lambda>x r'. table r' = table r) (\<lambda>e r'. table r' = table r) r"
    by (rule keepsD [OF quiet_on_store [of "\<lambda>t. t = table r"]]) simp
  have acc: "wpr (accept_bridge i h hs) (\<lambda>_. ?I) (\<lambda>_. ?I) r'"
    if t: "table r' = table r" and o: "map_of (rn_bridges r) (bh_role h) = None \<or> map_of (rn_bridges r) (bh_role h) = Some i"
    for hs r'
  proof (rule moved_accept)
    have l: "i < length (rn_objs r)" "i < length (rn_objs r')"
      using assms(1) t table_sel(4) [of r'] by (simp_all add: moved_def)
    show "se_kind (the_session i r') = Pending_kind" using table_nth(1) [OF l(1)] table_nth(1) [OF l(2)] t assms(2) by simp
    show "map_of (rn_bridges r') (bh_role h) = None \<or> map_of (rn_bridges r') (bh_role h) = Some i"
      using table_sel(2) [of r'] table_sel(2) [of r] t o by simp
  qed (simp add: t assms(1))
  show ?thesis
    unfolding handleBridgeHello_def wpr_bind wpr_basic
    by (auto simp: refuse assms(1) wpr_bind wpr_catch wpr_basic wpr_then split: option.split
        intro!: wpr_mono [OF hand] acc wpr_mono [OF refuse] dest: sym)
qed

lemma moved_projection_hello:
  assumes "moved t0 i (table r)" "se_kind (the_session i r) = Pending_kind"
  shows "wpr (handleProjectionHello i h) (\<lambda>_ r. moved t0 i (table r)) (\<lambda>_ r. moved t0 i (table r)) r"
proof -
  let ?I = "\<lambda>r. moved t0 i (table r)"
  have refuse: "wpr (refuse i c d) (\<lambda>_. ?I) (\<lambda>_. ?I) r" for c d
    using assms(1) by (rule keepsD [OF moved_refuse])
  have i: "i < length (rn_objs r)" using assms(1) by (simp add: moved_def)
  have "moved t0 i (table (r\<lparr>rn_objs := (rn_objs r)[i := (rn_objs r ! i)\<lparr>se_kind := Projection_session, se_lastSentSequence := c\<rparr>],
              rn_projections := set_add i (rn_projections r)\<rparr>))" (is "moved _ _ (table ?r)") for c
  proof -
    have t: "table ?r = (table r)\<lparr>tb_kinds := (tb_kinds (table r))[i := (Projection_session, snd (tb_kinds (table r) ! i))],
        tb_projections := insert i (tb_projections (table r))\<rparr>"
      using i by (auto simp: table_def map_update list_update_same_conv)
    have "table_step (table r) (table ?r)" unfolding t using i assms(2) by (intro table_step.watching) simp_all
    then show ?thesis by (rule moved_step [OF assms(1)]) (simp add: table_def)
  qed
  then show ?thesis
    unfolding handleProjectionHello_def wpr_bind wpr_basic replay_def Let_def
    by (auto simp: refuse wpr_then [of "update_session _ _"] wpr_then [of "modify_rn _"] wpr_update wpr_basic split: option.split
        intro!: keepsD [where I = ?I] keeps_intros quiet_intros)
qed

lemma moved_frame:
  assumes "moved t0 i (table r)"
  shows "wpr (handleFrame i f) (\<lambda>_ r. moved t0 i (table r)) (\<lambda>_ r. moved t0 i (table r)) r"
proof -
  let ?I = "\<lambda>r. moved t0 i (table r)"
  have b: "keeps ?I (handleBridgeFrame i f)"
    unfolding handleBridgeFrame_def handleAssignmentAck_def acknowledge_def handleBridgeEvent_def Let_def
    by (intro keeps_intros quiet_intros; simp split: option.split prod.split ack_status.split)
       (auto intro!: keeps_intros quiet_intros split: ack_status.split)
  show ?thesis
    unfolding handleFrame_def wpr_bind wpr_basic handleFirstFrame_def Let_def
    using assms
    by (auto simp: wpr_bind wpr_on_result split: session_kind.split sum.split
        intro!: keepsD [OF moved_refuse] keepsD [OF b] moved_bridge_hello moved_projection_hello)
qed


section \<open>Runs\<close>

lemma table_other [simp]:
  "table (r\<lparr>rn_store := s\<rparr>) = table r" "table (r\<lparr>rn_started := b\<rparr>) = table r" "table (r\<lparr>rn_counter := n\<rparr>) = table r"
  by (simp_all add: table_def)

abbreviation table_steps :: "runner \<Rightarrow> runner \<Rightarrow> bool" where
  "table_steps r r' \<equiv> table_step\<^sup>*\<^sup>* (table r) (table r')"

lemma steps_length: "table_step\<^sup>*\<^sup>* t t' \<Longrightarrow> length (tb_kinds t) \<le> length (tb_kinds t')"
  by (induction rule: rtranclp_induct) (auto elim!: table_step.cases)

lemma steps_fail: "i < length (rn_objs r) \<Longrightarrow> table_steps r (fail i r)"
proof -
  assume i: "i < length (rn_objs r)"
  have "wpr (then_rn (channel_close i) (handleClose i)) (\<lambda>_ r'. table_steps r r') (\<lambda>_ r'. table_steps r r') r"
    if "\<not> se_closed (the_session i r)"
    using that i by (intro wpr_mono [OF table_close [OF i]]) (auto intro!: r_into_rtranclp table_step.closed_by_peer)
  then show ?thesis by (auto simp: fail_def wpr_final)
qed

lemma steps_deliver: "i < length (rn_objs r) \<Longrightarrow> table_steps r (deliver i fs r)"
proof (induction fs arbitrary: r)
  case (Cons f fs)
  have "moved (table r) i (table (snd (handleFrame i f r)))"
    using moved_frame [of "table r" i r f] Cons.prems by (simp add: moved_def wpr_final)
  then have m: "table_steps r (snd (handleFrame i f r))" "i < length (rn_objs (snd (handleFrame i f r)))"
    by (simp_all add: moved_def)
  then show ?case
    using Cons.IH [OF m(2)] steps_fail [OF m(2)]
    by (auto split: prod.split sum.split intro: rtranclp_trans)
qed simp

lemma steps_data: "i < length (rn_objs r) \<Longrightarrow> table_steps r (on_data i chunk r)"
proof -
  assume i: "i < length (rn_objs r)"
  have t: "table (snd (update_session i (\<lambda>s. s\<lparr>se_decoder := d\<rparr>) r)) = table r" for d
    using keeps_final [OF quiet_session [of "\<lambda>s. s\<lparr>se_decoder := d\<rparr>" "\<lambda>t. t = table r" i]] by simp
  have "table_steps r (deliver i fs (snd (update_session i (\<lambda>s. s\<lparr>se_decoder := d\<rparr>) r)))" for fs d
    using steps_deliver [of i "snd (update_session i (\<lambda>s. s\<lparr>se_decoder := d\<rparr>) r)" fs] i
    by (simp add: t) (simp add: update_session_def modify_rn_def)
  then show ?thesis using steps_fail [OF i] by (auto simp: on_data_def split: sum.split)
qed

lemma steps_stop:
  assumes "distinct (rn_sessions r)" "\<forall>i \<in> set (rn_sessions r). i < length (rn_objs r)"
  shows "table_steps r (snd (stop r))"
proof -
  have "wpr (each_rn handleClose ids) (\<lambda>_. table_steps r) (\<lambda>_. table_steps r) r'"
    if "distinct ids" "set ids \<subseteq> set (rn_sessions r')" "table_steps r r'" "\<forall>i \<in> set ids. i < length (rn_objs r')" for ids r'
    using that
  proof (induction ids arbitrary: r')
    case (Cons i ids)
    have i: "i < length (rn_objs r')" using Cons.prems by simp
    have "wpr (handleClose i) (\<lambda>_. \<lambda>r''. wpr (each_rn handleClose ids) (\<lambda>_. table_steps r) (\<lambda>_. table_steps r) r'')
        (\<lambda>_. table_steps r) r'"
    proof (rule wpr_mono [OF table_handleClose [OF i]])
      fix r'' assume t: "table r'' = drop_session i (table r')"
      have s: "rn_sessions r'' = removeAll i (rn_sessions r')" "length (rn_objs r'') = length (rn_objs r')"
        using table_sel(1,4) [of r''] t by (simp_all del: table_sel(1,4)) simp_all
      have "table_step (table r') (table r'')"
        unfolding t by (rule table_step.stopped) (use Cons.prems in simp)
      then show "wpr (each_rn handleClose ids) (\<lambda>_. table_steps r) (\<lambda>_. table_steps r) r''"
        using Cons.prems s by (intro Cons.IH) (auto intro: rtranclp.rtrancl_into_rtrancl)
    qed simp_all
    then show ?case by (simp add: wpr_then)
  qed (simp add: wpr_basic)
  from this [of "rn_sessions r" r] assms show ?thesis
    by (auto simp: stop_def wpr_final [symmetric, of "\<lambda>r'. table_steps r r'"] wpr_bind wpr_then wpr_basic
        elim!: wpr_mono)
qed

lemma steps_step: "table_ok (table r) \<Longrightarrow> table_steps r (runner_step x r)"
proof (cases x)
  case Connect
  have "table (on_connection r) = (table r)\<lparr>tb_kinds := tb_kinds (table r) @ [(Pending_kind, None)],
     tb_closed := tb_closed (table r) @ [False], tb_open := tb_open (table r) @ [length (tb_kinds (table r))]\<rparr>"
    by (simp add: on_connection_def table_def)
  then show ?thesis using Connect table_step.connected [of "table r"] by auto
next
  case (Start fresh pid)
  have "keeps (\<lambda>r'. table_steps r r') (start fresh pid)"
    unfolding start_def by (intro keeps_intros quiet_intros) simp
  from keeps_final [OF this, of r] show ?thesis using Start by simp
next
  case Stop
  assume t: "table_ok (table r)"
  have "distinct (rn_sessions r)" using t by (simp add: table_ok_def lists_ok_def)
  moreover have "\<forall>i \<in> set (rn_sessions r). i < length (rn_objs r)" using open_iff [OF t] by simp
  ultimately show ?thesis using Stop steps_stop by simp
qed (auto simp: steps_data steps_fail)

lemma steps_run: "table_ok (table r) \<Longrightarrow> table_steps r (runner_run xs r) \<and> table_ok (table (runner_run xs r))"
proof (induction xs arbitrary: r)
  case (Cons x xs)
  then have "table_steps r (runner_step x r)" by (simp add: steps_step)
  with Cons show ?case using table_steps_ok by (auto intro: rtranclp_trans)
qed simp

lemma table_ok_new [simp]: "table_ok (table (new_runner s m))"
  by (simp add: table_ok_def table_defs table_def new_runner_def)


section \<open>Ownership of roles\<close>

definition open_bridges :: "role \<Rightarrow> runner \<Rightarrow> nat list" where
  "open_bridges role r =
     filter (\<lambda>i. \<not> se_closed (the_session i r) \<and> se_kind (the_session i r) = Bridge_session \<and>
                 se_role (the_session i r) = Some role) [0..<length (rn_objs r)]"

lemma filter_single: "i < n \<Longrightarrow> (\<And>j. j < n \<Longrightarrow> P j \<longleftrightarrow> j = i) \<Longrightarrow> filter P [0..<n] = [i]"
proof -
  assume i: "i < n" and P: "\<And>j. j < n \<Longrightarrow> P j \<longleftrightarrow> j = i"
  have "filter P [0..<n] = filter (\<lambda>j. j = i) [0..<n]" by (rule filter_cong) (auto simp: P)
  also have "\<dots> = [i]"
  proof -
    have "[0..<n] = [0..<i] @ i # [Suc i..<n]" using i by (metis le0 upt_add_eq_append upt_conv_Cons le_add_diff_inverse less_imp_le)
    then show ?thesis by (auto simp: filter_empty_conv)
  qed
  finally show ?thesis .
qed

lemma open_bridges_owner:
  assumes t: "table_ok (table r)"
  shows "open_bridges role r = (case map_of (rn_bridges r) role of None \<Rightarrow> []
     | Some i \<Rightarrow> if se_closed (the_session i r) then [] else [i])"
proof -
  have o: "map_of (rn_bridges r) role = Some i"
    if "i < length (rn_objs r)" "\<not> se_closed (the_session i r)" "se_kind (the_session i r) = Bridge_session"
      "se_role (the_session i r) = Some role" for i
  proof -
    have "i \<in> set (tb_open (table r))" using that open_iff [OF t] by simp
    moreover have "fst (tb_kinds (table r) ! i) = Bridge_session" using that(1,3) by simp
    ultimately have "\<exists>a. snd (tb_kinds (table r) ! i) = Some a \<and> tb_owner (table r) a = Some i"
      using t unfolding table_ok_def bridges_registered_def by blast
    with that show ?thesis by simp
  qed
  have w: "i < length (rn_objs r) \<and> se_kind (the_session i r) = Bridge_session \<and> se_role (the_session i r) = Some role"
    if "map_of (rn_bridges r) role = Some i" for i
  proof -
    have ow: "tb_owner (table r) role = Some i \<Longrightarrow> i < length (tb_kinds (table r)) \<and> tb_kinds (table r) ! i = (Bridge_session, Some role)"
      using t by (simp only: table_ok_def owners_ok_def)
    have k: "i < length (rn_objs r)" "tb_kinds (table r) ! i = (Bridge_session, Some role)"
      using ow that by simp_all
    then show ?thesis using table_nth(1) [OF k(1)] by simp
  qed
  show ?thesis
  proof (cases "map_of (rn_bridges r) role")
    case None
    then show ?thesis using o by (auto simp: open_bridges_def filter_empty_conv)
  next
    case (Some i)
    show ?thesis
    proof (cases "se_closed (the_session i r)")
      case True
      then show ?thesis using Some o by (auto simp: open_bridges_def filter_empty_conv)
    next
      case False
      have "open_bridges role r = [i]"
        unfolding open_bridges_def
        by (rule filter_single) (use Some o w [OF Some] False in auto, metis o option.inject Some)
      then show ?thesis using Some False by simp
    qed
  qed
qed


end
