(* ===== verification/ThinClient.thy ===== *)
theory ThinClient
  imports RunnerLog
begin

text \<open>
  src/thin-client.ts: the projection client. Frames arrive through the same decoder as on the
  server; the handler runs synchronously for the frames of a chunk, and the continuations of
  the promises it resolves (\<open>jobs\<close>, the microtask queue) run when the chunk is done. The three
  continuations are the two of \<open>connect\<close> and those of other callers of \<open>waitForFrame\<close>.
\<close>

section \<open>Frames received and frames waited for\<close>

datatype task = Page_awaited | Snapshot_awaited | Hello_awaited | Update_awaited | Caller nat

record inbox =
  receivedFrames :: "decoded_frame list"
  pendingFrames :: "decoded_frame list"
  frameWaiters :: "(jstr \<times> task) list"
  jobs :: "(task \<times> decoded_frame) list"

definition empty_inbox :: inbox where
  "empty_inbox = \<lparr>receivedFrames = [], pendingFrames = [], frameWaiters = [], jobs = []\<rparr>"

definition receive_frame :: "decoded_frame \<Rightarrow> inbox \<Rightarrow> inbox" where
  "receive_frame f b =
     b\<lparr>receivedFrames := receivedFrames b @ [f], pendingFrames := pendingFrames b @ [f]\<rparr>"

text \<open>The loop over the waiters runs from the last to the first and resolves every match.\<close>

definition resolve_waiters :: "decoded_frame \<Rightarrow> inbox \<Rightarrow> inbox" where
  "resolve_waiters f b =
     b\<lparr>frameWaiters := filter (\<lambda>w. fst w \<noteq> df_type f) (frameWaiters b),
       jobs := jobs b @ map (\<lambda>w. (snd w, f)) (rev (filter (\<lambda>w. fst w = df_type f) (frameWaiters b)))\<rparr>"

fun take_first :: "('a \<Rightarrow> bool) \<Rightarrow> 'a list \<Rightarrow> ('a \<times> 'a list) option" where
  "take_first p [] = None"
| "take_first p (x # xs) =
     (if p x then Some (x, xs) else map_option (apsnd ((#) x)) (take_first p xs))"

definition wait_for_frame :: "jstr \<Rightarrow> task \<Rightarrow> inbox \<Rightarrow> inbox" where
  "wait_for_frame type k b =
     (case take_first (\<lambda>f. df_type f = type) (pendingFrames b) of
        Some (f, rest) \<Rightarrow> b\<lparr>pendingFrames := rest, jobs := jobs b @ [(k, f)]\<rparr>
      | None \<Rightarrow> b\<lparr>frameWaiters := frameWaiters b @ [(type, k)]\<rparr>)"

definition waiter_timeout :: "nat \<Rightarrow> inbox \<Rightarrow> inbox" where
  "waiter_timeout n b = b\<lparr>frameWaiters := take n (frameWaiters b) @ drop (Suc n) (frameWaiters b)\<rparr>"

section \<open>The client\<close>

datatype client_failure =
    Already_connected
  | Not_connected
  | Client_protocol protocol_code
  | Snapshot_mismatch
  | Page_mismatch
  | Sequence_mismatch
  | Duplicate_projection_event

record client =
  tc_teamGoalId :: jstr
  tc_clientId :: jstr
  tc_channel :: "decoder option"
  tc_socket :: bool
  tc_inbox :: inbox
  tc_eventLog :: "event_record list"
  tc_lastSnapshot :: "snapshot_body option"
  tc_lastPresentationUpdates :: "presentation_update list"
  tc_messageCounter :: nat
  tc_savedCursor :: "int option"
  tc_written :: "jstr list"

definition new_client :: "jstr \<Rightarrow> jstr \<Rightarrow> client" where
  "new_client teamGoalId clientId =
     \<lparr>tc_teamGoalId = teamGoalId, tc_clientId = clientId, tc_channel = None, tc_socket = False,
      tc_inbox = empty_inbox, tc_eventLog = [], tc_lastSnapshot = None,
      tc_lastPresentationUpdates = [], tc_messageCounter = 0, tc_savedCursor = None, tc_written = []\<rparr>"

definition appendEvent :: "event_record \<Rightarrow> client \<Rightarrow> (client_failure + unit) \<times> client" where
  "appendEvent e c =
     (if tc_savedCursor c = None \<or> tc_savedCursor c \<noteq> Some (er_sequence e - 1) then (Inl Sequence_mismatch, c)
      else if list_ex (\<lambda>x. er_sequence x = er_sequence e \<or> er_eventId x = er_eventId e) (tc_eventLog c)
      then (Inl Duplicate_projection_event, c)
      else (Inr (), c\<lparr>tc_eventLog := tc_eventLog c @ [e], tc_savedCursor := Some (er_sequence e)\<rparr>))"

fun append_events :: "event_record list \<Rightarrow> client \<Rightarrow> (client_failure + unit) \<times> client" where
  "append_events [] c = (Inr (), c)"
| "append_events (e # es) c =
     (case appendEvent e c of (Inl x, c') \<Rightarrow> (Inl x, c') | (Inr _, c') \<Rightarrow> append_events es c')"

definition take_snapshot :: "snapshot_body \<Rightarrow> client \<Rightarrow> (client_failure + unit) \<times> client" where
  "take_snapshot b c =
     (case validateSnapshotBody (Some (JObj (body_json (Snapshot b)))) of
        Inl e \<Rightarrow> (Inl (Client_protocol e), c)
      | Inr s \<Rightarrow>
          let c' = c\<lparr>tc_lastSnapshot := Some s\<rparr>
          in if tc_savedCursor c \<noteq> None \<and> tc_savedCursor c \<noteq> Some (sn_cursor s)
             then (Inl Snapshot_mismatch, c')
             else (Inr (), c'\<lparr>tc_savedCursor := Some (sn_cursor s)\<rparr>))"

definition take_page :: "event_page \<Rightarrow> client \<Rightarrow> (client_failure + unit) \<times> client" where
  "take_page page c =
     (if tc_savedCursor c \<noteq> Some (ep_fromCursor page) then (Inl Page_mismatch, c)
      else case append_events (ep_events page) c of
             (Inl e, c') \<Rightarrow> (Inl e, c')
           | (Inr _, c') \<Rightarrow>
               if tc_savedCursor c' \<noteq> Some (ep_toCursor page) then (Inl Page_mismatch, c') else (Inr (), c'))"

definition take_body :: "frame_body \<Rightarrow> client \<Rightarrow> (client_failure + unit) \<times> client" where
  "take_body body c =
     (case body of
        Snapshot s \<Rightarrow> take_snapshot s c
      | Event e \<Rightarrow> appendEvent e c
      | Event_page page \<Rightarrow> take_page page c
      | Presentation_update u \<Rightarrow>
          (Inr (), c\<lparr>tc_lastPresentationUpdates := tc_lastPresentationUpdates c @ [u]\<rparr>)
      | _ \<Rightarrow> (Inr (), c))"

definition client_frame :: "decoded_frame \<Rightarrow> client \<Rightarrow> (client_failure + unit) \<times> client" where
  "client_frame f c =
     (case take_body (df_body f) (c\<lparr>tc_inbox := receive_frame f (tc_inbox c)\<rparr>) of
        (Inl e, c') \<Rightarrow> (Inl e, c')
      | (Inr _, c') \<Rightarrow> (Inr (), c'\<lparr>tc_inbox := resolve_waiters f (tc_inbox c')\<rparr>))"

section \<open>Connecting\<close>

definition client_hello :: "client \<Rightarrow> int option \<Rightarrow> obj" where
  "client_hello c resumeAfter =
     [(js ''teamGoalId'', JStr (tc_teamGoalId c)), (js ''clientId'', JStr (tc_clientId c)),
      (js ''resumeAfter'', null_or JWhole resumeAfter)]"

definition client_message_id :: "client \<Rightarrow> jstr" where
  "client_message_id c = js ''projection-'' @ tc_clientId c @ js ''-'' @ digits (Suc (tc_messageCounter c))"

definition client_send :: "frame_body \<Rightarrow> client \<Rightarrow> (client_failure + unit) \<times> client" where
  "client_send body c =
     (if \<not> tc_socket c then (Inl Not_connected, c)
      else (Inr (), c\<lparr>tc_messageCounter := Suc (tc_messageCounter c),
              tc_written := tc_written c @
                [stringify (frame_json (body_type body) (client_message_id c) body) @ [10]]\<rparr>))"

definition client_wait :: "jstr \<Rightarrow> task \<Rightarrow> client \<Rightarrow> client" where
  "client_wait type k c = c\<lparr>tc_inbox := wait_for_frame type k (tc_inbox c)\<rparr>"

text \<open>\<open>connect\<close> from the established socket to its first await.\<close>

definition client_connect :: "int option \<Rightarrow> client \<Rightarrow> (client_failure + unit) \<times> client" where
  "client_connect resumeAfter c =
     (if tc_channel c \<noteq> None then (Inl Already_connected, c)
      else let c1 = c\<lparr>tc_socket := True, tc_inbox := (tc_inbox c)\<lparr>pendingFrames := []\<rparr>,
                      tc_channel := Some fresh_decoder\<rparr>
           in case validateProjectionHello (Some (JObj (client_hello c1 resumeAfter))) of
                Inl e \<Rightarrow> (Inl (Client_protocol e), c1)
              | Inr hello \<Rightarrow>
                  (case client_send (Projection_hello hello) (c1\<lparr>tc_savedCursor := resumeAfter\<rparr>) of
                     (Inl e, c2) \<Rightarrow> (Inl e, c2)
                   | (Inr _, c2) \<Rightarrow>
                       (Inr (), if resumeAfter \<noteq> None then client_wait (js ''event_page'') Page_awaited c2
                                else client_wait (js ''snapshot'') Snapshot_awaited c2)))"

text \<open>The rest of \<open>connect\<close> after each await; other callers only take the frame.\<close>

definition run_job :: "task \<Rightarrow> decoded_frame \<Rightarrow> client \<Rightarrow> client" where
  "run_job k f c =
     (case k of
        Page_awaited \<Rightarrow> client_wait (js ''snapshot'') Snapshot_awaited c
      | Snapshot_awaited \<Rightarrow>
          (case validateSnapshotBody (Some (JObj (body_json (df_body f)))) of
             Inl _ \<Rightarrow> c
           | Inr s \<Rightarrow> c\<lparr>tc_lastSnapshot := Some s, tc_savedCursor := Some (sn_cursor s)\<rparr>)
      | _ \<Rightarrow> c)"

fun task_rank :: "task \<Rightarrow> nat" where
  "task_rank Page_awaited = 2"
| "task_rank Snapshot_awaited = 1"
| "task_rank _ = 1"

definition jobs_rank :: "client \<Rightarrow> nat" where
  "jobs_rank c = sum_list (map (\<lambda>j. task_rank (fst j)) (jobs (tc_inbox c)))"

lemma wait_for_frame_jobs:
  "jobs (wait_for_frame type k b) = jobs b \<or> (\<exists>f. jobs (wait_for_frame type k b) = jobs b @ [(k, f)])"
  by (auto simp: wait_for_frame_def split: option.split)

definition drop_job :: "client \<Rightarrow> client" where
  "drop_job c = c\<lparr>tc_inbox := (tc_inbox c)\<lparr>jobs := tl (jobs (tc_inbox c))\<rparr>\<rparr>"

lemma run_job_rank:
  assumes "jobs (tc_inbox c) = (k, f) # rest"
  shows "jobs_rank (run_job k f (drop_job c)) < jobs_rank c"
  using assms wait_for_frame_jobs [of "js ''snapshot''" Snapshot_awaited "(tc_inbox c)\<lparr>jobs := rest\<rparr>"]
  by (cases k) (auto simp: jobs_rank_def run_job_def drop_job_def client_wait_def split: sum.split)

function run_jobs :: "client \<Rightarrow> client" where
  "run_jobs c =
     (case jobs (tc_inbox c) of [] \<Rightarrow> c | (k, f) # _ \<Rightarrow> run_jobs (run_job k f (drop_job c)))"
  by pat_completeness auto
termination by (relation "measure jobs_rank") (auto simp: run_job_rank)

declare run_jobs.simps [simp del]

section \<open>Data and closing\<close>

definition client_closed :: "client \<Rightarrow> client" where
  "client_closed c = c\<lparr>tc_channel := None, tc_socket := False\<rparr>"

fun client_deliver :: "decoded_frame list \<Rightarrow> client \<Rightarrow> client" where
  "client_deliver [] c = c"
| "client_deliver (f # fs) c =
     (case client_frame f c of
        (Inl _, c') \<Rightarrow> client_closed c'
      | (Inr _, c') \<Rightarrow> client_deliver fs c')"

definition client_data :: "jstr \<Rightarrow> client \<Rightarrow> client" where
  "client_data chunk c =
     (case tc_channel c of
        None \<Rightarrow> c
      | Some d \<Rightarrow>
          (case push d chunk of
             Inl _ \<Rightarrow> run_jobs (client_closed c)
           | Inr (fs, d') \<Rightarrow> run_jobs (client_deliver fs (c\<lparr>tc_channel := Some d'\<rparr>))))"

definition client_disconnect :: "client \<Rightarrow> client" where
  "client_disconnect c = c\<lparr>tc_channel := None, tc_socket := False\<rparr>"

datatype client_input =
    Connect_client "int option"
  | Client_data jstr
  | Peer_closed
  | Disconnect
  | Await_frame jstr nat
  | Waiter_timeout nat

fun client_step :: "client_input \<Rightarrow> client \<Rightarrow> client" where
  "client_step (Connect_client resumeAfter) c = run_jobs (snd (client_connect resumeAfter c))"
| "client_step (Client_data chunk) c = client_data chunk c"
| "client_step Peer_closed c = (if tc_channel c = None then c else client_closed c)"
| "client_step Disconnect c = client_disconnect c"
| "client_step (Await_frame type n) c = run_jobs (client_wait type (Caller n) c)"
| "client_step (Waiter_timeout n) c = c\<lparr>tc_inbox := waiter_timeout n (tc_inbox c)\<rparr>"

fun client_run :: "client_input list \<Rightarrow> client \<Rightarrow> client" where
  "client_run [] c = c"
| "client_run (x # xs) c = client_run xs (client_step x c)"

end
