(* ===== verification/VisibleBridge.thy ===== *)
theory VisibleBridge
  imports ThinClient
begin

text \<open>
  src/visible-bridge.ts: the client side of a role. An assignment identifier not seen before
  gives one visible turn and an \<open>accepted\<close> acknowledgement, a repeated one gives \<open>duplicate\<close>. The
  accepted identifiers and the turns outlive a connection. The inbox of waiting continuations is
  the one of \<open>ThinClient\<close>.
\<close>

record host_identity =
  hi_teamGoalId :: jstr
  hi_role :: role
  hi_agentRunId :: jstr
  hi_terminalSessionRef :: jstr
  hi_piSessionId :: jstr
  hi_extensionInstanceId :: jstr
  hi_hostPid :: int
  hi_shellRunId :: jstr

record visible_turn =
  vt_assignmentId :: jstr
  vt_prompt :: jstr
  vt_role :: role
  vt_recordedAt :: jstr

datatype bridge_failure =
    Bridge_already_connected
  | Bridge_not_connected
  | Bridge_protocol protocol_code

record bridge =
  vb_identity :: host_identity
  vb_channel :: "decoder option"
  vb_socket :: bool
  vb_inbox :: inbox
  vb_acks :: "assignment_ack list"
  vb_ackWaiters :: "(ack_status \<times> nat) list"
  vb_ackResolved :: "(nat \<times> assignment_ack) list"
  vb_turns :: "visible_turn list"
  vb_acceptedIds :: "jstr list"
  vb_lastSnapshot :: "snapshot_body option"
  vb_lastPresentationUpdate :: "presentation_update option"
  vb_messageCounter :: nat
  vb_sourceSequenceCounter :: nat
  vb_disconnected :: bool
  vb_written :: "jstr list"
  vb_clock :: "nat \<Rightarrow> jstr"

definition new_bridge :: "host_identity \<Rightarrow> (nat \<Rightarrow> jstr) \<Rightarrow> bridge" where
  "new_bridge identity ticks =
     \<lparr>vb_identity = identity, vb_channel = None, vb_socket = False, vb_inbox = empty_inbox,
      vb_acks = [], vb_ackWaiters = [], vb_ackResolved = [], vb_turns = [], vb_acceptedIds = [],
      vb_lastSnapshot = None, vb_lastPresentationUpdate = None, vb_messageCounter = 0,
      vb_sourceSequenceCounter = 0, vb_disconnected = False, vb_written = [], vb_clock = ticks\<rparr>"

section \<open>Sending\<close>

definition bridge_message_id :: "bridge \<Rightarrow> jstr" where
  "bridge_message_id b =
     js ''fake-'' @ enum_text ROLES (hi_role (vb_identity b)) @ js ''-'' @ digits (Suc (vb_messageCounter b))"

text \<open>\<open>sendFrame\<close> writes the body it is given without validating it.\<close>

definition sendFrame :: "string \<Rightarrow> obj \<Rightarrow> bridge \<Rightarrow> (bridge_failure + unit) \<times> bridge" where
  "sendFrame type body b =
     (if \<not> vb_socket b \<or> vb_disconnected b then (Inl Bridge_not_connected, b)
      else (Inr (), b\<lparr>vb_messageCounter := Suc (vb_messageCounter b),
              vb_written := vb_written b @
                [stringify (JObj [(js ''protocol'', JStr PROTOCOL_ID), (js ''type'', JStr (js type)),
                   (js ''messageId'', JStr (bridge_message_id b)), (js ''body'', JObj body)]) @ [10]]\<rparr>))"

definition sendAssignmentAcknowledgement :: "assignment_ack \<Rightarrow> bridge \<Rightarrow> (bridge_failure + unit) \<times> bridge" where
  "sendAssignmentAcknowledgement ack = sendFrame ''bridge.assignment_ack'' (assignment_ack_json ack)"

definition input_event :: "bridge \<Rightarrow> jstr \<Rightarrow> bridge_event" where
  "input_event b text =
     \<lparr>be_eventId = js ''input-'' @ hi_extensionInstanceId (vb_identity b) @ js ''-'' @
        digits (Suc (vb_sourceSequenceCounter b)),
      be_sequence = int (Suc (vb_sourceSequenceCounter b)),
      be_eventType = js ''human_input_submitted'',
      be_payload = [(js ''inputSource'', JStr (js ''interactive'')), (js ''charCount'', JWhole (int (length text)))]\<rparr>"

text \<open>The source sequence is spent even when the frame cannot be sent.\<close>

definition submitInteractiveInput :: "jstr \<Rightarrow> bridge \<Rightarrow> (bridge_failure + unit) \<times> bridge" where
  "submitInteractiveInput text b =
     sendFrame ''bridge.event'' (bridge_event_json (input_event b text))
       (b\<lparr>vb_sourceSequenceCounter := Suc (vb_sourceSequenceCounter b)\<rparr>)"

section \<open>Assignments\<close>

definition resolve_ack_waiters :: "bridge \<Rightarrow> bridge" where
  "resolve_ack_waiters b =
     (let sent = (\<lambda>s. List.find (\<lambda>a. aa_ack a = s) (vb_acks b))
      in b\<lparr>vb_ackWaiters := filter (\<lambda>w. sent (fst w) = None) (vb_ackWaiters b),
           vb_ackResolved := vb_ackResolved b @
             map (\<lambda>w. (snd w, the (sent (fst w)))) (rev (filter (\<lambda>w. sent (fst w) \<noteq> None) (vb_ackWaiters b)))\<rparr>)"

definition recordAck :: "assignment_ack \<Rightarrow> bridge \<Rightarrow> (bridge_failure + unit) \<times> bridge" where
  "recordAck ack b =
     (case sendFrame ''bridge.assignment_ack'' (assignment_ack_json ack) (b\<lparr>vb_acks := vb_acks b @ [ack]\<rparr>) of
        (Inl e, b') \<Rightarrow> (Inl e, b')
      | (Inr _, b') \<Rightarrow> (Inr (), resolve_ack_waiters b'))"

text \<open>
  The body is read untyped. An assignment frame always has both texts here, because the decoder
  validated it; the branch for a malformed body is the source's.
\<close>

definition handleAssignment :: "decoded_frame \<Rightarrow> bridge \<Rightarrow> (bridge_failure + unit) \<times> bridge" where
  "handleAssignment f b =
     (let m = body_json (df_body f)
      in case (string_of (own_prop m ''assignmentId''), string_of (own_prop m ''prompt'')) of
           (Some assignmentId, Some prompt) \<Rightarrow>
             if assignmentId \<in> set (vb_acceptedIds b)
             then recordAck \<lparr>aa_assignmentId = assignmentId, aa_ack = Duplicate\<rparr> b
             else recordAck \<lparr>aa_assignmentId = assignmentId, aa_ack = Accepted\<rparr>
               (b\<lparr>vb_acceptedIds := vb_acceptedIds b @ [assignmentId],
                  vb_turns := vb_turns b @
                    [\<lparr>vt_assignmentId = assignmentId, vt_prompt = prompt, vt_role = hi_role (vb_identity b),
                      vt_recordedAt = vb_clock b (length (vb_turns b))\<rparr>]\<rparr>)
         | _ \<Rightarrow> recordAck \<lparr>aa_assignmentId = [], aa_ack = Invalid\<rparr> b)"

definition bridge_body :: "decoded_frame \<Rightarrow> bridge \<Rightarrow> (bridge_failure + unit) \<times> bridge" where
  "bridge_body f b =
     (case df_body f of
        Snapshot s \<Rightarrow>
          (case validateSnapshotBody (Some (JObj (body_json (Snapshot s)))) of
             Inl e \<Rightarrow> (Inl (Bridge_protocol e), b)
           | Inr s' \<Rightarrow> (Inr (), b\<lparr>vb_lastSnapshot := Some s'\<rparr>))
      | Presentation_update u \<Rightarrow> (Inr (), b\<lparr>vb_lastPresentationUpdate := Some u\<rparr>)
      | Assignment _ \<Rightarrow> handleAssignment f b
      | _ \<Rightarrow> (Inr (), b))"

definition bridge_frame :: "decoded_frame \<Rightarrow> bridge \<Rightarrow> (bridge_failure + unit) \<times> bridge" where
  "bridge_frame f b =
     (case bridge_body f (b\<lparr>vb_inbox := receive_frame f (vb_inbox b)\<rparr>) of
        (Inl e, b') \<Rightarrow> (Inl e, b')
      | (Inr _, b') \<Rightarrow> (Inr (), b'\<lparr>vb_inbox := resolve_waiters f (vb_inbox b')\<rparr>))"

section \<open>Connecting\<close>

definition bridge_hello_value :: "host_identity \<Rightarrow> obj" where
  "bridge_hello_value h =
     [(js ''teamGoalId'', JStr (hi_teamGoalId h)), (js ''role'', JEnum ROLES (hi_role h)),
      (js ''agentRunId'', JStr (hi_agentRunId h)), (js ''terminalSessionRef'', JStr (hi_terminalSessionRef h)),
      (js ''piSessionId'', JStr (hi_piSessionId h)), (js ''extensionInstanceId'', JStr (hi_extensionInstanceId h)),
      (js ''hostPid'', JWhole (hi_hostPid h)), (js ''hostMode'', JStr (js ''tui'')),
      (js ''shellRunId'', JStr (hi_shellRunId h))]"

definition bridge_wait :: "jstr \<Rightarrow> task \<Rightarrow> bridge \<Rightarrow> bridge" where
  "bridge_wait type k b = b\<lparr>vb_inbox := wait_for_frame type k (vb_inbox b)\<rparr>"

definition bridge_connect :: "bridge \<Rightarrow> (bridge_failure + unit) \<times> bridge" where
  "bridge_connect b =
     (if vb_channel b \<noteq> None then (Inl Bridge_already_connected, b)
      else let b1 = b\<lparr>vb_socket := True, vb_disconnected := False,
                      vb_inbox := (vb_inbox b)\<lparr>pendingFrames := []\<rparr>, vb_channel := Some fresh_decoder\<rparr>
           in case validateBridgeHello (Some (JObj (bridge_hello_value (vb_identity b)))) of
                Inl e \<Rightarrow> (Inl (Bridge_protocol e), b1)
              | Inr hello \<Rightarrow>
                  (case sendFrame ''bridge.hello'' (bridge_hello_json hello) b1 of
                     (Inl e, b2) \<Rightarrow> (Inl e, b2)
                   | (Inr _, b2) \<Rightarrow> (Inr (), bridge_wait (js ''hello_ack'') Hello_awaited b2)))"

definition run_bridge_job :: "task \<Rightarrow> decoded_frame \<Rightarrow> bridge \<Rightarrow> bridge" where
  "run_bridge_job k f b =
     (case k of
        Hello_awaited \<Rightarrow> bridge_wait (js ''snapshot'') Snapshot_awaited b
      | Snapshot_awaited \<Rightarrow>
          (case validateSnapshotBody (Some (JObj (body_json (df_body f)))) of
             Inl _ \<Rightarrow> b
           | Inr s \<Rightarrow> bridge_wait (js ''presentation_update'') Update_awaited (b\<lparr>vb_lastSnapshot := Some s\<rparr>))
      | Update_awaited \<Rightarrow>
          (case df_body f of
             Presentation_update u \<Rightarrow> b\<lparr>vb_lastPresentationUpdate := Some u\<rparr>
           | _ \<Rightarrow> b)
      | _ \<Rightarrow> b)"

fun bridge_task_rank :: "task \<Rightarrow> nat" where
  "bridge_task_rank Hello_awaited = 3"
| "bridge_task_rank Snapshot_awaited = 2"
| "bridge_task_rank _ = 1"

definition bridge_jobs_rank :: "bridge \<Rightarrow> nat" where
  "bridge_jobs_rank b = sum_list (map (\<lambda>j. bridge_task_rank (fst j)) (jobs (vb_inbox b)))"

definition drop_bridge_job :: "bridge \<Rightarrow> bridge" where
  "drop_bridge_job b = b\<lparr>vb_inbox := (vb_inbox b)\<lparr>jobs := tl (jobs (vb_inbox b))\<rparr>\<rparr>"

lemma run_bridge_job_rank:
  assumes "jobs (vb_inbox b) = (k, f) # rest"
  shows "bridge_jobs_rank (run_bridge_job k f (drop_bridge_job b)) < bridge_jobs_rank b"
  using assms wait_for_frame_jobs [of "js ''snapshot''" Snapshot_awaited "(vb_inbox b)\<lparr>jobs := rest\<rparr>"]
    wait_for_frame_jobs [of "js ''presentation_update''" Update_awaited "(vb_inbox b)\<lparr>jobs := rest\<rparr>"]
  by (cases k) (auto simp: bridge_jobs_rank_def run_bridge_job_def drop_bridge_job_def bridge_wait_def
      split: sum.split frame_body.split)

function run_bridge_jobs :: "bridge \<Rightarrow> bridge" where
  "run_bridge_jobs b =
     (case jobs (vb_inbox b) of [] \<Rightarrow> b | (k, f) # _ \<Rightarrow> run_bridge_jobs (run_bridge_job k f (drop_bridge_job b)))"
  by pat_completeness auto
termination by (relation "measure bridge_jobs_rank") (auto simp: run_bridge_job_rank)

declare run_bridge_jobs.simps [simp del]

section \<open>Data and closing\<close>

text \<open>
  \<open>onDisconnect\<close>: an unexpected failure is recorded as a received frame that no decoder
  produced; a close without an error records nothing.
\<close>

definition local_error :: "bridge \<Rightarrow> jstr \<Rightarrow> decoded_frame" where
  "local_error b detail =
     \<lparr>df_type = js ''protocol_error'',
      df_messageId = js ''local-disconnect-'' @ digits (Suc (vb_messageCounter b)),
      df_body = Protocol_error \<lparr>eb_code = js ''disconnected'', eb_detail = detail\<rparr>\<rparr>"

definition onDisconnect :: "jstr option \<Rightarrow> bridge \<Rightarrow> bridge" where
  "onDisconnect error b =
     (let b1 = b\<lparr>vb_channel := None, vb_socket := False\<rparr>
      in case error of
           None \<Rightarrow> b1
         | Some detail \<Rightarrow>
             if vb_disconnected b then b1
             else b1\<lparr>vb_inbox := (vb_inbox b1)\<lparr>receivedFrames := receivedFrames (vb_inbox b1) @ [local_error b detail]\<rparr>,
                     vb_messageCounter := Suc (vb_messageCounter b)\<rparr>)"

fun bridge_deliver :: "(bridge_failure \<Rightarrow> jstr) \<Rightarrow> decoded_frame list \<Rightarrow> bridge \<Rightarrow> bridge" where
  "bridge_deliver message [] b = b"
| "bridge_deliver message (f # fs) b =
     (case bridge_frame f b of
        (Inl e, b') \<Rightarrow> onDisconnect (Some (message e)) b'
      | (Inr _, b') \<Rightarrow> bridge_deliver message fs b')"

definition bridge_data :: "(bridge_failure \<Rightarrow> jstr) \<Rightarrow> jstr \<Rightarrow> bridge \<Rightarrow> bridge" where
  "bridge_data message chunk b =
     (case vb_channel b of
        None \<Rightarrow> b
      | Some d \<Rightarrow>
          (case push d chunk of
             Inl e \<Rightarrow> run_bridge_jobs (onDisconnect (Some (message (Bridge_protocol e))) b)
           | Inr (fs, d') \<Rightarrow> run_bridge_jobs (bridge_deliver message fs (b\<lparr>vb_channel := Some d'\<rparr>))))"

definition bridge_disconnect :: "bridge \<Rightarrow> bridge" where
  "bridge_disconnect b = b\<lparr>vb_disconnected := True, vb_channel := None, vb_socket := False\<rparr>"

definition waitForAck :: "ack_status \<Rightarrow> nat \<Rightarrow> bridge \<Rightarrow> bridge" where
  "waitForAck status n b =
     (case List.find (\<lambda>a. aa_ack a = status) (vb_acks b) of
        Some ack \<Rightarrow> b\<lparr>vb_ackResolved := vb_ackResolved b @ [(n, ack)]\<rparr>
      | None \<Rightarrow> b\<lparr>vb_ackWaiters := vb_ackWaiters b @ [(status, n)]\<rparr>)"

datatype bridge_input =
    Connect_bridge
  | Bridge_data jstr
  | Bridge_peer_closed "jstr option"
  | Disconnect_bridge
  | Submit_input jstr
  | Send_ack assignment_ack
  | Await_bridge_frame jstr nat
  | Await_ack ack_status nat
  | Ack_timeout nat
  | Bridge_waiter_timeout nat

fun bridge_step :: "(bridge_failure \<Rightarrow> jstr) \<Rightarrow> bridge_input \<Rightarrow> bridge \<Rightarrow> bridge" where
  "bridge_step message Connect_bridge b = run_bridge_jobs (snd (bridge_connect b))"
| "bridge_step message (Bridge_data chunk) b = bridge_data message chunk b"
| "bridge_step message (Bridge_peer_closed e) b = (if vb_channel b = None then b else onDisconnect e b)"
| "bridge_step message Disconnect_bridge b = bridge_disconnect b"
| "bridge_step message (Submit_input text) b = snd (submitInteractiveInput text b)"
| "bridge_step message (Send_ack ack) b = snd (sendAssignmentAcknowledgement ack b)"
| "bridge_step message (Await_bridge_frame type n) b = run_bridge_jobs (bridge_wait type (Caller n) b)"
| "bridge_step message (Await_ack status n) b = waitForAck status n b"
| "bridge_step message (Ack_timeout n) b = b\<lparr>vb_ackWaiters := filter (\<lambda>w. snd w \<noteq> n) (vb_ackWaiters b)\<rparr>"
| "bridge_step message (Bridge_waiter_timeout n) b = b\<lparr>vb_inbox := waiter_timeout n (vb_inbox b)\<rparr>"

fun bridge_run :: "(bridge_failure \<Rightarrow> jstr) \<Rightarrow> bridge_input list \<Rightarrow> bridge \<Rightarrow> bridge" where
  "bridge_run message [] b = b"
| "bridge_run message (x # xs) b = bridge_run message xs (bridge_step message x b)"

section \<open>One visible turn for each assignment\<close>

definition turns_ok :: "bridge \<Rightarrow> bool" where
  "turns_ok b \<longleftrightarrow>
     distinct (vb_acceptedIds b) \<and> map vt_assignmentId (vb_turns b) = vb_acceptedIds b \<and>
     map aa_assignmentId (filter (\<lambda>a. aa_ack a = Accepted) (vb_acks b)) = vb_acceptedIds b"

lemma turns_frame [simp]:
  "turns_ok (b\<lparr>vb_inbox := i\<rparr>) = turns_ok b" "turns_ok (b\<lparr>vb_channel := c\<rparr>) = turns_ok b"
  "turns_ok (b\<lparr>vb_socket := s\<rparr>) = turns_ok b" "turns_ok (b\<lparr>vb_disconnected := d\<rparr>) = turns_ok b"
  "turns_ok (b\<lparr>vb_messageCounter := n\<rparr>) = turns_ok b" "turns_ok (b\<lparr>vb_written := w\<rparr>) = turns_ok b"
  "turns_ok (b\<lparr>vb_lastSnapshot := sn\<rparr>) = turns_ok b" "turns_ok (b\<lparr>vb_lastPresentationUpdate := u\<rparr>) = turns_ok b"
  "turns_ok (b\<lparr>vb_ackWaiters := aw\<rparr>) = turns_ok b" "turns_ok (b\<lparr>vb_ackResolved := ar\<rparr>) = turns_ok b"
  "turns_ok (b\<lparr>vb_sourceSequenceCounter := m\<rparr>) = turns_ok b"
  by (simp_all add: turns_ok_def)

lemma turns_send [simp]: "turns_ok (snd (sendFrame type body b)) = turns_ok b"
  by (simp add: sendFrame_def)

lemma turns_recordAck [simp]: "turns_ok (snd (recordAck ack b)) = turns_ok (b\<lparr>vb_acks := vb_acks b @ [ack]\<rparr>)"
proof -
  have "turns_ok (resolve_ack_waiters b') = turns_ok b'" for b' by (simp add: resolve_ack_waiters_def Let_def)
  then show ?thesis by (simp add: recordAck_def sendFrame_def)
qed

lemma turns_assignment: "turns_ok b \<Longrightarrow> turns_ok (snd (handleAssignment f b))"
  by (simp add: handleAssignment_def Let_def split: option.split) (auto simp: turns_ok_def)

lemma turns_body: "turns_ok b \<Longrightarrow> turns_ok (snd (bridge_body f b))"
  by (auto simp: bridge_body_def turns_assignment split: frame_body.split sum.split)

lemma turns_bridge_frame: "turns_ok b \<Longrightarrow> turns_ok (snd (bridge_frame f b))"
  using turns_body [of "b\<lparr>vb_inbox := receive_frame f (vb_inbox b)\<rparr>" f]
  by (auto simp: bridge_frame_def split: prod.split sum.split)

lemma turns_disconnect [simp]: "turns_ok (onDisconnect e b) = turns_ok b"
  by (simp add: onDisconnect_def Let_def split: option.split)

lemma turns_deliver: "turns_ok b \<Longrightarrow> turns_ok (bridge_deliver message fs b)"
proof (induction fs arbitrary: b)
  case (Cons f fs)
  then show ?case using turns_bridge_frame [of b f] by (auto split: prod.split sum.split)
qed simp

lemma turns_jobs [simp]: "turns_ok (run_bridge_jobs b) = turns_ok b"
proof (induction b rule: run_bridge_jobs.induct)
  case (1 b)
  have j: "turns_ok (run_bridge_job k f (drop_bridge_job b)) = turns_ok b" for k f
    by (simp add: run_bridge_job_def drop_bridge_job_def bridge_wait_def split: task.split sum.split frame_body.split)
  show ?case
  proof (cases "jobs (vb_inbox b)")
    case Nil
    then show ?thesis by (subst run_bridge_jobs.simps) simp
  next
    case (Cons j rest)
    then show ?thesis using "1.IH" [OF Cons]
      by (subst run_bridge_jobs.simps) (auto simp: j split: prod.split)
  qed
qed

lemma turns_connect: "turns_ok b \<Longrightarrow> turns_ok (snd (bridge_connect b))"
proof -
  assume b: "turns_ok b"
  have "turns_ok (snd (sendFrame t m b1))" if "turns_ok b1" for t m b1 using that by simp
  with b show ?thesis
    by (auto simp: bridge_connect_def Let_def bridge_wait_def sendFrame_def split: sum.split prod.split)
qed

lemma turns_step: "turns_ok b \<Longrightarrow> turns_ok (bridge_step message x b)"
  by (cases x)
     (auto simp: turns_connect bridge_data_def turns_deliver bridge_disconnect_def submitInteractiveInput_def
        sendAssignmentAcknowledgement_def bridge_wait_def waitForAck_def split: option.split sum.split)

lemma turns_run: "turns_ok b \<Longrightarrow> turns_ok (bridge_run message xs b)"
  by (induction xs arbitrary: b) (simp_all add: turns_step)

text \<open>
  C20. Exactly one visible turn for each accepted assignment: whatever frames the runner sends,
  replayed or repeated, and however often the bridge disconnects and connects again, the turns
  taken are those of the accepted identifiers, without repetition, and each was acknowledged as
  accepted once.
\<close>

theorem one_turn_per_assignment:
  "let b = bridge_run message xs (new_bridge identity ticks)
   in distinct (map vt_assignmentId (vb_turns b)) \<and>
      map vt_assignmentId (vb_turns b) = vb_acceptedIds b \<and>
      map aa_assignmentId (filter (\<lambda>a. aa_ack a = Accepted) (vb_acks b)) = vb_acceptedIds b"
  using turns_run [of "new_bridge identity ticks" message xs]
  by (simp add: turns_ok_def Let_def new_bridge_def)

end
