(* ===== verification/Projection.thy ===== *)
theory Projection
  imports RunnerLog
begin

text \<open>
  console/projection-core.ts: the state of the Agent Console. It takes unvalidated values,
  validates them itself, follows the event sequence by one and shows labels only as a snapshot
  gave them. A call that throws may still have changed the state (to \<open>Gap\<close>), so every
  operation returns the result and the new state.
\<close>

datatype projection_status = Ready | Reconnecting | Gap

record console_card =
  cc_role :: role
  cc_agentRunId :: jstr
  cc_piStatus :: jstr

record handoff =
  ho_status :: projection_status
  ho_cursor :: int
  ho_cards :: "console_card list"

datatype projection_failure =
    Has_snapshot
  | Needs_snapshot
  | Rejected protocol_code
  | Stale_event int int
  | Event_gap int int
  | Duplicate_identity jstr
  | Gap_needs_recovery
  | Nothing_to_resnapshot
  | Wrong_team_goal
  | Stale_identity role
  | Resnapshot_cursor int int
  | Recovery_not_in_gap
  | Snapshot_too_old int int
  | Missing_role role

datatype fault_report = Failed projection_failure | Reported jstr

record projection =
  pj_current :: "handoff option"
  pj_teamGoalId :: "jstr option"
  pj_identities :: "(role \<times> jstr) list"
  pj_eventIds :: "jstr list"
  pj_fault :: "fault_report option"

definition new_projection :: projection where
  "new_projection =
     \<lparr>pj_current = None, pj_teamGoalId = None, pj_identities = [], pj_eventIds = [], pj_fault = None\<rparr>"

type_synonym 'a pj = "projection \<Rightarrow> (projection_failure + 'a) \<times> projection"

definition identitiesFrom :: "snapshot_body \<Rightarrow> (role \<times> jstr) list" where
  "identitiesFrom v = fold (\<lambda>e. assoc_put (rp_role e) (rp_agentRunId e)) (sn_roles v) []"

definition role_entry :: "snapshot_body \<Rightarrow> role \<Rightarrow> role_projection option" where
  "role_entry v r = List.find (\<lambda>e. rp_role e = r) (sn_roles v)"

definition card_of :: "role_projection \<Rightarrow> console_card" where
  "card_of e = \<lparr>cc_role = rp_role e, cc_agentRunId = rp_agentRunId e, cc_piStatus = rp_piStatus e\<rparr>"

definition role_card :: "snapshot_body \<Rightarrow> role \<Rightarrow> projection_failure + console_card" where
  "role_card v r = (case role_entry v r of None \<Rightarrow> Inl (Missing_role r) | Some e \<Rightarrow> Inr (card_of e))"

definition handoffFrom :: "snapshot_body \<Rightarrow> projection_status \<Rightarrow> projection_failure + handoff" where
  "handoffFrom v status =
     andThen (mapR (role_card v) (map snd ROLES)) (\<lambda>cards.
     Inr \<lparr>ho_status = status, ho_cursor = sn_cursor v, ho_cards = cards\<rparr>)"

definition rejected :: "(protocol_code + 'a) \<Rightarrow> projection_failure + 'a" where
  "rejected m = (case m of Inl e \<Rightarrow> Inl (Rejected e) | Inr x \<Rightarrow> Inr x)"

text \<open>\<open>fail\<close>: the session falls into the gap state, and the error is thrown.\<close>

definition fail_projection :: "projection_failure \<Rightarrow> 'a pj" where
  "fail_projection e p =
     (Inl e, case pj_current p of
        None \<Rightarrow> p
      | Some h \<Rightarrow> p\<lparr>pj_fault := Some (Failed e), pj_current := Some (h\<lparr>ho_status := Gap\<rparr>)\<rparr>)"

definition initialize :: "json option \<Rightarrow> handoff pj" where
  "initialize input p =
     (if pj_current p \<noteq> None then (Inl Has_snapshot, p)
      else case validateSnapshotBody input of
             Inl e \<Rightarrow> (Inl (Rejected e), p)
           | Inr v \<Rightarrow>
               let p1 = p\<lparr>pj_teamGoalId := Some (tg_id (sn_teamGoal v)), pj_identities := identitiesFrom v,
                          pj_eventIds := [], pj_fault := None\<rparr>
               in case handoffFrom v Ready of
                    Inl e \<Rightarrow> (Inl e, p1)
                  | Inr h \<Rightarrow> (Inr h, p1\<lparr>pj_current := Some h\<rparr>))"

definition acceptEvent :: "json option \<Rightarrow> handoff pj" where
  "acceptEvent input p =
     (case pj_current p of
        None \<Rightarrow> (Inl Needs_snapshot, p)
      | Some h \<Rightarrow>
          (case validateEventRecord input of
             Inl e \<Rightarrow> fail_projection (Rejected e) p
           | Inr v \<Rightarrow>
               if er_sequence v \<le> ho_cursor h then fail_projection (Stale_event (er_sequence v) (ho_cursor h)) p
               else if er_sequence v \<noteq> ho_cursor h + 1
               then fail_projection (Event_gap (er_sequence v) (ho_cursor h + 1)) p
               else if er_eventId v \<in> set (pj_eventIds p)
               then fail_projection (Duplicate_identity (er_eventId v)) p
               else let h' = h\<lparr>ho_status := Reconnecting, ho_cursor := er_sequence v\<rparr>
                    in (Inr h', p\<lparr>pj_eventIds := pj_eventIds p @ [er_eventId v], pj_fault := None,
                                 pj_current := Some h'\<rparr>)))"

definition role_mismatch :: "snapshot_body \<Rightarrow> projection \<Rightarrow> role \<Rightarrow> bool" where
  "role_mismatch v p r =
     (case (role_entry v r, map_of (pj_identities p) r) of
        (Some e, Some expected) \<Rightarrow> rp_agentRunId e \<noteq> expected
      | _ \<Rightarrow> True)"

definition assertIdentityBaseline :: "snapshot_body \<Rightarrow> projection \<Rightarrow> projection_failure + unit" where
  "assertIdentityBaseline v p =
     (if Some (tg_id (sn_teamGoal v)) \<noteq> pj_teamGoalId p then Inl Wrong_team_goal
      else case List.find (role_mismatch v p) (map snd ROLES) of
             Some r \<Rightarrow> Inl (Stale_identity r)
           | None \<Rightarrow> Inr ())"

definition checked_snapshot ::
    "json option \<Rightarrow> projection \<Rightarrow> (int \<Rightarrow> projection_failure + unit) \<Rightarrow> projection_failure + snapshot_body" where
  "checked_snapshot input p cursor_check =
     andThen (rejected (validateSnapshotBody input)) (\<lambda>v.
     andThen (assertIdentityBaseline v p) (\<lambda>_.
     andThen (cursor_check (sn_cursor v)) (\<lambda>_. Inr v)))"

definition resnapshot :: "json option \<Rightarrow> handoff pj" where
  "resnapshot input p =
     (case pj_current p of
        None \<Rightarrow> (Inl Needs_snapshot, p)
      | Some h \<Rightarrow>
          if ho_status h = Gap then (Inl Gap_needs_recovery, p)
          else if ho_status h \<noteq> Reconnecting then (Inl Nothing_to_resnapshot, p)
          else case checked_snapshot input p
                 (\<lambda>n. guardR (n = ho_cursor h) (Resnapshot_cursor n (ho_cursor h))) of
                 Inl e \<Rightarrow> fail_projection e p
               | Inr v \<Rightarrow>
                   let p1 = p\<lparr>pj_fault := None\<rparr>
                   in case handoffFrom v Ready of
                        Inl e \<Rightarrow> (Inl e, p1)
                      | Inr h' \<Rightarrow> (Inr h', p1\<lparr>pj_current := Some h'\<rparr>))"

definition clearState :: "projection \<Rightarrow> projection" where
  "clearState p =
     p\<lparr>pj_current := None, pj_teamGoalId := None, pj_identities := [], pj_eventIds := [], pj_fault := None\<rparr>"

text \<open>\<open>String.prototype.trim\<close>: white space and line terminators of the language.\<close>

definition js_white :: "nat \<Rightarrow> bool" where
  "js_white c \<longleftrightarrow> c \<in> {9, 10, 11, 12, 13, 32, 160, 5760, 8232, 8233, 8239, 8287, 12288, 65279} \<or>
     8192 \<le> c \<and> c \<le> 8202"

definition trim :: "jstr \<Rightarrow> jstr" where
  "trim s = rev (dropWhile js_white (rev (dropWhile js_white s)))"

definition markGap :: "jstr \<Rightarrow> handoff pj" where
  "markGap reason p =
     (case pj_current p of
        None \<Rightarrow> (Inl Needs_snapshot, p)
      | Some h \<Rightarrow>
          let detail = trim reason; h' = h\<lparr>ho_status := Gap\<rparr>
          in (Inr h', p\<lparr>pj_fault := Some (Reported (if detail = [] then js ''projection history gap'' else detail)),
                        pj_current := Some h'\<rparr>))"

definition recover :: "json option \<Rightarrow> handoff pj" where
  "recover input p =
     (case pj_current p of
        None \<Rightarrow> (Inl Needs_snapshot, p)
      | Some h \<Rightarrow>
          if ho_status h \<noteq> Gap then (Inl Recovery_not_in_gap, p)
          else case checked_snapshot input p
                 (\<lambda>n. guardR (ho_cursor h \<le> n) (Snapshot_too_old n (ho_cursor h))) of
                 Inl e \<Rightarrow> fail_projection e p
               | Inr v \<Rightarrow>
                   let p1 = p\<lparr>pj_eventIds := [], pj_fault := None\<rparr>
                   in case handoffFrom v Ready of
                        Inl e \<Rightarrow> (Inl e, p1)
                      | Inr h' \<Rightarrow> (Inr h', p1\<lparr>pj_current := Some h'\<rparr>))"

datatype projection_op =
    Initialize "json option"
  | Accept_event "json option"
  | Resnapshot "json option"
  | Clear
  | Mark_gap jstr
  | Recover "json option"

fun projection_step :: "projection_op \<Rightarrow> projection \<Rightarrow> projection" where
  "projection_step (Initialize v) p = snd (initialize v p)"
| "projection_step (Accept_event v) p = snd (acceptEvent v p)"
| "projection_step (Resnapshot v) p = snd (resnapshot v p)"
| "projection_step Clear p = clearState p"
| "projection_step (Mark_gap reason) p = snd (markGap reason p)"
| "projection_step (Recover v) p = snd (recover v p)"

fun projection_run :: "projection_op list \<Rightarrow> projection \<Rightarrow> projection" where
  "projection_run [] p = p"
| "projection_run (x # xs) p = projection_run xs (projection_step x p)"

section \<open>Snapshots that passed validation\<close>

lemma valid_roles:
  assumes "validateSnapshotBody input = Inr v"
  shows "\<exists>e. role_entry v r = Some e" "distinct (map rp_role (sn_roles v))"
proof -
  have ok: "snapshot_ok v" by (rule snapshot_sound [OF assms])
  have u: "length (remdups (map rp_role (sn_roles v))) = 3" "length (sn_roles v) = 3"
    using ok by (auto simp: snapshot_ok_def roles_unique_def ROLES_def)
  then have "length (remdups (map rp_role (sn_roles v))) = length (map rp_role (sn_roles v))" by simp
  then show d: "distinct (map rp_role (sn_roles v))" by (metis length_remdups_eq remdups_id_iff_distinct)
  have "card (set (map rp_role (sn_roles v))) = card {Coordinator, Builder, Reviewer}"
    using distinct_card [OF d] u by simp
  moreover have "set (map rp_role (sn_roles v)) \<subseteq> {Coordinator, Builder, Reviewer}" by (auto intro: role.exhaust)
  ultimately have "set (map rp_role (sn_roles v)) = {Coordinator, Builder, Reviewer}"
    by (intro card_subset_eq) auto
  then have "r \<in> set (map rp_role (sn_roles v))" by (cases r) auto
  then show "\<exists>e. role_entry v r = Some e"
    by (auto simp: role_entry_def find_None_iff simp flip: not_None_eq)
qed

definition snapshot_card :: "snapshot_body \<Rightarrow> role \<Rightarrow> console_card" where
  "snapshot_card v r = card_of (the (role_entry v r))"

definition snapshot_cards :: "snapshot_body \<Rightarrow> console_card list" where
  "snapshot_cards v = map (snapshot_card v) [Coordinator, Builder, Reviewer]"

lemma handoffFrom_valid:
  assumes "validateSnapshotBody input = Inr v"
  shows "handoffFrom v s = Inr \<lparr>ho_status = s, ho_cursor = sn_cursor v, ho_cards = snapshot_cards v\<rparr>"
proof -
  have r: "role_card v r = Inr (snapshot_card v r)" for r
    using valid_roles(1) [OF assms, of r] by (auto simp: role_card_def snapshot_card_def)
  show ?thesis by (simp add: handoffFrom_def ROLES_def r andThen_def snapshot_cards_def)
qed

lemma identitiesFrom_map:
  assumes "distinct (map rp_role (sn_roles v))" "role_entry v r = Some e"
  shows "map_of (identitiesFrom v) r = Some (rp_agentRunId e)"
proof -
  have fold: "map_of (fold (\<lambda>e. assoc_put (rp_role e) (rp_agentRunId e)) rs acc) r =
      (case List.find (\<lambda>e. rp_role e = r) rs of Some e \<Rightarrow> Some (rp_agentRunId e) | None \<Rightarrow> map_of acc r)"
    if "distinct (map rp_role rs)" for rs acc
    using that
  proof (induction rs arbitrary: acc)
    case (Cons x xs)
    have "List.find (\<lambda>e. rp_role e = r) xs = None" if "rp_role x = r"
      using that Cons.prems by (auto simp: find_None_iff image_iff)
    then show ?case using Cons by (auto split: option.split)
  qed simp
  show ?thesis using fold [OF assms(1), of "[]"] assms(2) by (simp add: identitiesFrom_def role_entry_def)
qed

lemma role_entry_role: "role_entry v r = Some e \<Longrightarrow> rp_role e = r"
  by (auto simp: role_entry_def find_Some_iff)

section \<open>The console as an abstract machine\<close>

type_synonym console = "handoff option \<times> jstr option"

definition console_view :: "projection \<Rightarrow> console" where
  "console_view p = (pj_current p, pj_teamGoalId p)"

definition shown :: "snapshot_body \<Rightarrow> handoff" where
  "shown v = \<lparr>ho_status = Ready, ho_cursor = sn_cursor v, ho_cards = snapshot_cards v\<rparr>"

text \<open>
  What a console may do: show a first snapshot; count one event and keep the cards; replace the
  cards by those of a snapshot of the same team at the cursor it reached (or, after a gap, at a
  later one); mark a gap; forget everything.
\<close>

inductive console_step :: "console \<Rightarrow> console \<Rightarrow> bool" where
  first_snapshot: "snapshot_ok v \<Longrightarrow>
     console_step (None, g) (Some (shown v), Some (tg_id (sn_teamGoal v)))"
| counted: "console_step (Some h, g) (Some (h\<lparr>ho_status := Reconnecting, ho_cursor := ho_cursor h + 1\<rparr>), g)"
| refreshed: "snapshot_ok v \<Longrightarrow> g = Some (tg_id (sn_teamGoal v)) \<Longrightarrow>
     map cc_agentRunId (snapshot_cards v) = map cc_agentRunId (ho_cards h) \<Longrightarrow>
     (ho_status h = Reconnecting \<and> sn_cursor v = ho_cursor h) \<or> (ho_status h = Gap \<and> ho_cursor h \<le> sn_cursor v) \<Longrightarrow>
     console_step (Some h, g) (Some (shown v), g)"
| gap: "console_step (Some h, g) (Some (h\<lparr>ho_status := Gap\<rparr>), g)"
| forgotten: "console_step c (None, None)"

definition projection_ok :: "projection \<Rightarrow> bool" where
  "projection_ok p \<longleftrightarrow>
     (case pj_current p of None \<Rightarrow> True
      | Some h \<Rightarrow> map cc_role (ho_cards h) = [Coordinator, Builder, Reviewer] \<and>
          list_all (\<lambda>c. map_of (pj_identities p) (cc_role c) = Some (cc_agentRunId c)) (ho_cards h))"

lemma snapshot_card_role: "validateSnapshotBody input = Inr v \<Longrightarrow> cc_role (snapshot_card v r) = r"
  using valid_roles(1) [of input v r] by (auto simp: snapshot_card_def card_of_def dest: role_entry_role)

lemma projection_ok_shown:
  assumes "validateSnapshotBody input = Inr v" "pj_current p = Some (shown v)" "pj_identities p = identitiesFrom v"
  shows "projection_ok p"
proof -
  have "map_of (identitiesFrom v) r = Some (cc_agentRunId (snapshot_card v r))" for r
  proof -
    obtain e where e: "role_entry v r = Some e" using valid_roles(1) [OF assms(1)] by blast
    then show ?thesis
      using identitiesFrom_map [OF valid_roles(2) [OF assms(1)] e] by (simp add: snapshot_card_def card_of_def)
  qed
  then show ?thesis
    using assms snapshot_card_role [OF assms(1)]
    by (simp add: projection_ok_def shown_def snapshot_cards_def)
qed

lemma baseline_cards:
  assumes v: "validateSnapshotBody input = Inr v" and b: "assertIdentityBaseline v p = Inr ()"
    and p: "projection_ok p" "pj_current p = Some h"
  shows "pj_teamGoalId p = Some (tg_id (sn_teamGoal v))"
    and "map cc_agentRunId (snapshot_cards v) = map cc_agentRunId (ho_cards h)"
    and "list_all (\<lambda>c. map_of (pj_identities p) (cc_role c) = Some (cc_agentRunId c)) (snapshot_cards v)"
proof -
  show "pj_teamGoalId p = Some (tg_id (sn_teamGoal v))"
    using b by (auto simp: assertIdentityBaseline_def split: if_splits)
  have m: "\<not> role_mismatch v p r" for r
    using b by (cases r) (auto simp: assertIdentityBaseline_def ROLES_def find_None_iff split: if_splits option.splits)
  have i: "map_of (pj_identities p) r = Some (cc_agentRunId (snapshot_card v r))" for r
    using m [of r] by (auto simp: role_mismatch_def snapshot_card_def card_of_def split: option.splits)
  show "list_all (\<lambda>c. map_of (pj_identities p) (cc_role c) = Some (cc_agentRunId c)) (snapshot_cards v)"
    using i snapshot_card_role [OF v] by (simp add: snapshot_cards_def)
  obtain c1 c2 c3 where "ho_cards h = [c1, c2, c3]" "cc_role c1 = Coordinator" "cc_role c2 = Builder" "cc_role c3 = Reviewer"
    using p by (auto simp: projection_ok_def map_eq_Cons_conv)
  then show "map cc_agentRunId (snapshot_cards v) = map cc_agentRunId (ho_cards h)"
    using p i by (auto simp: projection_ok_def snapshot_cards_def)
qed

lemma checked_snapshot_iff:
  "checked_snapshot input p check = Inr v \<longleftrightarrow>
     validateSnapshotBody input = Inr v \<and> assertIdentityBaseline v p = Inr () \<and> check (sn_cursor v) = Inr ()"
  by (auto simp: checked_snapshot_def rejected_def andThen_Inr_iff split: sum.splits)

definition console_moves :: "projection \<Rightarrow> projection \<Rightarrow> bool" where
  "console_moves p p' \<longleftrightarrow>
     projection_ok p' \<and> (console_view p' = console_view p \<or> console_step (console_view p) (console_view p'))"

lemma moves_gap: "projection_ok p \<Longrightarrow> console_moves p (snd (fail_projection e p))"
  by (cases "pj_current p")
     (auto simp: console_moves_def fail_projection_def console_view_def projection_ok_def intro: console_step.gap)

lemma moves_refresh:
  assumes p: "projection_ok p" "pj_current p = Some h"
    and v: "checked_snapshot input p check = Inr v"
    and c: "check (sn_cursor v) = Inr () \<Longrightarrow>
      (ho_status h = Reconnecting \<and> sn_cursor v = ho_cursor h) \<or> (ho_status h = Gap \<and> ho_cursor h \<le> sn_cursor v)"
    and p': "pj_current p' = Some (shown v)" "pj_teamGoalId p' = pj_teamGoalId p" "pj_identities p' = pj_identities p"
  shows "console_moves p p'"
proof -
  have w: "validateSnapshotBody input = Inr v" "assertIdentityBaseline v p = Inr ()" "check (sn_cursor v) = Inr ()"
    using v by (simp_all add: checked_snapshot_iff)
  note b = baseline_cards [OF w(1,2) p]
  have "projection_ok p'"
    using p' b(3) snapshot_card_role [OF w(1)] by (simp add: projection_ok_def shown_def snapshot_cards_def)
  moreover have "console_step (console_view p) (console_view p')"
    using console_step.refreshed [OF snapshot_sound [OF w(1)] b(1) b(2) c [OF w(3)]] p p'
    by (simp add: console_view_def b(1))
  ultimately show ?thesis by (simp add: console_moves_def)
qed

lemma moves_checked:
  assumes p: "projection_ok p" "pj_current p = Some h"
    and c: "\<And>n. check n = Inr () \<Longrightarrow>
      (ho_status h = Reconnecting \<and> n = ho_cursor h) \<or> (ho_status h = Gap \<and> ho_cursor h \<le> n)"
    and q: "pj_teamGoalId q = pj_teamGoalId p" "pj_identities q = pj_identities p"
  shows "console_moves p (snd (case checked_snapshot input p check of
      Inl e \<Rightarrow> fail_projection e p
    | Inr v \<Rightarrow> (case handoffFrom v Ready of Inl e \<Rightarrow> (Inl e, q) | Inr h' \<Rightarrow> (Inr h', q\<lparr>pj_current := Some h'\<rparr>))))"
proof (cases "checked_snapshot input p check")
  case (Inl e)
  then show ?thesis by (simp add: moves_gap [OF p(1)])
next
  case (Inr v)
  then have "handoffFrom v Ready = Inr (shown v)"
    by (auto simp: checked_snapshot_iff shown_def intro: handoffFrom_valid)
  then show ?thesis using Inr moves_refresh [OF p Inr c, of "q\<lparr>pj_current := Some (shown v)\<rparr>"] q by simp
qed

lemma moves_step:
  assumes p: "projection_ok p"
  shows "console_moves p (projection_step op p)"
proof -
  have same: "console_moves p p" using p by (simp add: console_moves_def)
  show ?thesis
  proof (cases op)
    case (Initialize input)
    have "console_moves p (p\<lparr>pj_teamGoalId := Some (tg_id (sn_teamGoal v)), pj_identities := identitiesFrom v,
        pj_eventIds := [], pj_fault := None, pj_current := Some (shown v)\<rparr>)" (is "console_moves p ?p")
      if "pj_current p = None" "validateSnapshotBody input = Inr v" for v
      using that console_step.first_snapshot [OF snapshot_sound [OF that(2)], of "pj_teamGoalId p"]
        projection_ok_shown [OF that(2), of ?p]
      by (simp add: console_moves_def console_view_def)
    then show ?thesis using Initialize same
      by (auto simp: initialize_def handoffFrom_valid shown_def split: sum.split)
  next
    case (Accept_event input)
    have "console_moves p (p\<lparr>pj_eventIds := i, pj_fault := None,
        pj_current := Some (h\<lparr>ho_status := Reconnecting, ho_cursor := ho_cursor h + 1\<rparr>)\<rparr>)" if "pj_current p = Some h" for h i
      using that p console_step.counted [of h "pj_teamGoalId p"]
      by (simp add: console_moves_def console_view_def projection_ok_def)
    then show ?thesis using Accept_event same moves_gap [OF p]
      by (auto simp: acceptEvent_def Let_def split: option.split sum.split)
  next
    case (Resnapshot input)
    have "console_moves p (snd (resnapshot input p))"
    proof (cases "pj_current p")
      case None
      then show ?thesis using same by (simp add: resnapshot_def)
    next
      case (Some h)
      then show ?thesis using same unfolding resnapshot_def Let_def
        by (auto simp: guardR_Inr_iff intro!: moves_checked [OF p Some])
    qed
    then show ?thesis using Resnapshot by simp
  next
    case Clear
    then show ?thesis
      by (simp add: clearState_def console_moves_def console_view_def projection_ok_def console_step.forgotten)
  next
    case (Mark_gap reason)
    then show ?thesis using p
      by (auto simp: markGap_def Let_def console_moves_def console_view_def projection_ok_def
          split: option.split intro: console_step.gap)
  next
    case (Recover input)
    have "console_moves p (snd (recover input p))"
    proof (cases "pj_current p")
      case None
      then show ?thesis using same by (simp add: recover_def)
    next
      case (Some h)
      then show ?thesis using same unfolding recover_def Let_def
        by (auto simp: guardR_Inr_iff intro!: moves_checked [OF p Some])
    qed
    then show ?thesis using Recover by simp
  qed
qed

lemma run_ok: "projection_ok p \<Longrightarrow> projection_ok (projection_run ops p)"
  using moves_step by (induction ops arbitrary: p) (simp_all add: console_moves_def)

lemma new_projection_ok [simp]: "projection_ok new_projection"
  by (simp add: projection_ok_def new_projection_def)

text \<open>
  C18. The Agent Console refines an abstract console: after any calls with any inputs whatever,
  the next call leaves what is shown as it was or makes one step of \<open>console_step\<close>. Labels and
  identities come only from a validated snapshot of the same team; an event moves the cursor by
  exactly one and never changes a card; the console is ready only at the cursor of the snapshot
  it shows.
\<close>

theorem console_refines:
  "console_view (projection_step op (projection_run ops new_projection)) =
     console_view (projection_run ops new_projection) \<or>
   console_step (console_view (projection_run ops new_projection))
     (console_view (projection_step op (projection_run ops new_projection)))"
  using moves_step [OF run_ok [OF new_projection_ok], of ops op] by (simp add: console_moves_def)

text \<open>A session: from a first snapshot until the state is cleared.\<close>

definition same_team :: "console \<Rightarrow> console \<Rightarrow> bool" where
  "same_team c c' \<longleftrightarrow>
     (case (c, c') of
        ((Some h, g), (Some h', g')) \<Rightarrow> g' = g \<and> ho_cursor h \<le> ho_cursor h' \<and>
          map cc_agentRunId (ho_cards h') = map cc_agentRunId (ho_cards h)
      | _ \<Rightarrow> False)"

lemma step_same_team:
  assumes "console_step (Some h, g) (h', g')" "h' \<noteq> None"
  shows "same_team (Some h, g) (h', g')"
  using assms by (cases rule: console_step.cases) (auto simp: same_team_def shown_def)

lemma current_kept: "op \<noteq> Clear \<Longrightarrow> pj_current p \<noteq> None \<Longrightarrow> pj_current (projection_step op p) \<noteq> None"
  by (cases op) (auto simp: initialize_def acceptEvent_def resnapshot_def markGap_def recover_def fail_projection_def Let_def
      split: option.split sum.split)

lemma run_same_team:
  "list_all (\<lambda>op. op \<noteq> Clear) ops \<Longrightarrow> projection_ok p \<Longrightarrow> pj_current p \<noteq> None \<Longrightarrow>
   same_team (console_view p) (console_view (projection_run ops p))"
proof (induction ops arbitrary: p)
  case Nil
  then show ?case by (auto simp: same_team_def console_view_def)
next
  case (Cons op ops)
  let ?p = "projection_step op p"
  have c: "pj_current ?p \<noteq> None" using Cons.prems by (simp add: current_kept)
  have m: "console_moves p ?p" using Cons.prems moves_step by simp
  then have "same_team (console_view p) (console_view ?p)"
    using Cons.prems(3) c step_same_team [of _ "pj_teamGoalId p" "pj_current ?p" "pj_teamGoalId ?p"]
    by (auto simp: console_moves_def console_view_def) (auto simp: same_team_def)
  moreover have "same_team (console_view ?p) (console_view (projection_run ops ?p))"
    using Cons.IH [of ?p] Cons.prems m c by (simp add: console_moves_def)
  ultimately show ?case
    by (auto simp: same_team_def split: option.splits prod.splits)
qed

text \<open>
  C21. During a session the console never changes identities: whatever inputs arrive, valid or
  not, the Team Goal and the agent runs of the cards stay those of the first snapshot and the
  cursor never goes back.
\<close>

theorem console_session_stable:
  assumes "pj_current (projection_run ops new_projection) \<noteq> None" and "list_all (\<lambda>op. op \<noteq> Clear) later"
  shows "same_team (console_view (projection_run ops new_projection))
     (console_view (projection_run later (projection_run ops new_projection)))"
  using run_same_team [OF assms(2) run_ok [OF new_projection_ok] assms(1)] .

text \<open>
  A gap does not need the recovery it is documented to need: from the gap state, the next
  event in sequence puts the console back to \<open>Reconnecting\<close> without any fresh snapshot, and an
  ordinary resnapshot at that cursor is then accepted.
\<close>

theorem gap_left_by_event:
  assumes "pj_current p = Some h" "ho_status h = Gap"
    and "validateEventRecord input = Inr e" "er_sequence e = ho_cursor h + 1" "er_eventId e \<notin> set (pj_eventIds p)"
    and "validateSnapshotBody snap = Inr v" "assertIdentityBaseline v p = Inr ()" "sn_cursor v = er_sequence e"
  shows "let p1 = snd (acceptEvent input p)
         in map_option ho_status (pj_current p1) = Some Reconnecting \<and> pj_fault p1 = None \<and>
            map_option ho_status (pj_current (snd (resnapshot snap p1))) = Some Ready"
proof -
  let ?p = "snd (acceptEvent input p)"
  have p: "pj_current ?p = Some (h\<lparr>ho_status := Reconnecting, ho_cursor := er_sequence e\<rparr>)" "pj_fault ?p = None"
    "pj_teamGoalId ?p = pj_teamGoalId p" "pj_identities ?p = pj_identities p"
    using assms by (simp_all add: acceptEvent_def Let_def)
  have b: "assertIdentityBaseline v ?p = Inr ()"
  proof -
    have "role_mismatch v ?p = role_mismatch v p" by (rule ext) (simp add: role_mismatch_def p)
    then show ?thesis using assms(7) p by (simp add: assertIdentityBaseline_def split: if_splits)
  qed
  have "checked_snapshot snap ?p (\<lambda>n. guardR (n = er_sequence e) (x n)) = Inr v" for x
    using assms b by (simp add: checked_snapshot_iff guardR_Inr_iff)
  then show ?thesis
    using p handoffFrom_valid [OF assms(6), of Ready] by (simp add: resnapshot_def Let_def)
qed

section \<open>A concrete session\<close>

lemmas id_simps = ID_RE_def MESSAGE_ID_RE_def EVENT_TYPE_RE_def matches_head_tail_def js_def is_alnum_def is_lower_def
  is_upper_def is_digit_def id_tail_def

definition demo_role :: "role \<Rightarrow> string \<Rightarrow> role_projection" where
  "demo_role r k =
     \<lparr>rp_role = r, rp_agentRunId = js (''run-'' @ k), rp_terminalSessionRef = js (''tty-'' @ k),
      rp_piSessionId = js (''pi-'' @ k), rp_extensionInstanceId = js (''ext-'' @ k), rp_hostPid = 7,
      rp_shellRunId = js (''sh-'' @ k), rp_controlMode = Managed, rp_agentState = Waiting,
      rp_assignmentState = None, rp_nativeTerminalTitle = js ''title'', rp_piStatus = js ''waiting''\<rparr>"

definition demo_snapshot :: "int \<Rightarrow> snapshot_body" where
  "demo_snapshot n =
     \<lparr>sn_cursor = n,
      sn_teamGoal = \<lparr>tg_id = js ''goal-1'', tg_goalText = js ''Ship'', tg_createdAt = js ''now'', tg_eventCursor = n\<rparr>,
      sn_roles = [demo_role Coordinator ''c'', demo_role Builder ''b'', demo_role Reviewer ''r''],
      sn_assignment = None,
      sn_journal = \<lparr>jv_requested = Default_journal, jv_effective = js ''delete'', jv_sqliteVersion = js ''3''\<rparr>\<rparr>"

lemma demo_snapshot_ok: "0 \<le> n \<Longrightarrow> n \<le> MAX_SAFE_INTEGER \<Longrightarrow> snapshot_ok (demo_snapshot n)"
  by (simp add: snapshot_ok_def demo_snapshot_def demo_role_def cursor_ok_def team_goal_ok_def journal_ok_def
      roles_unique_def ROLES_def bounded_text_def goalText_limit_def role_projection_ok_def label_limit_def host_pid_max_def)
     (simp add: id_simps)

lemma demo_snapshot_valid:
  "0 \<le> n \<Longrightarrow> n \<le> MAX_SAFE_INTEGER \<Longrightarrow>
   validateSnapshotBody (Some (JObj (snapshot_json (demo_snapshot n)))) = Inr (demo_snapshot n)"
  by (rule snapshot_complete [OF demo_snapshot_ok])

definition demo_record :: "int \<Rightarrow> event_record" where
  "demo_record n =
     \<lparr>er_sequence = n, er_eventId = js ''evt-'' @ digits (nat n), er_eventType = js ''tick'', er_role = None,
      er_payload = [], er_createdAt = js ''now''\<rparr>"

lemma demo_record_valid:
  "validateEventRecord (Some (JObj (event_record_json (demo_record 1)))) = Inr (demo_record 1)"
  by (rule event_record_complete)
     (simp add: event_record_ok_def demo_record_def MAX_SAFE_INTEGER_def digits.simps, simp add: id_simps)

definition demo_console :: projection where
  "demo_console = projection_run [Initialize (Some (JObj (snapshot_json (demo_snapshot 0)))), Mark_gap (js ''history'')] new_projection"

lemma demo_console_sel:
  "pj_current demo_console = Some (shown (demo_snapshot 0)\<lparr>ho_status := Gap\<rparr>)"
  "pj_teamGoalId demo_console = Some (js ''goal-1'')" "pj_eventIds demo_console = []"
  "pj_identities demo_console = [(Coordinator, js ''run-c''), (Builder, js ''run-b''), (Reviewer, js ''run-r'')]"
  using handoffFrom_valid [OF demo_snapshot_valid, of 0 Ready]
  by (simp_all add: demo_console_def initialize_def demo_snapshot_valid MAX_SAFE_INTEGER_def markGap_def Let_def
      new_projection_def shown_def)
     (simp_all add: demo_snapshot_def identitiesFrom_def demo_role_def)

theorem console_session_stable_witness:
  "pj_current (projection_run [Initialize (Some (JObj (snapshot_json (demo_snapshot 0)))), Mark_gap (js ''history'')]
     new_projection) \<noteq> None \<and>
   same_team (console_view demo_console) (console_view (projection_run [Accept_event None, Mark_gap []] demo_console))"
  using console_session_stable [of "[Initialize (Some (JObj (snapshot_json (demo_snapshot 0)))), Mark_gap (js ''history'')]"
      "[Accept_event None, Mark_gap []]"] demo_console_sel(1)
  by (simp add: demo_console_def [symmetric] del: projection_run.simps)

theorem gap_left_by_event_witness:
  "map_option ho_status (pj_current (snd (acceptEvent (Some (JObj (event_record_json (demo_record 1)))) demo_console))) =
     Some Reconnecting"
proof -
  have b: "assertIdentityBaseline (demo_snapshot 1) demo_console = Inr ()"
    by (simp add: assertIdentityBaseline_def demo_console_sel role_mismatch_def role_entry_def ROLES_def)
       (simp add: demo_snapshot_def demo_role_def)
  show ?thesis
    using gap_left_by_event [OF demo_console_sel(1) _ demo_record_valid _ _ demo_snapshot_valid b]
    by (simp add: demo_console_sel demo_record_def shown_def demo_snapshot_def MAX_SAFE_INTEGER_def Let_def)
qed

end
