(* ===== verification/ObserverContracts.thy ===== *)
theory ObserverContracts
  imports RunnerFrames
begin

text \<open>
  observer/contracts.ts: the \<open>omarchestra.observer/v1\<close> protocol. As in src/protocol.ts, each
  body is a record, each validator returns the body or the code of the \<open>ObserverProtocolError\<close>
  it throws, \<open>*_json\<close> is the object it returns and \<open>*_ok\<close> says which records it can return.
  Every body is also bounded by the size of its own text.
\<close>

section \<open>Constants and enumerations\<close>

definition OBSERVER_PROTOCOL_ID :: jstr where
  "OBSERVER_PROTOCOL_ID = js ''omarchestra.observer/v1''"

definition envelopeBytes :: nat where "envelopeBytes = 16 * 1024"
definition decodeBufferBytes :: nat where "decodeBufferBytes = 32 * 1024"
definition detailCharacters :: nat where "detailCharacters = 1024"
definition labelCharacters :: nat where "labelCharacters = 512"
definition maxObservedSessions :: nat where "maxObservedSessions = 64"
definition dedupLimit :: nat where "dedupLimit = 256"

datatype observer_code =
    Invalid_envelope | Envelope_too_large | Unsupported_protocol | Incompatible_extension
   | Invalid_identity | Invalid_sequence | Stale_registration | Message_id_conflict
   | Session_limit | Privacy_violation | Connection_not_current | Session_unavailable
   | Session_expired | Proposal_not_found | Proposal_conflict | Proposal_stale
   | Proposal_expired | Authorization_required | Authorization_mismatch
   | Authorization_replayed | Node_mismatch | Remote_team_goal | Role_occupied
   | Session_busy | Session_unknown | Session_exited | Already_managed | Ack_refused
   | Ack_timeout | Identity_drift | Reconciliation_failed | Transaction_failed
   | Postcommit_delivery_failed | Already_retired | Role_mismatch | Stale_revision
   | Not_eligible | Vacancy_stale | Not_vacant | Not_retired | Purge_blocked

datatype observer_capability = Observe_lifecycle | Adoption_acknowledge | Managed_activate
datatype observer_lifecycle = Running | Exited
datatype observer_activity = Idle_activity | Busy_activity | Waiting_for_user | Unknown_activity
datatype observer_health = Healthy | Degraded
datatype observer_close_reason = Quit | Reload | New_session | Resume | Fork
datatype adoption_decision = Acknowledged | Refused
datatype observer_availability = Available | Unavailable

definition OBSERVER_CAPABILITIES :: "observer_capability enum" where
  "OBSERVER_CAPABILITIES =
     [(''observe.lifecycle'', Observe_lifecycle),
      (''adoption.acknowledge'', Adoption_acknowledge),
      (''managed.activate'', Managed_activate)]"

definition OBSERVER_ERROR_CODES :: "observer_code enum" where
  "OBSERVER_ERROR_CODES =
     [(''invalid_envelope'', Invalid_envelope), (''envelope_too_large'', Envelope_too_large),
      (''unsupported_protocol'', Unsupported_protocol),
      (''incompatible_extension'', Incompatible_extension),
      (''invalid_identity'', Invalid_identity), (''invalid_sequence'', Invalid_sequence),
      (''stale_registration'', Stale_registration),
      (''message_id_conflict'', Message_id_conflict), (''session_limit'', Session_limit),
      (''privacy_violation'', Privacy_violation),
      (''connection_not_current'', Connection_not_current),
      (''session_unavailable'', Session_unavailable), (''session_expired'', Session_expired),
      (''proposal_not_found'', Proposal_not_found), (''proposal_conflict'', Proposal_conflict),
      (''proposal_stale'', Proposal_stale), (''proposal_expired'', Proposal_expired),
      (''authorization_required'', Authorization_required),
      (''authorization_mismatch'', Authorization_mismatch),
      (''authorization_replayed'', Authorization_replayed), (''node_mismatch'', Node_mismatch),
      (''remote_team_goal'', Remote_team_goal), (''role_occupied'', Role_occupied),
      (''session_busy'', Session_busy), (''session_unknown'', Session_unknown),
      (''session_exited'', Session_exited), (''already_managed'', Already_managed),
      (''ack_refused'', Ack_refused), (''ack_timeout'', Ack_timeout),
      (''identity_drift'', Identity_drift), (''reconciliation_failed'', Reconciliation_failed),
      (''transaction_failed'', Transaction_failed),
      (''postcommit_delivery_failed'', Postcommit_delivery_failed),
      (''already_retired'', Already_retired), (''role_mismatch'', Role_mismatch),
      (''stale_revision'', Stale_revision), (''not_eligible'', Not_eligible),
      (''vacancy_stale'', Vacancy_stale), (''not_vacant'', Not_vacant),
      (''not_retired'', Not_retired), (''purge_blocked'', Purge_blocked)]"

definition OBSERVER_LIFECYCLE_VALUES :: "observer_lifecycle enum" where
  "OBSERVER_LIFECYCLE_VALUES =
     [(''running'', Running), (''exited'', Exited)]"

definition OBSERVER_ACTIVITY_VALUES :: "observer_activity enum" where
  "OBSERVER_ACTIVITY_VALUES =
     [(''idle'', Idle_activity), (''busy'', Busy_activity),
      (''waiting_for_user'', Waiting_for_user), (''unknown'', Unknown_activity)]"

definition OBSERVER_HEALTH_VALUES :: "observer_health enum" where
  "OBSERVER_HEALTH_VALUES =
     [(''healthy'', Healthy), (''degraded'', Degraded)]"

definition OBSERVER_CLOSE_REASONS :: "observer_close_reason enum" where
  "OBSERVER_CLOSE_REASONS =
     [(''quit'', Quit), (''reload'', Reload), (''new'', New_session), (''resume'', Resume),
      (''fork'', Fork)]"

definition OBSERVER_ADOPTION_DECISIONS :: "adoption_decision enum" where
  "OBSERVER_ADOPTION_DECISIONS =
     [(''acknowledged'', Acknowledged), (''refused'', Refused)]"

definition OBSERVER_AVAILABILITY_VALUES :: "observer_availability enum" where
  "OBSERVER_AVAILABILITY_VALUES =
     [(''available'', Available), (''unavailable'', Unavailable)]"

definition OBSERVER_PI_STATUS_LOCAL :: jstr where
  "OBSERVER_PI_STATUS_LOCAL = js ''Unassigned '' @ [183] @ js '' observed''"

lemma enum_okI: "distinct (map fst t) \<Longrightarrow> distinct (map snd t) \<Longrightarrow> (\<And>x. x \<in> set (map snd t)) \<Longrightarrow> enum_ok t"
  by (simp add: enum_ok_def)

lemma error_codes_ok [simp]: "enum_ok OBSERVER_ERROR_CODES"
proof (rule enum_okI)
  show "x \<in> set (map snd OBSERVER_ERROR_CODES)" for x
    by (cases x) (simp_all add: OBSERVER_ERROR_CODES_def)
qed (simp_all add: OBSERVER_ERROR_CODES_def)

lemma observer_enums_ok [simp]:
  "enum_ok OBSERVER_LIFECYCLE_VALUES" "enum_ok OBSERVER_ACTIVITY_VALUES" "enum_ok OBSERVER_HEALTH_VALUES"
  "enum_ok OBSERVER_CLOSE_REASONS" "enum_ok OBSERVER_ADOPTION_DECISIONS" "enum_ok OBSERVER_AVAILABILITY_VALUES"
  unfolding enum_ok_def OBSERVER_LIFECYCLE_VALUES_def OBSERVER_ACTIVITY_VALUES_def OBSERVER_HEALTH_VALUES_def
    OBSERVER_CLOSE_REASONS_def OBSERVER_ADOPTION_DECISIONS_def OBSERVER_AVAILABILITY_VALUES_def
  by (auto intro: observer_lifecycle.exhaust observer_activity.exhaust observer_health.exhaust
      observer_close_reason.exhaust adoption_decision.exhaust observer_availability.exhaust)

section \<open>Field validators\<close>

text \<open>
  A field that a JSON text cannot make unprintable is always printable, so \<open>safeJson\<close> is
  \<open>stringify\<close>. Two exceptions are no \<open>ObserverError\<close>: the \<open>TypeError\<close> of the language, and
  what an injected port (persistence, transport) throws.
\<close>

datatype observer_failure = Observer_error observer_code | Type_error | Port_error

definition VERSION_RE :: "jstr \<Rightarrow> bool" where
  "VERSION_RE s = matches_head_tail is_alnum (\<lambda>c. is_alnum c \<or> c \<in> {46, 43, 95, 45}) 63 s"

definition SHA256_RE :: "jstr \<Rightarrow> bool" where
  "SHA256_RE s \<longleftrightarrow> length s = 64 \<and> list_all (\<lambda>c. 97 \<le> c \<and> c \<le> 102 \<or> is_digit c) s"

definition exactObject :: "json option \<Rightarrow> string list \<Rightarrow> observer_failure + obj" where
  "exactObject input names =
     (case object_of input of
        None \<Rightarrow> Inl (Observer_error Invalid_envelope)
      | Some m \<Rightarrow> if exact_keys m names then Inr m else Inl (Observer_error Invalid_envelope))"

text \<open>Reading one string, or one number, that must satisfy a test.\<close>

definition string_where :: "(jstr \<Rightarrow> bool) \<Rightarrow> observer_code \<Rightarrow> json option \<Rightarrow> observer_failure + jstr" where
  "string_where ok code input =
     (case string_of input of
        None \<Rightarrow> Inl (Observer_error code)
      | Some s \<Rightarrow> if ok s then Inr s else Inl (Observer_error code))"

definition observerId :: "json option \<Rightarrow> observer_failure + jstr" where
  "observerId = string_where ID_RE Invalid_identity"

definition observerString :: "json option \<Rightarrow> nat \<Rightarrow> observer_failure + jstr" where
  "observerString input n = string_where (\<lambda>s. s \<noteq> [] \<and> codePoints s \<le> n) Invalid_envelope input"

definition requireVersion :: "json option \<Rightarrow> observer_failure + jstr" where
  "requireVersion = string_where VERSION_RE Invalid_envelope"

definition requireSha256 :: "json option \<Rightarrow> observer_failure + jstr" where
  "requireSha256 = string_where SHA256_RE Invalid_envelope"

definition observerPositiveInt :: "json option \<Rightarrow> int \<Rightarrow> observer_failure + int" where
  "observerPositiveInt input limit =
     (case whole_of input of
        None \<Rightarrow> Inl (Observer_error Invalid_envelope)
      | Some n \<Rightarrow> if \<bar>n\<bar> \<le> MAX_SAFE_INTEGER \<and> 1 \<le> n \<and> n \<le> limit then Inr n
                  else Inl (Observer_error Invalid_envelope))"

definition observerNonNegativeInt :: "json option \<Rightarrow> observer_failure + int" where
  "observerNonNegativeInt input =
     (case whole_of input of
        None \<Rightarrow> Inl (Observer_error Invalid_envelope)
      | Some n \<Rightarrow> if 0 \<le> n \<and> n \<le> MAX_SAFE_INTEGER then Inr n else Inl (Observer_error Invalid_envelope))"

definition observerEnum :: "json option \<Rightarrow> 'a enum \<Rightarrow> observer_failure + 'a" where
  "observerEnum input choices =
     (case string_of input of
        None \<Rightarrow> Inl (Observer_error Invalid_envelope)
      | Some s \<Rightarrow>
          (case enum_of choices s of None \<Rightarrow> Inl (Observer_error Invalid_envelope) | Some x \<Rightarrow> Inr x))"

definition requireRole :: "json option \<Rightarrow> observer_failure + role" where
  "requireRole input = observerEnum input ROLES"

definition requireErrorCode :: "json option \<Rightarrow> observer_failure + observer_code" where
  "requireErrorCode input = observerEnum input OBSERVER_ERROR_CODES"

definition requireCapabilities :: "json option \<Rightarrow> observer_failure + observer_capability list" where
  "requireCapabilities input =
     (if input = Some (JArr (map (\<lambda>e. JStr (js (fst e))) OBSERVER_CAPABILITIES))
      then Inr (map snd OBSERVER_CAPABILITIES) else Inl (Observer_error Incompatible_extension))"

definition requireExactly :: "json option \<Rightarrow> jstr \<Rightarrow> observer_failure + unit" where
  "requireExactly input s = guardR (input = Some (JStr s)) (Observer_error Invalid_envelope)"

definition within_envelope :: "obj \<Rightarrow> bool" where
  "within_envelope m \<longleftrightarrow> utf8Bytes (stringify (JObj m)) \<le> envelopeBytes"

definition assertBounded :: "obj \<Rightarrow> observer_failure + unit" where
  "assertBounded m = guardR (within_envelope m) (Observer_error Envelope_too_large)"

lemma exactObject_iff [result_simps]: "exactObject v fs = Inr m \<longleftrightarrow> v = Some (JObj m) \<and> exact_keys m fs"
  by (auto simp: exactObject_def split: option.splits)

lemma string_where_iff [result_simps]: "string_where ok c v = Inr s \<longleftrightarrow> v = Some (JStr s) \<and> ok s"
  by (auto simp: string_where_def split: option.splits)

lemma observer_strings_iff [result_simps]:
  "observerId v = Inr s \<longleftrightarrow> v = Some (JStr s) \<and> ID_RE s"
  "observerString v n = Inr s \<longleftrightarrow> v = Some (JStr s) \<and> s \<noteq> [] \<and> codePoints s \<le> n"
  "requireVersion v = Inr s \<longleftrightarrow> v = Some (JStr s) \<and> VERSION_RE s"
  "requireSha256 v = Inr s \<longleftrightarrow> v = Some (JStr s) \<and> SHA256_RE s"
  by (simp_all add: observerId_def observerString_def requireVersion_def requireSha256_def string_where_iff)

lemma observer_ints_iff [result_simps]:
  "observerPositiveInt v limit = Inr n \<longleftrightarrow> v = Some (JWhole n) \<and> n \<le> MAX_SAFE_INTEGER \<and> 1 \<le> n \<and> n \<le> limit"
  "observerNonNegativeInt v = Inr n \<longleftrightarrow> v = Some (JWhole n) \<and> 0 \<le> n \<and> n \<le> MAX_SAFE_INTEGER"
  by (auto simp: observerPositiveInt_def observerNonNegativeInt_def split: option.splits)

lemma observerEnum_iff [result_simps]: "enum_ok t \<Longrightarrow> observerEnum v t = Inr x \<longleftrightarrow> v = Some (JEnum t x)"
  by (auto simp: observerEnum_def enum_of_iff split: option.splits)

lemma observer_enums_iff [result_simps]:
  "requireRole v = Inr r \<longleftrightarrow> v = Some (JEnum ROLES r)"
  "requireErrorCode v = Inr c \<longleftrightarrow> v = Some (JEnum OBSERVER_ERROR_CODES c)"
  by (simp_all add: requireRole_def requireErrorCode_def observerEnum_iff)

definition capabilities_json :: "observer_capability list \<Rightarrow> json" where
  "capabilities_json cs = JArr (map (JEnum OBSERVER_CAPABILITIES) cs)"

lemma requireCapabilities_iff [result_simps]:
  "requireCapabilities v = Inr cs \<longleftrightarrow>
     v = Some (capabilities_json cs) \<and> cs = map snd OBSERVER_CAPABILITIES"
  by (auto simp: requireCapabilities_def capabilities_json_def OBSERVER_CAPABILITIES_def enum_text_def)

lemma requireExactly_iff [result_simps]: "requireExactly v s = Inr u \<longleftrightarrow> v = Some (JStr s)"
  by (simp add: requireExactly_def result_simps)

lemma assertBounded_iff [result_simps]: "assertBounded m = Inr u \<longleftrightarrow> within_envelope m"
  by (simp add: assertBounded_def result_simps)

section \<open>Bodies\<close>

record observer_register =
  og_processIncarnationId :: jstr
  og_piSessionId :: jstr
  og_extensionInstanceId :: jstr
  og_hostPid :: int
  og_observerVersion :: jstr
  og_capabilities :: "observer_capability list"
  og_registrationAttempt :: int
  og_sourceSequence :: int
  og_lifecycle :: observer_lifecycle
  og_activity :: observer_activity
  og_health :: observer_health

definition observer_register_json :: "observer_register \<Rightarrow> obj" where [body_simps]:
  "observer_register_json b =
     [(js ''processIncarnationId'', JStr (og_processIncarnationId b)),
      (js ''piSessionId'', JStr (og_piSessionId b)),
      (js ''extensionInstanceId'', JStr (og_extensionInstanceId b)),
      (js ''hostPid'', JWhole (og_hostPid b)), (js ''hostMode'', JStr (js ''tui'')),
      (js ''observerVersion'', JStr (og_observerVersion b)),
      (js ''capabilities'', capabilities_json (og_capabilities b)),
      (js ''registrationAttempt'', JWhole (og_registrationAttempt b)),
      (js ''sourceSequence'', JWhole (og_sourceSequence b)),
      (js ''lifecycle'', JEnum OBSERVER_LIFECYCLE_VALUES (og_lifecycle b)),
      (js ''activity'', JEnum OBSERVER_ACTIVITY_VALUES (og_activity b)),
      (js ''health'', JEnum OBSERVER_HEALTH_VALUES (og_health b))]"

definition validateObserverRegister :: "json option \<Rightarrow> observer_failure + observer_register" where
  "validateObserverRegister input =
     andThen (exactObject input
       [''processIncarnationId'', ''piSessionId'', ''extensionInstanceId'', ''hostPid'',
       ''hostMode'', ''observerVersion'', ''capabilities'', ''registrationAttempt'',
       ''sourceSequence'', ''lifecycle'', ''activity'', ''health'']) (\<lambda>m.
     andThen (assertBounded m) (\<lambda>_.
     andThen (requireExactly (own_prop m ''hostMode'') (js ''tui'')) (\<lambda>_.
     andThen (requireCapabilities (own_prop m ''capabilities'')) (\<lambda>capabilities.
     andThen (observerId (own_prop m ''processIncarnationId'')) (\<lambda>processIncarnationId.
     andThen (observerId (own_prop m ''piSessionId'')) (\<lambda>piSessionId.
     andThen (observerId (own_prop m ''extensionInstanceId'')) (\<lambda>extensionInstanceId.
     andThen (observerPositiveInt (own_prop m ''hostPid'') host_pid_max) (\<lambda>hostPid.
     andThen (requireVersion (own_prop m ''observerVersion'')) (\<lambda>observerVersion.
     andThen (observerPositiveInt (own_prop m ''registrationAttempt'') MAX_SAFE_INTEGER) (\<lambda>registrationAttempt.
     andThen (observerPositiveInt (own_prop m ''sourceSequence'') MAX_SAFE_INTEGER) (\<lambda>sourceSequence.
     andThen (observerEnum (own_prop m ''lifecycle'') OBSERVER_LIFECYCLE_VALUES) (\<lambda>lifecycle.
     andThen (observerEnum (own_prop m ''activity'') OBSERVER_ACTIVITY_VALUES) (\<lambda>activity.
     andThen (observerEnum (own_prop m ''health'') OBSERVER_HEALTH_VALUES) (\<lambda>health.
     let result = \<lparr>og_processIncarnationId = processIncarnationId, og_piSessionId = piSessionId,
                 og_extensionInstanceId = extensionInstanceId, og_hostPid = hostPid,
                 og_observerVersion = observerVersion, og_capabilities = capabilities,
                 og_registrationAttempt = registrationAttempt, og_sourceSequence = sourceSequence,
                 og_lifecycle = lifecycle, og_activity = activity, og_health = health\<rparr>
     in andThen (assertBounded (observer_register_json result)) (\<lambda>_. Inr result)))))))))))))))"

definition observer_register_ok :: "observer_register \<Rightarrow> bool" where
  "observer_register_ok b \<longleftrightarrow>
     ID_RE (og_processIncarnationId b) \<and> ID_RE (og_piSessionId b) \<and>
     ID_RE (og_extensionInstanceId b) \<and>
     1 \<le> og_hostPid b \<and> og_hostPid b \<le> host_pid_max \<and>
     VERSION_RE (og_observerVersion b) \<and>
     og_capabilities b = map snd OBSERVER_CAPABILITIES \<and>
     1 \<le> og_registrationAttempt b \<and> og_registrationAttempt b \<le> MAX_SAFE_INTEGER \<and>
     1 \<le> og_sourceSequence b \<and> og_sourceSequence b \<le> MAX_SAFE_INTEGER \<and>
     within_envelope (observer_register_json b)"

lemma observer_register_sound: "validateObserverRegister v = Inr b \<Longrightarrow> observer_register_ok b"
  by (auto simp: validateObserverRegister_def observer_register_ok_def Let_def result_simps)

lemma observer_register_complete:
  "observer_register_ok b \<Longrightarrow> validateObserverRegister (Some (JObj (observer_register_json b))) = Inr b"
  unfolding observer_register_ok_def validateObserverRegister_def
  by (elim conjE) (simp add: observer_register_json_def result_simps exact_keys_iff add_mset_commute Let_def host_pid_max_def MAX_SAFE_INTEGER_def)

record observer_heartbeat =
  oh_connectionId :: jstr
  oh_connectionChallenge :: jstr
  oh_sourceSequence :: int
  oh_lifecycle :: observer_lifecycle
  oh_activity :: observer_activity
  oh_health :: observer_health

definition observer_heartbeat_json :: "observer_heartbeat \<Rightarrow> obj" where [body_simps]:
  "observer_heartbeat_json b =
     [(js ''connectionId'', JStr (oh_connectionId b)),
      (js ''connectionChallenge'', JStr (oh_connectionChallenge b)),
      (js ''sourceSequence'', JWhole (oh_sourceSequence b)),
      (js ''lifecycle'', JEnum OBSERVER_LIFECYCLE_VALUES (oh_lifecycle b)),
      (js ''activity'', JEnum OBSERVER_ACTIVITY_VALUES (oh_activity b)),
      (js ''health'', JEnum OBSERVER_HEALTH_VALUES (oh_health b))]"

definition validateObserverHeartbeat :: "json option \<Rightarrow> observer_failure + observer_heartbeat" where
  "validateObserverHeartbeat input =
     andThen (exactObject input
       [''connectionId'', ''connectionChallenge'', ''sourceSequence'', ''lifecycle'',
       ''activity'', ''health'']) (\<lambda>m.
     andThen (observerId (own_prop m ''connectionId'')) (\<lambda>connectionId.
     andThen (observerId (own_prop m ''connectionChallenge'')) (\<lambda>connectionChallenge.
     andThen (observerPositiveInt (own_prop m ''sourceSequence'') MAX_SAFE_INTEGER) (\<lambda>sourceSequence.
     andThen (observerEnum (own_prop m ''lifecycle'') OBSERVER_LIFECYCLE_VALUES) (\<lambda>lifecycle.
     andThen (observerEnum (own_prop m ''activity'') OBSERVER_ACTIVITY_VALUES) (\<lambda>activity.
     andThen (observerEnum (own_prop m ''health'') OBSERVER_HEALTH_VALUES) (\<lambda>health.
     let result = \<lparr>oh_connectionId = connectionId, oh_connectionChallenge = connectionChallenge,
                 oh_sourceSequence = sourceSequence, oh_lifecycle = lifecycle,
                 oh_activity = activity, oh_health = health\<rparr>
     in andThen (assertBounded (observer_heartbeat_json result)) (\<lambda>_. Inr result))))))))"

definition observer_heartbeat_ok :: "observer_heartbeat \<Rightarrow> bool" where
  "observer_heartbeat_ok b \<longleftrightarrow>
     ID_RE (oh_connectionId b) \<and> ID_RE (oh_connectionChallenge b) \<and>
     1 \<le> oh_sourceSequence b \<and> oh_sourceSequence b \<le> MAX_SAFE_INTEGER \<and>
     within_envelope (observer_heartbeat_json b)"

lemma observer_heartbeat_sound: "validateObserverHeartbeat v = Inr b \<Longrightarrow> observer_heartbeat_ok b"
  by (auto simp: validateObserverHeartbeat_def observer_heartbeat_ok_def Let_def result_simps)

lemma observer_heartbeat_complete:
  "observer_heartbeat_ok b \<Longrightarrow> validateObserverHeartbeat (Some (JObj (observer_heartbeat_json b))) = Inr b"
  unfolding observer_heartbeat_ok_def validateObserverHeartbeat_def
  by (elim conjE) (simp add: observer_heartbeat_json_def result_simps exact_keys_iff add_mset_commute Let_def)

record observer_lifecycle_body =
  ol_connectionId :: jstr
  ol_connectionChallenge :: jstr
  ol_eventId :: jstr
  ol_sourceSequence :: int
  ol_lifecycle :: observer_lifecycle
  ol_activity :: observer_activity
  ol_health :: observer_health

definition observer_lifecycle_body_json :: "observer_lifecycle_body \<Rightarrow> obj" where [body_simps]:
  "observer_lifecycle_body_json b =
     [(js ''connectionId'', JStr (ol_connectionId b)),
      (js ''connectionChallenge'', JStr (ol_connectionChallenge b)),
      (js ''eventId'', JStr (ol_eventId b)),
      (js ''sourceSequence'', JWhole (ol_sourceSequence b)),
      (js ''lifecycle'', JEnum OBSERVER_LIFECYCLE_VALUES (ol_lifecycle b)),
      (js ''activity'', JEnum OBSERVER_ACTIVITY_VALUES (ol_activity b)),
      (js ''health'', JEnum OBSERVER_HEALTH_VALUES (ol_health b))]"

definition validateObserverLifecycle :: "json option \<Rightarrow> observer_failure + observer_lifecycle_body" where
  "validateObserverLifecycle input =
     andThen (exactObject input
       [''connectionId'', ''connectionChallenge'', ''eventId'', ''sourceSequence'', ''lifecycle'',
       ''activity'', ''health'']) (\<lambda>m.
     andThen (observerId (own_prop m ''connectionId'')) (\<lambda>connectionId.
     andThen (observerId (own_prop m ''connectionChallenge'')) (\<lambda>connectionChallenge.
     andThen (observerId (own_prop m ''eventId'')) (\<lambda>eventId.
     andThen (observerPositiveInt (own_prop m ''sourceSequence'') MAX_SAFE_INTEGER) (\<lambda>sourceSequence.
     andThen (observerEnum (own_prop m ''lifecycle'') OBSERVER_LIFECYCLE_VALUES) (\<lambda>lifecycle.
     andThen (observerEnum (own_prop m ''activity'') OBSERVER_ACTIVITY_VALUES) (\<lambda>activity.
     andThen (observerEnum (own_prop m ''health'') OBSERVER_HEALTH_VALUES) (\<lambda>health.
     let result = \<lparr>ol_connectionId = connectionId, ol_connectionChallenge = connectionChallenge,
                 ol_eventId = eventId, ol_sourceSequence = sourceSequence,
                 ol_lifecycle = lifecycle, ol_activity = activity, ol_health = health\<rparr>
     in andThen (assertBounded (observer_lifecycle_body_json result)) (\<lambda>_. Inr result)))))))))"

definition observer_lifecycle_body_ok :: "observer_lifecycle_body \<Rightarrow> bool" where
  "observer_lifecycle_body_ok b \<longleftrightarrow>
     ID_RE (ol_connectionId b) \<and> ID_RE (ol_connectionChallenge b) \<and>
     ID_RE (ol_eventId b) \<and>
     1 \<le> ol_sourceSequence b \<and> ol_sourceSequence b \<le> MAX_SAFE_INTEGER \<and>
     within_envelope (observer_lifecycle_body_json b)"

lemma observer_lifecycle_body_sound: "validateObserverLifecycle v = Inr b \<Longrightarrow> observer_lifecycle_body_ok b"
  by (auto simp: validateObserverLifecycle_def observer_lifecycle_body_ok_def Let_def result_simps)

lemma observer_lifecycle_body_complete:
  "observer_lifecycle_body_ok b \<Longrightarrow> validateObserverLifecycle (Some (JObj (observer_lifecycle_body_json b))) = Inr b"
  unfolding observer_lifecycle_body_ok_def validateObserverLifecycle_def
  by (elim conjE) (simp add: observer_lifecycle_body_json_def result_simps exact_keys_iff add_mset_commute Let_def)

record observer_close =
  oc_connectionId :: jstr
  oc_connectionChallenge :: jstr
  oc_sourceSequence :: int
  oc_reason :: observer_close_reason

definition observer_close_json :: "observer_close \<Rightarrow> obj" where [body_simps]:
  "observer_close_json b =
     [(js ''connectionId'', JStr (oc_connectionId b)),
      (js ''connectionChallenge'', JStr (oc_connectionChallenge b)),
      (js ''sourceSequence'', JWhole (oc_sourceSequence b)),
      (js ''reason'', JEnum OBSERVER_CLOSE_REASONS (oc_reason b))]"

definition validateObserverClose :: "json option \<Rightarrow> observer_failure + observer_close" where
  "validateObserverClose input =
     andThen (exactObject input
       [''connectionId'', ''connectionChallenge'', ''sourceSequence'', ''reason'']) (\<lambda>m.
     andThen (observerId (own_prop m ''connectionId'')) (\<lambda>connectionId.
     andThen (observerId (own_prop m ''connectionChallenge'')) (\<lambda>connectionChallenge.
     andThen (observerPositiveInt (own_prop m ''sourceSequence'') MAX_SAFE_INTEGER) (\<lambda>sourceSequence.
     andThen (observerEnum (own_prop m ''reason'') OBSERVER_CLOSE_REASONS) (\<lambda>reason.
     let result = \<lparr>oc_connectionId = connectionId, oc_connectionChallenge = connectionChallenge,
                 oc_sourceSequence = sourceSequence, oc_reason = reason\<rparr>
     in andThen (assertBounded (observer_close_json result)) (\<lambda>_. Inr result))))))"

definition observer_close_ok :: "observer_close \<Rightarrow> bool" where
  "observer_close_ok b \<longleftrightarrow>
     ID_RE (oc_connectionId b) \<and> ID_RE (oc_connectionChallenge b) \<and>
     1 \<le> oc_sourceSequence b \<and> oc_sourceSequence b \<le> MAX_SAFE_INTEGER \<and>
     within_envelope (observer_close_json b)"

lemma observer_close_sound: "validateObserverClose v = Inr b \<Longrightarrow> observer_close_ok b"
  by (auto simp: validateObserverClose_def observer_close_ok_def Let_def result_simps)

lemma observer_close_complete:
  "observer_close_ok b \<Longrightarrow> validateObserverClose (Some (JObj (observer_close_json b))) = Inr b"
  unfolding observer_close_ok_def validateObserverClose_def
  by (elim conjE) (simp add: observer_close_json_def result_simps exact_keys_iff add_mset_commute Let_def)

record adoption_ack =
  ak_processIncarnationId :: jstr
  ak_piSessionId :: jstr
  ak_extensionInstanceId :: jstr
  ak_connectionId :: jstr
  ak_connectionChallenge :: jstr
  ak_proposalId :: jstr
  ak_proposalDigest :: jstr
  ak_acknowledgementNonce :: jstr
  ak_registryRevision :: int
  ak_sourceSequence :: int
  ak_decision :: adoption_decision
  ak_activity :: observer_activity
  ak_refusalCode :: "jstr option"

definition adoption_ack_json :: "adoption_ack \<Rightarrow> obj" where [body_simps]:
  "adoption_ack_json b =
     [(js ''processIncarnationId'', JStr (ak_processIncarnationId b)),
      (js ''piSessionId'', JStr (ak_piSessionId b)),
      (js ''extensionInstanceId'', JStr (ak_extensionInstanceId b)),
      (js ''connectionId'', JStr (ak_connectionId b)),
      (js ''connectionChallenge'', JStr (ak_connectionChallenge b)),
      (js ''proposalId'', JStr (ak_proposalId b)),
      (js ''proposalDigest'', JStr (ak_proposalDigest b)),
      (js ''acknowledgementNonce'', JStr (ak_acknowledgementNonce b)),
      (js ''registryRevision'', JWhole (ak_registryRevision b)),
      (js ''sourceSequence'', JWhole (ak_sourceSequence b)),
      (js ''decision'', JEnum OBSERVER_ADOPTION_DECISIONS (ak_decision b)),
      (js ''activity'', JEnum OBSERVER_ACTIVITY_VALUES (ak_activity b)),
      (js ''refusalCode'', null_or JStr (ak_refusalCode b))]"

definition validateAdoptionAck :: "json option \<Rightarrow> observer_failure + adoption_ack" where
  "validateAdoptionAck input =
     andThen (exactObject input
       [''processIncarnationId'', ''piSessionId'', ''extensionInstanceId'', ''connectionId'',
       ''connectionChallenge'', ''proposalId'', ''proposalDigest'', ''acknowledgementNonce'',
       ''registryRevision'', ''sourceSequence'', ''decision'', ''activity'', ''refusalCode'']) (\<lambda>m.
     andThen (observerEnum (own_prop m ''decision'') OBSERVER_ADOPTION_DECISIONS) (\<lambda>decision.
     andThen (requireSha256 (own_prop m ''proposalDigest'')) (\<lambda>proposalDigest.
     andThen (nullable observerId (own_prop m ''refusalCode'')) (\<lambda>refusalCode.
     andThen (guardR ((decision = Acknowledged) = (refusalCode = None)) (Observer_error Invalid_envelope)) (\<lambda>_.
     andThen (observerId (own_prop m ''processIncarnationId'')) (\<lambda>processIncarnationId.
     andThen (observerId (own_prop m ''piSessionId'')) (\<lambda>piSessionId.
     andThen (observerId (own_prop m ''extensionInstanceId'')) (\<lambda>extensionInstanceId.
     andThen (observerId (own_prop m ''connectionId'')) (\<lambda>connectionId.
     andThen (observerId (own_prop m ''connectionChallenge'')) (\<lambda>connectionChallenge.
     andThen (observerId (own_prop m ''proposalId'')) (\<lambda>proposalId.
     andThen (observerId (own_prop m ''acknowledgementNonce'')) (\<lambda>acknowledgementNonce.
     andThen (observerNonNegativeInt (own_prop m ''registryRevision'')) (\<lambda>registryRevision.
     andThen (observerPositiveInt (own_prop m ''sourceSequence'') MAX_SAFE_INTEGER) (\<lambda>sourceSequence.
     andThen (observerEnum (own_prop m ''activity'') OBSERVER_ACTIVITY_VALUES) (\<lambda>activity.
     let result = \<lparr>ak_processIncarnationId = processIncarnationId, ak_piSessionId = piSessionId,
                 ak_extensionInstanceId = extensionInstanceId, ak_connectionId = connectionId,
                 ak_connectionChallenge = connectionChallenge, ak_proposalId = proposalId,
                 ak_proposalDigest = proposalDigest,
                 ak_acknowledgementNonce = acknowledgementNonce,
                 ak_registryRevision = registryRevision, ak_sourceSequence = sourceSequence,
                 ak_decision = decision, ak_activity = activity, ak_refusalCode = refusalCode\<rparr>
     in andThen (assertBounded (adoption_ack_json result)) (\<lambda>_. Inr result))))))))))))))))"

definition adoption_ack_ok :: "adoption_ack \<Rightarrow> bool" where
  "adoption_ack_ok b \<longleftrightarrow>
     ID_RE (ak_processIncarnationId b) \<and> ID_RE (ak_piSessionId b) \<and>
     ID_RE (ak_extensionInstanceId b) \<and> ID_RE (ak_connectionId b) \<and>
     ID_RE (ak_connectionChallenge b) \<and> ID_RE (ak_proposalId b) \<and>
     SHA256_RE (ak_proposalDigest b) \<and> ID_RE (ak_acknowledgementNonce b) \<and>
     0 \<le> ak_registryRevision b \<and> ak_registryRevision b \<le> MAX_SAFE_INTEGER \<and>
     1 \<le> ak_sourceSequence b \<and> ak_sourceSequence b \<le> MAX_SAFE_INTEGER \<and>
     pred_option ID_RE (ak_refusalCode b) \<and>
     (ak_decision b = Acknowledged) = (ak_refusalCode b = None) \<and>
     within_envelope (adoption_ack_json b)"

lemma adoption_ack_sound: "validateAdoptionAck v = Inr b \<Longrightarrow> adoption_ack_ok b"
  by (auto simp: validateAdoptionAck_def adoption_ack_ok_def Let_def result_simps)

lemma adoption_ack_complete:
  "adoption_ack_ok b \<Longrightarrow> validateAdoptionAck (Some (JObj (adoption_ack_json b))) = Inr b"
  unfolding adoption_ack_ok_def validateAdoptionAck_def
  by (cases "ak_refusalCode b"; elim conjE) (simp add: adoption_ack_json_def result_simps exact_keys_iff add_mset_commute Let_def null_or_def)+

record observer_registered =
  od_observedSessionId :: jstr
  od_executionNodeId :: jstr
  od_connectionId :: jstr
  od_connectionChallenge :: jstr
  od_acceptedRegistrationAttempt :: int
  od_acceptedSourceSequence :: int
  od_heartbeatIntervalMs :: int
  od_leaseDurationMs :: int
  od_registryRevision :: int

definition observer_registered_json :: "observer_registered \<Rightarrow> obj" where [body_simps]:
  "observer_registered_json b =
     [(js ''observedSessionId'', JStr (od_observedSessionId b)),
      (js ''executionNodeId'', JStr (od_executionNodeId b)),
      (js ''connectionId'', JStr (od_connectionId b)),
      (js ''connectionChallenge'', JStr (od_connectionChallenge b)),
      (js ''acceptedRegistrationAttempt'', JWhole (od_acceptedRegistrationAttempt b)),
      (js ''acceptedSourceSequence'', JWhole (od_acceptedSourceSequence b)),
      (js ''heartbeatIntervalMs'', JWhole (od_heartbeatIntervalMs b)),
      (js ''leaseDurationMs'', JWhole (od_leaseDurationMs b)),
      (js ''registryRevision'', JWhole (od_registryRevision b)),
      (js ''piStatus'', JStr (OBSERVER_PI_STATUS_LOCAL))]"

definition validateObserverRegistered :: "json option \<Rightarrow> observer_failure + observer_registered" where
  "validateObserverRegistered input =
     andThen (exactObject input
       [''observedSessionId'', ''executionNodeId'', ''connectionId'', ''connectionChallenge'',
       ''acceptedRegistrationAttempt'', ''acceptedSourceSequence'', ''heartbeatIntervalMs'',
       ''leaseDurationMs'', ''registryRevision'', ''piStatus'']) (\<lambda>m.
     andThen (requireExactly (own_prop m ''piStatus'') OBSERVER_PI_STATUS_LOCAL) (\<lambda>_.
     andThen (observerId (own_prop m ''observedSessionId'')) (\<lambda>observedSessionId.
     andThen (observerId (own_prop m ''executionNodeId'')) (\<lambda>executionNodeId.
     andThen (observerId (own_prop m ''connectionId'')) (\<lambda>connectionId.
     andThen (observerId (own_prop m ''connectionChallenge'')) (\<lambda>connectionChallenge.
     andThen (observerPositiveInt (own_prop m ''acceptedRegistrationAttempt'') MAX_SAFE_INTEGER) (\<lambda>acceptedRegistrationAttempt.
     andThen (observerPositiveInt (own_prop m ''acceptedSourceSequence'') MAX_SAFE_INTEGER) (\<lambda>acceptedSourceSequence.
     andThen (observerPositiveInt (own_prop m ''heartbeatIntervalMs'') MAX_SAFE_INTEGER) (\<lambda>heartbeatIntervalMs.
     andThen (observerPositiveInt (own_prop m ''leaseDurationMs'') MAX_SAFE_INTEGER) (\<lambda>leaseDurationMs.
     andThen (observerNonNegativeInt (own_prop m ''registryRevision'')) (\<lambda>registryRevision.
     let result = \<lparr>od_observedSessionId = observedSessionId, od_executionNodeId = executionNodeId,
                 od_connectionId = connectionId, od_connectionChallenge = connectionChallenge,
                 od_acceptedRegistrationAttempt = acceptedRegistrationAttempt,
                 od_acceptedSourceSequence = acceptedSourceSequence,
                 od_heartbeatIntervalMs = heartbeatIntervalMs,
                 od_leaseDurationMs = leaseDurationMs, od_registryRevision = registryRevision\<rparr>
     in andThen (assertBounded (observer_registered_json result)) (\<lambda>_. Inr result))))))))))))"

definition observer_registered_ok :: "observer_registered \<Rightarrow> bool" where
  "observer_registered_ok b \<longleftrightarrow>
     ID_RE (od_observedSessionId b) \<and> ID_RE (od_executionNodeId b) \<and>
     ID_RE (od_connectionId b) \<and> ID_RE (od_connectionChallenge b) \<and>
     1 \<le> od_acceptedRegistrationAttempt b \<and> od_acceptedRegistrationAttempt b \<le> MAX_SAFE_INTEGER \<and>
     1 \<le> od_acceptedSourceSequence b \<and> od_acceptedSourceSequence b \<le> MAX_SAFE_INTEGER \<and>
     1 \<le> od_heartbeatIntervalMs b \<and> od_heartbeatIntervalMs b \<le> MAX_SAFE_INTEGER \<and>
     1 \<le> od_leaseDurationMs b \<and> od_leaseDurationMs b \<le> MAX_SAFE_INTEGER \<and>
     0 \<le> od_registryRevision b \<and> od_registryRevision b \<le> MAX_SAFE_INTEGER \<and>
     within_envelope (observer_registered_json b)"

lemma observer_registered_sound: "validateObserverRegistered v = Inr b \<Longrightarrow> observer_registered_ok b"
  by (auto simp: validateObserverRegistered_def observer_registered_ok_def Let_def result_simps)

lemma observer_registered_complete:
  "observer_registered_ok b \<Longrightarrow> validateObserverRegistered (Some (JObj (observer_registered_json b))) = Inr b"
  unfolding observer_registered_ok_def validateObserverRegistered_def
  by (elim conjE) (simp add: observer_registered_json_def result_simps exact_keys_iff add_mset_commute Let_def)

record observer_rejected =
  oj_requestMessageId :: jstr
  oj_code :: observer_code
  oj_detail :: jstr

definition observer_rejected_json :: "observer_rejected \<Rightarrow> obj" where [body_simps]:
  "observer_rejected_json b =
     [(js ''requestMessageId'', JStr (oj_requestMessageId b)),
      (js ''code'', JEnum OBSERVER_ERROR_CODES (oj_code b)), (js ''detail'', JStr (oj_detail b))]"

definition validateObserverRejected :: "json option \<Rightarrow> observer_failure + observer_rejected" where
  "validateObserverRejected input =
     andThen (exactObject input
       [''requestMessageId'', ''code'', ''detail'']) (\<lambda>m.
     andThen (observerId (own_prop m ''requestMessageId'')) (\<lambda>requestMessageId.
     andThen (requireErrorCode (own_prop m ''code'')) (\<lambda>code.
     andThen (observerString (own_prop m ''detail'') detailCharacters) (\<lambda>detail.
     let result = \<lparr>oj_requestMessageId = requestMessageId, oj_code = code, oj_detail = detail\<rparr>
     in andThen (assertBounded (observer_rejected_json result)) (\<lambda>_. Inr result)))))"

definition observer_rejected_ok :: "observer_rejected \<Rightarrow> bool" where
  "observer_rejected_ok b \<longleftrightarrow>
     ID_RE (oj_requestMessageId b) \<and>
     oj_detail b \<noteq> [] \<and> codePoints (oj_detail b) \<le> detailCharacters \<and>
     within_envelope (observer_rejected_json b)"

lemma observer_rejected_sound: "validateObserverRejected v = Inr b \<Longrightarrow> observer_rejected_ok b"
  by (auto simp: validateObserverRejected_def observer_rejected_ok_def Let_def result_simps)

lemma observer_rejected_complete:
  "observer_rejected_ok b \<Longrightarrow> validateObserverRejected (Some (JObj (observer_rejected_json b))) = Inr b"
  unfolding observer_rejected_ok_def validateObserverRejected_def
  by (elim conjE) (simp add: observer_rejected_json_def result_simps exact_keys_iff add_mset_commute Let_def)

record adoption_request_ack =
  aq_proposalId :: jstr
  aq_proposalDigest :: jstr
  aq_acknowledgementNonce :: jstr
  aq_observedSessionId :: jstr
  aq_executionNodeId :: jstr
  aq_processIncarnationId :: jstr
  aq_piSessionId :: jstr
  aq_extensionInstanceId :: jstr
  aq_connectionId :: jstr
  aq_connectionChallenge :: jstr
  aq_registryRevision :: int
  aq_targetTeamGoalId :: jstr
  aq_targetRole :: role
  aq_acknowledgementRemainingMs :: int

definition adoption_request_ack_json :: "adoption_request_ack \<Rightarrow> obj" where [body_simps]:
  "adoption_request_ack_json b =
     [(js ''proposalId'', JStr (aq_proposalId b)),
      (js ''proposalDigest'', JStr (aq_proposalDigest b)),
      (js ''acknowledgementNonce'', JStr (aq_acknowledgementNonce b)),
      (js ''observedSessionId'', JStr (aq_observedSessionId b)),
      (js ''executionNodeId'', JStr (aq_executionNodeId b)),
      (js ''processIncarnationId'', JStr (aq_processIncarnationId b)),
      (js ''piSessionId'', JStr (aq_piSessionId b)),
      (js ''extensionInstanceId'', JStr (aq_extensionInstanceId b)),
      (js ''connectionId'', JStr (aq_connectionId b)),
      (js ''connectionChallenge'', JStr (aq_connectionChallenge b)),
      (js ''registryRevision'', JWhole (aq_registryRevision b)),
      (js ''targetTeamGoalId'', JStr (aq_targetTeamGoalId b)),
      (js ''targetRole'', JEnum ROLES (aq_targetRole b)),
      (js ''acknowledgementRemainingMs'', JWhole (aq_acknowledgementRemainingMs b))]"

definition validateAdoptionRequestAck :: "json option \<Rightarrow> observer_failure + adoption_request_ack" where
  "validateAdoptionRequestAck input =
     andThen (exactObject input
       [''proposalId'', ''proposalDigest'', ''acknowledgementNonce'', ''observedSessionId'',
       ''executionNodeId'', ''processIncarnationId'', ''piSessionId'', ''extensionInstanceId'',
       ''connectionId'', ''connectionChallenge'', ''registryRevision'', ''targetTeamGoalId'',
       ''targetRole'', ''acknowledgementRemainingMs'']) (\<lambda>m.
     andThen (observerId (own_prop m ''proposalId'')) (\<lambda>proposalId.
     andThen (requireSha256 (own_prop m ''proposalDigest'')) (\<lambda>proposalDigest.
     andThen (observerId (own_prop m ''acknowledgementNonce'')) (\<lambda>acknowledgementNonce.
     andThen (observerId (own_prop m ''observedSessionId'')) (\<lambda>observedSessionId.
     andThen (observerId (own_prop m ''executionNodeId'')) (\<lambda>executionNodeId.
     andThen (observerId (own_prop m ''processIncarnationId'')) (\<lambda>processIncarnationId.
     andThen (observerId (own_prop m ''piSessionId'')) (\<lambda>piSessionId.
     andThen (observerId (own_prop m ''extensionInstanceId'')) (\<lambda>extensionInstanceId.
     andThen (observerId (own_prop m ''connectionId'')) (\<lambda>connectionId.
     andThen (observerId (own_prop m ''connectionChallenge'')) (\<lambda>connectionChallenge.
     andThen (observerNonNegativeInt (own_prop m ''registryRevision'')) (\<lambda>registryRevision.
     andThen (observerId (own_prop m ''targetTeamGoalId'')) (\<lambda>targetTeamGoalId.
     andThen (requireRole (own_prop m ''targetRole'')) (\<lambda>targetRole.
     andThen (observerNonNegativeInt (own_prop m ''acknowledgementRemainingMs'')) (\<lambda>acknowledgementRemainingMs.
     let result = \<lparr>aq_proposalId = proposalId, aq_proposalDigest = proposalDigest,
                 aq_acknowledgementNonce = acknowledgementNonce,
                 aq_observedSessionId = observedSessionId, aq_executionNodeId = executionNodeId,
                 aq_processIncarnationId = processIncarnationId, aq_piSessionId = piSessionId,
                 aq_extensionInstanceId = extensionInstanceId, aq_connectionId = connectionId,
                 aq_connectionChallenge = connectionChallenge,
                 aq_registryRevision = registryRevision, aq_targetTeamGoalId = targetTeamGoalId,
                 aq_targetRole = targetRole,
                 aq_acknowledgementRemainingMs = acknowledgementRemainingMs\<rparr>
     in andThen (assertBounded (adoption_request_ack_json result)) (\<lambda>_. Inr result))))))))))))))))"

definition adoption_request_ack_ok :: "adoption_request_ack \<Rightarrow> bool" where
  "adoption_request_ack_ok b \<longleftrightarrow>
     ID_RE (aq_proposalId b) \<and> SHA256_RE (aq_proposalDigest b) \<and>
     ID_RE (aq_acknowledgementNonce b) \<and> ID_RE (aq_observedSessionId b) \<and>
     ID_RE (aq_executionNodeId b) \<and> ID_RE (aq_processIncarnationId b) \<and>
     ID_RE (aq_piSessionId b) \<and> ID_RE (aq_extensionInstanceId b) \<and>
     ID_RE (aq_connectionId b) \<and> ID_RE (aq_connectionChallenge b) \<and>
     0 \<le> aq_registryRevision b \<and> aq_registryRevision b \<le> MAX_SAFE_INTEGER \<and>
     ID_RE (aq_targetTeamGoalId b) \<and>
     0 \<le> aq_acknowledgementRemainingMs b \<and> aq_acknowledgementRemainingMs b \<le> MAX_SAFE_INTEGER \<and>
     within_envelope (adoption_request_ack_json b)"

lemma adoption_request_ack_sound: "validateAdoptionRequestAck v = Inr b \<Longrightarrow> adoption_request_ack_ok b"
  by (auto simp: validateAdoptionRequestAck_def adoption_request_ack_ok_def Let_def result_simps)

lemma adoption_request_ack_complete:
  "adoption_request_ack_ok b \<Longrightarrow> validateAdoptionRequestAck (Some (JObj (adoption_request_ack_json b))) = Inr b"
  unfolding adoption_request_ack_ok_def validateAdoptionRequestAck_def
  by (elim conjE) (simp add: adoption_request_ack_json_def result_simps exact_keys_iff add_mset_commute Let_def)

record adoption_committed =
  ac_proposalId :: jstr
  ac_proposalDigest :: jstr
  ac_agentRunId :: jstr
  ac_targetTeamGoalId :: jstr
  ac_targetRole :: role
  ac_piStatus :: jstr
  ac_terminalTitleMetadata :: jstr

definition adoption_committed_json :: "adoption_committed \<Rightarrow> obj" where [body_simps]:
  "adoption_committed_json b =
     [(js ''proposalId'', JStr (ac_proposalId b)),
      (js ''proposalDigest'', JStr (ac_proposalDigest b)),
      (js ''agentRunId'', JStr (ac_agentRunId b)),
      (js ''targetTeamGoalId'', JStr (ac_targetTeamGoalId b)),
      (js ''targetRole'', JEnum ROLES (ac_targetRole b)),
      (js ''controlMode'', JStr (js ''managed'')), (js ''piStatus'', JStr (ac_piStatus b)),
      (js ''terminalTitleMetadata'', JStr (ac_terminalTitleMetadata b)),
      (js ''runtimeBindingGuarantee'', JStr (js ''unavailable''))]"

definition validateAdoptionCommitted :: "json option \<Rightarrow> observer_failure + adoption_committed" where
  "validateAdoptionCommitted input =
     andThen (exactObject input
       [''proposalId'', ''proposalDigest'', ''agentRunId'', ''targetTeamGoalId'', ''targetRole'',
       ''controlMode'', ''piStatus'', ''terminalTitleMetadata'', ''runtimeBindingGuarantee'']) (\<lambda>m.
     andThen (requireExactly (own_prop m ''controlMode'') (js ''managed'')) (\<lambda>_.
     andThen (requireExactly (own_prop m ''runtimeBindingGuarantee'') (js ''unavailable'')) (\<lambda>_.
     andThen (observerId (own_prop m ''proposalId'')) (\<lambda>proposalId.
     andThen (requireSha256 (own_prop m ''proposalDigest'')) (\<lambda>proposalDigest.
     andThen (observerId (own_prop m ''agentRunId'')) (\<lambda>agentRunId.
     andThen (observerId (own_prop m ''targetTeamGoalId'')) (\<lambda>targetTeamGoalId.
     andThen (requireRole (own_prop m ''targetRole'')) (\<lambda>targetRole.
     andThen (observerString (own_prop m ''piStatus'') labelCharacters) (\<lambda>piStatus.
     andThen (observerString (own_prop m ''terminalTitleMetadata'') labelCharacters) (\<lambda>terminalTitleMetadata.
     let result = \<lparr>ac_proposalId = proposalId, ac_proposalDigest = proposalDigest,
                 ac_agentRunId = agentRunId, ac_targetTeamGoalId = targetTeamGoalId,
                 ac_targetRole = targetRole, ac_piStatus = piStatus,
                 ac_terminalTitleMetadata = terminalTitleMetadata\<rparr>
     in andThen (assertBounded (adoption_committed_json result)) (\<lambda>_. Inr result)))))))))))"

definition adoption_committed_ok :: "adoption_committed \<Rightarrow> bool" where
  "adoption_committed_ok b \<longleftrightarrow>
     ID_RE (ac_proposalId b) \<and> SHA256_RE (ac_proposalDigest b) \<and>
     ID_RE (ac_agentRunId b) \<and> ID_RE (ac_targetTeamGoalId b) \<and>
     ac_piStatus b \<noteq> [] \<and> codePoints (ac_piStatus b) \<le> labelCharacters \<and>
     ac_terminalTitleMetadata b \<noteq> [] \<and> codePoints (ac_terminalTitleMetadata b) \<le> labelCharacters \<and>
     within_envelope (adoption_committed_json b)"

lemma adoption_committed_sound: "validateAdoptionCommitted v = Inr b \<Longrightarrow> adoption_committed_ok b"
  by (auto simp: validateAdoptionCommitted_def adoption_committed_ok_def Let_def result_simps)

lemma adoption_committed_complete:
  "adoption_committed_ok b \<Longrightarrow> validateAdoptionCommitted (Some (JObj (adoption_committed_json b))) = Inr b"
  unfolding adoption_committed_ok_def validateAdoptionCommitted_def
  by (elim conjE) (simp add: adoption_committed_json_def result_simps exact_keys_iff add_mset_commute Let_def)

record adoption_failed =
  af_proposalId :: jstr
  af_code :: observer_code
  af_detail :: jstr

definition adoption_failed_json :: "adoption_failed \<Rightarrow> obj" where [body_simps]:
  "adoption_failed_json b =
     [(js ''proposalId'', JStr (af_proposalId b)),
      (js ''code'', JEnum OBSERVER_ERROR_CODES (af_code b)), (js ''detail'', JStr (af_detail b))]"

definition validateAdoptionFailed :: "json option \<Rightarrow> observer_failure + adoption_failed" where
  "validateAdoptionFailed input =
     andThen (exactObject input
       [''proposalId'', ''code'', ''detail'']) (\<lambda>m.
     andThen (observerId (own_prop m ''proposalId'')) (\<lambda>proposalId.
     andThen (requireErrorCode (own_prop m ''code'')) (\<lambda>code.
     andThen (observerString (own_prop m ''detail'') detailCharacters) (\<lambda>detail.
     let result = \<lparr>af_proposalId = proposalId, af_code = code, af_detail = detail\<rparr>
     in andThen (assertBounded (adoption_failed_json result)) (\<lambda>_. Inr result)))))"

definition adoption_failed_ok :: "adoption_failed \<Rightarrow> bool" where
  "adoption_failed_ok b \<longleftrightarrow>
     ID_RE (af_proposalId b) \<and>
     af_detail b \<noteq> [] \<and> codePoints (af_detail b) \<le> detailCharacters \<and>
     within_envelope (adoption_failed_json b)"

lemma adoption_failed_sound: "validateAdoptionFailed v = Inr b \<Longrightarrow> adoption_failed_ok b"
  by (auto simp: validateAdoptionFailed_def adoption_failed_ok_def Let_def result_simps)

lemma adoption_failed_complete:
  "adoption_failed_ok b \<Longrightarrow> validateAdoptionFailed (Some (JObj (adoption_failed_json b))) = Inr b"
  unfolding adoption_failed_ok_def validateAdoptionFailed_def
  by (elim conjE) (simp add: adoption_failed_json_def result_simps exact_keys_iff add_mset_commute Let_def)

record recovery_challenge =
  rc_challenge :: jstr
  rc_committed :: adoption_committed

definition recovery_challenge_json :: "recovery_challenge \<Rightarrow> obj" where [body_simps]:
  "recovery_challenge_json b =
     [(js ''challenge'', JStr (rc_challenge b)),
      (js ''committed'', JObj (adoption_committed_json (rc_committed b)))]"

definition validateAdoptionRecoveryChallenge :: "json option \<Rightarrow> observer_failure + recovery_challenge" where
  "validateAdoptionRecoveryChallenge input =
     andThen (exactObject input
       [''challenge'', ''committed'']) (\<lambda>m.
     andThen (observerId (own_prop m ''challenge'')) (\<lambda>challenge.
     andThen (validateAdoptionCommitted (own_prop m ''committed'')) (\<lambda>committed.
     let result = \<lparr>rc_challenge = challenge, rc_committed = committed\<rparr>
     in andThen (assertBounded (recovery_challenge_json result)) (\<lambda>_. Inr result))))"

definition recovery_challenge_ok :: "recovery_challenge \<Rightarrow> bool" where
  "recovery_challenge_ok b \<longleftrightarrow>
     ID_RE (rc_challenge b) \<and> adoption_committed_ok (rc_committed b) \<and>
     within_envelope (recovery_challenge_json b)"

lemma recovery_challenge_sound: "validateAdoptionRecoveryChallenge v = Inr b \<Longrightarrow> recovery_challenge_ok b"
  by (auto simp: validateAdoptionRecoveryChallenge_def recovery_challenge_ok_def Let_def result_simps adoption_committed_sound)

lemma recovery_challenge_complete:
  "recovery_challenge_ok b \<Longrightarrow> validateAdoptionRecoveryChallenge (Some (JObj (recovery_challenge_json b))) = Inr b"
  unfolding recovery_challenge_ok_def validateAdoptionRecoveryChallenge_def
  by (elim conjE) (simp add: recovery_challenge_json_def result_simps exact_keys_iff add_mset_commute Let_def adoption_committed_complete)

record recovery_proof =
  rf_challenge :: jstr
  rf_committed :: adoption_committed

definition recovery_proof_json :: "recovery_proof \<Rightarrow> obj" where [body_simps]:
  "recovery_proof_json b =
     [(js ''challenge'', JStr (rf_challenge b)),
      (js ''committed'', JObj (adoption_committed_json (rf_committed b)))]"

definition validateAdoptionRecoveryProof :: "json option \<Rightarrow> observer_failure + recovery_proof" where
  "validateAdoptionRecoveryProof input =
     andThen (exactObject input
       [''challenge'', ''committed'']) (\<lambda>m.
     andThen (observerId (own_prop m ''challenge'')) (\<lambda>challenge.
     andThen (validateAdoptionCommitted (own_prop m ''committed'')) (\<lambda>committed.
     let result = \<lparr>rf_challenge = challenge, rf_committed = committed\<rparr>
     in andThen (assertBounded (recovery_proof_json result)) (\<lambda>_. Inr result))))"

definition recovery_proof_ok :: "recovery_proof \<Rightarrow> bool" where
  "recovery_proof_ok b \<longleftrightarrow>
     ID_RE (rf_challenge b) \<and> adoption_committed_ok (rf_committed b) \<and>
     within_envelope (recovery_proof_json b)"

lemma recovery_proof_sound: "validateAdoptionRecoveryProof v = Inr b \<Longrightarrow> recovery_proof_ok b"
  by (auto simp: validateAdoptionRecoveryProof_def recovery_proof_ok_def Let_def result_simps adoption_committed_sound)

lemma recovery_proof_complete:
  "recovery_proof_ok b \<Longrightarrow> validateAdoptionRecoveryProof (Some (JObj (recovery_proof_json b))) = Inr b"
  unfolding recovery_proof_ok_def validateAdoptionRecoveryProof_def
  by (elim conjE) (simp add: recovery_proof_json_def result_simps exact_keys_iff add_mset_commute Let_def adoption_committed_complete)

end
