(* ===== verification/Telemetry.thy ===== *)
theory Telemetry
  imports ObserverContracts
begin

text \<open>
  observer/telemetry-policy.ts: the allow-list of telemetry facts, the observed record built
  from them and its bounded projection. A fact object is the list of its own properties.
\<close>

definition OBSERVER_ALLOWED_FACT_KEYS :: "string list" where
  "OBSERVER_ALLOWED_FACT_KEYS =
     [''observedSessionId'', ''executionNodeId'', ''processIncarnationId'', ''piSessionId'',
      ''extensionInstanceId'', ''lifecycle'', ''activity'', ''availability'', ''health'', ''registryRevision'']"

definition IDENTITY_KEYS :: "string list" where
  "IDENTITY_KEYS =
     [''observedSessionId'', ''executionNodeId'', ''processIncarnationId'', ''piSessionId'', ''extensionInstanceId'']"

definition OBSERVER_FACT_VALUE_BOUND :: nat where "OBSERVER_FACT_VALUE_BOUND = 512"

record observed_record =
  ob_observedSessionId :: jstr
  ob_executionNodeId :: jstr
  ob_processIncarnationId :: jstr
  ob_piSessionId :: jstr
  ob_extensionInstanceId :: jstr
  ob_lifecycle :: observer_lifecycle
  ob_activity :: observer_activity
  ob_availability :: observer_availability
  ob_health :: observer_health
  ob_registryRevision :: int

text \<open>The member \<open>piStatus\<close> is the constant \<open>OBSERVER_PI_STATUS_LOCAL\<close> in both records.\<close>

record observed_agent =
  oa_observedSessionId :: jstr
  oa_lifecycle :: observer_lifecycle
  oa_availability :: observer_availability
  oa_health :: observer_health
  oa_choices :: "(jstr \<times> jstr \<times> bool) list"

record observed_projection =
  op_observerRevision :: int
  op_agents :: "observed_agent list"

definition assertLifecycleValue :: "json option \<Rightarrow> observer_failure + observer_lifecycle" where
  "assertLifecycleValue v = observerEnum v OBSERVER_LIFECYCLE_VALUES"

definition assertActivityValue :: "json option \<Rightarrow> observer_failure + observer_activity" where
  "assertActivityValue v = observerEnum v OBSERVER_ACTIVITY_VALUES"

definition assertAvailabilityValue :: "json option \<Rightarrow> observer_failure + observer_availability" where
  "assertAvailabilityValue v = observerEnum v OBSERVER_AVAILABILITY_VALUES"

definition assertHealthValue :: "json option \<Rightarrow> observer_failure + observer_health" where
  "assertHealthValue v = observerEnum v OBSERVER_HEALTH_VALUES"

definition assertRevision :: "json option \<Rightarrow> observer_failure + int" where
  "assertRevision v = observerNonNegativeInt v"

lemmas fact_values = assertLifecycleValue_def assertActivityValue_def assertAvailabilityValue_def
  assertHealthValue_def assertRevision_def

definition drop_value :: "'e + 'a \<Rightarrow> 'e + unit" where
  "drop_value m = mapOk (\<lambda>_. ()) m"

definition long_text :: "json \<Rightarrow> bool" where
  "long_text v = (case string_of (Some v) of None \<Rightarrow> False | Some s \<Rightarrow> OBSERVER_FACT_VALUE_BOUND < utf8Bytes s)"

text \<open>The body of the loop over the entries, and the loop.\<close>

definition assertFact :: "jstr \<times> json \<Rightarrow> observer_failure + unit" where
  "assertFact e =
     (case e of (key, v) \<Rightarrow>
       if key \<notin> set (map js OBSERVER_ALLOWED_FACT_KEYS) then Inl (Observer_error Privacy_violation)
       else if long_text v then Inl (Observer_error Invalid_envelope)
       else if key \<in> set (map js IDENTITY_KEYS)
       then drop_value (string_where ID_RE Invalid_envelope (Some v))
       else if key = js ''lifecycle'' then drop_value (assertLifecycleValue (Some v))
       else if key = js ''activity'' then drop_value (assertActivityValue (Some v))
       else if key = js ''availability'' then drop_value (assertAvailabilityValue (Some v))
       else if key = js ''health'' then drop_value (assertHealthValue (Some v))
       else drop_value (assertRevision (Some v)))"

definition assertPrivacySafe :: "json option \<Rightarrow> observer_failure + unit" where
  "assertPrivacySafe facts =
     (case object_of facts of
        None \<Rightarrow> Inl (Observer_error Privacy_violation)
      | Some m \<Rightarrow> drop_value (mapR assertFact m))"

text \<open>\<open>input.k as string\<close>: a cast, no check.\<close>

definition text_of :: "json option \<Rightarrow> jstr" where
  "text_of v = (case string_of v of None \<Rightarrow> [] | Some s \<Rightarrow> s)"

definition buildObservedRecord :: "obj \<Rightarrow> observer_failure + observed_record" where
  "buildObservedRecord m =
     andThen (assertPrivacySafe (Some (JObj m))) (\<lambda>_.
     andThen (guardR (exact_keys m OBSERVER_ALLOWED_FACT_KEYS) (Observer_error Invalid_envelope)) (\<lambda>_.
     andThen (assertLifecycleValue (own_prop m ''lifecycle'')) (\<lambda>lifecycle.
     andThen (assertActivityValue (own_prop m ''activity'')) (\<lambda>activity.
     andThen (assertAvailabilityValue (own_prop m ''availability'')) (\<lambda>availability.
     andThen (assertHealthValue (own_prop m ''health'')) (\<lambda>health.
     andThen (assertRevision (own_prop m ''registryRevision'')) (\<lambda>registryRevision.
     Inr \<lparr>ob_observedSessionId = text_of (own_prop m ''observedSessionId''),
          ob_executionNodeId = text_of (own_prop m ''executionNodeId''),
          ob_processIncarnationId = text_of (own_prop m ''processIncarnationId''),
          ob_piSessionId = text_of (own_prop m ''piSessionId''),
          ob_extensionInstanceId = text_of (own_prop m ''extensionInstanceId''),
          ob_lifecycle = lifecycle, ob_activity = activity, ob_availability = availability,
          ob_health = health, ob_registryRevision = registryRevision\<rparr>)))))))"

definition projectObserved :: "observed_record \<Rightarrow> observed_projection" where
  "projectObserved r =
     \<lparr>op_observerRevision = ob_registryRevision r,
      op_agents = [\<lparr>oa_observedSessionId = ob_observedSessionId r, oa_lifecycle = ob_lifecycle r,
        oa_availability = ob_availability r, oa_health = ob_health r, oa_choices = []\<rparr>]\<rparr>"

section \<open>Which fact objects make a record\<close>

definition observed_record_ok :: "observed_record \<Rightarrow> bool" where
  "observed_record_ok r \<longleftrightarrow>
     ID_RE (ob_observedSessionId r) \<and> ID_RE (ob_executionNodeId r) \<and> ID_RE (ob_processIncarnationId r) \<and>
     ID_RE (ob_piSessionId r) \<and> ID_RE (ob_extensionInstanceId r) \<and>
     0 \<le> ob_registryRevision r \<and> ob_registryRevision r \<le> MAX_SAFE_INTEGER"

definition observed_facts :: "observed_record \<Rightarrow> obj" where
  "observed_facts r =
     [(js ''observedSessionId'', JStr (ob_observedSessionId r)), (js ''executionNodeId'', JStr (ob_executionNodeId r)),
      (js ''processIncarnationId'', JStr (ob_processIncarnationId r)), (js ''piSessionId'', JStr (ob_piSessionId r)),
      (js ''extensionInstanceId'', JStr (ob_extensionInstanceId r)),
      (js ''lifecycle'', JEnum OBSERVER_LIFECYCLE_VALUES (ob_lifecycle r)),
      (js ''activity'', JEnum OBSERVER_ACTIVITY_VALUES (ob_activity r)),
      (js ''availability'', JEnum OBSERVER_AVAILABILITY_VALUES (ob_availability r)),
      (js ''health'', JEnum OBSERVER_HEALTH_VALUES (ob_health r)),
      (js ''registryRevision'', JWhole (ob_registryRevision r))]"

lemma drop_value_iff [result_simps]: "drop_value m = Inr u \<longleftrightarrow> (\<exists>x. m = Inr x)"
  by (auto simp: drop_value_def mapOk_iff)

lemma id_not_long: "ID_RE s \<Longrightarrow> \<not> long_text (JStr s)"
proof -
  assume a: "ID_RE s"
  then have "list_all (\<lambda>c. c < 128) s" unfolding ID_RE_def
    by (rule matches_head_tail_all) (auto simp: id_tail_def char_class_defs)
  then have "utf8Bytes s = length s" by (rule utf8Bytes_ascii)
  then show ?thesis using matches_head_tail_length [OF a [unfolded ID_RE_def]]
    by (simp add: long_text_def OBSERVER_FACT_VALUE_BOUND_def)
qed

lemma enum_not_long:
  "\<not> long_text (JEnum OBSERVER_LIFECYCLE_VALUES l)" "\<not> long_text (JEnum OBSERVER_ACTIVITY_VALUES a)"
  "\<not> long_text (JEnum OBSERVER_AVAILABILITY_VALUES v)" "\<not> long_text (JEnum OBSERVER_HEALTH_VALUES h)"
  "\<not> long_text (JWhole n)"
proof -
  have b: "length s \<le> 100 \<Longrightarrow> \<not> long_text (JStr s)" for s
    using utf8Bytes_le [of s] by (simp add: long_text_def OBSERVER_FACT_VALUE_BOUND_def)
  show "\<not> long_text (JEnum OBSERVER_LIFECYCLE_VALUES l)" "\<not> long_text (JEnum OBSERVER_ACTIVITY_VALUES a)"
    "\<not> long_text (JEnum OBSERVER_AVAILABILITY_VALUES v)" "\<not> long_text (JEnum OBSERVER_HEALTH_VALUES h)"
    by (rule b, cases l, simp_all add: enum_text_def OBSERVER_LIFECYCLE_VALUES_def)
       (rule b, cases a, simp_all add: enum_text_def OBSERVER_ACTIVITY_VALUES_def,
        rule b, cases v, simp_all add: enum_text_def OBSERVER_AVAILABILITY_VALUES_def,
        rule b, cases h, simp_all add: enum_text_def OBSERVER_HEALTH_VALUES_def)
  show "\<not> long_text (JWhole n)" by (simp add: long_text_def string_of_def)
qed

lemma buildObservedRecord_complete:
  assumes "observed_record_ok r"
  shows "buildObservedRecord (observed_facts r) = Inr r"
proof -
  have k: "exact_keys (observed_facts r) OBSERVER_ALLOWED_FACT_KEYS"
    by (simp add: exact_keys_iff observed_facts_def OBSERVER_ALLOWED_FACT_KEYS_def)
  have "list_all (\<lambda>e. assertFact e = Inr ()) (observed_facts r)"
    using assms by (simp add: observed_facts_def observed_record_ok_def assertFact_def OBSERVER_ALLOWED_FACT_KEYS_def
        IDENTITY_KEYS_def id_not_long enum_not_long result_simps fact_values)
  then have "\<exists>us. mapR assertFact (observed_facts r) = Inr us"
    using mapR_map [of "observed_facts r" assertFact "\<lambda>e. e" "\<lambda>_. ()"] by (auto simp: list_all_iff)
  then have p: "assertPrivacySafe (Some (JObj (observed_facts r))) = Inr ()"
    by (simp add: assertPrivacySafe_def result_simps)
  show ?thesis using assms k
    unfolding buildObservedRecord_def p
    by (simp add: observed_facts_def observed_record_ok_def fact_values result_simps text_of_def)
qed

lemma buildObservedRecord_sound:
  assumes "buildObservedRecord m = Inr r"
  shows "observed_record_ok r \<and> exact_keys m OBSERVER_ALLOWED_FACT_KEYS \<and>
    (\<forall>k \<in> set OBSERVER_ALLOWED_FACT_KEYS. own_prop m k = own_prop (observed_facts r) k)"
proof -
  have k: "exact_keys m OBSERVER_ALLOWED_FACT_KEYS" and "assertPrivacySafe (Some (JObj m)) = Inr ()"
    using assms by (auto simp: buildObservedRecord_def result_simps)
  then have f: "\<And>e. e \<in> set m \<Longrightarrow> assertFact e = Inr ()"
    by (auto simp: assertPrivacySafe_def result_simps mapR_Inr_iff list_all2_conv_all_nth in_set_conv_nth)
  have id: "\<exists>s. own_prop m k = Some (JStr s) \<and> ID_RE s" if i: "k \<in> set IDENTITY_KEYS" for k
  proof -
    have "k \<in> set OBSERVER_ALLOWED_FACT_KEYS" using i by (auto simp: IDENTITY_KEYS_def OBSERVER_ALLOWED_FACT_KEYS_def)
    then obtain v where v: "own_prop m k = Some v" using exact_keys_prop [OF k] by blast
    then have "assertFact (js k, v) = Inr ()" by (intro f) (simp add: own_prop_def map_of_SomeD)
    then show ?thesis using i v by (auto simp: assertFact_def result_simps split: if_splits)
  qed
  note ids = id [of "''observedSessionId''"] id [of "''executionNodeId''"] id [of "''processIncarnationId''"]
    id [of "''piSessionId''"] id [of "''extensionInstanceId''"]
  from assms ids k show ?thesis
    by (auto simp: buildObservedRecord_def result_simps fact_values observed_record_ok_def observed_facts_def
        IDENTITY_KEYS_def OBSERVER_ALLOWED_FACT_KEYS_def text_of_def)
qed

text \<open>
  C25. The projection hides what it must hide: for any two fact objects from which records are
  built, if they agree on the session, lifecycle, availability, health and revision then their
  projections are equal, so process, Pi session, extension, node identity and activity, which may
  differ, cannot be told from the projection; and a fact object with any other member makes no record.
\<close>

theorem projection_reveals_only:
  assumes "buildObservedRecord m = Inr r" and "buildObservedRecord m' = Inr r'"
    and "\<forall>k \<in> {''observedSessionId'', ''lifecycle'', ''availability'', ''health'', ''registryRevision''}.
      own_prop m k = own_prop m' k"
  shows "projectObserved r = projectObserved r' \<and> set (map fst m) = set (map js OBSERVER_ALLOWED_FACT_KEYS)"
proof -
  note s = buildObservedRecord_sound [OF assms(1)] buildObservedRecord_sound [OF assms(2)]
  have "own_prop (observed_facts r) k = own_prop (observed_facts r') k"
    if "k \<in> {''observedSessionId'', ''lifecycle'', ''availability'', ''health'', ''registryRevision''}" for k
    using assms(3) s that by (force simp: OBSERVER_ALLOWED_FACT_KEYS_def)
  from this [of "''observedSessionId''"] this [of "''lifecycle''"] this [of "''availability''"]
    this [of "''health''"] this [of "''registryRevision''"]
  have "projectObserved r = projectObserved r'"
    by (simp add: observed_facts_def projectObserved_def)
  moreover have "set (map fst m) = set (map js OBSERVER_ALLOWED_FACT_KEYS)"
    using s(1) by (metis exact_keys_iff mset_eq_setD)
  ultimately show ?thesis by (rule conjI)
qed

definition demo_observed :: "string \<Rightarrow> observer_activity \<Rightarrow> observed_record" where
  "demo_observed host activity =
     \<lparr>ob_observedSessionId = js ''s1'', ob_executionNodeId = js ''n1'', ob_processIncarnationId = js host,
      ob_piSessionId = js host, ob_extensionInstanceId = js host, ob_lifecycle = Running, ob_activity = activity,
      ob_availability = Available, ob_health = Healthy, ob_registryRevision = 3\<rparr>"

lemma demo_observed_ok: "observed_record_ok (demo_observed ''a1'' x)" "observed_record_ok (demo_observed ''b2'' x)"
  by (simp_all add: demo_observed_def observed_record_ok_def ID_RE_def matches_head_tail_def js_def is_alnum_def
      is_lower_def is_upper_def is_digit_def id_tail_def MAX_SAFE_INTEGER_def)

theorem projection_reveals_only_witness:
  "projectObserved (demo_observed ''a1'' Idle_activity) = projectObserved (demo_observed ''b2'' Busy_activity)"
  using projection_reveals_only [OF buildObservedRecord_complete [OF demo_observed_ok(1) [of Idle_activity]]
      buildObservedRecord_complete [OF demo_observed_ok(2) [of Busy_activity]]]
  by (simp add: observed_facts_def demo_observed_def)

end
