(* ===== verification/Effects.thy ===== *)
theory Effects
  imports Prelude
begin

text \<open>
  Stateful calls that may throw: a call takes the state and returns its result or its
  exception together with the state it leaves, since a JavaScript exception undoes nothing.
  \<open>wpE\<close> is the weakest precondition of a call, with a postcondition for each way of ending;
  \<open>keepsE I m\<close> says that \<open>m\<close> keeps \<open>I\<close> on both.
\<close>

named_theorems wpE_simps \<open>weakest preconditions of the primitives\<close>
named_theorems keepsE_intros \<open>calls that keep a predicate\<close>

type_synonym ('e, 's, 'a) eff = "'s \<Rightarrow> ('e + 'a) \<times> 's"

definition retE :: "'a \<Rightarrow> ('e, 's, 'a) eff" where "retE x s = (Inr x, s)"
definition throwE :: "'e \<Rightarrow> ('e, 's, 'a) eff" where "throwE e s = (Inl e, s)"
definition getE :: "('s \<Rightarrow> 'a) \<Rightarrow> ('e, 's, 'a) eff" where "getE f s = (Inr (f s), s)"
definition modifyE :: "('s \<Rightarrow> 's) \<Rightarrow> ('e, 's, unit) eff" where "modifyE f s = (Inr (), f s)"
definition liftE :: "'e + 'a \<Rightarrow> ('e, 's, 'a) eff" where "liftE r s = (r, s)"

definition bindE :: "('e, 's, 'a) eff \<Rightarrow> ('a \<Rightarrow> ('e, 's, 'b) eff) \<Rightarrow> ('e, 's, 'b) eff" where
  "bindE m f s = (case m s of (Inl e, s') \<Rightarrow> (Inl e, s') | (Inr x, s') \<Rightarrow> f x s')"

definition thenE :: "('e, 's, unit) eff \<Rightarrow> ('e, 's, 'b) eff \<Rightarrow> ('e, 's, 'b) eff" where
  "thenE m n = bindE m (\<lambda>_. n)"

definition catchE :: "('e, 's, 'a) eff \<Rightarrow> ('e \<Rightarrow> ('e, 's, 'a) eff) \<Rightarrow> ('e, 's, 'a) eff" where
  "catchE m h s = (case m s of (Inl e, s') \<Rightarrow> h e s' | (Inr x, s') \<Rightarrow> (Inr x, s'))"

definition requireE :: "bool \<Rightarrow> 'e \<Rightarrow> ('e, 's, unit) eff" where
  "requireE b e = (if b then retE () else throwE e)"

fun eachE :: "('a \<Rightarrow> ('e, 's, unit) eff) \<Rightarrow> 'a list \<Rightarrow> ('e, 's, unit) eff" where
  "eachE f [] = retE ()"
| "eachE f (x # xs) = thenE (f x) (eachE f xs)"

definition wpE :: "('e, 's, 'a) eff \<Rightarrow> ('a \<Rightarrow> 's \<Rightarrow> bool) \<Rightarrow> ('e \<Rightarrow> 's \<Rightarrow> bool) \<Rightarrow> 's \<Rightarrow> bool" where
  "wpE m Q E s = (case m s of (Inl e, s') \<Rightarrow> E e s' | (Inr x, s') \<Rightarrow> Q x s')"

lemma wpE_basic [wpE_simps]:
  "wpE (retE x) Q E s = Q x s"
  "wpE (throwE e) Q E s = E e s"
  "wpE (getE f) T E s = T (f s) s"
  "wpE (modifyE g) U E s = U () (g s)"
  "wpE (liftE r) Q E s = (case r of Inl e \<Rightarrow> E e s | Inr x \<Rightarrow> Q x s)"
  "wpE (requireE b e) U E s = (if b then U () s else E e s)"
  by (auto simp: wpE_def retE_def throwE_def getE_def modifyE_def liftE_def requireE_def split: sum.split)

lemma wpE_bind [wpE_simps]: "wpE (bindE m f) Q E s = wpE m (\<lambda>x. wpE (f x) Q E) E s"
  by (auto simp: wpE_def bindE_def split: prod.split sum.split)

lemma wpE_then [wpE_simps]: "wpE (thenE m n) Q E s = wpE m (\<lambda>_. wpE n Q E) E s"
  by (simp add: thenE_def wpE_bind)

lemma wpE_catch [wpE_simps]: "wpE (catchE m h) Q E s = wpE m Q (\<lambda>e. wpE (h e) Q E) s"
  by (auto simp: wpE_def catchE_def split: prod.split sum.split)

lemma wpE_mono: "wpE m Q E s \<Longrightarrow> (\<And>x s. Q x s \<Longrightarrow> Q' x s) \<Longrightarrow> (\<And>e s. E e s \<Longrightarrow> E' e s) \<Longrightarrow> wpE m Q' E' s"
  by (auto simp: wpE_def split: prod.splits sum.splits)

lemma wpE_conj: "wpE m Q E s \<Longrightarrow> wpE m Q' E' s \<Longrightarrow> wpE m (\<lambda>x s. Q x s \<and> Q' x s) (\<lambda>e s. E e s \<and> E' e s) s"
  by (auto simp: wpE_def split: prod.splits sum.splits)

lemma wpE_final: "wpE m (\<lambda>_. P) (\<lambda>_. P) s \<longleftrightarrow> P (snd (m s))"
  by (auto simp: wpE_def split: prod.splits sum.splits)

lemma wpE_returned: "wpE m Q E s \<Longrightarrow> m s = (Inr x, s') \<Longrightarrow> Q x s'"
  by (simp add: wpE_def)

lemma wpE_thrown: "wpE m Q E s \<Longrightarrow> m s = (Inl e, s') \<Longrightarrow> E e s'"
  by (simp add: wpE_def)

lemma wpE_result: "wpE m (\<lambda>x s'. m s = (Inr x, s')) (\<lambda>e s'. m s = (Inl e, s')) s"
  by (auto simp: wpE_def split: prod.split sum.split)

definition keepsE :: "('s \<Rightarrow> bool) \<Rightarrow> ('e, 's, 'a) eff \<Rightarrow> bool" where
  "keepsE I m \<longleftrightarrow> (\<forall>s. I s \<longrightarrow> wpE m (\<lambda>_. I) (\<lambda>_. I) s)"

lemma keepsEI: "(\<And>s. I s \<Longrightarrow> wpE m (\<lambda>_. I) (\<lambda>_. I) s) \<Longrightarrow> keepsE I m"
  by (simp add: keepsE_def)

lemma keepsED: "keepsE I m \<Longrightarrow> I s \<Longrightarrow> wpE m (\<lambda>_. I) (\<lambda>_. I) s"
  by (simp add: keepsE_def)

lemma keepsE_final: "keepsE I m \<Longrightarrow> I s \<Longrightarrow> I (snd (m s))"
  by (simp add: keepsE_def wpE_final)

lemma keepsE_basic [keepsE_intros]:
  "keepsE I (retE x)" "keepsE I (throwE e)" "keepsE I (getE f)" "keepsE I (liftE r)" "keepsE I (requireE b e)"
  by (auto simp: keepsE_def wpE_simps split: sum.split)

lemma keepsE_modify: "(\<And>s. I s \<Longrightarrow> I (g s)) \<Longrightarrow> keepsE I (modifyE g)"
  by (simp add: keepsE_def wpE_simps)

lemma keepsE_bind [keepsE_intros]: "keepsE I m \<Longrightarrow> (\<And>x. keepsE I (f x)) \<Longrightarrow> keepsE I (bindE m f)"
  unfolding keepsE_def wpE_bind by (blast intro: wpE_mono)

lemma keepsE_then [keepsE_intros]: "keepsE I m \<Longrightarrow> keepsE I n \<Longrightarrow> keepsE I (thenE m n)"
  by (simp add: thenE_def keepsE_bind)

lemma keepsE_catch [keepsE_intros]: "keepsE I m \<Longrightarrow> (\<And>e. keepsE I (h e)) \<Longrightarrow> keepsE I (catchE m h)"
  unfolding keepsE_def wpE_catch by (blast intro: wpE_mono)

lemma keepsE_each [keepsE_intros]: "(\<And>x. keepsE I (f x)) \<Longrightarrow> keepsE I (eachE f xs)"
  by (induction xs) (simp_all add: keepsE_intros)

lemma keepsE_if [keepsE_intros]: "(b \<Longrightarrow> keepsE I m) \<Longrightarrow> (\<not> b \<Longrightarrow> keepsE I n) \<Longrightarrow> keepsE I (if b then m else n)"
  by simp

lemma keepsE_option [keepsE_intros]:
  "(x = None \<Longrightarrow> keepsE I m) \<Longrightarrow> (\<And>y. x = Some y \<Longrightarrow> keepsE I (f y)) \<Longrightarrow>
   keepsE I (case x of None \<Rightarrow> m | Some y \<Rightarrow> f y)"
  by (cases x) simp_all

lemma keepsE_let [keepsE_intros]: "keepsE I (f x) \<Longrightarrow> keepsE I (Let x f)"
  by simp

text \<open>Running a list of operations from a state.\<close>

fun run_with :: "('o \<Rightarrow> 's \<Rightarrow> 's) \<Rightarrow> 'o list \<Rightarrow> 's \<Rightarrow> 's" where
  "run_with step [] s = s"
| "run_with step (x # xs) s = run_with step xs (step x s)"

lemma run_with_keeps: "(\<And>x s. P x \<Longrightarrow> I s \<Longrightarrow> I (step x s)) \<Longrightarrow> list_all P xs \<Longrightarrow> I s \<Longrightarrow> I (run_with step xs s)"
  by (induction xs arbitrary: s) auto

lemma run_with_append: "run_with step (xs @ ys) s = run_with step ys (run_with step xs s)"
  by (induction xs arbitrary: s) auto

end
