(* ===== verification/Registry.thy ===== *)
theory Registry
  imports Telemetry Effects
begin

text \<open>
  observer/registry.ts: the Agent Registry. Its ports are parameters of the state: the clock and
  the capability issuer are streams of what successive calls return, the persistence port says
  for each save whether it throws and records what it was asked to save. A transport is the identity of a
  connection object (a number). Maps keep their insertion order.
\<close>

definition OBSERVER_HEARTBEAT_INTERVAL_MS :: int where "OBSERVER_HEARTBEAT_INTERVAL_MS = 5000"
definition OBSERVER_LEASE_DURATION_MS :: int where "OBSERVER_LEASE_DURATION_MS = 15000"
definition OBSERVER_MAX_SESSIONS :: nat where "OBSERVER_MAX_SESSIONS = 64"
definition OBSERVER_DEDUP_LIMIT :: nat where "OBSERVER_DEDUP_LIMIT = 256"
definition event_log_limit :: nat where "event_log_limit = 128"

datatype purpose = Observed_purpose | Connection_purpose | Challenge_purpose

datatype registry_event_type =
  Registered | Reconnected | Heartbeat | Lifecycle_event | Closed_event | Expired

record registry_event =
  re_revision :: int
  re_type :: registry_event_type
  re_observedSessionId :: jstr
  re_lifecycle :: observer_lifecycle
  re_activity :: observer_activity
  re_availability :: observer_availability
  re_health :: observer_health

record session_agent =
  sa_observedSessionId :: jstr
  sa_lifecycle :: observer_lifecycle
  sa_activity :: observer_activity
  sa_availability :: observer_availability
  sa_health :: observer_health
  sa_registryRevision :: int

record observed_snapshot =
  os_observerRevision :: int
  os_agents :: "session_agent list"

record observed_session =
  ss_observedSessionId :: jstr
  ss_processIncarnationId :: jstr
  ss_piSessionId :: jstr
  ss_extensionInstanceId :: jstr
  ss_connection :: "nat option"
  ss_connectionId :: jstr
  ss_connectionChallenge :: jstr
  ss_attempt :: int
  ss_sequence :: int
  ss_lifecycle :: observer_lifecycle
  ss_activity :: observer_activity
  ss_health :: observer_health
  ss_availability :: observer_availability
  ss_leaseUntil :: int
  ss_revision :: int
  ss_dedup :: "(jstr \<times> jstr \<times> observed_record) list"

record high_water =
  hw_attempt :: int
  hw_sequence :: int

record registry =
  rg_node :: jstr
  rg_sessions :: "(jstr \<times> observed_session) list"
  rg_highWater :: "(jstr \<times> high_water) list"
  rg_issued :: "jstr list"
  rg_eventLog :: "registry_event list"
  rg_revision :: int
  rg_clock :: "nat \<Rightarrow> int"
  rg_reads :: nat
  rg_issuer :: "nat \<Rightarrow> purpose \<Rightarrow> jstr"
  rg_draws :: nat
  rg_save_throws :: "nat \<Rightarrow> bool"
  rg_saved :: "int list"

type_synonym 'a rg = "(observer_failure, registry, 'a) eff"

abbreviation fail_with :: "observer_code \<Rightarrow> 'a rg" where
  "fail_with c \<equiv> throwE (Observer_error c)"

definition new_registry ::
    "jstr \<Rightarrow> (nat \<Rightarrow> int) \<Rightarrow> (nat \<Rightarrow> purpose \<Rightarrow> jstr) \<Rightarrow> (nat \<Rightarrow> bool) \<Rightarrow> observer_failure + registry" where
  "new_registry node ticks issuer throws =
     (if \<not> ID_RE node then Inl (Observer_error Invalid_identity)
      else Inr \<lparr>rg_node = node, rg_sessions = [], rg_highWater = [], rg_issued = [], rg_eventLog = [],
        rg_revision = 0, rg_clock = ticks, rg_reads = 0, rg_issuer = issuer, rg_draws = 0,
        rg_save_throws = throws, rg_saved = []\<rparr>)"

definition extensionKey :: "jstr \<Rightarrow> jstr \<Rightarrow> jstr \<Rightarrow> jstr" where
  "extensionKey processIncarnationId piSessionId extensionInstanceId =
     processIncarnationId @ 124 # piSessionId @ 124 # extensionInstanceId"

definition session_key :: "observed_session \<Rightarrow> jstr" where
  "session_key s = extensionKey (ss_processIncarnationId s) (ss_piSessionId s) (ss_extensionInstanceId s)"

section \<open>Internals\<close>

definition clock_now :: "int rg" where
  "clock_now r = (Inr (rg_clock r (rg_reads r)), r\<lparr>rg_reads := Suc (rg_reads r)\<rparr>)"

definition draw :: "purpose \<Rightarrow> jstr rg" where
  "draw purpose r = (Inr (rg_issuer r (rg_draws r) purpose), r\<lparr>rg_draws := Suc (rg_draws r)\<rparr>)"

definition issueCapability :: "purpose \<Rightarrow> jstr rg" where
  "issueCapability purpose =
     bindE (draw purpose) (\<lambda>v.
     bindE (getE rg_issued) (\<lambda>issued.
     thenE (requireE (ID_RE v \<and> 32 \<le> length v \<and> v \<notin> set issued) (Observer_error Invalid_identity))
    (thenE (modifyE (\<lambda>r. r\<lparr>rg_issued := rg_issued r @ [v]\<rparr>))
           (retE v))))"

definition save :: "int \<Rightarrow> unit rg" where
  "save n r =
     (if rg_save_throws r (length (rg_saved r)) then (Inl Port_error, r\<lparr>rg_saved := rg_saved r @ [n]\<rparr>)
      else (Inr (), r\<lparr>rg_saved := rg_saved r @ [n]\<rparr>))"

definition advanceRevision :: "int rg" where
  "advanceRevision =
     bindE (getE rg_revision) (\<lambda>current.
     thenE (requireE (current < MAX_SAFE_INTEGER) (Observer_error Invalid_sequence))
    (thenE (save (current + 1))
    (thenE (modifyE (\<lambda>r. r\<lparr>rg_revision := current + 1\<rparr>))
           (retE (current + 1)))))"

text \<open>A session object is found under its key and changed in place.\<close>

definition put_session :: "jstr \<Rightarrow> observed_session \<Rightarrow> unit rg" where
  "put_session key s = modifyE (\<lambda>r. r\<lparr>rg_sessions := assoc_put key s (rg_sessions r)\<rparr>)"

definition put_highWater :: "jstr \<Rightarrow> int \<Rightarrow> int \<Rightarrow> unit rg" where
  "put_highWater key attempt sequence =
     modifyE (\<lambda>r. r\<lparr>rg_highWater :=
       assoc_put key \<lparr>hw_attempt = attempt, hw_sequence = sequence\<rparr> (rg_highWater r)\<rparr>)"

definition updateSourceHighWater :: "observed_session \<Rightarrow> unit rg" where
  "updateSourceHighWater s = put_highWater (session_key s) (ss_attempt s) (ss_sequence s)"

definition event_of :: "registry_event_type \<Rightarrow> observed_session \<Rightarrow> registry_event" where
  "event_of type s =
     \<lparr>re_revision = ss_revision s, re_type = type, re_observedSessionId = ss_observedSessionId s,
      re_lifecycle = ss_lifecycle s, re_activity = ss_activity s, re_availability = ss_availability s,
      re_health = ss_health s\<rparr>"

definition emit :: "registry_event_type \<Rightarrow> observed_session \<Rightarrow> unit rg" where
  "emit type s =
     modifyE (\<lambda>r. r\<lparr>rg_eventLog :=
       (if event_log_limit \<le> length (rg_eventLog r) then tl (rg_eventLog r) else rg_eventLog r) @ [event_of type s]\<rparr>)"

definition session_record :: "jstr \<Rightarrow> observed_session \<Rightarrow> observed_record" where
  "session_record node s =
     \<lparr>ob_observedSessionId = ss_observedSessionId s, ob_executionNodeId = node,
      ob_processIncarnationId = ss_processIncarnationId s, ob_piSessionId = ss_piSessionId s,
      ob_extensionInstanceId = ss_extensionInstanceId s, ob_lifecycle = ss_lifecycle s,
      ob_activity = ss_activity s, ob_availability = ss_availability s, ob_health = ss_health s,
      ob_registryRevision = ss_revision s\<rparr>"

text \<open>The fact object of a session has the members of its record, in the same order.\<close>

definition recordFor :: "observed_session \<Rightarrow> observed_record rg" where
  "recordFor s =
     bindE (getE rg_node) (\<lambda>node. liftE (buildObservedRecord (observed_facts (session_record node s))))"

definition is_current :: "nat \<Rightarrow> jstr \<Rightarrow> jstr \<Rightarrow> observed_session \<Rightarrow> bool" where
  "is_current connection connectionId challenge s \<longleftrightarrow>
     ss_connection s = Some connection \<and> ss_connectionId s = connectionId \<and> ss_connectionChallenge s = challenge"

definition resolveCurrent :: "nat \<Rightarrow> jstr \<Rightarrow> jstr \<Rightarrow> (jstr \<times> observed_session) rg" where
  "resolveCurrent connection connectionId challenge =
     bindE (getE (\<lambda>r. List.find (\<lambda>e. is_current connection connectionId challenge (snd e)) (rg_sessions r))) (\<lambda>found.
     case found of None \<Rightarrow> fail_with Connection_not_current | Some e \<Rightarrow> retE e)"

definition registered_body :: "jstr \<Rightarrow> observed_session \<Rightarrow> observer_registered" where
  "registered_body node s =
     \<lparr>od_observedSessionId = ss_observedSessionId s, od_executionNodeId = node,
      od_connectionId = ss_connectionId s, od_connectionChallenge = ss_connectionChallenge s,
      od_acceptedRegistrationAttempt = ss_attempt s, od_acceptedSourceSequence = ss_sequence s,
      od_heartbeatIntervalMs = OBSERVER_HEARTBEAT_INTERVAL_MS, od_leaseDurationMs = OBSERVER_LEASE_DURATION_MS,
      od_registryRevision = ss_revision s\<rparr>"

definition registeredEnvelope :: "observed_session \<Rightarrow> observer_registered rg" where
  "registeredEnvelope s = getE (\<lambda>r. registered_body (rg_node r) s)"

section \<open>Registration\<close>

definition check_highWater :: "high_water option \<Rightarrow> observer_register \<Rightarrow> unit rg" where
  "check_highWater accepted v =
     (case accepted of
        None \<Rightarrow> retE ()
      | Some h \<Rightarrow>
          thenE (requireE (hw_attempt h < og_registrationAttempt v) (Observer_error Stale_registration))
                (requireE (hw_sequence h < og_sourceSequence v) (Observer_error Invalid_sequence)))"

definition registration_key :: "observer_register \<Rightarrow> jstr" where
  "registration_key v = extensionKey (og_processIncarnationId v) (og_piSessionId v) (og_extensionInstanceId v)"

definition fresh_session :: "observer_register \<Rightarrow> nat \<Rightarrow> jstr \<Rightarrow> jstr \<Rightarrow> jstr \<Rightarrow> int \<Rightarrow> int \<Rightarrow> observed_session" where
  "fresh_session v connection observedSessionId connectionId challenge now revision =
     \<lparr>ss_observedSessionId = observedSessionId, ss_processIncarnationId = og_processIncarnationId v,
      ss_piSessionId = og_piSessionId v, ss_extensionInstanceId = og_extensionInstanceId v,
      ss_connection = Some connection, ss_connectionId = connectionId, ss_connectionChallenge = challenge,
      ss_attempt = og_registrationAttempt v, ss_sequence = og_sourceSequence v,
      ss_lifecycle = og_lifecycle v, ss_activity = og_activity v, ss_health = og_health v,
      ss_availability = Available, ss_leaseUntil = now + OBSERVER_LEASE_DURATION_MS,
      ss_revision = revision, ss_dedup = []\<rparr>"

definition reconnected_session ::
    "observed_session \<Rightarrow> observer_register \<Rightarrow> nat \<Rightarrow> jstr \<Rightarrow> jstr \<Rightarrow> int \<Rightarrow> int \<Rightarrow> observed_session" where
  "reconnected_session s v connection connectionId challenge now revision =
     s\<lparr>ss_connection := Some connection, ss_connectionId := connectionId, ss_connectionChallenge := challenge,
       ss_attempt := og_registrationAttempt v, ss_sequence := og_sourceSequence v,
       ss_lifecycle := og_lifecycle v, ss_activity := og_activity v, ss_health := og_health v,
       ss_availability := Available, ss_leaseUntil := now + OBSERVER_LEASE_DURATION_MS, ss_revision := revision\<rparr>"

text \<open>The rest of \<open>register\<close> once the registration is admitted.\<close>

definition open_session :: "nat \<Rightarrow> observer_register \<Rightarrow> observed_session option \<Rightarrow> observer_registered rg" where
  "open_session connection v existing =
     bindE (issueCapability Connection_purpose) (\<lambda>connectionId.
     bindE (issueCapability Challenge_purpose) (\<lambda>challenge.
     bindE (case existing of None \<Rightarrow> issueCapability Observed_purpose
            | Some s \<Rightarrow> retE (ss_observedSessionId s)) (\<lambda>observedSessionId.
     bindE advanceRevision (\<lambda>revision.
     thenE (put_highWater (registration_key v) (og_registrationAttempt v) (og_sourceSequence v))
    (bindE clock_now (\<lambda>now.
     case existing of
       Some s \<Rightarrow>
         let s' = reconnected_session s v connection connectionId challenge now revision
         in thenE (put_session (registration_key v) s') (thenE (emit Reconnected s') (registeredEnvelope s'))
     | None \<Rightarrow>
         let s' = fresh_session v connection observedSessionId connectionId challenge now revision
         in thenE (put_session (registration_key v) s') (thenE (emit Registered s') (registeredEnvelope s'))))))))"

definition register :: "nat \<Rightarrow> json option \<Rightarrow> observer_registered rg" where
  "register connection body =
     bindE (liftE (validateObserverRegister body)) (\<lambda>v.
     bindE (getE (\<lambda>r. map_of (rg_highWater r) (registration_key v))) (\<lambda>accepted.
     thenE (check_highWater accepted v)
    (bindE (getE (\<lambda>r. map_of (rg_sessions r) (registration_key v))) (\<lambda>existing.
     bindE (getE (\<lambda>r. length (rg_sessions r))) (\<lambda>size.
     thenE (requireE (existing \<noteq> None \<or> size < OBSERVER_MAX_SESSIONS) (Observer_error Session_limit))
           (open_session connection v existing))))))"

section \<open>Reports of a current session\<close>

definition heartbeat :: "nat \<Rightarrow> json option \<Rightarrow> observed_record rg" where
  "heartbeat connection body =
     bindE (liftE (validateObserverHeartbeat body)) (\<lambda>v.
     bindE (resolveCurrent connection (oh_connectionId v) (oh_connectionChallenge v)) (\<lambda>(key, s).
     thenE (requireE (ss_sequence s < oh_sourceSequence v) (Observer_error Invalid_sequence))
    (let changed = (ss_lifecycle s \<noteq> oh_lifecycle v \<or> ss_activity s \<noteq> oh_activity v \<or> ss_health s \<noteq> oh_health v)
     in bindE (if changed then advanceRevision else retE (ss_revision s)) (\<lambda>revision.
        bindE clock_now (\<lambda>now.
        let s' = s\<lparr>ss_sequence := oh_sourceSequence v, ss_lifecycle := oh_lifecycle v,
                   ss_activity := oh_activity v, ss_health := oh_health v,
                   ss_leaseUntil := now + OBSERVER_LEASE_DURATION_MS, ss_revision := revision\<rparr>
        in thenE (put_session key s')
          (thenE (updateSourceHighWater s')
          (thenE (if changed then emit Heartbeat s' else retE ())
                 (recordFor s'))))))))"

definition remember :: "jstr \<Rightarrow> jstr \<Rightarrow> observed_record \<Rightarrow> observed_session \<Rightarrow> observed_session" where
  "remember eventId bytes result s =
     s\<lparr>ss_dedup := assoc_put eventId (bytes, result)
         (if OBSERVER_DEDUP_LIMIT \<le> length (ss_dedup s) then tl (ss_dedup s) else ss_dedup s)\<rparr>"

definition lifecycle_bytes :: "observer_lifecycle_body \<Rightarrow> jstr" where
  "lifecycle_bytes v = stringify (JObj (observer_lifecycle_body_json v))"

definition lifecycle :: "nat \<Rightarrow> json option \<Rightarrow> observed_record rg" where
  "lifecycle connection body =
     bindE (liftE (validateObserverLifecycle body)) (\<lambda>v.
     bindE (resolveCurrent connection (ol_connectionId v) (ol_connectionChallenge v)) (\<lambda>(key, s).
     case map_of (ss_dedup s) (ol_eventId v) of
       Some (bytes, result) \<Rightarrow>
         if bytes = lifecycle_bytes v then retE result else fail_with Message_id_conflict
     | None \<Rightarrow>
         thenE (requireE (ss_sequence s < ol_sourceSequence v) (Observer_error Invalid_sequence))
        (bindE advanceRevision (\<lambda>revision.
         bindE clock_now (\<lambda>now.
         let s' = s\<lparr>ss_sequence := ol_sourceSequence v, ss_lifecycle := ol_lifecycle v,
                    ss_activity := ol_activity v, ss_health := ol_health v,
                    ss_leaseUntil := now + OBSERVER_LEASE_DURATION_MS, ss_revision := revision\<rparr>
         in thenE (put_session key s')
           (thenE (updateSourceHighWater s')
           (bindE (recordFor s') (\<lambda>result.
            let s'' = remember (ol_eventId v) (lifecycle_bytes v) result s'
            in thenE (put_session key s'') (thenE (emit Lifecycle_event s'') (retE result))))))))))"

definition close :: "nat \<Rightarrow> json option \<Rightarrow> observed_record rg" where
  "close connection body =
     bindE (liftE (validateObserverClose body)) (\<lambda>v.
     bindE (resolveCurrent connection (oc_connectionId v) (oc_connectionChallenge v)) (\<lambda>(key, s).
     thenE (requireE (ss_sequence s < oc_sourceSequence v) (Observer_error Invalid_sequence))
    (bindE advanceRevision (\<lambda>revision.
     let s' = s\<lparr>ss_sequence := oc_sourceSequence v, ss_connection := None,
                ss_availability := Unavailable, ss_revision := revision\<rparr>
     in thenE (put_session key s')
       (thenE (updateSourceHighWater s')
       (thenE (emit Closed_event s')
              (recordFor s')))))))"

definition transportClosed :: "nat \<Rightarrow> observed_record option rg" where
  "transportClosed connection =
     bindE (getE (\<lambda>r. List.find (\<lambda>e. ss_connection (snd e) = Some connection) (rg_sessions r))) (\<lambda>found.
     case found of
       None \<Rightarrow> retE None
     | Some (key, s) \<Rightarrow>
         bindE advanceRevision (\<lambda>revision.
         let s' = s\<lparr>ss_connection := None, ss_availability := Unavailable, ss_revision := revision\<rparr>
         in thenE (put_session key s')
           (thenE (emit Closed_event s')
           (bindE (recordFor s') (\<lambda>record. retE (Some record))))))"

definition expire_one :: "int \<Rightarrow> jstr \<times> observed_session \<Rightarrow> unit rg" where
  "expire_one now e =
     (if ss_leaseUntil (snd e) \<le> now
      then bindE advanceRevision (\<lambda>revision.
           thenE (modifyE (\<lambda>r. r\<lparr>rg_sessions := assoc_del (fst e) (rg_sessions r)\<rparr>))
                 (emit Expired ((snd e)\<lparr>ss_revision := revision\<rparr>)))
      else retE ())"

definition expire :: "unit rg" where
  "expire =
     bindE clock_now (\<lambda>now.
     bindE (getE rg_sessions) (\<lambda>sessions.
     eachE (expire_one now) sessions))"

section \<open>Reading and restarting\<close>

definition agent_of :: "observed_session \<Rightarrow> session_agent" where
  "agent_of s =
     \<lparr>sa_observedSessionId = ss_observedSessionId s, sa_lifecycle = ss_lifecycle s, sa_activity = ss_activity s,
      sa_availability = ss_availability s, sa_health = ss_health s, sa_registryRevision = ss_revision s\<rparr>"

definition registry_snapshot :: "registry \<Rightarrow> observed_snapshot" where
  "registry_snapshot r =
     \<lparr>os_observerRevision = rg_revision r, os_agents = map (\<lambda>e. agent_of (snd e)) (rg_sessions r)\<rparr>"

definition getObserved :: "jstr \<Rightarrow> observed_record option rg" where
  "getObserved observedSessionId =
     bindE (getE (\<lambda>r. List.find (\<lambda>e. ss_observedSessionId (snd e) = observedSessionId) (rg_sessions r))) (\<lambda>found.
     case found of
       None \<Rightarrow> retE None
     | Some e \<Rightarrow> bindE (recordFor (snd e)) (\<lambda>record. retE (Some record)))"

definition isCurrentConnection :: "nat \<Rightarrow> jstr \<Rightarrow> jstr \<Rightarrow> registry \<Rightarrow> bool" where
  "isCurrentConnection connection connectionId challenge r \<longleftrightarrow>
     list_ex (\<lambda>e. is_current connection connectionId challenge (snd e)) (rg_sessions r)"

text \<open>
  \<open>reconstruct\<close> takes the value that the persistence port loads, already converted: the safe
  integer that \<open>Number(persisted.observerRevision)\<close> gives, or \<open>None\<close> for anything else.
\<close>

definition reconstruct :: "int option \<Rightarrow> registry \<Rightarrow> registry" where
  "reconstruct persisted r =
     (let r' = r\<lparr>rg_sessions := [], rg_highWater := [], rg_eventLog := []\<rparr>
      in case persisted of
           None \<Rightarrow> r'
         | Some base \<Rightarrow> if rg_revision r < base then r'\<lparr>rg_revision := base\<rparr> else r')"

datatype registry_op =
    Register nat "json option"
  | Heartbeat_op nat "json option"
  | Lifecycle_op nat "json option"
  | Close_op nat "json option"
  | Transport_closed nat
  | Expire_op
  | Reconstruct_op "int option"

fun registry_step :: "registry_op \<Rightarrow> registry \<Rightarrow> registry" where
  "registry_step (Register c b) r = snd (register c b r)"
| "registry_step (Heartbeat_op c b) r = snd (heartbeat c b r)"
| "registry_step (Lifecycle_op c b) r = snd (lifecycle c b r)"
| "registry_step (Close_op c b) r = snd (close c b r)"
| "registry_step (Transport_closed c) r = snd (transportClosed c r)"
| "registry_step Expire_op r = snd (expire r)"
| "registry_step (Reconstruct_op p) r = reconstruct p r"

definition registry_run :: "registry_op list \<Rightarrow> registry \<Rightarrow> registry" where
  "registry_run = run_with registry_step"

end
