(* ===== verification/RegistryInvariant.thy ===== *)
theory RegistryInvariant
  imports Registry
begin

text \<open>
  The invariant of the agent registry and what only grows while it runs; every operation keeps
  the one and follows the other, however it ends (\<open>keeps_registry\<close>).
\<close>

section \<open>The invariant of a registry\<close>

text \<open>The capabilities a session holds: they identify it, and no two sessions share one.\<close>

definition capabilities :: "observed_session \<Rightarrow> jstr set" where
  "capabilities s = {ss_observedSessionId s, ss_connectionId s, ss_connectionChallenge s}"

definition session_ok :: "registry \<Rightarrow> jstr \<Rightarrow> observed_session \<Rightarrow> bool" where
  "session_ok r key s \<longleftrightarrow>
     key = session_key s \<and> ID_RE (ss_observedSessionId s) \<and> ID_RE (ss_processIncarnationId s) \<and>
     ID_RE (ss_piSessionId s) \<and> ID_RE (ss_extensionInstanceId s) \<and>
     1 \<le> ss_revision s \<and> ss_revision s \<le> rg_revision r \<and>
     map_of (rg_highWater r) key = Some \<lparr>hw_attempt = ss_attempt s, hw_sequence = ss_sequence s\<rparr> \<and>
     capabilities s \<subseteq> set (rg_issued r) \<and> length (ss_dedup s) \<le> OBSERVER_DEDUP_LIMIT \<and>
     distinct (map fst (ss_dedup s))"

definition log_ok_rg :: "registry \<Rightarrow> bool" where
  "log_ok_rg r \<longleftrightarrow>
     sorted_wrt (<) (map re_revision (rg_eventLog r)) \<and> length (rg_eventLog r) \<le> event_log_limit \<and>
     (\<forall>e \<in> set (rg_eventLog r). re_revision e \<le> rg_revision r)"

definition registry_ok :: "registry \<Rightarrow> bool" where
  "registry_ok r \<longleftrightarrow>
     ID_RE (rg_node r) \<and> 0 \<le> rg_revision r \<and> rg_revision r \<le> MAX_SAFE_INTEGER \<and>
     distinct (map fst (rg_sessions r)) \<and> length (rg_sessions r) \<le> OBSERVER_MAX_SESSIONS \<and>
     (\<forall>e \<in> set (rg_sessions r). session_ok r (fst e) (snd e)) \<and>
     (\<forall>e \<in> set (rg_sessions r). \<forall>e' \<in> set (rg_sessions r).
        fst e \<noteq> fst e' \<longrightarrow> capabilities (snd e) \<inter> capabilities (snd e') = {}) \<and>
     log_ok_rg r"

text \<open>What only grows while a registry runs: its revision, what it issued, its high-water marks.\<close>

definition later :: "registry \<Rightarrow> registry \<Rightarrow> bool" where
  "later r r' \<longleftrightarrow>
     rg_node r' = rg_node r \<and> rg_revision r \<le> rg_revision r' \<and> set (rg_issued r) \<subseteq> set (rg_issued r') \<and>
     (\<forall>key h. map_of (rg_highWater r) key = Some h \<longrightarrow>
        (\<exists>h'. map_of (rg_highWater r') key = Some h' \<and>
           hw_attempt h \<le> hw_attempt h' \<and> hw_sequence h \<le> hw_sequence h'))"

lemma later_refl [simp]: "later r r"
  by (simp add: later_def)

lemma later_trans:
  assumes "later a b" "later b c"
  shows "later a c"
proof -
  have "\<exists>h'. map_of (rg_highWater c) key = Some h' \<and> hw_attempt h \<le> hw_attempt h' \<and> hw_sequence h \<le> hw_sequence h'"
    if a: "map_of (rg_highWater a) key = Some h" for key h
  proof -
    obtain h1 where 1: "map_of (rg_highWater b) key = Some h1" "hw_attempt h \<le> hw_attempt h1" "hw_sequence h \<le> hw_sequence h1"
      using assms(1) a unfolding later_def by blast
    obtain h2 where 2: "map_of (rg_highWater c) key = Some h2" "hw_attempt h1 \<le> hw_attempt h2" "hw_sequence h1 \<le> hw_sequence h2"
      using assms(2) 1(1) unfolding later_def by blast
    show ?thesis using 1 2 by auto
  qed
  with assms show ?thesis by (auto simp: later_def)
qed

definition ok_later :: "registry \<Rightarrow> registry \<Rightarrow> bool" where
  "ok_later r r' \<longleftrightarrow> registry_ok r' \<and> later r r'"

text \<open>The fields that the invariant and \<open>later\<close> do not read.\<close>

definition same_registry :: "registry \<Rightarrow> registry \<Rightarrow> bool" where
  "same_registry r r' \<longleftrightarrow>
     rg_node r' = rg_node r \<and> rg_sessions r' = rg_sessions r \<and> rg_highWater r' = rg_highWater r \<and>
     rg_eventLog r' = rg_eventLog r"

lemma session_ok_grow:
  "session_ok r key s \<Longrightarrow> rg_revision r \<le> rg_revision r' \<Longrightarrow> set (rg_issued r) \<subseteq> set (rg_issued r') \<Longrightarrow>
   map_of (rg_highWater r') key = map_of (rg_highWater r) key \<Longrightarrow> session_ok r' key s"
  by (auto simp: session_ok_def)

lemma ok_same:
  "registry_ok r \<Longrightarrow> same_registry r r' \<Longrightarrow> rg_revision r \<le> rg_revision r' \<Longrightarrow>
   rg_revision r' \<le> MAX_SAFE_INTEGER \<Longrightarrow> set (rg_issued r) \<subseteq> set (rg_issued r') \<Longrightarrow> ok_later r r'"
  by (auto simp: ok_later_def registry_ok_def same_registry_def later_def log_ok_rg_def intro: session_ok_grow order_trans)

text \<open>Replacing or adding one session.\<close>

lemma ok_put:
  assumes ok: "registry_ok r"
    and r': "rg_node r' = rg_node r" "rg_sessions r' = assoc_put key s (rg_sessions r)"
      "rg_revision r \<le> rg_revision r'" "rg_revision r' \<le> MAX_SAFE_INTEGER" "set (rg_issued r) \<subseteq> set (rg_issued r')"
    and hw: "map_of (rg_highWater r') = (map_of (rg_highWater r))(key \<mapsto> h)"
      "\<And>h0. map_of (rg_highWater r) key = Some h0 \<Longrightarrow> hw_attempt h0 \<le> hw_attempt h \<and> hw_sequence h0 \<le> hw_sequence h"
    and s: "session_ok r' key s"
    and new: "\<And>e. e \<in> set (rg_sessions r) \<Longrightarrow> fst e \<noteq> key \<Longrightarrow> capabilities (snd e) \<inter> capabilities s = {}"
    and size: "length (rg_sessions r') \<le> OBSERVER_MAX_SESSIONS"
    and log: "log_ok_rg r'"
  shows "ok_later r r'"
  unfolding ok_later_def
proof
  have d: "distinct (map fst (rg_sessions r))" using ok by (simp add: registry_ok_def)
  have set: "set (rg_sessions r') = {e \<in> set (rg_sessions r). fst e \<noteq> key} \<union> {(key, s)}"
    using set_assoc_put [OF d] r'(2) by simp
  have "session_ok r' (fst e) (snd e)" if "e \<in> set (rg_sessions r')" for e
  proof (cases "fst e = key")
    case True
    then have "e = (key, s)" using that set by auto
    then show ?thesis using s by simp
  next
    case False
    then have "e \<in> set (rg_sessions r)" using that set by auto
    then have "session_ok r (fst e) (snd e)" using ok unfolding registry_ok_def by blast
    moreover have "map_of (rg_highWater r') (fst e) = map_of (rg_highWater r) (fst e)" using hw(1) False by simp
    ultimately show ?thesis by (rule session_ok_grow [OF _ r'(3,5)])
  qed
  moreover have "capabilities (snd e) \<inter> capabilities (snd e') = {}"
    if "e \<in> set (rg_sessions r')" "e' \<in> set (rg_sessions r')" "fst e \<noteq> fst e'" for e e'
  proof -
    have old: "capabilities (snd x) \<inter> capabilities (snd y) = {}"
      if "x \<in> set (rg_sessions r)" "y \<in> set (rg_sessions r)" "fst x \<noteq> fst y" for x y
      using ok that unfolding registry_ok_def by blast
    have mem: "x = (key, s) \<or> x \<in> set (rg_sessions r) \<and> fst x \<noteq> key" if "x \<in> set (rg_sessions r')" for x
      using that unfolding set by blast
    note in_new = mem [OF that(1)] mem [OF that(2)] that(3)
    then consider "e = (key, s)" "e' \<in> set (rg_sessions r)" "fst e' \<noteq> key"
      | "e' = (key, s)" "e \<in> set (rg_sessions r)" "fst e \<noteq> key"
      | "e \<in> set (rg_sessions r)" "e' \<in> set (rg_sessions r)"
      by fastforce
    then show ?thesis
    proof cases
      case 1
      then show ?thesis using new [of e'] by (simp add: Int_commute)
    next
      case 2
      then show ?thesis using new [of e] by simp
    next
      case 3
      then show ?thesis using that(3) by (intro old)
    qed
  qed
  ultimately show "registry_ok r'"
    using ok r' d log size distinct_assoc_put [OF d, of key s] by (simp add: registry_ok_def)
  show "later r r'" unfolding later_def
  proof (intro conjI allI impI)
    fix k h0 assume a: "map_of (rg_highWater r) k = Some h0"
    show "\<exists>h'. map_of (rg_highWater r') k = Some h' \<and> hw_attempt h0 \<le> hw_attempt h' \<and> hw_sequence h0 \<le> hw_sequence h'"
      using a hw by (cases "k = key") auto
  qed (use r' in auto)
qed

section \<open>The primitives\<close>

lemma wpE_clock_now [wpE_simps]:
  "wpE clock_now Q E r = Q (rg_clock r (rg_reads r)) (r\<lparr>rg_reads := Suc (rg_reads r)\<rparr>)"
  by (simp add: wpE_def clock_now_def)

lemma wpE_put_session [wpE_simps]:
  "wpE (put_session key s) U E r = U () (r\<lparr>rg_sessions := assoc_put key s (rg_sessions r)\<rparr>)"
  by (simp add: put_session_def wpE_simps)

lemma wpE_updateSourceHighWater [wpE_simps]:
  "wpE (updateSourceHighWater s) U E r =
     U () (r\<lparr>rg_highWater := assoc_put (session_key s) \<lparr>hw_attempt = ss_attempt s, hw_sequence = ss_sequence s\<rparr> (rg_highWater r)\<rparr>)"
  by (simp add: updateSourceHighWater_def put_highWater_def wpE_simps)

lemma wpE_emit [wpE_simps]:
  "wpE (emit type s) U E r =
     U () (r\<lparr>rg_eventLog := (if event_log_limit \<le> length (rg_eventLog r) then tl (rg_eventLog r) else rg_eventLog r) @ [event_of type s]\<rparr>)"
  by (simp add: emit_def wpE_simps)

lemma wpE_draw [wpE_simps]:
  "wpE (draw purpose) Q E r = Q (rg_issuer r (rg_draws r) purpose) (r\<lparr>rg_draws := Suc (rg_draws r)\<rparr>)"
  by (simp add: wpE_def draw_def)

lemma wpE_save [wpE_simps]:
  "wpE (save n) U E r =
     (if rg_save_throws r (length (rg_saved r)) then E Port_error (r\<lparr>rg_saved := rg_saved r @ [n]\<rparr>)
      else U () (r\<lparr>rg_saved := rg_saved r @ [n]\<rparr>))"
  by (simp add: wpE_def save_def)

lemma wpE_issueCapability:
  "wpE (issueCapability purpose) Q E r =
     (let v = rg_issuer r (rg_draws r) purpose; r1 = r\<lparr>rg_draws := Suc (rg_draws r)\<rparr>
      in if ID_RE v \<and> 32 \<le> length v \<and> v \<notin> set (rg_issued r) then Q v (r1\<lparr>rg_issued := rg_issued r @ [v]\<rparr>)
         else E (Observer_error Invalid_identity) r1)"
  by (simp add: issueCapability_def wpE_simps Let_def)

lemma wpE_advanceRevision [wpE_simps]:
  "wpE advanceRevision Q E r =
     (if rg_revision r < MAX_SAFE_INTEGER
      then let r1 = r\<lparr>rg_saved := rg_saved r @ [rg_revision r + 1]\<rparr>
           in if rg_save_throws r (length (rg_saved r)) then E Port_error r1
              else Q (rg_revision r + 1) (r1\<lparr>rg_revision := rg_revision r + 1\<rparr>)
      else E (Observer_error Invalid_sequence) r)"
  by (simp add: advanceRevision_def wpE_simps Let_def)

lemma wpE_issueI:
  assumes "E (Observer_error Invalid_identity) (r\<lparr>rg_draws := Suc (rg_draws r)\<rparr>)"
    and "\<And>v. ID_RE v \<Longrightarrow> v \<notin> set (rg_issued r) \<Longrightarrow> Q v (r\<lparr>rg_draws := Suc (rg_draws r), rg_issued := rg_issued r @ [v]\<rparr>)"
  shows "wpE (issueCapability purpose) Q E r"
  using assms by (simp add: wpE_issueCapability Let_def)

lemma wpE_recordFor [wpE_simps]:
  "wpE (recordFor s) Q E r =
     (case buildObservedRecord (observed_facts (session_record (rg_node r) s)) of Inl e \<Rightarrow> E e r | Inr x \<Rightarrow> Q x r)"
  by (simp add: recordFor_def wpE_simps)

lemma wpE_registeredEnvelope [wpE_simps]: "wpE (registeredEnvelope s) T E r = T (registered_body (rg_node r) s) r"
  by (simp add: registeredEnvelope_def wpE_simps)

lemma record_builds:
  assumes "registry_ok r" "session_ok r key s"
  shows "buildObservedRecord (observed_facts (session_record (rg_node r) s)) = Inr (session_record (rg_node r) s)"
  using assms by (intro buildObservedRecord_complete)
    (simp add: observed_record_ok_def session_record_def registry_ok_def session_ok_def)

lemma log_emit:
  assumes "log_ok_rg r" "rg_revision r < rg_revision r'" "re_revision ev = rg_revision r'"
    "rg_eventLog r' = (if event_log_limit \<le> length (rg_eventLog r) then tl (rg_eventLog r) else rg_eventLog r) @ [ev]"
  shows "log_ok_rg r'"
proof -
  define old where "old = (if event_log_limit \<le> length (rg_eventLog r) then tl (rg_eventLog r) else rg_eventLog r)"
  have "sorted_wrt (<) (map re_revision old) \<and> length old < event_log_limit \<and> (\<forall>e \<in> set old. re_revision e \<le> rg_revision r)"
    using assms(1) by (cases "rg_eventLog r") (auto simp: log_ok_rg_def old_def event_log_limit_def)
  with assms(2-4) show ?thesis
    unfolding log_ok_rg_def old_def [symmetric] by (fastforce simp: sorted_wrt_append)
qed

lemma split_bar: "x \<notin> set a \<Longrightarrow> x \<notin> set a' \<Longrightarrow> a @ x # b = a' @ x # b' \<Longrightarrow> a = a' \<and> b = b'"
proof (induction a arbitrary: a')
  case Nil
  then show ?case by (cases a') auto
next
  case (Cons y ys)
  then show ?case by (cases a') auto
qed

lemma no_bar: "ID_RE s \<Longrightarrow> 124 \<notin> set s"
proof -
  assume "ID_RE s"
  then have "list_all (\<lambda>c. c \<noteq> 124) s" unfolding ID_RE_def
    by (rule matches_head_tail_all) (auto simp: id_tail_def char_class_defs)
  then show ?thesis by (auto simp: list_all_iff)
qed

lemma key_inject:
  assumes "ID_RE a" "ID_RE b" "ID_RE a'" "ID_RE b'" "extensionKey a b c = extensionKey a' b' c'"
  shows "a = a' \<and> b = b' \<and> c = c'"
  using split_bar [OF no_bar [OF assms(1)] no_bar [OF assms(3)]] split_bar [OF no_bar [OF assms(2)] no_bar [OF assms(4)]]
    assms(5) unfolding extensionKey_def by blast

section \<open>Every operation keeps the invariant and only moves forward\<close>

lemma session_in:
  "registry_ok r \<Longrightarrow> map_of (rg_sessions r) key = Some s \<Longrightarrow> session_ok r key s"
  by (auto simp: registry_ok_def dest!: map_of_SomeD)

lemma found_in:
  "registry_ok r \<Longrightarrow> List.find P (rg_sessions r) = Some (key, s) \<Longrightarrow>
   map_of (rg_sessions r) key = Some s \<and> session_ok r key s \<and> P (key, s)"
  by (auto simp: registry_ok_def dest!: find_Some_in)

text \<open>
  The state a call leaves when it changed one session: the session keeps its identity, holds
  no capability of another session, and its marks do not fall.
\<close>

lemma ok_update:
  assumes ok: "registry_ok r" and old: "map_of (rg_sessions r) key = Some s"
    and r': "rg_node r' = rg_node r" "rg_sessions r' = assoc_put key s' (rg_sessions r)"
      "rg_revision r \<le> rg_revision r'" "rg_revision r' \<le> MAX_SAFE_INTEGER" "set (rg_issued r) \<subseteq> set (rg_issued r')"
    and hw: "map_of (rg_highWater r') = (map_of (rg_highWater r))(key \<mapsto> \<lparr>hw_attempt = ss_attempt s', hw_sequence = ss_sequence s'\<rparr>)"
    and up: "ss_attempt s \<le> ss_attempt s'" "ss_sequence s \<le> ss_sequence s'"
    and s': "session_ok r' key s'" and caps: "capabilities s' \<subseteq> capabilities s \<union> (- set (rg_issued r))"
    and log: "log_ok_rg r'"
  shows "ok_later r r'"
proof (rule ok_put [OF ok r'(1,2,3,4,5) hw _ s' _ _ log])
  have so: "session_ok r key s" by (rule session_in [OF ok old])
  show "hw_attempt h0 \<le> hw_attempt \<lparr>hw_attempt = ss_attempt s', hw_sequence = ss_sequence s'\<rparr> \<and>
      hw_sequence h0 \<le> hw_sequence \<lparr>hw_attempt = ss_attempt s', hw_sequence = ss_sequence s'\<rparr>"
    if "map_of (rg_highWater r) key = Some h0" for h0
    using that so up by (simp add: session_ok_def)
  show "capabilities (snd e) \<inter> capabilities s' = {}" if "e \<in> set (rg_sessions r)" "fst e \<noteq> key" for e
  proof -
    have "capabilities (snd e) \<inter> capabilities s = {}"
      using ok that map_of_SomeD [OF old] unfolding registry_ok_def by fastforce
    moreover have "capabilities (snd e) \<subseteq> set (rg_issued r)"
      using ok that(1) by (auto simp: registry_ok_def session_ok_def)
    ultimately show ?thesis using caps by blast
  qed
  have "key \<in> fst ` set (rg_sessions r)" using map_of_SomeD [OF old] by force
  then show "length (rg_sessions r') \<le> OBSERVER_MAX_SESSIONS"
    using ok r'(2) by (simp add: length_assoc_put registry_ok_def)
qed

definition same_session :: "observed_session \<Rightarrow> observed_session \<Rightarrow> bool" where
  "same_session s s' \<longleftrightarrow>
     ss_observedSessionId s' = ss_observedSessionId s \<and> ss_processIncarnationId s' = ss_processIncarnationId s \<and>
     ss_piSessionId s' = ss_piSessionId s \<and> ss_extensionInstanceId s' = ss_extensionInstanceId s"

lemma assoc_put_twice [simp]: "assoc_put k v (assoc_put k v' m) = assoc_put k v m"
  by (induction k v' m rule: assoc_put.induct) auto

lemma ok_report:
  assumes ok: "registry_ok r" and old: "map_of (rg_sessions r) key = Some s"
    and r': "rg_node r' = rg_node r" "rg_sessions r' = assoc_put key s' (rg_sessions r)"
      "rg_revision r' = rg_revision r + 1" "rg_revision r < MAX_SAFE_INTEGER" "set (rg_issued r) \<subseteq> set (rg_issued r')"
    and hw: "map_of (rg_highWater r') = (map_of (rg_highWater r))(key \<mapsto> \<lparr>hw_attempt = ss_attempt s', hw_sequence = ss_sequence s'\<rparr>)"
    and s': "same_session s s'" "ss_attempt s \<le> ss_attempt s'" "ss_sequence s \<le> ss_sequence s'"
      "ss_revision s' = rg_revision r + 1"
      "capabilities s' \<subseteq> set (rg_issued r')" "capabilities s' \<subseteq> capabilities s \<union> (- set (rg_issued r))"
    and dedup: "length (ss_dedup s') \<le> OBSERVER_DEDUP_LIMIT" "distinct (map fst (ss_dedup s'))"
    and log: "rg_eventLog r' =
      (if event_log_limit \<le> length (rg_eventLog r) then tl (rg_eventLog r) else rg_eventLog r) @ [event_of type s']"
  shows "ok_later r r'"
proof (rule ok_update [OF ok old r'(1,2) _ _ r'(5) hw s'(2,3) _ s'(6)])
  have so: "session_ok r key s" by (rule session_in [OF ok old])
  show "session_ok r' key s'"
    using so s' dedup r' hw ok by (simp add: session_ok_def same_session_def session_key_def registry_ok_def)
  show "log_ok_rg r'" using ok r' log s'(4) by (intro log_emit [of r r' "event_of type s'"])
    (simp_all add: registry_ok_def event_of_def)
qed (use r' in simp_all)

text \<open>A session that was changed without a new revision.\<close>

lemma ok_refresh:
  assumes ok: "registry_ok r" and old: "map_of (rg_sessions r) key = Some s"
    and r': "rg_node r' = rg_node r" "rg_sessions r' = assoc_put key s' (rg_sessions r)"
      "rg_revision r' = rg_revision r" "rg_issued r' = rg_issued r" "rg_eventLog r' = rg_eventLog r"
    and hw: "map_of (rg_highWater r') = (map_of (rg_highWater r))(key \<mapsto> \<lparr>hw_attempt = ss_attempt s', hw_sequence = ss_sequence s'\<rparr>)"
    and s': "same_session s s'" "ss_attempt s \<le> ss_attempt s'" "ss_sequence s \<le> ss_sequence s'"
      "ss_revision s' = ss_revision s" "capabilities s' = capabilities s" "ss_dedup s' = ss_dedup s"
  shows "ok_later r r'"
proof (rule ok_update [OF ok old r'(1,2) _ _ _ hw s'(2,3)])
  have so: "session_ok r key s" by (rule session_in [OF ok old])
  show "session_ok r' key s'"
    using so s' r' hw by (simp add: session_ok_def same_session_def session_key_def)
  show "log_ok_rg r'" using ok r' by (simp add: registry_ok_def log_ok_rg_def)
qed (use ok r' s' in \<open>simp_all add: registry_ok_def\<close>)

definition keeps_registry :: "'a rg \<Rightarrow> bool" where
  "keeps_registry m \<longleftrightarrow> (\<forall>r. registry_ok r \<longrightarrow> wpE m (\<lambda>_. ok_later r) (\<lambda>_. ok_later r) r)"

lemma keeps_registryI: "(\<And>r. registry_ok r \<Longrightarrow> wpE m (\<lambda>_. ok_later r) (\<lambda>_. ok_later r) r) \<Longrightarrow> keeps_registry m"
  by (simp add: keeps_registry_def)

text \<open>Resolving the current session of a connection, once for the three reports.\<close>

lemma wpE_resolveCurrent:
  assumes "registry_ok r" and "E (Observer_error Connection_not_current) r"
    and "\<And>key s. map_of (rg_sessions r) key = Some s \<Longrightarrow> session_ok r key s \<Longrightarrow> session_key s = key \<Longrightarrow>
      is_current c i x s \<Longrightarrow> Q (key, s) r"
  shows "wpE (resolveCurrent c i x) Q E r"
proof (cases "List.find (\<lambda>e. is_current c i x (snd e)) (rg_sessions r)")
  case (Some e)
  obtain key s where e: "e = (key, s)" by (cases e)
  from found_in [OF assms(1) Some [unfolded e]] have "Q (key, s) r"
    by (intro assms(3)) (auto simp: session_ok_def)
  then show ?thesis using Some e by (simp add: resolveCurrent_def wpE_simps)
qed (use assms(2) in \<open>simp add: resolveCurrent_def wpE_simps\<close>)

lemma ok_saved: "registry_ok r \<Longrightarrow> ok_later r (r\<lparr>rg_saved := x\<rparr>)"
  by (rule ok_same) (simp_all add: same_registry_def registry_ok_def)

lemma ok_self: "registry_ok r \<Longrightarrow> ok_later r r"
  by (simp add: ok_later_def)

lemma session_dedup: "session_ok r key s \<Longrightarrow> length (ss_dedup s) \<le> OBSERVER_DEDUP_LIMIT \<and> distinct (map fst (ss_dedup s))"
  by (simp add: session_ok_def)

lemma session_capabilities: "session_ok r key s \<Longrightarrow> capabilities s \<subseteq> set (rg_issued r)"
  by (simp add: session_ok_def)

lemma session_water:
  "session_ok r key s \<Longrightarrow> map_of (rg_highWater r) key = Some \<lparr>hw_attempt = ss_attempt s, hw_sequence = ss_sequence s\<rparr>"
  by (auto simp: session_ok_def)

text \<open>How a report is finished: the primitives, then one of the two lemmas above.\<close>

lemmas report_simps = wpE_simps Let_def ok_saved ok_self capabilities_def session_key_def same_session_def

lemma close_keeps: "keeps_registry (close c b)"
proof (rule keeps_registryI)
  fix r assume ok: "registry_ok r"
  show "wpE (close c b) (\<lambda>_. ok_later r) (\<lambda>_. ok_later r) r"
  proof (cases "validateObserverClose b")
    case (Inr v)
    show ?thesis
      unfolding close_def wpE_bind wpE_basic Inr sum.case
      apply (rule wpE_resolveCurrent [OF ok], rule ok_self [OF ok])
      subgoal for key s
        using ok session_dedup [of r key s] session_capabilities [of r key s]
        by (auto simp: report_simps split: sum.split simp del: fun_upd_apply intro!: ok_report [OF ok])
      done
  qed (use ok in \<open>simp add: close_def wpE_simps ok_self\<close>)
qed

lemma heartbeat_keeps: "keeps_registry (heartbeat c b)"
proof (rule keeps_registryI)
  fix r assume ok: "registry_ok r"
  show "wpE (heartbeat c b) (\<lambda>_. ok_later r) (\<lambda>_. ok_later r) r"
  proof (cases "validateObserverHeartbeat b")
    case (Inr v)
    show ?thesis
      unfolding heartbeat_def wpE_bind wpE_basic Inr sum.case
      apply (rule wpE_resolveCurrent [OF ok], rule ok_self [OF ok])
      subgoal premises s for key s
      proof (cases "ss_lifecycle s \<noteq> oh_lifecycle v \<or> ss_activity s \<noteq> oh_activity v \<or> ss_health s \<noteq> oh_health v")
        case True
        then show ?thesis using ok s session_dedup [OF s(2)] session_capabilities [OF s(2)]
          unfolding prod.case Let_def if_P [OF True]
          by (auto simp: report_simps split: sum.split simp del: fun_upd_apply de_Morgan_disj intro!: ok_report [OF ok s(1)])
      next
        case False
        show ?thesis using ok s
          unfolding prod.case Let_def if_not_P [OF False]
          by (auto simp: report_simps split: sum.split simp del: fun_upd_apply intro!: ok_refresh [OF ok s(1)])
      qed
      done
  qed (use ok in \<open>simp add: heartbeat_def wpE_simps ok_self\<close>)
qed

lemma remember_session [simp]:
  "same_session s (remember e x v s') = same_session s s'" "capabilities (remember e x v s) = capabilities s"
  "ss_attempt (remember e x v s) = ss_attempt s" "ss_sequence (remember e x v s) = ss_sequence s"
  "ss_revision (remember e x v s) = ss_revision s" "event_of type (remember e x v s) = event_of type s"
  "session_key (remember e x v s) = session_key s"
  by (simp_all add: remember_def same_session_def capabilities_def event_of_def session_key_def)

lemma remember_dedup:
  assumes "length (ss_dedup s) \<le> OBSERVER_DEDUP_LIMIT" "distinct (map fst (ss_dedup s))"
  shows "length (ss_dedup (remember e x v s)) \<le> OBSERVER_DEDUP_LIMIT \<and> distinct (map fst (ss_dedup (remember e x v s)))"
proof -
  define old where "old = (if OBSERVER_DEDUP_LIMIT \<le> length (ss_dedup s) then tl (ss_dedup s) else ss_dedup s)"
  have "distinct (map fst old)" "length old < OBSERVER_DEDUP_LIMIT"
    using assms by (auto simp: old_def map_tl distinct_tl OBSERVER_DEDUP_LIMIT_def)
  then show ?thesis
    unfolding remember_def old_def [symmetric] by (simp add: length_assoc_put distinct_assoc_put)
qed

lemma record_of_session:
  assumes "registry_ok r" "session_ok r key s" "same_session s s'" "ss_revision s' = rg_revision r + 1"
    "rg_revision r < MAX_SAFE_INTEGER"
  shows "buildObservedRecord (observed_facts (session_record (rg_node r) s')) = Inr (session_record (rg_node r) s')"
  using assms by (intro buildObservedRecord_complete)
    (simp add: observed_record_ok_def session_record_def registry_ok_def session_ok_def same_session_def)

definition lifecycle_session :: "observer_lifecycle_body \<Rightarrow> int \<Rightarrow> int \<Rightarrow> observed_session \<Rightarrow> observed_session" where
  "lifecycle_session v now revision s =
     s\<lparr>ss_sequence := ol_sourceSequence v, ss_lifecycle := ol_lifecycle v, ss_activity := ol_activity v,
       ss_health := ol_health v, ss_leaseUntil := now + OBSERVER_LEASE_DURATION_MS, ss_revision := revision\<rparr>"

lemma lifecycle_session_sel [simp]:
  "same_session s (lifecycle_session v n k s)" "capabilities (lifecycle_session v n k s) = capabilities s"
  "ss_attempt (lifecycle_session v n k s) = ss_attempt s" "ss_sequence (lifecycle_session v n k s) = ol_sourceSequence v"
  "ss_revision (lifecycle_session v n k s) = k" "session_key (lifecycle_session v n k s) = session_key s"
  "ss_dedup (lifecycle_session v n k s) = ss_dedup s"
  by (simp_all add: lifecycle_session_def same_session_def capabilities_def session_key_def)

lemma lifecycle_keeps: "keeps_registry (lifecycle c b)"
proof (rule keeps_registryI)
  fix r assume ok: "registry_ok r"
  show "wpE (lifecycle c b) (\<lambda>_. ok_later r) (\<lambda>_. ok_later r) r"
  proof (cases "validateObserverLifecycle b")
    case (Inr v)
    show ?thesis
      unfolding lifecycle_def wpE_bind wpE_basic Inr sum.case lifecycle_session_def [symmetric]
      apply (rule wpE_resolveCurrent [OF ok], rule ok_self [OF ok])
      subgoal premises s for key s
      proof (cases "map_of (ss_dedup s) (ol_eventId v)")
        case None
        show ?thesis
          using ok s None session_dedup [OF s(2)] session_capabilities [OF s(2)]
            record_of_session [OF ok s(2), of "lifecycle_session v n (rg_revision r + 1) s" for n]
          unfolding prod.case Let_def
          by (auto simp: wpE_simps Let_def ok_saved ok_self remember_dedup split: sum.split simp del: fun_upd_apply
              intro!: ok_report [OF ok s(1)])
      qed (use ok in \<open>auto simp: wpE_simps ok_self split: prod.split\<close>)
      done
  qed (use ok in \<open>simp add: lifecycle_def wpE_simps ok_self\<close>)
qed

lemma ok_report_closed:
  assumes ok: "registry_ok r" and old: "map_of (rg_sessions r) key = Some s"
    and r': "rg_node r' = rg_node r" "rg_sessions r' = assoc_put key s' (rg_sessions r)"
      "rg_revision r' = rg_revision r + 1" "rg_revision r < MAX_SAFE_INTEGER" "rg_issued r' = rg_issued r"
      "rg_highWater r' = rg_highWater r"
    and s': "s' = s\<lparr>ss_connection := None, ss_availability := Unavailable, ss_revision := rg_revision r + 1\<rparr>"
    and log: "rg_eventLog r' =
      (if event_log_limit \<le> length (rg_eventLog r) then tl (rg_eventLog r) else rg_eventLog r) @ [event_of type s']"
  shows "ok_later r r'"
  using session_in [OF ok old] r' s'
  by (intro ok_report [OF ok old r'(1,2,3,4) _ _ _ _ _ _ _ _ _ _ log])
     (auto simp: session_ok_def same_session_def capabilities_def session_key_def fun_upd_idem)

lemma transportClosed_keeps: "keeps_registry (transportClosed c)"
proof (rule keeps_registryI)
  fix r assume ok: "registry_ok r"
  show "wpE (transportClosed c) (\<lambda>_. ok_later r) (\<lambda>_. ok_later r) r"
  proof (cases "List.find (\<lambda>e. ss_connection (snd e) = Some c) (rg_sessions r)")
    case (Some e)
    obtain key s where e: "e = (key, s)" by (cases e)
    have s: "map_of (rg_sessions r) key = Some s" using found_in [OF ok Some [unfolded e]] by simp
    show ?thesis
      unfolding transportClosed_def wpE_bind wpE_basic Some e option.case prod.case Let_def
      using ok by (auto simp: report_simps split: sum.split intro!: ok_report_closed [OF ok s])
  qed (use ok in \<open>simp add: transportClosed_def wpE_simps ok_self\<close>)
qed

lemma ok_later_trans: "ok_later a b \<Longrightarrow> ok_later b c \<Longrightarrow> ok_later a c"
  by (auto simp: ok_later_def intro: later_trans)

lemma keeps_registryD: "keeps_registry m \<Longrightarrow> registry_ok r \<Longrightarrow> wpE m (\<lambda>_. ok_later r) (\<lambda>_. ok_later r) r"
  by (simp add: keeps_registry_def)

lemma ok_later_ok: "ok_later r r' \<Longrightarrow> registry_ok r'"
  by (simp add: ok_later_def)

lemma keeps_registry_bind:
  assumes "keeps_registry m" "\<And>x. keeps_registry (f x)"
  shows "keeps_registry (bindE m f)"
proof (rule keeps_registryI, unfold wpE_bind)
  fix r assume "registry_ok r"
  then show "wpE m (\<lambda>x. wpE (f x) (\<lambda>_. ok_later r) (\<lambda>_. ok_later r)) (\<lambda>_. ok_later r) r"
    by (rule wpE_mono [OF keeps_registryD [OF assms(1)]])
       (auto intro: wpE_mono [OF keeps_registryD [OF assms(2)]] ok_later_ok ok_later_trans)
qed

lemma keeps_registry_each: "(\<And>x. keeps_registry (f x)) \<Longrightarrow> keeps_registry (eachE f xs)"
proof (induction xs)
  case Nil
  then show ?case by (simp add: keeps_registry_def wpE_simps ok_self)
qed (simp add: thenE_def keeps_registry_bind)

lemma ok_read: "registry_ok r \<Longrightarrow> ok_later r (r\<lparr>rg_reads := x\<rparr>)"
  by (rule ok_same) (simp_all add: same_registry_def registry_ok_def)

lemma keeps_registry_read: "keeps_registry clock_now" "keeps_registry (getE f)"
  by (simp_all add: keeps_registry_def wpE_simps ok_self ok_read)

lemma ok_remove:
  assumes ok: "registry_ok r"
    and r': "rg_node r' = rg_node r" "rg_sessions r' = assoc_del key (rg_sessions r)" "rg_highWater r' = rg_highWater r"
      "rg_revision r' = rg_revision r + 1" "rg_revision r < MAX_SAFE_INTEGER" "rg_issued r' = rg_issued r"
    and log: "rg_eventLog r' =
      (if event_log_limit \<le> length (rg_eventLog r) then tl (rg_eventLog r) else rg_eventLog r) @ [ev]"
      "re_revision ev = rg_revision r + 1"
  shows "ok_later r r'"
proof -
  have sub: "set (rg_sessions r') \<subseteq> set (rg_sessions r)" using r'(2) by auto
  have "session_ok r' (fst e) (snd e)" if "e \<in> set (rg_sessions r')" for e
  proof -
    have "session_ok r (fst e) (snd e)" using ok that sub unfolding registry_ok_def by blast
    then show ?thesis by (rule session_ok_grow) (simp_all add: r')
  qed
  moreover have "log_ok_rg r'"
    by (rule log_emit [of r r' ev]) (use ok r' log in \<open>simp_all add: registry_ok_def\<close>)
  moreover have "length (rg_sessions r') \<le> OBSERVER_MAX_SESSIONS"
    using ok length_filter_le [of _ "rg_sessions r"] unfolding r'(2) registry_ok_def assoc_del_def by (meson order_trans)
  moreover have "distinct (map fst (rg_sessions r'))"
    using ok unfolding r'(2) registry_ok_def by (simp add: distinct_assoc_del)
  moreover have "capabilities (snd e) \<inter> capabilities (snd e') = {}"
    if "e \<in> set (rg_sessions r')" "e' \<in> set (rg_sessions r')" "fst e \<noteq> fst e'" for e e'
    using ok that sub unfolding registry_ok_def by blast
  ultimately have "registry_ok r'"
    using ok r'(1,4,5) by (simp add: registry_ok_def)
  then show ?thesis using r'(1,3,4,6) by (simp add: ok_later_def later_def)
qed

lemma expire_one_keeps: "keeps_registry (expire_one now e)"
  by (rule keeps_registryI)
     (auto simp: expire_one_def report_simps event_of_def intro!: ok_remove [where ev = "event_of Expired ((snd e)\<lparr>ss_revision := k\<rparr>)" for k])

lemma expire_keeps: "keeps_registry expire"
  unfolding expire_def
  by (intro keeps_registry_bind keeps_registry_each keeps_registry_read expire_one_keeps)

lemma ok_draws:
  "registry_ok r \<Longrightarrow> ok_later r (r\<lparr>rg_draws := d\<rparr>)"
  "registry_ok r \<Longrightarrow> ok_later r (r\<lparr>rg_draws := d, rg_issued := rg_issued r @ xs\<rparr>)"
  "registry_ok r \<Longrightarrow> ok_later r (r\<lparr>rg_issued := rg_issued r @ xs, rg_draws := d\<rparr>)"
  "registry_ok r \<Longrightarrow> ok_later r (r\<lparr>rg_draws := d, rg_issued := rg_issued r @ xs, rg_saved := w\<rparr>)"
  "registry_ok r \<Longrightarrow> ok_later r (r\<lparr>rg_issued := rg_issued r @ xs, rg_draws := d, rg_saved := w\<rparr>)"
  by (rule ok_same; simp add: same_registry_def registry_ok_def)+

lemma ok_new:
  assumes ok: "registry_ok r" and new: "map_of (rg_sessions r) key = None" "length (rg_sessions r) < OBSERVER_MAX_SESSIONS"
    and v: "observer_register_ok v" "key = registration_key v"
    and s': "s' = fresh_session v c i j x now (rg_revision r + 1)"
    and caps: "{i, j, x} \<subseteq> set (rg_issued r')" "{i, j, x} \<inter> set (rg_issued r) = {}" "ID_RE i"
    and le: "\<And>h. map_of (rg_highWater r) key = Some h \<Longrightarrow> hw_attempt h < og_registrationAttempt v \<and> hw_sequence h < og_sourceSequence v"
    and r': "rg_node r' = rg_node r" "rg_sessions r' = assoc_put key s' (rg_sessions r)"
      "rg_revision r' = rg_revision r + 1" "rg_revision r < MAX_SAFE_INTEGER" "set (rg_issued r) \<subseteq> set (rg_issued r')"
      "rg_highWater r' = assoc_put key \<lparr>hw_attempt = og_registrationAttempt v, hw_sequence = og_sourceSequence v\<rparr> (rg_highWater r)"
    and log: "rg_eventLog r' =
      (if event_log_limit \<le> length (rg_eventLog r) then tl (rg_eventLog r) else rg_eventLog r) @ [event_of type s']"
  shows "ok_later r r'"
proof (rule ok_put [OF ok r'(1,2)])
  have k: "key \<notin> fst ` set (rg_sessions r)" using new(1) by (simp add: map_of_eq_None_iff)
  show "session_ok r' key s'"
    using ok v caps s' r'(3,6) by (simp add: session_ok_def fresh_session_def session_key_def registration_key_def
        observer_register_ok_def capabilities_def registry_ok_def OBSERVER_DEDUP_LIMIT_def)
  show "capabilities (snd e) \<inter> capabilities s' = {}" if "e \<in> set (rg_sessions r)" for e
  proof -
    have "capabilities (snd e) \<subseteq> set (rg_issued r)" using ok that by (auto simp: registry_ok_def session_ok_def)
    moreover have "capabilities s' = {i, j, x}" by (simp add: s' fresh_session_def capabilities_def)
    ultimately show ?thesis using caps(2) by blast
  qed
  show "length (rg_sessions r') \<le> OBSERVER_MAX_SESSIONS" using new(2) k r'(2) by (simp add: length_assoc_put)
  show "log_ok_rg r'"
    by (rule log_emit [of r r' "event_of type s'"]) (use ok r' log s' in \<open>simp_all add: registry_ok_def event_of_def fresh_session_def\<close>)
  show "map_of (rg_highWater r') = (map_of (rg_highWater r))(key \<mapsto> \<lparr>hw_attempt = og_registrationAttempt v, hw_sequence = og_sourceSequence v\<rparr>)"
    using r'(6) by simp
  show "hw_attempt h0 \<le> hw_attempt \<lparr>hw_attempt = og_registrationAttempt v, hw_sequence = og_sourceSequence v\<rparr> \<and>
      hw_sequence h0 \<le> hw_sequence \<lparr>hw_attempt = og_registrationAttempt v, hw_sequence = og_sourceSequence v\<rparr>"
    if "map_of (rg_highWater r) key = Some h0" for h0
    using le [OF that] by simp
qed (use r' in simp_all)

lemma reconnected_sel [simp]:
  "same_session s (reconnected_session s v c i x now k)" "ss_attempt (reconnected_session s v c i x now k) = og_registrationAttempt v"
  "ss_sequence (reconnected_session s v c i x now k) = og_sourceSequence v" "ss_revision (reconnected_session s v c i x now k) = k"
  "ss_dedup (reconnected_session s v c i x now k) = ss_dedup s"
  "capabilities (reconnected_session s v c i x now k) = {ss_observedSessionId s, i, x}"
  by (simp_all add: reconnected_session_def same_session_def capabilities_def)

lemma open_new:
  assumes ok: "registry_ok r" and v: "observer_register_ok v"
    and new: "map_of (rg_sessions r) (registration_key v) = None" "length (rg_sessions r) < OBSERVER_MAX_SESSIONS"
    and le: "\<And>h. map_of (rg_highWater r) (registration_key v) = Some h \<Longrightarrow>
      hw_attempt h < og_registrationAttempt v \<and> hw_sequence h < og_sourceSequence v"
  shows "wpE (open_session c v None) (\<lambda>_. ok_later r) (\<lambda>_. ok_later r) r"
  unfolding open_session_def wpE_bind option.case
  apply (rule wpE_issueI, simp add: ok_draws ok)
  apply (rule wpE_issueI, simp add: ok_draws ok)
  apply (rule wpE_issueI, simp add: ok_draws ok)
  subgoal for x y i
    using ok by (auto simp: wpE_simps Let_def ok_draws put_highWater_def
        intro!: ok_new [OF ok new v refl refl, where i = i and j = x and x = y] dest: le)
  done

lemma open_again:
  assumes ok: "registry_ok r" and s: "map_of (rg_sessions r) (registration_key v) = Some s"
    and le: "\<And>h. map_of (rg_highWater r) (registration_key v) = Some h \<Longrightarrow>
      hw_attempt h < og_registrationAttempt v \<and> hw_sequence h < og_sourceSequence v"
  shows "wpE (open_session c v (Some s)) (\<lambda>_. ok_later r) (\<lambda>_. ok_later r) r"
proof -
  note so = session_in [OF ok s]
  have up: "ss_attempt s < og_registrationAttempt v" "ss_sequence s < og_sourceSequence v"
    using le [OF session_water [OF so]] by simp_all
  have own: "ss_observedSessionId s \<in> capabilities s" "ss_observedSessionId s \<in> set (rg_issued r)"
    using session_capabilities [OF so] by (auto simp: capabilities_def)
  show ?thesis
    unfolding open_session_def wpE_bind option.case
    apply (rule wpE_issueI, simp add: ok_draws ok)
    apply (rule wpE_issueI, simp add: ok_draws ok)
    subgoal for x y
      using ok up session_dedup [OF so] own
      by (auto simp: wpE_simps Let_def ok_draws put_highWater_def simp del: fun_upd_apply
          intro!: ok_report [OF ok s])
    done
qed

lemma register_keeps: "keeps_registry (register c b)"
proof (rule keeps_registryI)
  fix r assume ok: "registry_ok r"
  show "wpE (register c b) (\<lambda>_. ok_later r) (\<lambda>_. ok_later r) r"
  proof (cases "validateObserverRegister b")
    case (Inr v)
    show ?thesis
      using ok open_new [OF ok observer_register_sound [OF Inr], of c] open_again [OF ok, of v _ c]
      by (cases "map_of (rg_highWater r) (registration_key v)"; cases "map_of (rg_sessions r) (registration_key v)")
         (auto simp: register_def check_highWater_def wpE_simps Inr ok_self)
  qed (use ok in \<open>simp add: register_def wpE_simps ok_self\<close>)
qed

end
