(* ===== verification/ObserverCodec.thy ===== *)
theory ObserverCodec
  imports ObserverContracts Decoding
begin

text \<open>
  The frame codec of observer/contracts.ts: \<open>parseFrameLine\<close>, \<open>encodeFrame\<close> and the
  \<open>NdjsonDecoder\<close>. It is the second interpretation of the locale \<open>line_codec\<close>. Names of
  src/protocol.ts that this module uses again carry the suffix \<open>_o\<close>.
\<close>

definition OBSERVER_CLIENT_FRAME_TYPES :: "string list" where
  "OBSERVER_CLIENT_FRAME_TYPES =
     [''observer.register'', ''observer.heartbeat'', ''observer.lifecycle'', ''observer.close'',
      ''adoption.ack'', ''adoption.recovery_proof'', ''adoption.ready'', ''adoption.takeover'']"

definition OBSERVER_RUNNER_FRAME_TYPES :: "string list" where
  "OBSERVER_RUNNER_FRAME_TYPES =
     [''observer.registered'', ''observer.rejected'', ''adoption.request_ack'', ''adoption.committed'',
      ''adoption.failed'', ''adoption.recovery_challenge'', ''adoption.control'']"

datatype observer_body =
    Ob_register observer_register
  | Ob_heartbeat observer_heartbeat
  | Ob_lifecycle observer_lifecycle_body
  | Ob_close observer_close
  | Ob_ack adoption_ack
  | Ob_recovery_proof recovery_proof
  | Ob_ready adoption_committed
  | Ob_takeover adoption_committed
  | Ob_registered observer_registered
  | Ob_rejected observer_rejected
  | Ob_request_ack adoption_request_ack
  | Ob_committed adoption_committed
  | Ob_failed adoption_failed
  | Ob_recovery_challenge recovery_challenge
  | Ob_control adoption_committed

record observer_frame =
  of_type :: jstr
  of_messageId :: jstr
  of_body :: observer_body

section \<open>Validating a body of a given type\<close>

text \<open>
  A control frame carries the committed body with the control mode \<open>manual_takeover\<close>: the
  mode is replaced in place before the check and put back in the result.
\<close>

definition with_mode :: "string \<Rightarrow> obj \<Rightarrow> obj" where
  "with_mode t m = obj_put (js ''controlMode'') (JStr (js t)) m"

definition validateControl :: "json option \<Rightarrow> observer_failure + adoption_committed" where
  "validateControl body =
     (case object_of body of
        None \<Rightarrow> Inl (Observer_error Invalid_envelope)
      | Some m \<Rightarrow>
          andThen (requireExactly (own_prop m ''controlMode'') (js ''manual_takeover'')) (\<lambda>_.
          validateAdoptionCommitted (Some (JObj (with_mode ''managed'' m)))))"

definition validateObserverBodyForType :: "jstr \<Rightarrow> json option \<Rightarrow> observer_failure + observer_body" where
  "validateObserverBodyForType type body =
     (if type = js ''observer.register'' then mapOk Ob_register (validateObserverRegister body)
      else if type = js ''observer.heartbeat'' then mapOk Ob_heartbeat (validateObserverHeartbeat body)
      else if type = js ''observer.lifecycle'' then mapOk Ob_lifecycle (validateObserverLifecycle body)
      else if type = js ''observer.close'' then mapOk Ob_close (validateObserverClose body)
      else if type = js ''adoption.ack'' then mapOk Ob_ack (validateAdoptionAck body)
      else if type = js ''observer.registered'' then mapOk Ob_registered (validateObserverRegistered body)
      else if type = js ''observer.rejected'' then mapOk Ob_rejected (validateObserverRejected body)
      else if type = js ''adoption.request_ack'' then mapOk Ob_request_ack (validateAdoptionRequestAck body)
      else if type = js ''adoption.committed'' then mapOk Ob_committed (validateAdoptionCommitted body)
      else if type = js ''adoption.failed'' then mapOk Ob_failed (validateAdoptionFailed body)
      else if type = js ''adoption.recovery_challenge''
      then mapOk Ob_recovery_challenge (validateAdoptionRecoveryChallenge body)
      else if type = js ''adoption.recovery_proof'' then mapOk Ob_recovery_proof (validateAdoptionRecoveryProof body)
      else if type = js ''adoption.ready'' then mapOk Ob_ready (validateAdoptionCommitted body)
      else if type = js ''adoption.takeover'' then mapOk Ob_takeover (validateAdoptionCommitted body)
      else if type = js ''adoption.control'' then mapOk Ob_control (validateControl body)
      else Inl (Observer_error Invalid_envelope))"

fun observer_body_type :: "observer_body \<Rightarrow> string" where
  "observer_body_type (Ob_register _) = ''observer.register''"
| "observer_body_type (Ob_heartbeat _) = ''observer.heartbeat''"
| "observer_body_type (Ob_lifecycle _) = ''observer.lifecycle''"
| "observer_body_type (Ob_close _) = ''observer.close''"
| "observer_body_type (Ob_ack _) = ''adoption.ack''"
| "observer_body_type (Ob_recovery_proof _) = ''adoption.recovery_proof''"
| "observer_body_type (Ob_ready _) = ''adoption.ready''"
| "observer_body_type (Ob_takeover _) = ''adoption.takeover''"
| "observer_body_type (Ob_registered _) = ''observer.registered''"
| "observer_body_type (Ob_rejected _) = ''observer.rejected''"
| "observer_body_type (Ob_request_ack _) = ''adoption.request_ack''"
| "observer_body_type (Ob_committed _) = ''adoption.committed''"
| "observer_body_type (Ob_failed _) = ''adoption.failed''"
| "observer_body_type (Ob_recovery_challenge _) = ''adoption.recovery_challenge''"
| "observer_body_type (Ob_control _) = ''adoption.control''"

fun observer_body_json :: "observer_body \<Rightarrow> obj" where
  "observer_body_json (Ob_register b) = observer_register_json b"
| "observer_body_json (Ob_heartbeat b) = observer_heartbeat_json b"
| "observer_body_json (Ob_lifecycle b) = observer_lifecycle_body_json b"
| "observer_body_json (Ob_close b) = observer_close_json b"
| "observer_body_json (Ob_ack b) = adoption_ack_json b"
| "observer_body_json (Ob_recovery_proof b) = recovery_proof_json b"
| "observer_body_json (Ob_ready b) = adoption_committed_json b"
| "observer_body_json (Ob_takeover b) = adoption_committed_json b"
| "observer_body_json (Ob_registered b) = observer_registered_json b"
| "observer_body_json (Ob_rejected b) = observer_rejected_json b"
| "observer_body_json (Ob_request_ack b) = adoption_request_ack_json b"
| "observer_body_json (Ob_committed b) = adoption_committed_json b"
| "observer_body_json (Ob_failed b) = adoption_failed_json b"
| "observer_body_json (Ob_recovery_challenge b) = recovery_challenge_json b"
| "observer_body_json (Ob_control b) = with_mode ''manual_takeover'' (adoption_committed_json b)"

fun observer_body_ok :: "observer_body \<Rightarrow> bool" where
  "observer_body_ok (Ob_register b) = observer_register_ok b"
| "observer_body_ok (Ob_heartbeat b) = observer_heartbeat_ok b"
| "observer_body_ok (Ob_lifecycle b) = observer_lifecycle_body_ok b"
| "observer_body_ok (Ob_close b) = observer_close_ok b"
| "observer_body_ok (Ob_ack b) = adoption_ack_ok b"
| "observer_body_ok (Ob_recovery_proof b) = recovery_proof_ok b"
| "observer_body_ok (Ob_ready b) = adoption_committed_ok b"
| "observer_body_ok (Ob_takeover b) = adoption_committed_ok b"
| "observer_body_ok (Ob_registered b) = observer_registered_ok b"
| "observer_body_ok (Ob_rejected b) = observer_rejected_ok b"
| "observer_body_ok (Ob_request_ack b) = adoption_request_ack_ok b"
| "observer_body_ok (Ob_committed b) = adoption_committed_ok b"
| "observer_body_ok (Ob_failed b) = adoption_failed_ok b"
| "observer_body_ok (Ob_recovery_challenge b) = recovery_challenge_ok b"
| "observer_body_ok (Ob_control b) = adoption_committed_ok b"

lemmas observer_sound = observer_register_sound observer_heartbeat_sound observer_lifecycle_body_sound
  observer_close_sound adoption_ack_sound recovery_proof_sound observer_registered_sound
  observer_rejected_sound adoption_request_ack_sound adoption_committed_sound adoption_failed_sound
  recovery_challenge_sound

lemmas observer_complete = observer_register_complete observer_heartbeat_complete
  observer_lifecycle_body_complete observer_close_complete adoption_ack_complete recovery_proof_complete
  observer_registered_complete observer_rejected_complete adoption_request_ack_complete
  adoption_committed_complete adoption_failed_complete recovery_challenge_complete

lemma control_sound: "validateControl v = Inr b \<Longrightarrow> adoption_committed_ok b"
  by (auto simp: validateControl_def result_simps observer_sound split: option.splits)

lemma with_mode_committed:
  "own_prop (with_mode ''manual_takeover'' (adoption_committed_json b)) ''controlMode'' = Some (JStr (js ''manual_takeover''))"
  "with_mode ''managed'' (with_mode ''manual_takeover'' (adoption_committed_json b)) = adoption_committed_json b"
  by (simp_all add: with_mode_def obj_put_def adoption_committed_json_def)

lemma control_complete:
  "adoption_committed_ok b \<Longrightarrow>
   validateControl (Some (JObj (with_mode ''manual_takeover'' (adoption_committed_json b)))) = Inr b"
  by (simp add: validateControl_def with_mode_committed requireExactly_def observer_complete)

lemma validateObserverBody_sound:
  "validateObserverBodyForType type v = Inr b \<Longrightarrow> type = js (observer_body_type b) \<and> observer_body_ok b"
  unfolding validateObserverBodyForType_def
  by (auto simp: mapOk_iff observer_sound control_sound split: if_splits)

lemma validateObserverBody_complete:
  "observer_body_ok b \<Longrightarrow>
   validateObserverBodyForType (js (observer_body_type b)) (Some (JObj (observer_body_json b))) = Inr b"
  by (cases b) (simp_all add: validateObserverBodyForType_def observer_complete control_complete)

section \<open>Frames\<close>

definition isObserverClientFrameType :: "jstr \<Rightarrow> bool" where
  "isObserverClientFrameType t = (t \<in> set (map js OBSERVER_CLIENT_FRAME_TYPES))"

definition isObserverRunnerFrameType :: "jstr \<Rightarrow> bool" where
  "isObserverRunnerFrameType t = (t \<in> set (map js OBSERVER_RUNNER_FRAME_TYPES))"

definition OBSERVER_MESSAGE_ID_RE :: "jstr \<Rightarrow> bool" where
  "OBSERVER_MESSAGE_ID_RE s = matches_head_tail is_alnum id_tail 127 s"

text \<open>
  \<open>String(v)\<close> of a JSON value: an array is joined with commas, its \<open>null\<close> entries being
  empty; an object with an own property \<open>toString\<close>, which JSON cannot make callable, throws a
  \<open>TypeError\<close> (\<open>None\<close>).
\<close>

fun js_String :: "json \<Rightarrow> jstr option" where
  "js_String JNull = Some (js ''null'')"
| "js_String (JBool b) = Some (if b then js ''true'' else js ''false'')"
| "js_String (JNum n) = Some (num_text n)"
| "js_String (JStr s) = Some s"
| "js_String (JArr vs) =
     map_option (join_with 44) (those (map (\<lambda>v. if v = JNull then Some [] else js_String v) vs))"
| "js_String (JObj m) = (if has_own m ''toString'' then None else Some (js ''[object Object]''))"

definition string_value :: "json option \<Rightarrow> observer_failure + jstr" where
  "string_value v =
     (case v of
        None \<Rightarrow> Inr (js ''undefined'')
      | Some x \<Rightarrow> (case js_String x of None \<Rightarrow> Inl Type_error | Some s \<Rightarrow> Inr s))"

definition parseFrameLine_o :: "jstr \<Rightarrow> observer_failure + observer_frame" where
  "parseFrameLine_o line =
     (case parse_json line of
        None \<Rightarrow> Inl (Observer_error Invalid_envelope)
      | Some parsed \<Rightarrow>
          (case object_of (Some parsed) of
             None \<Rightarrow> Inl (Observer_error Invalid_envelope)
           | Some m \<Rightarrow>
               andThen (exactObject (Some parsed) [''protocol'', ''type'', ''messageId'', ''body'']) (\<lambda>_.
               andThen (guardR (own_prop m ''protocol'' = Some (JStr OBSERVER_PROTOCOL_ID))
                 (Observer_error Unsupported_protocol)) (\<lambda>_.
               andThen (string_value (own_prop m ''type'')) (\<lambda>type.
               andThen (guardR (isObserverClientFrameType type \<or> isObserverRunnerFrameType type)
                 (Observer_error Invalid_envelope)) (\<lambda>_.
               andThen (string_value (own_prop m ''messageId'')) (\<lambda>messageId.
               andThen (guardR (OBSERVER_MESSAGE_ID_RE messageId) (Observer_error Invalid_envelope)) (\<lambda>_.
               andThen (validateObserverBodyForType type (own_prop m ''body'')) (\<lambda>body.
               Inr \<lparr>of_type = type, of_messageId = messageId, of_body = body\<rparr>)))))))))"

definition observer_json :: "jstr \<Rightarrow> jstr \<Rightarrow> observer_body \<Rightarrow> json" where
  "observer_json type messageId body =
     JObj [(js ''protocol'', JStr OBSERVER_PROTOCOL_ID), (js ''type'', JStr type),
           (js ''messageId'', JStr messageId), (js ''body'', JObj (observer_body_json body))]"

definition encodeFrame_o :: "jstr \<Rightarrow> jstr \<Rightarrow> obj \<Rightarrow> observer_failure + jstr" where
  "encodeFrame_o type messageId body =
     andThen (guardR (isObserverClientFrameType type \<or> isObserverRunnerFrameType type)
       (Observer_error Invalid_envelope)) (\<lambda>_.
     andThen (guardR (OBSERVER_MESSAGE_ID_RE messageId) (Observer_error Invalid_envelope)) (\<lambda>_.
     andThen (validateObserverBodyForType type (Some (JObj body))) (\<lambda>validated.
     let line = stringify (observer_json type messageId validated)
     in andThen (guardR (utf8Bytes line \<le> envelopeBytes) (Observer_error Envelope_too_large)) (\<lambda>_.
        Inr (line @ [10])))))"

text \<open>One line of the decoder's loop: its size is checked before it is parsed.\<close>

definition decode_line :: "jstr \<Rightarrow> observer_failure + observer_frame" where
  "decode_line line =
     andThen (guardR (utf8Bytes line \<le> envelopeBytes) (Observer_error Envelope_too_large)) (\<lambda>_.
     parseFrameLine_o line)"

definition push_o :: "decoder \<Rightarrow> jstr \<Rightarrow> observer_failure + (observer_frame list \<times> decoder)" where
  "push_o d chunk =
     push_with decode_line (Observer_error Invalid_envelope) decodeBufferBytes
       (Observer_error Invalid_envelope) d chunk"

fun push_all_o :: "decoder \<Rightarrow> jstr list \<Rightarrow> observer_failure + (observer_frame list \<times> decoder)" where
  "push_all_o d [] = Inr ([], d)"
| "push_all_o d (c # cs) =
     andThen (push_o d c) (\<lambda>(fs, d').
     andThen (push_all_o d' cs) (\<lambda>(gs, d''). Inr (fs @ gs, d'')))"

section \<open>The codec keeps what it promises\<close>

lemma committed_json_ok: "json_ok (JObj (adoption_committed_json b))"
  by (rule json_ok_obj) (auto simp: adoption_committed_json_def js_not_index is_digit_def)

lemma capabilities_json_ok: "json_ok (capabilities_json cs)"
  by (auto simp: capabilities_json_def list_all_iff)

lemma observer_bodies_json_ok:
  "observer_register_ok b1 \<Longrightarrow> json_ok (JObj (observer_register_json b1))"
  "observer_heartbeat_ok b2 \<Longrightarrow> json_ok (JObj (observer_heartbeat_json b2))"
  "observer_lifecycle_body_ok b3 \<Longrightarrow> json_ok (JObj (observer_lifecycle_body_json b3))"
  "observer_close_ok b4 \<Longrightarrow> json_ok (JObj (observer_close_json b4))"
  "adoption_ack_ok b5 \<Longrightarrow> json_ok (JObj (adoption_ack_json b5))"
  "json_ok (JObj (recovery_proof_json b6))"
  "observer_registered_ok b7 \<Longrightarrow> json_ok (JObj (observer_registered_json b7))"
  "json_ok (JObj (observer_rejected_json b8))"
  "adoption_request_ack_ok b9 \<Longrightarrow> json_ok (JObj (adoption_request_ack_json b9))"
  "json_ok (JObj (adoption_failed_json b10))"
  "json_ok (JObj (recovery_challenge_json b11))"
  "json_ok (JObj (with_mode ''manual_takeover'' (adoption_committed_json b12)))"
  by (rule json_ok_obj;
      auto simp del: json_ok.simps(1,3) simp: with_mode_def obj_put_def
        observer_register_json_def observer_heartbeat_json_def observer_lifecycle_body_json_def
        observer_close_json_def adoption_ack_json_def recovery_proof_json_def observer_registered_json_def
        observer_rejected_json_def adoption_request_ack_json_def adoption_failed_json_def
        recovery_challenge_json_def committed_json_ok capabilities_json_ok adoption_committed_json_def
        observer_register_ok_def observer_heartbeat_ok_def observer_lifecycle_body_ok_def observer_close_ok_def
        adoption_ack_ok_def observer_registered_ok_def adoption_request_ack_ok_def
        nums_ok js_not_index is_digit_def intro!: json_ok_null_or)+

lemma observer_body_json_ok: "observer_body_ok b \<Longrightarrow> json_ok (JObj (observer_body_json b))"
  by (cases b) (simp_all add: observer_bodies_json_ok committed_json_ok del: json_ok.simps)

definition observer_line :: "observer_frame \<Rightarrow> jstr" where
  "observer_line f = stringify (observer_json (of_type f) (of_messageId f) (of_body f))"

definition observer_frame_valid :: "observer_frame \<Rightarrow> bool" where
  "observer_frame_valid f \<longleftrightarrow>
     of_type f = js (observer_body_type (of_body f)) \<and> OBSERVER_MESSAGE_ID_RE (of_messageId f) \<and>
     observer_body_ok (of_body f)"

definition observer_frame_ok :: "observer_frame \<Rightarrow> bool" where
  "observer_frame_ok f \<longleftrightarrow> observer_frame_valid f \<and> utf8Bytes (observer_line f) \<le> envelopeBytes"

lemma observer_type_known:
  "isObserverClientFrameType (js (observer_body_type b)) \<or> isObserverRunnerFrameType (js (observer_body_type b))"
  by (cases b) (simp_all add: isObserverClientFrameType_def isObserverRunnerFrameType_def
      OBSERVER_CLIENT_FRAME_TYPES_def OBSERVER_RUNNER_FRAME_TYPES_def)

lemma observer_json_ok: "observer_frame_valid f \<Longrightarrow> json_ok (observer_json (of_type f) (of_messageId f) (of_body f))"
  unfolding observer_json_def
  by (rule json_ok_obj)
     (simp_all add: observer_frame_valid_def observer_body_json_ok js_not_index is_digit_def del: json_ok.simps(3))

text \<open>The frame object with any value of the type field that \<open>String\<close> turns into its type.\<close>

lemma parseFrameLine_o_typed:
  assumes ok: "observer_frame_valid f"
    and line: "parse_json line = Some (JObj [(js ''protocol'', JStr OBSERVER_PROTOCOL_ID), (js ''type'', t),
        (js ''messageId'', JStr (of_messageId f)), (js ''body'', JObj (observer_body_json (of_body f)))])"
    and t: "js_String t = Some (of_type f)"
  shows "parseFrameLine_o line = Inr f"
proof -
  have v: "validateObserverBodyForType (of_type f) (Some (JObj (observer_body_json (of_body f)))) = Inr (of_body f)"
    using ok validateObserverBody_complete by (simp add: observer_frame_valid_def)
  have k: "exact_keys [(js ''protocol'', a), (js ''type'', b), (js ''messageId'', c), (js ''body'', d)]
      [''protocol'', ''type'', ''messageId'', ''body'']" for a b c d
    by (simp add: exact_keys_iff)
  show ?thesis
    using ok v k t observer_type_known [of "of_body f"]
    unfolding parseFrameLine_o_def line
    by (simp add: observer_frame_valid_def exactObject_def string_value_def)
qed

lemma parseFrameLine_o_line: "observer_frame_valid f \<Longrightarrow> parseFrameLine_o (observer_line f) = Inr f"
  using parse_stringify [OF observer_json_ok, of f]
  by (intro parseFrameLine_o_typed [where t = "JStr (of_type f)"]) (simp_all add: observer_line_def observer_json_def del: json_ok.simps stringify.simps)

interpretation observer_codec: line_codec observer_line decode_line observer_frame_ok
  "Observer_error Invalid_envelope" decodeBufferBytes "Observer_error Invalid_envelope"
proof unfold_locales
  fix f assume ok: "observer_frame_ok f"
  then have v: "observer_frame_valid f" by (simp add: observer_frame_ok_def)
  show "clean (observer_line f)" unfolding observer_line_def by (rule clean_stringify) (rule observer_json_ok [OF v])
  show "decode_line (observer_line f) = Inr f"
    using ok parseFrameLine_o_line [OF v] by (simp add: decode_line_def observer_frame_ok_def)
  show "observer_line f \<noteq> []" by (simp add: observer_line_def observer_json_def)
  show "utf8Bytes (observer_line f) \<le> decodeBufferBytes"
    using ok by (simp add: observer_frame_ok_def envelopeBytes_def decodeBufferBytes_def)
qed

lemma push_all_o_with:
  "push_all_o d cs = push_all_with decode_line (Observer_error Invalid_envelope) decodeBufferBytes
     (Observer_error Invalid_envelope) d cs"
  by (induction cs arbitrary: d) (simp_all add: push_o_def)

lemma encodeFrame_o_Inr:
  assumes "encodeFrame_o type messageId body = Inr text"
  shows "\<exists>b. validateObserverBodyForType type (Some (JObj body)) = Inr b \<and>
    observer_frame_ok \<lparr>of_type = type, of_messageId = messageId, of_body = b\<rparr> \<and>
    text = observer_line \<lparr>of_type = type, of_messageId = messageId, of_body = b\<rparr> @ [10]"
proof -
  from assms obtain b where b: "validateObserverBodyForType type (Some (JObj body)) = Inr b"
    "OBSERVER_MESSAGE_ID_RE messageId" "utf8Bytes (stringify (observer_json type messageId b)) \<le> envelopeBytes"
    "text = stringify (observer_json type messageId b) @ [10]"
    unfolding encodeFrame_o_def Let_def by (auto simp: andThen_Inr_iff guardR_Inr_iff)
  then show ?thesis using validateObserverBody_sound [OF b(1)]
    by (intro exI [of _ b]) (simp add: observer_frame_ok_def observer_frame_valid_def observer_line_def)
qed

definition sends :: "jstr \<times> jstr \<times> obj \<Rightarrow> observer_frame \<Rightarrow> bool" where
  "sends m f \<longleftrightarrow> of_type f = fst m \<and> of_messageId f = fst (snd m) \<and>
     validateObserverBodyForType (fst m) (Some (JObj (snd (snd m)))) = Inr (of_body f)"

lemma encode_all:
  "mapR (\<lambda>(t, i, b). encodeFrame_o t i b) messages = Inr texts \<Longrightarrow>
   \<exists>frames. list_all2 sends messages frames \<and> list_all observer_frame_ok frames \<and>
     concat texts = wire observer_line frames"
proof (induction messages arbitrary: texts)
  case (Cons m ms)
  obtain t i b where m: "m = (t, i, b)" by (cases m)
  with Cons.prems obtain x xs where x: "encodeFrame_o t i b = Inr x" "texts = x # xs"
    "mapR (\<lambda>(t, i, b). encodeFrame_o t i b) ms = Inr xs" by (auto simp: andThen_Inr_iff)
  obtain c where c: "validateObserverBodyForType t (Some (JObj b)) = Inr c"
    "observer_frame_ok \<lparr>of_type = t, of_messageId = i, of_body = c\<rparr>"
    "x = observer_line \<lparr>of_type = t, of_messageId = i, of_body = c\<rparr> @ [10]"
    using encodeFrame_o_Inr [OF x(1)] by blast
  obtain fs where "list_all2 sends ms fs" "list_all observer_frame_ok fs" "concat xs = wire observer_line fs"
    using Cons.IH [OF x(3)] by blast
  moreover have "sends (t, i, b) \<lparr>of_type = t, of_messageId = i, of_body = c\<rparr>" using c(1) by (simp add: sends_def)
  ultimately show ?case using c m x(2)
    by (intro exI [of _ "\<lparr>of_type = t, of_messageId = i, of_body = c\<rparr> # fs"]) (simp add: wire_def)
qed (simp add: wire_def)

lemma parseFrameLine_o_valid: "parseFrameLine_o line = Inr f \<Longrightarrow> observer_frame_valid f"
  unfolding parseFrameLine_o_def
  by (auto simp: andThen_Inr_iff guardR_Inr_iff observer_frame_valid_def dest: validateObserverBody_sound
      split: option.splits)

section \<open>Properties of the observer codec\<close>

lemma encode_frame_ok:
  assumes "observer_frame_ok f"
  shows "encodeFrame_o (of_type f) (of_messageId f) (observer_body_json (of_body f)) = Inr (observer_line f @ [10])"
  using assms observer_type_known [of "of_body f"] validateObserverBody_complete [of "of_body f"]
  by (elim disjE) (auto simp: encodeFrame_o_def observer_frame_ok_def observer_frame_valid_def observer_line_def
      Let_def simp del: stringify.simps)

text \<open>
  C24. What the observer encoder writes, the observer decoder reads: for any messages the encoder
  accepts and any division of their text into chunks, the decoder returns one frame per message,
  in order, with its type, its identifier and its validated body, and keeps nothing buffered.
\<close>

theorem observer_roundtrip:
  assumes "mapR (\<lambda>(t, i, b). encodeFrame_o t i b) messages = Inr texts" and "concat chunks = concat texts"
  shows "\<exists>frames. list_all2 sends messages frames \<and>
    push_all_o fresh_decoder chunks = Inr (frames, \<lparr>buffer = [], lineOffset = length messages\<rparr>)"
proof -
  obtain frames where f: "list_all2 sends messages frames" "list_all observer_frame_ok frames"
    "concat chunks = wire observer_line frames" using encode_all [OF assms(1)] assms(2) by auto
  then show ?thesis using observer_codec.push_all_wire [OF f(2), of fresh_decoder chunks]
    by (intro exI [of _ frames]) (simp add: push_all_o_with fresh_decoder_def list_all2_lengthD)
qed

definition demo_close_frame :: observer_frame where
  "demo_close_frame = \<lparr>of_type = js ''observer.close'', of_messageId = js ''m1'',
     of_body = Ob_close \<lparr>oc_connectionId = js ''c1'', oc_connectionChallenge = js ''x1'',
       oc_sourceSequence = 2, oc_reason = Quit\<rparr>\<rparr>"

lemma demo_close_valid: "observer_frame_valid demo_close_frame"
  by (simp add: observer_frame_valid_def demo_close_frame_def observer_close_ok_def within_envelope_def
      observer_close_json_def OBSERVER_CLOSE_REASONS_def enum_text_def quote_plain utf8_ascii plain_js
      int_text_def digits.simps [of 2] envelopeBytes_def)
     (simp add: ID_RE_def OBSERVER_MESSAGE_ID_RE_def matches_head_tail_def js_def
      is_alnum_def is_lower_def is_upper_def is_digit_def id_tail_def MAX_SAFE_INTEGER_def)

lemma demo_close_frame_ok: "observer_frame_ok demo_close_frame"
proof -
  have "utf8Bytes (observer_line demo_close_frame) \<le> 1000"
    by (simp add: observer_line_def observer_json_def demo_close_frame_def OBSERVER_PROTOCOL_ID_def
        observer_close_json_def OBSERVER_CLOSE_REASONS_def enum_text_def quote_plain utf8_ascii plain_js int_text_def
        digits.simps [of 2])
  then show ?thesis using demo_close_valid by (simp add: observer_frame_ok_def envelopeBytes_def)
qed

theorem observer_roundtrip_witness:
  "\<exists>frames. list_all2 sends
       [(js ''observer.close'', js ''m1'', observer_body_json (of_body demo_close_frame))] frames \<and>
     push_all_o fresh_decoder [observer_line demo_close_frame, [10]] =
       Inr (frames, \<lparr>buffer = [], lineOffset = 1\<rparr>)"
proof -
  have "mapR (\<lambda>(t, i, b). encodeFrame_o t i b)
      [(js ''observer.close'', js ''m1'', observer_body_json (of_body demo_close_frame))] =
    Inr [observer_line demo_close_frame @ [10]]"
    using encode_frame_ok [OF demo_close_frame_ok] by (simp add: demo_close_frame_def)
  from observer_roundtrip [OF this, of "[observer_line demo_close_frame, [10]]"] show ?thesis by simp
qed

lemma decode_line_valid: "decode_line line = Inr f \<Longrightarrow> observer_frame_valid f"
  by (auto simp: decode_line_def andThen_Inr_iff dest: parseFrameLine_o_valid)

lemma push_all_o_valid:
  "push_all_o d chunks = Inr (fs, d') \<Longrightarrow> utf8Bytes (buffer d) \<le> decodeBufferBytes \<Longrightarrow>
   list_all observer_frame_valid fs \<and> lineOffset d' = lineOffset d + length fs \<and>
   utf8Bytes (buffer d') \<le> decodeBufferBytes"
proof (induction chunks arbitrary: d fs)
  case (Cons c cs)
  then obtain gs d1 hs where g: "push_o d c = Inr (gs, d1)" "push_all_o d1 cs = Inr (hs, d')" "fs = gs @ hs"
    by (auto simp: andThen_Inr_iff)
  then have "list_all observer_frame_valid gs"
    by (auto simp: push_o_def push_with_def andThen_Inr_iff split: prod.splits
        intro: drain_all [where P = observer_frame_valid] decode_line_valid)
  then show ?case using Cons.IH [of d1 hs] Cons.prems g by (simp add: push_o_def push_with_Inr)
qed simp

text \<open>
  C26. Nothing unvalidated passes the observer codec: on any text, cut in any way, every frame the
  decoder delivers has the type of its body, a message identifier within the grammar and a body
  its validator would return again; and what stays buffered is within the bound.
\<close>

theorem observer_decoder_delivers_valid_frames:
  "case push_all_o fresh_decoder chunks of Inl _ \<Rightarrow> True
   | Inr (fs, d) \<Rightarrow>
       list_all (\<lambda>f. OBSERVER_MESSAGE_ID_RE (of_messageId f) \<and>
         validateObserverBodyForType (of_type f) (Some (JObj (observer_body_json (of_body f)))) = Inr (of_body f)) fs \<and>
       lineOffset d = length fs \<and> utf8Bytes (buffer d) \<le> decodeBufferBytes"
proof (cases "push_all_o fresh_decoder chunks")
  case (Inr x)
  obtain fs d where x: "x = (fs, d)" by (cases x)
  have v: "list_all observer_frame_valid fs \<and> lineOffset d = length fs \<and> utf8Bytes (buffer d) \<le> decodeBufferBytes"
    using push_all_o_valid [of fresh_decoder chunks fs d] Inr x by (simp add: fresh_decoder_def)
  then have "list_all (\<lambda>f. OBSERVER_MESSAGE_ID_RE (of_messageId f) \<and>
      validateObserverBodyForType (of_type f) (Some (JObj (observer_body_json (of_body f)))) = Inr (of_body f)) fs"
    by (auto simp: list_all_iff observer_frame_valid_def validateObserverBody_complete)
  then show ?thesis using v Inr x by simp
qed simp

text \<open>
  The envelope of an observer frame is coerced, not checked: the text of a frame whose type is
  not a string but an array holding the type is accepted as that frame, and a type that is an
  object with a \<open>toString\<close> member leaves the decoder with an exception that is no protocol error.
\<close>

theorem envelope_type_coerced:
  assumes "observer_frame_valid f"
  shows "parseFrameLine_o (stringify (JObj
      [(js ''protocol'', JStr OBSERVER_PROTOCOL_ID), (js ''type'', JArr [JStr (of_type f)]),
       (js ''messageId'', JStr (of_messageId f)), (js ''body'', JObj (observer_body_json (of_body f)))])) = Inr f \<and>
    parseFrameLine_o (stringify (JObj
      [(js ''protocol'', JStr OBSERVER_PROTOCOL_ID), (js ''type'', JObj [(js ''toString'', JNull)]),
       (js ''messageId'', JStr (of_messageId f)), (js ''body'', JObj (observer_body_json (of_body f)))])) = Inl Type_error"
proof -
  let ?o = "\<lambda>t. JObj [(js ''protocol'', JStr OBSERVER_PROTOCOL_ID), (js ''type'', t),
      (js ''messageId'', JStr (of_messageId f)), (js ''body'', JObj (observer_body_json (of_body f)))]"
  have ok: "json_ok (?o t)" if "json_ok t" for t
    using assms that by (intro json_ok_obj)
      (simp_all add: observer_frame_valid_def observer_body_json_ok js_not_index is_digit_def del: json_ok.simps(3))
  have j: "json_ok (JArr [JStr (of_type f)])" "json_ok (JObj [(js ''toString'', JNull)])"
    by (simp, rule json_ok_obj) (simp_all add: js_not_index is_digit_def)
  note p = ok [OF j(1), THEN parse_stringify] ok [OF j(2), THEN parse_stringify]
  have "parseFrameLine_o (stringify (?o (JArr [JStr (of_type f)]))) = Inr f"
    by (rule parseFrameLine_o_typed [OF assms p(1)]) simp
  moreover have "parseFrameLine_o (stringify (?o (JObj [(js ''toString'', JNull)]))) = Inl Type_error"
    unfolding parseFrameLine_o_def p(2)
    by (simp add: exactObject_def exact_keys_iff string_value_def has_own_def)
  ultimately show ?thesis by (rule conjI)
qed

theorem envelope_type_coerced_witness:
  "parseFrameLine_o (stringify (JObj
      [(js ''protocol'', JStr OBSERVER_PROTOCOL_ID), (js ''type'', JArr [JStr (js ''observer.close'')]),
       (js ''messageId'', JStr (js ''m1'')), (js ''body'', JObj (observer_body_json (of_body demo_close_frame)))])) =
   Inr demo_close_frame"
  using envelope_type_coerced [OF demo_close_valid, THEN conjunct1]
  by (simp add: demo_close_frame_def del: stringify.simps)

end
