(* ===== verification/RegistryProperties.thy ===== *)
theory RegistryProperties
  imports RegistryInvariant ObserverCodec
begin

text \<open>
  The properties of the agent registry over runs of operations, and a small registry at work on
  which they are instantiated.
\<close>

section \<open>Runs of operations\<close>

definition registry_op_ok :: "registry_op \<Rightarrow> bool" where
  "registry_op_ok op = (case op of Reconstruct_op (Some n) \<Rightarrow> n \<le> MAX_SAFE_INTEGER | _ \<Rightarrow> True)"

definition no_restart :: "registry_op \<Rightarrow> bool" where
  "no_restart op = (case op of Reconstruct_op _ \<Rightarrow> False | _ \<Rightarrow> True)"

lemma reconstruct_ok: "registry_ok r \<Longrightarrow> registry_op_ok (Reconstruct_op p) \<Longrightarrow> registry_ok (reconstruct p r)"
  by (auto simp: registry_op_ok_def reconstruct_def registry_ok_def log_ok_rg_def Let_def split: option.split)

lemma keeps_registry_final: "keeps_registry m \<Longrightarrow> registry_ok r \<Longrightarrow> ok_later r (snd (m r))"
  using keeps_registryD [of m r] by (simp add: wpE_final)

lemma step_later: "no_restart op \<Longrightarrow> registry_ok r \<Longrightarrow> ok_later r (registry_step op r)"
  by (cases op) (auto simp: no_restart_def intro: keeps_registry_final register_keeps heartbeat_keeps lifecycle_keeps
      close_keeps transportClosed_keeps expire_keeps)

lemma step_ok: "registry_op_ok op \<Longrightarrow> registry_ok r \<Longrightarrow> registry_ok (registry_step op r)"
  using step_later [of op r] reconstruct_ok [of r]
  by (cases "no_restart op"; cases op) (auto simp: no_restart_def ok_later_def)

lemma run_later:
  assumes "list_all no_restart ops" "registry_ok r"
  shows "ok_later r (registry_run ops r)"
  using run_with_keeps [of no_restart "ok_later r" registry_step ops r] assms step_later ok_self ok_later_trans ok_later_ok
  unfolding registry_run_def by blast

lemma run_registry_ok: "list_all registry_op_ok ops \<Longrightarrow> registry_ok r \<Longrightarrow> registry_ok (registry_run ops r)"
  unfolding registry_run_def by (rule run_with_keeps [of registry_op_ok]) (auto intro: step_ok)

lemma new_registry_ok: "new_registry node ticks issuer throws = Inr r \<Longrightarrow> registry_ok r"
  by (auto simp: new_registry_def registry_ok_def log_ok_rg_def MAX_SAFE_INTEGER_def split: if_splits)

text \<open>
  C22. The registry keeps its books: after any registrations, reports, disconnects, expiries and
  restarts, with any bodies, any clock, any capability issuer and any failures of the persistence
  port, every session is filed under its own identity, its accepted attempt and sequence are its
  high-water marks, no two sessions share a capability, all capabilities were issued here, the
  limits on sessions, events and remembered identifiers hold, and the revisions of the event log
  strictly increase up to the current one.
\<close>

theorem registry_invariant:
  assumes "new_registry node ticks issuer throws = Inr r" and "list_all registry_op_ok ops"
  shows "registry_ok (registry_run ops r)"
  using assms new_registry_ok run_registry_ok by blast

lemma register_marks:
  "wpE (register c b) (\<lambda>_ r'. \<exists>v. validateObserverRegister b = Inr v \<and>
     map_of (rg_highWater r') (registration_key v) =
       Some \<lparr>hw_attempt = og_registrationAttempt v, hw_sequence = og_sourceSequence v\<rparr>) (\<lambda>_ _. True) r"
proof (cases "validateObserverRegister b")
  case (Inr v)
  have "wpE (open_session c v e) (\<lambda>_ r'. map_of (rg_highWater r') (registration_key v) =
       Some \<lparr>hw_attempt = og_registrationAttempt v, hw_sequence = og_sourceSequence v\<rparr>) (\<lambda>_ _. True) r" for e r
    unfolding open_session_def wpE_bind
    by (cases e) (auto intro!: wpE_issueI simp: wpE_simps Let_def put_highWater_def)
  then show ?thesis
    by (auto simp: register_def check_highWater_def wpE_simps Inr split: option.split)
qed (simp add: register_def wpE_simps)

text \<open>
  C23. Until the registry is restarted a registration is not accepted twice: once a registration body
  was accepted, the same body sent again, on the same or any other transport, after any operations
  other than a restart, is refused as stale and changes nothing. (What happened before does not
  matter, restarts from a valid revision included. A restart forgets the marks: \<open>replayed_after_restart\<close>.)
\<close>

theorem registration_never_replayed:
  assumes "new_registry node ticks issuer throws = Inr r0" and "list_all registry_op_ok ops"
    and "register c body (registry_run ops r0) = (Inr envelope, r)" and "list_all no_restart afterwards"
  shows "register c' body (registry_run afterwards r) = (Inl (Observer_error Stale_registration), registry_run afterwards r)"
proof -
  have ok: "registry_ok (registry_run ops r0)" using assms(1,2) new_registry_ok run_registry_ok by blast
  then have "registry_ok r" using keeps_registry_final [OF register_keeps ok, of c body] assms(3) by (simp add: ok_later_def)
  then have l: "later r (registry_run afterwards r)" using run_later [OF assms(4)] by (simp add: ok_later_def)
  obtain v where v: "validateObserverRegister body = Inr v"
    "map_of (rg_highWater r) (registration_key v) = Some \<lparr>hw_attempt = og_registrationAttempt v, hw_sequence = og_sourceSequence v\<rparr>"
    using wpE_returned [OF register_marks assms(3)] by blast
  then obtain h where "map_of (rg_highWater (registry_run afterwards r)) (registration_key v) = Some h"
    "og_registrationAttempt v \<le> hw_attempt h" using l unfolding later_def by fastforce
  then show ?thesis using v(1)
    by (simp add: register_def check_highWater_def bindE_def thenE_def liftE_def getE_def requireE_def throwE_def)
qed

lemma expire_one_sessions:
  "wpE (expire_one now e)
     (\<lambda>_ q'. rg_sessions q' = filter (\<lambda>x. \<not> (fst e = fst x \<and> ss_leaseUntil (snd e) \<le> now)) (rg_sessions q)) (\<lambda>_ _. True) q"
  by (auto simp: wpE_simps expire_one_def Let_def assoc_del_def intro: filter_cong)

lemma expire_each:
  "wpE (eachE (expire_one now) es)
     (\<lambda>_ q'. rg_sessions q' =
        filter (\<lambda>x. \<not> list_ex (\<lambda>e. fst e = fst x \<and> ss_leaseUntil (snd e) \<le> now) es) (rg_sessions q)) (\<lambda>_ _. True) q"
proof (induction es arbitrary: q)
  case (Cons e es)
  have "wpE (eachE (expire_one now) es)
      (\<lambda>_ q'. rg_sessions q' =
        filter (\<lambda>x. \<not> list_ex (\<lambda>e. fst e = fst x \<and> ss_leaseUntil (snd e) \<le> now) (e # es)) (rg_sessions q)) (\<lambda>_ _. True) q1"
    if "rg_sessions q1 = filter (\<lambda>x. \<not> (fst e = fst x \<and> ss_leaseUntil (snd e) \<le> now)) (rg_sessions q)" for q1
    using that by (intro wpE_mono [OF Cons.IH]) (auto intro: filter_cong)
  then show ?case
    unfolding eachE.simps wpE_then by (intro wpE_mono [OF expire_one_sessions]) auto
qed (simp add: wpE_simps)

text \<open>
  Expiry is exact: unless the revision cannot be advanced, a sweep removes the sessions whose
  lease has run out at the clock reading it takes, and keeps every other session as it was.
\<close>

theorem expire_removes_exactly:
  assumes "distinct (map fst (rg_sessions r))" and "expire r = (Inr (), r')"
  shows "rg_sessions r' = filter (\<lambda>e. rg_clock r (rg_reads r) < ss_leaseUntil (snd e)) (rg_sessions r)"
proof -
  let ?now = "rg_clock r (rg_reads r)" and ?S = "rg_sessions r"
  have "wpE expire (\<lambda>_ q. rg_sessions q =
      filter (\<lambda>x. \<not> list_ex (\<lambda>e. fst e = fst x \<and> ss_leaseUntil (snd e) \<le> ?now) ?S) ?S) (\<lambda>_ _. True) r"
    using expire_each [of ?now ?S "r\<lparr>rg_reads := Suc (rg_reads r)\<rparr>"] by (simp add: expire_def wpE_simps)
  from wpE_returned [OF this assms(2)]
  have "rg_sessions r' = filter (\<lambda>x. \<not> list_ex (\<lambda>e. fst e = fst x \<and> ss_leaseUntil (snd e) \<le> ?now) ?S) ?S" .
  also have "\<dots> = filter (\<lambda>e. ?now < ss_leaseUntil (snd e)) ?S"
  proof (rule filter_cong [OF refl])
    fix x assume x: "x \<in> set ?S"
    have u: "e = x" if "e \<in> set ?S" "fst e = fst x" for e
      using assms(1) x that by (auto simp: distinct_map dest: inj_onD)
    show "(\<not> list_ex (\<lambda>e. fst e = fst x \<and> ss_leaseUntil (snd e) \<le> ?now) ?S) = (?now < ss_leaseUntil (snd x))"
      unfolding list_ex_iff using x u by (metis linorder_not_less)
  qed
  finally show ?thesis .
qed

text \<open>
  A closed transport can leave a session behind: when two sessions were registered on one
  transport, reporting it closed ends only the first of them; the other one keeps the closed
  transport as its current connection and its availability, until its lease runs out.
\<close>

theorem shared_transport_outlives_close:
  assumes "distinct (map fst (rg_sessions r))"
    and "(k1, s1) \<in> set (rg_sessions r)" "(k2, s2) \<in> set (rg_sessions r)" "k1 \<noteq> k2"
    and "ss_connection s1 = Some c" "ss_connection s2 = Some c"
    and "transportClosed c r = (Inr x, r')"
  shows "(k1, s1) \<in> set (rg_sessions r') \<and> isCurrentConnection c (ss_connectionId s1) (ss_connectionChallenge s1) r' \<or>
    (k2, s2) \<in> set (rg_sessions r') \<and> isCurrentConnection c (ss_connectionId s2) (ss_connectionChallenge s2) r'"
proof (cases "List.find (\<lambda>e. ss_connection (snd e) = Some c) (rg_sessions r)")
  case None
  then show ?thesis using assms(2,5) by (auto simp: find_None_iff2)
next
  case (Some e)
  obtain key s where e: "e = (key, s)" by (cases e)
  have "wpE (transportClosed c) (\<lambda>_ q. \<exists>s'. rg_sessions q = assoc_put key s' (rg_sessions r)) (\<lambda>_ _. True) r"
    using Some by (auto simp: transportClosed_def wpE_simps Let_def e split: sum.split)
  from wpE_returned [OF this assms(7)] obtain s' where "rg_sessions r' = assoc_put key s' (rg_sessions r)" by blast
  then have kept: "(k, t) \<in> set (rg_sessions r')" if "(k, t) \<in> set (rg_sessions r)" "k \<noteq> key" for k t
    using that set_assoc_put [OF assms(1), of key s'] by simp
  have cur: "isCurrentConnection c (ss_connectionId t) (ss_connectionChallenge t) r'"
    if "(k, t) \<in> set (rg_sessions r')" "ss_connection t = Some c" for k t
    using that unfolding isCurrentConnection_def list_ex_iff is_current_def by (intro bexI [of _ "(k, t)"]) simp_all
  show ?thesis
    using kept [OF assms(2)] kept [OF assms(3)] cur [OF _ assms(5)] cur [OF _ assms(6)] assms(4) by blast
qed

section \<open>Answers to repeated events\<close>

lemma find_assoc_put:
  assumes "List.find P m = Some (k, v)" "P (k, v')" "distinct (map fst m)"
  shows "List.find P (assoc_put k v' m) = Some (k, v')"
  using assms by (induction m) (auto split: if_splits)

lemma current_is_kept:
  "is_current c i x (lifecycle_session v n k s) = is_current c i x s"
  "is_current c i x (remember e b w s) = is_current c i x s"
  by (simp_all add: is_current_def lifecycle_session_def remember_def)

lemma map_of_remember: "map_of (ss_dedup s) e = None \<Longrightarrow> map_of (ss_dedup (remember e b w s)) e = Some (b, w)"
  by (simp add: remember_def)

text \<open>
  A lifecycle event is taken once and answered alike ever after: when an event was accepted,
  the same event sent again on the same transport gives the same record and changes nothing, and
  another event under the same identifier is refused.
\<close>

theorem lifecycle_event_idempotent:
  assumes "registry_ok r" and "lifecycle c body r = (Inr record, r')"
  shows "lifecycle c body r' = (Inr record, r')"
proof -
  obtain v where v: "validateObserverLifecycle body = Inr v"
    using assms(2) by (cases "validateObserverLifecycle body") (auto simp: lifecycle_def bindE_def liftE_def)
  let ?P = "\<lambda>e. is_current c (ol_connectionId v) (ol_connectionChallenge v) (snd e)"
  have w: "wpE (lifecycle c body)
      (\<lambda>x q. \<exists>key s. List.find ?P (rg_sessions q) = Some (key, s) \<and>
         map_of (ss_dedup s) (ol_eventId v) = Some (lifecycle_bytes v, x)) (\<lambda>_ _. True) r"
  proof (cases "List.find ?P (rg_sessions r)")
    case None
    then show ?thesis by (simp add: lifecycle_def wpE_simps v resolveCurrent_def)
  next
    case (Some e)
    obtain key s where e: "e = (key, s)" by (cases e)
    note f = find_assoc_put [OF Some [unfolded e]]
    have d: "distinct (map fst (rg_sessions r))" using assms(1) by (simp add: registry_ok_def)
    have p: "?P (key, s)" using find_Some_in [OF Some] e by simp
    show ?thesis
      using p d f Some
      unfolding lifecycle_def wpE_simps v sum.case resolveCurrent_def lifecycle_session_def [symmetric]
      by (auto simp: e wpE_simps Let_def current_is_kept map_of_remember split: option.split sum.split)
  qed
  from wpE_returned [OF this assms(2)] show ?thesis
    by (auto simp: lifecycle_def bindE_def liftE_def v resolveCurrent_def getE_def retE_def)
qed

section \<open>A registry at work\<close>

definition demo_registration :: "string \<Rightarrow> observer_register" where
  "demo_registration extension =
     \<lparr>og_processIncarnationId = js ''p1'', og_piSessionId = js ''s1'', og_extensionInstanceId = js extension,
      og_hostPid = 7, og_observerVersion = js ''1.0.0'', og_capabilities = map snd OBSERVER_CAPABILITIES,
      og_registrationAttempt = 1, og_sourceSequence = 1, og_lifecycle = Running,
      og_activity = Idle_activity, og_health = Healthy\<rparr>"

definition demo_register_body :: "string \<Rightarrow> json option" where
  "demo_register_body extension = Some (JObj (observer_register_json (demo_registration extension)))"

lemma one_digit: "n < 10 \<Longrightarrow> digits n = [48 + n]"
  by (subst digits.simps) simp

lemma demo_registration_ok:
  assumes "extension \<in> {''e1'', ''e2''}"
  shows "observer_register_ok (demo_registration extension)"
proof -
  have "within_envelope (observer_register_json (demo_registration extension))"
    using assms
    by (auto simp: within_envelope_def observer_register_json_def demo_registration_def capabilities_json_def enum_text_def
        OBSERVER_CAPABILITIES_def OBSERVER_LIFECYCLE_VALUES_def OBSERVER_ACTIVITY_VALUES_def OBSERVER_HEALTH_VALUES_def
        quote_plain utf8_ascii plain_js int_text_def one_digit envelopeBytes_def)
  then show ?thesis using assms
    by (auto simp: observer_register_ok_def demo_registration_def ID_RE_def VERSION_RE_def matches_head_tail_def js_def
        is_alnum_def is_lower_def is_upper_def is_digit_def id_tail_def MAX_SAFE_INTEGER_def host_pid_max_def)
qed

lemma demo_register_valid:
  "validateObserverRegister (demo_register_body ''e1'') = Inr (demo_registration ''e1'')"
  "validateObserverRegister (demo_register_body ''e2'') = Inr (demo_registration ''e2'')"
  by (simp_all add: demo_register_body_def observer_register_complete demo_registration_ok)

definition demo_issuer :: "nat \<Rightarrow> purpose \<Rightarrow> jstr" where
  "demo_issuer n p = replicate 32 97 @ [98 + n]"

lemma demo_issuer_ok [simp]: "n < 20 \<Longrightarrow> ID_RE (demo_issuer n p)" "length (demo_issuer n p) = 33"
  "demo_issuer n p = demo_issuer m q \<longleftrightarrow> n = m"
  by (auto simp: demo_issuer_def ID_RE_def matches_head_tail_def id_tail_def char_class_defs list_all_iff numeral_eq_Suc)

definition demo_registry :: registry where
  "demo_registry = \<lparr>rg_node = js ''n1'', rg_sessions = [], rg_highWater = [], rg_issued = [], rg_eventLog = [],
     rg_revision = 0, rg_clock = (\<lambda>n. 20000 * int n), rg_reads = 0, rg_issuer = demo_issuer, rg_draws = 0,
     rg_save_throws = (\<lambda>_. False), rg_saved = []\<rparr>"

lemma demo_registry_new: "new_registry (js ''n1'') (\<lambda>n. 20000 * int n) demo_issuer (\<lambda>_. False) = Inr demo_registry"
  by (simp add: new_registry_def demo_registry_def ID_RE_def matches_head_tail_def js_def is_alnum_def
      is_lower_def is_upper_def is_digit_def id_tail_def)

theorem registry_invariant_witness:
  "registry_ok (registry_run [Register 7 (demo_register_body ''e1''), Transport_closed 7, Expire_op] demo_registry)"
  by (rule registry_invariant [OF demo_registry_new]) (simp add: registry_op_ok_def)

lemmas run_simps = bindE_def thenE_def liftE_def getE_def modifyE_def requireE_def retE_def throwE_def

definition demo_session :: "string \<Rightarrow> nat \<Rightarrow> int \<Rightarrow> observed_session" where
  "demo_session extension n k =
     fresh_session (demo_registration extension) 7 (demo_issuer (n + 2) Observed_purpose)
       (demo_issuer n Connection_purpose) (demo_issuer (n + 1) Challenge_purpose) (20000 * (k - 1)) k"

lemma demo_registered:
  "register 7 (demo_register_body ''e1'') demo_registry =
     (Inr (registered_body (js ''n1'') (demo_session ''e1'' 0 1)),
      demo_registry\<lparr>rg_sessions := [(registration_key (demo_registration ''e1''), demo_session ''e1'' 0 1)],
        rg_highWater := [(registration_key (demo_registration ''e1''), \<lparr>hw_attempt = 1, hw_sequence = 1\<rparr>)],
        rg_issued := [demo_issuer 0 Connection_purpose, demo_issuer 1 Challenge_purpose, demo_issuer 2 Observed_purpose],
        rg_eventLog := [event_of Registered (demo_session ''e1'' 0 1)],
        rg_revision := 1, rg_reads := 1, rg_draws := 3, rg_saved := [1]\<rparr>)"
  by (simp add: register_def run_simps demo_register_valid check_highWater_def open_session_def issueCapability_def
      draw_def advanceRevision_def save_def clock_now_def put_session_def put_highWater_def emit_def
      registeredEnvelope_def Let_def demo_registry_def demo_session_def event_log_limit_def MAX_SAFE_INTEGER_def
      OBSERVER_MAX_SESSIONS_def demo_registration_def [of "''e1''", THEN arg_cong [where f = og_registrationAttempt]]
      demo_registration_def [of "''e1''", THEN arg_cong [where f = og_sourceSequence]])

theorem registration_never_replayed_witness:
  "fst (register 8 (demo_register_body ''e1'')
     (registry_run [Transport_closed 7, Expire_op] (snd (register 7 (demo_register_body ''e1'') demo_registry)))) =
   Inl (Observer_error Stale_registration)"
  using registration_never_replayed [OF demo_registry_new, of "[]" 7 "demo_register_body ''e1''" _ _
      "[Transport_closed 7, Expire_op]" 8] demo_registered
  by (simp add: registry_run_def no_restart_def)

lemmas registry_eval = run_simps check_highWater_def open_session_def issueCapability_def draw_def advanceRevision_def
  save_def clock_now_def put_session_def put_highWater_def updateSourceHighWater_def emit_def
  registeredEnvelope_def event_log_limit_def
  MAX_SAFE_INTEGER_def OBSERVER_MAX_SESSIONS_def

definition demo_one :: registry where
  "demo_one = snd (register 7 (demo_register_body ''e1'') demo_registry)"

lemma demo_one_sel:
  "rg_sessions demo_one = [(registration_key (demo_registration ''e1''), demo_session ''e1'' 0 1)]"
  "rg_revision demo_one = 1" "rg_reads demo_one = 1" "rg_clock demo_one = (\<lambda>n. 20000 * int n)"
  "rg_save_throws demo_one = (\<lambda>_. False)" "length (rg_eventLog demo_one) = 1" "rg_node demo_one = js ''n1''"
  unfolding demo_one_def demo_registered by (simp_all add: demo_registry_def)

lemma demo_session_sel:
  "ss_leaseUntil (demo_session e n k) = 20000 * (k - 1) + 15000" "ss_connection (demo_session e n k) = Some 7"
  "ss_connectionId (demo_session e n k) = demo_issuer n Connection_purpose"
  "ss_connectionChallenge (demo_session e n k) = demo_issuer (n + 1) Challenge_purpose"
  "ss_dedup (demo_session e n k) = []" "ss_sequence (demo_session e n k) = 1"
  by (simp_all add: demo_session_def fresh_session_def OBSERVER_LEASE_DURATION_MS_def demo_registration_def)

text \<open>\<open>reconstruct\<close> clears the high-water marks, so the body that was refused as stale is then accepted again.\<close>

lemma replayed_after_restart: "\<exists>e. fst (register 8 (demo_register_body ''e1'') (reconstruct None demo_one)) = Inr e"
  unfolding demo_one_def demo_registered
  by (simp add: register_def registry_eval demo_register_valid reconstruct_def Let_def demo_registry_def)

theorem expire_removes_exactly_witness:
  "rg_sessions demo_one \<noteq> [] \<and> rg_sessions (snd (expire demo_one)) = []"
proof -
  have "fst (expire demo_one) = Inr ()"
    by (simp add: expire_def expire_one_def registry_eval demo_one_sel demo_session_sel)
  then have "expire demo_one = (Inr (), snd (expire demo_one))" by (metis prod.collapse)
  from expire_removes_exactly [OF _ this] show ?thesis by (simp add: demo_one_sel demo_session_sel)
qed

lemma keys_differ: "registration_key (demo_registration ''e2'') \<noteq> registration_key (demo_registration ''e1'')"
  by (simp add: registration_key_def demo_registration_def extensionKey_def)

definition demo_two :: registry where
  "demo_two = snd (register 7 (demo_register_body ''e2'') demo_one)"

lemma demo_two_sel:
  "rg_sessions demo_two = [(registration_key (demo_registration ''e1''), demo_session ''e1'' 0 1),
     (registration_key (demo_registration ''e2''), demo_session ''e2'' 3 2)]"
  "rg_revision demo_two = 2" "rg_save_throws demo_two = (\<lambda>_. False)" "rg_node demo_two = js ''n1''"
  using keys_differ
  unfolding demo_two_def demo_one_def demo_registered
  by (simp_all add: register_def demo_register_valid registry_eval Let_def
      demo_registry_def demo_session_def demo_registration_def [of "''e2''", THEN arg_cong [where f = og_registrationAttempt]])

lemma demo_record_ok:
  "observed_record_ok (session_record (js ''n1'') ((demo_session ''e1'' 0 1)\<lparr>ss_connection := None,
     ss_availability := Unavailable, ss_revision := 3\<rparr>))"
  by (simp add: observed_record_ok_def session_record_def demo_session_def fresh_session_def demo_registration_def
      MAX_SAFE_INTEGER_def)
     (simp add: ID_RE_def matches_head_tail_def js_def char_class_defs id_tail_def)

theorem shared_transport_outlives_close_witness:
  "list_ex (\<lambda>e. ss_connection (snd e) = Some 7) (rg_sessions (snd (transportClosed 7 demo_two)))"
proof -
  have "\<exists>x. fst (transportClosed 7 demo_two) = Inr x"
    by (simp add: transportClosed_def registry_eval demo_two_sel demo_session_sel Let_def recordFor_def
        buildObservedRecord_complete demo_record_ok)
  then obtain x where "transportClosed 7 demo_two = (Inr x, snd (transportClosed 7 demo_two))" by (metis prod.collapse)
  from shared_transport_outlives_close [where ?s1.0 = "demo_session ''e1'' 0 1" and ?s2.0 = "demo_session ''e2'' 3 2",
      OF _ _ _ keys_differ [symmetric] _ _ this]
  show ?thesis
    by (auto simp: demo_two_sel demo_session_sel list_ex_iff keys_differ keys_differ [symmetric]
        dest: bspec intro: bexI [where x = "(registration_key (demo_registration ''e2''), demo_session ''e2'' 3 2)"]
          bexI [where x = "(registration_key (demo_registration ''e1''), demo_session ''e1'' 0 1)"])
qed

definition demo_lifecycle :: observer_lifecycle_body where
  "demo_lifecycle =
     \<lparr>ol_connectionId = demo_issuer 0 Connection_purpose, ol_connectionChallenge = demo_issuer 1 Challenge_purpose,
      ol_eventId = js ''v1'', ol_sourceSequence = 2, ol_lifecycle = Running, ol_activity = Busy_activity,
      ol_health = Healthy\<rparr>"

lemma demo_lifecycle_ok: "observer_lifecycle_body_ok demo_lifecycle"
proof -
  have p: "plain (demo_issuer 0 p)" "plain (demo_issuer (Suc 0) p)" for p
    by (simp_all add: plain_def demo_issuer_def list_all_iff)
  have "within_envelope (observer_lifecycle_body_json demo_lifecycle)"
    by (simp add: within_envelope_def observer_lifecycle_body_json_def demo_lifecycle_def enum_text_def
        OBSERVER_LIFECYCLE_VALUES_def OBSERVER_ACTIVITY_VALUES_def OBSERVER_HEALTH_VALUES_def
        quote_plain utf8_ascii plain_js p int_text_def one_digit envelopeBytes_def)
  moreover have "ID_RE (js ''v1'')"
    by (simp add: ID_RE_def matches_head_tail_def js_def char_class_defs id_tail_def)
  ultimately show ?thesis
    by (simp add: observer_lifecycle_body_ok_def) (simp add: demo_lifecycle_def MAX_SAFE_INTEGER_def)
qed

definition demo_lifecycle_body :: "json option" where
  "demo_lifecycle_body = Some (JObj (observer_lifecycle_body_json demo_lifecycle))"

lemma demo_one_ok: "registry_ok demo_one"
  unfolding demo_one_def using keeps_registry_final [OF register_keeps new_registry_ok [OF demo_registry_new]]
  by (simp add: ok_later_def)

theorem lifecycle_event_idempotent_witness:
  "fst (lifecycle 7 demo_lifecycle_body (snd (lifecycle 7 demo_lifecycle_body demo_one))) =
     fst (lifecycle 7 demo_lifecycle_body demo_one) \<and>
   returned (fst (lifecycle 7 demo_lifecycle_body demo_one))"
proof -
  have v: "validateObserverLifecycle demo_lifecycle_body = Inr demo_lifecycle"
    unfolding demo_lifecycle_body_def by (rule observer_lifecycle_body_complete [OF demo_lifecycle_ok])
  have "observed_record_ok (session_record (js ''n1'') (lifecycle_session demo_lifecycle n 2 (demo_session ''e1'' 0 1)))" for n
    by (simp add: observed_record_ok_def session_record_def lifecycle_session_def demo_session_def fresh_session_def
        demo_registration_def MAX_SAFE_INTEGER_def)
       (simp add: ID_RE_def matches_head_tail_def js_def char_class_defs id_tail_def)
  note b = buildObservedRecord_complete [OF this]
  have "\<exists>x. fst (lifecycle 7 demo_lifecycle_body demo_one) = Inr x"
    unfolding lifecycle_def v lifecycle_session_def [symmetric]
    by (simp add: registry_eval resolveCurrent_def demo_one_sel is_current_def demo_session_sel Let_def recordFor_def b
        demo_lifecycle_def [THEN arg_cong [where f = ol_connectionId]]
        demo_lifecycle_def [THEN arg_cong [where f = ol_connectionChallenge]]
        demo_lifecycle_def [THEN arg_cong [where f = ol_sourceSequence]])
  then obtain x where "lifecycle 7 demo_lifecycle_body demo_one = (Inr x, snd (lifecycle 7 demo_lifecycle_body demo_one))"
    by (metis prod.collapse)
  from this lifecycle_event_idempotent [OF demo_one_ok this] show ?thesis by (metis fst_conv returned_simps(1))
qed

end
