(* ===== verification/Gateway.thy ===== *)
theory Gateway
  imports RegistryInvariant ObserverCodec
begin

text \<open>
  observer/live-gateway-core.ts: the observation-only gateway over one agent registry. A
  connection is the number of its transport object. What \<open>send\<close> of a connection does is a
  parameter: \<open>gw_send_throws c n\<close> says whether the gateway's \<open>n\<close>-th send, to connection \<open>c\<close>,
  throws; the message of an error is a parameter too. The gateway records the frames it sent and
  the projections it published; the callback that takes them cannot affect it.
\<close>

record gateway =
  gw_registry :: registry
  gw_sessions :: "(nat \<times> bool) list"
  gw_counter :: nat
  gw_sent :: "(nat \<times> observer_frame) list"
  gw_published :: "observed_projection list"
  gw_listening :: bool
  gw_send_throws :: "nat \<Rightarrow> nat \<Rightarrow> bool"
  gw_message :: "nat \<Rightarrow> observer_failure \<Rightarrow> jstr"
  gw_load :: "int list \<Rightarrow> int option"

type_synonym 'a gw = "(observer_failure, gateway, 'a) eff"

definition in_registry :: "'a rg \<Rightarrow> 'a gw" where
  "in_registry m g = (case m (gw_registry g) of (x, r) \<Rightarrow> (x, g\<lparr>gw_registry := r\<rparr>))"

text \<open>The default persistence keeps the value saved last.\<close>

definition in_memory_load :: "int list \<Rightarrow> int option" where
  "in_memory_load saved = (if saved = [] then None else Some (last saved))"

definition new_gateway ::
    "registry \<Rightarrow> bool \<Rightarrow> (nat \<Rightarrow> nat \<Rightarrow> bool) \<Rightarrow> (nat \<Rightarrow> observer_failure \<Rightarrow> jstr) \<Rightarrow> (int list \<Rightarrow> int option) \<Rightarrow> gateway" where
  "new_gateway r listening throws message load =
     \<lparr>gw_registry = r, gw_sessions = [], gw_counter = 0, gw_sent = [], gw_published = [],
      gw_listening = listening, gw_send_throws = throws, gw_message = message, gw_load = load\<rparr>"

section \<open>Projections and sends\<close>

definition agent_projection :: "session_agent \<Rightarrow> observed_agent" where
  "agent_projection a =
     \<lparr>oa_observedSessionId = sa_observedSessionId a, oa_lifecycle = sa_lifecycle a,
      oa_availability = sa_availability a, oa_health = sa_health a, oa_choices = []\<rparr>"

definition buildProjection :: "registry \<Rightarrow> observed_projection" where
  "buildProjection r =
     (let s = registry_snapshot r
      in \<lparr>op_observerRevision = os_observerRevision s, op_agents = map agent_projection (os_agents s)\<rparr>)"

definition gateway_snapshot :: "gateway \<Rightarrow> observed_projection" where
  "gateway_snapshot g = buildProjection (gw_registry g)"

definition publish :: "unit gw" where
  "publish =
     bindE (getE gw_listening) (\<lambda>listening.
     if listening then modifyE (\<lambda>g. g\<lparr>gw_published := gw_published g @ [gateway_snapshot g]\<rparr>) else retE ())"

text \<open>\<open>n.toString(16)\<close> and \<open>s.padStart(w, '0')\<close>.\<close>

fun hex_text :: "nat \<Rightarrow> jstr" where
  "hex_text n = (if n < 16 then [hex_digit n] else hex_text (n div 16) @ [hex_digit (n mod 16)])"

declare hex_text.simps [simp del]

definition padStart :: "nat \<Rightarrow> jstr \<Rightarrow> jstr" where
  "padStart w s = replicate (w - length s) 48 @ s"

definition gateway_message_id :: "nat \<Rightarrow> jstr" where
  "gateway_message_id n = js ''gateway-'' @ padStart 32 (hex_text n)"

definition nextMessageId :: "jstr gw" where
  "nextMessageId g = (Inr (gateway_message_id (Suc (gw_counter g))), g\<lparr>gw_counter := Suc (gw_counter g)\<rparr>)"

definition send_to :: "nat \<Rightarrow> observer_frame \<Rightarrow> unit gw" where
  "send_to c f =
     bindE (getE (\<lambda>g. gw_send_throws g c (gw_counter g))) (\<lambda>throws.
     if throws then throwE Port_error else modifyE (\<lambda>g. g\<lparr>gw_sent := gw_sent g @ [(c, f)]\<rparr>))"

definition gateway_frame :: "jstr \<Rightarrow> observer_body \<Rightarrow> observer_frame" where
  "gateway_frame i b = \<lparr>of_type = js (observer_body_type b), of_messageId = i, of_body = b\<rparr>"

definition reply :: "nat \<Rightarrow> observer_body \<Rightarrow> unit gw" where
  "reply c b = bindE nextMessageId (\<lambda>i. send_to c (gateway_frame i b))"

definition boundedDetail :: "jstr \<Rightarrow> jstr" where
  "boundedDetail s = (if detailCharacters < length s then take detailCharacters s else s)"

text \<open>The code a failure is reported with: only an \<open>ObserverError\<close> carries its own.\<close>

fun failure_code :: "observer_failure \<Rightarrow> observer_code" where
  "failure_code (Observer_error c) = c"
| "failure_code Type_error = Invalid_envelope"
| "failure_code Port_error = Invalid_envelope"

definition reject :: "nat \<Rightarrow> observer_frame \<Rightarrow> observer_failure \<Rightarrow> unit gw" where
  "reject c f e =
     bindE (getE (\<lambda>g. gw_message g (gw_counter g) e)) (\<lambda>message.
     reply c (Ob_rejected \<lparr>oj_requestMessageId = of_messageId f, oj_code = failure_code e,
                           oj_detail = boundedDetail message\<rparr>))"

definition unsupported_detail :: "observer_frame \<Rightarrow> jstr" where
  "unsupported_detail f =
     (if of_type f = js ''adoption.ack'' then js ''adoption frames are not supported by the observation-only gateway''
      else js ''observer frame type '' @ of_type f @ js '' is not a client frame'')"

definition rejectUnsupported :: "nat \<Rightarrow> observer_frame \<Rightarrow> unit gw" where
  "rejectUnsupported c f =
     reply c (Ob_rejected \<lparr>oj_requestMessageId = of_messageId f,
       oj_code = (if of_type f = js ''adoption.ack'' then Unsupported_protocol else Invalid_envelope),
       oj_detail = unsupported_detail f\<rparr>)"

section \<open>Connections and their frames\<close>

definition accept_connection :: "nat \<Rightarrow> gateway \<Rightarrow> gateway" where
  "accept_connection c g = g\<lparr>gw_sessions := assoc_put c False (gw_sessions g)\<rparr>"

definition assertRegistered :: "nat \<Rightarrow> unit gw" where
  "assertRegistered c =
     bindE (getE (\<lambda>g. map_of (gw_sessions g) c)) (\<lambda>registered.
     requireE (registered = Some True) (Observer_error Connection_not_current))"

text \<open>Each handler validates the body again; the registry then validates the result.\<close>

definition revalidated :: "observer_frame \<Rightarrow> json option gw" where
  "revalidated f =
     bindE (liftE (validateObserverBodyForType (of_type f) (Some (JObj (observer_body_json (of_body f)))))) (\<lambda>b.
     retE (Some (JObj (observer_body_json b))))"

definition handleRegister :: "nat \<Rightarrow> observer_frame \<Rightarrow> unit gw" where
  "handleRegister c f =
     bindE (revalidated f) (\<lambda>body.
     bindE (in_registry (register c body)) (\<lambda>envelope.
     thenE (modifyE (\<lambda>g. g\<lparr>gw_sessions := assoc_put c True (gw_sessions g)\<rparr>))
    (thenE (reply c (Ob_registered envelope)) publish)))"

definition handleHeartbeat :: "nat \<Rightarrow> observer_frame \<Rightarrow> unit gw" where
  "handleHeartbeat c f =
     thenE (assertRegistered c)
    (bindE (revalidated f) (\<lambda>body. bindE (in_registry (heartbeat c body)) (\<lambda>_. publish)))"

definition handleLifecycle :: "nat \<Rightarrow> observer_frame \<Rightarrow> unit gw" where
  "handleLifecycle c f =
     thenE (assertRegistered c)
    (bindE (revalidated f) (\<lambda>body. bindE (in_registry (lifecycle c body)) (\<lambda>_. publish)))"

definition handleClose_g :: "nat \<Rightarrow> observer_frame \<Rightarrow> unit gw" where
  "handleClose_g c f =
     thenE (assertRegistered c)
    (bindE (revalidated f) (\<lambda>body. bindE (in_registry (close c body)) (\<lambda>_. publish)))"

definition dispatch :: "nat \<Rightarrow> observer_frame \<Rightarrow> unit gw" where
  "dispatch c f =
     (if of_type f = js ''observer.register'' then handleRegister c f
      else if of_type f = js ''observer.heartbeat'' then handleHeartbeat c f
      else if of_type f = js ''observer.lifecycle'' then handleLifecycle c f
      else if of_type f = js ''observer.close'' then handleClose_g c f
      else rejectUnsupported c f)"

definition handleFrame_g :: "nat \<Rightarrow> observer_frame \<Rightarrow> unit gw" where
  "handleFrame_g c f =
     bindE (getE (\<lambda>g. map_of (gw_sessions g) c)) (\<lambda>session.
     if session = None then retE () else catchE (dispatch c f) (reject c f))"

definition transportClosed_g :: "nat \<Rightarrow> unit gw" where
  "transportClosed_g c =
     bindE (getE (\<lambda>g. map_of (gw_sessions g) c)) (\<lambda>session.
     if session = None then retE ()
     else bindE (in_registry (transportClosed c)) (\<lambda>record.
          thenE (modifyE (\<lambda>g. g\<lparr>gw_sessions := assoc_del c (gw_sessions g)\<rparr>))
                (if record = None then retE () else publish)))"

definition sweep :: "unit gw" where
  "sweep = thenE (in_registry expire) publish"

text \<open>\<open>close()\<close>; what \<open>connection.close()\<close> does is the transport's matter.\<close>

definition close_gateway :: "gateway \<Rightarrow> gateway" where
  "close_gateway g =
     g\<lparr>gw_sessions := [],
       gw_registry := reconstruct (gw_load g (rg_saved (gw_registry g))) (gw_registry g)\<rparr>"

datatype gateway_op =
    Accept nat
  | Frame nat observer_frame
  | Gone nat
  | Sweep
  | Close_gateway

fun gateway_step :: "gateway_op \<Rightarrow> gateway \<Rightarrow> gateway" where
  "gateway_step (Accept c) g = accept_connection c g"
| "gateway_step (Frame c f) g = snd (handleFrame_g c f g)"
| "gateway_step (Gone c) g = snd (transportClosed_g c g)"
| "gateway_step Sweep g = snd (sweep g)"
| "gateway_step Close_gateway g = close_gateway g"

definition gateway_run :: "gateway_op list \<Rightarrow> gateway \<Rightarrow> gateway" where
  "gateway_run = run_with gateway_step"

end
