(* ===== verification/GatewayProperties.thy ===== *)
theory GatewayProperties
  imports Gateway RegistryProperties
begin

text \<open>
  What the gateway makes observers see: every operation of its registry either moves the
  revision or leaves the projection as it was, and the properties of runs of the gateway.
\<close>

section \<open>What an operation does to the projection of the registry\<close>

text \<open>
  The projection is what observers see. It changes only together with the revision
  (\<open>moved\<close>). An operation that throws leaves the whole registry as it was (\<open>same_view\<close>): sessions
  with their leases and remembered events, marks, event log, revision and clock. What remains of it
  are capabilities drawn before the failure, never to be issued again, and the save of a revision
  that the persistence port refused.
\<close>

definition same_view :: "registry \<Rightarrow> registry \<Rightarrow> bool" where
  "same_view r r' \<longleftrightarrow>
     rg_node r' = rg_node r \<and> rg_sessions r' = rg_sessions r \<and> rg_highWater r' = rg_highWater r \<and>
     rg_eventLog r' = rg_eventLog r \<and> rg_revision r' = rg_revision r \<and> rg_reads r' = rg_reads r \<and>
     take (length (rg_issued r)) (rg_issued r') = rg_issued r"

definition moved :: "registry \<Rightarrow> registry \<Rightarrow> bool" where
  "moved r r' \<longleftrightarrow> rg_revision r < rg_revision r' \<or> buildProjection r' = buildProjection r"

definition shown :: "jstr \<times> observed_session \<Rightarrow> observed_agent" where
  "shown e = agent_projection (agent_of (snd e))"

lemma buildProjection_shown:
  "buildProjection r = \<lparr>op_observerRevision = rg_revision r, op_agents = map shown (rg_sessions r)\<rparr>"
  unfolding buildProjection_def registry_snapshot_def Let_def shown_def by (simp only: map_map o_def observed_snapshot.select_convs)

lemma same_projection: "same_view r r' \<Longrightarrow> buildProjection r' = buildProjection r"
  by (simp add: same_view_def buildProjection_shown)

lemma register_view: "wpE (register c b) (\<lambda>_. moved r) (\<lambda>_. same_view r) r"
proof (cases "validateObserverRegister b")
  case (Inr v)
  have "wpE (open_session c v e) (\<lambda>_. moved r) (\<lambda>_. same_view r) r" for e
    unfolding open_session_def wpE_bind
    by (cases e) (auto intro!: wpE_issueI simp: wpE_simps Let_def put_highWater_def moved_def same_view_def)
  then show ?thesis
    by (auto simp: register_def check_highWater_def wpE_simps Inr same_view_def split: option.split)
qed (simp add: register_def wpE_simps same_view_def)

lemma moved_self: "moved r r" by (simp add: moved_def)
lemma same_view_self: "same_view r r" by (simp add: same_view_def)

lemma close_view:
  assumes ok: "registry_ok r" shows "wpE (close c b) (\<lambda>_. moved r) (\<lambda>_. same_view r) r"
proof (cases "validateObserverClose b")
  case (Inr v)
  show ?thesis
    unfolding close_def wpE_bind wpE_basic Inr sum.case
    apply (rule wpE_resolveCurrent [OF ok], rule same_view_self)
    subgoal for key s
      using record_of_session [OF ok, of key s "s\<lparr>ss_sequence := oc_sourceSequence v, ss_connection := None,
                ss_availability := Unavailable, ss_revision := rg_revision r + 1\<rparr>"]
      by (auto simp: wpE_simps Let_def same_session_def moved_def same_view_def)
    done
qed (simp add: close_def wpE_simps same_view_self)

lemma lifecycle_view:
  assumes ok: "registry_ok r" shows "wpE (lifecycle c b) (\<lambda>_. moved r) (\<lambda>_. same_view r) r"
proof (cases "validateObserverLifecycle b")
  case (Inr v)
  show ?thesis
    unfolding lifecycle_def wpE_bind wpE_basic Inr sum.case lifecycle_session_def [symmetric]
    apply (rule wpE_resolveCurrent [OF ok], rule same_view_self)
    subgoal for key s
      using record_of_session [OF ok, of key s "lifecycle_session v n (rg_revision r + 1) s" for n]
      by (auto simp: wpE_simps Let_def moved_def moved_self same_view_self simp: same_view_def split: option.split)
    done
qed (simp add: lifecycle_def wpE_simps same_view_self)

lemma map_assoc_put: "map_of m k = Some v0 \<Longrightarrow> f (k, v) = f (k, v0) \<Longrightarrow> map f (assoc_put k v m) = map f m"
  by (induction k v m rule: assoc_put.induct) (auto split: if_splits)

lemma heartbeat_view:
  assumes ok: "registry_ok r" shows "wpE (heartbeat c b) (\<lambda>_. moved r) (\<lambda>_. same_view r) r"
proof (cases "validateObserverHeartbeat b")
  case (Inr v)
  show ?thesis
    unfolding heartbeat_def wpE_bind wpE_basic Inr sum.case
    apply (rule wpE_resolveCurrent [OF ok], rule same_view_self)
    subgoal premises s for key s
    proof (cases "ss_lifecycle s \<noteq> oh_lifecycle v \<or> ss_activity s \<noteq> oh_activity v \<or> ss_health s \<noteq> oh_health v")
      case True
      let ?s = "\<lambda>n. s\<lparr>ss_sequence := oh_sourceSequence v, ss_lifecycle := oh_lifecycle v, ss_activity := oh_activity v,
          ss_health := oh_health v, ss_leaseUntil := n + OBSERVER_LEASE_DURATION_MS, ss_revision := rg_revision r + 1\<rparr>"
      show ?thesis
        using record_of_session [OF ok s(2), of "?s n" for n]
        unfolding prod.case Let_def if_P [OF True]
        by (auto simp: wpE_simps Let_def moved_def same_session_def same_view_self simp: same_view_def)
    next
      case False
      then have e: "oh_lifecycle v = ss_lifecycle s" "oh_activity v = ss_activity s" "oh_health v = ss_health s" by auto
      let ?s = "\<lambda>n. s\<lparr>ss_sequence := oh_sourceSequence v, ss_lifecycle := ss_lifecycle s, ss_activity := ss_activity s,
          ss_health := ss_health s, ss_leaseUntil := n + OBSERVER_LEASE_DURATION_MS, ss_revision := ss_revision s\<rparr>"
      have r: "buildObservedRecord (observed_facts (session_record (rg_node r) (?s n))) = Inr (session_record (rg_node r) (?s n))" for n
        using ok s(2) by (intro buildObservedRecord_complete)
          (simp add: observed_record_ok_def session_record_def registry_ok_def session_ok_def)
      have m: "map shown (assoc_put key (?s n) (rg_sessions r)) = map shown (rg_sessions r)" for n
        by (rule map_assoc_put [OF s(1)]) (simp add: shown_def agent_of_def agent_projection_def)
      show ?thesis
        unfolding prod.case Let_def if_not_P [OF False] e
        using r m by (simp add: wpE_simps Let_def moved_def same_view_self buildProjection_shown)
    qed
    done
qed (simp add: heartbeat_def wpE_simps same_view_self)

lemma transportClosed_view:
  assumes ok: "registry_ok r"
  shows "wpE (transportClosed c) (\<lambda>x r'. moved r r' \<and> (x = None \<longrightarrow> r' = r)) (\<lambda>_. same_view r) r"
proof (cases "List.find (\<lambda>e. ss_connection (snd e) = Some c) (rg_sessions r)")
  case (Some e)
  obtain key s where e: "e = (key, s)" by (cases e)
  have s: "session_ok r key s" using found_in [OF ok Some [unfolded e]] by simp
  show ?thesis
    using record_of_session [OF ok s, of "s\<lparr>ss_connection := None, ss_availability := Unavailable, ss_revision := rg_revision r + 1\<rparr>"]
    unfolding transportClosed_def wpE_bind wpE_basic Some e option.case prod.case Let_def
    by (auto simp: wpE_simps Let_def same_session_def moved_def same_view_def)
qed (simp add: transportClosed_def wpE_simps moved_self)

lemma expire_one_view:
  "moved r0 r \<Longrightarrow> rg_revision r0 \<le> rg_revision r \<Longrightarrow>
   wpE (expire_one now e) (\<lambda>_ r'. moved r0 r' \<and> rg_revision r0 \<le> rg_revision r') (\<lambda>_ _. True) r"
  by (auto simp: expire_one_def wpE_simps Let_def moved_def)

lemma expire_each_view:
  "moved r0 r \<Longrightarrow> rg_revision r0 \<le> rg_revision r \<Longrightarrow>
   wpE (eachE (expire_one now) es) (\<lambda>_ r'. moved r0 r' \<and> rg_revision r0 \<le> rg_revision r') (\<lambda>_ _. True) r"
proof (induction es arbitrary: r)
  case (Cons e es)
  then show ?case unfolding eachE.simps wpE_then
    by (intro wpE_mono [OF expire_one_view [OF Cons.prems]]) (auto intro: Cons.IH)
qed (simp add: wpE_simps)

lemma expire_view: "wpE expire (\<lambda>_. moved r) (\<lambda>_ _. True) r"
  unfolding expire_def wpE_bind wpE_clock_now wpE_basic
  by (rule wpE_mono [OF expire_each_view [of r]]) (auto simp: moved_def buildProjection_shown)

section \<open>The gateway over its registry\<close>

lemma wpE_in_registry [wpE_simps]:
  "wpE (in_registry m) Q E g =
     wpE m (\<lambda>x r. Q x (g\<lparr>gw_registry := r\<rparr>)) (\<lambda>e r. E e (g\<lparr>gw_registry := r\<rparr>)) (gw_registry g)"
  by (auto simp: wpE_def in_registry_def split: prod.split sum.split)

lemma wpE_publish [wpE_simps]:
  "wpE publish Q E g =
     Q () (if gw_listening g then g\<lparr>gw_published := gw_published g @ [gateway_snapshot g]\<rparr> else g)"
  by (simp add: publish_def wpE_simps)

lemma wpE_nextMessageId [wpE_simps]:
  "wpE nextMessageId Q E g = Q (gateway_message_id (Suc (gw_counter g))) (g\<lparr>gw_counter := Suc (gw_counter g)\<rparr>)"
  by (simp add: wpE_def nextMessageId_def)

lemma wpE_reply [wpE_simps]:
  "wpE (reply c b) Q E g =
     (let i = gateway_message_id (Suc (gw_counter g)); g1 = g\<lparr>gw_counter := Suc (gw_counter g)\<rparr>
      in if gw_send_throws g c (Suc (gw_counter g)) then E Port_error g1
         else Q () (g1\<lparr>gw_sent := gw_sent g @ [(c, gateway_frame i b)]\<rparr>))"
  by (simp add: reply_def send_to_def wpE_simps Let_def)

text \<open>An operation that only reads or refuses: the gateway and the view of its registry are as before.\<close>

definition untouched :: "gateway \<Rightarrow> gateway \<Rightarrow> bool" where
  "untouched g g' \<longleftrightarrow>
     gw_sent g' = gw_sent g \<and> gw_published g' = gw_published g \<and> gw_sessions g' = gw_sessions g \<and>
     gw_send_throws g' = gw_send_throws g \<and> same_view (gw_registry g) (gw_registry g')"

text \<open>The operation of the registry that a report of a registered extension asks for.\<close>

definition report_call :: "jstr \<Rightarrow> nat \<Rightarrow> json option \<Rightarrow> observed_record rg" where
  "report_call type =
     (if type = js ''observer.heartbeat'' then heartbeat
      else if type = js ''observer.lifecycle'' then lifecycle
      else close)"

definition is_report :: "jstr \<Rightarrow> bool" where
  "is_report type \<longleftrightarrow> type \<in> {js ''observer.heartbeat'', js ''observer.lifecycle'', js ''observer.close''}"

text \<open>
  Accepted: the registry performed the operation of the frame's type on this connection and this
  body, to its end, and holds what that operation left.
\<close>

definition accepted :: "nat \<Rightarrow> observer_frame \<Rightarrow> gateway \<Rightarrow> gateway \<Rightarrow> bool" where
  "accepted c f g g' \<longleftrightarrow>
     moved (gw_registry g) (gw_registry g') \<and>
     gw_published g' = gw_published g @ (if gw_listening g then [gateway_snapshot g'] else []) \<and>
     (\<exists>b. validateObserverBodyForType (of_type f) (Some (JObj (observer_body_json (of_body f)))) = Inr b \<and>
       (if of_type f = js ''observer.register''
        then (\<exists>i e. register c (Some (JObj (observer_body_json b))) (gw_registry g) = (Inr e, gw_registry g') \<and>
               gw_sent g' = gw_sent g @ [(c, gateway_frame i (Ob_registered e))]) \<and>
             gw_sessions g' = assoc_put c True (gw_sessions g)
        else is_report (of_type f) \<and>
             (\<exists>x. report_call (of_type f) c (Some (JObj (observer_body_json b))) (gw_registry g) = (Inr x, gw_registry g')) \<and>
             gw_sent g' = gw_sent g \<and> gw_sessions g' = gw_sessions g \<and> map_of (gw_sessions g) c = Some True))"

definition refused :: "nat \<Rightarrow> observer_frame \<Rightarrow> gateway \<Rightarrow> gateway \<Rightarrow> bool" where
  "refused c f g g' \<longleftrightarrow>
     (\<exists>i code detail. gw_sent g' = gw_sent g @
        [(c, gateway_frame i (Ob_rejected \<lparr>oj_requestMessageId = of_messageId f, oj_code = code, oj_detail = detail\<rparr>))]) \<and>
     gw_published g' = gw_published g \<and> gw_sessions g' = gw_sessions g \<and>
     same_view (gw_registry g) (gw_registry g')"

lemma untouched_registry: "same_view (gw_registry g) r \<Longrightarrow> untouched g (g\<lparr>gw_registry := r\<rparr>)"
  by (simp add: untouched_def)

lemma untouched_self: "untouched g g"
  by (simp add: untouched_def same_view_self)

lemma gateway_snapshot_sel [simp]: "gateway_snapshot (g\<lparr>gw_published := p\<rparr>) = gateway_snapshot g"
  by (simp add: gateway_snapshot_def)

lemma report_handled:
  assumes "wpE m (\<lambda>_. moved (gw_registry g)) (\<lambda>_. same_view (gw_registry g)) (gw_registry g)"
    and "validateObserverBodyForType (of_type f) (Some (JObj (observer_body_json (of_body f)))) = Inr b"
    and "m = report_call (of_type f) c (Some (JObj (observer_body_json b)))" and "is_report (of_type f)"
    and "map_of (gw_sessions g) c = Some True"
  shows "wpE (bindE (in_registry m) (\<lambda>_. publish)) (\<lambda>_. accepted c f g) (\<lambda>_. untouched g) g"
proof -
  have "of_type f \<noteq> js ''observer.register''" using assms(4) by (auto simp: is_report_def)
  then show ?thesis unfolding wpE_simps
    by (intro wpE_mono [OF wpE_conj [OF assms(1) wpE_result]])
      (use assms(2-5) in \<open>auto simp: accepted_def untouched_registry\<close>)
qed

lemma register_handled:
  assumes "\<And>c n. \<not> gw_send_throws g c n" and "of_type f = js ''observer.register''"
  shows "wpE (handleRegister c f) (\<lambda>_. accepted c f g) (\<lambda>_. untouched g) g"
proof (cases "validateObserverBodyForType (of_type f) (Some (JObj (observer_body_json (of_body f))))")
  case (Inr b)
  have "wpE (in_registry (register c (Some (JObj (observer_body_json b))))) (\<lambda>envelope. wpE
      (thenE (modifyE (\<lambda>g. g\<lparr>gw_sessions := assoc_put c True (gw_sessions g)\<rparr>))
      (thenE (reply c (Ob_registered envelope)) publish)) (\<lambda>_. accepted c f g) (\<lambda>_. untouched g)) (\<lambda>_. untouched g) g"
    unfolding wpE_in_registry
    by (rule wpE_mono [OF wpE_conj [OF register_view wpE_result]])
       (use assms Inr in \<open>auto simp: wpE_simps Let_def accepted_def untouched_registry gateway_snapshot_def\<close>)
  then show ?thesis by (simp add: handleRegister_def revalidated_def wpE_bind wpE_basic Inr)
qed (simp add: handleRegister_def revalidated_def wpE_bind wpE_basic untouched_self)

lemma reports_handled:
  assumes ok: "registry_ok (gw_registry g)"
  shows "of_type f = js ''observer.heartbeat'' \<Longrightarrow> wpE (handleHeartbeat c f) (\<lambda>_. accepted c f g) (\<lambda>_. untouched g) g"
    "of_type f = js ''observer.lifecycle'' \<Longrightarrow> wpE (handleLifecycle c f) (\<lambda>_. accepted c f g) (\<lambda>_. untouched g) g"
    "of_type f = js ''observer.close'' \<Longrightarrow> wpE (handleClose_g c f) (\<lambda>_. accepted c f g) (\<lambda>_. untouched g) g"
  using report_handled [OF heartbeat_view [OF ok], of f _ c _ c] report_handled [OF lifecycle_view [OF ok], of f _ c _ c]
    report_handled [OF close_view [OF ok], of f _ c _ c]
  by (auto simp: handleHeartbeat_def handleLifecycle_def handleClose_g_def assertRegistered_def revalidated_def
      wpE_bind wpE_then wpE_basic untouched_self report_call_def is_report_def js_def split: sum.split)

lemma reject_refuses:
  assumes "\<And>c n. \<not> gw_send_throws g c n" and "untouched g g1"
  shows "wpE (reject c f e) (\<lambda>_. refused c f g) (\<lambda>_ _. False) g1"
  using assms by (auto simp: reject_def wpE_simps Let_def untouched_def refused_def)

lemma dispatch_handled:
  assumes "registry_ok (gw_registry g)" and "\<And>c n. \<not> gw_send_throws g c n"
  shows "wpE (dispatch c f) (\<lambda>_ g'. accepted c f g g' \<or> refused c f g g') (\<lambda>_. untouched g) g"
proof -
  note w = wpE_mono [where Q' = "\<lambda>_ g'. accepted c f g g' \<or> refused c f g g'" and E' = "\<lambda>_. untouched g"]
  have "wpE (rejectUnsupported c f) (\<lambda>_. refused c f g) (\<lambda>_. untouched g) g"
    using assms(2) by (auto simp: rejectUnsupported_def wpE_simps Let_def refused_def same_view_self)
  from w [OF this] w [OF register_handled [OF assms(2)], of f c] w [OF reports_handled(1) [OF assms(1)], of f c]
    w [OF reports_handled(2) [OF assms(1)], of f c] w [OF reports_handled(3) [OF assms(1)], of f c]
  show ?thesis unfolding dispatch_def by simp
qed

lemma frame_handled:
  assumes "registry_ok (gw_registry g)" and "\<And>c n. \<not> gw_send_throws g c n"
    and "map_of (gw_sessions g) c \<noteq> None"
  shows "accepted c f g (gateway_step (Frame c f) g) \<or> refused c f g (gateway_step (Frame c f) g)"
proof -
  have "wpE (handleFrame_g c f) (\<lambda>_ g'. accepted c f g g' \<or> refused c f g g') (\<lambda>_ g'. accepted c f g g' \<or> refused c f g g') g"
    unfolding handleFrame_g_def wpE_bind wpE_basic if_not_P [OF assms(3)] wpE_catch
    by (rule wpE_mono [OF dispatch_handled [OF assms(1,2)]])
       (auto intro: wpE_mono [OF reject_refuses [OF assms(2)]])
  then show ?thesis by (simp add: wpE_final)
qed

text \<open>
  C28. While no send throws and the registry keeps its books (as every reachable one does), every
  frame of a connected extension is either accepted or refused, exactly one of the two. Accepted: the
  registry completed the operation of the frame's type on this connection and body, the result is
  published once, and only a registration is answered, by what the registry returned, and enrols
  the connection; every other frame needs a prior registration. Refused: it is answered by one
  rejection that names it, nothing is published, and sessions, leases, remembered events, marks,
  event log, revision and connections stay as they were; only capabilities drawn meanwhile are lost.
\<close>

theorem frame_accepted_or_refused:
  assumes "registry_ok (gw_registry g)" and "\<And>c n. \<not> gw_send_throws g c n"
    and "map_of (gw_sessions g) c \<noteq> None"
  shows "accepted c f g (gateway_step (Frame c f) g) \<noteq> refused c f g (gateway_step (Frame c f) g)"
proof -
  have "\<not> (accepted c f g g' \<and> refused c f g g')" for g'
    by (auto simp: accepted_def refused_def gateway_frame_def split: if_splits)
  with frame_handled [OF assms] show ?thesis by blast
qed

section \<open>A gateway at work\<close>

definition demo_message :: "nat \<Rightarrow> observer_failure \<Rightarrow> jstr" where "demo_message n e = js ''refused''"

definition demo_gateway :: gateway where
  "demo_gateway = new_gateway demo_registry True (\<lambda>_ _. False) demo_message in_memory_load"

lemma demo_gateway_sel [simp]:
  "gw_registry demo_gateway = demo_registry" "gw_published demo_gateway = []"
  by (simp_all add: demo_gateway_def new_gateway_def)

definition demo_frame :: observer_frame where
  "demo_frame = gateway_frame (js ''m1'') (Ob_register (demo_registration ''e1''))"

lemma demo_frame_registers:
  "gateway_step (Frame 7 demo_frame) (accept_connection 7 demo_gateway) =
     (let r = snd (register 7 (demo_register_body ''e1'') demo_registry)
      in demo_gateway\<lparr>gw_registry := r, gw_sessions := [(7, True)], gw_counter := 1,
        gw_sent := [(7, gateway_frame (gateway_message_id 1) (Ob_registered (registered_body (js ''n1'') (demo_session ''e1'' 0 1))))],
        gw_published := [buildProjection r]\<rparr>)"
proof -
  have v: "validateObserverBodyForType (js ''observer.register'') (Some (JObj (observer_body_json (Ob_register (demo_registration ''e1''))))) =
      Inr (Ob_register (demo_registration ''e1''))"
    using validateObserverBody_complete [of "Ob_register (demo_registration ''e1'')"] demo_registration_ok by simp
  show ?thesis
    using demo_registered v
    by (simp add: handleFrame_g_def accept_connection_def demo_gateway_def new_gateway_def dispatch_def handleRegister_def
        revalidated_def demo_frame_def gateway_frame_def run_simps catchE_def in_registry_def demo_register_body_def
        reply_def nextMessageId_def send_to_def publish_def gateway_snapshot_def Let_def)
qed

theorem frame_accepted_or_refused_witness:
  "accepted 7 demo_frame (accept_connection 7 demo_gateway) (gateway_step (Frame 7 demo_frame) (accept_connection 7 demo_gateway)) \<noteq>
   refused 7 demo_frame (accept_connection 7 demo_gateway) (gateway_step (Frame 7 demo_frame) (accept_connection 7 demo_gateway))"
  by (rule frame_accepted_or_refused)
     (use new_registry_ok [OF demo_registry_new] in \<open>simp_all add: accept_connection_def demo_gateway_def new_gateway_def\<close>)

end
