(* ===== verification/CompanionContracts.thy ===== *)
theory CompanionContracts
  imports Telemetry
begin

text \<open>
  The session half of companion/contracts.ts: the errors of the desktop companion, the
  capabilities a plugin announces, the identity of a Projection Session and the envelopes that
  carry it. Names used again from other modules carry the suffix \<open>_c\<close>.
\<close>

definition COMPANION_PLUGIN_ID :: jstr where "COMPANION_PLUGIN_ID = js ''omarchestra.agent-console''"
definition COMPANION_PLUGIN_VERSION :: jstr where "COMPANION_PLUGIN_VERSION = js ''0.2.0''"
definition COMPANION_PROTOCOL_ID :: jstr where "COMPANION_PROTOCOL_ID = js ''omarchestra.companion/v1''"

datatype companion_code =
    Invalid_envelope_c | Envelope_too_large_c | Unsupported_protocol_c | Unsupported_capability
  | Plugin_not_installed | Stale_plugin_generation | Stale_projection_session
  | Invalid_projection_state | Invalid_intent | Duplicate_intent | Unsupported_compatibility
  | Invalid_release | Invalid_plan | Authorization_required | Authorization_mismatch_c | Stale_precondition
  | Unsafe_path | Foreign_installation | Invalid_receipt | Configuration_conflict | Postcondition_failed
  | Operation_failed | Incomplete_recovery

text \<open>What a call into the shell throws, and what a validator of src/protocol.ts throws, is no error of the companion's own.\<close>

datatype companion_failure = Companion_error companion_code | Protocol_failure protocol_code | Shell_failure

datatype capability =
    Session_open | Session_update | Session_intent | Session_hide | Session_clear
  | Session_resnapshot | Session_observer

definition COMPANION_CAPABILITIES :: "capability list" where
  "COMPANION_CAPABILITIES =
     [Session_open, Session_update, Session_intent, Session_hide, Session_clear, Session_resnapshot]"

definition COMPANION_OBSERVER_CAPABILITY :: capability where
  "COMPANION_OBSERVER_CAPABILITY = Session_observer"

definition COMPANION_ALL_CAPABILITIES :: "capability enum" where
  "COMPANION_ALL_CAPABILITIES =
     [(''session.open'', Session_open), (''session.update'', Session_update),
      (''session.intent'', Session_intent), (''session.hide'', Session_hide),
      (''session.clear'', Session_clear), (''session.resnapshot'', Session_resnapshot),
      (''session.observer'', Session_observer)]"

definition companion_envelopeBytes :: nat where "companion_envelopeBytes = 16 * 1024"
definition capabilityCount :: nat where "capabilityCount = length COMPANION_ALL_CAPABILITIES"
definition intentPayloadBytes :: nat where "intentPayloadBytes = 4096"
definition intentHistoryCount :: nat where "intentHistoryCount = 256"

lemma capabilities_ok [simp]: "enum_ok COMPANION_ALL_CAPABILITIES"
  unfolding enum_ok_def COMPANION_ALL_CAPABILITIES_def by (auto intro: capability.exhaust)

section \<open>Field validators\<close>

definition invalid_envelope :: "companion_failure + 'a" where
  "invalid_envelope = Inl (Companion_error Invalid_envelope_c)"

definition exactObject_c :: "json option \<Rightarrow> string list \<Rightarrow> companion_failure + obj" where
  "exactObject_c input names =
     (case object_of input of
        None \<Rightarrow> invalid_envelope
      | Some m \<Rightarrow> if exact_keys m names then Inr m else invalid_envelope)"

definition text_where :: "(jstr \<Rightarrow> bool) \<Rightarrow> json option \<Rightarrow> companion_failure + jstr" where
  "text_where ok input =
     (case string_of input of None \<Rightarrow> invalid_envelope | Some s \<Rightarrow> if ok s then Inr s else invalid_envelope)"

definition requireId_c :: "json option \<Rightarrow> companion_failure + jstr" where
  "requireId_c = text_where ID_RE"

definition requireVersion_c :: "json option \<Rightarrow> companion_failure + jstr" where
  "requireVersion_c = text_where VERSION_RE"

definition requireString_c :: "json option \<Rightarrow> nat \<Rightarrow> companion_failure + jstr" where
  "requireString_c input n = text_where (\<lambda>s. s \<noteq> [] \<and> length s \<le> n) input"

definition requirePositiveInteger_c :: "json option \<Rightarrow> companion_failure + int" where
  "requirePositiveInteger_c input =
     (case whole_of input of
        None \<Rightarrow> invalid_envelope
      | Some n \<Rightarrow> if 1 \<le> n \<and> n \<le> MAX_SAFE_INTEGER then Inr n else invalid_envelope)"

definition requireNonNegativeInteger_c :: "json option \<Rightarrow> companion_failure + int" where
  "requireNonNegativeInteger_c input =
     (case whole_of input of
        None \<Rightarrow> invalid_envelope
      | Some n \<Rightarrow> if 0 \<le> n \<and> n \<le> MAX_SAFE_INTEGER then Inr n else invalid_envelope)"

definition requireOneOf_c :: "'a enum \<Rightarrow> json option \<Rightarrow> companion_failure + 'a" where
  "requireOneOf_c choices input =
     (case string_of input of
        None \<Rightarrow> invalid_envelope
      | Some s \<Rightarrow> (case enum_of choices s of None \<Rightarrow> invalid_envelope | Some x \<Rightarrow> Inr x))"

definition requireProtocol_c :: "json option \<Rightarrow> companion_failure + unit" where
  "requireProtocol_c input =
     guardR (input = Some (JStr COMPANION_PROTOCOL_ID)) (Companion_error Unsupported_protocol_c)"

definition assertBoundedEnvelope :: "obj \<Rightarrow> companion_failure + unit" where
  "assertBoundedEnvelope m =
     guardR (utf8Bytes (stringify (JObj m)) \<le> companion_envelopeBytes) (Companion_error Envelope_too_large_c)"

lemma companion_fields_iff [result_simps]:
  "exactObject_c v fs = Inr m \<longleftrightarrow> v = Some (JObj m) \<and> exact_keys m fs"
  "text_where ok v = Inr s \<longleftrightarrow> v = Some (JStr s) \<and> ok s"
  "requireId_c v = Inr s \<longleftrightarrow> v = Some (JStr s) \<and> ID_RE s"
  "requireVersion_c v = Inr s \<longleftrightarrow> v = Some (JStr s) \<and> VERSION_RE s"
  "requireString_c v n = Inr s \<longleftrightarrow> v = Some (JStr s) \<and> s \<noteq> [] \<and> length s \<le> n"
  "requirePositiveInteger_c v = Inr k \<longleftrightarrow> v = Some (JWhole k) \<and> 1 \<le> k \<and> k \<le> MAX_SAFE_INTEGER"
  "requireNonNegativeInteger_c v = Inr k \<longleftrightarrow> v = Some (JWhole k) \<and> 0 \<le> k \<and> k \<le> MAX_SAFE_INTEGER"
  "requireProtocol_c v = Inr u \<longleftrightarrow> v = Some (JStr COMPANION_PROTOCOL_ID)"
  "assertBoundedEnvelope m = Inr u \<longleftrightarrow> utf8Bytes (stringify (JObj m)) \<le> companion_envelopeBytes"
  by (auto simp: exactObject_c_def text_where_def requireId_c_def requireVersion_c_def requireString_c_def
      requirePositiveInteger_c_def requireNonNegativeInteger_c_def requireProtocol_c_def assertBoundedEnvelope_def
      invalid_envelope_def result_simps split: option.splits simp del: stringify.simps)

lemma requireOneOf_c_iff [result_simps]:
  "enum_ok t \<Longrightarrow> requireOneOf_c t v = Inr x \<longleftrightarrow> v = Some (JEnum t x)"
  by (auto simp: requireOneOf_c_def invalid_envelope_def enum_of_iff split: option.splits)

section \<open>Capabilities\<close>

record capabilities_envelope =
  ce_pluginId :: jstr
  ce_version :: jstr
  ce_pluginGeneration :: int
  ce_capabilities :: "capability list"

definition requireCapabilityArray :: "json option \<Rightarrow> companion_failure + capability list" where
  "requireCapabilityArray input =
     (case array_of input of
        None \<Rightarrow> Inl (Companion_error Unsupported_capability)
      | Some vs \<Rightarrow>
          if capabilityCount < length vs then Inl (Companion_error Unsupported_capability)
          else andThen (mapR (\<lambda>v. requireOneOf_c COMPANION_ALL_CAPABILITIES (Some v)) vs) (\<lambda>cs.
               if distinct cs then Inr cs else Inl (Companion_error Unsupported_capability)))"

definition capabilities_envelope_json :: "capabilities_envelope \<Rightarrow> obj" where
  "capabilities_envelope_json e =
     [(js ''protocol'', JStr COMPANION_PROTOCOL_ID), (js ''pluginId'', JStr (ce_pluginId e)),
      (js ''version'', JStr (ce_version e)), (js ''pluginGeneration'', JWhole (ce_pluginGeneration e)),
      (js ''capabilities'', JArr (map (JEnum COMPANION_ALL_CAPABILITIES) (ce_capabilities e)))]"

definition validateCapabilitiesEnvelope :: "json option \<Rightarrow> companion_failure + capabilities_envelope" where
  "validateCapabilitiesEnvelope input =
     andThen (exactObject_c input [''protocol'', ''pluginId'', ''version'', ''pluginGeneration'', ''capabilities'']) (\<lambda>m.
     andThen (requireProtocol_c (own_prop m ''protocol'')) (\<lambda>_.
     andThen (requireCapabilityArray (own_prop m ''capabilities'')) (\<lambda>capabilities.
     andThen (requireId_c (own_prop m ''pluginId'')) (\<lambda>pluginId.
     andThen (requireVersion_c (own_prop m ''version'')) (\<lambda>version.
     andThen (requirePositiveInteger_c (own_prop m ''pluginGeneration'')) (\<lambda>pluginGeneration.
     let result = \<lparr>ce_pluginId = pluginId, ce_version = version, ce_pluginGeneration = pluginGeneration,
                   ce_capabilities = capabilities\<rparr>
     in andThen (assertBoundedEnvelope (capabilities_envelope_json result)) (\<lambda>_. Inr result)))))))"

definition capabilities_envelope_ok :: "capabilities_envelope \<Rightarrow> bool" where
  "capabilities_envelope_ok e \<longleftrightarrow>
     ID_RE (ce_pluginId e) \<and> VERSION_RE (ce_version e) \<and> 1 \<le> ce_pluginGeneration e \<and>
     ce_pluginGeneration e \<le> MAX_SAFE_INTEGER \<and> distinct (ce_capabilities e) \<and>
     length (ce_capabilities e) \<le> capabilityCount \<and>
     utf8Bytes (stringify (JObj (capabilities_envelope_json e))) \<le> companion_envelopeBytes"

lemma capabilities_envelope_complete:
  assumes "capabilities_envelope_ok e"
  shows "validateCapabilitiesEnvelope (Some (JObj (capabilities_envelope_json e))) = Inr e"
proof -
  have "mapR (\<lambda>v. requireOneOf_c COMPANION_ALL_CAPABILITIES (Some v)) (map (JEnum COMPANION_ALL_CAPABILITIES) (ce_capabilities e)) =
      Inr (ce_capabilities e)"
    using mapR_map [of "ce_capabilities e" "\<lambda>v. requireOneOf_c COMPANION_ALL_CAPABILITIES (Some v)"
        "JEnum COMPANION_ALL_CAPABILITIES" id] by (simp add: requireOneOf_c_def)
  then have "requireCapabilityArray (Some (JArr (map (JEnum COMPANION_ALL_CAPABILITIES) (ce_capabilities e)))) =
      Inr (ce_capabilities e)"
    using assms by (simp add: requireCapabilityArray_def capabilities_envelope_ok_def del: length_map)
       (simp add: capabilities_envelope_ok_def)
  moreover have "exact_keys (capabilities_envelope_json e)
      [''protocol'', ''pluginId'', ''version'', ''pluginGeneration'', ''capabilities'']"
    by (simp add: exact_keys_def capabilities_envelope_json_def)
  moreover have "own_prop (capabilities_envelope_json e) ''protocol'' = Some (JStr COMPANION_PROTOCOL_ID)"
    "own_prop (capabilities_envelope_json e) ''pluginId'' = Some (JStr (ce_pluginId e))"
    "own_prop (capabilities_envelope_json e) ''version'' = Some (JStr (ce_version e))"
    "own_prop (capabilities_envelope_json e) ''pluginGeneration'' = Some (JWhole (ce_pluginGeneration e))"
    "own_prop (capabilities_envelope_json e) ''capabilities'' =
       Some (JArr (map (JEnum COMPANION_ALL_CAPABILITIES) (ce_capabilities e)))"
    by (simp_all add: own_prop_def capabilities_envelope_json_def)
  moreover have "requireId_c (Some (JStr (ce_pluginId e))) = Inr (ce_pluginId e)"
    "requireVersion_c (Some (JStr (ce_version e))) = Inr (ce_version e)"
    "requirePositiveInteger_c (Some (JWhole (ce_pluginGeneration e))) = Inr (ce_pluginGeneration e)"
    "assertBoundedEnvelope (capabilities_envelope_json e) = Inr ()"
    using assms by (simp_all add: companion_fields_iff capabilities_envelope_ok_def del: stringify.simps)
  moreover have eta: "\<lparr>ce_pluginId = ce_pluginId e, ce_version = ce_version e, ce_pluginGeneration = ce_pluginGeneration e,
      ce_capabilities = ce_capabilities e\<rparr> = e" by (cases e) simp
  ultimately show ?thesis
    by (simp add: validateCapabilitiesEnvelope_def exactObject_c_def requireProtocol_c_def Let_def eta)
qed

definition assertRequiredCapabilities :: "capability list \<Rightarrow> companion_failure + unit" where
  "assertRequiredCapabilities input =
     guardR (filter (\<lambda>c. c \<notin> set input) COMPANION_CAPABILITIES = []) (Companion_error Unsupported_capability)"

section \<open>Projection Sessions\<close>

record session_identity =
  si_sessionId :: jstr
  si_teamGoalId :: jstr
  si_clientId :: jstr
  si_sessionGeneration :: int
  si_pluginGeneration :: int

definition session_identity_json :: "session_identity \<Rightarrow> obj" where
  "session_identity_json s =
     [(js ''sessionId'', JStr (si_sessionId s)), (js ''teamGoalId'', JStr (si_teamGoalId s)),
      (js ''clientId'', JStr (si_clientId s)), (js ''sessionGeneration'', JWhole (si_sessionGeneration s)),
      (js ''pluginGeneration'', JWhole (si_pluginGeneration s))]"

definition validateProjectionSessionIdentity :: "json option \<Rightarrow> companion_failure + session_identity" where
  "validateProjectionSessionIdentity input =
     andThen (exactObject_c input [''sessionId'', ''teamGoalId'', ''clientId'', ''sessionGeneration'', ''pluginGeneration'']) (\<lambda>m.
     andThen (requireId_c (own_prop m ''sessionId'')) (\<lambda>sessionId.
     andThen (requireId_c (own_prop m ''teamGoalId'')) (\<lambda>teamGoalId.
     andThen (requireId_c (own_prop m ''clientId'')) (\<lambda>clientId.
     andThen (requirePositiveInteger_c (own_prop m ''sessionGeneration'')) (\<lambda>sessionGeneration.
     andThen (requirePositiveInteger_c (own_prop m ''pluginGeneration'')) (\<lambda>pluginGeneration.
     Inr \<lparr>si_sessionId = sessionId, si_teamGoalId = teamGoalId, si_clientId = clientId,
          si_sessionGeneration = sessionGeneration, si_pluginGeneration = pluginGeneration\<rparr>))))))"

definition session_identity_ok :: "session_identity \<Rightarrow> bool" where
  "session_identity_ok s \<longleftrightarrow>
     ID_RE (si_sessionId s) \<and> ID_RE (si_teamGoalId s) \<and> ID_RE (si_clientId s) \<and>
     1 \<le> si_sessionGeneration s \<and> si_sessionGeneration s \<le> MAX_SAFE_INTEGER \<and>
     1 \<le> si_pluginGeneration s \<and> si_pluginGeneration s \<le> MAX_SAFE_INTEGER"

lemma session_identity_sound: "validateProjectionSessionIdentity v = Inr s \<Longrightarrow> session_identity_ok s"
  by (auto simp: validateProjectionSessionIdentity_def session_identity_ok_def result_simps)

lemma session_identity_complete:
  "session_identity_ok s \<Longrightarrow> validateProjectionSessionIdentity (Some (JObj (session_identity_json s))) = Inr s"
  by (simp add: validateProjectionSessionIdentity_def session_identity_ok_def session_identity_json_def
      result_simps exact_keys_iff add_mset_commute)

definition assertPluginGeneration :: "int \<Rightarrow> int \<Rightarrow> companion_failure + unit" where
  "assertPluginGeneration expected received =
     andThen (requirePositiveInteger_c (Some (JWhole expected))) (\<lambda>_.
     andThen (requirePositiveInteger_c (Some (JWhole received))) (\<lambda>_.
     guardR (received = expected) (Companion_error Stale_plugin_generation)))"

definition assertCurrentSession :: "session_identity \<Rightarrow> session_identity \<Rightarrow> companion_failure + unit" where
  "assertCurrentSession expected received =
     andThen (assertPluginGeneration (si_pluginGeneration expected) (si_pluginGeneration received)) (\<lambda>_.
     guardR (si_sessionId received = si_sessionId expected \<and>
             si_sessionGeneration received = si_sessionGeneration expected \<and>
             si_teamGoalId received = si_teamGoalId expected \<and> si_clientId received = si_clientId expected)
       (Companion_error Stale_projection_session))"

end
