(* ===== verification/CompanionProjection.thy ===== *)
theory CompanionProjection
  imports CompanionContracts Effects
begin

text \<open>
  observer/companion-projection.ts and observer/live-companion-projection.ts: the validation of
  the projection of observed agents, the adapter that holds it and routes adoption intents, and
  the publisher that shows it in the panel of the shell. What the shell answers is a parameter of
  each step of the publisher.
\<close>

definition OBSERVER_PROJECTION_MAX_AGENTS :: nat where "OBSERVER_PROJECTION_MAX_AGENTS = 64"
definition OBSERVER_PROJECTION_MAX_CHOICES :: nat where "OBSERVER_PROJECTION_MAX_CHOICES = 16"
definition OBSERVER_INTENT_REMAINING_MS_MAX :: int where "OBSERVER_INTENT_REMAINING_MS_MAX = 30000"
definition OBSERVER_INTENT_DETAIL_MAX :: nat where "OBSERVER_INTENT_DETAIL_MAX = 1024"
definition OBSERVER_INTENT_LABEL_MAX :: nat where "OBSERVER_INTENT_LABEL_MAX = 512"

section \<open>The projection and its validator\<close>

definition requireBoundedText :: "json option \<Rightarrow> nat \<Rightarrow> companion_failure + jstr" where
  "requireBoundedText input n = text_where (\<lambda>s. s \<noteq> [] \<and> codePoints s \<le> n) input"

definition requireBoolean :: "json option \<Rightarrow> companion_failure + bool" where
  "requireBoolean input = (case input of Some (JBool b) \<Rightarrow> Inr b | _ \<Rightarrow> invalid_envelope)"

definition requireDigest_c :: "json option \<Rightarrow> companion_failure + jstr" where
  "requireDigest_c = text_where SHA256_RE"

definition bounded_array :: "json option \<Rightarrow> nat \<Rightarrow> companion_failure + json list" where
  "bounded_array input n =
     (case array_of input of None \<Rightarrow> invalid_envelope | Some vs \<Rightarrow> if n < length vs then invalid_envelope else Inr vs)"

lemma projection_fields_iff [result_simps]:
  "requireBoundedText v n = Inr s \<longleftrightarrow> v = Some (JStr s) \<and> s \<noteq> [] \<and> codePoints s \<le> n"
  "requireBoolean v = Inr b \<longleftrightarrow> v = Some (JBool b)"
  "requireDigest_c v = Inr s \<longleftrightarrow> v = Some (JStr s) \<and> SHA256_RE s"
  "bounded_array v n = Inr xs \<longleftrightarrow> v = Some (JArr xs) \<and> length xs \<le> n"
  by (auto simp: requireBoundedText_def requireBoolean_def requireDigest_c_def bounded_array_def invalid_envelope_def
      result_simps split: option.splits json.splits)

definition validateChoice :: "json \<Rightarrow> companion_failure + (jstr \<times> jstr \<times> bool)" where
  "validateChoice v =
     andThen (exactObject_c (Some v) [''choiceId'', ''label'', ''enabled'']) (\<lambda>m.
     andThen (requireId_c (own_prop m ''choiceId'')) (\<lambda>choiceId.
     andThen (requireBoundedText (own_prop m ''label'') 512) (\<lambda>label.
     andThen (requireBoolean (own_prop m ''enabled'')) (\<lambda>enabled.
     Inr (choiceId, label, enabled)))))"

definition validateAgent :: "json \<Rightarrow> companion_failure + observed_agent" where
  "validateAgent v =
     andThen (exactObject_c (Some v)
       [''observedSessionId'', ''piStatus'', ''lifecycle'', ''availability'', ''health'', ''choices'']) (\<lambda>m.
     andThen (requireBoundedText (own_prop m ''piStatus'') 512) (\<lambda>piStatus.
     andThen (guardR (piStatus = OBSERVER_PI_STATUS_LOCAL) (Companion_error Invalid_envelope_c)) (\<lambda>_.
     andThen (requireOneOf_c OBSERVER_LIFECYCLE_VALUES (own_prop m ''lifecycle'')) (\<lambda>lifecycle.
     andThen (requireOneOf_c OBSERVER_AVAILABILITY_VALUES (own_prop m ''availability'')) (\<lambda>availability.
     andThen (requireOneOf_c OBSERVER_HEALTH_VALUES (own_prop m ''health'')) (\<lambda>health.
     andThen (bounded_array (own_prop m ''choices'') OBSERVER_PROJECTION_MAX_CHOICES) (\<lambda>vs.
     andThen (mapR validateChoice vs) (\<lambda>choices.
     andThen (requireId_c (own_prop m ''observedSessionId'')) (\<lambda>observedSessionId.
     Inr \<lparr>oa_observedSessionId = observedSessionId, oa_lifecycle = lifecycle, oa_availability = availability,
          oa_health = health, oa_choices = choices\<rparr>)))))))))"

definition validateObserverProjectionSnapshot :: "json option \<Rightarrow> companion_failure + observed_projection" where
  "validateObserverProjectionSnapshot input =
     andThen (exactObject_c input [''observerRevision'', ''agents'']) (\<lambda>m.
     andThen (requireNonNegativeInteger_c (own_prop m ''observerRevision'')) (\<lambda>observerRevision.
     andThen (bounded_array (own_prop m ''agents'') OBSERVER_PROJECTION_MAX_AGENTS) (\<lambda>vs.
     andThen (mapR validateAgent vs) (\<lambda>agents.
     Inr \<lparr>op_observerRevision = observerRevision, op_agents = agents\<rparr>))))"

definition validateStandaloneObserverProjectionSnapshot :: "json option \<Rightarrow> companion_failure + observed_projection" where
  "validateStandaloneObserverProjectionSnapshot input =
     andThen (validateObserverProjectionSnapshot input) (\<lambda>validated.
     andThen (guardR (list_all (\<lambda>a. oa_choices a = []) (op_agents validated)) (Companion_error Invalid_envelope_c)) (\<lambda>_.
     Inr validated))"

fun choice_json :: "jstr \<times> jstr \<times> bool \<Rightarrow> json" where
  "choice_json (i, l, e) = JObj [(js ''choiceId'', JStr i), (js ''label'', JStr l), (js ''enabled'', JBool e)]"

definition agent_json :: "observed_agent \<Rightarrow> json" where
  "agent_json a =
     JObj [(js ''observedSessionId'', JStr (oa_observedSessionId a)), (js ''piStatus'', JStr OBSERVER_PI_STATUS_LOCAL),
           (js ''lifecycle'', JEnum OBSERVER_LIFECYCLE_VALUES (oa_lifecycle a)),
           (js ''availability'', JEnum OBSERVER_AVAILABILITY_VALUES (oa_availability a)),
           (js ''health'', JEnum OBSERVER_HEALTH_VALUES (oa_health a)),
           (js ''choices'', JArr (map choice_json (oa_choices a)))]"

definition projection_json :: "observed_projection \<Rightarrow> json" where
  "projection_json p =
     JObj [(js ''observerRevision'', JWhole (op_observerRevision p)), (js ''agents'', JArr (map agent_json (op_agents p)))]"

definition choice_ok :: "jstr \<times> jstr \<times> bool \<Rightarrow> bool" where
  "choice_ok c = (case c of (i, l, e) \<Rightarrow> ID_RE i \<and> l \<noteq> [] \<and> codePoints l \<le> 512)"

definition agent_ok :: "observed_agent \<Rightarrow> bool" where
  "agent_ok a \<longleftrightarrow> ID_RE (oa_observedSessionId a) \<and> length (oa_choices a) \<le> OBSERVER_PROJECTION_MAX_CHOICES \<and>
     list_all choice_ok (oa_choices a)"

definition projection_ok :: "observed_projection \<Rightarrow> bool" where
  "projection_ok p \<longleftrightarrow> 0 \<le> op_observerRevision p \<and> op_observerRevision p \<le> MAX_SAFE_INTEGER \<and>
     length (op_agents p) \<le> OBSERVER_PROJECTION_MAX_AGENTS \<and> list_all agent_ok (op_agents p)"

lemma validateChoice_complete: "choice_ok c \<Longrightarrow> validateChoice (choice_json c) = Inr c"
  by (cases c) (simp add: choice_ok_def validateChoice_def result_simps exact_keys_iff add_mset_commute)

lemma codePoints_length: "codePoints s \<le> length s"
  by (induction s rule: codePoints.induct) auto

lemma pi_status_bounded: "OBSERVER_PI_STATUS_LOCAL \<noteq> [] \<and> codePoints OBSERVER_PI_STATUS_LOCAL \<le> 512"
  using codePoints_length [of OBSERVER_PI_STATUS_LOCAL] by (simp add: OBSERVER_PI_STATUS_LOCAL_def)

lemma agent_keys:
  "exact_keys [(js ''observedSessionId'', a), (js ''piStatus'', b), (js ''lifecycle'', c), (js ''availability'', d),
     (js ''health'', e), (js ''choices'', f)]
   [''observedSessionId'', ''piStatus'', ''lifecycle'', ''availability'', ''health'', ''choices'']"
  by (simp add: exact_keys_def)

lemma validateAgent_complete:
  assumes "agent_ok a" shows "validateAgent (agent_json a) = Inr a"
proof -
  have "mapR validateChoice (map choice_json (oa_choices a)) = Inr (oa_choices a)"
    using mapR_map [of "oa_choices a" validateChoice choice_json id] assms validateChoice_complete
    by (auto simp: agent_ok_def list_all_iff)
  moreover have "ID_RE (oa_observedSessionId a)" "length (oa_choices a) \<le> OBSERVER_PROJECTION_MAX_CHOICES"
    using assms by (simp_all add: agent_ok_def)
  moreover have "requireBoundedText (Some (JStr OBSERVER_PI_STATUS_LOCAL)) 512 = Inr OBSERVER_PI_STATUS_LOCAL"
    using pi_status_bounded by (simp add: projection_fields_iff)
  ultimately show ?thesis
    unfolding validateAgent_def agent_json_def
    by (simp add: exactObject_c_def agent_keys own_prop_def requireOneOf_c_def bounded_array_def requireId_c_def text_where_def)
qed

lemma projection_complete:
  assumes "projection_ok p" shows "validateObserverProjectionSnapshot (Some (projection_json p)) = Inr p"
proof -
  have "mapR validateAgent (map agent_json (op_agents p)) = Inr (op_agents p)"
    using mapR_map [of "op_agents p" validateAgent agent_json id] assms validateAgent_complete
    by (auto simp: projection_ok_def list_all_iff)
  then show ?thesis using assms
    by (simp add: validateObserverProjectionSnapshot_def projection_json_def projection_ok_def result_simps
        exact_keys_iff add_mset_commute)
qed

section \<open>Intents and their results\<close>

datatype observer_intent =
    Request_adoption jstr jstr jstr
  | Authorize_adoption jstr jstr jstr

record intent_result =
  ir_session :: session_identity
  ir_intentId :: jstr
  ir_phase :: jstr
  ir_code :: jstr
  ir_detail :: jstr
  ir_proposalId :: "jstr option"
  ir_proposalDigest :: "jstr option"
  ir_remainingMs :: "int option"
  ir_displayLabel :: "jstr option"

definition validateObserverIntent :: "json option \<Rightarrow> companion_failure + observer_intent" where
  "validateObserverIntent input =
     (case object_of input of
        None \<Rightarrow> invalid_envelope
      | Some m \<Rightarrow>
          if own_prop m ''kind'' = Some (JStr (js ''request_adoption''))
          then andThen (exactObject_c input [''intentId'', ''kind'', ''observedSessionId'', ''choiceId'']) (\<lambda>_.
               andThen (requireId_c (own_prop m ''intentId'')) (\<lambda>intentId.
               andThen (requireId_c (own_prop m ''observedSessionId'')) (\<lambda>observedSessionId.
               andThen (requireId_c (own_prop m ''choiceId'')) (\<lambda>choiceId.
               Inr (Request_adoption intentId observedSessionId choiceId)))))
          else if own_prop m ''kind'' = Some (JStr (js ''authorize_adoption''))
          then andThen (exactObject_c input [''intentId'', ''kind'', ''proposalId'', ''proposalDigest'']) (\<lambda>_.
               andThen (requireId_c (own_prop m ''intentId'')) (\<lambda>intentId.
               andThen (requireId_c (own_prop m ''proposalId'')) (\<lambda>proposalId.
               andThen (requireDigest_c (own_prop m ''proposalDigest'')) (\<lambda>proposalDigest.
               Inr (Authorize_adoption intentId proposalId proposalDigest)))))
          else Inl (Companion_error Invalid_intent))"

definition validateObserverIntentResult :: "json option \<Rightarrow> companion_failure + intent_result" where
  "validateObserverIntentResult input =
     andThen (exactObject_c input [''session'', ''intentId'', ''phase'', ''code'', ''detail'', ''proposalId'',
       ''proposalDigest'', ''remainingMs'', ''displayLabel'']) (\<lambda>m.
     andThen (validateProjectionSessionIdentity (own_prop m ''session'')) (\<lambda>session.
     andThen (nullable requireNonNegativeInteger_c (own_prop m ''remainingMs'')) (\<lambda>remainingMs.
     andThen (guardR (case remainingMs of None \<Rightarrow> True | Some n \<Rightarrow> n \<le> OBSERVER_INTENT_REMAINING_MS_MAX)
       (Companion_error Invalid_envelope_c)) (\<lambda>_.
     andThen (requireId_c (own_prop m ''intentId'')) (\<lambda>intentId.
     andThen (requireBoundedText (own_prop m ''phase'') 64) (\<lambda>phase.
     andThen (requireBoundedText (own_prop m ''code'') 64) (\<lambda>code.
     andThen (requireBoundedText (own_prop m ''detail'') OBSERVER_INTENT_DETAIL_MAX) (\<lambda>detail.
     andThen (nullable requireId_c (own_prop m ''proposalId'')) (\<lambda>proposalId.
     andThen (nullable requireDigest_c (own_prop m ''proposalDigest'')) (\<lambda>proposalDigest.
     andThen (nullable (\<lambda>v. requireBoundedText v OBSERVER_INTENT_LABEL_MAX) (own_prop m ''displayLabel'')) (\<lambda>displayLabel.
     Inr \<lparr>ir_session = session, ir_intentId = intentId, ir_phase = phase, ir_code = code, ir_detail = detail,
          ir_proposalId = proposalId, ir_proposalDigest = proposalDigest, ir_remainingMs = remainingMs,
          ir_displayLabel = displayLabel\<rparr>)))))))))))"

text \<open>\<open>clone(intent)\<close>, the object that is forwarded to the port.\<close>

fun observer_intent_json :: "observer_intent \<Rightarrow> json" where
  "observer_intent_json (Request_adoption i s c) =
     JObj [(js ''intentId'', JStr i), (js ''kind'', JStr (js ''request_adoption'')),
           (js ''observedSessionId'', JStr s), (js ''choiceId'', JStr c)]"
| "observer_intent_json (Authorize_adoption i p d) =
     JObj [(js ''intentId'', JStr i), (js ''kind'', JStr (js ''authorize_adoption'')),
           (js ''proposalId'', JStr p), (js ''proposalDigest'', JStr d)]"

section \<open>The adapter\<close>

text \<open>
  \<open>CompanionObserverProjectionAdapter\<close>. The sinks keep what they were given, in order; the
  observer port is an argument of the calls that ask it.
\<close>

record observer_adapter =
  oad_session :: session_identity
  oad_current :: "observed_projection option"
  oad_subscribed :: bool
  oad_sunk :: "observed_projection list"
  oad_results :: "intent_result list"
  oad_forwarded :: "observer_intent list"

type_synonym 'a oad = "(companion_failure, observer_adapter, 'a) eff"

definition new_adapter :: "json option \<Rightarrow> companion_failure + observer_adapter" where
  "new_adapter session =
     andThen (validateProjectionSessionIdentity session) (\<lambda>s.
     Inr \<lparr>oad_session = s, oad_current = None, oad_subscribed = False, oad_sunk = [], oad_results = [],
          oad_forwarded = []\<rparr>)"

definition show_projection :: "observed_projection \<Rightarrow> unit oad" where
  "show_projection p = modifyE (\<lambda>a. a\<lparr>oad_current := Some p, oad_sunk := oad_sunk a @ [p]\<rparr>)"

definition is_newer :: "observed_projection \<Rightarrow> observer_adapter \<Rightarrow> bool" where
  "is_newer p a = (case oad_current a of None \<Rightarrow> True | Some q \<Rightarrow> op_observerRevision q < op_observerRevision p)"

definition assertSessionCurrent :: "json option \<Rightarrow> unit oad" where
  "assertSessionCurrent session =
     bindE (liftE (validateProjectionSessionIdentity session)) (\<lambda>candidate.
     bindE (getE oad_session) (\<lambda>expected.
     requireE (candidate = expected) (Companion_error Stale_projection_session)))"

definition adapter_start :: "json option \<Rightarrow> unit oad" where
  "adapter_start snapshot =
     bindE (liftE (validateObserverProjectionSnapshot snapshot)) (\<lambda>p.
     thenE (show_projection p) (modifyE (\<lambda>a. a\<lparr>oad_subscribed := True\<rparr>)))"

text \<open>The listener that \<open>start\<close> subscribes; after \<open>stop\<close> it is no longer called.\<close>

definition adapter_listen :: "json option \<Rightarrow> unit oad" where
  "adapter_listen v =
     bindE (getE oad_subscribed) (\<lambda>subscribed.
     if \<not> subscribed then retE ()
     else bindE (liftE (validateObserverProjectionSnapshot v)) (\<lambda>p.
          bindE (getE (is_newer p)) (\<lambda>newer. if newer then show_projection p else retE ())))"

definition acceptSnapshot :: "json option \<Rightarrow> json option \<Rightarrow> unit oad" where
  "acceptSnapshot session snapshot =
     thenE (assertSessionCurrent session)
    (bindE (liftE (validateObserverProjectionSnapshot snapshot)) (\<lambda>p.
     bindE (getE (is_newer p)) (\<lambda>newer.
     thenE (requireE newer (Companion_error Stale_projection_session)) (show_projection p))))"

text \<open>\<open>submitIntent\<close>; the port's answer is awaited, so the state may have changed between the halves.\<close>

definition submit_intent :: "json option \<Rightarrow> json option \<Rightarrow> unit oad" where
  "submit_intent session intent =
     thenE (assertSessionCurrent session)
    (bindE (liftE (validateObserverIntent intent)) (\<lambda>forwarded.
     modifyE (\<lambda>a. a\<lparr>oad_forwarded := oad_forwarded a @ [forwarded]\<rparr>)))"

definition intent_answered :: "json option \<Rightarrow> intent_result oad" where
  "intent_answered raw =
     bindE (liftE (validateObserverIntentResult raw)) (\<lambda>result.
     thenE (modifyE (\<lambda>a. a\<lparr>oad_results := oad_results a @ [result]\<rparr>)) (retE result))"

definition adapter_stop :: "unit oad" where
  "adapter_stop = modifyE (\<lambda>a. a\<lparr>oad_subscribed := False, oad_current := None\<rparr>)"

section \<open>The publisher\<close>

text \<open>
  \<open>LiveCompanionProjection\<close>: its operations run one after another; a shell reply says what the
  capability request returns (when it is made) and whether the call throws. \<open>pb_calls\<close> are the
  calls that the shell carried out.
\<close>

definition OBSERVER_COMPANION_RELEASE_VERSION :: jstr where
  "OBSERVER_COMPANION_RELEASE_VERSION = js ''0.3.0''"

datatype publisher_job = Verify_job | Publish_job observed_projection | Clear_job

datatype shell_call = Open_panel observed_projection | Apply_panel observed_projection | Clear_panel

record shell_reply =
  sr_capabilities :: "companion_failure + json"
  sr_call_throws :: bool

record publisher =
  pb_pluginId :: jstr
  pb_releaseVersion :: jstr
  pb_verified :: bool
  pb_lastRevision :: int
  pb_opened :: bool
  pb_queue :: "publisher_job list"
  pb_calls :: "shell_call list"

type_synonym 'a pub = "(companion_failure, publisher, 'a) eff"

definition new_publisher :: publisher where
  "new_publisher = \<lparr>pb_pluginId = COMPANION_PLUGIN_ID, pb_releaseVersion = OBSERVER_COMPANION_RELEASE_VERSION,
     pb_verified = False, pb_lastRevision = -1, pb_opened = False, pb_queue = [], pb_calls = []\<rparr>"

definition enqueue_job :: "publisher_job \<Rightarrow> unit pub" where
  "enqueue_job j = modifyE (\<lambda>p. p\<lparr>pb_queue := pb_queue p @ [j]\<rparr>)"

definition publish_projection :: "json option \<Rightarrow> unit pub" where
  "publish_projection v =
     bindE (liftE (validateStandaloneObserverProjectionSnapshot v)) (\<lambda>validated. enqueue_job (Publish_job validated))"

definition verifyUnserialized :: "shell_reply \<Rightarrow> unit pub" where
  "verifyUnserialized reply =
     bindE (getE pb_verified) (\<lambda>verified.
     if verified then retE ()
     else bindE (liftE (sr_capabilities reply)) (\<lambda>envelope.
          bindE (liftE (validateCapabilitiesEnvelope (Some envelope))) (\<lambda>validated.
          bindE (getE pb_pluginId) (\<lambda>pluginId.
          bindE (getE pb_releaseVersion) (\<lambda>releaseVersion.
          thenE (requireE (ce_pluginId validated = pluginId) (Companion_error Unsupported_compatibility))
         (thenE (requireE (ce_version validated = releaseVersion) (Companion_error Unsupported_compatibility))
         (thenE (liftE (assertRequiredCapabilities (ce_capabilities validated)))
         (thenE (requireE (COMPANION_OBSERVER_CAPABILITY \<in> set (ce_capabilities validated)) (Companion_error Unsupported_capability))
                (modifyE (\<lambda>p. p\<lparr>pb_verified := True\<rparr>))))))))))"

definition call_shell :: "shell_reply \<Rightarrow> shell_call \<Rightarrow> unit pub" where
  "call_shell reply c =
     (if sr_call_throws reply then throwE Shell_failure else modifyE (\<lambda>p. p\<lparr>pb_calls := pb_calls p @ [c]\<rparr>))"

definition publish_unserialized :: "shell_reply \<Rightarrow> observed_projection \<Rightarrow> unit pub" where
  "publish_unserialized reply v =
     thenE (verifyUnserialized reply)
    (bindE (getE pb_lastRevision) (\<lambda>lastRevision.
     if op_observerRevision v \<le> lastRevision then retE ()
     else bindE (getE pb_opened) (\<lambda>opened.
          thenE (call_shell reply (if opened then Apply_panel v else Open_panel v))
                (modifyE (\<lambda>p. p\<lparr>pb_lastRevision := op_observerRevision v, pb_opened := True\<rparr>)))))"

definition clear_unserialized :: "shell_reply \<Rightarrow> unit pub" where
  "clear_unserialized reply =
     thenE (verifyUnserialized reply)
    (thenE (call_shell reply Clear_panel) (modifyE (\<lambda>p. p\<lparr>pb_opened := False\<rparr>)))"

fun run_publisher_job :: "shell_reply \<Rightarrow> publisher_job \<Rightarrow> unit pub" where
  "run_publisher_job reply Verify_job = verifyUnserialized reply"
| "run_publisher_job reply (Publish_job v) = publish_unserialized reply v"
| "run_publisher_job reply Clear_job = clear_unserialized reply"

text \<open>\<open>enqueue\<close>: the operation at the head runs, whether or not the one before it failed.\<close>

definition run_head_job :: "shell_reply \<Rightarrow> publisher \<Rightarrow> publisher" where
  "run_head_job reply p =
     (case pb_queue p of [] \<Rightarrow> p | j # queue \<Rightarrow> snd (run_publisher_job reply j (p\<lparr>pb_queue := queue\<rparr>)))"

end
