(* ===== verification/ObserverMain.thy ===== *)
theory ObserverMain
  imports Gateway CompanionProjection
begin

text \<open>
  manual/live-observer-gateway.ts: the foreground program that wires the observation gateway to
  the publisher of the panel. A step is one event of its loop: a connection or frame, the sweep
  timer, an answer of the shell, a control line, the end of \<open>server.close()\<close>. The publications form
  a chain of promises: \<open>lo_chain\<close> lists those that have not settled, and only the first of them has
  been given to the publisher. The socket server, the terminal and the parsing of options are not
  modelled.
\<close>

text \<open>\<open>Serving\<close> until the control loop ends; then the server closes, the chain settles, the panel is cleared.\<close>

datatype run_phase = Serving | Stopping | Settling | Clearing | Finished

record live_observer =
  lo_gateway :: gateway
  lo_publisher :: publisher
  lo_paused :: bool
  lo_pending :: "observed_projection option"
  lo_chain :: "observed_projection list"
  lo_awaited :: nat
  lo_healthy :: bool
  lo_phase :: run_phase

section \<open>Publications\<close>

text \<open>
  The next link of the chain starts when the one before has settled. A projection that does not
  validate is given up at once (\<open>catch\<close>), and the chain goes on.
\<close>

fun start_chain :: "observed_projection list \<Rightarrow> live_observer \<Rightarrow> live_observer" where
  "start_chain [] s = s\<lparr>lo_chain := []\<rparr>"
| "start_chain (p # ps) s =
     (case publish_projection (Some (projection_json p)) (lo_publisher s) of
        (Inr _, pb) \<Rightarrow> s\<lparr>lo_publisher := pb, lo_chain := p # ps\<rparr>
      | (Inl _, pb) \<Rightarrow> start_chain ps (s\<lparr>lo_publisher := pb, lo_healthy := False, lo_awaited := lo_awaited s - 1\<rparr>))"

definition publish_main :: "observed_projection \<Rightarrow> live_observer \<Rightarrow> live_observer" where
  "publish_main p s =
     (if lo_paused s then s\<lparr>lo_pending := Some p\<rparr>
      else if lo_chain s = [] then start_chain [p] s
      else s\<lparr>lo_chain := lo_chain s @ [p]\<rparr>)"

text \<open>A handler of the gateway publishes through its callback \<open>onProjection\<close>.\<close>

definition at_gateway :: "gateway_op \<Rightarrow> live_observer \<Rightarrow> live_observer" where
  "at_gateway op s =
     (let g = lo_gateway s; g' = gateway_step op g
      in run_with publish_main (drop (length (gw_published g)) (gw_published g')) (s\<lparr>lo_gateway := g'\<rparr>))"

section \<open>The end of the program\<close>

text \<open>\<open>await publication\<close> and \<open>publisher.clearObservedAgents()\<close> after the gateway was closed.\<close>

definition clear_when_settled :: "live_observer \<Rightarrow> live_observer" where
  "clear_when_settled s =
     (if lo_phase s = Settling \<and> lo_chain s = []
      then s\<lparr>lo_phase := Clearing, lo_publisher := snd (enqueue_job Clear_job (lo_publisher s))\<rparr>
      else s)"

definition server_closed :: "live_observer \<Rightarrow> live_observer" where
  "server_closed s =
     (if lo_phase s = Stopping
      then clear_when_settled (s\<lparr>lo_gateway := gateway_step Close_gateway (lo_gateway s), lo_phase := Settling\<rparr>)
      else s)"

text \<open>The shell answers the calls of the operation at the head of the publisher's queue.\<close>

definition shell_answers :: "shell_reply \<Rightarrow> live_observer \<Rightarrow> live_observer" where
  "shell_answers answer s =
     (case pb_queue (lo_publisher s) of
        [] \<Rightarrow> s
      | j # queue \<Rightarrow>
          (case run_publisher_job answer j ((lo_publisher s)\<lparr>pb_queue := queue\<rparr>) of (r, pb) \<Rightarrow>
             if lo_phase s = Clearing
             then s\<lparr>lo_publisher := pb, lo_healthy := (lo_healthy s \<and> returned r), lo_phase := Finished\<rparr>
             else clear_when_settled (start_chain (tl (lo_chain s))
                    (s\<lparr>lo_publisher := pb, lo_healthy := returned r, lo_awaited := lo_awaited s - 1\<rparr>))))"

section \<open>Controls\<close>

text \<open>
  A control line is read only while the loop does not await the publication of a \<open>resume\<close>; a line
  that comes earlier is read by a later step.
\<close>

definition reads_controls :: "live_observer \<Rightarrow> bool" where
  "reads_controls s \<longleftrightarrow> lo_phase s = Serving \<and> lo_awaited s = 0"

definition resume :: "live_observer \<Rightarrow> live_observer" where
  "resume s =
     (let latest = (case lo_pending s of None \<Rightarrow> gateway_snapshot (lo_gateway s) | Some p \<Rightarrow> p);
          s' = publish_main latest (s\<lparr>lo_paused := False, lo_pending := None\<rparr>)
      in s'\<lparr>lo_awaited := length (lo_chain s')\<rparr>)"

record observer_status =
  ls_paused :: bool
  ls_observerRevision :: int
  ls_observedSessions :: nat
  ls_healthy :: bool

definition status :: "live_observer \<Rightarrow> observer_status" where
  "status s =
     (let p = gateway_snapshot (lo_gateway s)
      in \<lparr>ls_paused = lo_paused s, ls_observerRevision = op_observerRevision p,
          ls_observedSessions = length (op_agents p), ls_healthy = lo_healthy s\<rparr>)"

datatype live_input =
    Connected nat
  | Received nat observer_frame
  | Disconnected nat
  | Sweep_timer
  | Shell_answers shell_reply
  | Pause
  | Resume
  | Quit
  | Server_closed

definition socket_open :: "live_observer \<Rightarrow> bool" where
  "socket_open s \<longleftrightarrow> lo_phase s = Serving \<or> lo_phase s = Stopping"

fun live_observer_step :: "live_input \<Rightarrow> live_observer \<Rightarrow> live_observer" where
  "live_observer_step (Connected c) s = (if socket_open s then at_gateway (Accept c) s else s)"
| "live_observer_step (Received c f) s = (if socket_open s then at_gateway (Frame c f) s else s)"
| "live_observer_step (Disconnected c) s = (if socket_open s then at_gateway (Gone c) s else s)"
| "live_observer_step Sweep_timer s = (if lo_phase s = Serving then at_gateway Sweep s else s)"
| "live_observer_step (Shell_answers answer) s = shell_answers answer s"
| "live_observer_step Pause s = (if reads_controls s then s\<lparr>lo_paused := True\<rparr> else s)"
| "live_observer_step Resume s = (if reads_controls s then resume s else s)"
| "live_observer_step Quit s = (if reads_controls s then s\<lparr>lo_phase := Stopping\<rparr> else s)"
| "live_observer_step Server_closed s = server_closed s"

definition live_observer_run :: "live_input list \<Rightarrow> live_observer \<Rightarrow> live_observer" where
  "live_observer_run = run_with live_observer_step"

text \<open>
  Start-up: verification of the release and a first publication, each awaited, then the server. When
  any of them fails the program ends (\<open>None\<close>).
\<close>

definition start_observer :: "gateway \<Rightarrow> shell_reply \<Rightarrow> shell_reply \<Rightarrow> bool \<Rightarrow> live_observer option" where
  "start_observer g verifying publishing server_starts =
     (case run_publisher_job verifying Verify_job new_publisher of
        (Inl _, _) \<Rightarrow> None
      | (Inr _, pb) \<Rightarrow>
          (case bindE (liftE (validateStandaloneObserverProjectionSnapshot (Some (projection_json (gateway_snapshot g)))))
                  (\<lambda>v. run_publisher_job publishing (Publish_job v)) pb of
             (Inl _, _) \<Rightarrow> None
           | (Inr _, pb') \<Rightarrow>
               if \<not> server_starts then None
               else Some \<lparr>lo_gateway = g, lo_publisher = pb', lo_paused = False, lo_pending = None, lo_chain = [],
                      lo_awaited = 0, lo_healthy = True, lo_phase = Serving\<rparr>))"

text \<open>The gateway of the program keeps its persistence in memory, which never throws.\<close>

definition program_gateway ::
    "registry \<Rightarrow> (nat \<Rightarrow> nat \<Rightarrow> bool) \<Rightarrow> (nat \<Rightarrow> observer_failure \<Rightarrow> jstr) \<Rightarrow> gateway" where
  "program_gateway r throws message = new_gateway r True throws message in_memory_load"

end
