(* ===== verification/Panel.thy ===== *)
theory Panel
  imports GatewayProperties ObserverMain
begin

text \<open>
  The program of manual/live-observer-gateway.ts at work: what the extensions send, when the timer
  and the operator act and how the shell answers are interleaved in any way, and the panel is brought
  to the current projection of the registry.
\<close>

section \<open>What an operation of the gateway hands over\<close>

definition saves :: "registry \<Rightarrow> bool" where
  "saves r \<longleftrightarrow> rg_save_throws r = (\<lambda>_. False)"

lemma keepsE_prod: "(\<And>a b. keepsE I (f a b)) \<Longrightarrow> keepsE I (case_prod f p)"
  by (cases p) simp

lemma saves_prims:
  "keepsE saves clock_now" "keepsE saves (draw p)" "keepsE saves (save n)" "keepsE saves (put_session k s)"
  "keepsE saves (put_highWater k a b)" "keepsE saves (updateSourceHighWater s)" "keepsE saves (emit ty s)"
  "keepsE saves (modifyE (\<lambda>r. r\<lparr>rg_issued := rg_issued r @ [v]\<rparr>))" "keepsE saves (modifyE (\<lambda>r. r\<lparr>rg_revision := k2\<rparr>))"
  "keepsE saves (modifyE (\<lambda>r. r\<lparr>rg_sessions := assoc_del key (rg_sessions r)\<rparr>))"
  by (rule keepsEI; simp add: saves_def wpE_simps put_highWater_def)+

lemma saves_internals: "keepsE saves advanceRevision" "keepsE saves (issueCapability p)" "keepsE saves (recordFor s)"
    "keepsE saves (registeredEnvelope s)" "keepsE saves (resolveCurrent c i x)" "keepsE saves (check_highWater a v)"
  unfolding advanceRevision_def issueCapability_def recordFor_def registeredEnvelope_def resolveCurrent_def check_highWater_def
  by (intro keepsE_intros saves_prims)+

lemmas saves_intros = keepsE_intros keepsE_prod saves_prims saves_internals

lemma saves_operations:
  "keepsE saves (register c b)" "keepsE saves (heartbeat c b)" "keepsE saves (lifecycle c b)" "keepsE saves (close c b)"
  "keepsE saves (transportClosed c)" "keepsE saves expire"
  unfolding register_def open_session_def heartbeat_def lifecycle_def close_def transportClosed_def expire_def expire_one_def Let_def
  by (intro saves_intros)+


text \<open>A gateway whose ports never fail, that is observed, and whose revision is at least \<open>k\<close>.\<close>

definition sound :: "int \<Rightarrow> gateway \<Rightarrow> bool" where
  "sound k g \<longleftrightarrow> k \<le> rg_revision (gw_registry g) \<and> registry_ok (gw_registry g) \<and> saves (gw_registry g) \<and> gw_listening g \<and>
     gw_send_throws g = (\<lambda>_ _. False)"

lemma soundD: "sound k g \<Longrightarrow> registry_ok (gw_registry g)" "sound k g \<Longrightarrow> saves (gw_registry g)"
  "sound k g \<Longrightarrow> gw_listening g" "sound k g \<Longrightarrow> \<not> gw_send_throws g c n"
  "sound k g \<Longrightarrow> k \<le> rg_revision (gw_registry g)"
  by (simp_all add: sound_def)

lemma sound_in_registry: "keeps_registry m \<Longrightarrow> keepsE saves m \<Longrightarrow> keepsE (sound k) (in_registry m)"
proof (rule keepsEI, unfold wpE_in_registry)
  fix g assume m: "keeps_registry m" "keepsE saves m" and s: "sound k g"
  have a: "wpE m (\<lambda>_. ok_later (gw_registry g)) (\<lambda>_. ok_later (gw_registry g)) (gw_registry g)"
    using m(1) soundD(1) [OF s] by (rule keeps_registryD)
  have b: "wpE m (\<lambda>_. saves) (\<lambda>_. saves) (gw_registry g)"
    using m(2) soundD(2) [OF s] by (rule keepsED)
  show "wpE m (\<lambda>x r. sound k (g\<lparr>gw_registry := r\<rparr>)) (\<lambda>e r. sound k (g\<lparr>gw_registry := r\<rparr>)) (gw_registry g)"
    by (rule wpE_mono [OF wpE_conj [OF a b]]) (use s in \<open>auto simp: sound_def ok_later_def later_def\<close>)
qed

lemma sound_prims: "keepsE (sound k) publish" "keepsE (sound k) (reply c b)"
  "keepsE (sound k) (modifyE (\<lambda>g. g\<lparr>gw_sessions := f (gw_sessions g)\<rparr>))"
  by (rule keepsEI; simp add: sound_def wpE_simps Let_def)+

lemma sound_internals: "keepsE (sound k) (reject c f e)" "keepsE (sound k) (rejectUnsupported c f)"
    "keepsE (sound k) (assertRegistered c)" "keepsE (sound k) (revalidated f)"
  unfolding reject_def rejectUnsupported_def assertRegistered_def revalidated_def
  by (intro keepsE_intros sound_prims)+

lemmas registry_calls = register_keeps heartbeat_keeps lifecycle_keeps close_keeps transportClosed_keeps expire_keeps
  saves_operations

lemmas sound_intros = keepsE_intros sound_prims sound_internals sound_in_registry registry_calls

lemma sound_calls: "keepsE (sound k) (handleFrame_g c f)" "keepsE (sound k) (transportClosed_g c)" "keepsE (sound k) sweep"
  unfolding handleFrame_g_def dispatch_def handleRegister_def handleHeartbeat_def handleLifecycle_def handleClose_g_def
    transportClosed_g_def sweep_def
  by (intro sound_intros)+

definition stays_open :: "gateway_op \<Rightarrow> bool" where "stays_open op \<longleftrightarrow> op \<noteq> Close_gateway"

lemma sound_step: "stays_open op \<Longrightarrow> sound k g \<Longrightarrow> sound k (gateway_step op g)"
  using sound_calls by (cases op) (auto simp: stays_open_def accept_connection_def sound_def [of _ "_\<lparr>gw_sessions := _\<rparr>"]
      dest: soundD intro: keepsE_final) 


text \<open>With a persistence port that never fails, a sweep can only fail when the revision is exhausted.\<close>

lemma expire_one_throws:
  "saves r \<Longrightarrow> wpE (expire_one now e) (\<lambda>_. saves) (\<lambda>_ r'. MAX_SAFE_INTEGER \<le> rg_revision r') r"
  by (auto simp: expire_one_def wpE_simps Let_def saves_def)

lemma expire_each_throws:
  "saves r \<Longrightarrow> wpE (eachE (expire_one now) es) (\<lambda>_. saves) (\<lambda>_ r'. MAX_SAFE_INTEGER \<le> rg_revision r') r"
proof (induction es arbitrary: r)
  case (Cons e es)
  then show ?case unfolding eachE.simps wpE_then
    by (intro wpE_mono [OF expire_one_throws [OF Cons.prems]]) auto
qed (simp add: wpE_simps)

lemma expire_throws: "saves r \<Longrightarrow> wpE expire (\<lambda>_. saves) (\<lambda>_ r'. MAX_SAFE_INTEGER \<le> rg_revision r') r"
  by (simp add: expire_def wpE_simps expire_each_throws saves_def)

text \<open>
  Either nothing that observers see changed, or the new projection was handed over; in both
  cases the revision tells projections apart.
\<close>

definition tracks :: "gateway \<Rightarrow> gateway \<Rightarrow> bool" where
  "tracks g g' \<longleftrightarrow>
     gw_published g' = gw_published g \<and> gateway_snapshot g' = gateway_snapshot g \<or>
     gw_published g' = gw_published g @ [gateway_snapshot g'] \<and>
       (op_observerRevision (gateway_snapshot g) < op_observerRevision (gateway_snapshot g') \<or>
        gateway_snapshot g' = gateway_snapshot g)"

lemma snapshot_revision [simp]: "op_observerRevision (gateway_snapshot g) = rg_revision (gw_registry g)"
  by (simp add: gateway_snapshot_def buildProjection_shown)

lemma tracks_self: "tracks g g"
  by (simp add: tracks_def)

lemma tracks_sessions [simp]: "tracks g (g\<lparr>gw_sessions := x\<rparr>)"
  by (simp add: tracks_def gateway_snapshot_def)

lemma tracks_same:
  "same_view (gw_registry g) (gw_registry g') \<Longrightarrow> gw_published g' = gw_published g \<Longrightarrow> tracks g g'"
  by (simp add: tracks_def gateway_snapshot_def same_projection)

lemma tracks_moved:
  "moved (gw_registry g) (gw_registry g') \<Longrightarrow> gw_published g' = gw_published g @ [gateway_snapshot g'] \<Longrightarrow> tracks g g'"
  by (auto simp: tracks_def moved_def gateway_snapshot_def buildProjection_shown)

lemma tracks_frame: "sound k g \<Longrightarrow> tracks g (gateway_step (Frame c f) g)"
proof (cases "map_of (gw_sessions g) c")
  case None
  then show ?thesis by (simp add: handleFrame_g_def bindE_def getE_def retE_def tracks_self)
next
  case (Some b)
  assume s: "sound k g"
  from frame_handled [OF soundD(1,4) [OF s], of c f] Some
  show ?thesis using soundD(3) [OF s]
    by (auto simp: accepted_def refused_def simp del: gateway_step.simps intro: tracks_moved tracks_same)
qed

lemma tracks_gone:
  assumes "sound k g" shows "tracks g (gateway_step (Gone c) g)"
proof -
  note s = soundD [OF assms]
  have "wpE (in_registry (transportClosed c)) (\<lambda>x. wpE (thenE (modifyE (\<lambda>g. g\<lparr>gw_sessions := assoc_del c (gw_sessions g)\<rparr>))
      (if x = None then retE () else publish)) (\<lambda>_. tracks g) (\<lambda>_. tracks g)) (\<lambda>_. tracks g) g"
    unfolding wpE_in_registry
    by (rule wpE_mono [OF transportClosed_view [OF s(1)]])
       (use s(3) in \<open>auto simp: wpE_simps gateway_snapshot_def intro: tracks_same tracks_moved same_view_self\<close>)
  then have "wpE (transportClosed_g c) (\<lambda>_. tracks g) (\<lambda>_. tracks g) g"
    by (simp add: transportClosed_g_def wpE_bind wpE_basic tracks_self)
  then show ?thesis by (simp add: wpE_final)
qed

lemma tracks_sweep:
  assumes "sound k g" and "rg_revision (gw_registry (gateway_step Sweep g)) < MAX_SAFE_INTEGER"
  shows "tracks g (gateway_step Sweep g)"
proof -
  note s = soundD [OF assms(1)]
  have "wpE sweep (\<lambda>_. tracks g) (\<lambda>_ g'. MAX_SAFE_INTEGER \<le> rg_revision (gw_registry g')) g"
    unfolding sweep_def wpE_then wpE_in_registry
    by (rule wpE_mono [OF wpE_conj [OF expire_view expire_throws [OF s(2)]]])
       (use s(3) in \<open>auto simp: wpE_simps gateway_snapshot_def intro!: tracks_moved\<close>)
  then have "wpE sweep (\<lambda>_ g'. tracks g g' \<or> MAX_SAFE_INTEGER \<le> rg_revision (gw_registry g'))
      (\<lambda>_ g'. tracks g g' \<or> MAX_SAFE_INTEGER \<le> rg_revision (gw_registry g')) g"
    by (rule wpE_mono) auto
  then show ?thesis using assms(2) by (simp add: wpE_final)
qed

lemma tracks_step:
  assumes "sound k g" "stays_open op" "rg_revision (gw_registry (gateway_step op g)) < MAX_SAFE_INTEGER"
  shows "tracks g (gateway_step op g)"
  using assms tracks_frame tracks_gone tracks_sweep
  by (cases op) (auto simp: stays_open_def accept_connection_def simp del: gateway_step.simps(2,3,4) intro!: tracks_same same_view_self)


section \<open>What the publisher makes of it\<close>

definition precedes :: "observed_projection \<Rightarrow> observed_projection \<Rightarrow> bool" where
  "precedes p q \<longleftrightarrow> op_observerRevision p < op_observerRevision q \<or> p = q"

text \<open>The projection of the last call that the shell carried out.\<close>

definition presented :: "publisher \<Rightarrow> observed_projection option" where
  "presented pb =
     (if pb_calls pb = [] then None
      else case last (pb_calls pb) of Open_panel p \<Rightarrow> Some p | Apply_panel p \<Rightarrow> Some p | Clear_panel \<Rightarrow> None)"

definition shows_now :: "publisher \<Rightarrow> observed_projection option \<times> int" where
  "shows_now pb = (presented pb, pb_lastRevision pb)"

definition same_setup :: "publisher \<Rightarrow> publisher \<Rightarrow> bool" where
  "same_setup pb pb' \<longleftrightarrow> pb_queue pb' = pb_queue pb \<and> pb_pluginId pb' = pb_pluginId pb \<and>
     pb_releaseVersion pb' = pb_releaseVersion pb"

definition standalone_ok :: "observed_projection \<Rightarrow> bool" where
  "standalone_ok p \<longleftrightarrow> projection_ok p \<and> list_all (\<lambda>a. oa_choices a = []) (op_agents p)"

text \<open>A reply with which every operation succeeds.\<close>

definition shell_ready :: "shell_reply \<Rightarrow> bool" where
  "shell_ready answer \<longleftrightarrow>
     \<not> sr_call_throws answer \<and>
     (case andThen (sr_capabilities answer) (\<lambda>e. validateCapabilitiesEnvelope (Some e)) of
        Inl _ \<Rightarrow> False
      | Inr v \<Rightarrow> ce_pluginId v = COMPANION_PLUGIN_ID \<and> ce_version v = OBSERVER_COMPANION_RELEASE_VERSION \<and>
          returned (assertRequiredCapabilities (ce_capabilities v)) \<and>
          COMPANION_OBSERVER_CAPABILITY \<in> set (ce_capabilities v))"

lemma verify_effect:
  "wpE (verifyUnserialized answer) (\<lambda>_ pb'. same_setup pb pb' \<and> shows_now pb' = shows_now pb)
     (\<lambda>_ pb'. same_setup pb pb' \<and> shows_now pb' = shows_now pb) pb"
  by (auto simp: verifyUnserialized_def wpE_simps same_setup_def shows_now_def presented_def split: sum.split)

lemma verify_ready:
  "shell_ready answer \<Longrightarrow> pb_pluginId pb = COMPANION_PLUGIN_ID \<Longrightarrow>
   pb_releaseVersion pb = OBSERVER_COMPANION_RELEASE_VERSION \<Longrightarrow>
   wpE (verifyUnserialized answer) (\<lambda>_ _. True) (\<lambda>_ _. False) pb"
  by (auto simp: verifyUnserialized_def wpE_simps shell_ready_def andThen_def split: sum.splits)

definition published_effect :: "observed_projection \<Rightarrow> publisher \<Rightarrow> publisher \<Rightarrow> bool" where
  "published_effect v pb pb' \<longleftrightarrow> same_setup pb pb' \<and>
     shows_now pb' = (if op_observerRevision v \<le> pb_lastRevision pb then shows_now pb else (Some v, op_observerRevision v))"

lemma publish_effect:
  "wpE (publish_unserialized answer v) (\<lambda>_. published_effect v pb)
     (\<lambda>_ pb'. same_setup pb pb' \<and> shows_now pb' = shows_now pb) pb"
  unfolding publish_unserialized_def wpE_then
  by (rule wpE_mono [OF verify_effect])
     (auto simp: wpE_simps call_shell_def published_effect_def same_setup_def shows_now_def presented_def)

lemma publish_returns:
  assumes "shell_ready answer" "pb_pluginId pb = COMPANION_PLUGIN_ID" "pb_releaseVersion pb = OBSERVER_COMPANION_RELEASE_VERSION"
  shows "wpE (publish_unserialized answer v) (\<lambda>_ _. True) (\<lambda>_ _. False) pb"
  unfolding publish_unserialized_def wpE_then
  by (rule wpE_mono [OF verify_ready [OF assms]])
     (use assms(1) in \<open>auto simp: wpE_simps call_shell_def shell_ready_def\<close>)

lemma publish_ready:
  assumes "shell_ready answer" "pb_pluginId pb = COMPANION_PLUGIN_ID" "pb_releaseVersion pb = OBSERVER_COMPANION_RELEASE_VERSION"
  shows "published_effect v pb (snd (publish_unserialized answer v pb))"
proof -
  from wpE_conj [OF publish_returns [OF assms] publish_effect]
  have "wpE (publish_unserialized answer v) (\<lambda>_. published_effect v pb) (\<lambda>_. published_effect v pb) pb"
    by (rule wpE_mono) auto
  then show ?thesis by (simp add: wpE_final)
qed

lemma snapshot_standalone: "registry_ok (gw_registry g) \<Longrightarrow> standalone_ok (gateway_snapshot g)"
  by (auto simp: standalone_ok_def projection_ok_def agent_ok_def gateway_snapshot_def buildProjection_shown
      registry_ok_def session_ok_def shown_def agent_projection_def agent_of_def list_all_iff
      OBSERVER_PROJECTION_MAX_AGENTS_def OBSERVER_MAX_SESSIONS_def)

lemma ordered_append:
  "sorted_wrt precedes H \<Longrightarrow> H \<noteq> [] \<Longrightarrow> precedes (last H) p \<Longrightarrow> sorted_wrt precedes (H @ [p])"
proof -
  assume a: "sorted_wrt precedes H" "H \<noteq> []" "precedes (last H) p"
  have "precedes q (last H)" if "q \<in> set H" for q
  proof -
    have H: "H = butlast H @ [last H]" using a(2) by simp
    have "set H = insert (last H) (set (butlast H))" by (subst H) simp
    with that consider "q \<in> set (butlast H)" | "q = last H" by blast
    then show ?thesis
    proof cases
      case 1
      then show ?thesis using a(1) H by (metis list.set_intros(1) sorted_wrt_append)
    qed (simp add: precedes_def)
  qed
  then have "precedes q p" if "q \<in> set H" for q using a(3) that unfolding precedes_def by fastforce
  with a(1) show ?thesis by (simp add: sorted_wrt_append)
qed

section \<open>The chain of publications\<close>

lemma shows_now_queue [simp]: "shows_now (pb\<lparr>pb_queue := x\<rparr>) = shows_now pb"
  by (simp add: shows_now_def presented_def)

lemma start_chain_frame [simp]:
  "lo_gateway (start_chain ps s) = lo_gateway s" "lo_phase (start_chain ps s) = lo_phase s"
  "lo_paused (start_chain ps s) = lo_paused s" "lo_pending (start_chain ps s) = lo_pending s"
  by (induction ps s rule: start_chain.induct) (simp_all split: prod.split sum.split)

declare start_chain.simps(2) [simp del]

lemma publish_main_frame [simp]:
  "lo_gateway (publish_main p s) = lo_gateway s" "lo_phase (publish_main p s) = lo_phase s"
  "lo_paused (publish_main p s) = lo_paused s"
  by (simp_all add: publish_main_def)

lemma publish_standalone:
  "standalone_ok p \<Longrightarrow> publish_projection (Some (projection_json p)) pb = (Inr (), pb\<lparr>pb_queue := pb_queue pb @ [Publish_job p]\<rparr>)"
  by (simp add: validateStandaloneObserverProjectionSnapshot_def standalone_ok_def projection_complete
      publish_projection_def enqueue_job_def bindE_def liftE_def modifyE_def)

lemma start_chain_ok:
  "standalone_ok p \<Longrightarrow> start_chain (p # ps) s =
     s\<lparr>lo_publisher := (lo_publisher s)\<lparr>pb_queue := pb_queue (lo_publisher s) @ [Publish_job p]\<rparr>, lo_chain := p # ps\<rparr>"
  by (simp add: start_chain.simps(2) publish_standalone)

text \<open>What holds of the publisher and its chain, when \<open>H\<close> lists all that the gateway published.\<close>

definition in_step :: "observed_projection list \<Rightarrow> live_observer \<Rightarrow> bool" where
  "in_step H s \<longleftrightarrow>
     (let pb = lo_publisher s
      in list_all standalone_ok H \<and> set (lo_chain s) \<subseteq> set H \<and>
         pb_pluginId pb = COMPANION_PLUGIN_ID \<and> pb_releaseVersion pb = OBSERVER_COMPANION_RELEASE_VERSION \<and>
         pb_queue pb = map Publish_job (take 1 (lo_chain s)) \<and>
         (\<exists>q \<in> set H. shows_now pb = (Some q, op_observerRevision q)) \<and>
         (if lo_paused s then lo_awaited s = 0 else lo_pending s = None))"

definition up_to_date :: "observed_projection list \<Rightarrow> live_observer \<Rightarrow> bool" where
  "up_to_date H s \<longleftrightarrow>
     (if lo_paused s then lo_pending s = None \<or> lo_pending s = Some (last H)
      else lo_chain s = [] \<or> last (lo_chain s) = last H)"

lemma take_one_append: "xs \<noteq> [] \<Longrightarrow> take (Suc 0) (xs @ ys) = take (Suc 0) xs"
  by (cases xs) simp_all

lemma in_step_publish:
  assumes "in_step H s" "standalone_ok p" "list_all standalone_ok H'" "set H \<subseteq> set H'" "p \<in> set H'" "last H' = p"
  shows "in_step H' (publish_main p s)" "up_to_date H' (publish_main p s)"
    "\<not> lo_paused s \<Longrightarrow> lo_chain (publish_main p s) = lo_chain s @ [p]"
proof -
  have q: "\<exists>q \<in> set H'. shows_now (lo_publisher s) = (Some q, op_observerRevision q)"
    using assms(1,4) by (auto simp: in_step_def Let_def)
  have pm: "publish_main p s = (if lo_paused s then s\<lparr>lo_pending := Some p\<rparr>
      else if lo_chain s = [] then s\<lparr>lo_publisher := (lo_publisher s)\<lparr>pb_queue := [Publish_job p]\<rparr>, lo_chain := [p]\<rparr>
      else s\<lparr>lo_chain := lo_chain s @ [p]\<rparr>)"
    using assms(1) by (auto simp: publish_main_def start_chain_ok [OF assms(2)] in_step_def Let_def)
  have i: "set (lo_chain s) \<subseteq> set H'" using assms(1,4) by (auto simp: in_step_def Let_def)
  consider "lo_paused s" | "\<not> lo_paused s" "lo_chain s = []" | "\<not> lo_paused s" "lo_chain s \<noteq> []" by blast
  then have "in_step H' (publish_main p s) \<and> up_to_date H' (publish_main p s) \<and>
      (\<not> lo_paused s \<longrightarrow> lo_chain (publish_main p s) = lo_chain s @ [p])"
    by cases (use assms(1,3,5,6) q i in \<open>simp_all add: pm in_step_def up_to_date_def Let_def take_one_append Suc_le_eq\<close>)
  then show "in_step H' (publish_main p s)" "up_to_date H' (publish_main p s)"
    "\<not> lo_paused s \<Longrightarrow> lo_chain (publish_main p s) = lo_chain s @ [p]" by blast+
qed

lemma answer_head:
  assumes "in_step H s" "lo_phase s = Serving" "lo_chain s = p # ps"
  shows "in_step H (shell_answers answer s) \<and> lo_chain (shell_answers answer s) = ps \<and>
    lo_phase (shell_answers answer s) = Serving \<and> lo_paused (shell_answers answer s) = lo_paused s \<and>
    lo_pending (shell_answers answer s) = lo_pending s \<and> lo_gateway (shell_answers answer s) = lo_gateway s"
    and "shell_ready answer \<Longrightarrow> published_effect p ((lo_publisher s)\<lparr>pb_queue := []\<rparr>)
      ((lo_publisher (shell_answers answer s))\<lparr>pb_queue := []\<rparr>)"
proof -
  let ?pb = "(lo_publisher s)\<lparr>pb_queue := []\<rparr>"
  obtain r pb where run: "publish_unserialized answer p ?pb = (r, pb)" by fastforce
  have queue: "pb_queue (lo_publisher s) = [Publish_job p]" using assms(1,3) by (simp add: in_step_def Let_def)
  let ?s = "s\<lparr>lo_publisher := pb, lo_healthy := returned r, lo_awaited := lo_awaited s - 1\<rparr>"
  have a: "shell_answers answer s = start_chain ps ?s"
    by (simp add: shell_answers_def queue run assms(2,3) clear_when_settled_def)
  have "wpE (publish_unserialized answer p) (\<lambda>_ pb'. same_setup ?pb pb' \<and> (shows_now pb' = shows_now ?pb \<or> shows_now pb' = (Some p, op_observerRevision p)))
      (\<lambda>_ pb'. same_setup ?pb pb' \<and> (shows_now pb' = shows_now ?pb \<or> shows_now pb' = (Some p, op_observerRevision p))) ?pb"
    by (rule wpE_mono [OF publish_effect]) (auto simp: published_effect_def)
  then have e: "same_setup ?pb pb" "shows_now pb = shows_now ?pb \<or> shows_now pb = (Some p, op_observerRevision p)"
    by (simp_all add: wpE_final run)
  have sh: "shows_now ?pb = shows_now (lo_publisher s)" by (simp add: shows_now_def presented_def)
  have p: "p \<in> set H" "set ps \<subseteq> set H" "list_all standalone_ok H" using assms(1,3) by (simp_all add: in_step_def Let_def)
  have d: "start_chain ps ?s = ?s\<lparr>lo_publisher := pb\<lparr>pb_queue := map Publish_job (take 1 ps)\<rparr>, lo_chain := ps\<rparr>"
  proof (cases ps)
    case Nil
    have "pb\<lparr>pb_queue := []\<rparr> = pb" using e(1) by (cases pb) (simp add: same_setup_def)
    then show ?thesis using Nil by simp
  next
    case (Cons q qs)
    then have "standalone_ok q" using p by (auto simp: list_all_iff)
    then show ?thesis using Cons e(1) by (simp add: start_chain_ok same_setup_def)
  qed
  show "in_step H (shell_answers answer s) \<and> lo_chain (shell_answers answer s) = ps \<and>
    lo_phase (shell_answers answer s) = Serving \<and> lo_paused (shell_answers answer s) = lo_paused s \<and>
    lo_pending (shell_answers answer s) = lo_pending s \<and> lo_gateway (shell_answers answer s) = lo_gateway s"
    using assms p e sh unfolding a d
    by (auto simp: in_step_def Let_def same_setup_def shows_now_def presented_def)
  assume "shell_ready answer"
  then have "published_effect p ?pb (snd (publish_unserialized answer p ?pb))"
    by (rule publish_ready) (use assms(1) in \<open>simp_all add: in_step_def Let_def\<close>)
  then show "published_effect p ?pb ((lo_publisher (shell_answers answer s))\<lparr>pb_queue := []\<rparr>)"
    unfolding a d run by (simp add: published_effect_def same_setup_def)
qed

section \<open>Gateway and publisher together\<close>

text \<open>All that was published, the projection of the start included.\<close>

definition handed :: "observed_projection \<Rightarrow> live_observer \<Rightarrow> observed_projection list" where
  "handed p0 s = p0 # gw_published (lo_gateway s)"

definition together :: "observed_projection \<Rightarrow> live_observer \<Rightarrow> bool" where
  "together p0 s \<longleftrightarrow>
     sound 0 (lo_gateway s) \<and> last (handed p0 s) = gateway_snapshot (lo_gateway s) \<and>
     sorted_wrt precedes (handed p0 s) \<and> in_step (handed p0 s) s \<and> up_to_date (handed p0 s) s"

lemma together_gateway:
  assumes t: "together p0 s" and "stays_open op" "rg_revision (gw_registry (gateway_step op (lo_gateway s))) < MAX_SAFE_INTEGER"
  shows "together p0 (at_gateway op s)"
proof -
  let ?g = "gateway_step op (lo_gateway s)"
  let ?s = "s\<lparr>lo_gateway := ?g\<rparr>"
  have t: "sound 0 (lo_gateway s)" "last (handed p0 s) = gateway_snapshot (lo_gateway s)"
    "sorted_wrt precedes (handed p0 s)" "in_step (handed p0 s) s" "up_to_date (handed p0 s) s"
    using t by (simp_all add: together_def)
  have sd: "sound 0 ?g" by (rule sound_step [OF assms(2) t(1)])
  from tracks_step [OF t(1) assms(2,3)]
  consider "gw_published ?g = gw_published (lo_gateway s)" "gateway_snapshot ?g = gateway_snapshot (lo_gateway s)"
    | "gw_published ?g = gw_published (lo_gateway s) @ [gateway_snapshot ?g]" "precedes (gateway_snapshot (lo_gateway s)) (gateway_snapshot ?g)"
    unfolding tracks_def precedes_def by metis
  then show ?thesis
  proof cases
    case 1
    then have "at_gateway op s = ?s" "handed p0 ?s = handed p0 s" by (simp_all add: at_gateway_def handed_def Let_def)
    then show ?thesis using t sd 1 by (auto simp: together_def in_step_def up_to_date_def Let_def split: if_splits)
  next
    case 2
    let ?H = "handed p0 s @ [gateway_snapshot ?g]"
    have a: "at_gateway op s = publish_main (gateway_snapshot ?g) ?s" using 2(1) by (simp add: at_gateway_def Let_def)
    have h: "handed p0 (publish_main (gateway_snapshot ?g) ?s) = ?H" using 2(1) by (simp add: handed_def)
    have p: "standalone_ok (gateway_snapshot ?g)" by (rule snapshot_standalone [OF soundD(1) [OF sd]])
    have i: "in_step (handed p0 s) ?s" using t(4) by (simp add: in_step_def Let_def)
    have "list_all standalone_ok ?H" using t(4) p by (simp add: in_step_def Let_def)
    note u = in_step_publish [OF i p this]
    have "sorted_wrt precedes ?H" using t(2,3) 2(2) by (intro ordered_append) (simp_all add: handed_def)
    moreover have "set (handed p0 s) \<subseteq> set ?H" "gateway_snapshot ?g \<in> set ?H" "last ?H = gateway_snapshot ?g" by auto
    ultimately show ?thesis using u(1,2) sd unfolding together_def a h by simp
  qed
qed

lemma at_gateway_frame [simp]:
  "lo_gateway (at_gateway op s) = gateway_step op (lo_gateway s)" "lo_phase (at_gateway op s) = lo_phase s"
proof -
  have "lo_gateway (run_with publish_main ps s) = lo_gateway s \<and> lo_phase (run_with publish_main ps s) = lo_phase s" for ps s
    by (induction ps arbitrary: s) simp_all
  then show "lo_gateway (at_gateway op s) = gateway_step op (lo_gateway s)" "lo_phase (at_gateway op s) = lo_phase s"
    by (simp_all add: at_gateway_def Let_def del: gateway_step.simps)
qed

lemma together_answer:
  assumes "together p0 s" "lo_phase s = Serving"
  shows "together p0 (shell_answers answer s)"
proof (cases "lo_chain s")
  case Nil
  then have "shell_answers answer s = s" using assms by (simp add: shell_answers_def together_def in_step_def Let_def)
  then show ?thesis using assms by simp
next
  case (Cons p ps)
  have i: "in_step (handed p0 s) s" using assms(1) by (simp add: together_def)
  note a = answer_head(1) [OF i assms(2) Cons, of answer]
  have h: "handed p0 (shell_answers answer s) = handed p0 s" using a by (simp add: handed_def)
  show ?thesis using assms a Cons unfolding together_def h by (auto simp: up_to_date_def split: if_splits)
qed

lemma resume_in_step:
  assumes t: "together p0 s" and r: "reads_controls s"
  shows "together p0 (resume s)" "lo_chain (resume s) \<noteq> []" "\<not> lo_paused (resume s)" "lo_phase (resume s) = Serving"
proof -
  let ?H = "handed p0 s"
  let ?s = "s\<lparr>lo_paused := False, lo_pending := None\<rparr>"
  have i: "in_step ?H s" "up_to_date ?H s" using t by (simp_all add: together_def)
  have l: "(case lo_pending s of None \<Rightarrow> gateway_snapshot (lo_gateway s) | Some p \<Rightarrow> p) = last ?H"
    using t i by (auto simp: together_def in_step_def up_to_date_def Let_def split: if_splits)
  have ok: "list_all standalone_ok ?H" "last ?H \<in> set ?H" using i(1) by (simp_all add: in_step_def Let_def handed_def)
  then have p: "standalone_ok (last ?H)" by (simp add: list_all_iff)
  have s: "in_step ?H ?s" using i(1) by (simp add: in_step_def Let_def)
  note u = in_step_publish [OF s p ok(1) subset_refl ok(2) refl]
  have e: "resume s = (publish_main (last ?H) ?s)\<lparr>lo_awaited := length (lo_chain s) + 1\<rparr>"
    using u(3) by (simp add: resume_def l Let_def)
  show "together p0 (resume s)" using t u(1,2) unfolding e
    by (simp add: together_def handed_def in_step_def up_to_date_def Let_def)
  show "lo_chain (resume s) \<noteq> []" "\<not> lo_paused (resume s)" "lo_phase (resume s) = Serving"
    using u(3) r by (simp_all add: e reads_controls_def)
qed

lemma serving_before: "lo_phase (live_observer_step x s) = Serving \<Longrightarrow> lo_phase s = Serving"
  by (cases x) (auto simp: shell_answers_def server_closed_def clear_when_settled_def resume_def Let_def reads_controls_def
      split: list.splits prod.splits if_splits)

lemma answers_frame: "lo_gateway (shell_answers answer s) = lo_gateway s"
  by (auto simp: shell_answers_def clear_when_settled_def split: list.split prod.split)

lemma closed_serving: "lo_phase (server_closed s) = Serving \<Longrightarrow> server_closed s = s"
  by (auto simp: server_closed_def clear_when_settled_def split: if_splits)

lemma step_sound:
  assumes "lo_phase (live_observer_step x s) = Serving" "sound k (lo_gateway s)"
  shows "sound k (lo_gateway (live_observer_step x s))"
proof -
  have g: "sound k (gateway_step op (lo_gateway s))" if "stays_open op" for op
    by (rule sound_step [OF that assms(2)])
  show ?thesis
  proof (cases x)
    case Server_closed
    then have "live_observer_step x s = s" using assms(1) closed_serving [of s] by (simp only: live_observer_step.simps)
    then show ?thesis using assms(2) by simp
  qed (use assms g in \<open>simp_all add: answers_frame stays_open_def resume_def Let_def del: gateway_step.simps\<close>)
qed

lemma together_step:
  assumes "together p0 s" "lo_phase (live_observer_step x s) = Serving"
    "rg_revision (gw_registry (lo_gateway (live_observer_step x s))) < MAX_SAFE_INTEGER"
  shows "together p0 (live_observer_step x s)"
proof -
  have p: "lo_phase s = Serving" using serving_before assms(2) .
  show ?thesis
  proof (cases x)
    case Pause
    then show ?thesis using assms(1)
      by (auto simp: together_def handed_def in_step_def up_to_date_def reads_controls_def Let_def)
  qed (use assms p together_gateway together_answer resume_in_step(1) in
    \<open>auto simp: stays_open_def reads_controls_def server_closed_def simp del: gateway_step.simps\<close>)
qed

lemma revision_grows:
  assumes "sound 0 (lo_gateway s)" "lo_phase (live_observer_step x s) = Serving"
  shows "rg_revision (gw_registry (lo_gateway s)) \<le> rg_revision (gw_registry (lo_gateway (live_observer_step x s)))"
proof -
  have "sound (rg_revision (gw_registry (lo_gateway s))) (lo_gateway s)" using assms(1) by (simp add: sound_def)
  from soundD(5) [OF step_sound [OF assms(2) this]] show ?thesis .
qed

lemma together_run:
  assumes "together p0 s"
  shows "lo_phase (live_observer_run ops s) = Serving \<Longrightarrow> sound 0 (lo_gateway (live_observer_run ops s)) \<and>
    (rg_revision (gw_registry (lo_gateway (live_observer_run ops s))) < MAX_SAFE_INTEGER \<longrightarrow> together p0 (live_observer_run ops s))"
proof (induction ops rule: rev_induct)
  case Nil
  then show ?case using assms by (simp add: live_observer_run_def together_def)
next
  case (snoc x ops)
  let ?s = "live_observer_run ops s"
  have e: "live_observer_run (ops @ [x]) s = live_observer_step x ?s" by (simp add: live_observer_run_def run_with_append)
  have p: "lo_phase ?s = Serving" using serving_before snoc.prems unfolding e .
  note ih = snoc.IH [OF p]
  have "sound 0 (lo_gateway (live_observer_step x ?s))" using step_sound snoc.prems ih unfolding e by blast
  moreover have "rg_revision (gw_registry (lo_gateway ?s)) \<le> rg_revision (gw_registry (lo_gateway (live_observer_step x ?s)))"
    using revision_grows snoc.prems ih unfolding e by blast
  ultimately show ?case using ih together_step snoc.prems unfolding e by fastforce
qed

lemma precedes_last: "sorted_wrt precedes H \<Longrightarrow> q \<in> set H \<Longrightarrow> op_observerRevision (last H) \<le> op_observerRevision q \<Longrightarrow> q = last H"
  by (cases H rule: rev_cases) (auto simp: sorted_wrt_append precedes_def)

lemma drain_shows:
  assumes "sorted_wrt precedes H"
  shows "in_step H s \<Longrightarrow> lo_phase s = Serving \<Longrightarrow> last (lo_chain s) = last H \<Longrightarrow> answers \<noteq> [] \<Longrightarrow>
    length answers = length (lo_chain s) \<Longrightarrow> shell_ready (last answers) \<Longrightarrow>
    presented (lo_publisher (live_observer_run (map Shell_answers answers) s)) = Some (last H)"
proof (induction answers arbitrary: s)
  case (Cons a answers)
  obtain p ps where c: "lo_chain s = p # ps" using Cons.prems by (cases "lo_chain s") auto
  note h = answer_head(1) [OF Cons.prems(1,2) c, of a]
  have e: "live_observer_run (map Shell_answers (a # answers)) s =
      live_observer_run (map Shell_answers answers) (shell_answers a s)" by (simp add: live_observer_run_def)
  show ?case
  proof (cases "answers = []")
    case True
    then have ps: "ps = []" "p = last H" using Cons.prems c by auto
    obtain q where q: "q \<in> set H" "shows_now (lo_publisher s) = (Some q, op_observerRevision q)"
      using Cons.prems(1) by (auto simp: in_step_def Let_def)
    have f: "presented (pb\<lparr>pb_queue := x\<rparr>) = presented pb" for pb x by (simp add: presented_def)
    have "published_effect p ((lo_publisher s)\<lparr>pb_queue := []\<rparr>) ((lo_publisher (shell_answers a s))\<lparr>pb_queue := []\<rparr>)"
      using answer_head(2) [OF Cons.prems(1,2) c] Cons.prems(6) True by simp
    then have "presented (lo_publisher (shell_answers a s)) = Some (last H)"
      using q precedes_last [OF assms q(1)] ps
      by (auto simp: published_effect_def shows_now_def f split: if_splits)
    then show ?thesis using True unfolding e by (simp add: live_observer_run_def)
  next
    case False
    then have "ps \<noteq> []" using Cons.prems(5) c by auto
    then show ?thesis unfolding e using Cons.prems c h False by (intro Cons.IH) auto
  qed
qed simp

lemma start_together:
  assumes "start_observer g verifying publishing b = Some s" "sound 0 g" "gw_published g = []"
  shows "together (gateway_snapshot g) s \<and> lo_phase s = Serving"
proof -
  have p: "standalone_ok (gateway_snapshot g)" by (rule snapshot_standalone [OF soundD(1) [OF assms(2)]])
  then have v: "validateStandaloneObserverProjectionSnapshot (Some (projection_json (gateway_snapshot g))) = Inr (gateway_snapshot g)"
    by (simp add: validateStandaloneObserverProjectionSnapshot_def standalone_ok_def projection_complete)
  obtain u pb where 1: "verifyUnserialized verifying new_publisher = (Inr u, pb)"
    using assms(1) by (auto simp: start_observer_def split: prod.splits sum.splits)
  obtain u' pb' where 2: "publish_unserialized publishing (gateway_snapshot g) pb = (Inr u', pb')"
    using assms(1) 1 v by (auto simp: start_observer_def bindE_def liftE_def split: prod.splits sum.splits)
  have s: "s = \<lparr>lo_gateway = g, lo_publisher = pb', lo_paused = False, lo_pending = None, lo_chain = [],
                      lo_awaited = 0, lo_healthy = True, lo_phase = Serving\<rparr>"
    using assms(1) 1 2 v by (auto simp: start_observer_def bindE_def liftE_def split: if_splits)
  have a: "same_setup new_publisher pb" "shows_now pb = (None, -1)"
    using wpE_returned [OF verify_effect 1] by (simp_all add: shows_now_def presented_def new_publisher_def)
  have "0 \<le> op_observerRevision (gateway_snapshot g)" using soundD(5) [OF assms(2)] by simp
  then have "same_setup pb pb'" "shows_now pb' = (Some (gateway_snapshot g), op_observerRevision (gateway_snapshot g))"
    using wpE_returned [OF publish_effect 2] a(2) by (simp_all add: published_effect_def shows_now_def)
  then show ?thesis using assms(2,3) a(1) p
    by (simp add: s together_def handed_def in_step_def up_to_date_def same_setup_def new_publisher_def Let_def)
qed

lemma presented_last:
  "presented pb = Some p \<Longrightarrow> pb_calls pb \<noteq> [] \<and> last (pb_calls pb) \<in> {Open_panel p, Apply_panel p}"
  by (auto simp: presented_def split: if_splits shell_call.splits)

text \<open>
  C27. The panel catches up with the registry. Take the program started as manual/live-observer-gateway.ts
  starts it, over sends that never throw, and any inputs after which it still serves and the revision of
  its registry is not exhausted; if it is paused, let the operator resume it. Then, once the shell has
  answered every publication still in the chain (there is always one after a resume) and the last answer
  is a success, the last call that the shell carried out shows exactly the current projection of the
  gateway, whatever failed before.
\<close>

theorem panel_catches_up:
  assumes "new_registry node ticks issuer (\<lambda>_. False) = Inr r"
    and "start_observer (program_gateway r (\<lambda>_ _. False) message) verifying publishing True = Some s0"
    and "s = live_observer_run ops s0" and "lo_phase s = Serving"
    and "rg_revision (gw_registry (lo_gateway s)) < MAX_SAFE_INTEGER"
    and "s1 = (if lo_paused s then live_observer_step Resume s else s)" and "lo_paused s \<or> lo_chain s \<noteq> []"
    and "length answers = length (lo_chain s1)" and "shell_ready (last answers)"
    and "calls = pb_calls (lo_publisher (live_observer_run (map Shell_answers answers) s1))"
  shows "lo_chain s1 \<noteq> [] \<and> calls \<noteq> [] \<and>
    last calls \<in> {Open_panel (gateway_snapshot (lo_gateway s)), Apply_panel (gateway_snapshot (lo_gateway s))}"
proof -
  let ?g = "program_gateway r (\<lambda>_ _. False) message"
  have r: "registry_ok r" "saves r" using new_registry_ok [OF assms(1)] assms(1)
    by (auto simp: saves_def new_registry_def split: if_splits)
  then have "sound 0 ?g" "gw_published ?g = []"
    by (simp_all add: sound_def program_gateway_def new_gateway_def registry_ok_def)
  from start_together [OF assms(2) this] have t: "together (gateway_snapshot ?g) s"
    using together_run assms(3-5) by blast
  let ?p0 = "gateway_snapshot ?g"
  have s1: "together ?p0 s1 \<and> lo_chain s1 \<noteq> [] \<and> \<not> lo_paused s1 \<and> lo_phase s1 = Serving \<and> lo_gateway s1 = lo_gateway s"
  proof (cases "lo_paused s")
    case True
    then have "reads_controls s" using t assms(4) by (simp add: together_def in_step_def reads_controls_def Let_def)
    then show ?thesis using resume_in_step [OF t] True assms(6) by (simp add: resume_def Let_def)
  qed (use assms(4,6,7) t in simp)
  then have u: "in_step (handed ?p0 s1) s1" "last (lo_chain s1) = last (handed ?p0 s1)" "sorted_wrt precedes (handed ?p0 s1)"
    "last (handed ?p0 s1) = gateway_snapshot (lo_gateway s)"
    by (auto simp: together_def up_to_date_def)
  have "answers \<noteq> []" using s1 assms(8) by auto
  from drain_shows [OF u(3,1) _ u(2) this assms(8,9)] s1
  have "presented (lo_publisher (live_observer_run (map Shell_answers answers) s1)) = Some (gateway_snapshot (lo_gateway s))"
    by (simp add: u(4))
  from presented_last [OF this] show ?thesis using s1 by (simp add: assms(10))
qed

section \<open>A gateway and a panel at work\<close>

definition demo_envelope :: capabilities_envelope where
  "demo_envelope = \<lparr>ce_pluginId = COMPANION_PLUGIN_ID, ce_version = OBSERVER_COMPANION_RELEASE_VERSION,
     ce_pluginGeneration = 1, ce_capabilities = map snd COMPANION_ALL_CAPABILITIES\<rparr>"

definition demo_answer :: shell_reply where
  "demo_answer = \<lparr>sr_capabilities = Inr (JObj (capabilities_envelope_json demo_envelope)), sr_call_throws = False\<rparr>"

lemma demo_envelope_valid: "validateCapabilitiesEnvelope (Some (JObj (capabilities_envelope_json demo_envelope))) = Inr demo_envelope"
proof (rule capabilities_envelope_complete)
  have "utf8Bytes (stringify (JObj (capabilities_envelope_json demo_envelope))) \<le> companion_envelopeBytes"
    by (simp add: capabilities_envelope_json_def demo_envelope_def enum_text_def
        COMPANION_ALL_CAPABILITIES_def COMPANION_PLUGIN_ID_def OBSERVER_COMPANION_RELEASE_VERSION_def COMPANION_PROTOCOL_ID_def
        quote_plain utf8_ascii plain_js int_text_def one_digit companion_envelopeBytes_def)
  moreover have "ID_RE COMPANION_PLUGIN_ID"
    by (simp add: COMPANION_PLUGIN_ID_def ID_RE_def matches_head_tail_def js_def char_class_defs id_tail_def)
  moreover have "VERSION_RE OBSERVER_COMPANION_RELEASE_VERSION"
    by (simp add: OBSERVER_COMPANION_RELEASE_VERSION_def VERSION_RE_def matches_head_tail_def js_def char_class_defs)
  moreover have "distinct (map snd COMPANION_ALL_CAPABILITIES)" "length (map snd COMPANION_ALL_CAPABILITIES) \<le> capabilityCount"
    by (simp_all add: COMPANION_ALL_CAPABILITIES_def capabilityCount_def)
  ultimately show "capabilities_envelope_ok demo_envelope"
    unfolding capabilities_envelope_ok_def demo_envelope_def by (simp add: MAX_SAFE_INTEGER_def del: stringify.simps)
qed

lemma demo_shell_ready: "shell_ready demo_answer"
  by (simp add: demo_answer_def shell_ready_def demo_envelope_valid)
     (simp add: demo_envelope_def assertRequiredCapabilities_def COMPANION_CAPABILITIES_def COMPANION_ALL_CAPABILITIES_def
        COMPANION_OBSERVER_CAPABILITY_def)

lemma demo_started:
  assumes "standalone_ok (gateway_snapshot g)"
  shows "\<exists>s. start_observer g demo_answer demo_answer True = Some s \<and> lo_gateway s = g \<and> lo_phase s = Serving \<and>
    lo_chain s = [] \<and> lo_awaited s = 0 \<and> pb_queue (lo_publisher s) = []"
proof -
  have v: "validateStandaloneObserverProjectionSnapshot (Some (projection_json (gateway_snapshot g))) = Inr (gateway_snapshot g)"
    using assms by (simp add: validateStandaloneObserverProjectionSnapshot_def standalone_ok_def projection_complete)
  have "wpE (verifyUnserialized demo_answer) (\<lambda>_ _. True) (\<lambda>_ _. False) new_publisher"
    by (rule verify_ready [OF demo_shell_ready]) (simp_all add: new_publisher_def)
  then obtain u pb where 1: "verifyUnserialized demo_answer new_publisher = (Inr u, pb)"
    by (auto simp: wpE_def split: prod.splits sum.splits)
  then have e: "same_setup new_publisher pb" using wpE_returned [OF verify_effect] by fastforce
  have "wpE (publish_unserialized demo_answer (gateway_snapshot g)) (\<lambda>_ pb'. same_setup pb pb') (\<lambda>_ _. False) pb"
    by (rule wpE_mono [OF wpE_conj [OF publish_returns [OF demo_shell_ready] publish_effect]])
       (use e in \<open>auto simp: same_setup_def published_effect_def new_publisher_def\<close>)
  then obtain u' pb' where 2: "publish_unserialized demo_answer (gateway_snapshot g) pb = (Inr u', pb')" "same_setup pb pb'"
    by (auto simp: wpE_def split: prod.splits sum.splits)
  show ?thesis using 1 2 v e by (simp add: start_observer_def bindE_def liftE_def same_setup_def new_publisher_def)
qed

text \<open>The operator pauses, an extension registers, the operator resumes: the panel is brought up to date.\<close>

theorem panel_catches_up_witness:
  "\<exists>s. lo_paused s \<and> lo_gateway s = gateway_step (Frame 7 demo_frame) (accept_connection 7 demo_gateway) \<and>
     last (pb_calls (lo_publisher (live_observer_run [Shell_answers demo_answer] (live_observer_step Resume s)))) \<in>
       {Open_panel (gateway_snapshot (lo_gateway s)), Apply_panel (gateway_snapshot (lo_gateway s))}"
proof -
  let ?r = "snd (register 7 (demo_register_body ''e1'') demo_registry)"
  have ok: "registry_ok demo_registry" "registry_ok ?r"
    using new_registry_ok [OF demo_registry_new] keeps_registry_final [OF register_keeps, of demo_registry 7 "demo_register_body ''e1''"]
    by (simp_all add: ok_later_def)
  have g: "program_gateway demo_registry (\<lambda>_ _. False) demo_message = demo_gateway"
    by (simp add: program_gateway_def demo_gateway_def)
  have p: "standalone_ok (buildProjection r)" if "registry_ok r" for r
    using snapshot_standalone [of "new_gateway r True (\<lambda>_ _. False) demo_message in_memory_load"] that
    by (simp add: new_gateway_def gateway_snapshot_def)
  obtain s0 where s0: "start_observer demo_gateway demo_answer demo_answer True = Some s0" "lo_gateway s0 = demo_gateway"
    "lo_phase s0 = Serving" "lo_chain s0 = []" "lo_awaited s0 = 0" "pb_queue (lo_publisher s0) = []"
    using demo_started [of demo_gateway] p [OF ok(1)] by (auto simp: gateway_snapshot_def)
  define ops where "ops = [Connected 7, Pause, Received 7 demo_frame]"
  define s where "s = live_observer_run ops s0"
  have s: "s = s0\<lparr>lo_gateway := gateway_step (Frame 7 demo_frame) (accept_connection 7 demo_gateway), lo_paused := True,
      lo_pending := Some (buildProjection ?r)\<rparr>"
  proof -
    have e: "gw_published (accept_connection 7 demo_gateway) = []"
      "gw_published (gateway_step (Frame 7 demo_frame) (accept_connection 7 demo_gateway)) = [buildProjection ?r]"
      by (simp add: accept_connection_def) (simp only: demo_frame_registers Let_def, simp)
    show ?thesis
      unfolding s_def ops_def live_observer_run_def using s0
      by (simp add: socket_open_def at_gateway_def Let_def reads_controls_def publish_main_def e del: gateway_step.simps(2))
  qed
  have st: "start_observer (program_gateway demo_registry (\<lambda>_ _. False) demo_message) demo_answer demo_answer True = Some s0"
    using s0(1) by (simp add: g)
  have rv: "rg_revision (gw_registry (lo_gateway s)) < MAX_SAFE_INTEGER"
    unfolding s by (simp add: demo_frame_registers Let_def del: gateway_step.simps(2)) (simp add: demo_registered MAX_SAFE_INTEGER_def)
  have ph: "lo_phase s = Serving" "lo_paused s" using s0 by (simp_all add: s)
  have len: "length [demo_answer] = length (lo_chain (live_observer_step Resume s))"
    using s0 p [OF ok(2)] by (simp add: s reads_controls_def resume_def publish_main_def start_chain_ok Let_def)
  have rd: "shell_ready (last [demo_answer])" using demo_shell_ready by simp
  have s1: "live_observer_step Resume s = (if lo_paused s then live_observer_step Resume s else s)" using ph(2) by (simp only: if_True)
  have gw: "lo_gateway s = gateway_step (Frame 7 demo_frame) (accept_connection 7 demo_gateway)"
    unfolding s by (simp del: gateway_step.simps)
  have m: "map Shell_answers [demo_answer] = [Shell_answers demo_answer]" by simp
  note caught = panel_catches_up [OF demo_registry_new st s_def ph(1) rv s1 disjI1 [OF ph(2)] len rd refl]
  show ?thesis using caught [unfolded m] ph(2) gw by blast
qed

end
