(* ===== verification/Adoption.thy ===== *)
theory Adoption
  imports Telemetry Effects
begin

text \<open>
  observer/adoption.ts: the Adoption coordinator. Its ports are a parameter of the state: every
  call of a port (clock, registry, authorizer, Team Runner, presentation, connection, issuer)
  looks at the world as it is at that call, so the world may change arbitrarily between two of
  them. The sha-256 function is a parameter. A connection object is a number; an object that is
  created for one request is no object of anybody else (\<open>None\<close>). The operations of one session
  run one after another under the session's lock; the model runs all operations one at a time.
\<close>

definition ADOPTION_PROPOSAL_TTL_MS :: int where "ADOPTION_PROPOSAL_TTL_MS = 30000"
definition ADOPTION_ACK_TIMEOUT_MS :: int where "ADOPTION_ACK_TIMEOUT_MS = 5000"
definition ADOPTION_IDEMPOTENCY_LIMIT :: nat where "ADOPTION_IDEMPOTENCY_LIMIT = 256"
definition ADOPTION_EVENT_LIMIT :: nat where "ADOPTION_EVENT_LIMIT = 256"

definition IDENTITY_FIELDS :: "string list" where
  "IDENTITY_FIELDS =
     [''observedSessionId'', ''executionNodeId'', ''processIncarnationId'', ''piSessionId'', ''extensionInstanceId'']"

section \<open>Data\<close>

record session_ids =
  id_observedSessionId :: jstr
  id_executionNodeId :: jstr
  id_processIncarnationId :: jstr
  id_piSessionId :: jstr
  id_extensionInstanceId :: jstr

record adoption_target =
  tg_teamGoalId :: jstr
  tg_executionNodeId :: jstr
  tg_role :: role

record adoption_proposal =
  pr_proposalId :: jstr
  pr_proposalDigest :: jstr
  pr_ids :: session_ids
  pr_connectionId :: jstr
  pr_connectionChallenge :: jstr
  pr_registryRevision :: int
  pr_target :: adoption_target
  pr_createdMonotonic :: int
  pr_expiresMonotonic :: int
  pr_acknowledgementNonce :: jstr

record adoption_request =
  rq_observedSessionId :: jstr
  rq_observedIdentity :: obj
  rq_id :: jstr
  rq_connectionId :: jstr
  rq_connectionChallenge :: jstr
  rq_target :: adoption_target

record adoption_authorization =
  au_proposalId :: jstr
  au_proposalDigest :: jstr
  au_targetTeamGoalId :: jstr
  au_targetRole :: role
  au_authorizationId :: jstr
  au_token :: jstr

datatype adoption_phase =
    Proposed | Authorized | Same_process_acknowledged | Reconciled | Committed | Failed_phase

record adoption_event =
  ae_sequence :: nat
  ae_phase :: adoption_phase
  ae_proposalId :: jstr
  ae_observedSessionId :: jstr

record pending_adoption =
  pa_proposal :: adoption_proposal
  pa_connection :: "nat option"
  pa_authorization :: "adoption_authorization option"
  pa_ackRequest :: "adoption_request_ack option"
  pa_phase :: adoption_phase
  pa_deadline :: "int option"
  pa_acknowledgement :: "adoption_ack option"
  pa_reconciliation :: "int option"

text \<open>A committed result: the body that is sent, and the identity members the Team Runner returned.\<close>

record completed_adoption =
  cd_proposal :: adoption_proposal
  cd_connection :: "nat option"
  cd_acknowledgement :: adoption_ack
  cd_result :: adoption_committed
  cd_identity :: obj
  cd_presented :: bool
  cd_delivered :: bool

record commit_input =
  ci_proposal :: adoption_proposal
  ci_authorization :: adoption_authorization
  ci_acknowledgement :: adoption_ack
  ci_observed :: obj
  ci_reconciliation :: int

text \<open>
  What the ports answer at one moment. A method that the registry port need not have is an
  option; \<open>Inl\<close> is an exception of the port. \<open>verify\<close> answers with \<open>Inr False\<close> when it returns
  false; every other value that it returns accepts the authorization and is \<open>Inr True\<close>.
\<close>

record port_world =
  pw_now :: int
  pw_issue :: "string \<Rightarrow> json option"
  pw_observed :: "jstr \<Rightarrow> observer_failure + json"
  pw_revision :: "(observer_failure + int) option"
  pw_local :: "(jstr \<Rightarrow> jstr \<Rightarrow> observer_failure + bool) option"
  pw_occupied :: "(jstr \<Rightarrow> role \<Rightarrow> observer_failure + bool) option"
  pw_managed :: "(jstr \<Rightarrow> observer_failure + bool) option"
  pw_is_current :: "(nat option \<Rightarrow> jstr \<Rightarrow> jstr \<Rightarrow> observer_failure + bool) option"
  pw_assert_current :: "(nat option \<Rightarrow> jstr \<Rightarrow> jstr \<Rightarrow> bool) option"
  pw_closed :: bool
  pw_verify :: "adoption_proposal \<Rightarrow> adoption_authorization \<Rightarrow> observer_failure + bool"
  pw_commit :: "commit_input \<Rightarrow> observer_failure + json"
  pw_present_throws :: bool
  pw_send_throws :: bool

text \<open>Which methods the observer connection has.\<close>

record observer_connection =
  on_object :: nat
  on_id :: "json option"
  on_sendAdoptionRequest :: bool
  on_sendAdoptionCommitted :: bool
  on_send :: bool

record coordinator =
  co_observerConnection :: "observer_connection option"
  co_sha256 :: "jstr \<Rightarrow> jstr"
  co_world :: "nat \<Rightarrow> port_world"
  co_calls :: nat
  co_pendingBySession :: "(jstr \<times> jstr) list"
  co_pendingById :: "(jstr \<times> pending_adoption) list"
  co_completedById :: "(jstr \<times> completed_adoption) list"
  co_usedAuthorizations :: "jstr list"
  co_reservedAuthorizations :: "jstr list"
  co_issuedIds :: "jstr list"
  co_eventLog :: "adoption_event list"
  co_eventSequence :: nat
  co_commits :: "commit_input list"
  co_requests :: "adoption_request_ack list"
  co_presented :: "jstr list"
  co_delivered :: "adoption_committed list"

type_synonym 'a ad = "(observer_failure, coordinator, 'a) eff"

abbreviation fail_ad :: "observer_code \<Rightarrow> 'a ad" where
  "fail_ad c \<equiv> throwE (Observer_error c)"

abbreviation require_ad :: "bool \<Rightarrow> observer_code \<Rightarrow> unit ad" where
  "require_ad b c \<equiv> requireE b (Observer_error c)"

definition new_coordinator ::
    "observer_connection option \<Rightarrow> (jstr \<Rightarrow> jstr) \<Rightarrow> (nat \<Rightarrow> port_world) \<Rightarrow> coordinator" where
  "new_coordinator connection sha256 world =
     \<lparr>co_observerConnection = connection, co_sha256 = sha256, co_world = world, co_calls = 0,
      co_pendingBySession = [], co_pendingById = [], co_completedById = [], co_usedAuthorizations = [],
      co_reservedAuthorizations = [], co_issuedIds = [], co_eventLog = [], co_eventSequence = 0,
      co_commits = [], co_requests = [], co_presented = [], co_delivered = []\<rparr>"

section \<open>Validation and comparison\<close>

text \<open>\<open>canonicalJson\<close>: members sorted by name, at every depth.\<close>

definition join_comma :: "jstr list \<Rightarrow> jstr" where
  "join_comma = join_with 44"

fun canonicalJson :: "json \<Rightarrow> jstr" where
  "canonicalJson (JArr vs) = 91 # join_comma (map canonicalJson vs) @ [93]"
| "canonicalJson (JObj m) =
     123 # join_comma (map (\<lambda>e. stringify (JStr (fst e)) @ 58 # snd e)
       (sort_key fst (map (\<lambda>e. (fst e, canonicalJson (snd e))) m))) @ [125]"
| "canonicalJson v = stringify v"

definition plainObject :: "json option \<Rightarrow> observer_failure + obj" where
  "plainObject v = (case object_of v of None \<Rightarrow> Inl (Observer_error Invalid_envelope) | Some m \<Rightarrow> Inr m)"

definition boundedText :: "json option \<Rightarrow> nat \<Rightarrow> observer_failure + jstr" where
  "boundedText v n = string_where (\<lambda>s. s \<noteq> [] \<and> codePoints s \<le> n) Invalid_envelope v"

definition parseTarget :: "json option \<Rightarrow> observer_failure + adoption_target" where
  "parseTarget v =
     andThen (exactObject v [''teamGoalId'', ''executionNodeId'', ''role'']) (\<lambda>m.
     andThen (requireRole (own_prop m ''role'')) (\<lambda>role.
     andThen (observerId (own_prop m ''teamGoalId'')) (\<lambda>teamGoalId.
     andThen (observerId (own_prop m ''executionNodeId'')) (\<lambda>executionNodeId.
     Inr \<lparr>tg_teamGoalId = teamGoalId, tg_executionNodeId = executionNodeId, tg_role = role\<rparr>))))"

text \<open>
  The members are read in the order of the source; the target is validated in two parts there,
  its role before the identifiers of the connection.
\<close>

definition parseAdoptionRequest :: "json option \<Rightarrow> observer_failure + adoption_request" where
  "parseAdoptionRequest input =
     andThen (exactObject input [''observedSessionId'', ''observedIdentity'', ''connection'', ''target'']) (\<lambda>m.
     andThen (observerId (own_prop m ''observedSessionId'')) (\<lambda>observedSessionId.
     andThen (exactObject (own_prop m ''observedIdentity'') (IDENTITY_FIELDS @ [''connectionId'', ''connectionChallenge''])) (\<lambda>observedIdentity.
     andThen (exactObject (own_prop m ''connection'') [''id'', ''connectionId'', ''connectionChallenge'']) (\<lambda>c.
     andThen (string_where ID_RE Connection_not_current (own_prop c ''id'')) (\<lambda>id.
     andThen (exactObject (own_prop m ''target'') [''teamGoalId'', ''executionNodeId'', ''role'']) (\<lambda>t.
     andThen (requireRole (own_prop t ''role'')) (\<lambda>_.
     andThen (observerId (own_prop c ''connectionId'')) (\<lambda>connectionId.
     andThen (observerId (own_prop c ''connectionChallenge'')) (\<lambda>connectionChallenge.
     andThen (parseTarget (own_prop m ''target'')) (\<lambda>target.
     Inr \<lparr>rq_observedSessionId = observedSessionId, rq_observedIdentity = observedIdentity, rq_id = id,
          rq_connectionId = connectionId, rq_connectionChallenge = connectionChallenge, rq_target = target\<rparr>))))))))))"

definition validateRequestIdentity :: "adoption_request \<Rightarrow> observer_failure + session_ids" where
  "validateRequestIdentity r =
     (let m = rq_observedIdentity r in
      andThen (observerId (own_prop m ''observedSessionId'')) (\<lambda>observedSessionId.
      andThen (observerId (own_prop m ''executionNodeId'')) (\<lambda>executionNodeId.
      andThen (observerId (own_prop m ''processIncarnationId'')) (\<lambda>processIncarnationId.
      andThen (observerId (own_prop m ''piSessionId'')) (\<lambda>piSessionId.
      andThen (observerId (own_prop m ''extensionInstanceId'')) (\<lambda>extensionInstanceId.
      andThen (observerId (own_prop m ''connectionId'')) (\<lambda>connectionId.
      andThen (observerId (own_prop m ''connectionChallenge'')) (\<lambda>connectionChallenge.
      andThen (guardR (observedSessionId = rq_observedSessionId r \<and> connectionId = rq_connectionId r \<and>
         connectionChallenge = rq_connectionChallenge r) (Observer_error Identity_drift)) (\<lambda>_.
      Inr \<lparr>id_observedSessionId = observedSessionId, id_executionNodeId = executionNodeId,
           id_processIncarnationId = processIncarnationId, id_piSessionId = piSessionId,
           id_extensionInstanceId = extensionInstanceId\<rparr>)))))))))"

definition identity_matches :: "session_ids \<Rightarrow> obj \<Rightarrow> bool" where
  "identity_matches i m \<longleftrightarrow>
     own_prop m ''observedSessionId'' = Some (JStr (id_observedSessionId i)) \<and>
     own_prop m ''executionNodeId'' = Some (JStr (id_executionNodeId i)) \<and>
     own_prop m ''processIncarnationId'' = Some (JStr (id_processIncarnationId i)) \<and>
     own_prop m ''piSessionId'' = Some (JStr (id_piSessionId i)) \<and>
     own_prop m ''extensionInstanceId'' = Some (JStr (id_extensionInstanceId i))"

definition assertIdentityMatchesRecord :: "session_ids \<Rightarrow> obj \<Rightarrow> observer_failure + unit" where
  "assertIdentityMatchesRecord i m = guardR (identity_matches i m) (Observer_error Identity_drift)"

definition parseAuthorization :: "json option \<Rightarrow> observer_failure + adoption_authorization" where
  "parseAuthorization input =
     andThen (exactObject input
       [''proposalId'', ''proposalDigest'', ''targetTeamGoalId'', ''targetRole'', ''authorizationId'', ''token'']) (\<lambda>m.
     andThen (observerId (own_prop m ''proposalId'')) (\<lambda>proposalId.
     andThen (requireSha256 (own_prop m ''proposalDigest'')) (\<lambda>proposalDigest.
     andThen (observerId (own_prop m ''targetTeamGoalId'')) (\<lambda>targetTeamGoalId.
     andThen (requireRole (own_prop m ''targetRole'')) (\<lambda>targetRole.
     andThen (observerId (own_prop m ''authorizationId'')) (\<lambda>authorizationId.
     andThen (boundedText (own_prop m ''token'') 1024) (\<lambda>token.
     Inr \<lparr>au_proposalId = proposalId, au_proposalDigest = proposalDigest, au_targetTeamGoalId = targetTeamGoalId,
          au_targetRole = targetRole, au_authorizationId = authorizationId, au_token = token\<rparr>)))))))"

definition authorization_json :: "adoption_authorization \<Rightarrow> json" where
  "authorization_json a =
     JObj [(js ''proposalId'', JStr (au_proposalId a)), (js ''proposalDigest'', JStr (au_proposalDigest a)),
           (js ''targetTeamGoalId'', JStr (au_targetTeamGoalId a)), (js ''targetRole'', JEnum ROLES (au_targetRole a)),
           (js ''authorizationId'', JStr (au_authorizationId a)), (js ''token'', JStr (au_token a))]"

definition authorization_matches :: "adoption_proposal \<Rightarrow> adoption_authorization \<Rightarrow> bool" where
  "authorization_matches p a \<longleftrightarrow>
     au_proposalId a = pr_proposalId p \<and> au_proposalDigest a = pr_proposalDigest p \<and>
     au_targetTeamGoalId a = tg_teamGoalId (pr_target p) \<and> au_targetRole a = tg_role (pr_target p)"

definition nullish :: "json option \<Rightarrow> bool" where
  "nullish v \<longleftrightarrow> v = None \<or> v = Some JNull"

definition sequence_current :: "obj \<Rightarrow> int \<Rightarrow> bool" where
  "sequence_current m n =
     (let a = own_prop m ''acceptedSourceSequence'';
          prior = (if nullish a then own_prop m ''lastSourceSequence'' else a)
      in prior = None \<or> (case whole_of prior of None \<Rightarrow> False | Some k \<Rightarrow> \<bar>k\<bar> \<le> MAX_SAFE_INTEGER \<and> k < n))"

definition assertSourceSequenceCurrent :: "obj \<Rightarrow> int \<Rightarrow> observer_failure + unit" where
  "assertSourceSequenceCurrent m n = guardR (sequence_current m n) (Observer_error Invalid_sequence)"

definition acknowledgement_matches :: "adoption_proposal \<Rightarrow> adoption_ack \<Rightarrow> bool" where
  "acknowledgement_matches p a \<longleftrightarrow>
     ak_processIncarnationId a = id_processIncarnationId (pr_ids p) \<and> ak_piSessionId a = id_piSessionId (pr_ids p) \<and>
     ak_extensionInstanceId a = id_extensionInstanceId (pr_ids p) \<and> ak_connectionId a = pr_connectionId p \<and>
     ak_connectionChallenge a = pr_connectionChallenge p \<and> ak_proposalId a = pr_proposalId p \<and>
     ak_proposalDigest a = pr_proposalDigest p \<and> ak_acknowledgementNonce a = pr_acknowledgementNonce p \<and>
     ak_registryRevision a = pr_registryRevision p"

definition assertAcknowledgementMatches :: "adoption_proposal \<Rightarrow> adoption_ack \<Rightarrow> observer_failure + unit" where
  "assertAcknowledgementMatches p a = guardR (acknowledgement_matches p a) (Observer_error Identity_drift)"

definition retry_matches :: "completed_adoption \<Rightarrow> nat \<Rightarrow> adoption_ack \<Rightarrow> bool" where
  "retry_matches d transport a \<longleftrightarrow>
     cd_connection d = Some transport \<and> ak_proposalDigest a = pr_proposalDigest (cd_proposal d) \<and>
     ak_processIncarnationId a = id_processIncarnationId (pr_ids (cd_proposal d)) \<and>
     ak_piSessionId a = id_piSessionId (pr_ids (cd_proposal d)) \<and>
     ak_extensionInstanceId a = id_extensionInstanceId (pr_ids (cd_proposal d)) \<and>
     ak_connectionId a = pr_connectionId (cd_proposal d) \<and>
     ak_connectionChallenge a = pr_connectionChallenge (cd_proposal d) \<and>
     ak_acknowledgementNonce a = pr_acknowledgementNonce (cd_proposal d) \<and>
     ak_registryRevision a = pr_registryRevision (cd_proposal d) \<and>
     ak_sourceSequence a = ak_sourceSequence (cd_acknowledgement d) \<and>
     ak_activity a = ak_activity (cd_acknowledgement d) \<and>
     ak_refusalCode a = ak_refusalCode (cd_acknowledgement d) \<and> ak_decision a = Acknowledged"

definition assertCompletedRetry :: "completed_adoption \<Rightarrow> nat \<Rightarrow> adoption_ack \<Rightarrow> observer_failure + unit" where
  "assertCompletedRetry d transport a = guardR (retry_matches d transport a) (Observer_error Connection_not_current)"

fun assertReconciliationActivity :: "observer_activity \<Rightarrow> observer_failure + unit" where
  "assertReconciliationActivity Idle_activity = Inr ()"
| "assertReconciliationActivity Unknown_activity = Inl (Observer_error Session_unknown)"
| "assertReconciliationActivity _ = Inl (Observer_error Session_busy)"

definition addDeadline :: "int \<Rightarrow> int \<Rightarrow> observer_failure + int" where
  "addDeadline start duration =
     (if \<bar>start\<bar> \<le> MAX_SAFE_INTEGER \<and> 0 \<le> start \<and> 0 \<le> duration \<and> duration \<le> MAX_SAFE_INTEGER - start
      then Inr (start + duration) else Inl (Observer_error Invalid_sequence))"

definition requireRevision :: "json option \<Rightarrow> observer_failure + int" where
  "requireRevision v = observerNonNegativeInt v"

section \<open>Internals of the coordinator\<close>

text \<open>One call of a port.\<close>

definition ask :: "(port_world \<Rightarrow> 'a) \<Rightarrow> 'a ad" where
  "ask f s = (Inr (f (co_world s (co_calls s))), s\<lparr>co_calls := Suc (co_calls s)\<rparr>)"

definition issueId :: "string \<Rightarrow> jstr ad" where
  "issueId purpose =
     bindE (ask (\<lambda>w. pw_issue w purpose)) (\<lambda>v.
     bindE (liftE (string_where ID_RE Invalid_identity v)) (\<lambda>i.
     bindE (getE co_issuedIds) (\<lambda>issued.
     thenE (require_ad (i \<notin> set issued) Invalid_identity)
    (thenE (modifyE (\<lambda>s. s\<lparr>co_issuedIds := co_issuedIds s @ [i]\<rparr>)) (retE i)))))"

definition emit_phase :: "adoption_phase \<Rightarrow> adoption_proposal \<Rightarrow> unit ad" where
  "emit_phase phase p =
     modifyE (\<lambda>s. s\<lparr>co_eventLog :=
         (if ADOPTION_EVENT_LIMIT \<le> length (co_eventLog s) then tl (co_eventLog s) else co_eventLog s) @
         [\<lparr>ae_sequence = Suc (co_eventSequence s), ae_phase = phase, ae_proposalId = pr_proposalId p,
           ae_observedSessionId = id_observedSessionId (pr_ids p)\<rparr>],
       co_eventSequence := Suc (co_eventSequence s)\<rparr>)"

text \<open>A pending proposal is one object: the session map holds its identifier.\<close>

definition removePending :: "adoption_proposal \<Rightarrow> unit ad" where
  "removePending p =
     modifyE (\<lambda>s. s\<lparr>co_pendingById := assoc_del (pr_proposalId p) (co_pendingById s),
       co_pendingBySession :=
         (if map_of (co_pendingBySession s) (id_observedSessionId (pr_ids p)) = Some (pr_proposalId p)
          then assoc_del (id_observedSessionId (pr_ids p)) (co_pendingBySession s) else co_pendingBySession s)\<rparr>)"

definition invalidate :: "adoption_proposal \<Rightarrow> unit ad" where
  "invalidate p = thenE (emit_phase Failed_phase p) (removePending p)"

definition invalidate_and_fail :: "adoption_proposal \<Rightarrow> observer_code \<Rightarrow> 'a ad" where
  "invalidate_and_fail p c = thenE (invalidate p) (fail_ad c)"

definition put_pending :: "pending_adoption \<Rightarrow> unit ad" where
  "put_pending a = modifyE (\<lambda>s. s\<lparr>co_pendingById := assoc_put (pr_proposalId (pa_proposal a)) a (co_pendingById s)\<rparr>)"

definition rememberCompleted :: "completed_adoption \<Rightarrow> unit ad" where
  "rememberCompleted d =
     modifyE (\<lambda>s. let i = pr_proposalId (cd_proposal d); m = co_completedById s in
       if map_of m i \<noteq> None then s
       else s\<lparr>co_completedById := (if ADOPTION_IDEMPOTENCY_LIMIT \<le> length m then tl m else m) @ [(i, d)]\<rparr>)"

definition rememberAuthorization :: "jstr \<Rightarrow> unit ad" where
  "rememberAuthorization i =
     modifyE (\<lambda>s. let used = co_usedAuthorizations s in
       if i \<in> set used then s
       else s\<lparr>co_usedAuthorizations := (if ADOPTION_IDEMPOTENCY_LIMIT \<le> length used then tl used else used) @ [i]\<rparr>)"

text \<open>What the registry port answers; an exception of its own is no record.\<close>

definition currentObserved :: "jstr \<Rightarrow> obj option ad" where
  "currentObserved i =
     bindE (ask (\<lambda>w. pw_observed w i)) (\<lambda>answer.
     case answer of
       Inl (Observer_error c) \<Rightarrow> fail_ad c
     | Inl _ \<Rightarrow> retE None
     | Inr v \<Rightarrow> retE (object_of (Some v)))"

definition assertProposalLive :: "adoption_proposal \<Rightarrow> unit ad" where
  "assertProposalLive p =
     bindE (ask pw_now) (\<lambda>now.
     if pr_expiresMonotonic p \<le> now then invalidate_and_fail p Proposal_expired else retE ())"

text \<open>A question that the registry port need not support: unsupported, thrown, or answered.\<close>

definition must_answer :: "(port_world \<Rightarrow> (observer_failure + 'a) option) \<Rightarrow> ('a \<Rightarrow> bool) \<Rightarrow> observer_code \<Rightarrow> unit ad" where
  "must_answer question good c =
     bindE (ask question) (\<lambda>answer.
     case answer of
       None \<Rightarrow> retE ()
     | Some (Inl _) \<Rightarrow> fail_ad c
     | Some (Inr x) \<Rightarrow> require_ad (good x) c)"

definition assertConnectionCurrent :: "jstr \<Rightarrow> nat option \<Rightarrow> jstr \<Rightarrow> obj \<Rightarrow> unit ad" where
  "assertConnectionCurrent connectionId connection challenge record =
     thenE (require_ad (ID_RE connectionId) Invalid_identity)
    (thenE (require_ad (own_prop record ''connectionId'' \<in> {None, Some (JStr connectionId)}) Connection_not_current)
    (bindE (ask pw_closed) (\<lambda>closed.
     thenE (require_ad (\<not> (connection \<noteq> None \<and> closed)) Connection_not_current)
    (thenE (require_ad (ID_RE challenge) Invalid_identity)
    (thenE (require_ad (own_prop record ''connectionChallenge'' \<in> {None, Some (JStr challenge)}) Connection_not_current)
    (thenE (must_answer (\<lambda>w. map_option (\<lambda>f. f connection connectionId challenge) (pw_is_current w)) (\<lambda>b. b) Connection_not_current)
           (must_answer (\<lambda>w. map_option (\<lambda>f. if f connection connectionId challenge then Inr () else Inl Port_error) (pw_assert_current w))
              (\<lambda>_. True) Connection_not_current)))))))"

definition assertCurrentRevision :: "int \<Rightarrow> obj \<Rightarrow> unit ad" where
  "assertCurrentRevision expected record =
     bindE (liftE (requireRevision (own_prop record ''registryRevision''))) (\<lambda>n.
     thenE (require_ad (n = expected) Identity_drift)
           (must_answer pw_revision (\<lambda>k. k = expected) Identity_drift))"

definition is_text :: "obj \<Rightarrow> string \<Rightarrow> string \<Rightarrow> bool" where
  "is_text m k t \<longleftrightarrow> own_prop m k = Some (JStr (js t))"

text \<open>The state of the observed session that a proposal or a commit needs.\<close>

definition assertAvailable :: "obj \<Rightarrow> unit ad" where
  "assertAvailable m =
     thenE (require_ad (\<not> is_text m ''lifecycle'' ''exited'') Session_exited)
    (thenE (require_ad (is_text m ''availability'' ''available'') Session_unavailable)
    (thenE (require_ad (is_text m ''activity'' ''idle'')
       (if is_text m ''activity'' ''unknown'' then Session_unknown else Session_busy))
    (thenE (require_ad (is_text m ''health'' ''healthy'') Session_unavailable)
           (require_ad (own_prop m ''piStatus'' = Some (JStr OBSERVER_PI_STATUS_LOCAL)) Already_managed))))"

definition checkPendingSession :: "jstr \<Rightarrow> unit ad" where
  "checkPendingSession i =
     bindE (getE (\<lambda>s. case map_of (co_pendingBySession s) i of
         None \<Rightarrow> None | Some j \<Rightarrow> map_of (co_pendingById s) j)) (\<lambda>pending.
     case pending of
       None \<Rightarrow> retE ()
     | Some a \<Rightarrow>
         bindE (ask pw_now) (\<lambda>now.
         if pr_expiresMonotonic (pa_proposal a) \<le> now then invalidate (pa_proposal a) else fail_ad Proposal_conflict))"

definition assertEligibility :: "obj \<Rightarrow> adoption_target \<Rightarrow> jstr \<Rightarrow> bool \<Rightarrow> unit ad" where
  "assertEligibility m target observedSessionId checkPending =
     thenE (if checkPending then checkPendingSession observedSessionId else retE ())
    (thenE (assertAvailable m)
    (bindE (liftE (observerId (own_prop m ''executionNodeId''))) (\<lambda>recordNode.
     thenE (require_ad (tg_executionNodeId target = recordNode) Node_mismatch)
    (bindE (ask (\<lambda>w. map_option (\<lambda>f. f (tg_teamGoalId target) (tg_executionNodeId target)) (pw_local w))) (\<lambda>is_local.
     thenE (require_ad (is_local = Some (Inr True)) Remote_team_goal)
    (thenE (must_answer (\<lambda>w. map_option (\<lambda>f. f (tg_teamGoalId target) (tg_role target)) (pw_occupied w)) Not Role_occupied)
           (must_answer (\<lambda>w. map_option (\<lambda>f. f observedSessionId) (pw_managed w)) Not Already_managed)))))))"

definition proposal_text :: "adoption_proposal \<Rightarrow> jstr" where
  "proposal_text p = canonicalJson (JObj
     [(js ''proposalId'', JStr (pr_proposalId p)), (js ''observedSessionId'', JStr (id_observedSessionId (pr_ids p))),
      (js ''executionNodeId'', JStr (id_executionNodeId (pr_ids p))),
      (js ''processIncarnationId'', JStr (id_processIncarnationId (pr_ids p))),
      (js ''piSessionId'', JStr (id_piSessionId (pr_ids p))), (js ''extensionInstanceId'', JStr (id_extensionInstanceId (pr_ids p))),
      (js ''connectionId'', JStr (pr_connectionId p)), (js ''connectionChallenge'', JStr (pr_connectionChallenge p)),
      (js ''registryRevision'', JWhole (pr_registryRevision p)), (js ''targetTeamGoalId'', JStr (tg_teamGoalId (pr_target p))),
      (js ''targetExecutionNodeId'', JStr (tg_executionNodeId (pr_target p))), (js ''targetRole'', JEnum ROLES (tg_role (pr_target p))),
      (js ''createdMonotonic'', JWhole (pr_createdMonotonic p)), (js ''expiresMonotonic'', JWhole (pr_expiresMonotonic p)),
      (js ''acknowledgementNonce'', JStr (pr_acknowledgementNonce p))])"

definition with_digest :: "(jstr \<Rightarrow> jstr) \<Rightarrow> adoption_proposal \<Rightarrow> adoption_proposal" where
  "with_digest sha256 p = p\<lparr>pr_proposalDigest := sha256 (proposal_text p)\<rparr>"

section \<open>Proposing\<close>

definition createProposal :: "json option \<Rightarrow> adoption_proposal ad" where
  "createProposal input =
     bindE (liftE (parseAdoptionRequest input)) (\<lambda>request.
     bindE (currentObserved (rq_observedSessionId request)) (\<lambda>current.
     case current of
       None \<Rightarrow> fail_ad Session_unknown
     | Some record \<Rightarrow>
         bindE (liftE (validateRequestIdentity request)) (\<lambda>ids.
         thenE (liftE (assertIdentityMatchesRecord ids record))
        (bindE (getE co_observerConnection) (\<lambda>given.
         let connection = map_option on_object given
         in thenE (require_ad (case given of None \<Rightarrow> True
                | Some c \<Rightarrow> on_id c \<in> {None, Some (JStr (rq_id request))}) Connection_not_current)
           (thenE (assertConnectionCurrent (rq_connectionId request) connection (rq_connectionChallenge request) record)
           (thenE (assertEligibility record (rq_target request) (rq_observedSessionId request) True)
           (bindE (getE (\<lambda>s. map_of (co_pendingBySession s) (rq_observedSessionId request))) (\<lambda>other.
            thenE (require_ad (other = None) Proposal_conflict)
           (bindE (ask pw_now) (\<lambda>created.
            bindE (liftE (addDeadline created ADOPTION_PROPOSAL_TTL_MS)) (\<lambda>expires.
            bindE (issueId ''proposal'') (\<lambda>proposalId.
            bindE (issueId ''acknowledgement'') (\<lambda>nonce.
            bindE (liftE (requireRevision (own_prop record ''registryRevision''))) (\<lambda>revision.
            bindE (getE co_sha256) (\<lambda>sha256.
            let p = with_digest sha256 \<lparr>pr_proposalId = proposalId, pr_proposalDigest = [], pr_ids = ids,
                      pr_connectionId = rq_connectionId request, pr_connectionChallenge = rq_connectionChallenge request,
                      pr_registryRevision = revision, pr_target = rq_target request, pr_createdMonotonic = created,
                      pr_expiresMonotonic = expires, pr_acknowledgementNonce = nonce\<rparr>;
                a = \<lparr>pa_proposal = p, pa_connection = connection, pa_authorization = None, pa_ackRequest = None,
                     pa_phase = Proposed, pa_deadline = None, pa_acknowledgement = None, pa_reconciliation = None\<rparr>
            in thenE (modifyE (\<lambda>s. s\<lparr>co_pendingBySession :=
                      assoc_put (id_observedSessionId ids) proposalId (co_pendingBySession s)\<rparr>))
              (thenE (put_pending a)
              (thenE (emit_phase Proposed p) (retE p)))))))))))))))))))"

section \<open>Authorizing\<close>

definition finallyE :: "'a ad \<Rightarrow> unit ad \<Rightarrow> 'a ad" where
  "finallyE m n = bindE (catchE m (\<lambda>e. thenE n (throwE e))) (\<lambda>x. thenE n (retE x))"

definition send_or_throw :: "(coordinator \<Rightarrow> coordinator) \<Rightarrow> unit ad" where
  "send_or_throw f = bindE (ask pw_send_throws) (\<lambda>throws. if throws then throwE Port_error else modifyE f)"

definition sendAcknowledgementRequest :: "nat option \<Rightarrow> adoption_request_ack \<Rightarrow> unit ad" where
  "sendAcknowledgementRequest connection r =
     bindE (getE co_observerConnection) (\<lambda>given.
     let send = send_or_throw (\<lambda>s. s\<lparr>co_requests := co_requests s @ [r]\<rparr>)
     in case (connection, given) of
          (Some _, Some c) \<Rightarrow>
            if on_sendAdoptionRequest c then send
            else if on_send c then bindE (issueId ''message'') (\<lambda>_. send)
            else fail_ad Session_unavailable
        | _ \<Rightarrow> fail_ad Session_unavailable)"

definition request_ack_of :: "adoption_proposal \<Rightarrow> int \<Rightarrow> adoption_request_ack" where
  "request_ack_of p remaining =
     \<lparr>aq_proposalId = pr_proposalId p, aq_proposalDigest = pr_proposalDigest p,
      aq_acknowledgementNonce = pr_acknowledgementNonce p, aq_observedSessionId = id_observedSessionId (pr_ids p),
      aq_executionNodeId = id_executionNodeId (pr_ids p), aq_processIncarnationId = id_processIncarnationId (pr_ids p),
      aq_piSessionId = id_piSessionId (pr_ids p), aq_extensionInstanceId = id_extensionInstanceId (pr_ids p),
      aq_connectionId = pr_connectionId p, aq_connectionChallenge = pr_connectionChallenge p,
      aq_registryRevision = pr_registryRevision p, aq_targetTeamGoalId = tg_teamGoalId (pr_target p),
      aq_targetRole = tg_role (pr_target p), aq_acknowledgementRemainingMs = remaining\<rparr>"

text \<open>The part under the reservation of the authorization identifier.\<close>

definition authorize_reserved :: "pending_adoption \<Rightarrow> adoption_authorization \<Rightarrow> adoption_request_ack ad" where
  "authorize_reserved a auth =
     (let p = pa_proposal a in
      bindE (ask (\<lambda>w. pw_verify w p auth)) (\<lambda>verdict.
      thenE (require_ad (verdict = Inr True) Authorization_mismatch)
     (bindE (ask pw_now) (\<lambda>now.
      if pr_expiresMonotonic p \<le> now then invalidate_and_fail p Proposal_expired
      else let remaining = min ADOPTION_ACK_TIMEOUT_MS (pr_expiresMonotonic p - now) in
      if remaining \<le> 0 then invalidate_and_fail p Proposal_expired
      else
      bindE (liftE (validateAdoptionRequestAck (Some (JObj (adoption_request_ack_json (request_ack_of p remaining)))))) (\<lambda>r.
      thenE (put_pending (a\<lparr>pa_phase := Authorized\<rparr>))
     (bindE (liftE (addDeadline now ADOPTION_ACK_TIMEOUT_MS)) (\<lambda>deadline.
      thenE (put_pending (a\<lparr>pa_phase := Authorized, pa_deadline := Some deadline, pa_authorization := Some auth,
                            pa_ackRequest := Some r\<rparr>))
     (thenE (emit_phase Authorized p)
     (thenE (catchE (sendAcknowledgementRequest (pa_connection a) r)
               (\<lambda>_. thenE (put_pending (a\<lparr>pa_phase := Proposed, pa_deadline := None, pa_authorization := None,
                                         pa_ackRequest := None\<rparr>))
                          (fail_ad Session_unavailable)))
     (thenE (rememberAuthorization (au_authorizationId auth)) (retE r)))))))))))"

definition same_authorization :: "adoption_authorization option \<Rightarrow> adoption_authorization \<Rightarrow> bool" where
  "same_authorization earlier auth \<longleftrightarrow>
     (case earlier of
        None \<Rightarrow> False
      | Some b \<Rightarrow> au_authorizationId b = au_authorizationId auth \<and>
          canonicalJson (authorization_json b) = canonicalJson (authorization_json auth))"

definition authorize_pending :: "pending_adoption \<Rightarrow> adoption_authorization \<Rightarrow> adoption_request_ack ad" where
  "authorize_pending a auth =
     (case (pa_phase a, pa_ackRequest a) of
        (Authorized, Some r) \<Rightarrow>
          thenE (require_ad (same_authorization (pa_authorization a) auth) Authorization_replayed) (retE r)
      | _ \<Rightarrow>
          bindE (getE (\<lambda>s. au_authorizationId auth \<in> set (co_usedAuthorizations s) \<union> set (co_reservedAuthorizations s))) (\<lambda>taken.
          thenE (require_ad (\<not> taken) Authorization_replayed)
         (thenE (modifyE (\<lambda>s. s\<lparr>co_reservedAuthorizations := co_reservedAuthorizations s @ [au_authorizationId auth]\<rparr>))
                (finallyE (authorize_reserved a auth)
                   (modifyE (\<lambda>s. s\<lparr>co_reservedAuthorizations :=
                      filter (\<lambda>i. i \<noteq> au_authorizationId auth) (co_reservedAuthorizations s)\<rparr>))))))"

definition authorizeProposal :: "json option \<Rightarrow> json option \<Rightarrow> adoption_request_ack ad" where
  "authorizeProposal proposalIdInput authorizationInput =
     bindE (liftE (observerId proposalIdInput)) (\<lambda>proposalId.
     bindE (getE (\<lambda>s. map_of (co_pendingById s) proposalId)) (\<lambda>pending.
     case pending of
       None \<Rightarrow>
         bindE (getE (\<lambda>s. map_of (co_completedById s) proposalId)) (\<lambda>done.
         if done \<noteq> None then fail_ad Authorization_replayed else fail_ad Proposal_not_found)
     | Some a \<Rightarrow>
         thenE (assertProposalLive (pa_proposal a))
        (bindE (liftE (parseAuthorization authorizationInput)) (\<lambda>auth.
         thenE (require_ad (authorization_matches (pa_proposal a) auth) Authorization_mismatch)
               (authorize_pending a auth)))))"

section \<open>Committing\<close>

definition committed_fields :: "string list" where
  "committed_fields = IDENTITY_FIELDS @
     [''proposalId'', ''proposalDigest'', ''agentRunId'', ''targetTeamGoalId'', ''targetRole'', ''controlMode'',
      ''piStatus'', ''terminalTitleMetadata'', ''runtimeBinding'', ''runtimeBindingGuarantee'']"

definition id_texts :: "session_ids \<Rightarrow> (string \<times> jstr) list" where
  "id_texts i =
     [(''observedSessionId'', id_observedSessionId i), (''executionNodeId'', id_executionNodeId i),
      (''processIncarnationId'', id_processIncarnationId i), (''piSessionId'', id_piSessionId i),
      (''extensionInstanceId'', id_extensionInstanceId i)]"

definition normalizeCommittedResult ::
    "json \<Rightarrow> adoption_proposal \<Rightarrow> observer_failure + (adoption_committed \<times> obj)" where
  "normalizeCommittedResult v p =
     (let failed = Observer_error Transaction_failed in
      case object_of (Some v) of
        None \<Rightarrow> Inl failed
      | Some m \<Rightarrow>
          andThen (guardR (list_all (\<lambda>e. fst e \<in> set (map js committed_fields)) m) failed) (\<lambda>_.
          andThen (guardR (list_all (\<lambda>(f, t). own_prop m f \<in> {None, Some (JStr t)}) (id_texts (pr_ids p))) failed) (\<lambda>_.
          andThen (guardR (own_prop m ''runtimeBinding'' \<in> {None, Some JNull}) failed) (\<lambda>_.
          andThen (string_where ID_RE Transaction_failed (own_prop m ''agentRunId'')) (\<lambda>agentRunId.
          andThen (string_where (\<lambda>s. s \<noteq> [] \<and> codePoints s \<le> 512) Transaction_failed (own_prop m ''piStatus'')) (\<lambda>piStatus.
          andThen (string_where (\<lambda>s. s \<noteq> [] \<and> codePoints s \<le> 512) Transaction_failed (own_prop m ''terminalTitleMetadata'')) (\<lambda>title.
          andThen (guardR (own_prop m ''proposalId'' = Some (JStr (pr_proposalId p)) \<and>
                           own_prop m ''proposalDigest'' = Some (JStr (pr_proposalDigest p)) \<and>
                           own_prop m ''targetTeamGoalId'' = Some (JStr (tg_teamGoalId (pr_target p))) \<and>
                           own_prop m ''targetRole'' = Some (JEnum ROLES (tg_role (pr_target p))) \<and>
                           own_prop m ''controlMode'' = Some (JStr (js ''managed'')) \<and>
                           own_prop m ''runtimeBindingGuarantee'' = Some (JStr (js ''unavailable''))) failed) (\<lambda>_.
          Inr (\<lparr>ac_proposalId = pr_proposalId p, ac_proposalDigest = pr_proposalDigest p, ac_agentRunId = agentRunId,
                ac_targetTeamGoalId = tg_teamGoalId (pr_target p), ac_targetRole = tg_role (pr_target p),
                ac_piStatus = piStatus, ac_terminalTitleMetadata = title\<rparr>,
               map (\<lambda>(f, t). (js f, JStr t)) (filter (\<lambda>(f, t). own_prop m f \<noteq> None) (id_texts (pr_ids p))))))))))))"

definition change_completed :: "jstr \<Rightarrow> (completed_adoption \<Rightarrow> completed_adoption) \<Rightarrow> unit ad" where
  "change_completed i f =
     modifyE (\<lambda>s. s\<lparr>co_completedById := map (\<lambda>(j, d). (j, if j = i then f d else d)) (co_completedById s)\<rparr>)"

definition sendCommitted :: "completed_adoption \<Rightarrow> unit ad" where
  "sendCommitted d =
     bindE (liftE (validateAdoptionCommitted (Some (JObj (adoption_committed_json (cd_result d)))))) (\<lambda>body.
     bindE (getE co_observerConnection) (\<lambda>given.
     let send = send_or_throw (\<lambda>s. s\<lparr>co_delivered := co_delivered s @ [body]\<rparr>)
     in case (cd_connection d, given) of
          (Some _, Some c) \<Rightarrow>
            if on_sendAdoptionCommitted c then send
            else if on_send c then bindE (issueId ''message'') (\<lambda>_. send)
            else retE ()
        | _ \<Rightarrow> retE ()))"

definition deliverCompleted :: "completed_adoption \<Rightarrow> unit ad" where
  "deliverCompleted d =
     (let i = pr_proposalId (cd_proposal d) in
      catchE
        (thenE (if cd_presented d then retE ()
                else bindE (ask pw_present_throws) (\<lambda>throws.
                     if throws then throwE Port_error
                     else thenE (modifyE (\<lambda>s. s\<lparr>co_presented := co_presented s @ [i]\<rparr>))
                                (change_completed i (\<lambda>d. d\<lparr>cd_presented := True\<rparr>))))
               (if cd_delivered d then retE ()
                else thenE (sendCommitted d) (change_completed i (\<lambda>d. d\<lparr>cd_delivered := True\<rparr>))))
        (\<lambda>_. fail_ad Postcommit_delivery_failed))"

text \<open>The checks that are made on a record at the acknowledgement and again before the commit.\<close>

definition assertStillCurrent :: "pending_adoption \<Rightarrow> obj \<Rightarrow> int \<Rightarrow> unit ad" where
  "assertStillCurrent a record sourceSequence =
     (let p = pa_proposal a in
      thenE (liftE (assertIdentityMatchesRecord (pr_ids p) record))
     (thenE (assertConnectionCurrent (pr_connectionId p) (pa_connection a) (pr_connectionChallenge p) record)
     (thenE (assertCurrentRevision (pr_registryRevision p) record)
            (liftE (assertSourceSequenceCurrent record sourceSequence)))))"

definition commit_checked :: "pending_adoption \<Rightarrow> commit_input \<Rightarrow> (adoption_committed \<times> obj) ad" where
  "commit_checked a input =
     (let p = pa_proposal a in
      bindE (ask (\<lambda>w. pw_commit w input)) (\<lambda>answer.
      thenE (modifyE (\<lambda>s. s\<lparr>co_commits := co_commits s @ [input]\<rparr>))
     (case answer of
        Inl _ \<Rightarrow> invalidate_and_fail p Transaction_failed
      | Inr v \<Rightarrow>
          (case normalizeCommittedResult v p of
             Inl e \<Rightarrow> thenE (invalidate p) (throwE e)
           | Inr (committed, identity) \<Rightarrow>
               let d = \<lparr>cd_proposal = p, cd_connection = pa_connection a, cd_acknowledgement = ci_acknowledgement input,
                        cd_result = committed, cd_identity = identity, cd_presented = False, cd_delivered = False\<rparr>
               in thenE (emit_phase Committed p)
                 (thenE (removePending p)
                 (thenE (rememberCompleted d)
                 (thenE (deliverCompleted d)
                        (retE (committed, identity)))))))))"

definition commit :: "pending_adoption \<Rightarrow> (adoption_committed \<times> obj) ad" where
  "commit a =
     (let p = pa_proposal a; i = id_observedSessionId (pr_ids p) in
      bindE (currentObserved i) (\<lambda>current.
      if current = None then invalidate_and_fail p Session_unavailable
      else case (pa_authorization a, pa_acknowledgement a, pa_reconciliation a) of
        (Some auth, Some ack, Some reconciliation) \<Rightarrow>
          bindE (currentObserved i) (\<lambda>latest.
          case latest of
            None \<Rightarrow> invalidate_and_fail p Identity_drift
          | Some record \<Rightarrow>
              thenE (assertStillCurrent a record (ak_sourceSequence ack))
             (thenE (assertEligibility record (pr_target p) i False)
             (bindE (ask pw_now) (\<lambda>now.
              if pr_expiresMonotonic p \<le> now then invalidate_and_fail p Proposal_expired
              else if (case pa_deadline a of None \<Rightarrow> True | Some t \<Rightarrow> t \<le> now) then invalidate_and_fail p Ack_timeout
              else commit_checked a \<lparr>ci_proposal = p, ci_authorization = auth, ci_acknowledgement = ack,
                     ci_observed = record, ci_reconciliation = reconciliation\<rparr>))))
      | _ \<Rightarrow> fail_ad Authorization_required))"

definition acknowledge_pending :: "pending_adoption \<Rightarrow> nat \<Rightarrow> adoption_ack \<Rightarrow> (adoption_committed \<times> obj) ad" where
  "acknowledge_pending a transport ack =
     (let p = pa_proposal a; i = id_observedSessionId (pr_ids p) in
      thenE (assertProposalLive p)
     (case (pa_phase a, pa_ackRequest a, pa_deadline a) of
        (Authorized, Some _, Some deadline) \<Rightarrow>
          if pa_connection a \<noteq> Some transport then invalidate_and_fail p Connection_not_current
          else bindE (ask pw_now) (\<lambda>now.
          if deadline \<le> now then invalidate_and_fail p Ack_timeout
          else thenE (liftE (assertAcknowledgementMatches p ack))
         (bindE (currentObserved i) (\<lambda>current.
          case current of
            None \<Rightarrow> invalidate_and_fail p Identity_drift
          | Some record \<Rightarrow>
              thenE (assertStillCurrent a record (ak_sourceSequence ack))
             (if ak_decision ack = Refused then invalidate_and_fail p Ack_refused
              else thenE (liftE (assertReconciliationActivity (ak_activity ack)))
             (thenE (assertEligibility record (pr_target p) i False)
             (let a1 = a\<lparr>pa_phase := Same_process_acknowledged, pa_acknowledgement := Some ack\<rparr>;
                  a2 = a1\<lparr>pa_phase := Reconciled, pa_reconciliation := Some (ak_sourceSequence ack)\<rparr>
              in thenE (put_pending a1)
                (thenE (emit_phase Same_process_acknowledged p)
                (thenE (put_pending a2)
                (thenE (emit_phase Reconciled p)
                       (commit a2))))))))))
      | _ \<Rightarrow> fail_ad Authorization_required))"

definition end_if_pending :: "adoption_proposal \<Rightarrow> unit ad" where
  "end_if_pending p =
     bindE (getE (\<lambda>s. map_of (co_pendingById s) (pr_proposalId p))) (\<lambda>pending.
     case pending of
       None \<Rightarrow> retE ()
     | Some a \<Rightarrow> if pa_phase a \<noteq> Proposed then invalidate p else retE ())"

definition acceptAcknowledgement :: "nat \<Rightarrow> json option \<Rightarrow> (adoption_committed \<times> obj) ad" where
  "acceptAcknowledgement transport input =
     bindE (liftE (validateAdoptionAck input)) (\<lambda>ack.
     bindE (getE (\<lambda>s. map_of (co_completedById s) (ak_proposalId ack))) (\<lambda>done.
     case done of
       Some d \<Rightarrow>
         thenE (liftE (assertCompletedRetry d transport ack))
        (thenE (deliverCompleted d) (retE (cd_result d, cd_identity d)))
     | None \<Rightarrow>
         bindE (getE (\<lambda>s. map_of (co_pendingById s) (ak_proposalId ack))) (\<lambda>pending.
         case pending of
           None \<Rightarrow> fail_ad Proposal_not_found
         | Some a \<Rightarrow>
             catchE (acknowledge_pending a transport ack)
               (\<lambda>e. thenE (end_if_pending (pa_proposal a)) (throwE e)))))"

section \<open>Reading and restarting\<close>

definition pendingProposal :: "json option \<Rightarrow> coordinator \<Rightarrow> adoption_proposal option" where
  "pendingProposal v s =
     (case string_of v of
        None \<Rightarrow> None
      | Some i \<Rightarrow>
          if \<not> ID_RE i then None
          else (case map_of (co_pendingBySession s) i of
                  None \<Rightarrow> None
                | Some j \<Rightarrow> map_option pa_proposal (map_of (co_pendingById s) j)))"

definition getProposal :: "json option \<Rightarrow> coordinator \<Rightarrow> adoption_proposal option" where
  "getProposal v s =
     (case string_of v of
        None \<Rightarrow> None
      | Some i \<Rightarrow>
          if \<not> ID_RE i then None
          else (case map_of (co_pendingById s) i of
                  Some a \<Rightarrow> Some (pa_proposal a)
                | None \<Rightarrow> map_option cd_proposal (map_of (co_completedById s) i)))"

definition reconstruct_adoption :: "coordinator \<Rightarrow> coordinator" where
  "reconstruct_adoption s = s\<lparr>co_pendingBySession := [], co_pendingById := [], co_reservedAuthorizations := []\<rparr>"

definition phases :: "coordinator \<Rightarrow> adoption_phase list" where
  "phases s = map ae_phase (co_eventLog s)"

datatype adoption_op =
    Propose "json option"
  | Authorize "json option" "json option"
  | Acknowledge nat "json option"
  | Reconstruct_adoption

fun adoption_step :: "adoption_op \<Rightarrow> coordinator \<Rightarrow> coordinator" where
  "adoption_step (Propose v) s = snd (createProposal v s)"
| "adoption_step (Authorize i v) s = snd (authorizeProposal i v s)"
| "adoption_step (Acknowledge c v) s = snd (acceptAcknowledgement c v s)"
| "adoption_step Reconstruct_adoption s = reconstruct_adoption s"

definition adoption_run :: "adoption_op list \<Rightarrow> coordinator \<Rightarrow> coordinator" where
  "adoption_run = run_with adoption_step"

end
