(* ===== verification/AdoptionInvariant.thy ===== *)
theory AdoptionInvariant
  imports Adoption
begin

section \<open>Steps that only call ports\<close>

text \<open>
  Most steps of the coordinator ask its ports and check the answers; the state they leave differs
  in the number of calls only. \<open>quiet m P\<close> says so of \<open>m\<close>, with \<open>P\<close> for what it returns.
\<close>

definition calls_only :: "coordinator \<Rightarrow> coordinator \<Rightarrow> bool" where
  "calls_only s s' \<longleftrightarrow> s' = s\<lparr>co_calls := co_calls s'\<rparr>"

definition quiet :: "'a ad \<Rightarrow> ('a \<Rightarrow> bool) \<Rightarrow> bool" where
  "quiet m P \<longleftrightarrow> (\<forall>s. wpE m (\<lambda>x s'. calls_only s s' \<and> P x) (\<lambda>_ s'. calls_only s s') s)"

lemma calls_only_refl [simp]: "calls_only s s"
  by (simp add: calls_only_def)

lemma calls_only_trans: "calls_only a b \<Longrightarrow> calls_only b c \<Longrightarrow> calls_only a c"
  unfolding calls_only_def by (metis coordinator.update_convs(4) coordinator.surjective)

lemma wpE_ask [wpE_simps]: "wpE (ask f) Q E s = Q (f (co_world s (co_calls s))) (s\<lparr>co_calls := Suc (co_calls s)\<rparr>)"
  by (simp add: wpE_def ask_def)

lemma quiet_weaken: "quiet m P \<Longrightarrow> (\<And>x. P x \<Longrightarrow> Q x) \<Longrightarrow> quiet m Q"
  unfolding quiet_def by (blast intro: wpE_mono)

lemma quiet_prims:
  "quiet (ask f) (\<lambda>_. True)" "quiet (retE x) (\<lambda>y. y = x)" "quiet (throwE e) P" "quiet (getE g) (\<lambda>_. True)"
  "quiet (liftE r) (\<lambda>x. r = Inr x)" "quiet (requireE b e) (\<lambda>_. b)"
  by (auto simp: quiet_def wpE_simps calls_only_def split: sum.split)

lemma quiet_bind: "quiet m P \<Longrightarrow> (\<And>x. P x \<Longrightarrow> quiet (f x) Q) \<Longrightarrow> quiet (bindE m f) Q"
proof (unfold quiet_def wpE_bind, intro allI)
  fix s
  assume m: "\<forall>s. wpE m (\<lambda>x s'. calls_only s s' \<and> P x) (\<lambda>_ s'. calls_only s s') s"
    and f: "\<And>x. P x \<Longrightarrow> \<forall>s. wpE (f x) (\<lambda>x s'. calls_only s s' \<and> Q x) (\<lambda>_ s'. calls_only s s') s"
  show "wpE m (\<lambda>x. wpE (f x) (\<lambda>x s'. calls_only s s' \<and> Q x) (\<lambda>_ s'. calls_only s s')) (\<lambda>_ s'. calls_only s s') s"
    by (rule wpE_mono [OF m [rule_format]])
       (auto intro: wpE_mono [OF f [rule_format]] calls_only_trans)
qed

lemma quiet_then: "quiet m P \<Longrightarrow> (\<And>u. P u \<Longrightarrow> quiet n Q) \<Longrightarrow> quiet (thenE m n) Q"
  unfolding thenE_def by (rule quiet_bind)

lemma quiet_if: "(b \<Longrightarrow> quiet m P) \<Longrightarrow> (\<not> b \<Longrightarrow> quiet n P) \<Longrightarrow> quiet (if b then m else n) P"
  by simp

lemma quiet_must_answer: "quiet (must_answer q g c) (\<lambda>_. True)"
  unfolding must_answer_def
  by (rule quiet_bind [OF quiet_prims(1)]) (auto intro: quiet_prims quiet_weaken split: option.split sum.split)

lemma quiet_currentObserved: "quiet (currentObserved i) (\<lambda>_. True)"
  unfolding currentObserved_def
  by (rule quiet_bind [OF quiet_prims(1)])
     (auto intro: quiet_prims quiet_weaken split: sum.split observer_failure.split)

lemma quiet_connection: "quiet (assertConnectionCurrent i c x m) (\<lambda>_. True)"
  unfolding assertConnectionCurrent_def
  by (intro quiet_then [where P = "\<lambda>_. True"] quiet_bind [OF quiet_prims(1)] quiet_must_answer
      quiet_weaken [OF quiet_prims(6)]) auto

definition revision_is :: "obj \<Rightarrow> int \<Rightarrow> bool" where
  "revision_is m n \<longleftrightarrow> own_prop m ''registryRevision'' = Some (JWhole n)"

lemma quiet_revision: "quiet (assertCurrentRevision n m) (\<lambda>_. revision_is m n)"
  unfolding assertCurrentRevision_def
  by (rule quiet_bind [OF quiet_prims(5)], rule quiet_then [OF quiet_prims(6)], rule quiet_weaken [OF quiet_must_answer])
     (simp add: requireRevision_def observer_ints_iff revision_is_def)

definition still_current :: "pending_adoption \<Rightarrow> obj \<Rightarrow> int \<Rightarrow> bool" where
  "still_current a m n \<longleftrightarrow>
     identity_matches (pr_ids (pa_proposal a)) m \<and> revision_is m (pr_registryRevision (pa_proposal a)) \<and> sequence_current m n"

lemma quiet_still_current: "quiet (assertStillCurrent a m n) (\<lambda>_. still_current a m n)"
  unfolding assertStillCurrent_def Let_def
  apply (rule quiet_then [OF quiet_prims(5)], rule quiet_then [OF quiet_connection], rule quiet_then [OF quiet_revision])
  apply (rule quiet_weaken [OF quiet_prims(5)])
  apply (simp add: still_current_def assertIdentityMatchesRecord_def assertSourceSequenceCurrent_def result_simps)
  done

definition eligible :: "obj \<Rightarrow> adoption_target \<Rightarrow> bool" where
  "eligible m target \<longleftrightarrow>
     \<not> is_text m ''lifecycle'' ''exited'' \<and> is_text m ''availability'' ''available'' \<and> is_text m ''activity'' ''idle'' \<and>
     is_text m ''health'' ''healthy'' \<and> own_prop m ''piStatus'' = Some (JStr OBSERVER_PI_STATUS_LOCAL) \<and>
     own_prop m ''executionNodeId'' = Some (JStr (tg_executionNodeId target))"

lemma quiet_eligibility: "quiet (assertEligibility m target i False) (\<lambda>_. eligible m target)"
  unfolding assertEligibility_def assertAvailable_def if_False
  apply (rule quiet_then [OF quiet_prims(2)])
  apply (rule quiet_then [where P = "\<lambda>_. \<not> is_text m ''lifecycle'' ''exited'' \<and> is_text m ''availability'' ''available'' \<and>
     is_text m ''activity'' ''idle'' \<and> is_text m ''health'' ''healthy'' \<and> own_prop m ''piStatus'' = Some (JStr OBSERVER_PI_STATUS_LOCAL)"])
   apply (rule quiet_then [OF quiet_prims(6)])+
   apply (rule quiet_weaken [OF quiet_prims(6)], simp)
  apply (rule quiet_bind [OF quiet_prims(5)], rule quiet_then [OF quiet_prims(6)], rule quiet_bind [OF quiet_prims(1)],
      rule quiet_then [OF quiet_prims(6)], rule quiet_then [OF quiet_must_answer], rule quiet_weaken [OF quiet_must_answer])
  apply (simp add: eligible_def observer_strings_iff)
  done


section \<open>The invariant\<close>

text \<open>A proposal binds its own content, and every authorization of it was verified.\<close>

definition proposal_bound :: "coordinator \<Rightarrow> adoption_proposal \<Rightarrow> bool" where
  "proposal_bound s p \<longleftrightarrow> pr_proposalDigest p = co_sha256 s (proposal_text p)"

definition verified :: "coordinator \<Rightarrow> adoption_proposal \<Rightarrow> adoption_authorization \<Rightarrow> bool" where
  "verified s p a \<longleftrightarrow> authorization_matches p a \<and> (\<exists>n. pw_verify (co_world s n) p a = Inr True)"

definition requested :: "coordinator \<Rightarrow> adoption_proposal \<Rightarrow> bool" where
  "requested s p \<longleftrightarrow> (\<exists>remaining. request_ack_of p remaining \<in> set (co_requests s))"

definition pending_ok :: "coordinator \<Rightarrow> pending_adoption \<Rightarrow> bool" where
  "pending_ok s a \<longleftrightarrow>
     proposal_bound s (pa_proposal a) \<and>
     (\<forall>auth. pa_authorization a = Some auth \<longrightarrow> verified s (pa_proposal a) auth) \<and>
     (pa_ackRequest a \<noteq> None \<longrightarrow> requested s (pa_proposal a) \<and> pa_authorization a \<noteq> None)"

definition ci_id :: "commit_input \<Rightarrow> jstr" where "ci_id c = pr_proposalId (ci_proposal c)"

definition commit_ok :: "coordinator \<Rightarrow> commit_input \<Rightarrow> bool" where
  "commit_ok s c \<longleftrightarrow>
     proposal_bound s (ci_proposal c) \<and> verified s (ci_proposal c) (ci_authorization c) \<and> requested s (ci_proposal c) \<and>
     acknowledgement_matches (ci_proposal c) (ci_acknowledgement c) \<and>
     ak_decision (ci_acknowledgement c) \<noteq> Refused \<and> ak_activity (ci_acknowledgement c) = Idle_activity \<and>
     ci_reconciliation c = ak_sourceSequence (ci_acknowledgement c) \<and>
     identity_matches (pr_ids (ci_proposal c)) (ci_observed c) \<and>
     revision_is (ci_observed c) (pr_registryRevision (ci_proposal c)) \<and>
     sequence_current (ci_observed c) (ak_sourceSequence (ci_acknowledgement c)) \<and>
     eligible (ci_observed c) (pr_target (ci_proposal c))"

definition session_of :: "pending_adoption \<Rightarrow> jstr" where
  "session_of a = id_observedSessionId (pr_ids (pa_proposal a))"

text \<open>The two maps of pending proposals agree; no proposal that was handed to the runner is pending.\<close>

definition agree :: "(jstr \<rightharpoonup> pending_adoption) \<Rightarrow> (jstr \<rightharpoonup> jstr) \<Rightarrow> bool" where
  "agree byId bySession \<longleftrightarrow>
     (\<forall>i a. byId i = Some a \<longrightarrow> i = pr_proposalId (pa_proposal a)) \<and>
     (\<forall>x j. bySession x = Some j \<longleftrightarrow> (\<exists>a. byId j = Some a \<and> session_of a = x))"

lemma agree_del:
  assumes g: "agree B S" and a: "B i = Some a"
  shows "agree (B(i := None)) (S(session_of a := None))"
proof -
  have k: "B j = Some b \<Longrightarrow> j = pr_proposalId (pa_proposal b)" for j b using g by (simp add: agree_def)
  have s: "S x = Some j \<longleftrightarrow> (\<exists>b. B j = Some b \<and> session_of b = x)" for x j using g by (simp add: agree_def)
  have "(S(session_of a := None)) x = Some j \<longleftrightarrow> (\<exists>b. (B(i := None)) j = Some b \<and> session_of b = x)" for x j
  proof (cases "x = session_of a")
    case True
    have "S x = Some i" using s a True by blast
    then have "(\<exists>b. B j = Some b \<and> session_of b = x) \<Longrightarrow> j = i" using s [of x j] by simp
    then show ?thesis using True by auto
  next
    case False
    then have "(\<exists>b. B i = Some b \<and> session_of b = x) = False" using a by simp
    then show ?thesis using False s [of x j] by (cases "j = i") simp_all
  qed
  then show ?thesis using k by (simp add: agree_def)
qed

lemma agree_put:
  assumes g: "agree B S" and i: "i = pr_proposalId (pa_proposal b)"
    and x: "S x = None \<and> B i = None \<and> S' = S(x \<mapsto> i) \<or> B i = Some a \<and> session_of a = x \<and> S' = S"
    and b: "session_of b = x"
  shows "agree (B(i \<mapsto> b)) S'"
proof -
  have k: "B j = Some c \<Longrightarrow> j = pr_proposalId (pa_proposal c)" for j c using g by (simp add: agree_def)
  have s: "S y = Some j \<longleftrightarrow> (\<exists>c. B j = Some c \<and> session_of c = y)" for y j using g by (simp add: agree_def)
  have "S' y = Some j \<longleftrightarrow> (\<exists>c. (B(i \<mapsto> b)) j = Some c \<and> session_of c = y)" for y j
  proof (cases "j = i")
    case True
    have "S y = Some i \<longleftrightarrow> B i \<noteq> None \<and> session_of (the (B i)) = y" using s [of y i] by (cases "B i") auto
    then show ?thesis using x b True by (cases "y = x") auto
  next
    case False
    have "S' y = Some j \<longleftrightarrow> S y = Some j" using x False by (cases "y = x") auto
    then show ?thesis using s [of y j] False by simp
  qed
  then show ?thesis using k i by (simp add: agree_def)
qed

definition maps_agree :: "coordinator \<Rightarrow> bool" where
  "maps_agree s \<longleftrightarrow> agree (map_of (co_pendingById s)) (map_of (co_pendingBySession s))"

text \<open>While a proposal is being authorized its request is not yet sent: it is the exception \<open>x\<close>.\<close>

definition all_pending_ok :: "jstr option \<Rightarrow> coordinator \<Rightarrow> bool" where
  "all_pending_ok x s \<longleftrightarrow> (\<forall>i a. map_of (co_pendingById s) i = Some a \<longrightarrow>
     (x = Some i \<or> pending_ok s a) \<and> i \<in> set (co_issuedIds s))"

definition commits_good :: "coordinator \<Rightarrow> bool" where
  "commits_good s \<longleftrightarrow>
     distinct (map ci_id (co_commits s)) \<and>
     (\<forall>c \<in> set (co_commits s). commit_ok s c \<and> ci_id c \<in> set (co_issuedIds s) \<and>
        map_of (co_pendingById s) (ci_id c) = None)"

text \<open>A kept result belongs to a proposal that was handed to the runner with the acknowledgement that is kept.\<close>

definition kept_for :: "completed_adoption \<Rightarrow> commit_input \<Rightarrow> bool" where
  "kept_for d c \<longleftrightarrow> ci_proposal c = cd_proposal d \<and> ci_acknowledgement c = cd_acknowledgement d"

definition completed_good :: "coordinator \<Rightarrow> bool" where
  "completed_good s \<longleftrightarrow>
     length (co_completedById s) \<le> ADOPTION_IDEMPOTENCY_LIMIT \<and> distinct (map fst (co_completedById s)) \<and>
     (\<forall>i d. map_of (co_completedById s) i = Some d \<longrightarrow>
        i = pr_proposalId (cd_proposal d) \<and> list_ex (kept_for d) (co_commits s))"

lemma completed_committed: "completed_good s \<Longrightarrow> map_of (co_completedById s) i = Some d \<Longrightarrow> i \<in> set (map ci_id (co_commits s))"
  unfolding completed_good_def kept_for_def list_ex_iff by (metis (no_types) ci_id_def imageI set_map)

definition used_good :: "coordinator \<Rightarrow> bool" where
  "used_good s \<longleftrightarrow> distinct (co_usedAuthorizations s) \<and> length (co_usedAuthorizations s) \<le> ADOPTION_IDEMPOTENCY_LIMIT"

definition log_good :: "coordinator \<Rightarrow> bool" where
  "log_good s \<longleftrightarrow> length (co_eventLog s) \<le> ADOPTION_EVENT_LIMIT \<and>
     map ae_sequence (co_eventLog s) = [Suc (co_eventSequence s) - length (co_eventLog s)..<Suc (co_eventSequence s)] \<and>
     length (co_eventLog s) \<le> co_eventSequence s"

definition ok_but :: "jstr option \<Rightarrow> coordinator \<Rightarrow> bool" where
  "ok_but x s \<longleftrightarrow> maps_agree s \<and> all_pending_ok x s \<and> commits_good s \<and> completed_good s \<and> used_good s \<and> log_good s"

abbreviation adoption_ok :: "coordinator \<Rightarrow> bool" where "adoption_ok \<equiv> ok_but None"

lemma adoption_okI:
  "maps_agree s \<Longrightarrow> all_pending_ok x s \<Longrightarrow> commits_good s \<Longrightarrow> completed_good s \<Longrightarrow> used_good s \<Longrightarrow> log_good s \<Longrightarrow> ok_but x s"
  by (simp add: ok_but_def)

lemma adoption_okD:
  assumes "ok_but x s"
  shows "maps_agree s" "all_pending_ok x s" "commits_good s" "completed_good s" "used_good s" "log_good s"
  using assms by (simp_all add: ok_but_def)

text \<open>The facts about one proposal only grow.\<close>

definition grown :: "coordinator \<Rightarrow> coordinator \<Rightarrow> bool" where
  "grown s s' \<longleftrightarrow> co_sha256 s' = co_sha256 s \<and> co_world s' = co_world s \<and>
     set (co_requests s) \<subseteq> set (co_requests s') \<and> set (co_issuedIds s) \<subseteq> set (co_issuedIds s')"

lemma grown_facts:
  assumes "grown s s'"
  shows "proposal_bound s p \<Longrightarrow> proposal_bound s' p" "verified s p a \<Longrightarrow> verified s' p a" "requested s p \<Longrightarrow> requested s' p"
    "pending_ok s x \<Longrightarrow> pending_ok s' x" "commit_ok s c \<Longrightarrow> commit_ok s' c"
  using assms
  by (auto simp: grown_def proposal_bound_def verified_def requested_def pending_ok_def commit_ok_def)

text \<open>Steps that leave the books as they are.\<close>

definition books :: "coordinator \<Rightarrow> _" where
  "books s = (co_pendingBySession s, co_pendingById s, co_completedById s, co_usedAuthorizations s, co_eventLog s,
     co_eventSequence s, co_commits s)"

lemma ok_grown:
  assumes ok: "ok_but x s" and b: "books s' = books s" and g: "grown s s'"
  shows "ok_but x s'"
proof (rule adoption_okI)
  have e: "co_pendingBySession s' = co_pendingBySession s" "co_pendingById s' = co_pendingById s"
    "co_completedById s' = co_completedById s" "co_usedAuthorizations s' = co_usedAuthorizations s"
    "co_eventLog s' = co_eventLog s" "co_eventSequence s' = co_eventSequence s" "co_commits s' = co_commits s"
    using b by (simp_all add: books_def)
  have i: "set (co_issuedIds s) \<subseteq> set (co_issuedIds s')" using g by (simp add: grown_def)
  show "maps_agree s'" using adoption_okD(1) [OF ok] by (simp add: maps_agree_def e)
  show "all_pending_ok x s'" using adoption_okD(2) [OF ok] i grown_facts(4) [OF g] unfolding all_pending_ok_def e by blast
  show "commits_good s'" using adoption_okD(3) [OF ok] i grown_facts(5) [OF g] unfolding commits_good_def e by blast
  show "completed_good s'" using adoption_okD(4) [OF ok] by (simp add: completed_good_def e)
  show "used_good s'" using adoption_okD(5) [OF ok] by (simp add: used_good_def e)
  show "log_good s'" using adoption_okD(6) [OF ok] by (simp add: log_good_def e)
qed

lemma calls_onlyE: "calls_only s s' \<Longrightarrow> (\<And>n. s' = s\<lparr>co_calls := n\<rparr> \<Longrightarrow> P) \<Longrightarrow> P"
  unfolding calls_only_def by blast

lemma ok_calls: assumes "ok_but x s" "calls_only s s'" shows "ok_but x s'"
proof -
  from assms(2) obtain n where "s' = s\<lparr>co_calls := n\<rparr>" by (rule calls_onlyE)
  then show ?thesis by (intro ok_grown [OF assms(1)]) (simp_all add: books_def grown_def)
qed

lemma pending_calls: "calls_only s s' \<Longrightarrow> co_pendingById s' = co_pendingById s"
  by (erule calls_onlyE) simp

section \<open>The changes an operation makes\<close>

definition logged :: "adoption_phase \<Rightarrow> adoption_proposal \<Rightarrow> coordinator \<Rightarrow> coordinator" where
  "logged phase p s = s\<lparr>co_eventLog :=
       (if ADOPTION_EVENT_LIMIT \<le> length (co_eventLog s) then tl (co_eventLog s) else co_eventLog s) @
       [\<lparr>ae_sequence = Suc (co_eventSequence s), ae_phase = phase, ae_proposalId = pr_proposalId p,
         ae_observedSessionId = id_observedSessionId (pr_ids p)\<rparr>],
     co_eventSequence := Suc (co_eventSequence s)\<rparr>"

definition removed :: "adoption_proposal \<Rightarrow> coordinator \<Rightarrow> coordinator" where
  "removed p s = s\<lparr>co_pendingById := assoc_del (pr_proposalId p) (co_pendingById s),
     co_pendingBySession :=
       (if map_of (co_pendingBySession s) (id_observedSessionId (pr_ids p)) = Some (pr_proposalId p)
        then assoc_del (id_observedSessionId (pr_ids p)) (co_pendingBySession s) else co_pendingBySession s)\<rparr>"

definition with_pending :: "pending_adoption \<Rightarrow> coordinator \<Rightarrow> coordinator" where
  "with_pending a s = s\<lparr>co_pendingById := assoc_put (pr_proposalId (pa_proposal a)) a (co_pendingById s)\<rparr>"

lemma wpE_changes [wpE_simps]:
  "wpE (emit_phase phase p) U E s = U () (logged phase p s)"
  "wpE (removePending p) U E s = U () (removed p s)"
  "wpE (invalidate p) U E s = U () (removed p (logged Failed_phase p s))"
  "wpE (invalidate_and_fail p c) Q E s = E (Observer_error c) (removed p (logged Failed_phase p s))"
  "wpE (put_pending a) U E s = U () (with_pending a s)"
  by (simp_all add: emit_phase_def removePending_def invalidate_def invalidate_and_fail_def put_pending_def wpE_simps
      logged_def removed_def with_pending_def)

lemma logged_sel [simp]:
  "co_pendingById (logged ph p s) = co_pendingById s" "co_pendingBySession (logged ph p s) = co_pendingBySession s"
  "co_completedById (logged ph p s) = co_completedById s" "co_usedAuthorizations (logged ph p s) = co_usedAuthorizations s"
  "co_commits (logged ph p s) = co_commits s" "co_issuedIds (logged ph p s) = co_issuedIds s"
  "co_requests (logged ph p s) = co_requests s" "co_world (logged ph p s) = co_world s" "co_sha256 (logged ph p s) = co_sha256 s"
  "co_reservedAuthorizations (logged ph p s) = co_reservedAuthorizations s"
  by (simp_all add: logged_def)

lemma log_good_logged: "log_good s \<Longrightarrow> log_good (logged ph p s)"
proof -
  assume g: "log_good s"
  let ?n = "length (co_eventLog s)" and ?k = "co_eventSequence s"
  have m: "map ae_sequence (co_eventLog s) = [Suc ?k - ?n..<Suc ?k]" "?n \<le> ?k" "?n \<le> ADOPTION_EVENT_LIMIT"
    using g by (simp_all add: log_good_def)
  show ?thesis
  proof (cases "ADOPTION_EVENT_LIMIT \<le> ?n")
    case True
    have "0 < ADOPTION_EVENT_LIMIT" by (simp add: ADOPTION_EVENT_LIMIT_def)
    then have pos: "0 < ?n" using True by (rule less_le_trans)
    then have "map ae_sequence (tl (co_eventLog s)) = [Suc (Suc ?k - ?n)..<Suc ?k]"
      using m(1) by (simp only: map_tl tl_upt)
    moreover have "Suc (Suc ?k - ?n) = Suc (Suc ?k) - ?n" using m(2) by simp
    ultimately show ?thesis using True pos m(2,3) by (auto simp: log_good_def logged_def)
  next
    case False
    then show ?thesis using m by (simp add: log_good_def logged_def)
  qed
qed

lemma ok_logged:
  assumes ok: "ok_but x s"
  shows "ok_but x (logged ph p s)"
proof (rule adoption_okI)
  have g: "grown s (logged ph p s)" by (simp add: grown_def)
  show "maps_agree (logged ph p s)" using adoption_okD(1) [OF ok] by (simp add: maps_agree_def)
  show "all_pending_ok x (logged ph p s)"
    using adoption_okD(2) [OF ok] grown_facts(4) [OF g] by (auto simp: all_pending_ok_def)
  show "commits_good (logged ph p s)"
    using adoption_okD(3) [OF ok] grown_facts(5) [OF g] by (auto simp: commits_good_def)
  show "completed_good (logged ph p s)" "used_good (logged ph p s)"
    using adoption_okD(4,5) [OF ok] by (simp_all add: completed_good_def used_good_def)
  show "log_good (logged ph p s)" by (rule log_good_logged [OF adoption_okD(6) [OF ok]])
qed

lemma removed_sel [simp]:
  "co_completedById (removed p s) = co_completedById s" "co_usedAuthorizations (removed p s) = co_usedAuthorizations s"
  "co_commits (removed p s) = co_commits s" "co_issuedIds (removed p s) = co_issuedIds s" "co_eventLog (removed p s) = co_eventLog s"
  "co_eventSequence (removed p s) = co_eventSequence s" "co_requests (removed p s) = co_requests s"
  "co_world (removed p s) = co_world s" "co_sha256 (removed p s) = co_sha256 s"
  "co_reservedAuthorizations (removed p s) = co_reservedAuthorizations s"
  "map_of (co_pendingById (removed p s)) = (map_of (co_pendingById s))(pr_proposalId p := None)"
  by (simp_all add: removed_def)

lemma removed_agree:
  assumes "maps_agree s" "map_of (co_pendingById s) (pr_proposalId p) = Some a" "pa_proposal a = p"
  shows "maps_agree (removed p s)"
proof -
  have "map_of (co_pendingBySession s) (session_of a) = Some (pr_proposalId p)"
    using assms(1,2) unfolding maps_agree_def agree_def by blast
  then have e: "map_of (co_pendingBySession (removed p s)) = (map_of (co_pendingBySession s))(session_of a := None)"
    using assms(3) by (simp add: removed_def session_of_def)
  show ?thesis
    using agree_del [OF assms(1) [unfolded maps_agree_def] assms(2)] unfolding maps_agree_def e removed_sel .
qed

lemma ok_removed:
  assumes ok: "ok_but x s" and a: "map_of (co_pendingById s) (pr_proposalId p) = Some a" "pa_proposal a = p"
  shows "ok_but x (removed p s)"
proof (rule adoption_okI)
  have g: "grown s (removed p s)" by (simp add: grown_def)
  show "maps_agree (removed p s)" by (rule removed_agree [OF adoption_okD(1) [OF ok] a])
  show "all_pending_ok x (removed p s)"
    using adoption_okD(2) [OF ok] grown_facts(4) [OF g] by (auto simp: all_pending_ok_def)
  show "commits_good (removed p s)"
    using adoption_okD(3) [OF ok] grown_facts(5) [OF g] by (auto simp: commits_good_def)
  show "completed_good (removed p s)" "used_good (removed p s)" "log_good (removed p s)"
    using adoption_okD(4,5,6) [OF ok] by (simp_all add: completed_good_def used_good_def log_good_def)
qed

lemma ok_invalid:
  assumes "ok_but x s" "map_of (co_pendingById s) (pr_proposalId p) = Some a" "pa_proposal a = p"
  shows "ok_but x (removed p (logged Failed_phase p s))"
  using assms by (intro ok_removed [where a = a] ok_logged) simp_all

lemma with_pending_sel [simp]:
  "co_completedById (with_pending p s) = co_completedById s" "co_usedAuthorizations (with_pending p s) = co_usedAuthorizations s"
  "co_commits (with_pending p s) = co_commits s" "co_issuedIds (with_pending p s) = co_issuedIds s"
  "co_eventLog (with_pending p s) = co_eventLog s" "co_pendingBySession (with_pending p s) = co_pendingBySession s"
  "co_eventSequence (with_pending p s) = co_eventSequence s" "co_requests (with_pending p s) = co_requests s"
  "co_world (with_pending p s) = co_world s" "co_sha256 (with_pending p s) = co_sha256 s"
  "co_reservedAuthorizations (with_pending p s) = co_reservedAuthorizations s"
  "map_of (co_pendingById (with_pending p s)) = (map_of (co_pendingById s))(pr_proposalId (pa_proposal p) \<mapsto> p)"
  by (simp_all add: with_pending_def)

text \<open>A pending proposal whose progress changes.\<close>

lemma ok_with_pending:
  assumes ok: "ok_but x s" and a: "map_of (co_pendingById s) (pr_proposalId (pa_proposal b)) = Some a"
    and b: "pa_proposal b = pa_proposal a" "x = Some (pr_proposalId (pa_proposal b)) \<or> pending_ok s b"
  shows "ok_but x (with_pending b s)"
proof (rule adoption_okI)
  have g: "grown s (with_pending b s)" by (simp add: grown_def)
  have i: "pr_proposalId (pa_proposal b) \<in> set (co_issuedIds s)" using adoption_okD(2) [OF ok] a unfolding all_pending_ok_def by blast
  show "maps_agree (with_pending b s)"
    unfolding maps_agree_def with_pending_sel
    by (rule agree_put [OF adoption_okD(1) [OF ok, unfolded maps_agree_def] refl, where a = a])
       (use a b(1) in \<open>auto simp: session_of_def\<close>)
  show "all_pending_ok x (with_pending b s)"
    using adoption_okD(2) [OF ok] grown_facts(4) [OF g] b(2) i by (auto simp: all_pending_ok_def)
  show "commits_good (with_pending b s)"
    using adoption_okD(3) [OF ok] grown_facts(5) [OF g] a by (auto simp: commits_good_def)
  show "completed_good (with_pending b s)" "used_good (with_pending b s)" "log_good (with_pending b s)"
    using adoption_okD(4,5,6) [OF ok] by (simp_all add: completed_good_def used_good_def log_good_def)
qed


lemma ok_open: "adoption_ok s \<Longrightarrow> ok_but x s"
  by (auto simp: ok_but_def all_pending_ok_def)

lemma ok_close: "ok_but (Some i) s \<Longrightarrow> (\<And>a. map_of (co_pendingById s) i = Some a \<Longrightarrow> pending_ok s a) \<Longrightarrow> adoption_ok s"
  by (auto simp: ok_but_def all_pending_ok_def)

lemma request_ack_read: "validateAdoptionRequestAck (Some (JObj (adoption_request_ack_json b))) = Inr r \<Longrightarrow> r = b"
  by (cases b) (simp add: validateAdoptionRequestAck_def adoption_request_ack_json_def Let_def result_simps)

text \<open>A proposal that is handed to the runner: it is pending, and it ends.\<close>

lemma ok_committed:
  assumes ok: "adoption_ok s" and a: "map_of (co_pendingById s) (pr_proposalId p) = Some a" "pa_proposal a = p"
    and c: "commit_ok s c" "ci_proposal c = p"
  shows "adoption_ok (removed p (logged ph p (s\<lparr>co_commits := co_commits s @ [c]\<rparr>)))" (is "adoption_ok ?t")
proof (rule adoption_okI)
  let ?u = "removed p (logged ph p s)"
  have e: "?t = ?u\<lparr>co_commits := co_commits s @ [c]\<rparr>" by (simp add: removed_def logged_def)
  have u: "adoption_ok ?u" using a by (intro ok_removed [OF ok_logged [OF ok]]) simp_all
  have i: "ci_id c = pr_proposalId p" by (simp add: ci_id_def c(2))
  have new: "ci_id c \<notin> set (map ci_id (co_commits s))"
    using adoption_okD(3) [OF ok] a(1) i by (auto simp: commits_good_def)
  have iss: "ci_id c \<in> set (co_issuedIds s)" using adoption_okD(2) [OF ok] a(1) i unfolding all_pending_ok_def by simp
  have g: "grown ?u ?t" "grown s ?t" by (simp_all add: e grown_def)
  show "maps_agree ?t" using adoption_okD(1) [OF u] unfolding e maps_agree_def by simp
  show "all_pending_ok None ?t"
    using adoption_okD(2) [OF u] grown_facts(4) [OF g(1)] by (simp add: all_pending_ok_def e)
  show "commits_good ?t"
    using adoption_okD(3) [OF u] grown_facts(5) [OF g(1)] new grown_facts(5) [OF g(2) c(1)] iss i
    by (auto simp: commits_good_def e)
  show "completed_good ?t" "used_good ?t" "log_good ?t"
    using adoption_okD(4,5,6) [OF u] by (auto simp: completed_good_def used_good_def log_good_def e)
qed

end
