(* ===== verification/AdoptionAcknowledging.thy ===== *)
theory AdoptionAcknowledging
  imports AdoptionInvariant
begin

section \<open>Each operation keeps the invariant\<close>

text \<open>
  \<open>from I m Q E\<close>: from every state with \<open>I\<close>, the step \<open>m\<close> ends with \<open>Q\<close> when it returns and with
  \<open>E\<close> when it throws. A quiet step keeps every \<open>I\<close> that does not count calls.
\<close>

definition stable :: "(coordinator \<Rightarrow> bool) \<Rightarrow> bool" where
  "stable I \<longleftrightarrow> (\<forall>s s'. I s \<longrightarrow> calls_only s s' \<longrightarrow> I s')"

definition starting :: "(coordinator \<Rightarrow> bool) \<Rightarrow> 'a ad \<Rightarrow> ('a \<Rightarrow> coordinator \<Rightarrow> bool) \<Rightarrow> (coordinator \<Rightarrow> bool) \<Rightarrow> bool" where
  "starting I m Q E \<longleftrightarrow> (\<forall>s. I s \<longrightarrow> wpE m Q (\<lambda>_. E) s)"

lemma startingD: "starting I m Q E \<Longrightarrow> I s \<Longrightarrow> wpE m Q (\<lambda>_. E) s"
  by (simp add: starting_def)

lemma starting_weaken:
  "starting I m Q E \<Longrightarrow> (\<And>s. I' s \<Longrightarrow> I s) \<Longrightarrow> (\<And>x s. Q x s \<Longrightarrow> Q' x s) \<Longrightarrow> (\<And>s. E s \<Longrightarrow> E' s) \<Longrightarrow> starting I' m Q' E'"
  unfolding starting_def by (blast intro: wpE_mono)

lemma starting_quiet:
  assumes "quiet m P" "stable I" "\<And>s. I s \<Longrightarrow> E s" "\<And>x. P x \<Longrightarrow> starting I (f x) Q E"
  shows "starting I (bindE m f) Q E"
  unfolding starting_def wpE_bind
proof (intro allI impI)
  fix s assume i: "I s"
  have k: "calls_only s s' \<Longrightarrow> I s'" for s' using assms(2) i by (auto simp: stable_def)
  show "wpE m (\<lambda>x. wpE (f x) Q (\<lambda>_. E)) (\<lambda>_. E) s"
    by (rule wpE_mono [OF assms(1) [unfolded quiet_def, rule_format, of s]])
       (use k assms(3,4) in \<open>auto simp: starting_def\<close>)
qed

lemma starting_quiet_then:
  "quiet m P \<Longrightarrow> stable I \<Longrightarrow> (\<And>s. I s \<Longrightarrow> E s) \<Longrightarrow> (\<And>u. P u \<Longrightarrow> starting I n Q E) \<Longrightarrow> starting I (thenE m n) Q E"
  unfolding thenE_def by (rule starting_quiet)

lemma starting_bind: "starting I m (\<lambda>x. J x) E \<Longrightarrow> (\<And>x. starting (J x) (f x) Q E) \<Longrightarrow> starting I (bindE m f) Q E"
  unfolding starting_def wpE_bind by (blast intro: wpE_mono)

lemma starting_then: "starting I m (\<lambda>_. J) E \<Longrightarrow> starting J n Q E \<Longrightarrow> starting I (thenE m n) Q E"
  unfolding thenE_def by (rule starting_bind)

lemma starting_prims:
  "(\<And>s. I s \<Longrightarrow> E s) \<Longrightarrow> starting I (throwE e) Q E" "(\<And>s. I s \<Longrightarrow> Q x s) \<Longrightarrow> starting I (retE x) Q E"
  "(\<And>s. I s \<Longrightarrow> T () (g s)) \<Longrightarrow> starting I (modifyE g) T E"
  "(\<And>s. I s \<Longrightarrow> E (removed p (logged Failed_phase p s))) \<Longrightarrow> starting I (invalidate_and_fail p c) Q E"
  "(\<And>s. I s \<Longrightarrow> T () (logged ph p s)) \<Longrightarrow> starting I (emit_phase ph p) T E"
  "(\<And>s. I s \<Longrightarrow> T () (with_pending a s)) \<Longrightarrow> starting I (put_pending a) T E"
  "(\<And>s. I s \<Longrightarrow> T () (removed p s)) \<Longrightarrow> starting I (removePending p) T E"
  "(\<And>s. I s \<Longrightarrow> T () (removed p (logged Failed_phase p s))) \<Longrightarrow> starting I (invalidate p) T E"
  by (simp_all add: starting_def wpE_simps)

lemma starting_if: "(b \<Longrightarrow> starting I m Q E) \<Longrightarrow> (\<not> b \<Longrightarrow> starting I n Q E) \<Longrightarrow> starting I (if b then m else n) Q E"
  by simp

lemma starting_catch: "starting I m Q F \<Longrightarrow> (\<And>e. starting F (h e) Q E) \<Longrightarrow> starting I (catchE m h) Q E"
  unfolding starting_def wpE_catch by (blast intro: wpE_mono)

lemma starting_get: "(\<And>x. starting (\<lambda>s. I s \<and> g s = x) (f x) Q E) \<Longrightarrow> starting I (bindE (getE g) f) Q E"
  unfolding starting_def wpE_bind by (simp add: wpE_simps)

lemma keeps_starting: "keepsE I m \<Longrightarrow> starting I m (\<lambda>_. I) I"
  by (simp add: starting_def keepsE_def)

subsection \<open>Steps that keep it in every state\<close>

lemma stable_ok: "stable (ok_but x)"
  unfolding stable_def using ok_calls by blast

lemma grown_keeps: "(\<And>s. books (g s) = books s \<and> grown s (g s)) \<Longrightarrow> keepsE (ok_but x) (modifyE g)"
  by (rule keepsE_modify) (blast intro: ok_grown)

lemma quiet_keeps: "quiet m P \<Longrightarrow> stable I \<Longrightarrow> keepsE I m"
  unfolding quiet_def stable_def keepsE_def by (blast intro: wpE_mono)

lemma ask_keeps: "stable I \<Longrightarrow> keepsE I (ask f)"
  by (rule quiet_keeps [OF quiet_prims(1)])

lemma issueId_keeps: "keepsE (ok_but x) (issueId t)"
  unfolding issueId_def
  by (intro keepsE_intros ask_keeps stable_ok grown_keeps) (auto simp: books_def grown_def)

lemma send_keeps: "(\<And>s. books (g s) = books s \<and> grown s (g s)) \<Longrightarrow> keepsE (ok_but x) (send_or_throw g)"
  unfolding send_or_throw_def by (intro keepsE_intros ask_keeps stable_ok grown_keeps)

lemma sendCommitted_keeps: "keepsE (ok_but x) (sendCommitted d)"
  unfolding sendCommitted_def Let_def
  by (intro keepsE_intros send_keeps issueId_keeps)
     (auto intro!: keepsE_intros send_keeps issueId_keeps simp: books_def grown_def split: option.split)

lemma map_of_map_entry: "map_of (map (\<lambda>(j, d). (j, if j = i then f d else d)) m) k = map_option (\<lambda>d. if k = i then f d else d) (map_of m k)"
  by (induction m) auto

lemma change_completed_keeps:
  "(\<And>d. cd_proposal (f d) = cd_proposal d \<and> cd_acknowledgement (f d) = cd_acknowledgement d) \<Longrightarrow> keepsE (ok_but x) (change_completed i f)"
  unfolding change_completed_def
proof (rule keepsE_modify)
  fix s
  assume f: "\<And>d. cd_proposal (f d) = cd_proposal d \<and> cd_acknowledgement (f d) = cd_acknowledgement d" and ok: "ok_but x s"
  let ?t = "s\<lparr>co_completedById := map (\<lambda>(j, d). (j, if j = i then f d else d)) (co_completedById s)\<rparr>"
  have g: "grown s ?t" by (simp add: grown_def)
  have k: "map fst (map (\<lambda>(j, d). (j, if j = i then f d else d)) (co_completedById s)) = map fst (co_completedById s)"
    by (simp add: comp_def split_def)
  have sc: "co_completedById ?t = map (\<lambda>(j, d). (j, if j = i then f d else d)) (co_completedById s)" "co_commits ?t = co_commits s"
    by simp_all
  have same: "\<exists>d. map_of (co_completedById s) j = Some d \<and> cd_proposal z = cd_proposal d \<and> cd_acknowledgement z = cd_acknowledgement d"
    if "map_of (co_completedById ?t) j = Some z" for j z
    using that unfolding sc map_of_map_entry by (auto simp: f split: if_splits)
  show "ok_but x ?t"
  proof (rule adoption_okI)
    show "maps_agree ?t" "used_good ?t" "log_good ?t"
      using adoption_okD(1,5,6) [OF ok] by (simp_all add: maps_agree_def used_good_def log_good_def)
    show "all_pending_ok x ?t" using adoption_okD(2) [OF ok] grown_facts(4) [OF g] by (auto simp: all_pending_ok_def)
    show "commits_good ?t" using adoption_okD(3) [OF ok] grown_facts(5) [OF g] by (auto simp: commits_good_def)
    show "completed_good ?t"
      unfolding completed_good_def
    proof (intro conjI allI impI)
      have c: "length (co_completedById s) \<le> ADOPTION_IDEMPOTENCY_LIMIT" "distinct (map fst (co_completedById s))"
        "\<And>i d. map_of (co_completedById s) i = Some d \<Longrightarrow> i = pr_proposalId (cd_proposal d) \<and> list_ex (kept_for d) (co_commits s)"
        using adoption_okD(4) [OF ok] by (simp_all add: completed_good_def)
      show "length (co_completedById ?t) \<le> ADOPTION_IDEMPOTENCY_LIMIT" unfolding sc length_map by (rule c(1))
      show "distinct (map fst (co_completedById ?t))" unfolding sc k by (rule c(2))
      fix j z assume "map_of (co_completedById ?t) j = Some z"
      from same [OF this] obtain d where "map_of (co_completedById s) j = Some d" "cd_proposal z = cd_proposal d" "cd_acknowledgement z = cd_acknowledgement d" by blast
      then show "j = pr_proposalId (cd_proposal z)" "list_ex (kept_for z) (co_commits ?t)" unfolding sc(2)
        using c(3) by (auto simp: kept_for_def list_ex_iff)
    qed
  qed
qed

lemma deliver_keeps: "keepsE (ok_but x) (deliverCompleted d)"
  unfolding deliverCompleted_def Let_def
  by (intro keepsE_intros ask_keeps stable_ok sendCommitted_keeps change_completed_keeps grown_keeps)
     (simp_all add: books_def grown_def)

lemma tl_subset: "set (tl xs) \<subseteq> set xs"
  by (cases xs) auto

lemma distinct_map_tl: "distinct (map f xs) \<Longrightarrow> distinct (map f (tl xs))"
  by (cases xs) auto

lemma map_of_tl: "distinct (map fst m) \<Longrightarrow> map_of (tl m) i = Some d \<Longrightarrow> map_of m i = Some d"
  by (cases m) (auto dest: map_of_SomeD split: if_splits intro: rev_image_eqI)

definition with_completed :: "completed_adoption \<Rightarrow> coordinator \<Rightarrow> coordinator" where
  "with_completed d s = (let i = pr_proposalId (cd_proposal d); m = co_completedById s in
     if map_of m i \<noteq> None then s
     else s\<lparr>co_completedById := (if ADOPTION_IDEMPOTENCY_LIMIT \<le> length m then tl m else m) @ [(i, d)]\<rparr>)"

lemma completed_good_more:
  assumes g: "completed_good s" and c: "list_ex (kept_for d) (co_commits s)"
  shows "completed_good (with_completed d s)"
proof (cases "map_of (co_completedById s) (pr_proposalId (cd_proposal d))")
  case None
  let ?m = "co_completedById s" and ?i = "pr_proposalId (cd_proposal d)"
  define k where "k = (if ADOPTION_IDEMPOTENCY_LIMIT \<le> length ?m then tl ?m else ?m)"
  have e: "with_completed d s = s\<lparr>co_completedById := k @ [(?i, d)]\<rparr>"
    using None by (simp add: with_completed_def k_def)
  have m: "length ?m \<le> ADOPTION_IDEMPOTENCY_LIMIT" "distinct (map fst ?m)"
    "\<And>i d. map_of ?m i = Some d \<Longrightarrow> i = pr_proposalId (cd_proposal d) \<and> list_ex (kept_for d) (co_commits s)"
    using g by (simp_all add: completed_good_def)
  have l: "length k < ADOPTION_IDEMPOTENCY_LIMIT"
    using m(1) by (cases ?m) (auto simp: k_def ADOPTION_IDEMPOTENCY_LIMIT_def)
  have sub: "map_of k i = Some x \<Longrightarrow> map_of ?m i = Some x" for i x using map_of_tl [OF m(2)] by (simp add: k_def split: if_splits)
  have dk: "distinct (map fst k)" using m(2) distinct_map_tl [OF m(2)] by (simp add: k_def)
  have nk: "map_of k ?i = None" using sub None by (cases "map_of k ?i") auto
  show ?thesis
    unfolding completed_good_def e
    using l dk nk sub m(3) c by (auto simp: map_of_eq_None_iff map_add_def split: option.splits; blast)
qed (use g in \<open>simp add: with_completed_def\<close>)

lemma ok_completed:
  assumes ok: "ok_but x s" and c: "list_ex (kept_for d) (co_commits s)"
  shows "ok_but x (with_completed d s)"
proof (rule adoption_okI)
  have g: "grown s (with_completed d s)" by (simp add: grown_def with_completed_def Let_def)
  have e: "co_pendingBySession (with_completed d s) = co_pendingBySession s" "co_pendingById (with_completed d s) = co_pendingById s"
    "co_issuedIds (with_completed d s) = co_issuedIds s" "co_commits (with_completed d s) = co_commits s"
    "co_usedAuthorizations (with_completed d s) = co_usedAuthorizations s" "co_eventLog (with_completed d s) = co_eventLog s"
    "co_eventSequence (with_completed d s) = co_eventSequence s"
    by (simp_all add: with_completed_def Let_def)
  show "maps_agree (with_completed d s)" "used_good (with_completed d s)" "log_good (with_completed d s)"
    using adoption_okD(1,5,6) [OF ok] by (simp_all add: maps_agree_def used_good_def log_good_def e)
  show "all_pending_ok x (with_completed d s)"
    using adoption_okD(2) [OF ok] grown_facts(4) [OF g] unfolding all_pending_ok_def e by blast
  show "commits_good (with_completed d s)"
    using adoption_okD(3) [OF ok] grown_facts(5) [OF g] unfolding commits_good_def e by blast
  show "completed_good (with_completed d s)" by (rule completed_good_more [OF adoption_okD(4) [OF ok] c])
qed

lemma remember_authorization_keeps: "keepsE (ok_but x) (rememberAuthorization i)"
  unfolding rememberAuthorization_def
proof (rule keepsE_modify)
  fix s
  assume ok: "ok_but x s"
  let ?u = "co_usedAuthorizations s"
  define k where "k = (if ADOPTION_IDEMPOTENCY_LIMIT \<le> length ?u then tl ?u else ?u)"
  let ?t = "s\<lparr>co_usedAuthorizations := k @ [i]\<rparr>"
  show "ok_but x (let used = ?u in if i \<in> set used then s
       else s\<lparr>co_usedAuthorizations := (if ADOPTION_IDEMPOTENCY_LIMIT \<le> length used then tl used else used) @ [i]\<rparr>)"
  proof (cases "i \<in> set ?u")
    case False
    have u: "distinct ?u" "length ?u \<le> ADOPTION_IDEMPOTENCY_LIMIT" using adoption_okD(5) [OF ok] by (simp_all add: used_good_def)
    have l: "length k < ADOPTION_IDEMPOTENCY_LIMIT" using u(2) by (cases ?u) (auto simp: k_def ADOPTION_IDEMPOTENCY_LIMIT_def)
    have sub: "set k \<subseteq> set ?u" using tl_subset [of ?u] by (auto simp: k_def)
    have dk: "distinct k" using u(1) distinct_tl [OF u(1)] by (simp add: k_def)
    have g: "grown s ?t" by (simp add: grown_def)
    have "ok_but x ?t"
    proof (rule adoption_okI)
      show "maps_agree ?t" "completed_good ?t" "log_good ?t"
        using adoption_okD(1,4,6) [OF ok] by (simp_all add: maps_agree_def completed_good_def log_good_def)
      show "all_pending_ok x ?t" using adoption_okD(2) [OF ok] grown_facts(4) [OF g] by (auto simp: all_pending_ok_def)
      show "commits_good ?t" using adoption_okD(3) [OF ok] grown_facts(5) [OF g] by (auto simp: commits_good_def)
      show "used_good ?t" using l sub dk False by (auto simp: used_good_def)
    qed
    then show ?thesis using False by (simp add: k_def Let_def)
  qed (simp add: ok)
qed


subsection \<open>An acknowledgement\<close>

definition pid :: "pending_adoption \<Rightarrow> jstr" where "pid a = pr_proposalId (pa_proposal a)"

definition here :: "pending_adoption \<Rightarrow> coordinator \<Rightarrow> bool" where
  "here a s \<longleftrightarrow> adoption_ok s \<and> map_of (co_pendingById s) (pid a) = Some a"

definition ended :: "pending_adoption \<Rightarrow> coordinator \<Rightarrow> bool" where
  "ended a s \<longleftrightarrow> adoption_ok s \<and> map_of (co_pendingById s) (pid a) = None"

definition advanced :: "pending_adoption \<Rightarrow> coordinator \<Rightarrow> bool" where
  "advanced a s \<longleftrightarrow> adoption_ok s \<and> (\<forall>b. map_of (co_pendingById s) (pid a) = Some b \<longrightarrow>
     pa_proposal b = pa_proposal a \<and> (pa_phase a \<noteq> Proposed \<longrightarrow> pa_phase b \<noteq> Proposed))"

lemma here_advanced: "here a s \<Longrightarrow> advanced a s" and ended_advanced: "ended a s \<Longrightarrow> advanced a s"
  and here_ok: "here a s \<Longrightarrow> adoption_ok s" and ended_ok: "ended a s \<Longrightarrow> adoption_ok s"
  by (simp_all add: here_def ended_def advanced_def)

lemma stable_here: "stable (here a)"
  unfolding stable_def here_def by (metis ok_calls pending_calls)

lemma here_pending: "here a s \<Longrightarrow> pending_ok s a"
  using adoption_okD(2) [of None s] by (auto simp: here_def all_pending_ok_def)

lemma here_ends: "here a s \<Longrightarrow> ended a (removed (pa_proposal a) (logged Failed_phase (pa_proposal a) s))"
  unfolding here_def ended_def pid_def using ok_invalid [of None s "pa_proposal a" a] by simp

lemma here_logged: "here a s \<Longrightarrow> here a (logged ph p s)"
  using ok_logged by (simp add: here_def)

lemma here_put: "here a s \<Longrightarrow> pa_proposal b = pa_proposal a \<Longrightarrow> pending_ok s b \<Longrightarrow> here b (with_pending b s)"
  using ok_with_pending [of None s b a] by (simp add: here_def pid_def)

lemma keepsE_conj: "keepsE I m \<Longrightarrow> keepsE J m \<Longrightarrow> keepsE (\<lambda>s. I s \<and> J s) m"
  unfolding keepsE_def by (auto intro: wpE_conj)

lemma issueId_pending: "keepsE (\<lambda>s. P (co_pendingById s)) (issueId t)"
  unfolding issueId_def by (intro keepsE_intros keepsE_modify ask_keeps) (auto simp: stable_def pending_calls)

lemma deliver_pending: "keepsE (\<lambda>s. P (co_pendingById s)) (deliverCompleted d)"
proof -
  have st: "stable (\<lambda>s. P (co_pendingById s))" by (auto simp: stable_def pending_calls)
  show ?thesis
    unfolding deliverCompleted_def sendCommitted_def send_or_throw_def change_completed_def Let_def
    by (intro keepsE_intros keepsE_modify ask_keeps [OF st])
       (auto intro!: keepsE_intros keepsE_modify ask_keeps [OF st] issueId_pending split: option.split)
qed

lemma deliver_ended: "keepsE (ended a) (deliverCompleted d)"
  using keepsE_conj [OF deliver_keeps [of None d] deliver_pending [of "\<lambda>m. map_of m (pid a) = None"]]
  by (simp add: ended_def [abs_def])

lemma assertProposalLive_starting: "starting (here a) (assertProposalLive (pa_proposal a)) (\<lambda>_. here a) (ended a)"
  unfolding starting_def assertProposalLive_def wpE_bind wpE_ask
proof (intro allI impI)
  fix s assume h: "here a s"
  let ?t = "s\<lparr>co_calls := Suc (co_calls s)\<rparr>"
  have t: "here a ?t" using stable_here h by (auto simp: stable_def calls_only_def)
  show "wpE (if pr_expiresMonotonic (pa_proposal a) \<le> pw_now (co_world s (co_calls s))
             then invalidate_and_fail (pa_proposal a) Proposal_expired else retE ()) (\<lambda>_. here a) (\<lambda>_. ended a) ?t"
    using t here_ends [OF t] by (simp add: wpE_simps)
qed


lemma commit_checked_starting:
  assumes p: "ci_proposal c = pa_proposal a"
  shows "starting (\<lambda>s. here a s \<and> commit_ok s c) (commit_checked a c) (\<lambda>_. ended a) (advanced a)"
proof -
  let ?p = "pa_proposal a"
  let ?I = "\<lambda>s. here a s \<and> commit_ok s c"
  let ?given = "\<lambda>s. s\<lparr>co_commits := co_commits s @ [c]\<rparr>"
  have st: "stable ?I"
    unfolding stable_def
  proof (intro allI impI conjI)
    fix s s' assume i: "?I s" and q: "calls_only s s'"
    show "here a s'" using i q stable_here by (auto simp: stable_def)
    have "grown s s'" using q by (auto elim!: calls_onlyE simp: grown_def)
    then show "commit_ok s' c" using i grown_facts(5) by blast
  qed
  have e: "ended a (removed ?p (logged ph ?p (?given s)))" if "?I s" for s ph
    using that ok_committed [of s ?p a c ph] p by (simp add: here_def ended_def pid_def)
  define J where "J = (\<lambda>s. \<exists>s0. ?I s0 \<and> s = ?given s0)"
  have j: "ended a (removed ?p (logged ph ?p s))" if "J s" for s ph using that e unfolding J_def by blast
  define K where "K = (\<lambda>s. \<exists>s0. J s0 \<and> s = logged Committed ?p s0)"
  define L where "L = (\<lambda>s. ended a s \<and> c \<in> set (co_commits s))"
  have l: "L (removed ?p s)" if "K s" for s
    using that j p unfolding K_def L_def J_def by (auto simp: ci_id_def pid_def)
  have finish: "starting L (rememberCompleted d) (\<lambda>_. ended a) (advanced a)" if "kept_for d c" for d
    unfolding starting_def
  proof (intro allI impI)
    fix s assume "L s"
    then have "ok_but None (with_completed d s)" "map_of (co_pendingById s) (pid a) = None"
      using ok_completed [of None s d] that by (auto simp: L_def ended_def list_ex_iff)
    then have "ended a (with_completed d s)" by (simp add: ended_def with_completed_def Let_def)
    then show "wpE (rememberCompleted d) (\<lambda>_. ended a) (\<lambda>_. advanced a) s"
      by (simp add: rememberCompleted_def wpE_simps with_completed_def)
  qed
  show ?thesis
    unfolding commit_checked_def Let_def
    apply (rule starting_quiet [OF quiet_prims(1) st])
     apply (simp add: here_advanced)
    apply (rule starting_then [where J = J])
     apply (rule starting_prims(3), unfold J_def, blast)
    apply (fold J_def)
    subgoal for answer
    proof (cases answer)
      case (Inl x)
      then show ?thesis by (simp add: starting_prims(4) j ended_advanced)
    next
      case (Inr v)
      show ?thesis
      proof (cases "normalizeCommittedResult v ?p")
        case (Inl x)
        have "starting J (thenE (invalidate ?p) (throwE x)) (\<lambda>_. ended a) (advanced a)"
          by (rule starting_then [where J = "ended a"]) (simp_all add: starting_prims(1,8) j ended_advanced)
        then show ?thesis by (simp add: \<open>answer = Inr v\<close> Inl)
      next
        case (Inr r)
        obtain committed identity where r: "r = (committed, identity)" by (cases r)
        have "starting J (thenE (emit_phase Committed ?p) (thenE (removePending ?p) (thenE (rememberCompleted d)
            (thenE (deliverCompleted d) (retE r))))) (\<lambda>_. ended a) (advanced a)"
          if "kept_for d c" for d
          apply (rule starting_then [where J = K], rule starting_prims(5), unfold K_def, blast)
          apply (fold K_def, rule starting_then [where J = L], rule starting_prims(7), rule l, assumption)
          apply (rule starting_then [OF finish [OF that]])
          apply (rule starting_then [where J = "ended a"])
           apply (rule starting_weaken [OF keeps_starting [OF deliver_ended]])
             apply (assumption, assumption, erule ended_advanced)
          apply (rule starting_prims(2), assumption)
          done
        note each = this
        show ?thesis by (simp add: \<open>answer = Inr v\<close> Inr r) (rule each [unfolded r], simp add: kept_for_def p)
      qed
    qed
    done
qed

definition acked :: "pending_adoption \<Rightarrow> adoption_ack \<Rightarrow> bool" where
  "acked a ack \<longleftrightarrow>
     pa_acknowledgement a = Some ack \<and> acknowledgement_matches (pa_proposal a) ack \<and> ak_decision ack \<noteq> Refused \<and>
     ak_activity ack = Idle_activity \<and> pa_reconciliation a = Some (ak_sourceSequence ack) \<and> pa_ackRequest a \<noteq> None"

lemma commit_ok_now:
  assumes "here a s" "acked a ack" "pa_authorization a = Some auth" "still_current a record (ak_sourceSequence ack)"
    "eligible record (pr_target (pa_proposal a))"
  shows "commit_ok s \<lparr>ci_proposal = pa_proposal a, ci_authorization = auth, ci_acknowledgement = ack,
           ci_observed = record, ci_reconciliation = ak_sourceSequence ack\<rparr>"
  using assms here_pending [OF assms(1)]
  by (simp add: commit_ok_def acked_def still_current_def pending_ok_def)

lemma quiet_here:
  "quiet m P \<Longrightarrow> (\<And>x. P x \<Longrightarrow> starting (here a) (f x) Q (advanced a)) \<Longrightarrow> starting (here a) (bindE m f) Q (advanced a)"
  "quiet n R \<Longrightarrow> (\<And>u. R u \<Longrightarrow> starting (here a) k Q (advanced a)) \<Longrightarrow> starting (here a) (thenE n k) Q (advanced a)"
proof -
  show "quiet m P \<Longrightarrow> (\<And>x. P x \<Longrightarrow> starting (here a) (f x) Q (advanced a)) \<Longrightarrow> starting (here a) (bindE m f) Q (advanced a)"
    by (rule starting_quiet [OF _ stable_here here_advanced])
  show "quiet n R \<Longrightarrow> (\<And>u. R u \<Longrightarrow> starting (here a) k Q (advanced a)) \<Longrightarrow> starting (here a) (thenE n k) Q (advanced a)"
    by (rule starting_quiet_then [OF _ stable_here here_advanced])
qed

lemma fail_here: "starting (here a) (invalidate_and_fail (pa_proposal a) c) Q (advanced a)"
  by (rule starting_prims(4)) (blast intro: here_ends ended_advanced)

lemma commit_starting:
  assumes k: "acked a ack"
  shows "starting (here a) (commit a) (\<lambda>_. ended a) (advanced a)"
proof -
  note fail = fail_here and quiet = quiet_here and h = here_advanced
  show ?thesis
    unfolding commit_def Let_def
    apply (rule quiet(1) [OF quiet_currentObserved])
    apply (rule starting_if, rule fail)
    subgoal for current
    proof (cases "pa_authorization a")
      case None
      then show ?thesis by (simp add: starting_prims(1) h)
    next
      case (Some auth)
      have a: "pa_acknowledgement a = Some ack" "pa_reconciliation a = Some (ak_sourceSequence ack)" using k by (simp_all add: acked_def)
      show ?thesis
        unfolding Some a prod.case option.case
        apply (rule quiet(1) [OF quiet_currentObserved])
        subgoal for latest
        proof (cases latest)
          case None
          then show ?thesis by (simp add: fail)
        next
          case (Some obs)
          show ?thesis
            unfolding Some option.case
            apply (rule quiet(2) [OF quiet_still_current])
            apply (rule quiet(2) [OF quiet_eligibility])
            apply (rule quiet(1) [OF quiet_prims(1)])
            apply (rule starting_if, rule fail)
            apply (rule starting_if, rule fail)
            apply (rule starting_weaken [OF commit_checked_starting])
               apply simp
              apply (simp add: commit_ok_now [OF _ k \<open>pa_authorization a = Some auth\<close>])
             apply assumption
            apply assumption
            done
        qed
        done
    qed
    done
qed


lemma with_same_proposal:
  assumes "pa_proposal b = pa_proposal a"
  shows "pid b = pid a" "ended b = ended a" "(pa_phase b \<noteq> Proposed \<Longrightarrow> advanced b s \<Longrightarrow> advanced a s)"
proof -
  show i: "pid b = pid a" unfolding pid_def assms ..
  then show "ended b = ended a" unfolding ended_def [abs_def] by simp
  show "pa_phase b \<noteq> Proposed \<Longrightarrow> advanced b s \<Longrightarrow> advanced a s" unfolding advanced_def i assms by blast
qed

lemma advancedD:
  "advanced a s \<Longrightarrow> adoption_ok s"
  "advanced a s \<Longrightarrow> map_of (co_pendingById s) (pid a) = Some b \<Longrightarrow> pa_proposal b = pa_proposal a"
  "advanced a s \<Longrightarrow> map_of (co_pendingById s) (pid a) = Some b \<Longrightarrow> pa_phase a \<noteq> Proposed \<Longrightarrow> pa_phase b \<noteq> Proposed"
  unfolding advanced_def by blast+

lemma advanced_ends:
  "advanced a s \<Longrightarrow> map_of (co_pendingById s) (pid a) = Some b \<Longrightarrow>
   ended a (removed (pa_proposal a) (logged Failed_phase (pa_proposal a) s))"
proof -
  assume a: "advanced a s" and b: "map_of (co_pendingById s) (pid a) = Some b"
  note p = advancedD(2) [OF a b]
  have "here b s" unfolding here_def with_same_proposal(1) [OF p] using advancedD(1) [OF a] b by blast
  from here_ends [OF this] show ?thesis unfolding p with_same_proposal(2) [OF p] .
qed

lemma put_here:
  assumes b: "pa_proposal b = pa_proposal a" "\<And>s. pending_ok s a \<Longrightarrow> pending_ok s b" "pa_phase b \<noteq> Proposed"
    and rest: "starting (here b) m (\<lambda>_. ended b) (advanced b)"
  shows "starting (here a) (thenE (put_pending b) (thenE (emit_phase ph p) m)) (\<lambda>_. ended a) (advanced a)"
proof (rule starting_then [where J = "here b"])
  show "starting (here a) (put_pending b) (\<lambda>_. here b) (advanced a)"
    by (rule starting_prims(6)) (blast intro: here_put b here_pending)
  show "starting (here b) (thenE (emit_phase ph p) m) (\<lambda>_. ended a) (advanced a)"
  proof (rule starting_then [where J = "here b"])
    show "starting (here b) (emit_phase ph p) (\<lambda>_. here b) (advanced a)" by (rule starting_prims(5)) (rule here_logged)
    show "starting (here b) m (\<lambda>_. ended a) (advanced a)"
      by (rule starting_weaken [OF rest]) (simp_all add: with_same_proposal [OF b(1)] b(3))
  qed
qed

lemma reconciliation_idle: "assertReconciliationActivity x = Inr () \<Longrightarrow> x = Idle_activity"
  by (cases x) simp_all

lemma acknowledge_pending_starting: "starting (here a) (acknowledge_pending a transport ack) (\<lambda>_. ended a) (advanced a)"
proof -
  note fail = fail_here and quiet = quiet_here
  have live: "starting (here a) (thenE (assertProposalLive (pa_proposal a)) m) Q (advanced a)"
    if "starting (here a) m Q (advanced a)" for m :: "'b ad" and Q
    by (rule starting_then [OF _ that], rule starting_weaken [OF assertProposalLive_starting])
       (assumption, assumption, erule ended_advanced)
  have required: "starting (here a) (fail_ad Authorization_required) (\<lambda>_. ended a) (advanced a)"
    by (rule starting_prims(1)) (rule here_advanced)
  show ?thesis
  proof (cases "\<exists>r t. pa_phase a = Authorized \<and> pa_ackRequest a = Some r \<and> pa_deadline a = Some t")
    case False
    then have z: "(case (pa_phase a, pa_ackRequest a, pa_deadline a) of (Authorized, Some r, Some t) \<Rightarrow> f r t | _ \<Rightarrow> z) = z" for f z
      by (auto split: adoption_phase.split option.split)
    show ?thesis unfolding acknowledge_pending_def Let_def z by (rule live [OF required])
  next
    case True
    then obtain r t where a: "pa_phase a = Authorized" "pa_ackRequest a = Some r" "pa_deadline a = Some t" by blast
    show ?thesis
      unfolding acknowledge_pending_def Let_def a prod.case adoption_phase.case option.case
      apply (rule live, rule starting_if, rule fail)
      apply (rule quiet(1) [OF quiet_prims(1)])
      apply (rule starting_if, rule fail)
      apply (rule quiet(2) [OF quiet_prims(5)])
      apply (rule quiet(1) [OF quiet_currentObserved])
      subgoal for now u current
      proof (cases current)
        case None
        then show ?thesis by (simp add: fail)
      next
        case (Some obs)
        assume m: "assertAcknowledgementMatches (pa_proposal a) ack = Inr u"
        show ?thesis
          unfolding Some option.case
          apply (rule quiet(2) [OF quiet_still_current])
          apply (rule starting_if, rule fail)
          apply (rule quiet(2) [OF quiet_prims(5)])
          apply (rule quiet(2) [OF quiet_eligibility])
          apply (rule put_here)
             apply (simp_all add: pending_ok_def)
          apply (rule put_here)
             apply (simp_all add: pending_ok_def)
          apply (rule commit_starting [of _ ack])
          using m a apply (simp add: acked_def assertAcknowledgementMatches_def result_simps reconciliation_idle)
          done
      qed
      done
  qed
qed

lemma end_if_pending_starting:
  "starting (advanced a) (end_if_pending (pa_proposal a))
     (\<lambda>_ s. adoption_ok s \<and> (pa_phase a \<noteq> Proposed \<longrightarrow> map_of (co_pendingById s) (pid a) = None)) E"
  unfolding end_if_pending_def
proof (rule starting_get)
  fix x
  let ?i = "pid a" and ?p = "pa_proposal a"
  show "starting (\<lambda>s. advanced a s \<and> map_of (co_pendingById s) (pr_proposalId ?p) = x)
     (case x of None \<Rightarrow> retE () | Some b \<Rightarrow> if pa_phase b \<noteq> Proposed then invalidate ?p else retE ())
     (\<lambda>_ s. adoption_ok s \<and> (pa_phase a \<noteq> Proposed \<longrightarrow> map_of (co_pendingById s) ?i = None)) E"
  proof (cases x)
    case None
    then show ?thesis using advancedD(1) by (auto simp: starting_def wpE_simps pid_def)
  next
    case (Some b)
    show ?thesis
    proof (cases "pa_phase b = Proposed")
      case True
      then show ?thesis using Some advancedD(1) advancedD(3) [of a _ b] by (auto simp: starting_def wpE_simps pid_def)
    next
      case False
      then show ?thesis using Some advanced_ends [of a _ b] by (auto simp: starting_def wpE_simps ended_def pid_def)
    qed
  qed
qed

text \<open>What a call does once its proposal is found.\<close>

lemma answer_starting:
  "starting (here a) (catchE (acknowledge_pending a transport ack) (\<lambda>e. thenE (end_if_pending (pa_proposal a)) (throwE e)))
     (\<lambda>_. ended a) (\<lambda>s. adoption_ok s \<and> (pa_phase a \<noteq> Proposed \<longrightarrow> map_of (co_pendingById s) (pid a) = None))"
  by (rule starting_catch [OF acknowledge_pending_starting], rule starting_then [OF end_if_pending_starting],
      rule starting_prims(1), assumption)

end
