(* ===== verification/AdoptionAuthorizing.thy ===== *)
theory AdoptionAuthorizing
  imports AdoptionAcknowledging
begin

lemma stable_proj: "stable (\<lambda>s. adoption_ok s \<and> P (co_pendingById s) (co_pendingBySession s) (co_issuedIds s) (co_commits s))"
  unfolding stable_def
proof (intro allI impI)
  fix s s' assume s: "adoption_ok s \<and> P (co_pendingById s) (co_pendingBySession s) (co_issuedIds s) (co_commits s)" and q: "calls_only s s'"
  then obtain n where "s' = s\<lparr>co_calls := n\<rparr>" by (auto elim!: calls_onlyE)
  then show "adoption_ok s' \<and> P (co_pendingById s') (co_pendingBySession s') (co_issuedIds s') (co_commits s')"
    using s ok_calls [OF _ q, of None] by simp
qed

lemma starting_keeps: "starting I m (\<lambda>_. I) I \<Longrightarrow> keepsE I m"
  by (simp add: starting_def keepsE_def)

lemma starting_pre: "starting I m Q E \<Longrightarrow> (\<And>s. I' s \<Longrightarrow> I s) \<Longrightarrow> starting I' m Q E"
  by (simp add: starting_def)

lemma pending_here: "adoption_ok s \<Longrightarrow> map_of (co_pendingById s) i = Some a \<Longrightarrow> i = pid a \<and> here a s"
  using adoption_okD(1) [of None s] by (auto simp: maps_agree_def agree_def here_def pid_def)

lemma accept_keeps: "keepsE adoption_ok (acceptAcknowledgement transport input)"
proof (rule starting_keeps, unfold acceptAcknowledgement_def, rule starting_quiet [OF quiet_prims(5) stable_ok])
  show "adoption_ok s \<Longrightarrow> adoption_ok s" for s .
  fix ack
  have retry: "starting adoption_ok (thenE (liftE r) (thenE (deliverCompleted d) (retE y))) (\<lambda>_. adoption_ok) adoption_ok" for r d y
    by (rule keeps_starting) (intro keepsE_intros deliver_keeps)
  have found: "starting (\<lambda>s. adoption_ok s \<and> map_of (co_pendingById s) (ak_proposalId ack) = Some a)
      (catchE (acknowledge_pending a transport ack) (\<lambda>e. thenE (end_if_pending (pa_proposal a)) (throwE e))) (\<lambda>_. adoption_ok) adoption_ok" for a
    by (rule starting_weaken [OF answer_starting]) (auto dest: pending_here ended_ok)
  show "starting adoption_ok (bindE (getE (\<lambda>s. map_of (co_completedById s) (ak_proposalId ack))) (\<lambda>done.
     case done of
       Some d \<Rightarrow> thenE (liftE (assertCompletedRetry d transport ack)) (thenE (deliverCompleted d) (retE (cd_result d, cd_identity d)))
     | None \<Rightarrow>
         bindE (getE (\<lambda>s. map_of (co_pendingById s) (ak_proposalId ack))) (\<lambda>pending.
         case pending of
           None \<Rightarrow> fail_ad Proposal_not_found
         | Some a \<Rightarrow> catchE (acknowledge_pending a transport ack) (\<lambda>e. thenE (end_if_pending (pa_proposal a)) (throwE e)))))
     (\<lambda>_. adoption_ok) adoption_ok"
  proof (rule starting_get)
    fix completed
    let ?I = "\<lambda>s. adoption_ok s \<and> map_of (co_completedById s) (ak_proposalId ack) = completed"
    have "starting adoption_ok (bindE (getE (\<lambda>s. map_of (co_pendingById s) (ak_proposalId ack))) (\<lambda>pending.
         case pending of
           None \<Rightarrow> fail_ad Proposal_not_found
         | Some a \<Rightarrow> catchE (acknowledge_pending a transport ack) (\<lambda>e. thenE (end_if_pending (pa_proposal a)) (throwE e))))
       (\<lambda>_. adoption_ok) adoption_ok"
      by (rule starting_get) (auto split: option.split intro: found starting_prims(1))
    then show "starting ?I (case completed of
       Some d \<Rightarrow> thenE (liftE (assertCompletedRetry d transport ack)) (thenE (deliverCompleted d) (retE (cd_result d, cd_identity d)))
     | None \<Rightarrow>
         bindE (getE (\<lambda>s. map_of (co_pendingById s) (ak_proposalId ack))) (\<lambda>pending.
         case pending of
           None \<Rightarrow> fail_ad Proposal_not_found
         | Some a \<Rightarrow> catchE (acknowledge_pending a transport ack) (\<lambda>e. thenE (end_if_pending (pa_proposal a)) (throwE e))))
      (\<lambda>_. adoption_ok) adoption_ok"
      by (cases completed; simp only: option.case) (rule starting_pre, assumption, simp, rule starting_pre [OF retry], simp)
  qed
qed

subsection \<open>An authorization\<close>

lemma reserve_keeps:
  "keepsE (ok_but x) (modifyE (\<lambda>s. s\<lparr>co_reservedAuthorizations := f (co_reservedAuthorizations s)\<rparr>))"
  by (rule grown_keeps) (simp add: books_def grown_def)

text \<open>The request is sent while its proposal is already marked as authorized.\<close>

definition granted :: "pending_adoption \<Rightarrow> adoption_authorization \<Rightarrow> (jstr \<rightharpoonup> pending_adoption) \<Rightarrow>
    (nat \<Rightarrow> port_world) \<Rightarrow> (jstr \<Rightarrow> jstr) \<Rightarrow> bool" where
  "granted a auth m w h \<longleftrightarrow> m (pid a) = Some a \<and> authorization_matches (pa_proposal a) auth \<and>
     (\<exists>n. pw_verify (w n) (pa_proposal a) auth = Inr True) \<and> pr_proposalDigest (pa_proposal a) = h (proposal_text (pa_proposal a))"

definition is_granted :: "pending_adoption \<Rightarrow> adoption_authorization \<Rightarrow> coordinator \<Rightarrow> bool" where
  "is_granted a auth s \<longleftrightarrow> granted a auth (map_of (co_pendingById s)) (co_world s) (co_sha256 s)"

definition sending :: "pending_adoption \<Rightarrow> adoption_authorization \<Rightarrow> coordinator \<Rightarrow> bool" where
  "sending a auth s \<longleftrightarrow> ok_but (Some (pid a)) s \<and> is_granted a auth s"

lemma is_grantedD:
  assumes "is_granted a auth s"
  shows "map_of (co_pendingById s) (pid a) = Some a" "verified s (pa_proposal a) auth" "proposal_bound s (pa_proposal a)"
  using assms by (simp_all add: is_granted_def granted_def verified_def proposal_bound_def)

lemma is_granted_keeps: "(\<And>s. co_pendingById (g s) = co_pendingById s \<and> co_world (g s) = co_world s \<and> co_sha256 (g s) = co_sha256 s) \<Longrightarrow>
   keepsE (is_granted a auth) (modifyE g)"
  by (rule keepsE_modify) (simp add: is_granted_def)

lemma stable_granted: "stable (is_granted a auth)"
  by (auto simp: stable_def is_granted_def elim!: calls_onlyE)

lemma sending_keeps: "keepsE (ok_but (Some (pid a))) m \<Longrightarrow> keepsE (is_granted a auth) m \<Longrightarrow> keepsE (sending a auth) m"
  unfolding sending_def [abs_def] by (rule keepsE_conj)

lemma issueId_granted: "keepsE (is_granted a auth) (issueId t)"
  unfolding issueId_def by (intro keepsE_intros is_granted_keeps ask_keeps stable_granted) simp

lemma send_request:
  "starting (sending a auth) (sendAcknowledgementRequest c r) (\<lambda>_ s. sending a auth s \<and> r \<in> set (co_requests s)) (sending a auth)"
proof -
  let ?I = "sending a auth" and ?J = "\<lambda>_ s. sending a auth s \<and> r \<in> set (co_requests s)"
  have ask: "keepsE ?I (ask f)" for f :: "port_world \<Rightarrow> 'b"
    by (intro sending_keeps ask_keeps stable_ok stable_granted)
  have iss: "keepsE ?I (issueId t)" for t
    by (intro sending_keeps issueId_keeps issueId_granted)
  have given: "starting ?I (modifyE (\<lambda>s. s\<lparr>co_requests := co_requests s @ [r]\<rparr>)) ?J ?I"
    unfolding starting_def
  proof (intro allI impI)
    fix s assume s: "?I s"
    have "ok_but (Some (pid a)) (s\<lparr>co_requests := co_requests s @ [r]\<rparr>)"
      by (rule ok_grown [of _ s]) (use s in \<open>simp_all add: sending_def books_def grown_def subset_insertI\<close>)
    then show "wpE (modifyE (\<lambda>s. s\<lparr>co_requests := co_requests s @ [r]\<rparr>)) ?J (\<lambda>_. ?I) s"
      using s by (simp add: wpE_simps sending_def is_granted_def)
  qed
  have send: "starting ?I (send_or_throw (\<lambda>s. s\<lparr>co_requests := co_requests s @ [r]\<rparr>)) ?J ?I"
    unfolding send_or_throw_def
    by (rule starting_bind [OF keeps_starting [OF ask]], rule starting_if, rule starting_prims(1), assumption, rule given)
  show ?thesis
    unfolding sendAcknowledgementRequest_def Let_def
    apply (rule starting_get)
    subgoal for g
      apply (rule starting_pre [where I = ?I])
       apply (auto split: option.split intro!: starting_prims(1) send starting_bind [OF keeps_starting [OF iss]])
      done
    done
qed

lemma sending_back:
  "sending a auth s \<Longrightarrow> pa_proposal b = pa_proposal a \<Longrightarrow> pending_ok s b \<Longrightarrow> adoption_ok (with_pending b s)"
proof -
  assume s: "sending a auth s" and p: "pa_proposal b = pa_proposal a" and b: "pending_ok s b"
  have i: "pr_proposalId (pa_proposal b) = pid a" by (simp add: pid_def p)
  have "ok_but (Some (pid a)) (with_pending b s)"
    by (rule ok_with_pending [of _ _ _ a]) (use s b i p in \<open>simp_all add: sending_def is_granted_def granted_def pid_def\<close>)
  moreover have "pending_ok (with_pending b s) b"
    using b grown_facts(4) [of s "with_pending b s"] by (simp add: grown_def)
  ultimately show ?thesis using i by (auto intro: ok_close)
qed


lemma sending_done:
  assumes s: "sending a auth s" and r: "request_ack_of (pa_proposal a) n \<in> set (co_requests s)" and a: "pa_authorization a = Some auth"
  shows "adoption_ok s"
proof (rule ok_close [of "pid a"])
  show "ok_but (Some (pid a)) s" using s by (simp add: sending_def)
  fix b assume b: "map_of (co_pendingById s) (pid a) = Some b"
  have g: "is_granted a auth s" using s by (simp add: sending_def)
  have "b = a" using b is_grantedD(1) [OF g] by simp
  then show "pending_ok s b" using is_grantedD(2,3) [OF g] r a by (auto simp: pending_ok_def requested_def)
qed

lemma authorize_reserved_starting:
  assumes m: "authorization_matches (pa_proposal a) auth"
  shows "starting (here a) (authorize_reserved a auth) (\<lambda>_. adoption_ok) adoption_ok"
proof -
  let ?p = "pa_proposal a"
  let ?I = "\<lambda>b s. here b s \<and> verified s ?p auth"
  have st: "stable (?I b)" for b
    unfolding stable_def
  proof (intro allI impI conjI)
    fix s s' assume i: "?I b s" and q: "calls_only s s'"
    show "here b s'" using i q stable_here by (auto simp: stable_def)
    show "verified s' ?p auth" using i q by (auto elim!: calls_onlyE simp: verified_def)
  qed
  have fail: "starting (?I a) (invalidate_and_fail ?p c) Q adoption_ok" for c and Q :: "'b \<Rightarrow> _"
    by (rule starting_prims(4)) (blast intro: here_ends ended_ok)
  have quiet: "quiet n P \<Longrightarrow> (\<And>x. P x \<Longrightarrow> starting (?I b) (f x) Q adoption_ok) \<Longrightarrow> starting (?I b) (bindE n f) Q adoption_ok"
    for b and n :: "'c ad" and P f and Q :: "'d \<Rightarrow> _"
    by (rule starting_quiet [OF _ st]) (assumption, blast intro: here_ok, blast)
  define b where "b = a\<lparr>pa_phase := Authorized\<rparr>"
  have b: "pa_proposal b = ?p" "pid b = pid a" by (simp_all add: b_def pid_def)
  have rest: "starting (?I b) (bindE (liftE (addDeadline now ADOPTION_ACK_TIMEOUT_MS)) (\<lambda>deadline.
      thenE (put_pending (a\<lparr>pa_phase := Authorized, pa_deadline := Some deadline, pa_authorization := Some auth, pa_ackRequest := Some r\<rparr>))
     (thenE (emit_phase Authorized ?p)
     (thenE (catchE (sendAcknowledgementRequest (pa_connection a) r)
               (\<lambda>_. thenE (put_pending (a\<lparr>pa_phase := Proposed, pa_deadline := None, pa_authorization := None, pa_ackRequest := None\<rparr>))
                          (fail_ad Session_unavailable)))
     (thenE (rememberAuthorization (au_authorizationId auth)) (retE r)))))) (\<lambda>_. adoption_ok) adoption_ok"
    if r: "r = request_ack_of ?p n" for r n now
  proof (rule quiet [OF quiet_prims(5)])
    fix deadline
    define c where "c = a\<lparr>pa_phase := Authorized, pa_deadline := Some deadline, pa_authorization := Some auth, pa_ackRequest := Some r\<rparr>"
    define d where "d = a\<lparr>pa_phase := Proposed, pa_deadline := None, pa_authorization := None, pa_ackRequest := None\<rparr>"
    have c: "pa_proposal c = ?p" "pid c = pid a" "pa_authorization c = Some auth" by (simp_all add: c_def pid_def)
    have d: "pa_proposal d = ?p" "pa_authorization d = None" "pa_ackRequest d = None" by (simp_all add: d_def)
    have marks: "sending c auth (with_pending c s)" if i: "?I b s" for s
    proof -
      have "ok_but (Some (pid a)) (with_pending c s)"
        by (rule ok_with_pending [of _ _ _ b]) (use i b c ok_open in \<open>simp_all add: here_def pid_def\<close>)
      moreover have "proposal_bound s ?p" using here_pending [of b s] i b(1) by (simp add: pending_ok_def)
      ultimately show ?thesis
        using i c m by (simp add: sending_def is_granted_def granted_def verified_def proposal_bound_def pid_def)
    qed
    have logs: "sending c auth (logged ph q s)" if "sending c auth s" for s ph q
      using that ok_logged by (simp add: sending_def is_granted_def)
    have revert: "starting (sending c auth) (thenE (put_pending d) (fail_ad Session_unavailable)) Q adoption_ok" for Q :: "unit \<Rightarrow> _"
    proof (rule starting_then [where J = adoption_ok], rule starting_prims(6))
      fix s assume s: "sending c auth s"
      have "proposal_bound s ?p" using is_grantedD(3) [of c auth s] s c(1) by (simp add: sending_def)
      then have "pending_ok s d" using d by (simp add: pending_ok_def)
      then show "adoption_ok (with_pending d s)" using s c(1) d(1) by (intro sending_back [of c auth]) simp_all
    qed (rule starting_prims(1), assumption)
    show "starting (?I b) (thenE (put_pending (a\<lparr>pa_phase := Authorized, pa_deadline := Some deadline, pa_authorization := Some auth,
        pa_ackRequest := Some r\<rparr>)) (thenE (emit_phase Authorized ?p)
        (thenE (catchE (sendAcknowledgementRequest (pa_connection a) r)
               (\<lambda>_. thenE (put_pending (a\<lparr>pa_phase := Proposed, pa_deadline := None, pa_authorization := None, pa_ackRequest := None\<rparr>))
                          (fail_ad Session_unavailable)))
        (thenE (rememberAuthorization (au_authorizationId auth)) (retE r))))) (\<lambda>_. adoption_ok) adoption_ok"
      unfolding c_def [symmetric] d_def [symmetric]
      apply (rule starting_then [where J = "sending c auth"], rule starting_prims(6), rule marks, assumption)
      apply (rule starting_then [where J = "sending c auth"], rule starting_prims(5), rule logs, assumption)
      apply (rule starting_then [where J = adoption_ok], rule starting_catch [OF starting_weaken [OF send_request]])
           apply assumption
      subgoal using sending_done [of c auth _ n] c r by auto
         apply assumption
        apply (rule revert)
       apply (rule starting_then [OF keeps_starting [OF remember_authorization_keeps]], rule starting_prims(2), assumption)
      done
  qed
  show ?thesis
    unfolding authorize_reserved_def Let_def
    apply (rule starting_bind [where J = "\<lambda>v s. here a s \<and> (v = Inr True \<longrightarrow> verified s ?p auth)"])
    subgoal
      unfolding starting_def wpE_ask
      using stable_here m by (auto simp: stable_def calls_only_def verified_def)
    apply (rule starting_then [where J = "?I a"])
    subgoal by (auto simp: starting_def wpE_simps intro: here_ok)
    apply (rule quiet [OF quiet_prims(1)])
    apply (rule starting_if, rule fail, rule starting_if, rule fail)
    apply (rule quiet [OF quiet_prims(5)])
    apply (drule request_ack_read)
    apply (rule starting_then [where J = "?I b"])
    subgoal
      by (rule starting_prims(6), fold b_def) (use here_put [of a _ b] here_pending b in \<open>auto simp: pending_ok_def b_def verified_def\<close>)
    apply (erule rest)
    done
qed


lemma starting_finally: "starting I m (\<lambda>_. J) J \<Longrightarrow> keepsE J n \<Longrightarrow> starting I (finallyE m n) (\<lambda>_. J) J"
  unfolding finallyE_def
  by (rule starting_bind [where J = "\<lambda>_. J"], erule starting_catch, rule starting_then [OF keeps_starting], assumption,
      rule starting_prims(1), assumption, rule starting_then [OF keeps_starting], assumption, rule starting_prims(2), assumption)

lemma reserve_here: "here a s \<Longrightarrow> here a (s\<lparr>co_reservedAuthorizations := r\<rparr>)"
proof -
  assume h: "here a s"
  have "adoption_ok (s\<lparr>co_reservedAuthorizations := r\<rparr>)"
    by (rule ok_grown [OF here_ok [OF h]]) (simp_all add: books_def grown_def)
  then show ?thesis using h by (simp add: here_def)
qed

lemma authorize_pending_starting:
  assumes m: "authorization_matches (pa_proposal a) auth"
  shows "starting (here a) (authorize_pending a auth) (\<lambda>_. adoption_ok) adoption_ok"
proof -
  have retry: "starting (here a) (thenE (require_ad b e) (retE r)) (\<lambda>_. adoption_ok) adoption_ok" for b e r
    by (auto simp: starting_def wpE_simps intro: here_ok)
  let ?new = "bindE (getE (\<lambda>s. au_authorizationId auth \<in> set (co_usedAuthorizations s) \<union> set (co_reservedAuthorizations s))) (\<lambda>taken.
          thenE (require_ad (\<not> taken) Authorization_replayed)
         (thenE (modifyE (\<lambda>s. s\<lparr>co_reservedAuthorizations := co_reservedAuthorizations s @ [au_authorizationId auth]\<rparr>))
                (finallyE (authorize_reserved a auth)
                   (modifyE (\<lambda>s. s\<lparr>co_reservedAuthorizations :=
                      filter (\<lambda>i. i \<noteq> au_authorizationId auth) (co_reservedAuthorizations s)\<rparr>)))))"
  have new: "starting (here a) ?new (\<lambda>_. adoption_ok) adoption_ok"
    apply (rule starting_quiet [OF quiet_prims(4) stable_here here_ok], assumption)
    apply (rule starting_quiet_then [OF quiet_prims(6) stable_here here_ok], assumption)
    apply (rule starting_then [where J = "here a"], rule starting_prims(3), erule reserve_here)
    apply (rule starting_finally [OF authorize_reserved_starting [OF m]], rule reserve_keeps)
    done
  show ?thesis
    unfolding authorize_pending_def
    using retry new by (auto split: adoption_phase.split option.split)
qed

lemma assertProposalLive_keeps: "starting (here a) (assertProposalLive (pa_proposal a)) (\<lambda>_. here a) adoption_ok"
  by (rule starting_weaken [OF assertProposalLive_starting]) (auto intro: ended_ok)

lemma authorize_keeps: "keepsE adoption_ok (authorizeProposal i v)"
proof (rule starting_keeps, unfold authorizeProposal_def, rule starting_quiet [OF quiet_prims(5) stable_ok], assumption, rule starting_get)
  fix proposalId pending
  let ?I = "\<lambda>s. adoption_ok s \<and> map_of (co_pendingById s) proposalId = pending"
  show "starting ?I (case pending of
       None \<Rightarrow>
         bindE (getE (\<lambda>s. map_of (co_completedById s) proposalId)) (\<lambda>done.
         if done \<noteq> None then fail_ad Authorization_replayed else fail_ad Proposal_not_found)
     | Some a \<Rightarrow>
         thenE (assertProposalLive (pa_proposal a))
        (bindE (liftE (parseAuthorization v)) (\<lambda>auth.
         thenE (require_ad (authorization_matches (pa_proposal a) auth) Authorization_mismatch)
               (authorize_pending a auth)))) (\<lambda>_. adoption_ok) adoption_ok"
  proof (cases pending)
    case None
    then show ?thesis by (auto simp: starting_def wpE_simps)
  next
    case (Some a)
    show ?thesis
      unfolding Some option.case
      apply (rule starting_pre [where I = "here a"])
       apply (rule starting_then [OF assertProposalLive_keeps])
       apply (rule starting_quiet [OF quiet_prims(5) stable_here here_ok], assumption)
       apply (rule starting_quiet_then [OF quiet_prims(6) stable_here here_ok], assumption)
       apply (erule authorize_pending_starting)
      apply (auto dest: pending_here)
      done
  qed
qed

end
