(* ===== verification/AdoptionProposing.thy ===== *)
theory AdoptionProposing
  imports AdoptionAuthorizing
begin

section \<open>A proposal\<close>

lemma checkPending_keeps: "keepsE adoption_ok (checkPendingSession i)"
proof (rule starting_keeps, unfold checkPendingSession_def, rule starting_get)
  fix pending
  let ?I = "\<lambda>s. adoption_ok s \<and> (case map_of (co_pendingBySession s) i of
         None \<Rightarrow> None | Some j \<Rightarrow> map_of (co_pendingById s) j) = pending"
  show "starting ?I (case pending of
       None \<Rightarrow> retE ()
     | Some a \<Rightarrow>
         bindE (ask pw_now) (\<lambda>now.
         if pr_expiresMonotonic (pa_proposal a) \<le> now then invalidate (pa_proposal a) else fail_ad Proposal_conflict))
     (\<lambda>_. adoption_ok) adoption_ok"
  proof (cases pending)
    case None
    then show ?thesis by (auto simp: starting_def wpE_simps)
  next
    case (Some a)
    show ?thesis
      unfolding Some option.case
      apply (rule starting_pre [where I = "here a"])
       apply (rule starting_quiet [OF quiet_prims(1) stable_here here_ok], assumption)
       apply (rule starting_if, rule starting_prims(8), blast intro: here_ends ended_ok)
       apply (rule starting_prims(1), erule here_ok)
      apply (auto dest: pending_here split: option.splits)
      done
  qed
qed

lemma ret_then: "thenE (retE ()) n = n"
  by (simp add: fun_eq_iff thenE_def bindE_def retE_def)

lemma eligibility_keeps: "keepsE adoption_ok (assertEligibility m target i b)"
proof (cases b)
  case False
  then show ?thesis using quiet_keeps [OF quiet_eligibility stable_ok] by simp
next
  case True
  have "assertEligibility m target i True = thenE (checkPendingSession i) (assertEligibility m target i False)"
    by (simp add: assertEligibility_def ret_then)
  then show ?thesis using True quiet_keeps [OF quiet_eligibility stable_ok] checkPending_keeps by (simp add: keepsE_then)
qed

text \<open>A session without a proposal, and an identifier that no proposal ever had.\<close>

definition no_proposal :: "jstr \<Rightarrow> coordinator \<Rightarrow> bool" where
  "no_proposal x s \<longleftrightarrow> adoption_ok s \<and> map_of (co_pendingBySession s) x = None"

definition unused_id :: "jstr \<Rightarrow> jstr \<Rightarrow> coordinator \<Rightarrow> bool" where
  "unused_id x i s \<longleftrightarrow> no_proposal x s \<and> map_of (co_pendingById s) i = None \<and> i \<notin> set (map ci_id (co_commits s)) \<and> i \<in> set (co_issuedIds s)"

lemma stable_no_proposal: "stable (no_proposal x)" and stable_unused: "stable (unused_id x i)"
  unfolding no_proposal_def [abs_def] unused_id_def [abs_def] conj_assoc by (rule stable_proj)+

lemma issue_new: "starting (no_proposal x) (issueId t) (\<lambda>i. unused_id x i) adoption_ok"
  unfolding issueId_def
  apply (rule starting_quiet [OF quiet_prims(1) stable_no_proposal], simp add: no_proposal_def)
  apply (rule starting_quiet [OF quiet_prims(5) stable_no_proposal], simp add: no_proposal_def)
  subgoal for v i
    unfolding starting_def
  proof (intro allI impI)
    fix s assume s: "no_proposal x s"
    have "unused_id x i (s\<lparr>co_issuedIds := co_issuedIds s @ [i]\<rparr>)" if new: "i \<notin> set (co_issuedIds s)"
    proof -
      have ok: "adoption_ok s" using s by (simp add: no_proposal_def)
      have "adoption_ok (s\<lparr>co_issuedIds := co_issuedIds s @ [i]\<rparr>)"
        by (rule ok_grown [OF ok]) (simp_all add: books_def grown_def subset_insertI)
      moreover have "map_of (co_pendingById s) i = None"
        using adoption_okD(2) [OF ok] new unfolding all_pending_ok_def by (cases "map_of (co_pendingById s) i") auto
      moreover have "i \<notin> set (map ci_id (co_commits s))" using adoption_okD(3) [OF ok] new by (auto simp: commits_good_def)
      ultimately show ?thesis using s by (simp add: unused_id_def no_proposal_def)
    qed
    then show "wpE (bindE (getE co_issuedIds) (\<lambda>issued. thenE (require_ad (i \<notin> set issued) Invalid_identity)
        (thenE (modifyE (\<lambda>s. s\<lparr>co_issuedIds := co_issuedIds s @ [i]\<rparr>)) (retE i)))) (\<lambda>i. unused_id x i) (\<lambda>_. adoption_ok) s"
      using s by (simp add: wpE_simps no_proposal_def)
  qed
  done

lemma issue_again: "starting (unused_id x i) (issueId t) (\<lambda>_. unused_id x i) adoption_ok"
  unfolding issueId_def
  apply (rule starting_quiet [OF quiet_prims(1) stable_unused], simp add: unused_id_def no_proposal_def)
  apply (rule starting_quiet [OF quiet_prims(5) stable_unused], simp add: unused_id_def no_proposal_def)
  subgoal for v j
    unfolding starting_def
  proof (intro allI impI)
    fix s assume s: "unused_id x i s"
    then have ok: "adoption_ok s" by (simp add: unused_id_def no_proposal_def)
    have "adoption_ok (s\<lparr>co_issuedIds := co_issuedIds s @ [j]\<rparr>)"
      by (rule ok_grown [OF ok]) (simp_all add: books_def grown_def subset_insertI)
    then show "wpE (bindE (getE co_issuedIds) (\<lambda>issued. thenE (require_ad (j \<notin> set issued) Invalid_identity)
        (thenE (modifyE (\<lambda>s. s\<lparr>co_issuedIds := co_issuedIds s @ [j]\<rparr>)) (retE j)))) (\<lambda>_. unused_id x i) (\<lambda>_. adoption_ok) s"
      using s by (simp add: wpE_simps unused_id_def no_proposal_def)
  qed
  done

lemma ok_proposed:
  assumes u: "unused_id x i s" and a: "pr_proposalId (pa_proposal a) = i" "session_of a = x" "pending_ok s a"
  shows "adoption_ok (with_pending a (s\<lparr>co_pendingBySession := assoc_put x i (co_pendingBySession s)\<rparr>))" (is "adoption_ok ?t")
proof (rule adoption_okI)
  have ok: "adoption_ok s" and x: "map_of (co_pendingBySession s) x = None" and b: "map_of (co_pendingById s) i = None"
    and c: "i \<notin> set (map ci_id (co_commits s))" and iss: "i \<in> set (co_issuedIds s)"
    using u by (simp_all add: unused_id_def no_proposal_def)
  have g: "grown s ?t" by (simp add: grown_def)
  have e: "map_of (co_pendingById ?t) = (map_of (co_pendingById s))(i \<mapsto> a)"
    "map_of (co_pendingBySession ?t) = (map_of (co_pendingBySession s))(x \<mapsto> i)"
    by (simp_all add: a(1))
  show "maps_agree ?t"
    unfolding maps_agree_def e
    by (rule agree_put [OF adoption_okD(1) [OF ok, unfolded maps_agree_def]]) (use a x b in auto)
  show "all_pending_ok None ?t"
    using adoption_okD(2) [OF ok] grown_facts(4) [OF g] a(3) iss unfolding all_pending_ok_def e by auto
  show "commits_good ?t"
    using adoption_okD(3) [OF ok] grown_facts(5) [OF g] c unfolding commits_good_def e by auto
  show "completed_good ?t" "used_good ?t" "log_good ?t"
    using adoption_okD(4,5,6) [OF ok] by (simp_all add: completed_good_def used_good_def log_good_def)
qed

lemma validated_session: "validateRequestIdentity r = Inr ids \<Longrightarrow> id_observedSessionId ids = rq_observedSessionId r"
  by (auto simp: validateRequestIdentity_def Let_def result_simps)

lemma with_digest_sel:
  "pr_proposalId (with_digest h p) = pr_proposalId p" "pr_ids (with_digest h p) = pr_ids p"
  "pr_proposalDigest (with_digest h p) = h (proposal_text (with_digest h p))"
  by (simp_all add: with_digest_def proposal_text_def)

lemma create_keeps: "keepsE adoption_ok (createProposal input)"
proof (rule starting_keeps)
  have nw: "no_proposal x s \<Longrightarrow> adoption_ok s" for x s by (simp add: no_proposal_def)
  have un: "unused_id x i s \<Longrightarrow> adoption_ok s" for x i s by (simp add: unused_id_def no_proposal_def)
  note quiet = starting_quiet [OF _ stable_ok] starting_quiet_then [OF _ stable_ok]
  show "starting adoption_ok (createProposal input) (\<lambda>_. adoption_ok) adoption_ok"
    unfolding createProposal_def
    apply (rule quiet(1) [OF quiet_prims(5)], assumption)
    apply (rule quiet(1) [OF quiet_currentObserved], assumption)
    subgoal for request current
    proof (cases current)
      case None
      then show ?thesis by (simp add: starting_prims(1))
    next
      case (Some obs)
      show ?thesis
        unfolding Some option.case Let_def
        apply (rule quiet(1) [OF quiet_prims(5)], assumption)
        apply (rule quiet(2) [OF quiet_prims(5)], assumption)
        apply (rule quiet(1) [OF quiet_prims(4)], assumption)
        apply (rule quiet(2) [OF quiet_prims(6)], assumption)
        apply (rule quiet(2) [OF quiet_connection], assumption)
        apply (rule starting_then [OF keeps_starting [OF eligibility_keeps]])
        apply (rule starting_get)
        apply (rule starting_then [where J = "no_proposal (rq_observedSessionId request)"])
        subgoal by (auto simp: starting_def wpE_simps no_proposal_def)
        apply (rule starting_quiet [OF quiet_prims(1) stable_no_proposal], erule nw)
        apply (rule starting_quiet [OF quiet_prims(5) stable_no_proposal], erule nw)
        apply (rule starting_bind [OF issue_new])
        apply (rule starting_bind [OF issue_again])
        apply (rule starting_quiet [OF quiet_prims(5) stable_unused], erule un)
        apply (rule starting_get)
        apply (drule validated_session)
        apply (auto simp: starting_def wpE_simps with_digest_sel session_of_def pending_ok_def proposal_bound_def intro!: ok_logged ok_proposed)
        done
    qed
    done
qed

end
