(* ===== verification/AdoptionProperties.thy ===== *)
theory AdoptionProperties
  imports AdoptionProposing RegistryProperties
begin

text \<open>
  What the Adoption coordinator of observer/adoption.ts promises, for every sequence of proposals,
  authorizations, acknowledgements and restarts, and for every behaviour of its ports.
\<close>

section \<open>A small world\<close>

definition demo_adoption_ids :: session_ids where
  "demo_adoption_ids = \<lparr>id_observedSessionId = js ''s-1'', id_executionNodeId = js ''n-1'', id_processIncarnationId = js ''p-1'',
     id_piSessionId = js ''pi-1'', id_extensionInstanceId = js ''x-1''\<rparr>"

definition demo_sha256 :: "jstr \<Rightarrow> jstr" where "demo_sha256 t = replicate 64 97"

definition demo_observed_record :: obj where
  "demo_observed_record = map (\<lambda>(f, t). (js f, JStr t)) (id_texts demo_adoption_ids) @
     [(js ''registryRevision'', JWhole 1), (js ''lifecycle'', JStr (js ''connected'')), (js ''availability'', JStr (js ''available'')),
      (js ''activity'', JStr (js ''idle'')), (js ''health'', JStr (js ''healthy'')), (js ''piStatus'', JStr OBSERVER_PI_STATUS_LOCAL),
      (js ''acceptedSourceSequence'', JWhole 4)]"

definition demo_runner_answer :: json where
  "demo_runner_answer = JObj
     [(js ''proposalId'', JStr (js ''proposal'')), (js ''proposalDigest'', JStr (demo_sha256 [])), (js ''agentRunId'', JStr (js ''run-1'')),
      (js ''targetTeamGoalId'', JStr (js ''goal-1'')), (js ''targetRole'', JEnum ROLES Builder),
      (js ''controlMode'', JStr (js ''managed'')), (js ''piStatus'', JStr (js ''busy'')), (js ''terminalTitleMetadata'', JStr (js ''title'')),
      (js ''runtimeBinding'', JNull), (js ''runtimeBindingGuarantee'', JStr (js ''unavailable''))]"

definition demo_ports :: "nat \<Rightarrow> port_world" where
  "demo_ports k = \<lparr>pw_now = int k, pw_issue = (\<lambda>purpose. Some (JStr (js purpose))), pw_observed = (\<lambda>i. Inr (JObj demo_observed_record)),
     pw_revision = Some (Inr 1), pw_local = Some (\<lambda>_ _. Inr True), pw_occupied = Some (\<lambda>_ _. Inr False), pw_managed = None,
     pw_is_current = None, pw_assert_current = None, pw_closed = False, pw_verify = (\<lambda>p a. Inr (au_token a = js ''yes'')),
     pw_commit = (\<lambda>c. Inr demo_runner_answer), pw_present_throws = False, pw_send_throws = False\<rparr>"

definition demo_observer :: observer_connection where
  "demo_observer = \<lparr>on_object = 7, on_id = None, on_sendAdoptionRequest = True, on_sendAdoptionCommitted = True, on_send = True\<rparr>"

definition demo_coordinator :: coordinator where
  "demo_coordinator = new_coordinator (Some demo_observer) demo_sha256 demo_ports"

definition demo_request :: "json option" where
  "demo_request = Some (JObj
     [(js ''observedSessionId'', JStr (js ''s-1'')),
      (js ''observedIdentity'', JObj (map (\<lambda>(f, t). (js f, JStr t)) (id_texts demo_adoption_ids) @
         [(js ''connectionId'', JStr (js ''c-1'')), (js ''connectionChallenge'', JStr (js ''ch-1''))])),
      (js ''connection'', JObj [(js ''id'', JStr (js ''o-1'')), (js ''connectionId'', JStr (js ''c-1'')), (js ''connectionChallenge'', JStr (js ''ch-1''))]),
      (js ''target'', JObj [(js ''teamGoalId'', JStr (js ''goal-1'')), (js ''executionNodeId'', JStr (js ''n-1'')), (js ''role'', JEnum ROLES Builder)])])"

definition demo_authorization :: adoption_authorization where
  "demo_authorization = \<lparr>au_proposalId = js ''proposal'', au_proposalDigest = demo_sha256 [], au_targetTeamGoalId = js ''goal-1'',
     au_targetRole = Builder, au_authorizationId = js ''a-1'', au_token = js ''yes''\<rparr>"

definition demo_ack :: adoption_ack where
  "demo_ack = \<lparr>ak_processIncarnationId = js ''p-1'', ak_piSessionId = js ''pi-1'', ak_extensionInstanceId = js ''x-1'',
     ak_connectionId = js ''c-1'', ak_connectionChallenge = js ''ch-1'', ak_proposalId = js ''proposal'', ak_proposalDigest = demo_sha256 [],
     ak_acknowledgementNonce = js ''acknowledgement'', ak_registryRevision = 1, ak_sourceSequence = 5, ak_decision = Acknowledged,
     ak_activity = Idle_activity, ak_refusalCode = None\<rparr>"

definition demo_ack_input :: "json option" where "demo_ack_input = Some (JObj (adoption_ack_json demo_ack))"

lemma demo_ack_ok: "adoption_ack_ok demo_ack"
proof -
  have d: "plain (replicate 64 97)" by (simp add: plain_def list_all_iff)
  have "within_envelope (adoption_ack_json demo_ack)"
    by (simp add: d quote_plain(2) [OF d] null_or_def within_envelope_def adoption_ack_json_def demo_ack_def demo_sha256_def enum_text_def
        OBSERVER_ACTIVITY_VALUES_def OBSERVER_ADOPTION_DECISIONS_def quote_plain utf8_ascii plain_js int_text_def one_digit envelopeBytes_def)
  then show ?thesis
    by (simp add: adoption_ack_ok_def demo_ack_def demo_sha256_def ID_RE_def SHA256_RE_def matches_head_tail_def js_def
        char_class_defs id_tail_def MAX_SAFE_INTEGER_def list_all_iff)
qed

lemma demo_ack_valid: "validateAdoptionAck demo_ack_input = Inr demo_ack"
  by (simp add: demo_ack_input_def adoption_ack_complete demo_ack_ok)

section \<open>Every run\<close>

lemma reconstruct_keeps: "adoption_ok s \<Longrightarrow> adoption_ok (reconstruct_adoption s)"
proof (rule adoption_okI)
  assume ok: "adoption_ok s"
  have g: "grown s (reconstruct_adoption s)" by (simp add: grown_def reconstruct_adoption_def)
  show "maps_agree (reconstruct_adoption s)" by (simp add: maps_agree_def agree_def reconstruct_adoption_def)
  show "all_pending_ok None (reconstruct_adoption s)" by (simp add: all_pending_ok_def reconstruct_adoption_def)
  show "commits_good (reconstruct_adoption s)"
    using adoption_okD(3) [OF ok] grown_facts(5) [OF g] by (simp add: commits_good_def reconstruct_adoption_def)
  show "completed_good (reconstruct_adoption s)" "used_good (reconstruct_adoption s)" "log_good (reconstruct_adoption s)"
    using adoption_okD(4,5,6) [OF ok] by (simp_all add: completed_good_def used_good_def log_good_def reconstruct_adoption_def)
qed

lemma new_ok: "adoption_ok (new_coordinator c h w)"
  by (simp add: ok_but_def maps_agree_def agree_def all_pending_ok_def commits_good_def completed_good_def used_good_def
      log_good_def new_coordinator_def)

lemma adoption_step_ok: "adoption_ok s \<Longrightarrow> adoption_ok (adoption_step x s)"
  by (cases x) (simp_all add: keepsE_final [OF create_keeps] keepsE_final [OF authorize_keeps] keepsE_final [OF accept_keeps]
      reconstruct_keeps)

lemma adoption_run_ok: "adoption_ok s \<Longrightarrow> adoption_ok (adoption_run ops s)"
  unfolding adoption_run_def
  by (rule run_with_keeps [of "\<lambda>_. True"]) (simp_all add: adoption_step_ok list_all_iff)

text \<open>C29. Whatever was proposed, authorized and acknowledged, and whatever the ports answered in between: each
  proposal is handed to the Team Runner at most once, and only with an authorization that the authorizer
  verified for exactly this proposal, after the acknowledgement request for it was sent to the session, with a
  positive idle acknowledgement that names the same process, session, extension, connection, nonce, digest and
  registry revision, and with a record that was read again, is of the same session and revision, is behind the
  acknowledgement's sequence and is eligible (available, idle, healthy, unassigned, on the target node); the
  digest is the hash of the proposal's content.\<close>

theorem adoption_commits_checked:
  "distinct (map ci_id (co_commits (adoption_run ops (new_coordinator c h w)))) \<and>
   list_all (commit_ok (adoption_run ops (new_coordinator c h w))) (co_commits (adoption_run ops (new_coordinator c h w)))"
  using adoption_okD(3) [OF adoption_run_ok [OF new_ok]] by (simp add: commits_good_def list_all_iff)

text \<open>C32. The books of the coordinator stay bounded and consistent: at most 256 results and 256 used
  authorizations are kept, without repetition, at most 256 events, whose numbers are consecutive and end with
  the newest; a session's entry names a pending proposal exactly when that proposal is for this session, so no
  session has two.\<close>

theorem adoption_books_bounded:
  "length (co_completedById (adoption_run ops (new_coordinator c h w))) \<le> 256 \<and>
   length (co_usedAuthorizations (adoption_run ops (new_coordinator c h w))) \<le> 256 \<and>
   distinct (co_usedAuthorizations (adoption_run ops (new_coordinator c h w))) \<and>
   log_good (adoption_run ops (new_coordinator c h w)) \<and>
   (map_of (co_pendingBySession (adoption_run ops (new_coordinator c h w))) x = Some j) =
     (\<exists>a. map_of (co_pendingById (adoption_run ops (new_coordinator c h w))) j = Some a \<and> session_of a = x)"
  using adoption_okD(1,4,5,6) [OF adoption_run_ok [OF new_ok, of ops c h w]]
  by (simp add: completed_good_def used_good_def ADOPTION_IDEMPOTENCY_LIMIT_def maps_agree_def agree_def)

section \<open>A repeated acknowledgement\<close>

text \<open>What reaches the Team Runner does not change.\<close>

lemma deliver_result:
  "wpE (deliverCompleted d) (\<lambda>_ s'. co_commits s' = co_commits s \<and> co_pendingById s' = co_pendingById s)
     (\<lambda>e s'. e = Observer_error Postcommit_delivery_failed \<and> co_commits s' = co_commits s \<and> co_pendingById s' = co_pendingById s) s"
proof -
  let ?I = "\<lambda>s'. co_commits s' = co_commits s \<and> co_pendingById s' = co_pendingById s"
  have st: "stable ?I" by (auto simp: stable_def elim!: calls_onlyE)
  have iss: "keepsE ?I (issueId t)" for t
    unfolding issueId_def by (intro keepsE_intros keepsE_modify ask_keeps [OF st]) auto
  have all: "keepsE ?I
     (thenE (if cd_presented d then retE ()
                else bindE (ask pw_present_throws) (\<lambda>throws.
                     if throws then throwE Port_error
                     else thenE (modifyE (\<lambda>s. s\<lparr>co_presented := co_presented s @ [pr_proposalId (cd_proposal d)]\<rparr>))
                                (change_completed (pr_proposalId (cd_proposal d)) (\<lambda>d. d\<lparr>cd_presented := True\<rparr>))))
               (if cd_delivered d then retE ()
                else thenE (sendCommitted d) (change_completed (pr_proposalId (cd_proposal d)) (\<lambda>d. d\<lparr>cd_delivered := True\<rparr>))))"
    unfolding sendCommitted_def send_or_throw_def change_completed_def Let_def
    by (intro keepsE_intros keepsE_modify ask_keeps [OF st])
       (auto intro!: keepsE_intros keepsE_modify ask_keeps [OF st] iss split: option.split)
  show ?thesis
    unfolding deliverCompleted_def Let_def wpE_catch
    by (rule wpE_mono [OF keepsED [OF all, of s]]) (simp_all add: wpE_simps)
qed

text \<open>
  Of a kept result only the very acknowledgement that was accepted counts as its repetition: the
  members that the code compares fix all the others.
\<close>

lemma retry_is_repetition:
  assumes ok: "adoption_ok s" and d: "map_of (co_completedById s) (ak_proposalId ack) = Some d"
  shows "retry_matches d transport ack \<longleftrightarrow> cd_connection d = Some transport \<and> ack = cd_acknowledgement d"
proof -
  have i: "ak_proposalId ack = pr_proposalId (cd_proposal d)" and "list_ex (kept_for d) (co_commits s)"
    using adoption_okD(4) [OF ok] d unfolding completed_good_def by blast+
  then obtain c where c: "c \<in> set (co_commits s)" "ci_proposal c = cd_proposal d" "ci_acknowledgement c = cd_acknowledgement d"
    by (auto simp: kept_for_def list_ex_iff)
  then have "commit_ok s c" using adoption_okD(3) [OF ok] by (simp add: commits_good_def)
  then have "acknowledgement_matches (cd_proposal d) (cd_acknowledgement d)" "ak_decision (cd_acknowledgement d) \<noteq> Refused"
    using c by (simp_all add: commit_ok_def)
  moreover have "ack = k \<longleftrightarrow> ak_processIncarnationId ack = ak_processIncarnationId k \<and> ak_piSessionId ack = ak_piSessionId k \<and>
      ak_extensionInstanceId ack = ak_extensionInstanceId k \<and> ak_connectionId ack = ak_connectionId k \<and>
      ak_connectionChallenge ack = ak_connectionChallenge k \<and> ak_proposalId ack = ak_proposalId k \<and>
      ak_proposalDigest ack = ak_proposalDigest k \<and> ak_acknowledgementNonce ack = ak_acknowledgementNonce k \<and>
      ak_registryRevision ack = ak_registryRevision k \<and> ak_sourceSequence ack = ak_sourceSequence k \<and>
      ak_decision ack = ak_decision k \<and> ak_activity ack = ak_activity k \<and> ak_refusalCode ack = ak_refusalCode k" for k
    by (cases ack; cases k) (simp only: adoption_ack.ext_inject adoption_ack.select_convs simp_thms)
  moreover have "ak_decision (cd_acknowledgement d) = Acknowledged"
    using calculation(2) by (cases "ak_decision (cd_acknowledgement d)") simp_all
  ultimately show ?thesis using i by (simp add: retry_matches_def acknowledgement_matches_def) blast
qed

text \<open>C31. For a proposal whose result is kept, in any coordinator whose books are in order (as those of every run are), a
  valid acknowledgement that is the accepted one in every member and comes on the same connection is answered with the kept
  result, or with the error that its delivery failed again; nothing is committed a second time and no
  proposal gets or stops being pending. Any other acknowledgement for it, and any other connection, is refused and
  nothing at all changes.\<close>

theorem adoption_retry_commits_nothing:
  assumes "adoption_ok s" and "validateAdoptionAck input = Inr ack" and "map_of (co_completedById s) (ak_proposalId ack) = Some d"
  shows "if cd_connection d = Some transport \<and> ack = cd_acknowledgement d
    then fst (acceptAcknowledgement transport input s)
           \<in> {Inr (cd_result d, cd_identity d), Inl (Observer_error Postcommit_delivery_failed)} \<and>
         co_commits (snd (acceptAcknowledgement transport input s)) = co_commits s \<and>
         co_pendingById (snd (acceptAcknowledgement transport input s)) = co_pendingById s
    else acceptAcknowledgement transport input s = (Inl (Observer_error Connection_not_current), s)"
proof (cases "retry_matches d transport ack")
  case True
  have e: "acceptAcknowledgement transport input s = thenE (deliverCompleted d) (retE (cd_result d, cd_identity d)) s"
    using assms(2,3) True
    by (simp add: acceptAcknowledgement_def assertCompletedRetry_def guardR_def bindE_def thenE_def liftE_def getE_def)
  show ?thesis
    using deliver_result [of d s] True unfolding retry_is_repetition [OF assms(1,3), symmetric]
    by (auto simp: e thenE_def bindE_def retE_def wpE_def split: prod.splits sum.splits)
next
  case False
  then show ?thesis unfolding retry_is_repetition [OF assms(1,3), symmetric]
    using assms(2,3) by (simp add: acceptAcknowledgement_def assertCompletedRetry_def guardR_def bindE_def thenE_def liftE_def getE_def)
qed

definition demo_proposal :: adoption_proposal where
  "demo_proposal = \<lparr>pr_proposalId = js ''proposal'', pr_proposalDigest = demo_sha256 [], pr_ids = demo_adoption_ids,
     pr_connectionId = js ''c-1'', pr_connectionChallenge = js ''ch-1'', pr_registryRevision = 1,
     pr_target = \<lparr>tg_teamGoalId = js ''goal-1'', tg_executionNodeId = js ''n-1'', tg_role = Builder\<rparr>,
     pr_createdMonotonic = 0, pr_expiresMonotonic = 30000, pr_acknowledgementNonce = js ''acknowledgement''\<rparr>"

definition demo_completed :: completed_adoption where
  "demo_completed = \<lparr>cd_proposal = demo_proposal, cd_connection = Some 7, cd_acknowledgement = demo_ack,
     cd_result = \<lparr>ac_proposalId = js ''proposal'', ac_proposalDigest = demo_sha256 [], ac_agentRunId = js ''run-1'',
        ac_targetTeamGoalId = js ''goal-1'', ac_targetRole = Builder, ac_piStatus = js ''busy'', ac_terminalTitleMetadata = js ''title''\<rparr>,
     cd_identity = [], cd_presented = True, cd_delivered = True\<rparr>"

section \<open>An acknowledgement ends its proposal\<close>

text \<open>C30. Whatever becomes of an acknowledgement for an authorized proposal - a result, or any error, from a
  connection that is not current to a failed transaction - the proposal is not pending afterwards and its
  session is free for another one.\<close>

theorem adoption_acknowledgement_ends:
  assumes ok: "adoption_ok s" and ack: "validateAdoptionAck input = Inr ack"
    and a: "map_of (co_pendingById s) (ak_proposalId ack) = Some a" "pa_phase a \<noteq> Proposed"
  shows "map_of (co_pendingById (snd (acceptAcknowledgement transport input s))) (ak_proposalId ack) = None \<and>
    map_of (co_pendingBySession (snd (acceptAcknowledgement transport input s))) (session_of a) \<noteq> Some (ak_proposalId ack)"
proof -
  let ?t = "snd (acceptAcknowledgement transport input s)"
  have h: "ak_proposalId ack = pid a" "here a s" using pending_here [OF ok a(1)] by simp_all
  have "ak_proposalId ack \<notin> set (map ci_id (co_commits s))"
    using adoption_okD(3) [OF ok] a(1) by (auto simp: commits_good_def)
  then have "map_of (co_completedById s) (ak_proposalId ack) = None"
    using completed_committed [OF adoption_okD(4) [OF ok]]
    by (cases "map_of (co_completedById s) (ak_proposalId ack)") blast+
  then have e: "acceptAcknowledgement transport input s =
      catchE (acknowledge_pending a transport ack) (\<lambda>e. thenE (end_if_pending (pa_proposal a)) (throwE e)) s"
    using ack a(1) by (simp add: acceptAcknowledgement_def bindE_def liftE_def getE_def)
  have "wpE (catchE (acknowledge_pending a transport ack) (\<lambda>e. thenE (end_if_pending (pa_proposal a)) (throwE e)))
      (\<lambda>_ t. map_of (co_pendingById t) (pid a) = None) (\<lambda>_ t. map_of (co_pendingById t) (pid a) = None) s"
    by (rule wpE_mono [OF startingD [OF answer_starting h(2)]]) (simp_all add: ended_def a(2))
  then have none: "map_of (co_pendingById ?t) (ak_proposalId ack) = None" unfolding e h(1) wpE_final .
  moreover have "adoption_ok ?t" by (rule keepsE_final [OF accept_keeps ok])
  then have "map_of (co_pendingBySession ?t) x \<noteq> Some (ak_proposalId ack)" for x
    using adoption_okD(1) [of None ?t] none unfolding maps_agree_def agree_def by auto
  ultimately show ?thesis by blast
qed

text \<open>A coordinator that waits for an acknowledgement.\<close>

definition demo_waiting :: pending_adoption where
  "demo_waiting = \<lparr>pa_proposal = demo_proposal, pa_connection = Some 7, pa_authorization = Some demo_authorization,
     pa_ackRequest = Some (request_ack_of demo_proposal 5000), pa_phase = Authorized, pa_deadline = Some 5000,
     pa_acknowledgement = None, pa_reconciliation = None\<rparr>"

definition demo_authorized :: coordinator where
  "demo_authorized = demo_coordinator
     \<lparr>co_pendingBySession := [(js ''s-1'', js ''proposal'')], co_pendingById := [(js ''proposal'', demo_waiting)],
      co_issuedIds := [js ''proposal'', js ''acknowledgement''], co_requests := [request_ack_of demo_proposal 5000]\<rparr>"

lemma demo_authorized_ok: "adoption_ok demo_authorized"
proof (rule adoption_okI)
  have "pw_verify (demo_ports 0) demo_proposal demo_authorization = Inr True" by (simp add: demo_ports_def demo_authorization_def)
  moreover have "authorization_matches demo_proposal demo_authorization"
    by (simp add: authorization_matches_def demo_proposal_def demo_authorization_def)
  ultimately have "verified demo_authorized demo_proposal demo_authorization"
    by (auto simp: verified_def demo_authorized_def demo_coordinator_def new_coordinator_def)
  moreover have "proposal_bound demo_authorized demo_proposal"
    by (simp add: proposal_bound_def demo_authorized_def demo_coordinator_def new_coordinator_def demo_proposal_def demo_sha256_def)
  moreover have "requested demo_authorized demo_proposal" by (auto simp: requested_def demo_authorized_def)
  ultimately have "pending_ok demo_authorized demo_waiting" by (simp add: pending_ok_def demo_waiting_def)
  then show "all_pending_ok None demo_authorized" by (simp add: all_pending_ok_def demo_authorized_def)
  have "session_of demo_waiting = js ''s-1''" "pr_proposalId (pa_proposal demo_waiting) = js ''proposal''"
    by (simp_all add: session_of_def demo_waiting_def demo_proposal_def demo_adoption_ids_def)
  then show "maps_agree demo_authorized" by (auto simp: maps_agree_def agree_def demo_authorized_def)
qed (simp_all add: commits_good_def completed_good_def used_good_def log_good_def demo_authorized_def demo_coordinator_def new_coordinator_def)

lemma adoption_acknowledgement_ends_witness:
  "map_of (co_pendingById (snd (acceptAcknowledgement 8 demo_ack_input demo_authorized))) (js ''proposal'') = None"
proof -
  have i: "ak_proposalId demo_ack = js ''proposal''" by (simp add: demo_ack_def)
  have "map_of (co_pendingById demo_authorized) (ak_proposalId demo_ack) = Some demo_waiting" by (simp add: demo_authorized_def i)
  moreover have "pa_phase demo_waiting \<noteq> Proposed" by (simp add: demo_waiting_def)
  ultimately show ?thesis
    using adoption_acknowledgement_ends [OF demo_authorized_ok demo_ack_valid, of demo_waiting 8] by (simp add: i)
qed


section \<open>Used authorizations\<close>

lemma remember_one:
  assumes "i \<notin> set (co_usedAuthorizations s)" "length (co_usedAuthorizations s) \<le> 256"
  shows "rememberAuthorization i s =
    (Inr (), s\<lparr>co_usedAuthorizations := drop (Suc (length (co_usedAuthorizations s)) - 256) (co_usedAuthorizations s @ [i])\<rparr>)"
proof (cases "length (co_usedAuthorizations s) = 256")
  case True
  then show ?thesis
    using assms by (simp add: rememberAuthorization_def modifyE_def Let_def ADOPTION_IDEMPOTENCY_LIMIT_def drop_Suc)
next
  case False
  then show ?thesis
    using assms by (simp add: rememberAuthorization_def modifyE_def Let_def ADOPTION_IDEMPOTENCY_LIMIT_def)
qed

text \<open>The record of used authorizations is a window: after new identifiers were used one after another, it
  holds exactly the last 256 of all, so the identifier of an authorization that was used is refused while fewer
  than 256 others followed it, and is forgotten with the 256th.\<close>

theorem used_authorizations_window:
  assumes "distinct is" and "set is \<inter> set (co_usedAuthorizations s) = {}" and "length (co_usedAuthorizations s) \<le> 256"
  shows "co_usedAuthorizations (snd (eachE rememberAuthorization is s)) =
    drop (length (co_usedAuthorizations s) + length is - 256) (co_usedAuthorizations s @ is)"
  using assms
proof (induction "is" arbitrary: s)
  case (Cons i ids)
  let ?u = "co_usedAuthorizations s"
  let ?v = "drop (Suc (length ?u) - 256) (?u @ [i])"
  let ?t = "s\<lparr>co_usedAuthorizations := ?v\<rparr>"
  have one: "rememberAuthorization i s = (Inr (), ?t)" using remember_one Cons.prems by simp
  have e: "co_usedAuthorizations ?t = ?v" by simp
  have l: "length ?v = min 256 (Suc (length ?u))" using Cons.prems(3) by simp
  have sub: "set ?v \<subseteq> insert i (set ?u)" using set_drop_subset [of "Suc (length ?u) - 256" "?u @ [i]"] by simp
  have ih: "co_usedAuthorizations (snd (eachE rememberAuthorization ids ?t)) =
      drop (length (co_usedAuthorizations ?t) + length ids - 256) (co_usedAuthorizations ?t @ ids)" 
  proof (rule Cons.IH)
    show "distinct ids" "length (co_usedAuthorizations ?t) \<le> 256" using Cons.prems(1) l by (simp_all only: e distinct.simps min.cobounded1)
    show "set ids \<inter> set (co_usedAuthorizations ?t) = {}" unfolding e using Cons.prems(1,2) sub by auto
  qed
  note ih [unfolded e]
  also have "?v @ ids = drop (Suc (length ?u) - 256) (?u @ i # ids)" using Cons.prems(3) by simp
  also have "drop (length ?v + length ids - 256) \<dots> = drop (length ?u + length (i # ids) - 256) (?u @ i # ids)"
    unfolding l drop_drop using Cons.prems(3) by (intro arg_cong2 [of _ _ _ _ drop]) auto
  finally show ?case by (simp add: thenE_def bindE_def one)
qed (simp add: retE_def)

lemma used_authorizations_window_witness:
  "co_usedAuthorizations (snd (eachE rememberAuthorization (map (\<lambda>n. [Suc n]) [0..<256]) (demo_coordinator\<lparr>co_usedAuthorizations := [[0]]\<rparr>)))
     = map (\<lambda>n. [Suc n]) [0..<256]"
  using used_authorizations_window [of "map (\<lambda>n. [Suc n]) [0..<256]" "demo_coordinator\<lparr>co_usedAuthorizations := [[0]]\<rparr>"]
  by (auto simp: distinct_map inj_on_def drop_Cons')

text \<open>An authorization whose identifier is among the used ones is refused as a replay, for a proposal
  that is not yet authorized: nothing is sent and nothing is changed.\<close>

theorem used_authorization_refused:
  assumes i: "observerId proposalId = Inr i" and a: "map_of (co_pendingById s) i = Some a" "pa_phase a = Proposed"
    and live: "pw_now (co_world s (co_calls s)) < pr_expiresMonotonic (pa_proposal a)"
    and auth: "parseAuthorization input = Inr auth" "authorization_matches (pa_proposal a) auth"
    and used: "au_authorizationId auth \<in> set (co_usedAuthorizations s)"
  shows "authorizeProposal proposalId input s = (Inl (Observer_error Authorization_replayed), s\<lparr>co_calls := Suc (co_calls s)\<rparr>)"
  using assms
  by (simp add: authorizeProposal_def assertProposalLive_def authorize_pending_def ask_def bindE_def thenE_def liftE_def getE_def
      retE_def requireE_def throwE_def)

definition demo_proposed :: coordinator where
  "demo_proposed = demo_authorized
     \<lparr>co_pendingById := [(js ''proposal'', demo_waiting\<lparr>pa_phase := Proposed, pa_ackRequest := None\<rparr>)],
      co_usedAuthorizations := [js ''a-1'']\<rparr>"

lemma used_authorization_refused_witness:
  "authorizeProposal (Some (JStr (js ''proposal''))) (Some (authorization_json demo_authorization)) demo_proposed =
     (Inl (Observer_error Authorization_replayed), demo_proposed\<lparr>co_calls := Suc (co_calls demo_proposed)\<rparr>)"
proof (rule used_authorization_refused [where i = "js ''proposal''" and auth = demo_authorization])
  show "observerId (Some (JStr (js ''proposal''))) = Inr (js ''proposal'')"
    by (simp add: observer_strings_iff ID_RE_def matches_head_tail_def js_def char_class_defs id_tail_def)
  show "map_of (co_pendingById demo_proposed) (js ''proposal'') = Some (demo_waiting\<lparr>pa_phase := Proposed, pa_ackRequest := None\<rparr>)"
    by (simp add: demo_proposed_def)
  show "parseAuthorization (Some (authorization_json demo_authorization)) = Inr demo_authorization"
    by (simp add: parseAuthorization_def authorization_json_def demo_authorization_def demo_sha256_def result_simps exact_keys_iff
        add_mset_commute boundedText_def observer_strings_iff ID_RE_def SHA256_RE_def matches_head_tail_def js_def char_class_defs id_tail_def
        is_high_surrogate_def is_low_surrogate_def list_all_iff)
qed (simp_all add: demo_proposed_def demo_authorized_def demo_waiting_def demo_coordinator_def new_coordinator_def demo_ports_def
    demo_proposal_def demo_authorization_def authorization_matches_def)


text \<open>A coordinator that keeps the result of an accepted acknowledgement.\<close>

definition demo_committed :: coordinator where
  "demo_committed = demo_authorized\<lparr>co_pendingBySession := [], co_pendingById := [], co_completedById := [(js ''proposal'', demo_completed)],
     co_commits := [\<lparr>ci_proposal = demo_proposal, ci_authorization = demo_authorization, ci_acknowledgement = demo_ack,
       ci_observed = demo_observed_record, ci_reconciliation = ak_sourceSequence demo_ack\<rparr>]\<rparr>"

lemma demo_committed_ok: "adoption_ok demo_committed"
proof (rule adoption_okI)
  note m = demo_committed_def demo_authorized_def demo_coordinator_def new_coordinator_def
  have c: "map ci_id (co_commits demo_committed) = [js ''proposal'']" by (simp add: demo_committed_def ci_id_def demo_proposal_def)
  have "pw_verify (demo_ports 0) demo_proposal demo_authorization = Inr True" by (simp add: demo_ports_def demo_authorization_def)
  moreover have "authorization_matches demo_proposal demo_authorization"
    by (simp add: authorization_matches_def demo_proposal_def demo_authorization_def)
  ultimately have "verified demo_committed demo_proposal demo_authorization" by (auto simp: verified_def m)
  moreover have "proposal_bound demo_committed demo_proposal"
    by (simp add: proposal_bound_def m demo_proposal_def demo_sha256_def)
  moreover have "requested demo_committed demo_proposal" by (auto simp: requested_def m)
  moreover have "acknowledgement_matches demo_proposal demo_ack" "ak_decision demo_ack \<noteq> Refused" "ak_activity demo_ack = Idle_activity"
    by (simp_all add: acknowledgement_matches_def demo_proposal_def demo_ack_def demo_adoption_ids_def)
  moreover have "identity_matches (pr_ids demo_proposal) demo_observed_record" "revision_is demo_observed_record (pr_registryRevision demo_proposal)"
    "sequence_current demo_observed_record (ak_sourceSequence demo_ack)" "eligible demo_observed_record (pr_target demo_proposal)"
    by code_simp+
  ultimately have "list_all (commit_ok demo_committed) (co_commits demo_committed)" by (simp add: demo_committed_def commit_ok_def)
  then show "commits_good demo_committed" unfolding commits_good_def c
    by (auto simp: list_all_iff m ci_id_def demo_proposal_def)
  show "completed_good demo_committed"
    by (simp add: completed_good_def demo_committed_def kept_for_def demo_completed_def ADOPTION_IDEMPOTENCY_LIMIT_def)
       (simp add: demo_proposal_def)
qed (simp_all add: demo_committed_def maps_agree_def agree_def all_pending_ok_def used_good_def log_good_def demo_authorized_def
    demo_coordinator_def new_coordinator_def)

lemma adoption_retry_commits_nothing_witness:
  "fst (acceptAcknowledgement 7 demo_ack_input demo_committed)
     \<in> {Inr (cd_result demo_completed, []), Inl (Observer_error Postcommit_delivery_failed)}"
proof -
  have "map_of (co_completedById demo_committed) (ak_proposalId demo_ack) = Some demo_completed"
    by (simp add: demo_committed_def demo_ack_def)
  moreover have "cd_connection demo_completed = Some 7" "cd_acknowledgement demo_completed = demo_ack" "cd_identity demo_completed = []"
    by (simp_all add: demo_completed_def)
  ultimately show ?thesis using adoption_retry_commits_nothing [OF demo_committed_ok demo_ack_valid, of demo_completed 7] by simp
qed

end
