(* ===== verification/AdoptionStore.thy ===== *)
theory AdoptionStore
  imports ObserverContracts Effects
begin

text \<open>
  observer/live-adoption-store.ts: the transactional contract of committed Adoptions, its
  validators and its in-memory implementation. The closure variables of the implementation are the
  fields of a record; \<open>agentRunIdFactory\<close> is the function \<open>as_factory\<close> of the number of
  identifiers drawn before. A callback of a transaction returns no promise in the model.
\<close>

definition ADOPTION_STORE_MAX_RUNS :: nat where "ADOPTION_STORE_MAX_RUNS = 64"
definition ADOPTION_STORE_MAX_EVENTS :: nat where "ADOPTION_STORE_MAX_EVENTS = 256"

text \<open>
  The errors of the Adoption runner and its two stores: \<open>ObserverError\<close>, \<open>RetirementError\<close>, \<open>TypeError\<close>, and \<open>Error\<close> with a message.
\<close>

datatype retirement_code =
    Rc_invalid_envelope | Rc_stale_revision | Rc_not_eligible | Rc_role_mismatch | Rc_node_mismatch
  | Rc_already_retired | Rc_predecessor_unknown | Rc_predecessor_mismatch | Rc_vacancy_stale
  | Rc_invalid_vacancy | Rc_role_occupied | Rc_transaction_failed | Rc_not_retired | Rc_purge_blocked

datatype runner_failure =
    Observer_failed observer_code | Retirement_failed retirement_code | Type_failed | Plain_failed string

section \<open>Data\<close>

record binding_identity =
  bi_executionNodeId :: jstr
  bi_processIncarnationId :: jstr
  bi_piSessionId :: jstr
  bi_extensionInstanceId :: jstr

record committed_identity = binding_identity +
  cy_observedSessionId :: jstr

record committed_run =
  cr_proposalId :: jstr
  cr_proposalDigest :: jstr
  cr_agentRunId :: jstr
  cr_observedSessionId :: jstr
  cr_executionNodeId :: jstr
  cr_processIncarnationId :: jstr
  cr_piSessionId :: jstr
  cr_extensionInstanceId :: jstr
  cr_targetTeamGoalId :: jstr
  cr_targetRole :: role
  cr_piStatus :: jstr
  cr_terminalTitleMetadata :: jstr
  cr_committedAt :: int

record adopted_event =
  ad_sequence :: int
  ad_proposalId :: jstr
  ad_observedSessionId :: jstr
  ad_agentRunId :: jstr
  ad_targetTeamGoalId :: jstr
  ad_targetRole :: role

record durable_state =
  du_executionNodeId :: jstr
  du_teamGoalId :: jstr
  du_roles :: "role list"
  du_committedRuns :: "committed_run list"
  du_cursor :: int
  du_events :: "adopted_event list"

section \<open>Validators\<close>

definition type_fail :: "runner_failure + 'a" where "type_fail = Inl Type_failed"

definition store_text :: "(jstr \<Rightarrow> bool) \<Rightarrow> json option \<Rightarrow> runner_failure + jstr" where
  "store_text ok v = (case string_of v of None \<Rightarrow> type_fail | Some s \<Rightarrow> if ok s then Inr s else type_fail)"

definition requireId_s :: "json option \<Rightarrow> runner_failure + jstr" where "requireId_s = store_text ID_RE"

definition requireDigest_s :: "json option \<Rightarrow> runner_failure + jstr" where "requireDigest_s = store_text SHA256_RE"

definition requireBoundedText_s :: "json option \<Rightarrow> nat \<Rightarrow> runner_failure + jstr" where
  "requireBoundedText_s v n = store_text (\<lambda>s. s \<noteq> [] \<and> codePoints s \<le> n) v"

definition requireRole_s :: "json option \<Rightarrow> runner_failure + role" where
  "requireRole_s v =
     (case string_of v of
        None \<Rightarrow> type_fail
      | Some s \<Rightarrow> (case enum_of ROLES s of None \<Rightarrow> type_fail | Some r \<Rightarrow> Inr r))"

definition requireNonNegativeInt_s :: "json option \<Rightarrow> runner_failure + int" where
  "requireNonNegativeInt_s v =
     (case whole_of v of
        None \<Rightarrow> type_fail
      | Some n \<Rightarrow> if 0 \<le> n \<and> n \<le> MAX_SAFE_INTEGER then Inr n else type_fail)"

definition plain_record :: "json option \<Rightarrow> runner_failure + obj" where
  "plain_record v = (case object_of v of None \<Rightarrow> type_fail | Some m \<Rightarrow> Inr m)"

lemma store_fields_iff [result_simps]:
  "store_text ok v = Inr s \<longleftrightarrow> v = Some (JStr s) \<and> ok s"
  "requireId_s v = Inr s \<longleftrightarrow> v = Some (JStr s) \<and> ID_RE s"
  "requireDigest_s v = Inr s \<longleftrightarrow> v = Some (JStr s) \<and> SHA256_RE s"
  "requireBoundedText_s v n = Inr s \<longleftrightarrow> v = Some (JStr s) \<and> s \<noteq> [] \<and> codePoints s \<le> n"
  "requireRole_s v = Inr r \<longleftrightarrow> v = Some (JEnum ROLES r)"
  "requireNonNegativeInt_s v = Inr k \<longleftrightarrow> v = Some (JWhole k) \<and> 0 \<le> k \<and> k \<le> MAX_SAFE_INTEGER"
  "plain_record v = Inr m \<longleftrightarrow> v = Some (JObj m)"
  by (auto simp: store_text_def requireId_s_def requireDigest_s_def requireBoundedText_s_def requireRole_s_def
      requireNonNegativeInt_s_def plain_record_def type_fail_def enum_of_iff split: option.splits)

text \<open>The object literal of a run and of an event, as \<open>snapshot\<close> returns them.\<close>

definition run_json :: "committed_run \<Rightarrow> obj" where
  "run_json r =
     [(js ''proposalId'', JStr (cr_proposalId r)), (js ''proposalDigest'', JStr (cr_proposalDigest r)),
      (js ''agentRunId'', JStr (cr_agentRunId r)), (js ''observedSessionId'', JStr (cr_observedSessionId r)),
      (js ''executionNodeId'', JStr (cr_executionNodeId r)),
      (js ''processIncarnationId'', JStr (cr_processIncarnationId r)),
      (js ''piSessionId'', JStr (cr_piSessionId r)), (js ''extensionInstanceId'', JStr (cr_extensionInstanceId r)),
      (js ''targetTeamGoalId'', JStr (cr_targetTeamGoalId r)), (js ''targetRole'', JEnum ROLES (cr_targetRole r)),
      (js ''controlMode'', JStr (js ''managed'')), (js ''piStatus'', JStr (cr_piStatus r)),
      (js ''terminalTitleMetadata'', JStr (cr_terminalTitleMetadata r)), (js ''runtimeBinding'', JNull),
      (js ''runtimeBindingGuarantee'', JStr (js ''unavailable'')), (js ''committedAt'', JWhole (cr_committedAt r))]"

definition adopted_event_json :: "adopted_event \<Rightarrow> obj" where
  "adopted_event_json e =
     [(js ''sequence'', JWhole (ad_sequence e)), (js ''type'', JStr (js ''adopted'')),
      (js ''proposalId'', JStr (ad_proposalId e)), (js ''observedSessionId'', JStr (ad_observedSessionId e)),
      (js ''agentRunId'', JStr (ad_agentRunId e)), (js ''targetTeamGoalId'', JStr (ad_targetTeamGoalId e)),
      (js ''targetRole'', JEnum ROLES (ad_targetRole e))]"

definition durable_json :: "durable_state \<Rightarrow> json" where
  "durable_json d = JObj
     [(js ''executionNodeId'', JStr (du_executionNodeId d)), (js ''teamGoalId'', JStr (du_teamGoalId d)),
      (js ''roles'', JArr (map (JEnum ROLES) (du_roles d))),
      (js ''committedRuns'', JArr (map (\<lambda>r. JObj (run_json r)) (du_committedRuns d))),
      (js ''cursor'', JWhole (du_cursor d)), (js ''events'', JArr (map (\<lambda>e. JObj (adopted_event_json e)) (du_events d)))]"

definition validateCommittedAdoption :: "json option \<Rightarrow> runner_failure + committed_run" where
  "validateCommittedAdoption input =
     andThen (plain_record input) (\<lambda>m.
     andThen (requireRole_s (own_prop m ''targetRole'')) (\<lambda>targetRole.
     andThen (guardR (own_prop m ''controlMode'' = Some (JStr (js ''managed''))) Type_failed) (\<lambda>_.
     andThen (guardR (own_prop m ''runtimeBinding'' = Some JNull) Type_failed) (\<lambda>_.
     andThen (guardR (own_prop m ''runtimeBindingGuarantee'' = Some (JStr (js ''unavailable''))) Type_failed) (\<lambda>_.
     andThen (requireId_s (own_prop m ''proposalId'')) (\<lambda>proposalId.
     andThen (requireDigest_s (own_prop m ''proposalDigest'')) (\<lambda>proposalDigest.
     andThen (requireId_s (own_prop m ''agentRunId'')) (\<lambda>agentRunId.
     andThen (requireId_s (own_prop m ''observedSessionId'')) (\<lambda>observedSessionId.
     andThen (requireId_s (own_prop m ''executionNodeId'')) (\<lambda>executionNodeId.
     andThen (requireId_s (own_prop m ''processIncarnationId'')) (\<lambda>processIncarnationId.
     andThen (requireId_s (own_prop m ''piSessionId'')) (\<lambda>piSessionId.
     andThen (requireId_s (own_prop m ''extensionInstanceId'')) (\<lambda>extensionInstanceId.
     andThen (requireId_s (own_prop m ''targetTeamGoalId'')) (\<lambda>targetTeamGoalId.
     andThen (requireBoundedText_s (own_prop m ''piStatus'') 512) (\<lambda>piStatus.
     andThen (requireBoundedText_s (own_prop m ''terminalTitleMetadata'') 512) (\<lambda>terminalTitleMetadata.
     andThen (requireNonNegativeInt_s (own_prop m ''committedAt'')) (\<lambda>committedAt.
     Inr \<lparr>cr_proposalId = proposalId, cr_proposalDigest = proposalDigest, cr_agentRunId = agentRunId,
          cr_observedSessionId = observedSessionId, cr_executionNodeId = executionNodeId,
          cr_processIncarnationId = processIncarnationId, cr_piSessionId = piSessionId,
          cr_extensionInstanceId = extensionInstanceId, cr_targetTeamGoalId = targetTeamGoalId,
          cr_targetRole = targetRole, cr_piStatus = piStatus, cr_terminalTitleMetadata = terminalTitleMetadata,
          cr_committedAt = committedAt\<rparr>)))))))))))))))))"

definition validateAdoptionEvent :: "json option \<Rightarrow> runner_failure + adopted_event" where
  "validateAdoptionEvent input =
     andThen (plain_record input) (\<lambda>m.
     andThen (guardR (own_prop m ''type'' = Some (JStr (js ''adopted''))) Type_failed) (\<lambda>_.
     andThen (requireNonNegativeInt_s (own_prop m ''sequence'')) (\<lambda>sequence.
     andThen (requireId_s (own_prop m ''proposalId'')) (\<lambda>proposalId.
     andThen (requireId_s (own_prop m ''observedSessionId'')) (\<lambda>observedSessionId.
     andThen (requireId_s (own_prop m ''agentRunId'')) (\<lambda>agentRunId.
     andThen (requireId_s (own_prop m ''targetTeamGoalId'')) (\<lambda>targetTeamGoalId.
     andThen (requireRole_s (own_prop m ''targetRole'')) (\<lambda>targetRole.
     Inr \<lparr>ad_sequence = sequence, ad_proposalId = proposalId, ad_observedSessionId = observedSessionId,
          ad_agentRunId = agentRunId, ad_targetTeamGoalId = targetTeamGoalId, ad_targetRole = targetRole\<rparr>))))))))"

definition bounded_list :: "json option \<Rightarrow> (nat \<Rightarrow> bool) \<Rightarrow> (json option \<Rightarrow> runner_failure + 'a) \<Rightarrow> runner_failure + 'a list" where
  "bounded_list v ok f =
     (case array_of v of
        None \<Rightarrow> type_fail
      | Some vs \<Rightarrow> if ok (length vs) then mapR (\<lambda>x. f (Some x)) vs else type_fail)"

definition validateDurableAdoptionState :: "json option \<Rightarrow> runner_failure + durable_state" where
  "validateDurableAdoptionState input =
     andThen (plain_record input) (\<lambda>m.
     andThen (requireId_s (own_prop m ''executionNodeId'')) (\<lambda>executionNodeId.
     andThen (requireId_s (own_prop m ''teamGoalId'')) (\<lambda>teamGoalId.
     andThen (bounded_list (own_prop m ''roles'') (\<lambda>n. 0 < n \<and> n \<le> 3) requireRole_s) (\<lambda>roles.
     andThen (bounded_list (own_prop m ''committedRuns'') (\<lambda>n. n \<le> ADOPTION_STORE_MAX_RUNS) validateCommittedAdoption) (\<lambda>runs.
     andThen (requireNonNegativeInt_s (own_prop m ''cursor'')) (\<lambda>cursor.
     andThen (bounded_list (own_prop m ''events'') (\<lambda>n. n \<le> ADOPTION_STORE_MAX_EVENTS) validateAdoptionEvent) (\<lambda>events.
     Inr \<lparr>du_executionNodeId = executionNodeId, du_teamGoalId = teamGoalId, du_roles = roles,
          du_committedRuns = runs, du_cursor = cursor, du_events = events\<rparr>)))))))"

section \<open>The in-memory store\<close>

record adoption_store =
  as_executionNodeId :: jstr
  as_teamGoalId :: jstr
  as_roles :: "role list"
  as_factory :: "nat \<Rightarrow> jstr"
  as_drawn :: nat
  as_committed :: "committed_run list"
  as_cursor :: int
  as_events :: "adopted_event list"
  as_takeovers :: "jstr list"

type_synonym 'a as = "(runner_failure, adoption_store, 'a) eff"

definition createInMemoryAdoptionStore :: "jstr \<Rightarrow> jstr \<Rightarrow> role list \<Rightarrow> (nat \<Rightarrow> jstr) \<Rightarrow> adoption_store" where
  "createInMemoryAdoptionStore executionNodeId teamGoalId roles factory =
     \<lparr>as_executionNodeId = executionNodeId, as_teamGoalId = teamGoalId, as_roles = roles, as_factory = factory,
      as_drawn = 0, as_committed = [], as_cursor = 0, as_events = [], as_takeovers = []\<rparr>"

definition committedIdentityOf :: "committed_run \<Rightarrow> committed_identity" where
  "committedIdentityOf r =
     \<lparr>bi_executionNodeId = cr_executionNodeId r, bi_processIncarnationId = cr_processIncarnationId r,
      bi_piSessionId = cr_piSessionId r, bi_extensionInstanceId = cr_extensionInstanceId r,
      cy_observedSessionId = cr_observedSessionId r\<rparr>"

definition bindingOf :: "committed_identity \<Rightarrow> binding_identity" where
  "bindingOf i =
     \<lparr>bi_executionNodeId = bi_executionNodeId i, bi_processIncarnationId = bi_processIncarnationId i,
      bi_piSessionId = bi_piSessionId i, bi_extensionInstanceId = bi_extensionInstanceId i\<rparr>"

definition sameBinding :: "('r committed_run_scheme) \<Rightarrow> binding_identity \<Rightarrow> bool" where
  "sameBinding r b \<longleftrightarrow>
     cr_executionNodeId r = bi_executionNodeId b \<and> cr_processIncarnationId r = bi_processIncarnationId b \<and>
     cr_piSessionId r = bi_piSessionId b \<and> cr_extensionInstanceId r = bi_extensionInstanceId b"

definition sameIdentity :: "committed_run \<Rightarrow> committed_identity \<Rightarrow> bool" where
  "sameIdentity r i = sameBinding r (bindingOf i)"

definition committedByIdentity :: "committed_identity \<Rightarrow> adoption_store \<Rightarrow> committed_run option" where
  "committedByIdentity i s = List.find (\<lambda>r. sameIdentity r i) (as_committed s)"

definition committedByProposal :: "jstr \<Rightarrow> adoption_store \<Rightarrow> committed_run option" where
  "committedByProposal p s = List.find (\<lambda>r. cr_proposalId r = p) (as_committed s)"

definition committedByBinding_s :: "binding_identity \<Rightarrow> adoption_store \<Rightarrow> committed_run option" where
  "committedByBinding_s b s = List.find (\<lambda>r. sameBinding r b) (as_committed s)"

definition isRoleOccupied :: "jstr \<Rightarrow> role \<Rightarrow> adoption_store \<Rightarrow> bool" where
  "isRoleOccupied goal role s = list_ex (\<lambda>r. cr_targetTeamGoalId r = goal \<and> cr_targetRole r = role) (as_committed s)"

definition isIdentityCommitted :: "committed_identity \<Rightarrow> adoption_store \<Rightarrow> bool" where
  "isIdentityCommitted i s = list_ex (\<lambda>r. sameIdentity r i) (as_committed s)"

definition isBindingCommitted :: "binding_identity \<Rightarrow> adoption_store \<Rightarrow> bool" where
  "isBindingCommitted b s = list_ex (\<lambda>r. sameBinding r b) (as_committed s)"

definition eventsAfter_s :: "int \<Rightarrow> adoption_store \<Rightarrow> adopted_event list" where
  "eventsAfter_s cursor s = filter (\<lambda>e. cursor < ad_sequence e) (as_events s)"

text \<open>\<open>role.slice(0, 1).toUpperCase() + role.slice(1)\<close>, for the lower-case names of roles.\<close>

definition roleLabel :: "role \<Rightarrow> jstr" where
  "roleLabel r = (case enum_text ROLES r of [] \<Rightarrow> [] | c # cs \<Rightarrow> (c - 32) # cs)"

definition managed_status :: "role \<Rightarrow> jstr" where
  "managed_status r = roleLabel r @ [32, 183] @ js '' managed''"

definition managed_title :: "role \<Rightarrow> jstr" where
  "managed_title r = js ''Omarchestra '' @ [8212, 32] @ roleLabel r @ [32, 8212] @ js '' managed''"

definition draw_run :: "jstr as" where
  "draw_run s = (Inr (as_factory s (as_drawn s)), s\<lparr>as_drawn := Suc (as_drawn s)\<rparr>)"

definition event_of_run :: "int \<Rightarrow> committed_run \<Rightarrow> adopted_event" where
  "event_of_run n r =
     \<lparr>ad_sequence = n, ad_proposalId = cr_proposalId r, ad_observedSessionId = cr_observedSessionId r,
      ad_agentRunId = cr_agentRunId r, ad_targetTeamGoalId = cr_targetTeamGoalId r, ad_targetRole = cr_targetRole r\<rparr>"

definition record_run :: "committed_run \<Rightarrow> unit as" where
  "record_run r = modifyE (\<lambda>s. s\<lparr>as_committed := as_committed s @ [r], as_cursor := as_cursor s + 1,
     as_events := as_events s @ [event_of_run (as_cursor s + 1) r]\<rparr>)"

definition commitAdoption_s :: "obj \<Rightarrow> committed_run as" where
  "commitAdoption_s input =
     bindE (liftE (plain_record (own_prop input ''proposal''))) (\<lambda>m.
     bindE (liftE (requireRole_s (own_prop m ''targetRole''))) (\<lambda>role.
     bindE (liftE (requireId_s (own_prop m ''targetTeamGoalId''))) (\<lambda>teamGoalId.
     bindE (liftE (requireId_s (own_prop m ''observedSessionId''))) (\<lambda>observedSessionId.
     bindE (liftE (requireId_s (own_prop m ''executionNodeId''))) (\<lambda>executionNodeId.
     bindE (liftE (requireId_s (own_prop m ''processIncarnationId''))) (\<lambda>processIncarnationId.
     bindE (liftE (requireId_s (own_prop m ''piSessionId''))) (\<lambda>piSessionId.
     bindE (liftE (requireId_s (own_prop m ''extensionInstanceId''))) (\<lambda>extensionInstanceId.
     let identity = \<lparr>bi_executionNodeId = executionNodeId, bi_processIncarnationId = processIncarnationId,
           bi_piSessionId = piSessionId, bi_extensionInstanceId = extensionInstanceId,
           cy_observedSessionId = observedSessionId\<rparr>
     in bindE (getE (isRoleOccupied teamGoalId role)) (\<lambda>occupied.
        thenE (requireE (\<not> occupied) (Plain_failed ''role_occupied''))
       (bindE (getE (isIdentityCommitted identity)) (\<lambda>managed.
        thenE (requireE (\<not> managed) (Plain_failed ''already_managed''))
       (bindE (liftE (requireId_s (own_prop m ''proposalId''))) (\<lambda>proposalId.
        bindE (liftE (requireDigest_s (own_prop m ''proposalDigest''))) (\<lambda>proposalDigest.
        bindE draw_run (\<lambda>agentRunId.
        let run = \<lparr>cr_proposalId = proposalId, cr_proposalDigest = proposalDigest, cr_agentRunId = agentRunId,
              cr_observedSessionId = observedSessionId, cr_executionNodeId = executionNodeId,
              cr_processIncarnationId = processIncarnationId, cr_piSessionId = piSessionId,
              cr_extensionInstanceId = extensionInstanceId, cr_targetTeamGoalId = teamGoalId, cr_targetRole = role,
              cr_piStatus = managed_status role, cr_terminalTitleMetadata = managed_title role, cr_committedAt = 0\<rparr>
        in thenE (record_run run) (retE run))))))))))))))))"

definition purgeCommittedRun :: "jstr \<Rightarrow> unit as" where
  "purgeCommittedRun agentRunId = modifyE (\<lambda>s. s
     \<lparr>as_committed := filter (\<lambda>r. cr_agentRunId r \<noteq> agentRunId) (as_committed s),
      as_events := filter (\<lambda>e. ad_agentRunId e \<noteq> agentRunId) (as_events s),
      as_takeovers := filter (\<lambda>i. i \<noteq> agentRunId) (as_takeovers s)\<rparr>)"

definition recordManualTakeover :: "jstr \<Rightarrow> unit as" where
  "recordManualTakeover i =
     bindE (getE (\<lambda>s. list_ex (\<lambda>r. cr_agentRunId r = i) (as_committed s))) (\<lambda>known.
     thenE (requireE known (Plain_failed ''unknown Agent Run''))
           (modifyE (\<lambda>s. s\<lparr>as_takeovers := List.insert i (as_takeovers s)\<rparr>)))"

definition isManualTakeover :: "jstr \<Rightarrow> adoption_store \<Rightarrow> bool" where
  "isManualTakeover i s \<longleftrightarrow> i \<in> set (as_takeovers s)"

definition transaction_s :: "'a as \<Rightarrow> 'a as" where
  "transaction_s m s =
     (case m s of
        (Inl e, s') \<Rightarrow> (Inl e, s'\<lparr>as_committed := as_committed s, as_cursor := as_cursor s, as_events := as_events s,
                          as_takeovers := as_takeovers s\<rparr>)
      | (Inr x, s') \<Rightarrow> (Inr x, s'))"

definition snapshot_s :: "adoption_store \<Rightarrow> durable_state" where
  "snapshot_s s =
     \<lparr>du_executionNodeId = as_executionNodeId s, du_teamGoalId = as_teamGoalId s, du_roles = as_roles s,
      du_committedRuns = as_committed s, du_cursor = as_cursor s, du_events = as_events s\<rparr>"

definition close_s :: "adoption_store \<Rightarrow> adoption_store" where
  "close_s s = s\<lparr>as_committed := [], as_events := [], as_takeovers := [], as_cursor := 0\<rparr>"

datatype store_op =
    Commit_run obj
  | Purge_run jstr
  | Record_takeover jstr
  | Close_store

fun store_step :: "store_op \<Rightarrow> adoption_store \<Rightarrow> adoption_store" where
  "store_step (Commit_run input) s = snd (transaction_s (commitAdoption_s input) s)"
| "store_step (Purge_run i) s = snd (purgeCommittedRun i s)"
| "store_step (Record_takeover i) s = snd (recordManualTakeover i s)"
| "store_step Close_store s = close_s s"

section \<open>What the store keeps\<close>

text \<open>No Role and no process binding has two runs; every run has its event, in order, and no other event is kept.\<close>

definition binding_of_run :: "('r committed_run_scheme) \<Rightarrow> binding_identity" where
  "binding_of_run r =
     \<lparr>bi_executionNodeId = cr_executionNodeId r, bi_processIncarnationId = cr_processIncarnationId r,
      bi_piSessionId = cr_piSessionId r, bi_extensionInstanceId = cr_extensionInstanceId r\<rparr>"

definition role_of_run :: "('r committed_run_scheme) \<Rightarrow> jstr \<times> role" where
  "role_of_run r = (cr_targetTeamGoalId r, cr_targetRole r)"

definition runs_distinct :: "committed_run list \<Rightarrow> bool" where
  "runs_distinct rs \<longleftrightarrow> distinct (map binding_of_run rs) \<and> distinct (map role_of_run rs)"

definition events_match :: "adoption_store \<Rightarrow> bool" where
  "events_match s \<longleftrightarrow>
     list_all2 (\<lambda>r e. e = event_of_run (ad_sequence e) r) (as_committed s) (as_events s) \<and>
     sorted_wrt (<) (map ad_sequence (as_events s)) \<and>
     list_all (\<lambda>e. 0 < ad_sequence e \<and> ad_sequence e \<le> as_cursor s) (as_events s) \<and> 0 \<le> as_cursor s"

definition run_ok :: "(jstr \<Rightarrow> bool) \<Rightarrow> committed_run \<Rightarrow> bool" where
  "run_ok drawn r \<longleftrightarrow>
     ID_RE (cr_proposalId r) \<and> SHA256_RE (cr_proposalDigest r) \<and> drawn (cr_agentRunId r) \<and>
     ID_RE (cr_observedSessionId r) \<and> ID_RE (cr_executionNodeId r) \<and> ID_RE (cr_processIncarnationId r) \<and>
     ID_RE (cr_piSessionId r) \<and> ID_RE (cr_extensionInstanceId r) \<and> ID_RE (cr_targetTeamGoalId r) \<and>
     cr_piStatus r = managed_status (cr_targetRole r) \<and> cr_terminalTitleMetadata r = managed_title (cr_targetRole r) \<and>
     cr_committedAt r = 0"

definition store_ok :: "adoption_store \<Rightarrow> bool" where
  "store_ok s \<longleftrightarrow>
     runs_distinct (as_committed s) \<and> events_match s \<and>
     list_all (run_ok (\<lambda>i. i \<in> range (as_factory s))) (as_committed s) \<and>
     set (as_takeovers s) \<subseteq> set (map cr_agentRunId (as_committed s))"


lemma new_store_ok: "store_ok (createInMemoryAdoptionStore n g rs f)"
  by (simp add: store_ok_def createInMemoryAdoptionStore_def runs_distinct_def events_match_def)

lemma same_binding_iff: "sameBinding r b \<longleftrightarrow> binding_of_run r = b"
  by (cases b) (simp add: sameBinding_def binding_of_run_def)

lemma occupied_iff: "isRoleOccupied g role s \<longleftrightarrow> (g, role) \<in> role_of_run ` set (as_committed s)"
  by (auto simp: isRoleOccupied_def role_of_run_def list_ex_iff)

lemma committed_iff: "isBindingCommitted b s \<longleftrightarrow> b \<in> binding_of_run ` set (as_committed s)"
  "isIdentityCommitted i s \<longleftrightarrow> bindingOf i \<in> binding_of_run ` set (as_committed s)"
  by (auto simp: isBindingCommitted_def isIdentityCommitted_def sameIdentity_def list_ex_iff same_binding_iff intro: rev_image_eqI)

lemma record_run_ok:
  assumes ok: "store_ok s" and new: "binding_of_run r \<notin> binding_of_run ` set (as_committed s)"
      "role_of_run r \<notin> role_of_run ` set (as_committed s)" "run_ok (\<lambda>i. i \<in> range (as_factory s)) r"
  shows "wpE (record_run r) (\<lambda>_ s'. store_ok s' \<and> as_committed s' = as_committed s @ [r] \<and> as_cursor s' = as_cursor s + 1) (\<lambda>_ _. False) s"
proof -
  have e: "events_match s" and d: "runs_distinct (as_committed s)" using ok by (simp_all add: store_ok_def)
  have "events_match (s\<lparr>as_committed := as_committed s @ [r], as_cursor := as_cursor s + 1, as_events := as_events s @ [event_of_run (as_cursor s + 1) r]\<rparr>)"
    using e by (auto simp: events_match_def list_all2_appendI sorted_wrt_append event_of_run_def list_all_iff)
  moreover have "runs_distinct (as_committed s @ [r])" using d new(1,2) by (simp add: runs_distinct_def)
  ultimately show ?thesis using ok new(3) by (auto simp: record_run_def wpE_simps store_ok_def)
qed

text \<open>A commit adds one run, for a Role and a binding that had none, or it fails and draws nothing but an identifier.\<close>

definition same_books :: "adoption_store \<Rightarrow> adoption_store \<Rightarrow> bool" where
  "same_books s s' \<longleftrightarrow> as_committed s' = as_committed s \<and> as_cursor s' = as_cursor s \<and> as_events s' = as_events s \<and>
     as_takeovers s' = as_takeovers s \<and> as_factory s' = as_factory s \<and> as_executionNodeId s' = as_executionNodeId s \<and>
     as_teamGoalId s' = as_teamGoalId s \<and> as_roles s' = as_roles s"

lemma same_books_ok: "same_books s s' \<Longrightarrow> store_ok s \<Longrightarrow> store_ok s'"
  by (simp add: same_books_def store_ok_def events_match_def)

lemma same_books_refl [simp]: "same_books s s"
  by (simp add: same_books_def)

lemma drawn_ok: "store_ok (s\<lparr>as_drawn := n\<rparr>) = store_ok s"
  by (simp add: store_ok_def events_match_def)

lemma wpE_draw_run: "wpE draw_run Q E s = Q (as_factory s (as_drawn s)) (s\<lparr>as_drawn := Suc (as_drawn s)\<rparr>)"
  by (simp add: draw_run_def wpE_def)

lemma commit_run_ok:
  assumes ok: "store_ok s"
  shows "wpE (commitAdoption_s input)
     (\<lambda>r s'. store_ok s' \<and> as_committed s' = as_committed s @ [r] \<and> as_cursor s' = as_cursor s + 1)
     (\<lambda>_ s'. same_books s s') s"
proof -
  let ?Q = "\<lambda>r s'. store_ok s' \<and> as_committed s' = as_committed s @ [r] \<and> as_cursor s' = as_cursor s + 1"
  have rec: "wpE (record_run r) (\<lambda>_. wpE (retE r) ?Q (\<lambda>_ s'. same_books s s')) (\<lambda>_ s'. same_books s s') (s\<lparr>as_drawn := n\<rparr>)"
    if "\<not> isRoleOccupied (cr_targetTeamGoalId r) (cr_targetRole r) s" "\<not> isIdentityCommitted (committedIdentityOf r) s"
      "run_ok (\<lambda>i. i \<in> range (as_factory s)) r" for r n
  proof (rule wpE_mono [OF record_run_ok])
    have "bindingOf (committedIdentityOf r) = binding_of_run r" by (simp add: bindingOf_def committedIdentityOf_def binding_of_run_def)
    then show "binding_of_run r \<notin> binding_of_run ` set (as_committed (s\<lparr>as_drawn := n\<rparr>))"
      using that(2) by (simp add: committed_iff)
    show "role_of_run r \<notin> role_of_run ` set (as_committed (s\<lparr>as_drawn := n\<rparr>))"
      using that(1) by (simp add: occupied_iff role_of_run_def)
  qed (use ok that(3) in \<open>simp_all add: wpE_simps drawn_ok\<close>)
  have [simp]: "same_books s (s\<lparr>as_drawn := n\<rparr>)" for n by (simp add: same_books_def)
  show ?thesis
    unfolding commitAdoption_s_def Let_def
    by (auto simp: wpE_bind wpE_then wpE_basic(3,5,6) wpE_draw_run result_simps run_ok_def committedIdentityOf_def
        split: sum.splits intro!: rec)
qed


lemma list_all2_filter: "list_all2 P xs ys \<Longrightarrow> (\<And>x y. P x y \<Longrightarrow> f x = g y) \<Longrightarrow> list_all2 P (filter f xs) (filter g ys)"
  by (induction rule: list_all2_induct) auto

lemma purge_run_ok: "store_ok s \<Longrightarrow> store_ok (snd (purgeCommittedRun i s))"
proof -
  assume ok: "store_ok s"
  let ?t = "snd (purgeCommittedRun i s)"
  have t: "as_committed ?t = filter (\<lambda>r. cr_agentRunId r \<noteq> i) (as_committed s)" "as_events ?t = filter (\<lambda>e. ad_agentRunId e \<noteq> i) (as_events s)"
    "as_cursor ?t = as_cursor s" "as_factory ?t = as_factory s" "as_takeovers ?t = filter (\<lambda>j. j \<noteq> i) (as_takeovers s)"
    by (simp_all add: purgeCommittedRun_def modifyE_def)
  have e: "events_match s" using ok by (simp add: store_ok_def)
  have "list_all2 (\<lambda>r e. e = event_of_run (ad_sequence e) r) (as_committed ?t) (as_events ?t)"
    unfolding t by (rule list_all2_filter) (use e in \<open>simp_all add: events_match_def\<close>, metis adopted_event.select_convs(4) event_of_run_def)
  moreover have "sorted_wrt (<) (map ad_sequence (as_events ?t))"
    unfolding t sorted_wrt_map by (rule sorted_wrt_filter) (use e in \<open>simp add: events_match_def sorted_wrt_map\<close>)
  ultimately have "events_match ?t" using e by (simp add: events_match_def t list_all_iff)
  moreover have "runs_distinct (as_committed ?t)" using ok by (simp add: t store_ok_def runs_distinct_def distinct_map_filter)
  ultimately show ?thesis using ok unfolding store_ok_def t by (auto simp: list_all_iff)
qed

lemma takeover_ok: "store_ok s \<Longrightarrow> store_ok (snd (recordManualTakeover i s))"
  by (auto simp: recordManualTakeover_def bindE_def thenE_def getE_def requireE_def retE_def throwE_def modifyE_def store_ok_def
      events_match_def list_ex_iff)

lemma transaction_commit_ok: "store_ok s \<Longrightarrow> store_ok (snd (transaction_s (commitAdoption_s input) s))"
  using commit_run_ok [of s input]
  by (auto simp: transaction_s_def wpE_def store_ok_def events_match_def same_books_def split: prod.splits sum.splits)

lemma close_store_ok: "store_ok (close_s s)"
  by (simp add: close_s_def store_ok_def events_match_def runs_distinct_def)

lemma store_step_ok: "store_ok s \<Longrightarrow> store_ok (store_step x s)"
  by (cases x) (simp_all add: transaction_commit_ok purge_run_ok takeover_ok close_store_ok)

text \<open>A failing transaction leaves every table as it was.\<close>

lemma transaction_failed: "fst (transaction_s m s) = Inl e \<Longrightarrow>
   as_committed (snd (transaction_s m s)) = as_committed s \<and> as_cursor (snd (transaction_s m s)) = as_cursor s \<and>
   as_events (snd (transaction_s m s)) = as_events s \<and> as_takeovers (snd (transaction_s m s)) = as_takeovers s"
  by (auto simp: transaction_s_def split: prod.splits sum.splits)


section \<open>Its snapshot\<close>

lemma managed_labels_bounded: "managed_status r \<noteq> []" "codePoints (managed_status r) \<le> 512"
  "managed_title r \<noteq> []" "codePoints (managed_title r) \<le> 512"
proof -
  have "length (roleLabel r) \<le> 16" by (cases r) (simp_all add: roleLabel_def ROLES_def enum_text_def js_def)
  then have "length (managed_status r) \<le> 512" "length (managed_title r) \<le> 512" by (simp_all add: managed_status_def managed_title_def)
  then show "codePoints (managed_status r) \<le> 512" "codePoints (managed_title r) \<le> 512"
    using codePoints_le_length order_trans by blast+
qed (simp_all add: managed_status_def managed_title_def)

lemma run_valid: "run_ok ID_RE r \<Longrightarrow> validateCommittedAdoption (Some (JObj (run_json r))) = Inr r"
  by (cases r) (simp add: run_ok_def validateCommittedAdoption_def run_json_def result_simps managed_labels_bounded MAX_SAFE_INTEGER_def)

lemma event_valid:
  "run_ok ID_RE r \<Longrightarrow> 0 \<le> n \<Longrightarrow> n \<le> MAX_SAFE_INTEGER \<Longrightarrow>
   validateAdoptionEvent (Some (JObj (adopted_event_json (event_of_run n r)))) = Inr (event_of_run n r)"
  by (simp add: run_ok_def validateAdoptionEvent_def adopted_event_json_def event_of_run_def result_simps)

lemma store_step_bounds:
  assumes "store_ok s" "length (as_committed s) \<le> k" "as_cursor s \<le> int k"
  shows "length (as_committed (store_step x s)) \<le> Suc k \<and> as_cursor (store_step x s) \<le> int (Suc k)"
proof (cases x)
  case (Commit_run input)
  have "length (as_committed (snd (transaction_s (commitAdoption_s input) s))) \<le> Suc k \<and>
      as_cursor (snd (transaction_s (commitAdoption_s input) s)) \<le> int (Suc k)"
    using commit_run_ok [OF assms(1), of input] assms(2,3)
    by (auto simp: transaction_s_def wpE_def same_books_def split: prod.splits sum.splits)
  then show ?thesis using Commit_run by simp
next
  case (Purge_run i)
  have "length (filter (\<lambda>r. cr_agentRunId r \<noteq> i) (as_committed s)) \<le> Suc k"
    by (rule le_SucI [OF order_trans [OF length_filter_le assms(2)]])
  then show ?thesis using Purge_run assms(3) by (simp add: purgeCommittedRun_def modifyE_def)
next
  case (Record_takeover i)
  have "as_committed (snd (recordManualTakeover i s)) = as_committed s \<and> as_cursor (snd (recordManualTakeover i s)) = as_cursor s"
    by (simp add: recordManualTakeover_def bindE_def thenE_def getE_def requireE_def retE_def throwE_def modifyE_def)
  then show ?thesis using Record_takeover assms(2,3) by simp
qed (use assms in \<open>simp add: close_s_def\<close>)

lemma store_step_fixed: "as_factory (store_step x s) = as_factory s" "as_executionNodeId (store_step x s) = as_executionNodeId s"
  "as_teamGoalId (store_step x s) = as_teamGoalId s" "as_roles (store_step x s) = as_roles s"
proof -
  let ?F = "\<lambda>s'. as_factory s' = as_factory s \<and> as_executionNodeId s' = as_executionNodeId s \<and> as_teamGoalId s' = as_teamGoalId s \<and> as_roles s' = as_roles s"
  have draw: "keepsE ?F draw_run" by (rule keepsEI) (simp add: wpE_draw_run)
  have commit: "keepsE ?F (commitAdoption_s input)" for input
    unfolding commitAdoption_s_def record_run_def Let_def by (intro keepsE_intros keepsE_modify draw) simp
  have "?F (snd (transaction_s (commitAdoption_s input) s))" for input
    using keepsE_final [OF commit, of s input] by (auto simp: transaction_s_def split: prod.splits sum.splits)
  moreover have "?F (snd (recordManualTakeover i s))" for i
    by (rule keepsE_final [of ?F]) (auto simp: recordManualTakeover_def intro!: keepsE_intros keepsE_modify)
  moreover have "?F (snd (purgeCommittedRun i s))" for i
    by (rule keepsE_final [of ?F]) (auto simp: purgeCommittedRun_def intro!: keepsE_modify)
  ultimately have "?F (store_step x s)" by (cases x) (simp_all add: close_s_def)
  then show "as_factory (store_step x s) = as_factory s" "as_executionNodeId (store_step x s) = as_executionNodeId s"
    "as_teamGoalId (store_step x s) = as_teamGoalId s" "as_roles (store_step x s) = as_roles s" by simp_all
qed

lemma store_run:
  assumes "store_ok s" "length (as_committed s) \<le> k" "as_cursor s \<le> int k"
  shows "store_ok (run_with store_step ops s) \<and> length (as_committed (run_with store_step ops s)) \<le> k + length ops \<and>
     as_cursor (run_with store_step ops s) \<le> int (k + length ops) \<and> as_factory (run_with store_step ops s) = as_factory s \<and>
     as_executionNodeId (run_with store_step ops s) = as_executionNodeId s \<and> as_teamGoalId (run_with store_step ops s) = as_teamGoalId s \<and>
     as_roles (run_with store_step ops s) = as_roles s"
  using assms
proof (induction ops arbitrary: s k)
  case (Cons x ops)
  from Cons.IH [OF store_step_ok [OF Cons.prems(1), of x], where k = "Suc k"] store_step_bounds [OF Cons.prems, of x]
  show ?case by (simp add: store_step_fixed)
qed simp

text \<open>C33. Of a store opened for valid identifiers and one to three Roles, whose factory gives valid identifiers, after any
  operations (as many as a JavaScript number can count): no Role and no process binding has two runs, the events are
  exactly those of the runs with increasing numbers, and what \<open>snapshot\<close> returns passes
  \<open>validateDurableAdoptionState\<close> and is read back as itself exactly when at most 64 runs are held. Nothing in the store
  keeps it below that bound: with more, its own snapshot is refused.\<close>

theorem adoption_store_sound:
  assumes "ID_RE node" "ID_RE goal" "roles \<noteq> []" "length roles \<le> 3" "range factory \<subseteq> Collect ID_RE" "int (length ops) \<le> MAX_SAFE_INTEGER"
    and "s = run_with store_step ops (createInMemoryAdoptionStore node goal roles factory)"
  shows "store_ok s \<and>
    (if length (as_committed s) \<le> 64
     then validateDurableAdoptionState (Some (durable_json (snapshot_s s))) = Inr (snapshot_s s)
     else \<exists>e. validateDurableAdoptionState (Some (durable_json (snapshot_s s))) = Inl e)"
proof -
  let ?s0 = "createInMemoryAdoptionStore node goal roles factory"
  have 0: "length (as_committed ?s0) \<le> 0" "as_cursor ?s0 \<le> int 0" "as_factory ?s0 = factory" "as_executionNodeId ?s0 = node"
    "as_teamGoalId ?s0 = goal" "as_roles ?s0 = roles"
    by (simp_all add: createInMemoryAdoptionStore_def)
  have s: "store_ok s" "as_cursor s \<le> MAX_SAFE_INTEGER" "as_factory s = factory" "as_executionNodeId s = node"
    "as_teamGoalId s = goal" "as_roles s = roles"
    using store_run [OF new_store_ok 0(1,2), of ops] 0(3-6) assms(6) by (auto simp: assms(7))
  have rs: "list_all (run_ok ID_RE) (as_committed s)"
    using s(1) assms(5) unfolding s(3) [symmetric] by (auto simp: store_ok_def run_ok_def list_all_iff subset_iff)
  have m: "events_match s" using s(1) by (simp add: store_ok_def)
  have l: "length (as_events s) = length (as_committed s)" using m by (auto simp: events_match_def list_all2_lengthD)
  have runs: "mapR (\<lambda>x. validateCommittedAdoption (Some x)) (map (\<lambda>r. JObj (run_json r)) (as_committed s)) = Inr (as_committed s)"
    using mapR_map [of "as_committed s" "\<lambda>x. validateCommittedAdoption (Some x)" "\<lambda>r. JObj (run_json r)" id] rs
    by (simp add: run_valid list_all_iff)
  have ev: "validateAdoptionEvent (Some (JObj (adopted_event_json e))) = Inr e" if "e \<in> set (as_events s)" for e
  proof -
    from that obtain i where i: "i < length (as_events s)" "e = as_events s ! i" by (auto simp: in_set_conv_nth)
    have "list_all2 (\<lambda>r e. e = event_of_run (ad_sequence e) r) (as_committed s) (as_events s)" using m by (simp add: events_match_def)
    then have "e = event_of_run (ad_sequence e) (as_committed s ! i)" using i l by (simp add: list_all2_conv_all_nth)
    then obtain r where r: "r \<in> set (as_committed s)" "e = event_of_run (ad_sequence e) r" using i l by (metis nth_mem)
    moreover have "0 \<le> ad_sequence e \<and> ad_sequence e \<le> MAX_SAFE_INTEGER"
      using that m s(2) by (auto simp: events_match_def list_all_iff)
    moreover have "run_ok ID_RE r" using rs r(1) by (simp add: list_all_iff)
    ultimately show ?thesis using event_valid [of r "ad_sequence e"] r(2) by metis
  qed
  then have events: "mapR (\<lambda>x. validateAdoptionEvent (Some x)) (map (\<lambda>e. JObj (adopted_event_json e)) (as_events s)) = Inr (as_events s)"
    using mapR_map [of "as_events s" "\<lambda>x. validateAdoptionEvent (Some x)" "\<lambda>e. JObj (adopted_event_json e)" id] by simp
  have roles: "mapR (\<lambda>x. requireRole_s (Some x)) (map (JEnum ROLES) roles) = Inr roles"
    using mapR_map [of roles "\<lambda>x. requireRole_s (Some x)" "JEnum ROLES" id] by (simp add: result_simps)
  have "0 \<le> as_cursor s \<and> as_cursor s \<le> MAX_SAFE_INTEGER" using m s(2) by (simp add: events_match_def)
  then have "if length (as_committed s) \<le> 64
     then validateDurableAdoptionState (Some (durable_json (snapshot_s s))) = Inr (snapshot_s s)
     else \<exists>e. validateDurableAdoptionState (Some (durable_json (snapshot_s s))) = Inl e"
    using assms(1-4) s l runs events roles
    by (simp add: validateDurableAdoptionState_def durable_json_def snapshot_s_def bounded_list_def result_simps
        type_fail_def ADOPTION_STORE_MAX_RUNS_def ADOPTION_STORE_MAX_EVENTS_def del: mapR.simps) blast
  then show ?thesis using s(1) by blast
qed


definition demo_commit_input :: obj where
  "demo_commit_input = [(js ''proposal'', JObj
     [(js ''targetRole'', JEnum ROLES Builder), (js ''targetTeamGoalId'', JStr (js ''g'')), (js ''observedSessionId'', JStr (js ''o'')),
      (js ''executionNodeId'', JStr (js ''n'')), (js ''processIncarnationId'', JStr (js ''p'')), (js ''piSessionId'', JStr (js ''s'')),
      (js ''extensionInstanceId'', JStr (js ''x'')), (js ''proposalId'', JStr (js ''q'')), (js ''proposalDigest'', JStr (replicate 64 97))])]"

lemma adoption_store_sound_witness:
  "store_ok (run_with store_step [Commit_run demo_commit_input] (createInMemoryAdoptionStore (js ''n'') (js ''g'') [Builder] (\<lambda>_. js ''r'')))"
proof -
  have "ID_RE (js [c])" if "c \<in> {CHR ''n'', CHR ''g'', CHR ''r''}" for c
    using that by (auto simp: ID_RE_def matches_head_tail_def js_def char_class_defs)
  then show ?thesis
    using adoption_store_sound [of "js ''n''" "js ''g''" "[Builder]" "\<lambda>_. js ''r''" "[Commit_run demo_commit_input]", OF _ _ _ _ _ _ refl]
    by (auto simp: MAX_SAFE_INTEGER_def)
qed

end
