(* ===== verification/RetirementStore.thy ===== *)
theory RetirementStore
  imports AdoptionStore
begin

text \<open>
  observer/retirement-store.ts: retirement of Agent Runs and their replacement. The closure
  variables of the in-memory store are the fields of a record; \<open>agentRunIdFactory\<close> is the function
  \<open>rt_factory\<close> of the number of identifiers drawn before, \<open>liveCommitForRole\<close> the optional function
  \<open>rt_live\<close>. A callback of a transaction returns no promise in the model.
\<close>

section \<open>Data\<close>

record retired_run =
  rr_agentRunId :: jstr
  rr_teamGoalId :: jstr
  rr_role :: role
  rr_observedSessionId :: jstr
  rr_executionNodeId :: jstr
  rr_processIncarnationId :: jstr
  rr_piSessionId :: jstr
  rr_extensionInstanceId :: jstr
  rr_retiredAt :: int
  rr_revision :: int
  rr_predecessorAgentRunId :: "jstr option"
  rr_originalCommitment :: binding_identity

record replacement_commit = committed_run +
  rc_predecessorAgentRunId :: jstr
  rc_vacancyGeneration :: int

datatype retirement_event_type = Retired_event | Replaced_event

record retirement_event =
  re_sequence :: int
  re_type :: retirement_event_type
  re_agentRunId :: jstr
  re_teamGoalId :: jstr
  re_role :: role
  re_predecessorAgentRunId :: "jstr option"
  re_vacancyGeneration :: int

record retirement_snapshot =
  sn_retiredRuns :: "retired_run list"
  sn_committedRuns :: "replacement_commit list"
  sn_purgedBindings :: "binding_identity list option"
  sn_vacancyGeneration :: int
  sn_vacancyGenerations :: "(jstr \<times> int) list option"
  sn_events :: "retirement_event list"
  sn_cursor :: int

record retirement_input =
  el_agentRunId :: jstr
  el_teamGoalId :: jstr
  el_role :: role
  el_observedSessionId :: jstr
  el_revision :: int
  el_executionNodeId :: "jstr option"
  el_processIncarnationId :: "jstr option"
  el_piSessionId :: "jstr option"
  el_extensionInstanceId :: "jstr option"

record retirement_store =
  rt_factory :: "nat \<Rightarrow> jstr"
  rt_live :: "(jstr \<Rightarrow> role \<Rightarrow> jstr option) option"
  rt_drawn :: nat
  rt_retired :: "retired_run list"
  rt_committed :: "replacement_commit list"
  rt_purged :: "binding_identity list"
  rt_events :: "retirement_event list"
  rt_cursor :: int
  rt_highWater :: "(jstr \<times> int) list"

type_synonym 'a rt = "(runner_failure, retirement_store, 'a) eff"

abbreviation fail_rt :: "retirement_code \<Rightarrow> 'a rt" where
  "fail_rt c \<equiv> throwE (Retirement_failed c)"

abbreviation require_rt :: "bool \<Rightarrow> retirement_code \<Rightarrow> unit rt" where
  "require_rt b c \<equiv> requireE b (Retirement_failed c)"

section \<open>The store\<close>

definition vacancyKey :: "jstr \<Rightarrow> role \<Rightarrow> jstr" where
  "vacancyKey teamGoalId r = teamGoalId @ 124 # enum_text ROLES r"

definition bindingKey :: "binding_identity \<Rightarrow> jstr" where
  "bindingKey b = bi_executionNodeId b @ 124 # bi_processIncarnationId b @ 124 # bi_piSessionId b @ 124 # bi_extensionInstanceId b"

definition high_water_of :: "(jstr \<times> int) list \<Rightarrow> jstr \<Rightarrow> int" where
  "high_water_of m k = (case map_of m k of None \<Rightarrow> 0 | Some n \<Rightarrow> n)"

text \<open>The marks that a restart takes from the snapshot, or counts from the retired runs when it has none.\<close>

definition initial_marks :: "retirement_snapshot \<Rightarrow> (jstr \<times> int) list" where
  "initial_marks initial =
     (case sn_vacancyGenerations initial of
        Some entries \<Rightarrow>
          foldl (\<lambda>m (k, n). if \<bar>n\<bar> \<le> MAX_SAFE_INTEGER \<and> 0 \<le> n then assoc_put k n m else m) [] entries
      | None \<Rightarrow>
          foldl (\<lambda>m r. let k = vacancyKey (rr_teamGoalId r) (rr_role r)
                       in assoc_put k (high_water_of m k + (if rr_predecessorAgentRunId r = None then 1 else 2)) m)
            [] (sn_retiredRuns initial))"

definition createInMemoryRetirementStore ::
    "retirement_snapshot option \<Rightarrow> (nat \<Rightarrow> jstr) \<Rightarrow> (jstr \<Rightarrow> role \<Rightarrow> jstr option) option \<Rightarrow> retirement_store" where
  "createInMemoryRetirementStore initialState factory live =
     (case initialState of
        None \<Rightarrow> \<lparr>rt_factory = factory, rt_live = live, rt_drawn = 0, rt_retired = [], rt_committed = [], rt_purged = [],
                 rt_events = [], rt_cursor = 0, rt_highWater = []\<rparr>
      | Some i \<Rightarrow> \<lparr>rt_factory = factory, rt_live = live, rt_drawn = 0, rt_retired = sn_retiredRuns i,
                   rt_committed = sn_committedRuns i,
                   rt_purged = (case sn_purgedBindings i of None \<Rightarrow> [] | Some bs \<Rightarrow> bs),
                   rt_events = sn_events i, rt_cursor = sn_cursor i, rt_highWater = initial_marks i\<rparr>)"

definition isRetired :: "binding_identity \<Rightarrow> retirement_store \<Rightarrow> bool" where
  "isRetired b s \<longleftrightarrow>
     list_ex (\<lambda>r. rr_originalCommitment r = b) (rt_retired s) \<or> list_ex (\<lambda>f. bindingKey f = bindingKey b) (rt_purged s)"

definition retired_ids :: "retirement_store \<Rightarrow> jstr set" where
  "retired_ids s = set (map rr_agentRunId (rt_retired s))"

text \<open>A replacement that occupies the Role: it is for the Role and not retired itself.\<close>

definition occupies :: "retirement_store \<Rightarrow> jstr \<Rightarrow> role \<Rightarrow> replacement_commit \<Rightarrow> bool" where
  "occupies s teamGoalId role r \<longleftrightarrow>
     cr_targetTeamGoalId r = teamGoalId \<and> cr_targetRole r = role \<and> cr_agentRunId r \<notin> retired_ids s"

definition isRoleVacant :: "jstr \<Rightarrow> role \<Rightarrow> retirement_store \<Rightarrow> bool" where
  "isRoleVacant teamGoalId role s \<longleftrightarrow> \<not> list_ex (occupies s teamGoalId role) (rt_committed s)"

definition currentVacancyGeneration :: "jstr \<Rightarrow> role \<Rightarrow> retirement_store \<Rightarrow> int" where
  "currentVacancyGeneration teamGoalId role s =
     foldl (\<lambda>n r. if rr_teamGoalId r \<noteq> teamGoalId \<or> rr_role r \<noteq> role then n
                  else max n (if rr_predecessorAgentRunId r = None then 1 else 2))
       (high_water_of (rt_highWater s) (vacancyKey teamGoalId role)) (rt_retired s)"

definition retriedByBinding :: "binding_identity \<Rightarrow> retirement_store \<Rightarrow> retired_run option" where
  "retriedByBinding b s = List.find (\<lambda>r. bindingKey (rr_originalCommitment r) = bindingKey b) (rt_retired s)"

definition find_retired :: "jstr \<Rightarrow> retirement_store \<Rightarrow> retired_run option" where
  "find_retired i s = List.find (\<lambda>r. rr_agentRunId r = i) (rt_retired s)"

definition bounded_or_none :: "jstr option \<Rightarrow> bool" where
  "bounded_or_none v \<longleftrightarrow> (case v of None \<Rightarrow> True | Some i \<Rightarrow> ID_RE i)"

definition assertCommitRetirementEligible :: "retirement_input \<Rightarrow> unit rt" where
  "assertCommitRetirementEligible i =
     thenE (require_rt (ID_RE (el_agentRunId i)) Rc_invalid_envelope)
    (thenE (require_rt (ID_RE (el_teamGoalId i)) Rc_invalid_envelope)
    (thenE (require_rt (ID_RE (el_observedSessionId i)) Rc_invalid_envelope)
    (thenE (require_rt (\<bar>el_revision i\<bar> \<le> MAX_SAFE_INTEGER \<and> 1 \<le> el_revision i) Rc_stale_revision)
    (bindE (getE (find_retired (el_agentRunId i))) (\<lambda>existing.
     case existing of
       Some r \<Rightarrow> require_rt (rr_revision r = el_revision i) Rc_stale_revision
     | None \<Rightarrow>
         thenE (require_rt (bounded_or_none (el_executionNodeId i)) Rc_invalid_envelope)
        (thenE (require_rt (bounded_or_none (el_processIncarnationId i)) Rc_invalid_envelope)
        (thenE (require_rt (bounded_or_none (el_piSessionId i)) Rc_invalid_envelope)
               (require_rt (bounded_or_none (el_extensionInstanceId i)) Rc_invalid_envelope))))))))"

text \<open>Who occupies the Role, when the store is told how to ask.\<close>

definition check_live :: "retirement_input \<Rightarrow> unit rt" where
  "check_live i =
     bindE (getE rt_live) (\<lambda>hook.
     case hook of
       None \<Rightarrow> retE ()
     | Some f \<Rightarrow>
         bindE (getE (\<lambda>s. case List.find (occupies s (el_teamGoalId i) (el_role i)) (rt_committed s) of
             Some r \<Rightarrow> Some (cr_agentRunId r)
           | None \<Rightarrow> f (el_teamGoalId i) (el_role i))) (\<lambda>live.
         thenE (require_rt (live \<noteq> None) Rc_not_eligible)
               (require_rt (live = Some (el_agentRunId i)) Rc_role_mismatch)))"

definition text_or_empty :: "jstr option \<Rightarrow> jstr" where
  "text_or_empty v = (case v of None \<Rightarrow> [] | Some t \<Rightarrow> t)"

definition tombstone_of :: "retirement_input \<Rightarrow> retired_run" where
  "tombstone_of i =
     (let executionNodeId = text_or_empty (el_executionNodeId i);
          processIncarnationId = text_or_empty (el_processIncarnationId i);
          piSessionId = text_or_empty (el_piSessionId i);
          extensionInstanceId = text_or_empty (el_extensionInstanceId i)
      in \<lparr>rr_agentRunId = el_agentRunId i, rr_teamGoalId = el_teamGoalId i, rr_role = el_role i,
          rr_observedSessionId = el_observedSessionId i, rr_executionNodeId = executionNodeId,
          rr_processIncarnationId = processIncarnationId, rr_piSessionId = piSessionId,
          rr_extensionInstanceId = extensionInstanceId, rr_retiredAt = 0, rr_revision = el_revision i,
          rr_predecessorAgentRunId = None,
          rr_originalCommitment = \<lparr>bi_executionNodeId = executionNodeId, bi_processIncarnationId = processIncarnationId,
            bi_piSessionId = piSessionId, bi_extensionInstanceId = extensionInstanceId\<rparr>\<rparr>)"

definition bury :: "retired_run \<Rightarrow> retirement_store \<Rightarrow> retirement_store" where
  "bury t s =
     (let k = vacancyKey (rr_teamGoalId t) (rr_role t);
          s1 = s\<lparr>rt_retired := rt_retired s @ [t], rt_highWater := assoc_put k (high_water_of (rt_highWater s) k + 1) (rt_highWater s),
                 rt_cursor := rt_cursor s + 1\<rparr>
      in s1\<lparr>rt_events := rt_events s1 @
              [\<lparr>re_sequence = rt_cursor s1, re_type = Retired_event, re_agentRunId = rr_agentRunId t,
                re_teamGoalId = rr_teamGoalId t, re_role = rr_role t,
                re_predecessorAgentRunId = rr_predecessorAgentRunId t,
                re_vacancyGeneration = currentVacancyGeneration (rr_teamGoalId t) (rr_role t) s1\<rparr>]\<rparr>)"

definition commitRetirement :: "retirement_input \<Rightarrow> (retired_run \<times> bool) rt" where
  "commitRetirement i =
     thenE (assertCommitRetirementEligible i)
    (bindE (getE (find_retired (el_agentRunId i))) (\<lambda>existing.
     case existing of
       Some r \<Rightarrow> thenE (require_rt (rr_revision r = el_revision i) Rc_stale_revision) (retE (r, True))
     | None \<Rightarrow>
         thenE (check_live i)
        (thenE (modifyE (bury (tombstone_of i))) (retE (tombstone_of i, False)))))"

definition text_rt :: "(jstr \<Rightarrow> bool) \<Rightarrow> json option \<Rightarrow> runner_failure + jstr" where
  "text_rt ok v =
     (case string_of v of
        None \<Rightarrow> Inl (Retirement_failed Rc_invalid_envelope)
      | Some t \<Rightarrow> if ok t then Inr t else Inl (Retirement_failed Rc_invalid_envelope))"

definition requireRole_rt :: "json option \<Rightarrow> runner_failure + role" where
  "requireRole_rt v =
     (case string_of v of
        None \<Rightarrow> Inl (Retirement_failed Rc_invalid_envelope)
      | Some t \<Rightarrow> (case enum_of ROLES t of None \<Rightarrow> Inl (Retirement_failed Rc_invalid_envelope) | Some r \<Rightarrow> Inr r))"

definition requirePlainRecord_rt :: "json option \<Rightarrow> runner_failure + obj" where
  "requirePlainRecord_rt v = (case object_of v of None \<Rightarrow> Inl (Retirement_failed Rc_invalid_envelope) | Some m \<Rightarrow> Inr m)"

definition vacancy_of :: "json option \<Rightarrow> runner_failure + int" where
  "vacancy_of v =
     (case whole_of v of
        None \<Rightarrow> Inl (Retirement_failed Rc_invalid_vacancy)
      | Some n \<Rightarrow> if \<bar>n\<bar> \<le> MAX_SAFE_INTEGER \<and> 0 \<le> n then Inr n else Inl (Retirement_failed Rc_invalid_vacancy))"

lemma retirement_fields_iff [result_simps]:
  "text_rt ok v = Inr t \<longleftrightarrow> v = Some (JStr t) \<and> ok t"
  "requireRole_rt v = Inr r \<longleftrightarrow> v = Some (JEnum ROLES r)"
  "requirePlainRecord_rt v = Inr m \<longleftrightarrow> v = Some (JObj m)"
  "vacancy_of v = Inr n \<longleftrightarrow> v = Some (JWhole n) \<and> 0 \<le> n \<and> n \<le> MAX_SAFE_INTEGER"
  by (auto simp: text_rt_def requireRole_rt_def requirePlainRecord_rt_def vacancy_of_def enum_of_iff split: option.splits)

definition draw_rt :: "jstr rt" where
  "draw_rt s = (Inr (rt_factory s (rt_drawn s)), s\<lparr>rt_drawn := Suc (rt_drawn s)\<rparr>)"

definition install :: "replacement_commit \<Rightarrow> retirement_store \<Rightarrow> retirement_store" where
  "install r s = s\<lparr>rt_committed := rt_committed s @ [r], rt_cursor := rt_cursor s + 1,
     rt_events := rt_events s @
       [\<lparr>re_sequence = rt_cursor s + 1, re_type = Replaced_event, re_agentRunId = cr_agentRunId r,
         re_teamGoalId = cr_targetTeamGoalId r, re_role = cr_targetRole r,
         re_predecessorAgentRunId = Some (rc_predecessorAgentRunId r), re_vacancyGeneration = rc_vacancyGeneration r\<rparr>]\<rparr>"

definition commitReplacementAdoption :: "json option \<Rightarrow> replacement_commit rt" where
  "commitReplacementAdoption input =
     bindE (liftE (requirePlainRecord_rt input)) (\<lambda>m.
     bindE (liftE (requireRole_rt (own_prop m ''targetRole''))) (\<lambda>role.
     bindE (liftE (text_rt ID_RE (own_prop m ''targetTeamGoalId''))) (\<lambda>teamGoalId.
     bindE (liftE (text_rt ID_RE (own_prop m ''predecessorAgentRunId''))) (\<lambda>predecessor.
     bindE (liftE (vacancy_of (own_prop m ''vacancyGeneration''))) (\<lambda>generation.
     bindE (getE (find_retired predecessor)) (\<lambda>tombstone.
     case tombstone of
       None \<Rightarrow> fail_rt Rc_predecessor_unknown
     | Some t \<Rightarrow>
         thenE (require_rt (rr_teamGoalId t = teamGoalId \<and> rr_role t = role) Rc_predecessor_mismatch)
        (bindE (getE (currentVacancyGeneration teamGoalId role)) (\<lambda>currentGeneration.
         thenE (require_rt (generation = currentGeneration) Rc_vacancy_stale)
        (bindE (getE (isRoleVacant teamGoalId role)) (\<lambda>vacant.
         thenE (require_rt vacant Rc_role_occupied)
        (bindE (liftE (text_rt ID_RE (own_prop m ''proposalId''))) (\<lambda>proposalId.
         bindE (liftE (text_rt SHA256_RE (own_prop m ''proposalDigest''))) (\<lambda>proposalDigest.
         bindE draw_rt (\<lambda>agentRunId.
         bindE (liftE (text_rt ID_RE (own_prop m ''observedSessionId''))) (\<lambda>observedSessionId.
         bindE (liftE (text_rt ID_RE (own_prop m ''executionNodeId''))) (\<lambda>executionNodeId.
         bindE (liftE (text_rt ID_RE (own_prop m ''processIncarnationId''))) (\<lambda>processIncarnationId.
         bindE (liftE (text_rt ID_RE (own_prop m ''piSessionId''))) (\<lambda>piSessionId.
         bindE (liftE (text_rt ID_RE (own_prop m ''extensionInstanceId''))) (\<lambda>extensionInstanceId.
         let replacement = \<lparr>cr_proposalId = proposalId, cr_proposalDigest = proposalDigest, cr_agentRunId = agentRunId,
               cr_observedSessionId = observedSessionId, cr_executionNodeId = executionNodeId,
               cr_processIncarnationId = processIncarnationId, cr_piSessionId = piSessionId,
               cr_extensionInstanceId = extensionInstanceId, cr_targetTeamGoalId = teamGoalId, cr_targetRole = role,
               cr_piStatus = managed_status role, cr_terminalTitleMetadata = managed_title role, cr_committedAt = 0,
               rc_predecessorAgentRunId = predecessor, rc_vacancyGeneration = currentGeneration\<rparr>
         in thenE (modifyE (install replacement)) (retE replacement))))))))))))))))))))"

definition registerObservedIfUnretired :: "binding_identity \<Rightarrow> unit rt" where
  "registerObservedIfUnretired b =
     bindE (getE (isRetired b)) (\<lambda>retired. require_rt (\<not> retired) Rc_already_retired)"

definition beginManagedRecovery :: "binding_identity \<Rightarrow> unit rt" where
  "beginManagedRecovery b =
     bindE (getE (isRetired b)) (\<lambda>retired. require_rt (\<not> retired) Rc_already_retired)"

definition revertRetirement :: "unit rt" where
  "revertRetirement = fail_rt Rc_transaction_failed"

definition purge_tx :: "jstr \<Rightarrow> unit rt" where
  "purge_tx agentRunId =
     bindE (getE (find_retired agentRunId)) (\<lambda>target.
     case target of
       None \<Rightarrow> fail_rt Rc_not_retired
     | Some t \<Rightarrow>
         bindE (getE (\<lambda>s. list_ex (\<lambda>r. rc_predecessorAgentRunId r = agentRunId) (rt_committed s))) (\<lambda>blocked.
         thenE (require_rt (\<not> blocked) Rc_purge_blocked)
               (modifyE (\<lambda>s. s
                  \<lparr>rt_purged := rt_purged s @ [rr_originalCommitment t],
                   rt_retired := filter (\<lambda>r. rr_agentRunId r \<noteq> agentRunId) (rt_retired s),
                   rt_committed := filter (\<lambda>r. cr_agentRunId r \<noteq> agentRunId) (rt_committed s),
                   rt_events := filter (\<lambda>e. re_agentRunId e \<noteq> agentRunId) (rt_events s)\<rparr>))))"

definition transaction_rt :: "'a rt \<Rightarrow> 'a rt" where
  "transaction_rt m s =
     (case m s of
        (Inl e, s') \<Rightarrow> (Inl e, s'\<lparr>rt_retired := rt_retired s, rt_committed := rt_committed s, rt_events := rt_events s,
                          rt_purged := rt_purged s, rt_cursor := rt_cursor s, rt_highWater := rt_highWater s\<rparr>)
      | (Inr x, s') \<Rightarrow> (Inr x, s'))"

definition purgeRetiredRun :: "jstr \<Rightarrow> unit rt" where
  "purgeRetiredRun agentRunId = transaction_rt (purge_tx agentRunId)"

definition snapshot_rt :: "retirement_store \<Rightarrow> retirement_snapshot" where
  "snapshot_rt s =
     \<lparr>sn_retiredRuns = rt_retired s, sn_committedRuns = rt_committed s, sn_purgedBindings = Some (rt_purged s),
      sn_vacancyGeneration = (if rt_highWater s = [] then 0 else Max (set (map snd (rt_highWater s)))),
      sn_vacancyGenerations = Some (rt_highWater s), sn_events = rt_events s, sn_cursor = rt_cursor s\<rparr>"

definition close_rt :: "retirement_store \<Rightarrow> retirement_store" where
  "close_rt s = s\<lparr>rt_retired := [], rt_committed := [], rt_purged := [], rt_events := [], rt_highWater := [], rt_cursor := 0\<rparr>"

datatype retirement_op =
    Retire retirement_input
  | Replace "json option"
  | Purge_retired jstr
  | Reopen "nat \<Rightarrow> jstr"

text \<open>A restart builds a new store from the snapshot of the old one.\<close>

fun retirement_step :: "retirement_op \<Rightarrow> retirement_store \<Rightarrow> retirement_store" where
  "retirement_step (Retire i) s = snd (transaction_rt (commitRetirement i) s)"
| "retirement_step (Replace input) s = snd (transaction_rt (commitReplacementAdoption input) s)"
| "retirement_step (Purge_retired i) s = snd (purgeRetiredRun i s)"
| "retirement_step (Reopen factory) s = createInMemoryRetirementStore (Some (snapshot_rt s)) factory (rt_live s)"

end
