(* ===== verification/RetirementProperties.thy ===== *)
theory RetirementProperties
  imports RetirementStore
begin

text \<open>
  What the retirement store keeps, over any sequence of retirements, replacements, purges and restarts.
\<close>

section \<open>Keys\<close>

lemma role_text_plain: "124 \<notin> set (enum_text ROLES r)"
  by (cases r) (simp_all add: enum_text_def ROLES_def js_def)

lemma split_last: "124 \<notin> set t \<Longrightarrow> 124 \<notin> set u \<Longrightarrow> (a :: jstr) @ 124 # t = b @ 124 # u \<longleftrightarrow> a = b \<and> t = u"
proof
  assume t: "124 \<notin> set t" "124 \<notin> set u" and e: "a @ 124 # t = b @ 124 # u"
  have r: "takeWhile (\<lambda>c. c \<noteq> 124) (rev (x @ 124 # v)) = rev v" if "124 \<notin> set v" for x v :: jstr
  proof -
    have "takeWhile (\<lambda>c. c \<noteq> 124) (rev v @ 124 # rev x) = rev v @ takeWhile (\<lambda>c. c \<noteq> 124) (124 # rev x)"
      by (rule takeWhile_append2) (use that in auto)
    then show ?thesis by simp
  qed
  from e have "rev t = rev u" using r [of t a] r [of u b] t by simp
  then show "a = b \<and> t = u" using e by simp
qed simp

lemma vacancyKey_iff [simp]: "vacancyKey g r = vacancyKey g' r' \<longleftrightarrow> g = g' \<and> r = r'"
proof -
  have "enum_text ROLES r = enum_text ROLES r' \<longleftrightarrow> r = r'" by (cases r; cases r') (simp_all add: enum_text_def ROLES_def)
  then show ?thesis by (simp add: vacancyKey_def split_last role_text_plain)
qed

section \<open>The invariant\<close>

definition marks_ok :: "nat \<Rightarrow> retirement_store \<Rightarrow> bool" where
  "marks_ok k s \<longleftrightarrow>
     distinct (map rr_agentRunId (rt_retired s)) \<and> distinct (map fst (rt_highWater s)) \<and> list_all (\<lambda>(key, n). 1 \<le> n \<and> n \<le> int k) (rt_highWater s) \<and>
     list_all (\<lambda>r. rr_predecessorAgentRunId r = None \<and> vacancyKey (rr_teamGoalId r) (rr_role r) \<in> set (map fst (rt_highWater s))) (rt_retired s)"

definition linked :: "retirement_store \<Rightarrow> bool" where
  "linked s \<longleftrightarrow> list_all (\<lambda>c. list_ex (\<lambda>r. rr_agentRunId r = rc_predecessorAgentRunId c \<and> rr_teamGoalId r = cr_targetTeamGoalId c \<and>
     rr_role r = cr_targetRole c) (rt_retired s)) (rt_committed s)"

definition one_occupant :: "retirement_store \<Rightarrow> bool" where
  "one_occupant s \<longleftrightarrow> (\<forall>g r. length (filter (occupies s g r) (rt_committed s)) \<le> 1)"

definition retirement_ok :: "nat \<Rightarrow> retirement_store \<Rightarrow> bool" where
  "retirement_ok k s \<longleftrightarrow> marks_ok k s \<and> linked s \<and> one_occupant s"

lemma mark_pos: "marks_ok k s \<Longrightarrow> key \<in> set (map fst (rt_highWater s)) \<Longrightarrow> 1 \<le> high_water_of (rt_highWater s) key"
proof -
  assume m: "marks_ok k s" and "key \<in> set (map fst (rt_highWater s))"
  then obtain n where n: "map_of (rt_highWater s) key = Some n" by (metis map_of_eq_None_iff option.exhaust set_map)
  then have "1 \<le> n" using m map_of_SomeD [OF n] by (auto simp: marks_ok_def list_all_iff)
  then show ?thesis by (simp add: high_water_of_def n)
qed

lemma mark_bounds: "marks_ok k s \<Longrightarrow> 0 \<le> high_water_of (rt_highWater s) key \<and> high_water_of (rt_highWater s) key \<le> int k"
proof (cases "map_of (rt_highWater s) key")
  case (Some n)
  assume "marks_ok k s"
  then show ?thesis using map_of_SomeD [OF Some] Some by (auto simp: marks_ok_def list_all_iff high_water_of_def)
qed (simp add: high_water_of_def)

text \<open>The generation that is computed is the mark that is kept.\<close>

lemma generation_fold:
  "0 \<le> n \<Longrightarrow> (\<And>r. r \<in> set rs \<Longrightarrow> rr_predecessorAgentRunId r = None) \<Longrightarrow>
   (\<And>r. r \<in> set rs \<Longrightarrow> rr_teamGoalId r = g \<Longrightarrow> rr_role r = q \<Longrightarrow> 1 \<le> n) \<Longrightarrow>
   foldl (\<lambda>n r. if rr_teamGoalId r \<noteq> g \<or> rr_role r \<noteq> q then n else max n (if rr_predecessorAgentRunId r = None then 1 else (2 :: int))) n rs = n"
proof (induction rs)
  case (Cons a rs)
  have "(if rr_teamGoalId a \<noteq> g \<or> rr_role a \<noteq> q then n else max n (if rr_predecessorAgentRunId a = None then 1 else 2)) = n"
    using Cons.prems(2,3) [of a] by (auto simp: max_absorb1)
  then show ?case unfolding foldl.simps by (simp only:) (rule Cons.IH, use Cons.prems in auto)
qed simp

lemma generation_is_mark:
  "marks_ok k s \<Longrightarrow> currentVacancyGeneration g r s = high_water_of (rt_highWater s) (vacancyKey g r)"
  unfolding currentVacancyGeneration_def
  by (rule generation_fold) (auto simp: mark_bounds marks_ok_def list_all_iff intro!: mark_pos [of k])

lemma marks_ok_Suc: "marks_ok k s \<Longrightarrow> marks_ok (Suc k) s"
  by (auto simp: marks_ok_def list_all_iff split_def)

section \<open>Retiring\<close>

lemma tombstone_sel [simp]: "rr_agentRunId (tombstone_of i) = el_agentRunId i" "rr_teamGoalId (tombstone_of i) = el_teamGoalId i"
  "rr_role (tombstone_of i) = el_role i" "rr_predecessorAgentRunId (tombstone_of i) = None" "rr_revision (tombstone_of i) = el_revision i"
  by (simp_all add: tombstone_of_def Let_def)

lemma bury_sel [simp]: "rt_retired (bury t s) = rt_retired s @ [t]" "rt_committed (bury t s) = rt_committed s" "rt_purged (bury t s) = rt_purged s"
  "rt_highWater (bury t s) = (let k = vacancyKey (rr_teamGoalId t) (rr_role t) in assoc_put k (high_water_of (rt_highWater s) k + 1) (rt_highWater s))"
  "rt_live (bury t s) = rt_live s"
  by (simp_all add: bury_def Let_def)

text \<open>A retirement buries a new run, finds the run already retired, or fails and changes nothing.\<close>

lemma retire_cases:
  "transaction_rt (commitRetirement i) s = (Inr (tombstone_of i, False), bury (tombstone_of i) s) \<and> find_retired (el_agentRunId i) s = None \<or>
   (\<exists>r. transaction_rt (commitRetirement i) s = (Inr (r, True), s)) \<or> (\<exists>e. transaction_rt (commitRetirement i) s = (Inl e, s))"
proof -
  have check: "assertCommitRetirementEligible i s = (Inr (), s) \<or> (\<exists>e. assertCommitRetirementEligible i s = (Inl e, s))"
    by (auto simp: assertCommitRetirementEligible_def thenE_def bindE_def requireE_def retE_def throwE_def getE_def split: option.split)
  have live: "check_live i s = (Inr (), s) \<or> (\<exists>e. check_live i s = (Inl e, s))"
    by (auto simp: check_live_def thenE_def bindE_def requireE_def retE_def throwE_def getE_def split: option.split)
  note eff = transaction_rt_def commitRetirement_def thenE_def bindE_def getE_def modifyE_def retE_def
  from check show ?thesis
  proof (elim disjE exE)
    assume a: "assertCommitRetirementEligible i s = (Inr (), s)"
    show ?thesis
    proof (cases "find_retired (el_agentRunId i) s")
      case None
      with a live show ?thesis by (elim disjE exE) (simp_all add: eff)
    next
      case (Some r)
      with a show ?thesis by (cases "rr_revision r = el_revision i") (simp_all add: eff requireE_def throwE_def)
    qed
  qed (simp add: eff)
qed

lemma assoc_put_keys: "set (map fst (assoc_put k v m)) = insert k (set (map fst m))"
  "distinct (map fst m) \<Longrightarrow> distinct (map fst (assoc_put k v m))"
  by (induction m) (auto simp: image_iff)

lemma high_water_put: "high_water_of (assoc_put k v m) j = (if j = k then v else high_water_of m j)"
  by (simp add: high_water_of_def)

lemma assoc_put_all: "list_all (\<lambda>(key, n). P n) m \<Longrightarrow> P v \<Longrightarrow> list_all (\<lambda>(key, n). P n) (assoc_put k v m)"
  by (induction m) auto

lemma filter_shorter: "(\<And>x. P x \<Longrightarrow> Q x) \<Longrightarrow> length (filter P xs) \<le> length (filter Q xs)"
  by (induction xs) (auto simp: le_SucI)

lemma bury_ok: "retirement_ok k s \<Longrightarrow> find_retired (rr_agentRunId t) s = None \<Longrightarrow> rr_predecessorAgentRunId t = None \<Longrightarrow> retirement_ok (Suc k) (bury t s)"
proof -
  assume ok: "retirement_ok k s" and f: "find_retired (rr_agentRunId t) s = None" and t: "rr_predecessorAgentRunId t = None"
  let ?k = "vacancyKey (rr_teamGoalId t) (rr_role t)"
  have m: "marks_ok k s" using ok by (simp add: retirement_ok_def)
  have "list_all (\<lambda>(key, n). 1 \<le> n \<and> n \<le> int (Suc k)) (rt_highWater s)" using marks_ok_Suc [OF m] by (simp add: marks_ok_def)
  then have "list_all (\<lambda>(key, n). 1 \<le> n \<and> n \<le> int (Suc k)) (rt_highWater (bury t s))"
    unfolding bury_sel Let_def by (rule assoc_put_all) (use mark_bounds [OF m, of ?k] in simp)
  then have "marks_ok (Suc k) (bury t s)"
    using m t f unfolding marks_ok_def by (auto simp: Let_def assoc_put_keys list_all_iff find_retired_def find_None_iff)
  moreover have "linked (bury t s)" using ok by (auto simp: retirement_ok_def linked_def list_all_iff list_ex_iff)
  moreover have "length (filter (occupies (bury t s) g r) (rt_committed s)) \<le> length (filter (occupies s g r) (rt_committed s))" for g r
    by (rule filter_shorter) (auto simp: occupies_def retired_ids_def)
  then have "one_occupant (bury t s)" using ok order_trans unfolding retirement_ok_def one_occupant_def by (simp, blast)
  ultimately show ?thesis by (simp add: retirement_ok_def)
qed


section \<open>Replacing\<close>

lemma wpE_draw_rt: "wpE draw_rt Q E s = Q (rt_factory s (rt_drawn s)) (s\<lparr>rt_drawn := Suc (rt_drawn s)\<rparr>)"
  by (simp add: draw_rt_def wpE_def)

definition replaces :: "replacement_commit \<Rightarrow> retirement_store \<Rightarrow> bool" where
  "replaces c s \<longleftrightarrow>
     isRoleVacant (cr_targetTeamGoalId c) (cr_targetRole c) s \<and>
     (\<exists>t. find_retired (rc_predecessorAgentRunId c) s = Some t \<and> rr_teamGoalId t = cr_targetTeamGoalId c \<and> rr_role t = cr_targetRole c) \<and>
     rc_vacancyGeneration c = currentVacancyGeneration (cr_targetTeamGoalId c) (cr_targetRole c) s"

lemma replace_wp:
  "wpE (commitReplacementAdoption input) (\<lambda>c s'. \<exists>n. s' = install c (s\<lparr>rt_drawn := n\<rparr>) \<and> replaces c s) (\<lambda>_ s'. \<exists>n. s' = s\<lparr>rt_drawn := n\<rparr>) s"
proof -
  have [simp]: "\<exists>n. s = s\<lparr>rt_drawn := n\<rparr>" by (rule exI [of _ "rt_drawn s"]) simp
  show ?thesis
    unfolding commitReplacementAdoption_def Let_def
    by (auto simp: wpE_simps wpE_draw_rt result_simps replaces_def split: sum.splits option.splits)
qed

lemma install_sel [simp]: "rt_retired (install c s) = rt_retired s" "rt_committed (install c s) = rt_committed s @ [c]"
  "rt_purged (install c s) = rt_purged s" "rt_highWater (install c s) = rt_highWater s" "rt_live (install c s) = rt_live s"
  by (simp_all add: install_def)

lemma replace_cases:
  "(\<exists>c n. transaction_rt (commitReplacementAdoption input) s = (Inr c, install c (s\<lparr>rt_drawn := n\<rparr>)) \<and> replaces c s) \<or>
   (\<exists>e n. transaction_rt (commitReplacementAdoption input) s = (Inl e, s\<lparr>rt_drawn := n\<rparr>))"
  using replace_wp [of input s] by (auto simp: transaction_rt_def wpE_def split: prod.splits sum.splits)

lemma retired_kept_same: "rt_retired s' = rt_retired s \<Longrightarrow> occupies s' = occupies s"
  by (simp add: fun_eq_iff occupies_def retired_ids_def)

lemma drawn_retirement_ok [simp]: "retirement_ok k (s\<lparr>rt_drawn := n\<rparr>) = retirement_ok k s"
  by (simp add: retirement_ok_def marks_ok_def linked_def one_occupant_def retired_kept_same [of "s\<lparr>rt_drawn := n\<rparr>" s])

lemma find_retired_Some: "find_retired i s = Some t \<Longrightarrow> t \<in> set (rt_retired s) \<and> rr_agentRunId t = i"
  by (auto simp: find_retired_def find_Some_iff in_set_conv_nth)

lemma install_ok:
  assumes ok: "retirement_ok k s" and c: "replaces c s"
  shows "retirement_ok k (install c s)"
proof -
  have "marks_ok k (install c s)" using ok by (simp add: retirement_ok_def marks_ok_def)
  moreover have "linked (install c s)"
    using ok c by (auto simp: retirement_ok_def linked_def list_all_iff list_ex_iff replaces_def dest!: find_retired_Some)
  moreover have "length (filter (occupies (install c s) g r) (rt_committed (install c s))) \<le> 1" for g r
  proof (cases "occupies s g r c")
    case True
    then have "cr_targetTeamGoalId c = g" "cr_targetRole c = r" by (simp_all add: occupies_def)
    then have "filter (occupies s g r) (rt_committed s) = []"
      using c by (auto simp: replaces_def isRoleVacant_def list_ex_iff filter_empty_conv)
    then show ?thesis by (simp add: retired_kept_same [of "install c s" s])
  next
    case False
    then show ?thesis using ok by (simp add: retired_kept_same [of "install c s" s] retirement_ok_def one_occupant_def)
  qed
  ultimately show ?thesis by (simp add: retirement_ok_def one_occupant_def)
qed

section \<open>Purging and restarting\<close>

definition purged :: "retired_run \<Rightarrow> retirement_store \<Rightarrow> retirement_store" where
  "purged t s = s\<lparr>rt_purged := rt_purged s @ [rr_originalCommitment t],
     rt_retired := filter (\<lambda>r. rr_agentRunId r \<noteq> rr_agentRunId t) (rt_retired s),
     rt_committed := filter (\<lambda>r. cr_agentRunId r \<noteq> rr_agentRunId t) (rt_committed s),
     rt_events := filter (\<lambda>e. re_agentRunId e \<noteq> rr_agentRunId t) (rt_events s)\<rparr>"

lemma purge_cases:
  "(\<exists>t. purgeRetiredRun i s = (Inr (), purged t s) \<and> find_retired i s = Some t \<and> \<not> list_ex (\<lambda>r. rc_predecessorAgentRunId r = i) (rt_committed s)) \<or>
   (\<exists>e. purgeRetiredRun i s = (Inl e, s))"
proof (cases "find_retired i s")
  case None
  then show ?thesis by (simp add: purgeRetiredRun_def transaction_rt_def purge_tx_def bindE_def getE_def throwE_def)
next
  case (Some t)
  have "rr_agentRunId t = i" using find_retired_Some [OF Some] by simp
  then show ?thesis using Some
    by (cases "list_ex (\<lambda>r. rc_predecessorAgentRunId r = i) (rt_committed s)")
       (simp_all add: purgeRetiredRun_def transaction_rt_def purge_tx_def bindE_def thenE_def getE_def throwE_def requireE_def retE_def modifyE_def purged_def)
qed

lemma purged_ok:
  assumes ok: "retirement_ok k s" and free: "\<not> list_ex (\<lambda>r. rc_predecessorAgentRunId r = rr_agentRunId t) (rt_committed s)"
  shows "retirement_ok k (purged t s)"
proof -
  have "marks_ok k (purged t s)" using ok by (auto simp: retirement_ok_def marks_ok_def purged_def list_all_iff distinct_map_filter)
  moreover have "linked (purged t s)"
    using ok free by (fastforce simp: retirement_ok_def linked_def purged_def list_all_iff list_ex_iff)
  moreover have "filter (occupies (purged t s) g r) (rt_committed (purged t s)) =
      filter (\<lambda>c. occupies s g r c \<and> cr_agentRunId c \<noteq> rr_agentRunId t) (rt_committed s)" for g r
    by (auto simp: purged_def occupies_def retired_ids_def intro!: filter_cong)
  then have "length (filter (occupies (purged t s) g r) (rt_committed (purged t s))) \<le> length (filter (occupies s g r) (rt_committed s))" for g r
    by (simp only:) (rule filter_shorter, simp)
  then have "one_occupant (purged t s)" using ok order_trans unfolding retirement_ok_def one_occupant_def by blast
  ultimately show ?thesis by (simp add: retirement_ok_def)
qed

lemma reread_marks:
  "distinct (map fst es @ map fst m) \<Longrightarrow> list_all (\<lambda>(key, n). 0 \<le> n \<and> n \<le> MAX_SAFE_INTEGER) es \<Longrightarrow>
   foldl (\<lambda>m (k, n). if \<bar>n\<bar> \<le> MAX_SAFE_INTEGER \<and> 0 \<le> n then assoc_put k n m else m) m es = m @ es"
proof (induction es arbitrary: m)
  case (Cons e es)
  obtain k n where e: "e = (k, n)" by (cases e)
  have new: "k \<notin> set (map fst m) \<Longrightarrow> assoc_put k n m = m @ [(k, n)]" by (induction m) auto
  show ?case using Cons.IH [of "m @ [(k, n)]"] Cons.prems new by (simp add: e)
qed simp

lemma reopen_same:
  assumes "marks_ok k s" "int k \<le> MAX_SAFE_INTEGER"
  shows "createInMemoryRetirementStore (Some (snapshot_rt s)) f (rt_live s) = s\<lparr>rt_factory := f, rt_drawn := 0\<rparr>"
proof -
  have "list_all (\<lambda>(key, n). 0 \<le> n \<and> n \<le> MAX_SAFE_INTEGER) (rt_highWater s)"
    using assms by (auto simp: marks_ok_def list_all_iff)
  then have "initial_marks (snapshot_rt s) = rt_highWater s"
    using assms reread_marks [of "rt_highWater s" "[]"] by (simp add: initial_marks_def snapshot_rt_def marks_ok_def)
  then show ?thesis by (simp add: createInMemoryRetirementStore_def snapshot_rt_def)
qed

lemma reopened_ok [simp]: "retirement_ok k (s\<lparr>rt_factory := f, rt_drawn := 0\<rparr>) = retirement_ok k s"
  by (simp add: retirement_ok_def marks_ok_def linked_def one_occupant_def retired_kept_same [of "s\<lparr>rt_factory := f, rt_drawn := 0\<rparr>" s])

lemma refactored_ok [simp]: "retirement_ok k (s\<lparr>rt_factory := f\<rparr>) = retirement_ok k s"
  by (simp add: retirement_ok_def marks_ok_def linked_def one_occupant_def retired_kept_same [of "s\<lparr>rt_factory := f\<rparr>" s])

lemma retirement_ok_Suc: "retirement_ok k s \<Longrightarrow> retirement_ok (Suc k) s"
  by (simp add: retirement_ok_def marks_ok_Suc)

lemma retirement_step_ok:
  assumes ok: "retirement_ok k s" and k: "int k \<le> MAX_SAFE_INTEGER"
  shows "retirement_ok (Suc k) (retirement_step x s)"
proof (cases x)
  case (Retire i)
  show ?thesis using retire_cases [of i s] bury_ok [OF ok, of "tombstone_of i"] retirement_ok_Suc [OF ok] by (auto simp: Retire)
next
  case (Replace input)
  have "retirement_ok k (install c (s\<lparr>rt_drawn := n\<rparr>))" if "replaces c s" for c n
    by (rule install_ok) (use ok that in \<open>simp_all add: replaces_def isRoleVacant_def find_retired_def currentVacancyGeneration_def
       occupies_def [abs_def] retired_ids_def\<close>)
  then show ?thesis using replace_cases [of input s] ok retirement_ok_Suc by (auto simp: Replace)
next
  case (Purge_retired i)
  have "find_retired i s = Some t \<Longrightarrow> rr_agentRunId t = i" for t using find_retired_Some by blast
  then show ?thesis using purge_cases [of i s] purged_ok [OF ok] retirement_ok_Suc ok by (auto simp: Purge_retired)
next
  case (Reopen f)
  have "marks_ok k s" using ok by (simp add: retirement_ok_def)
  then show ?thesis using reopen_same [OF _ k] retirement_ok_Suc ok by (simp add: Reopen)
qed


section \<open>Properties\<close>

lemma new_retirement_ok: "retirement_ok 0 (createInMemoryRetirementStore None f l)"
  by (simp add: createInMemoryRetirementStore_def retirement_ok_def marks_ok_def linked_def one_occupant_def)

lemma retirement_run_ok:
  "retirement_ok k s \<Longrightarrow> int (k + length ops) \<le> MAX_SAFE_INTEGER \<Longrightarrow> retirement_ok (k + length ops) (run_with retirement_step ops s)"
proof (induction ops arbitrary: k s)
  case (Cons x ops)
  have "retirement_ok (Suc k) (retirement_step x s)" by (rule retirement_step_ok [OF Cons.prems(1)]) (use Cons.prems(2) in simp)
  from Cons.IH [OF this] Cons.prems(2) show ?case by simp
qed simp

lemma step_keeps_retired: "retirement_ok k s \<Longrightarrow> int k \<le> MAX_SAFE_INTEGER \<Longrightarrow> isRetired b s \<Longrightarrow> isRetired b (retirement_step x s)"
proof (cases x)
  case (Retire i)
  assume "isRetired b s"
  then show ?thesis using retire_cases [of i s] by (auto simp: Retire isRetired_def)
next
  case (Replace input)
  assume "isRetired b s"
  then show ?thesis using replace_cases [of input s] by (auto simp: Replace isRetired_def)
next
  case (Purge_retired i)
  assume r: "isRetired b s"
  assume ok: "retirement_ok k s"
  have "isRetired b (purged t s)" if t: "find_retired i s = Some t" for t
  proof -
    have t: "t \<in> set (rt_retired s)" using find_retired_Some [OF t] by simp
    have "inj_on rr_agentRunId (set (rt_retired s))" using ok by (simp add: retirement_ok_def marks_ok_def distinct_map)
    then have "q \<in> set (rt_retired s) \<Longrightarrow> rr_agentRunId q = rr_agentRunId t \<Longrightarrow> q = t" for q using t by (auto dest: inj_onD)
    then show ?thesis using r by (fastforce simp: isRetired_def purged_def list_ex_iff)
  qed
  then show ?thesis using purge_cases [of i s] r by (auto simp: Purge_retired)
next
  case (Reopen f)
  assume "retirement_ok k s" "int k \<le> MAX_SAFE_INTEGER" "isRetired b s"
  then show ?thesis using reopen_same [of k s f] by (simp add: Reopen retirement_ok_def isRetired_def)
qed


text \<open>C34. Retirement is irreversible: once the binding of a process and session is retired, it is fenced forever,
  whatever is retired, replaced or purged afterwards and however often the store is rebuilt from its snapshot
  (for any number of operations that a JavaScript number can count).\<close>

theorem retirement_irreversible:
  assumes "isRetired b (run_with retirement_step ops (createInMemoryRetirementStore None f l))"
    and "int (length ops + length later) \<le> MAX_SAFE_INTEGER"
  shows "isRetired b (run_with retirement_step (ops @ later) (createInMemoryRetirementStore None f l))"
proof -
  have "isRetired b (run_with retirement_step later s)"
    if "retirement_ok k s" "int (k + length later) \<le> MAX_SAFE_INTEGER" "isRetired b s" for k s
    using that
  proof (induction later arbitrary: k s)
    case (Cons x later)
    have k: "int k \<le> MAX_SAFE_INTEGER" using Cons.prems(2) by simp
    show ?case
      using Cons.IH [OF retirement_step_ok [OF Cons.prems(1) k, of x]] step_keeps_retired [OF Cons.prems(1) k Cons.prems(3), of x] Cons.prems(2)
      by simp
  qed simp
  from this [OF retirement_run_ok [OF new_retirement_ok]] assms show ?thesis by (simp add: run_with_append)
qed

text \<open>Whether an operation is a first retirement of a run in the Role.\<close>

definition retires_in :: "jstr \<Rightarrow> role \<Rightarrow> retirement_op \<Rightarrow> retirement_store \<Rightarrow> bool" where
  "retires_in g r x s \<longleftrightarrow>
     (case x of
        Retire i \<Rightarrow> el_teamGoalId i = g \<and> el_role i = r \<and> fst (transaction_rt (commitRetirement i) s) = Inr (tombstone_of i, False)
      | _ \<Rightarrow> False)"

text \<open>C35. In every store that operations can reach: a Role has at most one replacement that occupies it, every
  replacement's predecessor is still kept as retired, for the same Role, and the vacancy generation of a Role
  grows by exactly one with each first retirement in it and changes with no other operation, neither a
  replacement, nor a purge, nor a rebuild from the snapshot.\<close>

theorem vacancy_generations:
  assumes "int (Suc (length ops)) \<le> MAX_SAFE_INTEGER" and "s = run_with retirement_step ops (createInMemoryRetirementStore None f l)"
  shows "one_occupant s \<and> linked s \<and>
    currentVacancyGeneration g r (retirement_step x s) = currentVacancyGeneration g r s + (if retires_in g r x s then 1 else 0)"
proof -
  have ok: "retirement_ok (length ops) s" using retirement_run_ok [OF new_retirement_ok, of ops] assms by simp
  then have m: "marks_ok (length ops) s" by (simp add: retirement_ok_def)
  have k: "int (length ops) \<le> MAX_SAFE_INTEGER" using assms(1) by simp
  have m': "marks_ok (Suc (length ops)) (retirement_step x s)" using retirement_step_ok [OF ok k] by (simp add: retirement_ok_def)
  have "high_water_of (rt_highWater (retirement_step x s)) (vacancyKey g r) =
      high_water_of (rt_highWater s) (vacancyKey g r) + (if retires_in g r x s then 1 else 0)"
  proof (cases x)
    case (Retire i)
    show ?thesis using retire_cases [of i s] by (auto simp: Retire retires_in_def Let_def high_water_put)
  next
    case (Replace input)
    show ?thesis using replace_cases [of input s] by (auto simp: Replace retires_in_def)
  next
    case (Purge_retired i)
    show ?thesis using purge_cases [of i s] by (auto simp: Purge_retired retires_in_def purged_def)
  next
    case (Reopen f)
    show ?thesis using reopen_same [OF m k] by (simp add: Reopen retires_in_def)
  qed
  then show ?thesis using ok by (simp add: generation_is_mark [OF m] generation_is_mark [OF m'] retirement_ok_def)
qed


definition demo_retire :: retirement_input where
  "demo_retire = \<lparr>el_agentRunId = js ''a'', el_teamGoalId = js ''g'', el_role = Builder, el_observedSessionId = js ''o'', el_revision = 1,
     el_executionNodeId = Some (js ''n''), el_processIncarnationId = Some (js ''p''), el_piSessionId = Some (js ''s''),
     el_extensionInstanceId = Some (js ''x'')\<rparr>"

lemma demo_letters: "c \<in> {CHR ''a'', CHR ''g'', CHR ''n'', CHR ''o'', CHR ''p'', CHR ''s'', CHR ''x''} \<Longrightarrow> ID_RE (js [c])"
  by (auto simp: ID_RE_def matches_head_tail_def js_def char_class_defs)

lemma demo_retired:
  "transaction_rt (commitRetirement demo_retire) (createInMemoryRetirementStore None f None) =
     (Inr (tombstone_of demo_retire, False), bury (tombstone_of demo_retire) (createInMemoryRetirementStore None f None))"
  by (simp add: transaction_rt_def commitRetirement_def assertCommitRetirementEligible_def check_live_def demo_retire_def demo_letters
      createInMemoryRetirementStore_def find_retired_def bounded_or_none_def bindE_def thenE_def getE_def requireE_def retE_def modifyE_def
      MAX_SAFE_INTEGER_def)

lemma retirement_irreversible_witness:
  "isRetired (rr_originalCommitment (tombstone_of demo_retire))
     (run_with retirement_step ([Retire demo_retire] @ [Purge_retired (js ''a''), Reopen (\<lambda>_. js ''b'')]) (createInMemoryRetirementStore None (\<lambda>_. js ''b'') None))"
  by (rule retirement_irreversible) (simp_all add: demo_retired isRetired_def MAX_SAFE_INTEGER_def)

lemma vacancy_generations_witness:
  "currentVacancyGeneration (js ''g'') Builder (retirement_step (Retire demo_retire) (createInMemoryRetirementStore None (\<lambda>_. js ''b'') None)) =
   currentVacancyGeneration (js ''g'') Builder (createInMemoryRetirementStore None (\<lambda>_. js ''b'') None) + 1"
proof -
  let ?s = "createInMemoryRetirementStore None (\<lambda>_. js ''b'') None"
  have "retires_in (js ''g'') Builder (Retire demo_retire) ?s" by (simp add: retires_in_def demo_retired) (simp add: demo_retire_def)
  then show ?thesis
    using vacancy_generations [of "[]" ?s "\<lambda>_. js ''b''" None "js ''g''" Builder "Retire demo_retire"] by (simp add: MAX_SAFE_INTEGER_def)
qed

lemma eligible_new:
  assumes "find_retired (el_agentRunId i) s = None" "ID_RE (el_agentRunId i)" "ID_RE (el_teamGoalId i)" "ID_RE (el_observedSessionId i)"
    "\<bar>el_revision i\<bar> \<le> MAX_SAFE_INTEGER" "1 \<le> el_revision i" "bounded_or_none (el_executionNodeId i)"
    "bounded_or_none (el_processIncarnationId i)" "bounded_or_none (el_piSessionId i)" "bounded_or_none (el_extensionInstanceId i)"
  shows "assertCommitRetirementEligible i s = (Inr (), s)"
  using assms by (simp add: assertCommitRetirementEligible_def thenE_def bindE_def retE_def requireE_def getE_def)

text \<open>
  Without the hook \<open>liveCommitForRole\<close> nothing keeps two runs of one Role, or of one process, from being
  retired one after another.
\<close>

lemma role_retired_twice:
  "let s = run_with retirement_step [Retire demo_retire, Retire (demo_retire\<lparr>el_agentRunId := js ''o''\<rparr>)] (createInMemoryRetirementStore None f None)
   in map rr_agentRunId (rt_retired s) = [js ''a'', js ''o''] \<and> length (remdups (map rr_originalCommitment (rt_retired s))) = 1 \<and>
      length (remdups (map rr_role (rt_retired s))) = 1"
proof -
  let ?s = "bury (tombstone_of demo_retire) (createInMemoryRetirementStore None f None)"
  let ?i = "demo_retire\<lparr>el_agentRunId := js ''o''\<rparr>"
  have s: "rt_live (createInMemoryRetirementStore None f None) = None" "rt_retired ?s = [tombstone_of demo_retire]"
    by (simp_all add: createInMemoryRetirementStore_def)
  have n: "find_retired (el_agentRunId ?i) ?s = None" unfolding find_retired_def s by (simp add: demo_retire_def js_def)
  have a: "assertCommitRetirementEligible ?i ?s = (Inr (), ?s)"
    by (rule eligible_new [OF n]) (simp_all add: demo_retire_def demo_letters bounded_or_none_def MAX_SAFE_INTEGER_def)
  have l: "check_live ?i ?s = (Inr (), ?s)"
    by (simp add: check_live_def bindE_def getE_def retE_def s)
  have e: "transaction_rt (commitRetirement ?i) ?s = (Inr (tombstone_of ?i, False), bury (tombstone_of ?i) ?s)"
    by (simp add: transaction_rt_def commitRetirement_def bindE_def thenE_def getE_def retE_def modifyE_def a l n n [simplified])
  have r: "rt_retired (run_with retirement_step [Retire demo_retire, Retire ?i] (createInMemoryRetirementStore None f None)) =
      [tombstone_of demo_retire, tombstone_of ?i]"
    by (simp add: demo_retired e) (simp add: createInMemoryRetirementStore_def)
  show ?thesis unfolding Let_def r by (simp add: demo_retire_def tombstone_of_def Let_def js_def)
qed

end
