(* ===== verification/LiveRunner.thy ===== *)
theory LiveRunner
  imports Adoption RetirementStore Gateway
begin

text \<open>
  observer/live-adoption-runner.ts: the Adoption authority. It composes one coordinator for each
  observed session (\<open>Adoption\<close>) with the stores of committed and of retired runs. The coordinator
  of a session is run with ports that are computed from the state of the runner (\<open>port_of\<close>); what
  lies outside (clock, issuers, authorizer, presentation, transport) is read from a stream of
  answers, one stream for the coordinators and one for the runner itself. An object of JavaScript
  that serves as a connection is a number. An operation runs to its end before the next one: the
  interleaving at awaits is not modelled. The calls of \<open>managedBridge\<close> have no effect on the state.
\<close>

definition DEFAULT_TRANSPORT_ID :: jstr where "DEFAULT_TRANSPORT_ID = js ''transport-1''"
definition DEFAULT_LEASE_DURATION_MS :: int where "DEFAULT_LEASE_DURATION_MS = 15000"
definition DEFAULT_RECOVERY_TTL_MS :: int where "DEFAULT_RECOVERY_TTL_MS = 30000"

section \<open>Data\<close>

record live_record =
  ob_observedSessionId :: jstr
  ob_executionNodeId :: jstr
  ob_processIncarnationId :: jstr
  ob_piSessionId :: jstr
  ob_extensionInstanceId :: jstr
  ob_connectionId :: jstr
  ob_connectionChallenge :: jstr
  ob_registryRevision :: int
  ob_lifecycle :: observer_lifecycle
  ob_activity :: observer_activity
  ob_availability :: observer_availability
  ob_health :: observer_health
  ob_piStatus :: jstr
  ob_acceptedSourceSequence :: int

record observed_entry =
  oe_record :: live_record
  oe_connection :: nat
  oe_observerConnection :: nat
  oe_coordinator :: coordinator
  oe_leaseUntil :: int

record commit_context =
  cx_connection :: nat
  cx_observedSessionId :: jstr
  cx_acknowledgementDeadline :: int
  cx_expiresMonotonic :: int

record replacement_context = commit_context +
  cx_targetTeamGoalId :: jstr
  cx_targetRole :: role
  cx_predecessorAgentRunId :: jstr
  cx_vacancyGeneration :: int
  cx_proposalDigest :: jstr
  cx_acknowledgementNonce :: jstr

record recovery_entry =
  ry_binding :: binding_identity
  ry_challenge :: jstr
  ry_expiresAt :: int
  ry_committed :: committed_run

record managed_connection =
  mc_committed :: committed_run
  mc_ready :: bool
  mc_leaseUntil :: int

text \<open>What the ports of the coordinators and those of the runner answer at one moment.\<close>

record coordinator_ports =
  cp_now :: int
  cp_issue :: "string \<Rightarrow> json option"
  cp_verify :: "adoption_proposal \<Rightarrow> adoption_authorization \<Rightarrow> observer_failure + bool"
  cp_present_throws :: bool
  cp_send_throws :: bool

record live_world =
  lw_now :: int
  lw_challenge :: json
  lw_nonce :: jstr
  lw_proposalId :: jstr
  lw_verify :: "jstr \<Rightarrow> jstr \<Rightarrow> jstr \<Rightarrow> role \<Rightarrow> bool"
  lw_revisionOf :: "committed_run \<Rightarrow> int"

record live_runner =
  lr_store :: adoption_store
  lr_retirement :: "retirement_store option"
  lr_executionNodeId :: jstr
  lr_teamGoalId :: jstr
  lr_roles :: "role list"
  lr_choice :: "jstr \<Rightarrow> runner_failure + (jstr \<times> role)"
  lr_leaseDurationMs :: int
  lr_recoveryTtlMs :: int
  lr_sha256 :: "jstr \<Rightarrow> jstr"
  lr_transportId :: "nat \<Rightarrow> json option"
  lr_token_le :: "jstr \<Rightarrow> int \<Rightarrow> bool"
  lr_ports :: "nat \<Rightarrow> coordinator_ports"
  lr_world :: "nat \<Rightarrow> live_world"
  lr_portCalls :: nat
  lr_calls :: nat
  lr_objects :: nat
  lr_observed :: "(jstr \<times> observed_entry) list"
  lr_commitContexts :: "(jstr \<times> commit_context) list"
  lr_replacementContexts :: "(jstr \<times> replacement_context) list"
  lr_recoveries :: "(nat \<times> recovery_entry) list"
  lr_managed :: "(nat \<times> managed_connection) list"
  lr_ready :: "jstr list"
  lr_disconnected :: "jstr list"
  lr_revision :: int
  lr_commitCount :: nat
  lr_bridgeEnabled :: bool

type_synonym 'a lr = "(runner_failure, live_runner, 'a) eff"

abbreviation fail_lr :: "observer_code \<Rightarrow> 'a lr" where
  "fail_lr c \<equiv> throwE (Observer_failed c)"

abbreviation require_lr :: "bool \<Rightarrow> observer_code \<Rightarrow> unit lr" where
  "require_lr b c \<equiv> requireE b (Observer_failed c)"

definition read_lr :: "(live_world \<Rightarrow> 'a) \<Rightarrow> 'a lr" where
  "read_lr f L = (Inr (f (lr_world L (lr_calls L))), L\<lparr>lr_calls := Suc (lr_calls L)\<rparr>)"

definition on_store :: "'a as \<Rightarrow> 'a lr" where
  "on_store m L = (case m (lr_store L) of (r, s) \<Rightarrow> (r, L\<lparr>lr_store := s\<rparr>))"

text \<open>A call of the retirement port, when there is one.\<close>

definition on_retirement :: "'a rt \<Rightarrow> 'a lr" where
  "on_retirement m L =
     (case lr_retirement L of
        None \<Rightarrow> (Inl (Observer_failed Transaction_failed), L)
      | Some t \<Rightarrow> (case m t of (r, t') \<Rightarrow> (r, L\<lparr>lr_retirement := Some t'\<rparr>)))"

definition requireId_lr :: "jstr \<Rightarrow> unit lr" where
  "requireId_lr i = requireE (ID_RE i) Type_failed"

fun of_observer :: "observer_failure \<Rightarrow> runner_failure" where
  "of_observer (Observer_error c) = Observer_failed c"
| "of_observer Type_error = Type_failed"
| "of_observer Port_error = Plain_failed ''port''"

text \<open>
  \<open>new ObserverError(code, \<dots>)\<close> for the code of a retirement error: three of the codes are not in the
  allow-list of the observer protocol, and the constructor throws a \<open>TypeError\<close> for them.
\<close>

fun observer_code_of :: "retirement_code \<Rightarrow> observer_code option" where
  "observer_code_of Rc_invalid_envelope = Some Invalid_envelope"
| "observer_code_of Rc_stale_revision = Some Stale_revision"
| "observer_code_of Rc_not_eligible = Some Not_eligible"
| "observer_code_of Rc_role_mismatch = Some Role_mismatch"
| "observer_code_of Rc_node_mismatch = Some Node_mismatch"
| "observer_code_of Rc_already_retired = Some Already_retired"
| "observer_code_of Rc_predecessor_unknown = None"
| "observer_code_of Rc_predecessor_mismatch = None"
| "observer_code_of Rc_vacancy_stale = Some Vacancy_stale"
| "observer_code_of Rc_invalid_vacancy = None"
| "observer_code_of Rc_role_occupied = Some Role_occupied"
| "observer_code_of Rc_transaction_failed = Some Transaction_failed"
| "observer_code_of Rc_not_retired = Some Not_retired"
| "observer_code_of Rc_purge_blocked = Some Purge_blocked"

fun retirementErrorToObserverError :: "runner_failure \<Rightarrow> runner_failure" where
  "retirementErrorToObserverError (Retirement_failed c) =
     (case observer_code_of c of None \<Rightarrow> Type_failed | Some d \<Rightarrow> Observer_failed d)"
| "retirementErrorToObserverError e = e"

definition translated :: "'a lr \<Rightarrow> 'a lr" where
  "translated m = catchE m (\<lambda>e. throwE (retirementErrorToObserverError e))"

section \<open>Identities and choices\<close>

definition bindingOfRecord :: "live_record \<Rightarrow> binding_identity" where
  "bindingOfRecord r =
     \<lparr>bi_executionNodeId = ob_executionNodeId r, bi_processIncarnationId = ob_processIncarnationId r,
      bi_piSessionId = ob_piSessionId r, bi_extensionInstanceId = ob_extensionInstanceId r\<rparr>"

text \<open>\<open>sameBindingIdentity\<close> on a binding; on a run it is \<open>sameBinding\<close>.\<close>

definition sameBindingIdentity :: "binding_identity \<Rightarrow> binding_identity \<Rightarrow> bool" where
  "sameBindingIdentity l r \<longleftrightarrow>
     bi_executionNodeId l = bi_executionNodeId r \<and> bi_processIncarnationId l = bi_processIncarnationId r \<and>
     bi_piSessionId l = bi_piSessionId r \<and> bi_extensionInstanceId l = bi_extensionInstanceId r"

definition choiceIdToRole :: "jstr \<Rightarrow> runner_failure + role" where
  "choiceIdToRole c =
     (if c = js ''adoption-choice-2'' then Inr Coordinator
      else if c = js ''adoption-choice-3'' then Inr Reviewer
      else if c = js ''adoption-choice-1'' then Inr Builder
      else Inl (Observer_failed Invalid_envelope))"

definition defaultChoiceResolver :: "jstr \<Rightarrow> jstr \<Rightarrow> runner_failure + (jstr \<times> role)" where
  "defaultChoiceResolver teamGoalId c = andThen (choiceIdToRole c) (\<lambda>r. Inr (teamGoalId, r))"

definition new_live_runner ::
    "adoption_store \<Rightarrow> retirement_store option \<Rightarrow> jstr \<Rightarrow> jstr \<Rightarrow> role list \<Rightarrow> (jstr \<Rightarrow> runner_failure + (jstr \<times> role)) option \<Rightarrow>
     int option \<Rightarrow> int option \<Rightarrow> (jstr \<Rightarrow> jstr) \<Rightarrow> (nat \<Rightarrow> json option) \<Rightarrow> (jstr \<Rightarrow> int \<Rightarrow> bool) \<Rightarrow>
     (nat \<Rightarrow> coordinator_ports) \<Rightarrow> (nat \<Rightarrow> live_world) \<Rightarrow> runner_failure + live_runner" where
  "new_live_runner store retirement executionNodeId teamGoalId roles choice lease ttl sha256 transportId token_le ports world =
     (let duration = (\<lambda>d v. case v of None \<Rightarrow> Inr d | Some n \<Rightarrow> andThen (guardR (0 \<le> n \<and> n \<le> MAX_SAFE_INTEGER) Type_failed) (\<lambda>_. Inr n))
      in andThen (guardR (ID_RE executionNodeId) Type_failed) (\<lambda>_.
         andThen (guardR (ID_RE teamGoalId) Type_failed) (\<lambda>_.
         andThen (guardR (roles \<noteq> [] \<and> length roles \<le> 3) Type_failed) (\<lambda>_.
         andThen (duration DEFAULT_LEASE_DURATION_MS lease) (\<lambda>leaseDurationMs.
         andThen (duration DEFAULT_RECOVERY_TTL_MS ttl) (\<lambda>recoveryTtlMs.
         Inr \<lparr>lr_store = store, lr_retirement = retirement, lr_executionNodeId = executionNodeId, lr_teamGoalId = teamGoalId,
              lr_roles = roles, lr_choice = (case choice of None \<Rightarrow> defaultChoiceResolver teamGoalId | Some f \<Rightarrow> f),
              lr_leaseDurationMs = leaseDurationMs, lr_recoveryTtlMs = recoveryTtlMs, lr_sha256 = sha256,
              lr_transportId = transportId, lr_token_le = token_le, lr_ports = ports, lr_world = world, lr_portCalls = 0,
              lr_calls = 0, lr_objects = 0, lr_observed = [], lr_commitContexts = [], lr_replacementContexts = [],
              lr_recoveries = [], lr_managed = [], lr_ready = [], lr_disconnected = [], lr_revision = 0,
              lr_commitCount = 0, lr_bridgeEnabled = False\<rparr>))))))"

section \<open>Occupancy\<close>

definition committedByBinding :: "binding_identity \<Rightarrow> live_runner \<Rightarrow> committed_run option" where
  "committedByBinding b L =
     (case committedByBinding_s b (lr_store L) of
        Some r \<Rightarrow> Some r
      | None \<Rightarrow> (case lr_retirement L of
            None \<Rightarrow> None
          | Some t \<Rightarrow> map_option committed_run.truncate (List.find (\<lambda>r. sameBinding r b) (rt_committed t))))"

definition isRoleOccupiedAfterRetirement :: "jstr \<Rightarrow> role \<Rightarrow> bool \<Rightarrow> live_runner \<Rightarrow> bool" where
  "isRoleOccupiedAfterRetirement teamGoalId role adoptionOccupied L =
     (case lr_retirement L of
        None \<Rightarrow> adoptionOccupied
      | Some t \<Rightarrow>
          if list_ex (occupies t teamGoalId role) (rt_committed t) then True
          else if list_ex (\<lambda>r. rr_teamGoalId r = teamGoalId \<and> rr_role r = role) (rt_retired t) then False
          else adoptionOccupied)"

text \<open>The predecessor and the generation of a vacancy, or nothing when the Role was never retired or has a replacement.\<close>

definition retirementVacancyFor :: "jstr \<Rightarrow> role \<Rightarrow> live_runner \<Rightarrow> (jstr \<times> int) option" where
  "retirementVacancyFor teamGoalId role L =
     (case lr_retirement L of
        None \<Rightarrow> None
      | Some t \<Rightarrow>
          if list_ex (occupies t teamGoalId role) (rt_committed t) then None
          else let retired = filter (\<lambda>r. rr_teamGoalId r = teamGoalId \<and> rr_role r = role) (rt_retired t)
               in if retired = [] then None
                  else Some (rr_agentRunId (last retired), currentVacancyGeneration teamGoalId role t))"

definition findLiveCommitByAgentRunId :: "jstr \<Rightarrow> live_runner \<Rightarrow> committed_run option" where
  "findLiveCommitByAgentRunId i L =
     (case List.find (\<lambda>r. cr_agentRunId r = i) (as_committed (lr_store L)) of
        Some r \<Rightarrow> Some r
      | None \<Rightarrow> (case lr_retirement L of
            None \<Rightarrow> None
          | Some t \<Rightarrow> map_option committed_run.truncate
              (List.find (\<lambda>r. cr_agentRunId r = i \<and> cr_agentRunId r \<notin> retired_ids t) (rt_committed t))))"

section \<open>The commit\<close>

text \<open>The object literal of a proposal, and the one of a committed result without \<open>committedAt\<close>.\<close>

definition proposal_json :: "adoption_proposal \<Rightarrow> obj" where
  "proposal_json p =
     [(js ''proposalId'', JStr (pr_proposalId p)), (js ''proposalDigest'', JStr (pr_proposalDigest p)),
      (js ''observedSessionId'', JStr (id_observedSessionId (pr_ids p))),
      (js ''executionNodeId'', JStr (id_executionNodeId (pr_ids p))),
      (js ''processIncarnationId'', JStr (id_processIncarnationId (pr_ids p))),
      (js ''piSessionId'', JStr (id_piSessionId (pr_ids p))),
      (js ''extensionInstanceId'', JStr (id_extensionInstanceId (pr_ids p))),
      (js ''targetTeamGoalId'', JStr (tg_teamGoalId (pr_target p))), (js ''targetRole'', JEnum ROLES (tg_role (pr_target p)))]"

definition result_json :: "committed_run \<Rightarrow> json" where
  "result_json r = JObj (filter (\<lambda>e. fst e \<noteq> js ''committedAt'') (run_json r))"

definition assertIdle :: "live_record \<Rightarrow> unit lr" where
  "assertIdle r =
     thenE (require_lr (ob_lifecycle r \<noteq> Exited) Session_exited)
    (thenE (require_lr (ob_availability r = Available) Session_unavailable)
    (thenE (require_lr (ob_activity r = Idle_activity)
       (if ob_activity r = Unknown_activity then Session_unknown else Session_busy))
    (thenE (require_lr (ob_health r = Healthy) Session_unavailable)
           (require_lr (ob_piStatus r = OBSERVER_PI_STATUS_LOCAL) Already_managed))))"

text \<open>Deadlines of a commit: the proposal, the acknowledgement window, the lease of the session.\<close>

definition assertInTime :: "('c commit_context_scheme) \<Rightarrow> observed_entry \<Rightarrow> unit lr" where
  "assertInTime c e =
     bindE (read_lr lw_now) (\<lambda>now.
     thenE (require_lr (now < cx_expiresMonotonic c) Proposal_expired)
    (thenE (require_lr (now < cx_acknowledgementDeadline c) Ack_timeout)
           (require_lr (now < oe_leaseUntil e) Session_expired)))"

definition record_matches :: "live_record \<Rightarrow> adoption_proposal \<Rightarrow> bool" where
  "record_matches r p \<longleftrightarrow>
     ob_observedSessionId r = id_observedSessionId (pr_ids p) \<and> ob_executionNodeId r = id_executionNodeId (pr_ids p) \<and>
     ob_processIncarnationId r = id_processIncarnationId (pr_ids p) \<and> ob_piSessionId r = id_piSessionId (pr_ids p) \<and>
     ob_extensionInstanceId r = id_extensionInstanceId (pr_ids p) \<and> ob_connectionId r = pr_connectionId p \<and>
     ob_connectionChallenge r = pr_connectionChallenge p \<and> ob_registryRevision r = pr_registryRevision p"

text \<open>The last check before the commit; \<open>occupied\<close> and \<open>managed\<close> are the two questions that a transaction answers.\<close>

definition assertSynchronousCommitValid ::
    "commit_context \<Rightarrow> commit_input \<Rightarrow> (jstr \<Rightarrow> role \<Rightarrow> live_runner \<Rightarrow> bool) \<Rightarrow> (binding_identity \<Rightarrow> live_runner \<Rightarrow> bool) \<Rightarrow> unit lr" where
  "assertSynchronousCommitValid c input occupied managed =
     (let p = ci_proposal input; ack = ci_acknowledgement input; teamGoalId = tg_teamGoalId (pr_target p); role = tg_role (pr_target p) in
      bindE (getE (\<lambda>L. map_of (lr_observed L) (cx_observedSessionId c))) (\<lambda>entry.
      case entry of
        None \<Rightarrow> fail_lr Session_unknown
      | Some e \<Rightarrow>
          let r = oe_record e in
          thenE (require_lr (oe_connection e = cx_connection c) Connection_not_current)
         (thenE (require_lr (ob_connectionId r = ak_connectionId ack \<and> ob_connectionChallenge r = ak_connectionChallenge ack) Connection_not_current)
         (thenE (assertInTime c e)
         (thenE (assertIdle r)
         (thenE (require_lr (record_matches r p) Identity_drift)
         (thenE (require_lr (ob_acceptedSourceSequence r < ak_sourceSequence ack) Invalid_sequence)
         (thenE (requireId_lr teamGoalId)
         (bindE (getE lr_executionNodeId) (\<lambda>node.
          thenE (require_lr (ob_executionNodeId r = node \<and> tg_executionNodeId (pr_target p) = node) Node_mismatch)
         (bindE (getE (\<lambda>L. teamGoalId = lr_teamGoalId L \<and> role \<in> set (lr_roles L))) (\<lambda>owned.
          thenE (require_lr owned Remote_team_goal)
         (bindE (getE (\<lambda>L. isRoleOccupiedAfterRetirement teamGoalId role (occupied teamGoalId role L) L)) (\<lambda>taken.
          thenE (require_lr (\<not> taken) Role_occupied)
         (bindE (getE (managed (bindingOfRecord r))) (\<lambda>already.
          require_lr (\<not> already) Already_managed))))))))))))))))"

text \<open>The managed connection of a new run, and the end of its commit context.\<close>

definition manage :: "nat \<Rightarrow> committed_run \<Rightarrow> unit lr" where
  "manage c r =
     bindE (read_lr lw_now) (\<lambda>now.
     modifyE (\<lambda>L. L\<lparr>lr_managed := assoc_put c \<lparr>mc_committed = r, mc_ready = False, mc_leaseUntil = now + lr_leaseDurationMs L\<rparr> (lr_managed L)\<rparr>))"

definition count_commit :: "unit lr" where
  "count_commit = modifyE (\<lambda>L. L\<lparr>lr_commitCount := Suc (lr_commitCount L), lr_revision := lr_revision L + 1\<rparr>)"

definition end_context :: "jstr \<Rightarrow> unit lr" where
  "end_context p = modifyE (\<lambda>L. L\<lparr>lr_commitContexts := assoc_del p (lr_commitContexts L)\<rparr>)"

definition replacement_json ::
    "jstr \<Rightarrow> jstr \<Rightarrow> jstr \<Rightarrow> binding_identity \<Rightarrow> jstr \<Rightarrow> role \<Rightarrow> jstr \<Rightarrow> int \<Rightarrow> json" where
  "replacement_json proposalId digest observedSessionId b teamGoalId role predecessor generation = JObj
     [(js ''proposalId'', JStr proposalId), (js ''proposalDigest'', JStr digest),
      (js ''observedSessionId'', JStr observedSessionId), (js ''executionNodeId'', JStr (bi_executionNodeId b)),
      (js ''processIncarnationId'', JStr (bi_processIncarnationId b)), (js ''piSessionId'', JStr (bi_piSessionId b)),
      (js ''extensionInstanceId'', JStr (bi_extensionInstanceId b)), (js ''targetTeamGoalId'', JStr teamGoalId),
      (js ''targetRole'', JEnum ROLES role), (js ''predecessorAgentRunId'', JStr predecessor),
      (js ''vacancyGeneration'', JWhole generation)]"

definition commitNormalAdoptionAsReplacement :: "commit_input \<Rightarrow> commit_context \<Rightarrow> jstr \<times> int \<Rightarrow> committed_run lr" where
  "commitNormalAdoptionAsReplacement input c vacancy =
     (let p = ci_proposal input; i = pr_ids p;
          b = \<lparr>bi_executionNodeId = id_executionNodeId i, bi_processIncarnationId = id_processIncarnationId i,
               bi_piSessionId = id_piSessionId i, bi_extensionInstanceId = id_extensionInstanceId i\<rparr>
      in thenE (assertSynchronousCommitValid c input
           (\<lambda>g r L. isRoleOccupiedAfterRetirement g r (isRoleOccupied g r (lr_store L)) L) (\<lambda>b L. isBindingCommitted b (lr_store L)))
        (thenE (eachE requireId_lr [pr_proposalDigest p, id_observedSessionId i, id_executionNodeId i, id_processIncarnationId i,
             id_piSessionId i, id_extensionInstanceId i, tg_teamGoalId (pr_target p)])
        (bindE (translated (on_retirement (transaction_rt (commitReplacementAdoption (Some (replacement_json
             (pr_proposalId p) (pr_proposalDigest p) (id_observedSessionId i) b (tg_teamGoalId (pr_target p)) (tg_role (pr_target p))
             (fst vacancy) (snd vacancy))))))) (\<lambda>replacement.
         let committed = committed_run.truncate replacement in
         thenE (manage (cx_connection c) committed)
        (thenE (end_context (pr_proposalId p))
        (thenE count_commit (retE committed)))))))"

definition commitAdoption :: "commit_input \<Rightarrow> committed_run lr" where
  "commitAdoption input =
     (let p = ci_proposal input; teamGoalId = tg_teamGoalId (pr_target p); role = tg_role (pr_target p) in
      thenE (requireId_lr (pr_proposalId p))
     (bindE (getE (\<lambda>L. map_of (lr_commitContexts L) (pr_proposalId p))) (\<lambda>context.
      case context of
        None \<Rightarrow> fail_lr Proposal_not_found
      | Some c \<Rightarrow>
          thenE (requireId_lr teamGoalId)
         (bindE (getE (retirementVacancyFor teamGoalId role)) (\<lambda>vacancy.
          case vacancy of
            Some v \<Rightarrow> commitNormalAdoptionAsReplacement input c v
          | None \<Rightarrow>
              thenE (assertSynchronousCommitValid c input (\<lambda>g r L. isRoleOccupied g r (lr_store L)) (\<lambda>b L. isBindingCommitted b (lr_store L)))
             (bindE (on_store (transaction_s (commitAdoption_s [(js ''proposal'', JObj (proposal_json p))]))) (\<lambda>committed.
              thenE (manage (cx_connection c) committed)
             (thenE (end_context (pr_proposalId p))
             (thenE count_commit (retE committed))))))))))"

end
