(* ===== verification/LiveAuthority.thy ===== *)
theory LiveAuthority
  imports LiveRunner
begin

text \<open>
  The operations of the Adoption authority of observer/live-adoption-runner.ts over the state and
  the commit of \<open>LiveRunner\<close>.
\<close>

section \<open>The coordinators of the observed sessions\<close>

definition record_json :: "live_record \<Rightarrow> obj" where
  "record_json r =
     [(js ''observedSessionId'', JStr (ob_observedSessionId r)), (js ''executionNodeId'', JStr (ob_executionNodeId r)),
      (js ''processIncarnationId'', JStr (ob_processIncarnationId r)), (js ''piSessionId'', JStr (ob_piSessionId r)),
      (js ''extensionInstanceId'', JStr (ob_extensionInstanceId r)), (js ''connectionId'', JStr (ob_connectionId r)),
      (js ''connectionChallenge'', JStr (ob_connectionChallenge r)), (js ''registryRevision'', JWhole (ob_registryRevision r)),
      (js ''lifecycle'', JEnum OBSERVER_LIFECYCLE_VALUES (ob_lifecycle r)),
      (js ''activity'', JEnum OBSERVER_ACTIVITY_VALUES (ob_activity r)),
      (js ''availability'', JEnum OBSERVER_AVAILABILITY_VALUES (ob_availability r)),
      (js ''health'', JEnum OBSERVER_HEALTH_VALUES (ob_health r)), (js ''piStatus'', JStr (ob_piStatus r)),
      (js ''acceptedSourceSequence'', JWhole (ob_acceptedSourceSequence r))]"

text \<open>
  The ports of \<open>buildCoordinator\<close> in a state of the runner. The commit port answers what \<open>commitAdoption\<close>
  returns in that state; any exception of it is one to the coordinator.
\<close>

definition port_of :: "live_runner \<Rightarrow> nat \<Rightarrow> port_world" where
  "port_of L n =
     (let w = lr_ports L (lr_portCalls L + n); entries = map snd (lr_observed L) in
      \<lparr>pw_now = cp_now w, pw_issue = cp_issue w,
       pw_observed = (\<lambda>i. Inr (case map_of (lr_observed L) i of None \<Rightarrow> JNull | Some e \<Rightarrow> JObj (record_json (oe_record e)))),
       pw_revision = Some (Inr (foldl (\<lambda>m e. max m (ob_registryRevision (oe_record e))) 0 entries)),
       pw_local = Some (\<lambda>g node. Inr (g = lr_teamGoalId L \<and> node = lr_executionNodeId L)),
       pw_occupied = Some (\<lambda>g r. Inr (isRoleOccupiedAfterRetirement g r (isRoleOccupied g r (lr_store L)) L)),
       pw_managed = Some (\<lambda>i. Inr (case map_of (lr_observed L) i of None \<Rightarrow> False
          | Some e \<Rightarrow> isBindingCommitted (bindingOfRecord (oe_record e)) (lr_store L))),
       pw_is_current = Some (\<lambda>connection connectionId challenge. Inr (list_ex (\<lambda>e. Some (oe_observerConnection e) = connection \<and>
          ob_connectionId (oe_record e) = connectionId \<and> ob_connectionChallenge (oe_record e) = challenge) entries)),
       pw_assert_current = None, pw_closed = False, pw_verify = cp_verify w,
       pw_commit = (\<lambda>input. case fst (commitAdoption input L) of Inl _ \<Rightarrow> Inl Port_error | Inr r \<Rightarrow> Inr (result_json r)),
       pw_present_throws = cp_present_throws w, pw_send_throws = cp_send_throws w\<rparr>)"

definition set_entry :: "jstr \<Rightarrow> (observed_entry \<Rightarrow> observed_entry) \<Rightarrow> live_runner \<Rightarrow> live_runner" where
  "set_entry i f L = L\<lparr>lr_observed := map (\<lambda>(j, e). (j, if j = i then f e else e)) (lr_observed L)\<rparr>"

text \<open>
  An operation of the coordinator of session \<open>i\<close>. When it hands an input to its commit port (no
  operation does so twice), the commit changes the runner.
\<close>

definition with_coordinator :: "jstr \<Rightarrow> 'a ad \<Rightarrow> 'a lr" where
  "with_coordinator i m L =
     (case map_of (lr_observed L) i of
        None \<Rightarrow> (Inl Type_failed, L)
      | Some e \<Rightarrow>
          (let c = (oe_coordinator e)\<lparr>co_world := port_of L, co_calls := 0\<rparr> in
           case m c of (r, c') \<Rightarrow>
             (let L1 = (case drop (length (co_commits c)) (co_commits c') of [] \<Rightarrow> L | input # _ \<Rightarrow> snd (commitAdoption input L));
                  L2 = set_entry i (\<lambda>e. e\<lparr>oe_coordinator := c'\<rparr>) (L1\<lparr>lr_portCalls := lr_portCalls L1 + co_calls c'\<rparr>)
              in (case r of Inl e \<Rightarrow> Inl (of_observer e) | Inr x \<Rightarrow> Inr x, L2))))"

text \<open>\<open>buildCoordinator\<close>; the connection that the coordinator is given is a new object.\<close>

definition buildCoordinator :: "nat \<Rightarrow> nat \<Rightarrow> live_runner \<Rightarrow> coordinator" where
  "buildCoordinator object transport L =
     new_coordinator (Some \<lparr>on_object = object,
         on_id = Some (if nullish (lr_transportId L transport) then JStr DEFAULT_TRANSPORT_ID else the (lr_transportId L transport)),
         on_sendAdoptionRequest = False, on_sendAdoptionCommitted = False, on_send = True\<rparr>) (lr_sha256 L) (port_of L)"

text \<open>
  \<open>registerObserved\<close>; a call without a connection passes an object of its own, whose number is no connection's.
\<close>

definition registerObserved :: "live_record \<Rightarrow> nat \<Rightarrow> unit lr" where
  "registerObserved r connection =
     bindE (getE (committedByBinding (bindingOfRecord r))) (\<lambda>committed.
     thenE (require_lr (committed = None) Already_managed)
    (bindE (getE lr_retirement) (\<lambda>port.
     thenE (if port = None then retE () else on_retirement (transaction_rt (registerObservedIfUnretired (bindingOfRecord r))))
    (bindE (read_lr lw_now) (\<lambda>now.
     modifyE (\<lambda>L. L\<lparr>lr_observed := assoc_put (ob_observedSessionId r)
           \<lparr>oe_record = r, oe_connection = connection, oe_observerConnection = lr_objects L,
            oe_coordinator = buildCoordinator (lr_objects L) connection L, oe_leaseUntil = now + lr_leaseDurationMs L\<rparr> (lr_observed L),
         lr_objects := Suc (lr_objects L), lr_revision := lr_revision L + 1\<rparr>))))))"

definition updateObserved :: "live_record \<Rightarrow> unit lr" where
  "updateObserved r =
     bindE (getE (\<lambda>L. map_of (lr_observed L) (ob_observedSessionId r))) (\<lambda>entry.
     if entry = None then retE ()
     else bindE (read_lr lw_now) (\<lambda>now.
          modifyE (\<lambda>L. (set_entry (ob_observedSessionId r)
             (\<lambda>e. e\<lparr>oe_record := r, oe_leaseUntil := now + lr_leaseDurationMs L\<rparr>) L)\<lparr>lr_revision := lr_revision L + 1\<rparr>)))"

section \<open>Loss of a connection\<close>

definition invalidateEntry :: "jstr \<Rightarrow> live_runner \<Rightarrow> live_runner" where
  "invalidateEntry i L =
     (case map_of (lr_observed L) i of
        None \<Rightarrow> L
      | Some e \<Rightarrow>
          (set_entry i (\<lambda>e. e\<lparr>oe_record := (oe_record e)\<lparr>ob_availability := Unavailable\<rparr>,
                               oe_coordinator := reconstruct_adoption (oe_coordinator e)\<rparr>) L)
          \<lparr>lr_commitContexts := filter (\<lambda>(_, c). cx_observedSessionId c \<noteq> ob_observedSessionId (oe_record e)) (lr_commitContexts L),
           lr_revision := lr_revision L + 1\<rparr>)"

definition bridge_enabled :: "(nat \<times> managed_connection) list \<Rightarrow> bool" where
  "bridge_enabled m = list_ex (\<lambda>(_, c). mc_ready c) m"

definition add_id :: "jstr \<Rightarrow> jstr list \<Rightarrow> jstr list" where
  "add_id i xs = (if i \<in> set xs then xs else xs @ [i])"

definition onConnectionLost :: "nat option \<Rightarrow> live_runner \<Rightarrow> live_runner" where
  "onConnectionLost connection L =
     (let L1 = (case connection of
           None \<Rightarrow> L\<lparr>lr_managed := []\<rparr>
         | Some c \<Rightarrow>
             L\<lparr>lr_disconnected := (case map_of (lr_managed L) c of None \<Rightarrow> lr_disconnected L
                  | Some m \<Rightarrow> add_id (cr_agentRunId (mc_committed m)) (lr_disconnected L)),
               lr_managed := assoc_del c (lr_managed L)\<rparr>);
          L2 = L1\<lparr>lr_bridgeEnabled := bridge_enabled (lr_managed L1)\<rparr>;
          lost = map fst (filter (\<lambda>(_, e). case connection of None \<Rightarrow> True | Some c \<Rightarrow> oe_connection e = c) (lr_observed L2));
          L3 = fold invalidateEntry lost L2
      in L3\<lparr>lr_recoveries := (case connection of None \<Rightarrow> [] | Some c \<Rightarrow> assoc_del c (lr_recoveries L3))\<rparr>)"

definition expire_managed :: "nat \<Rightarrow> unit lr" where
  "expire_managed c =
     bindE (getE (\<lambda>L. map_of (lr_managed L) c)) (\<lambda>managed.
     case managed of
       None \<Rightarrow> retE ()
     | Some m \<Rightarrow> bindE (read_lr lw_now) (\<lambda>now.
         if mc_leaseUntil m \<le> now then modifyE (onConnectionLost (Some c)) else retE ()))"

definition expire_entry :: "jstr \<Rightarrow> unit lr" where
  "expire_entry i =
     bindE (getE (\<lambda>L. map_of (lr_observed L) i)) (\<lambda>entry.
     case entry of
       None \<Rightarrow> retE ()
     | Some e \<Rightarrow>
         bindE (getE (\<lambda>L. map_of (lr_managed L) (oe_connection e) \<noteq> None)) (\<lambda>managed.
         if managed then retE ()
         else bindE (read_lr lw_now) (\<lambda>now.
              if oe_leaseUntil e \<le> now
              then thenE (modifyE (onConnectionLost (Some (oe_connection e))))
                         (modifyE (\<lambda>L. L\<lparr>lr_observed := assoc_del i (lr_observed L), lr_revision := lr_revision L + 1\<rparr>))
              else retE ())))"

definition expire_lr :: "unit lr" where
  "expire_lr =
     bindE (getE (\<lambda>L. map fst (lr_managed L))) (\<lambda>connections.
     thenE (eachE expire_managed connections)
    (bindE (getE (\<lambda>L. map fst (lr_observed L))) (\<lambda>ids. eachE expire_entry ids)))"

section \<open>Adoption\<close>

definition requestAdoption :: "jstr \<Rightarrow> jstr \<Rightarrow> adoption_proposal lr" where
  "requestAdoption i choiceId =
     bindE (getE (\<lambda>L. map_of (lr_observed L) i)) (\<lambda>entry.
     case entry of
       None \<Rightarrow> fail_lr Session_unknown
     | Some e \<Rightarrow>
         bindE (getE (\<lambda>L. lr_choice L choiceId)) (\<lambda>choice.
         bindE (liftE choice) (\<lambda>(teamGoalId, role).
         bindE (getE (\<lambda>L. (lr_transportId L (oe_connection e), lr_executionNodeId L))) (\<lambda>(given, node).
         let r = oe_record e;
             ids = [(js ''observedSessionId'', JStr i), (js ''executionNodeId'', JStr (ob_executionNodeId r)),
                    (js ''processIncarnationId'', JStr (ob_processIncarnationId r)), (js ''piSessionId'', JStr (ob_piSessionId r)),
                    (js ''extensionInstanceId'', JStr (ob_extensionInstanceId r)), (js ''connectionId'', JStr (ob_connectionId r)),
                    (js ''connectionChallenge'', JStr (ob_connectionChallenge r))];
             request = JObj [(js ''observedSessionId'', JStr i), (js ''observedIdentity'', JObj ids),
               (js ''connection'', JObj [(js ''id'', if nullish given then JStr DEFAULT_TRANSPORT_ID else the given),
                  (js ''connectionId'', JStr (ob_connectionId r)), (js ''connectionChallenge'', JStr (ob_connectionChallenge r))]),
               (js ''target'', JObj [(js ''teamGoalId'', JStr teamGoalId), (js ''executionNodeId'', JStr node),
                  (js ''role'', JEnum ROLES role)])]
         in with_coordinator i (createProposal (Some request))))))"

definition entryForProposal :: "jstr \<Rightarrow> (jstr \<times> observed_entry) lr" where
  "entryForProposal proposalId =
     bindE (getE (\<lambda>L. List.find (\<lambda>(_, e). getProposal (Some (JStr proposalId)) (oe_coordinator e) \<noteq> None) (lr_observed L))) (\<lambda>found.
     case found of None \<Rightarrow> fail_lr Proposal_not_found | Some x \<Rightarrow> retE x)"

definition confirmation :: "adoption_proposal \<Rightarrow> jstr \<Rightarrow> jstr \<Rightarrow> json" where
  "confirmation p proposalId digest = JObj
     [(js ''proposalId'', JStr proposalId), (js ''proposalDigest'', JStr digest),
      (js ''targetTeamGoalId'', JStr (tg_teamGoalId (pr_target p))), (js ''targetRole'', JEnum ROLES (tg_role (pr_target p))),
      (js ''authorizationId'', JStr (js ''authorization-'' @ proposalId)), (js ''token'', JStr (js ''fake-user-confirmation-token''))]"

definition authorizeAdoption :: "jstr \<Rightarrow> jstr \<Rightarrow> adoption_request_ack lr" where
  "authorizeAdoption proposalId digest =
     bindE (entryForProposal proposalId) (\<lambda>(i, e).
     case getProposal (Some (JStr proposalId)) (oe_coordinator e) of
       None \<Rightarrow> fail_lr Proposal_not_found
     | Some p \<Rightarrow>
         bindE (getE (\<lambda>L. map_of (lr_commitContexts L) proposalId \<noteq> None)) (\<lambda>known.
         thenE (if known then retE ()
                else bindE (read_lr lw_now) (\<lambda>now.
                  modifyE (\<lambda>L. L\<lparr>lr_commitContexts := assoc_put proposalId
                    \<lparr>cx_connection = oe_connection e, cx_observedSessionId = ob_observedSessionId (oe_record e),
                     cx_acknowledgementDeadline = now + ADOPTION_ACK_TIMEOUT_MS, cx_expiresMonotonic = pr_expiresMonotonic p\<rparr>
                    (lr_commitContexts L)\<rparr>)))
               (catchE (with_coordinator i (authorizeProposal (Some (JStr proposalId)) (Some (confirmation p proposalId digest))))
                 (\<lambda>e. thenE (end_context proposalId) (throwE e)))))"

definition binding_retired :: "binding_identity \<Rightarrow> bool lr" where
  "binding_retired b = getE (\<lambda>L. case lr_retirement L of None \<Rightarrow> False | Some t \<Rightarrow> isRetired b t)"

definition text_lr :: "json option \<Rightarrow> runner_failure + jstr" where
  "text_lr v = (case string_of v of None \<Rightarrow> Inl Type_failed | Some i \<Rightarrow> if ID_RE i then Inr i else Inl Type_failed)"

definition acceptAcknowledgement_lr :: "nat \<Rightarrow> obj \<Rightarrow> (adoption_committed \<times> obj) lr" where
  "acceptAcknowledgement_lr transport ack =
     bindE (liftE (text_lr (own_prop ack ''proposalId''))) (\<lambda>proposalId.
     bindE (entryForProposal proposalId) (\<lambda>(i, e).
     thenE (require_lr (transport = oe_connection e) Connection_not_current)
    (bindE (binding_retired (bindingOfRecord (oe_record e))) (\<lambda>retired.
     thenE (require_lr (\<not> retired) Already_retired)
           (with_coordinator i (acceptAcknowledgement (oe_observerConnection e) (Some (JObj ack))))))))"

section \<open>Recovery\<close>

definition recover_lr :: "live_runner \<Rightarrow> committed_run list \<times> jstr list \<times> nat" where
  "recover_lr L =
     (let runs = as_committed (lr_store L); ids = map cr_observedSessionId runs
      in (runs, filter (\<lambda>i. i \<notin> set ids) (map fst (lr_observed L)), length runs))"

definition issueRecoveryChallenge :: "jstr lr" where
  "issueRecoveryChallenge =
     bindE (read_lr lw_challenge) (\<lambda>v.
     liftE (case string_of (Some v) of None \<Rightarrow> Inl (Observer_failed Invalid_identity)
       | Some c \<Rightarrow> if ID_RE c then Inr c else Inl (Observer_failed Invalid_identity)))"

definition beginRecovery :: "nat \<Rightarrow> binding_identity \<Rightarrow> (jstr \<times> committed_run) lr" where
  "beginRecovery connection b =
     bindE (getE (committedByBinding b)) (\<lambda>found.
     case found of
       None \<Rightarrow> fail_lr Proposal_not_found
     | Some committed \<Rightarrow>
         bindE (getE lr_retirement) (\<lambda>port.
         thenE (if port = None then retE () else on_retirement (transaction_rt (beginManagedRecovery b)))
        (thenE (modifyE (\<lambda>L. L\<lparr>lr_recoveries := filter (\<lambda>(_, y). \<not> sameBindingIdentity (ry_binding y) b) (lr_recoveries L)\<rparr>))
        (thenE (modifyE (\<lambda>L. fold (\<lambda>c. onConnectionLost (Some c))
            (map fst (filter (\<lambda>(_, m). cr_agentRunId (mc_committed m) = cr_agentRunId committed) (lr_managed L))) L))
        (bindE issueRecoveryChallenge (\<lambda>challenge.
         bindE (read_lr lw_now) (\<lambda>now.
         thenE (modifyE (\<lambda>L. L\<lparr>lr_recoveries := assoc_put connection
             \<lparr>ry_binding = b, ry_challenge = challenge, ry_expiresAt = now + lr_recoveryTtlMs L, ry_committed = committed\<rparr> (lr_recoveries L)\<rparr>))
           (retE (challenge, committed)))))))))"

definition completeRecovery :: "nat \<Rightarrow> jstr \<Rightarrow> json option \<Rightarrow> committed_run lr" where
  "completeRecovery connection challenge proof_committed =
     bindE (getE (\<lambda>L. map_of (lr_recoveries L) connection)) (\<lambda>found.
     case found of
       None \<Rightarrow> fail_lr Proposal_not_found
     | Some y \<Rightarrow>
         bindE (read_lr lw_now) (\<lambda>now.
         let forget = modifyE (\<lambda>L. L\<lparr>lr_recoveries := assoc_del connection (lr_recoveries L)\<rparr>) in
         if ry_expiresAt y \<le> now then thenE forget (fail_lr Proposal_expired)
         else thenE (require_lr (challenge = ry_challenge y) Connection_not_current)
        (bindE (liftE (case object_of proof_committed of None \<Rightarrow> Inl Type_failed | Some m \<Rightarrow> Inr m)) (\<lambda>m.
         thenE (require_lr (own_prop m ''proposalId'' = Some (JStr (cr_proposalId (ry_committed y))) \<and>
             own_prop m ''proposalDigest'' = Some (JStr (cr_proposalDigest (ry_committed y))) \<and>
             own_prop m ''agentRunId'' = Some (JStr (cr_agentRunId (ry_committed y)))) Identity_drift)
        (thenE forget
        (thenE (manage connection (ry_committed y)) (retE (ry_committed y))))))))"

section \<open>Managed connections\<close>

definition manual_status :: "role \<Rightarrow> jstr" where
  "manual_status r = roleLabel r @ [32, 183] @ js '' manual takeover''"

definition manual_title :: "role \<Rightarrow> jstr" where
  "manual_title r = js ''Omarchestra '' @ [8212, 32] @ roleLabel r @ [32, 8212] @ js '' manual takeover''"

text \<open>\<open>manualControl\<close>; the body it returns has the control mode \<open>manual_takeover\<close>.\<close>

definition manualControl :: "adoption_committed \<Rightarrow> adoption_committed" where
  "manualControl body = body\<lparr>ac_piStatus := manual_status (ac_targetRole body), ac_terminalTitleMetadata := manual_title (ac_targetRole body)\<rparr>"

definition committed_body :: "committed_run \<Rightarrow> adoption_committed" where
  "committed_body r =
     \<lparr>ac_proposalId = cr_proposalId r, ac_proposalDigest = cr_proposalDigest r, ac_agentRunId = cr_agentRunId r,
      ac_targetTeamGoalId = cr_targetTeamGoalId r, ac_targetRole = cr_targetRole r, ac_piStatus = cr_piStatus r,
      ac_terminalTitleMetadata = cr_terminalTitleMetadata r\<rparr>"

definition set_managed :: "nat \<Rightarrow> (managed_connection \<Rightarrow> managed_connection) \<Rightarrow> live_runner \<Rightarrow> live_runner" where
  "set_managed c f L =
     (let m = map (\<lambda>(d, x). (d, if d = c then f x else x)) (lr_managed L) in L\<lparr>lr_managed := m, lr_bridgeEnabled := bridge_enabled m\<rparr>)"

definition acceptManagedReady :: "nat \<Rightarrow> json option \<Rightarrow> adoption_committed option lr" where
  "acceptManagedReady connection input =
     bindE (getE (\<lambda>L. map_of (lr_managed L) connection)) (\<lambda>found.
     case found of
       None \<Rightarrow> fail_lr Connection_not_current
     | Some m \<Rightarrow>
         bindE (read_lr lw_now) (\<lambda>now.
         thenE (require_lr (now < mc_leaseUntil m) Connection_not_current)
        (bindE (binding_retired \<lparr>bi_executionNodeId = cr_executionNodeId (mc_committed m),
             bi_processIncarnationId = cr_processIncarnationId (mc_committed m), bi_piSessionId = cr_piSessionId (mc_committed m),
             bi_extensionInstanceId = cr_extensionInstanceId (mc_committed m)\<rparr>) (\<lambda>retired.
         thenE (require_lr (\<not> retired) Already_retired)
        (bindE (liftE (case validateAdoptionCommitted input of Inl e \<Rightarrow> Inl (of_observer e) | Inr b \<Rightarrow> Inr b)) (\<lambda>body.
         thenE (require_lr (body = committed_body (mc_committed m)) Identity_drift)
        (bindE (getE (\<lambda>L. \<not> isManualTakeover (cr_agentRunId (mc_committed m)) (lr_store L))) (\<lambda>nextReady.
         thenE (modifyE (\<lambda>L. L\<lparr>lr_ready := add_id (cr_agentRunId (mc_committed m)) (lr_ready L),
             lr_revision := (if nextReady \<noteq> mc_ready m then lr_revision L + 1 else lr_revision L)\<rparr>))
        (bindE (read_lr lw_now) (\<lambda>renewed.
         thenE (modifyE (\<lambda>L. set_managed connection (\<lambda>x. x\<lparr>mc_ready := nextReady, mc_leaseUntil := renewed + lr_leaseDurationMs L\<rparr>) L))
               (retE (if nextReady then None else Some (manualControl body)))))))))))))"

definition acceptManualTakeover :: "nat \<Rightarrow> json option \<Rightarrow> adoption_committed option lr" where
  "acceptManualTakeover connection input =
     bindE (acceptManagedReady connection input) (\<lambda>_.
     bindE (getE (\<lambda>L. map_of (lr_managed L) connection)) (\<lambda>found.
     thenE (modifyE (set_managed connection (\<lambda>x. x\<lparr>mc_ready := False\<rparr>)))
    (thenE (catchE (on_store (recordManualTakeover (case found of None \<Rightarrow> [] | Some m \<Rightarrow> cr_agentRunId (mc_committed m))))
              (\<lambda>e. thenE (modifyE (onConnectionLost (Some connection))) (throwE e)))
    (thenE (modifyE (\<lambda>L. L\<lparr>lr_revision := lr_revision L + 1\<rparr>))
           (acceptManagedReady connection input)))))"

end
