(* ===== verification/LiveReplacement.thy ===== *)
theory LiveReplacement
  imports LiveAuthority
begin

text \<open>
  Retirement and replacement in observer/live-adoption-runner.ts, what the runner shows of its state,
  and its steps. The readings of the clock by one call that only reads are taken to be equal.
\<close>

section \<open>Retirement\<close>

record retire_result =
  rs_tombstone :: retired_run
  rs_vacancyGeneration :: int
  rs_alreadyRetired :: bool

definition requireRole_lr :: "json option \<Rightarrow> runner_failure + role" where
  "requireRole_lr v =
     (case string_of v of
        None \<Rightarrow> Inl Type_failed
      | Some t \<Rightarrow> (case enum_of ROLES t of None \<Rightarrow> Inl Type_failed | Some r \<Rightarrow> Inr r))"

definition requireNonNegativeInt_lr :: "json option \<Rightarrow> runner_failure + int" where
  "requireNonNegativeInt_lr v =
     (case whole_of v of None \<Rightarrow> Inl Type_failed | Some n \<Rightarrow> if 0 \<le> n \<and> n \<le> MAX_SAFE_INTEGER then Inr n else Inl Type_failed)"

definition requirePlainRecord_lr :: "json option \<Rightarrow> runner_failure + obj" where
  "requirePlainRecord_lr v = (case object_of v of None \<Rightarrow> Inl Type_failed | Some m \<Rightarrow> Inr m)"

text \<open>Whether a run still holds a lease; the clock is read for the connections of the run only.\<close>

fun still_managed :: "jstr \<Rightarrow> (nat \<times> managed_connection) list \<Rightarrow> bool lr" where
  "still_managed i [] = retE False"
| "still_managed i ((_, m) # ms) =
     (if cr_agentRunId (mc_committed m) = i
      then bindE (read_lr lw_now) (\<lambda>now. if now < mc_leaseUntil m then retE True else still_managed i ms)
      else still_managed i ms)"

definition forget_recoveries :: "jstr \<Rightarrow> unit lr" where
  "forget_recoveries i = modifyE (\<lambda>L. L\<lparr>lr_recoveries := filter (\<lambda>(_, y). cr_agentRunId (ry_committed y) \<noteq> i) (lr_recoveries L)\<rparr>)"

definition forget_contexts :: "jstr \<Rightarrow> unit lr" where
  "forget_contexts i = modifyE (\<lambda>L. L\<lparr>lr_commitContexts := filter (\<lambda>(_, c). cx_observedSessionId c \<noteq> i) (lr_commitContexts L)\<rparr>)"

definition bump :: "unit lr" where
  "bump = modifyE (\<lambda>L. L\<lparr>lr_revision := lr_revision L + 1\<rparr>)"

text \<open>The part from the lookup of the run on.\<close>

definition retire_found :: "jstr \<Rightarrow> jstr \<Rightarrow> role \<Rightarrow> jstr \<Rightarrow> int \<Rightarrow> jstr \<Rightarrow> retire_result lr" where
  "retire_found agentRunId teamGoalId role observedSessionId revision node =
     bindE (getE (findLiveCommitByAgentRunId agentRunId)) (\<lambda>found.
     case found of
       None \<Rightarrow> fail_lr Proposal_not_found
     | Some r \<Rightarrow>
         thenE (require_lr (cr_targetTeamGoalId r = teamGoalId \<and> cr_targetRole r = role) Role_mismatch)
        (thenE (require_lr (cr_executionNodeId r = node) Node_mismatch)
        (bindE (translated (on_retirement (transaction_rt (commitRetirement
             \<lparr>el_agentRunId = agentRunId, el_teamGoalId = teamGoalId, el_role = role, el_observedSessionId = observedSessionId,
              el_revision = revision, el_executionNodeId = Some (cr_executionNodeId r),
              el_processIncarnationId = Some (cr_processIncarnationId r), el_piSessionId = Some (cr_piSessionId r),
              el_extensionInstanceId = Some (cr_extensionInstanceId r)\<rparr>)))) (\<lambda>(tombstone, alreadyRetired).
         thenE (forget_recoveries agentRunId)
        (thenE (forget_contexts observedSessionId)
        (bindE (getE (\<lambda>L. case lr_retirement L of None \<Rightarrow> 0 | Some t \<Rightarrow> currentVacancyGeneration teamGoalId role t)) (\<lambda>generation.
         thenE bump
               (retE \<lparr>rs_tombstone = tombstone, rs_vacancyGeneration = generation, rs_alreadyRetired = alreadyRetired\<rparr>))))))))"

definition retireAgentRun :: "json option \<Rightarrow> retire_result lr" where
  "retireAgentRun input =
     bindE (getE lr_retirement) (\<lambda>port.
     thenE (require_lr (port \<noteq> None) Transaction_failed)
    (bindE (liftE (requirePlainRecord_lr input)) (\<lambda>m.
     bindE (liftE (text_lr (own_prop m ''agentRunId''))) (\<lambda>agentRunId.
     bindE (liftE (text_lr (own_prop m ''teamGoalId''))) (\<lambda>teamGoalId.
     bindE (liftE (requireRole_lr (own_prop m ''role''))) (\<lambda>role.
     bindE (liftE (text_lr (own_prop m ''observedSessionId''))) (\<lambda>observedSessionId.
     bindE (liftE (requireNonNegativeInt_lr (own_prop m ''revision''))) (\<lambda>revision.
     bindE (getE lr_executionNodeId) (\<lambda>node.
     thenE (require_lr (own_prop m ''executionNodeId'' \<in> {None, Some (JStr node)}) Node_mismatch)
    (bindE (getE lr_managed) (\<lambda>managed.
     bindE (still_managed agentRunId managed) (\<lambda>held.
     thenE (require_lr (\<not> held) Connection_not_current)
     (retire_found agentRunId teamGoalId role observedSessionId revision node)))))))))))))"

definition purge_stores :: "jstr \<Rightarrow> unit lr" where
  "purge_stores i = thenE (translated (on_retirement (purgeRetiredRun i))) (on_store (transaction_s (purgeCommittedRun i)))"

definition purgeRetiredAgentRun :: "jstr \<Rightarrow> unit lr" where
  "purgeRetiredAgentRun i =
     bindE (getE lr_retirement) (\<lambda>port.
     case port of
       None \<Rightarrow> fail_lr Transaction_failed
     | Some t \<Rightarrow>
         thenE (require_lr (ID_RE i) Invalid_envelope)
        (case find_retired i t of
           None \<Rightarrow> fail_lr Not_retired
         | Some retired \<Rightarrow>
             thenE (require_lr (\<not> list_ex (\<lambda>r. rc_predecessorAgentRunId r = i) (rt_committed t)) Purge_blocked)
            (thenE (purge_stores i)
            (thenE (modifyE (\<lambda>L. L\<lparr>lr_observed := assoc_del (rr_observedSessionId retired) (lr_observed L)\<rparr>))
            (thenE (forget_contexts (rr_observedSessionId retired))
            (thenE (forget_recoveries i)
            (thenE (modifyE (\<lambda>L.
                 let m = filter (\<lambda>(_, m). cr_agentRunId (mc_committed m) \<noteq> i) (lr_managed L) in
                 L\<lparr>lr_managed := m, lr_ready := removeAll i (lr_ready L), lr_disconnected := removeAll i (lr_disconnected L),
                   lr_bridgeEnabled := bridge_enabled m\<rparr>))
                bump)))))))"

definition retirementInputFor :: "jstr \<Rightarrow> (committed_run \<times> int) lr" where
  "retirementInputFor i =
     bindE (getE lr_retirement) (\<lambda>port.
     thenE (require_lr (port \<noteq> None) Transaction_failed)
    (bindE (getE (findLiveCommitByAgentRunId i)) (\<lambda>found.
     case found of
       None \<Rightarrow> fail_lr Proposal_not_found
     | Some r \<Rightarrow> bindE (read_lr (\<lambda>w. lw_revisionOf w r)) (\<lambda>n. retE (r, n)))))"

section \<open>The digest of a replacement proposal\<close>

text \<open>\<open>hash = (hash * 1099511628211n + BigInt(c)) & 0xffffffffffffffffn\<close> over the code units.\<close>

definition hash_text :: "jstr \<Rightarrow> nat" where
  "hash_text s = foldl (\<lambda>h c. (h * 1099511628211 + c) mod 2 ^ 64) 0 s"

text \<open>The loop \<open>while (hex.length < 64) hex = `0${hex}`\<close>.\<close>

partial_function (option) pad_loop :: "jstr \<Rightarrow> jstr option" where
  "pad_loop hex = (if length hex < 64 then pad_loop (48 # hex) else Some hex)"

definition defaultReplacementProposalDigest :: "jstr \<Rightarrow> jstr option" where
  "defaultReplacementProposalDigest proposalId = map_option (take 64) (pad_loop (hex_text (hash_text proposalId)))"

lemma pad_loop_returns: "pad_loop h = Some (padStart 64 h)"
proof (induction "64 - length h" arbitrary: h)
  case 0
  then show ?case by (simp add: pad_loop.simps [of h] padStart_def)
next
  case (Suc n)
  then have "length h < 64" "n = 64 - length (48 # h)" by simp_all
  then have "pad_loop h = Some (padStart 64 (48 # h))" using Suc(1) [of "48 # h"] by (simp add: pad_loop.simps [of h])
  moreover have "padStart 64 (48 # h) = padStart 64 h"
    using \<open>length h < 64\<close> 
    by (simp add: padStart_def replicate_app_Cons_same Suc_diff_Suc flip: replicate_Suc)
  ultimately show ?case by simp
qed

section \<open>Replacement\<close>

record replacement_proposal =
  rp_proposalId :: jstr
  rp_proposalDigest :: jstr
  rp_acknowledgementNonce :: jstr
  rp_predecessorAgentRunId :: jstr
  rp_vacancyGeneration :: int
  rp_expiresMonotonic :: int
  rp_targetTeamGoalId :: jstr
  rp_targetRole :: role
  rp_observed :: live_record

text \<open>The generation must be the current one; among the retired runs of the Role the sort is stable.\<close>

definition findPredecessorAgentRunId :: "jstr \<Rightarrow> role \<Rightarrow> int \<Rightarrow> live_runner \<Rightarrow> jstr option" where
  "findPredecessorAgentRunId teamGoalId role generation L =
     (case lr_retirement L of
        None \<Rightarrow> None
      | Some t \<Rightarrow>
          if currentVacancyGeneration teamGoalId role t \<noteq> generation then None
          else (case sort_key (\<lambda>r. - rr_retiredAt r) (filter (\<lambda>r. rr_teamGoalId r = teamGoalId \<and> rr_role r = role) (rt_retired t)) of
                  [] \<Rightarrow> None
                | r # _ \<Rightarrow> Some (rr_agentRunId r)))"

definition requestReplacementAdoption :: "jstr \<Rightarrow> jstr \<Rightarrow> int \<Rightarrow> replacement_proposal lr" where
  "requestReplacementAdoption i choiceId generation =
     bindE (getE lr_retirement) (\<lambda>port.
     thenE (require_lr (port \<noteq> None) Transaction_failed)
    (bindE (getE (\<lambda>L. map_of (lr_observed L) i)) (\<lambda>entry.
     case entry of
       None \<Rightarrow> fail_lr Session_unknown
     | Some e \<Rightarrow>
         bindE (getE (\<lambda>L. lr_choice L choiceId)) (\<lambda>choice.
         bindE (liftE choice) (\<lambda>(teamGoalId, role).
         bindE (getE (findPredecessorAgentRunId teamGoalId role generation)) (\<lambda>found.
         case found of
           None \<Rightarrow> fail_lr Proposal_not_found
         | Some predecessor \<Rightarrow>
             bindE (read_lr lw_nonce) (\<lambda>nonce.
             bindE (read_lr lw_proposalId) (\<lambda>proposalId.
             bindE (liftE (case defaultReplacementProposalDigest proposalId of None \<Rightarrow> Inl (Plain_failed ''diverges'') | Some d \<Rightarrow> Inr d)) (\<lambda>digest.
             bindE (read_lr lw_now) (\<lambda>now.
             bindE (read_lr lw_now) (\<lambda>later.
             thenE (modifyE (\<lambda>L. L\<lparr>lr_replacementContexts := assoc_put proposalId
                  \<lparr>cx_connection = oe_connection e, cx_observedSessionId = i,
                   cx_acknowledgementDeadline = later + ADOPTION_ACK_TIMEOUT_MS, cx_expiresMonotonic = now + ADOPTION_ACK_TIMEOUT_MS,
                   cx_targetTeamGoalId = teamGoalId, cx_targetRole = role, cx_predecessorAgentRunId = predecessor,
                   cx_vacancyGeneration = generation, cx_proposalDigest = digest, cx_acknowledgementNonce = nonce\<rparr>
                  (lr_replacementContexts L)\<rparr>))
               (retE \<lparr>rp_proposalId = proposalId, rp_proposalDigest = digest, rp_acknowledgementNonce = nonce,
                      rp_predecessorAgentRunId = predecessor, rp_vacancyGeneration = generation,
                      rp_expiresMonotonic = now + ADOPTION_ACK_TIMEOUT_MS, rp_targetTeamGoalId = teamGoalId,
                      rp_targetRole = role, rp_observed = oe_record e\<rparr>))))))))))))"

definition end_replacement :: "jstr \<Rightarrow> unit lr" where
  "end_replacement p = modifyE (\<lambda>L. L\<lparr>lr_replacementContexts := assoc_del p (lr_replacementContexts L)\<rparr>)"

definition authorizeReplacementAdoption :: "jstr \<Rightarrow> jstr \<Rightarrow> replacement_context lr" where
  "authorizeReplacementAdoption proposalId digest =
     bindE (getE lr_retirement) (\<lambda>port.
     thenE (require_lr (port \<noteq> None) Transaction_failed)
    (bindE (getE (\<lambda>L. map_of (lr_replacementContexts L) proposalId)) (\<lambda>found.
     case found of
       None \<Rightarrow> fail_lr Proposal_not_found
     | Some c \<Rightarrow>
         thenE (require_lr (cx_proposalDigest c = digest) Proposal_stale)
        (bindE (read_lr lw_now) (\<lambda>now.
         if cx_expiresMonotonic c \<le> now then thenE (end_replacement proposalId) (fail_lr Proposal_expired)
         else bindE (read_lr (\<lambda>w. lw_verify w proposalId digest (cx_targetTeamGoalId c) (cx_targetRole c))) (\<lambda>verdict.
              thenE (require_lr verdict Authorization_mismatch) (retE c)))))))"

text \<open>A number that is not greater than the accepted sequence; the value of a token that is no safe integer is a parameter.\<close>

definition sequence_behind :: "json option \<Rightarrow> int \<Rightarrow> live_runner \<Rightarrow> bool" where
  "sequence_behind v n L =
     (case v of
        Some (JNum (Whole k)) \<Rightarrow> k \<le> n
      | Some (JNum (Other token)) \<Rightarrow> lr_token_le L token n
      | _ \<Rightarrow> False)"

definition assertReplacementSynchronousCommitValid :: "replacement_context \<Rightarrow> obj \<Rightarrow> observed_entry \<Rightarrow> unit lr" where
  "assertReplacementSynchronousCommitValid c ack e =
     (let r = oe_record e in
      thenE (require_lr (oe_connection e = cx_connection c) Connection_not_current)
     (thenE (require_lr (own_prop ack ''connectionId'' = Some (JStr (ob_connectionId r)) \<and>
          own_prop ack ''connectionChallenge'' = Some (JStr (ob_connectionChallenge r))) Connection_not_current)
     (thenE (assertInTime c e)
     (thenE (assertIdle r)
     (bindE (getE (sequence_behind (own_prop ack ''sourceSequence'') (ob_acceptedSourceSequence r))) (\<lambda>behind.
      require_lr (\<not> behind) Invalid_sequence))))))"

definition acceptReplacementAcknowledgement :: "nat \<Rightarrow> obj \<Rightarrow> (committed_run \<times> jstr \<times> int) lr" where
  "acceptReplacementAcknowledgement transport ack =
     bindE (getE lr_retirement) (\<lambda>port.
     thenE (require_lr (port \<noteq> None) Transaction_failed)
    (bindE (liftE (text_lr (own_prop ack ''proposalId''))) (\<lambda>proposalId.
     bindE (getE (\<lambda>L. map_of (lr_replacementContexts L) proposalId)) (\<lambda>found.
     case found of
       None \<Rightarrow> fail_lr Proposal_not_found
     | Some c \<Rightarrow>
         thenE (require_lr (transport = cx_connection c) Connection_not_current)
        (bindE (getE (\<lambda>L. map_of (lr_observed L) (cx_observedSessionId c))) (\<lambda>entry.
         case entry of
           None \<Rightarrow> fail_lr Session_unknown
         | Some e \<Rightarrow>
             let r = oe_record e in
             thenE (assertReplacementSynchronousCommitValid c ack e)
            (bindE (catchE (on_retirement (transaction_rt (commitReplacementAdoption (Some (replacement_json proposalId
                     (cx_proposalDigest c) (cx_observedSessionId c) (bindingOfRecord r) (cx_targetTeamGoalId c) (cx_targetRole c)
                     (cx_predecessorAgentRunId c) (cx_vacancyGeneration c))))))
                  (\<lambda>e. thenE (end_replacement proposalId) (throwE (retirementErrorToObserverError e)))) (\<lambda>replacement.
             let committed = \<lparr>cr_proposalId = proposalId, cr_proposalDigest = cx_proposalDigest c, cr_agentRunId = cr_agentRunId replacement,
                   cr_observedSessionId = cx_observedSessionId c, cr_executionNodeId = ob_executionNodeId r,
                   cr_processIncarnationId = ob_processIncarnationId r, cr_piSessionId = ob_piSessionId r,
                   cr_extensionInstanceId = ob_extensionInstanceId r, cr_targetTeamGoalId = cr_targetTeamGoalId replacement,
                   cr_targetRole = cr_targetRole replacement, cr_piStatus = managed_status Builder,
                   cr_terminalTitleMetadata = managed_title Builder, cr_committedAt = 0\<rparr>
             in thenE (manage (cx_connection c) committed)
               (thenE (end_replacement proposalId)
               (thenE count_commit
                      (retE (committed, rc_predecessorAgentRunId replacement, rc_vacancyGeneration replacement))))))))))))"

end
