(* ===== verification/LiveViews.thy ===== *)
theory LiveViews
  imports LiveReplacement
begin

text \<open>
  What the runner of observer/live-adoption-runner.ts shows: the observed sessions with their choices,
  the managed and the retired cards, and the counts. Every call reads the clock as \<open>now\<close>.
\<close>

record live_choice =
  lc_choiceId :: jstr
  lc_label :: jstr
  lc_enabled :: bool

record live_agent =
  la_observedSessionId :: jstr
  la_piStatus :: jstr
  la_lifecycle :: observer_lifecycle
  la_availability :: observer_availability
  la_health :: observer_health
  la_choices :: "live_choice list"

definition retired_ids_of :: "live_runner \<Rightarrow> jstr set" where
  "retired_ids_of L = (case lr_retirement L of None \<Rightarrow> {} | Some t \<Rightarrow> retired_ids t)"

definition replacements :: "live_runner \<Rightarrow> replacement_commit list" where
  "replacements L = (case lr_retirement L of None \<Rightarrow> [] | Some t \<Rightarrow> rt_committed t)"

text \<open>The runs that are not retired: those that the stores hold as current occupants of a Role.\<close>

definition live_runs :: "live_runner \<Rightarrow> committed_run list" where
  "live_runs L = filter (\<lambda>r. cr_agentRunId r \<notin> retired_ids_of L) (as_committed (lr_store L) @ map committed_run.truncate (replacements L))"

definition choice_of_role :: "role \<Rightarrow> jstr" where
  "choice_of_role r = (case r of Builder \<Rightarrow> js ''adoption-choice-1'' | Coordinator \<Rightarrow> js ''adoption-choice-2'' | Reviewer \<Rightarrow> js ''adoption-choice-3'')"

definition can_adopt :: "int \<Rightarrow> observed_entry \<Rightarrow> bool" where
  "can_adopt now e \<longleftrightarrow>
     ob_availability (oe_record e) = Available \<and> ob_activity (oe_record e) = Idle_activity \<and>
     ob_lifecycle (oe_record e) = Running \<and> ob_health (oe_record e) = Healthy \<and> now < oe_leaseUntil e"

definition live_snapshot :: "int \<Rightarrow> live_runner \<Rightarrow> int \<times> live_agent list" where
  "live_snapshot now L =
     (let committedIds = map cr_observedSessionId (as_committed (lr_store L)) @ map cr_observedSessionId (replacements L);
          occupiedRoles = map cr_targetRole (live_runs L);
          shown = filter (\<lambda>e. ob_observedSessionId (oe_record e) \<notin> set committedIds) (map snd (lr_observed L))
      in (lr_revision L + as_cursor (lr_store L),
          map (\<lambda>e. \<lparr>la_observedSessionId = ob_observedSessionId (oe_record e), la_piStatus = ob_piStatus (oe_record e),
              la_lifecycle = ob_lifecycle (oe_record e), la_availability = ob_availability (oe_record e),
              la_health = ob_health (oe_record e),
              la_choices = map (\<lambda>r. \<lparr>lc_choiceId = choice_of_role r, lc_label = js ''Adopt into '' @ lr_teamGoalId L @ [32, 183, 32] @ enum_text ROLES r, lc_enabled = can_adopt now e\<rparr>)
                (filter (\<lambda>r. r \<notin> set occupiedRoles) (lr_roles L))\<rparr>) shown))"

record live_facts =
  lf_exactlyOneCommit :: bool
  lf_exactlyOneManagedCommit :: bool
  lf_samePiReady :: bool
  lf_manualTakeover :: bool
  lf_managedDisconnected :: bool

text \<open>\<open>noAssignment\<close> is true in every state: no operation counts a dispatch or queues work.\<close>

definition acceptanceFacts :: "live_runner \<Rightarrow> live_facts" where
  "acceptanceFacts L =
     (let runs = as_committed (lr_store L);
          is_one = length runs = 1;
          i = cr_agentRunId (hd runs);
          retiredKeys = (case lr_retirement L of None \<Rightarrow> [] | Some t \<Rightarrow> map (\<lambda>r. bindingKey (rr_originalCommitment r)) (rt_retired t));
          managed = length (filter (\<lambda>r. bindingKey (binding_of_run r) \<notin> set retiredKeys) runs) + length (replacements L)
      in \<lparr>lf_exactlyOneCommit = is_one, lf_exactlyOneManagedCommit = (managed = 1), lf_samePiReady = (is_one \<and> i \<in> set (lr_ready L)),
          lf_manualTakeover = (is_one \<and> isManualTakeover i (lr_store L)), lf_managedDisconnected = (is_one \<and> i \<in> set (lr_disconnected L))\<rparr>)"

definition retirementFacts :: "live_runner \<Rightarrow> nat \<times> nat \<times> int" where
  "retirementFacts L =
     (case lr_retirement L of
        None \<Rightarrow> (0, 0, 0)
      | Some t \<Rightarrow> (length (rt_retired t), length (rt_committed t), sn_vacancyGeneration (snapshot_rt t)))"

record managed_card =
  md_agentRunId :: jstr
  md_role :: role
  md_piStatus :: jstr
  md_connected :: bool
  md_predecessorAgentRunId :: "jstr option"

definition is_connected :: "int \<Rightarrow> jstr \<Rightarrow> live_runner \<Rightarrow> bool" where
  "is_connected now i L = list_ex (\<lambda>(_, m). cr_agentRunId (mc_committed m) = i \<and> now < mc_leaseUntil m) (lr_managed L)"

definition card_status :: "('r committed_run_scheme) \<Rightarrow> live_runner \<Rightarrow> jstr" where
  "card_status r L = (if isManualTakeover (cr_agentRunId r) (lr_store L) then manual_status (cr_targetRole r) else cr_piStatus r)"

text \<open>The map \<open>replacementByPredecessor\<close>: the last replacement of a predecessor, at the place of the first.\<close>

definition by_predecessor :: "live_runner \<Rightarrow> (jstr \<times> replacement_commit) list" where
  "by_predecessor L =
     foldl (\<lambda>m r. if cr_agentRunId r \<in> retired_ids_of L then m else assoc_put (rc_predecessorAgentRunId r) r m) [] (replacements L)"

definition managedSnapshot :: "int \<Rightarrow> live_runner \<Rightarrow> managed_card list" where
  "managedSnapshot now L =
     map (\<lambda>r. \<lparr>md_agentRunId = cr_agentRunId r, md_role = cr_targetRole r, md_piStatus = card_status r L,
         md_connected = is_connected now (cr_agentRunId r) L,
         md_predecessorAgentRunId = map_option fst (List.find (\<lambda>(_, x). cr_agentRunId x = cr_agentRunId r) (by_predecessor L))\<rparr>)
       (filter (\<lambda>r. cr_agentRunId r \<notin> retired_ids_of L) (as_committed (lr_store L))) @
     map (\<lambda>r. \<lparr>md_agentRunId = cr_agentRunId r, md_role = cr_targetRole r, md_piStatus = card_status r L,
         md_connected = is_connected now (cr_agentRunId r) L, md_predecessorAgentRunId = Some (rc_predecessorAgentRunId r)\<rparr>)
       (filter (\<lambda>r. cr_agentRunId r \<notin> retired_ids_of L) (replacements L))"

record retired_card =
  rd_run :: retired_run
  rd_piStatus :: jstr
  rd_replacementAgentRunId :: "jstr option"
  rd_canPurge :: bool

text \<open>The statuses in the map \<open>originalByAgentRunId\<close>: a later entry of a key replaces an earlier one.\<close>

definition original_status :: "jstr \<Rightarrow> live_runner \<Rightarrow> jstr" where
  "original_status i L =
     (case map_of (rev (map (\<lambda>r. (cr_agentRunId r, cr_piStatus r)) (as_committed (lr_store L) @ map committed_run.truncate (replacements L)))) i of
        None \<Rightarrow> js ''Retired'' | Some s \<Rightarrow> s)"

definition retiredSnapshot :: "live_runner \<Rightarrow> retired_card list" where
  "retiredSnapshot L =
     (case lr_retirement L of
        None \<Rightarrow> []
      | Some t \<Rightarrow> map (\<lambda>r.
          let successor = List.find (\<lambda>x. rc_predecessorAgentRunId x = rr_agentRunId r) (rt_committed t)
          in \<lparr>rd_run = r, rd_piStatus = original_status (rr_agentRunId r) L,
              rd_replacementAgentRunId = map_option cr_agentRunId successor, rd_canPurge = (successor = None)\<rparr>) (rt_retired t))"

section \<open>Steps\<close>

text \<open>Any operation with any arguments; \<open>Commit\<close> is a call of the commit port by anybody at any time.\<close>

datatype live_op =
    Register_live live_record nat
  | Update_live live_record
  | Expire_live
  | Lose_live "nat option"
  | Request_live jstr jstr
  | Authorize_live jstr jstr
  | Acknowledge_live nat obj
  | Commit_live commit_input
  | Begin_recovery nat binding_identity
  | Complete_recovery nat jstr "json option"
  | Ready_live nat "json option"
  | Takeover_live nat "json option"
  | Retire_live "json option"
  | Purge_live jstr
  | Request_replacement jstr jstr int
  | Authorize_replacement jstr jstr
  | Acknowledge_replacement nat obj

fun live_step :: "live_op \<Rightarrow> live_runner \<Rightarrow> live_runner" where
  "live_step (Register_live r c) L = snd (registerObserved r c L)"
| "live_step (Update_live r) L = snd (updateObserved r L)"
| "live_step Expire_live L = snd (expire_lr L)"
| "live_step (Lose_live c) L = onConnectionLost c L"
| "live_step (Request_live i ch) L = snd (requestAdoption i ch L)"
| "live_step (Authorize_live p d) L = snd (authorizeAdoption p d L)"
| "live_step (Acknowledge_live c m) L = snd (acceptAcknowledgement_lr c m L)"
| "live_step (Commit_live input) L = snd (commitAdoption input L)"
| "live_step (Begin_recovery c b) L = snd (beginRecovery c b L)"
| "live_step (Complete_recovery c ch v) L = snd (completeRecovery c ch v L)"
| "live_step (Ready_live c v) L = snd (acceptManagedReady c v L)"
| "live_step (Takeover_live c v) L = snd (acceptManualTakeover c v L)"
| "live_step (Retire_live v) L = snd (retireAgentRun v L)"
| "live_step (Purge_live i) L = snd (purgeRetiredAgentRun i L)"
| "live_step (Request_replacement i ch n) L = snd (requestReplacementAdoption i ch n L)"
| "live_step (Authorize_replacement p d) L = snd (authorizeReplacementAdoption p d L)"
| "live_step (Acknowledge_replacement c m) L = snd (acceptReplacementAcknowledgement c m L)"

end
