(* ===== verification/LiveInvariant.thy ===== *)
theory LiveInvariant
  imports LiveViews RetirementProperties
begin

text \<open>
  The abstract authority: a pair of stores that moves by guarded operations of the two. Every
  operation of the runner is one move of it; the invariants of the pair are shown on the moves.
\<close>

named_theorems still_intros \<open>calls that leave both stores alone\<close>
named_theorems move_intros \<open>calls that make at most one move of the stores\<close>

type_synonym books = "adoption_store \<times> retirement_store option"

abbreviation books_of :: "live_runner \<Rightarrow> books" where
  "books_of L \<equiv> (lr_store L, lr_retirement L)"

section \<open>The abstract authority\<close>

text \<open>A Role that was never retired and has no replacement.\<close>

fun fresh_role :: "jstr \<times> role \<Rightarrow> retirement_store option \<Rightarrow> bool" where
  "fresh_role k None = True"
| "fresh_role k (Some t) \<longleftrightarrow>
     \<not> list_ex (occupies t (fst k) (snd k)) (rt_committed t) \<and> \<not> list_ex (\<lambda>r. (rr_teamGoalId r, rr_role r) = k) (rt_retired t)"

text \<open>The run that a retirement names: an adopted run, or a replacement that is not retired, of that Role.\<close>

definition retires_run :: "books \<Rightarrow> retirement_input \<Rightarrow> bool" where
  "retires_run b i \<longleftrightarrow>
     (\<exists>r \<in> set (as_committed (fst b)). cr_agentRunId r = el_agentRunId i \<and> role_of_run r = (el_teamGoalId i, el_role i)) \<or>
     (\<exists>t c. snd b = Some t \<and> c \<in> set (rt_committed t) \<and> cr_agentRunId c = el_agentRunId i \<and> role_of_run c = (el_teamGoalId i, el_role i))"

inductive authority :: "books \<Rightarrow> books \<Rightarrow> bool" where
  stay: "authority b b"
| refuse: "as_committed (store_step (Commit_run m) s) = as_committed s \<Longrightarrow> authority (s, t) (store_step (Commit_run m) s, t)"
| adopt: "as_committed (store_step (Commit_run m) s) = as_committed s @ [r] \<Longrightarrow> fresh_role (role_of_run r) t \<Longrightarrow>
     authority (s, t) (store_step (Commit_run m) s, t)"
| replace: "authority (s, Some t) (s, Some (retirement_step (Replace v) t))"
| retire: "retires_run (s, Some t) i \<Longrightarrow> authority (s, Some t) (s, Some (retirement_step (Retire i) t))"
| purge: "fst (purgeRetiredRun i t) = Inr () \<Longrightarrow>
     authority (s, Some t) (store_step (Purge_run i) s, Some (retirement_step (Purge_retired i) t))"
| takeover: "authority (s, t) (store_step (Record_takeover i) s, t)"

definition books_ok :: "nat \<Rightarrow> books \<Rightarrow> bool" where
  "books_ok k b \<longleftrightarrow>
     store_ok (fst b) \<and>
     (case snd b of
        None \<Rightarrow> True
      | Some t \<Rightarrow> retirement_ok k t \<and>
          (\<forall>q \<in> set (rt_retired t). \<forall>a \<in> set (as_committed (fst b)).
             role_of_run a = (rr_teamGoalId q, rr_role q) \<longrightarrow> cr_agentRunId a \<in> retired_ids t))"

lemma books_okD: "books_ok k (s, Some t) \<Longrightarrow> q \<in> set (rt_retired t) \<Longrightarrow> a \<in> set (as_committed s) \<Longrightarrow>
   role_of_run a = (rr_teamGoalId q, rr_role q) \<Longrightarrow> cr_agentRunId a \<in> retired_ids t"
  by (simp add: books_ok_def)

lemma same_role_same_run: "store_ok s \<Longrightarrow> a \<in> set (as_committed s) \<Longrightarrow> b \<in> set (as_committed s) \<Longrightarrow> role_of_run a = role_of_run b \<Longrightarrow> a = b"
  by (auto simp: store_ok_def runs_distinct_def distinct_map dest: inj_onD)

lemma replacement_has_tombstone:
  "retirement_ok k t \<Longrightarrow> c \<in> set (rt_committed t) \<Longrightarrow> \<exists>q \<in> set (rt_retired t). (rr_teamGoalId q, rr_role q) = role_of_run c"
  by (fastforce simp: retirement_ok_def linked_def list_all_iff list_ex_iff role_of_run_def)

lemma purged_ids: "retired_ids (purged q t) = retired_ids t - {rr_agentRunId q}"
  by (auto simp: retired_ids_def purged_def)

lemma authority_keeps_books:
  assumes "authority b b'" "books_ok k b" "int k \<le> MAX_SAFE_INTEGER"
  shows "books_ok (Suc k) b'"
  using assms
proof (induction rule: authority.induct)
  case (stay b)
  then show ?case by (auto simp: books_ok_def retirement_ok_Suc split: option.split)
next
  case (refuse m s t)
  have "store_ok (store_step (Commit_run m) s)" using refuse.prems by (simp add: books_ok_def store_step_ok del: store_step.simps)
  then show ?case using refuse by (auto simp: books_ok_def retirement_ok_Suc simp del: store_step.simps split: option.split)
next
  case (adopt m s r t)
  have "store_ok (store_step (Commit_run m) s)" using adopt.prems by (simp add: books_ok_def store_step_ok del: store_step.simps)
  then show ?case using adopt
    by (cases t) (auto simp: books_ok_def retirement_ok_Suc list_ex_iff simp del: store_step.simps)
next
  case (replace s t v)
  then show ?case using retirement_step_ok [of k t "Replace v"] replace_cases [of v t]
    by (auto simp: books_ok_def retired_ids_def)
next
  case (retire s t i)
  have k: "retirement_ok (Suc k) (retirement_step (Retire i) t)"
    using retire.prems by (intro retirement_step_ok) (simp_all add: books_ok_def)
  have inv: "cr_agentRunId a \<in> insert (el_agentRunId i) (retired_ids t)"
    if a: "a \<in> set (as_committed s)" "role_of_run a = (el_teamGoalId i, el_role i)" for a
    using retire.hyps unfolding retires_run_def
  proof (elim disjE bexE exE conjE)
    fix r assume "r \<in> set (as_committed (fst (s, Some t)))" "cr_agentRunId r = el_agentRunId i" "role_of_run r = (el_teamGoalId i, el_role i)"
    then show ?thesis using same_role_same_run [of s a r] a retire.prems by (simp add: books_ok_def)
  next
    fix u c assume "snd (s, Some t) = Some u" "c \<in> set (rt_committed u)" and c: "role_of_run c = (el_teamGoalId i, el_role i)"
    then obtain q where "q \<in> set (rt_retired t)" "(rr_teamGoalId q, rr_role q) = role_of_run c"
      using retire.prems replacement_has_tombstone [of k t c] by (auto simp: books_ok_def)
    then show ?thesis using books_okD [OF retire.prems(1), of q a] a c by simp
  qed
  then have "\<forall>a \<in> set (as_committed s). role_of_run a = (el_teamGoalId i, el_role i) \<longrightarrow> cr_agentRunId a \<in> insert (el_agentRunId i) (retired_ids t)"
    by blast
  then show ?case using retire_cases [of i t] retire.prems k
    by (auto simp: books_ok_def retired_ids_def split: prod.splits) blast
next
  case (purge i t s)
  obtain q where q: "purgeRetiredRun i t = (Inr (), purged q t)" "find_retired i t = Some q"
    using purge.hyps purge_cases [of i t] by auto
  then have i: "rr_agentRunId q = i" using find_retired_Some by blast
  have s: "as_committed (store_step (Purge_run i) s) = filter (\<lambda>r. cr_agentRunId r \<noteq> i) (as_committed s)"
    by (simp add: purgeCommittedRun_def modifyE_def)
  have "store_ok (store_step (Purge_run i) s)" using purge.prems by (simp add: books_ok_def store_step_ok del: store_step.simps)
  moreover have "retirement_ok (Suc k) (retirement_step (Purge_retired i) t)"
    using purge.prems by (intro retirement_step_ok) (simp_all add: books_ok_def)
  ultimately show ?case using purge.prems q i unfolding books_ok_def fst_conv s
    by (auto simp: purged_ids) (auto simp: purged_def)
next
  case (takeover s t i)
  have "store_ok (store_step (Record_takeover i) s)" using takeover by (simp add: books_ok_def store_step_ok del: store_step.simps)
  moreover have "as_committed (store_step (Record_takeover i) s) = as_committed s"
    by (simp add: recordManualTakeover_def bindE_def thenE_def getE_def requireE_def retE_def throwE_def modifyE_def)
  ultimately show ?case using takeover by (auto simp: books_ok_def retirement_ok_Suc simp del: store_step.simps split: option.split)
qed

text \<open>No move lifts a fence.\<close>

fun fenced :: "binding_identity \<Rightarrow> books \<Rightarrow> bool" where
  "fenced x (s, None) = False"
| "fenced x (s, Some t) = isRetired x t"

lemma authority_keeps_fences:
  assumes "authority b b'" "books_ok k b" "int k \<le> MAX_SAFE_INTEGER" "fenced x b"
  shows "fenced x b'"
  using assms
proof (induction rule: authority.induct)
  case (refuse m s t)
  then show ?case by (cases t) simp_all
next
  case (adopt m s r t)
  then show ?case by (cases t) simp_all
next
  case (takeover s t i)
  then show ?case by (cases t) simp_all
qed (auto simp: books_ok_def simp del: retirement_step.simps intro!: step_keeps_retired)

text \<open>Of a Role, at most one run is not retired.\<close>

definition live_runs_of :: "jstr \<times> role \<Rightarrow> books \<Rightarrow> jstr list" where
  "live_runs_of k b =
     (case snd b of
        None \<Rightarrow> map cr_agentRunId (filter (\<lambda>r. role_of_run r = k) (as_committed (fst b)))
      | Some t \<Rightarrow>
          map cr_agentRunId (filter (\<lambda>r. role_of_run r = k \<and> cr_agentRunId r \<notin> retired_ids t) (as_committed (fst b))) @
          map cr_agentRunId (filter (occupies t (fst k) (snd k)) (rt_committed t)))"

lemma distinct_filter_one: "distinct (map f xs) \<Longrightarrow> length (filter (\<lambda>x. f x = k \<and> P x) xs) \<le> 1"
  by (induction xs) (auto simp: filter_empty_conv image_iff)

lemma one_live_run: "books_ok k b \<Longrightarrow> length (live_runs_of key b) \<le> 1"
proof (cases "snd b")
  case None
  assume "books_ok k b"
  then show ?thesis using distinct_filter_one [of role_of_run "as_committed (fst b)" key "\<lambda>_. True"]
    by (simp add: live_runs_of_def None books_ok_def store_ok_def runs_distinct_def)
next
  case (Some t)
  assume ok: "books_ok k b"
  obtain s where b: "b = (s, Some t)" using Some by (cases b) simp
  let ?a = "filter (\<lambda>r. role_of_run r = key \<and> cr_agentRunId r \<notin> retired_ids t) (as_committed s)"
  let ?c = "filter (occupies t (fst key) (snd key)) (rt_committed t)"
  have one: "length ?a \<le> 1" "length ?c \<le> 1"
    using ok distinct_filter_one [of role_of_run "as_committed s" key]
    by (simp_all add: b books_ok_def store_ok_def runs_distinct_def retirement_ok_def one_occupant_def)
  show ?thesis
  proof (cases "?c = []")
    case False
    then obtain c where c: "c \<in> set (rt_committed t)" "role_of_run c = key"
      by (auto simp: filter_empty_conv occupies_def role_of_run_def)
    then obtain q where "q \<in> set (rt_retired t)" "(rr_teamGoalId q, rr_role q) = key"
      using replacement_has_tombstone [of k t c] ok by (auto simp: b books_ok_def)
    then have "?a = []" using books_okD [of k s t q] ok by (auto simp: b filter_empty_conv)
    then show ?thesis using one by (simp add: live_runs_of_def b)
  qed (use one in \<open>simp add: live_runs_of_def b\<close>)
qed

end
