(* ===== verification/LiveRefinement.thy ===== *)
theory LiveRefinement
  imports LiveInvariant
begin

text \<open>
  Every operation of the runner makes at most one move of the abstract authority on its two stores.
\<close>

section \<open>Calls that leave the stores alone, calls that move them once\<close>

definition still :: "'a lr \<Rightarrow> bool" where
  "still m \<longleftrightarrow> (\<forall>L. books_of (snd (m L)) = books_of L)"

definition moving :: "'a lr \<Rightarrow> bool" where
  "moving m \<longleftrightarrow> (\<forall>L. authority (books_of L) (books_of (snd (m L))))"

lemma stillD: "still m \<Longrightarrow> lr_store (snd (m L)) = lr_store L" "still m \<Longrightarrow> lr_retirement (snd (m L)) = lr_retirement L"
  by (simp_all add: still_def)

lemma still_prims [still_intros]:
  "still (retE x)" "still (throwE e)" "still (getE f)" "still (liftE r)" "still (requireE b e)" "still (read_lr g)"
  by (simp_all add: still_def retE_def throwE_def getE_def liftE_def requireE_def read_lr_def)

lemma still_modify: "(\<And>L. books_of (f L) = books_of L) \<Longrightarrow> still (modifyE f)"
  by (simp add: still_def modifyE_def)

lemma still_bind [still_intros]: "still m \<Longrightarrow> (\<And>x. still (f x)) \<Longrightarrow> still (bindE m f)"
  by (auto simp: still_def bindE_def split: prod.splits sum.splits) (metis prod.collapse snd_conv)+

lemma still_then [still_intros]: "still m \<Longrightarrow> still n \<Longrightarrow> still (thenE m n)"
  by (simp add: thenE_def still_bind)

lemma still_catch [still_intros]: "still m \<Longrightarrow> (\<And>e. still (h e)) \<Longrightarrow> still (catchE m h)"
  by (auto simp: still_def catchE_def split: prod.splits sum.splits) (metis prod.collapse snd_conv)+

lemma still_each [still_intros]: "(\<And>x. still (f x)) \<Longrightarrow> still (eachE f xs)"
  by (induction xs) (simp_all add: still_intros)

lemma still_cases [still_intros]:
  "(b \<Longrightarrow> still m) \<Longrightarrow> (\<not> b \<Longrightarrow> still n) \<Longrightarrow> still (if b then m else n)"
  "(x = None \<Longrightarrow> still m) \<Longrightarrow> (\<And>y. x = Some y \<Longrightarrow> still (f y)) \<Longrightarrow> still (case x of None \<Rightarrow> m | Some y \<Rightarrow> f y)"
  "(\<And>a b. still (g a b)) \<Longrightarrow> still (case q of (a, b) \<Rightarrow> g a b)"
  "still (k z) \<Longrightarrow> still (Let z k)"
  by (auto split: option.split prod.split)

lemma moving_still [move_intros]: "still m \<Longrightarrow> moving m"
  by (simp add: moving_def still_def authority.stay)

lemma moving_bind: "still m \<Longrightarrow> (\<And>x. moving (f x)) \<Longrightarrow> moving (bindE m f)"
  unfolding moving_def still_def bindE_def
  by (auto split: prod.splits sum.splits intro: authority.stay) (metis authority.stay prod.collapse snd_conv)+

lemma moving_then: "still m \<Longrightarrow> moving n \<Longrightarrow> moving (thenE m n)"
  by (simp add: thenE_def moving_bind)

lemma moved_bind: "moving m \<Longrightarrow> (\<And>x. still (f x)) \<Longrightarrow> moving (bindE m f)"
  unfolding moving_def still_def bindE_def
  by (auto split: prod.splits sum.splits) (metis snd_conv)+

lemma moved_then: "moving m \<Longrightarrow> still n \<Longrightarrow> moving (thenE m n)"
  by (simp add: thenE_def moved_bind)

lemma moved_catch: "moving m \<Longrightarrow> (\<And>e. still (h e)) \<Longrightarrow> moving (catchE m h)"
  unfolding moving_def still_def catchE_def
  by (auto split: prod.splits sum.splits) (metis snd_conv)+

lemma moving_cases:
  "(b \<Longrightarrow> moving m) \<Longrightarrow> (\<not> b \<Longrightarrow> moving n) \<Longrightarrow> moving (if b then m else n)"
  "(x = None \<Longrightarrow> moving m) \<Longrightarrow> (\<And>y. x = Some y \<Longrightarrow> moving (f y)) \<Longrightarrow> moving (case x of None \<Rightarrow> m | Some y \<Rightarrow> f y)"
  "(\<And>a b. moving (g a b)) \<Longrightarrow> moving (case q of (a, b) \<Rightarrow> g a b)"
  "moving (k z) \<Longrightarrow> moving (Let z k)"
  by (auto split: option.split prod.split)

section \<open>The connection of the parts\<close>

lemma set_entry_books [simp]: "lr_store (set_entry i f L) = lr_store L" "lr_retirement (set_entry i f L) = lr_retirement L"
  by (simp_all add: set_entry_def)

lemma set_managed_books [simp]: "lr_store (set_managed c f L) = lr_store L" "lr_retirement (set_managed c f L) = lr_retirement L"
  by (simp_all add: set_managed_def Let_def)

lemma invalidate_books [simp]: "lr_store (invalidateEntry i L) = lr_store L" "lr_retirement (invalidateEntry i L) = lr_retirement L"
  by (simp_all add: invalidateEntry_def split: option.split)

lemma invalidate_all_books [simp]:
  "lr_store (fold invalidateEntry is L) = lr_store L" "lr_retirement (fold invalidateEntry is L) = lr_retirement L"
  by (induction "is" arbitrary: L) simp_all

lemma lost_books [simp]: "lr_store (onConnectionLost c L) = lr_store L" "lr_retirement (onConnectionLost c L) = lr_retirement L"
  by (simp_all add: onConnectionLost_def Let_def split: option.split)

lemma lost_all_books [simp]:
  "lr_store (fold (\<lambda>c. onConnectionLost (Some c)) cs L) = lr_store L"
  "lr_retirement (fold (\<lambda>c. onConnectionLost (Some c)) cs L) = lr_retirement L"
  by (induction cs arbitrary: L) simp_all

lemma transaction_same: "snd (m t) = t \<Longrightarrow> transaction_rt m t = m t"
  by (cases "m t"; cases "fst (m t)") (simp_all add: transaction_rt_def)

lemma still_on_retirement: "(\<And>t. snd (m t) = t) \<Longrightarrow> still (on_retirement (transaction_rt m))"
  by (auto simp: still_def on_retirement_def transaction_same split: option.split prod.split) (metis snd_conv)

lemma still_checks [still_intros]:
  "still (on_retirement (transaction_rt (registerObservedIfUnretired b)))"
  "still (on_retirement (transaction_rt (beginManagedRecovery b)))"
  by (rule still_on_retirement,
      simp add: registerObservedIfUnretired_def beginManagedRecovery_def bindE_def getE_def requireE_def retE_def throwE_def)+

lemma still_parts [still_intros]:
  "still (requireId_lr i)" "still (assertIdle r)" "still (assertInTime c e)" "still (assertSynchronousCommitValid c' input occ man)"
  "still (manage n run)" "still count_commit" "still (end_context p)" "still (binding_retired b)" "still (entryForProposal p)"
  "still issueRecoveryChallenge" "still (forget_recoveries i)" "still (forget_contexts i)" "still bump" "still (end_replacement p)"
  "still (assertReplacementSynchronousCommitValid rc ack e)"
  unfolding requireId_lr_def assertIdle_def assertInTime_def assertSynchronousCommitValid_def manage_def count_commit_def end_context_def
    binding_retired_def entryForProposal_def issueRecoveryChallenge_def forget_recoveries_def forget_contexts_def bump_def
    end_replacement_def assertReplacementSynchronousCommitValid_def
  by (intro still_intros still_modify; simp)+

lemma still_managed_still [still_intros]: "still (still_managed i ms)"
  by (induction ms) (auto intro!: still_intros)

lemma still_operations:
  "still (registerObserved r c)" "still (updateObserved r)" "still expire_lr" "still (beginRecovery c b)"
  "still (completeRecovery c ch v)" "still (acceptManagedReady c v)" "still (requestReplacementAdoption i ch n)"
  "still (authorizeReplacementAdoption p d)"
  unfolding registerObserved_def updateObserved_def expire_lr_def expire_managed_def expire_entry_def beginRecovery_def
    completeRecovery_def acceptManagedReady_def requestReplacementAdoption_def authorizeReplacementAdoption_def Let_def
  by (intro still_intros still_modify; simp)+

section \<open>The moves\<close>

lemma move_replace: "moving (on_retirement (transaction_rt (commitReplacementAdoption v)))"
  unfolding moving_def on_retirement_def
  by (auto split: option.split prod.split intro: authority.stay)
    (metis authority.replace retirement_step.simps(2) snd_conv)

lemma move_translated: "moving m \<Longrightarrow> moving (translated m)"
  unfolding translated_def by (intro moved_catch still_intros)

lemma move_takeover: "moving (on_store (recordManualTakeover i))"
  unfolding moving_def on_store_def
  by (auto split: prod.split) (metis authority.takeover snd_conv store_step.simps(3))

lemma move_replacement_ack: "moving (acceptReplacementAcknowledgement c m)"
  unfolding acceptReplacementAcknowledgement_def Let_def
  by (intro moving_bind moving_then moved_bind moved_catch move_replace moving_cases still_intros move_intros)

lemma move_manual_takeover: "moving (acceptManualTakeover c v)"
  unfolding acceptManualTakeover_def
  by (rule moving_bind, rule still_operations, rule moving_bind, intro still_intros, rule moving_then, intro still_modify, simp,
      intro moved_then moved_catch move_takeover still_intros still_operations still_modify) simp_all

text \<open>A commit in the store of adopted runs.\<close>

definition run_of_proposal :: "committed_run \<Rightarrow> adoption_proposal \<Rightarrow> bool" where
  "run_of_proposal r p \<longleftrightarrow>
     cr_proposalId r = pr_proposalId p \<and> cr_proposalDigest r = pr_proposalDigest p \<and>
     cr_observedSessionId r = id_observedSessionId (pr_ids p) \<and> cr_executionNodeId r = id_executionNodeId (pr_ids p) \<and>
     cr_processIncarnationId r = id_processIncarnationId (pr_ids p) \<and> cr_piSessionId r = id_piSessionId (pr_ids p) \<and>
     cr_extensionInstanceId r = id_extensionInstanceId (pr_ids p) \<and>
     role_of_run r = (tg_teamGoalId (pr_target p), tg_role (pr_target p))"

lemma commit_run_wp:
  "wpE (commitAdoption_s [(js ''proposal'', JObj (proposal_json p))])
     (\<lambda>r s'. as_committed s' = as_committed s @ [r] \<and> run_of_proposal r p) (\<lambda>_ s'. as_committed s' = as_committed s) s"
  unfolding commitAdoption_s_def Let_def record_run_def
  by (auto simp: wpE_simps wpE_draw_run result_simps proposal_json_def run_of_proposal_def role_of_run_def split: sum.splits)

lemma commit_store_cases:
  obtains r s' where "transaction_s (commitAdoption_s [(js ''proposal'', JObj (proposal_json p))]) s = (Inr r, s')"
      "as_committed s' = as_committed s @ [r]" "run_of_proposal r p"
  | e s' where "transaction_s (commitAdoption_s [(js ''proposal'', JObj (proposal_json p))]) s = (Inl e, s')" "as_committed s' = as_committed s"
  using commit_run_wp [of p s] by (auto simp: transaction_s_def wpE_def split: prod.splits sum.splits)

lemma fresh_role_iff: "retirementVacancyFor g r L = None \<Longrightarrow> \<not> isRoleOccupiedAfterRetirement g r b L \<Longrightarrow> fresh_role (g, r) (lr_retirement L)"
  by (cases "lr_retirement L")
     (auto simp: retirementVacancyFor_def isRoleOccupiedAfterRetirement_def Let_def list_ex_iff filter_empty_conv split: if_splits)

section \<open>The commit\<close>

text \<open>What the last check demands of the moment of the commit.\<close>

definition session_ready :: "live_record \<Rightarrow> bool" where
  "session_ready r \<longleftrightarrow>
     ob_lifecycle r \<noteq> Exited \<and> ob_availability r = Available \<and> ob_activity r = Idle_activity \<and> ob_health r = Healthy \<and>
     ob_piStatus r = OBSERVER_PI_STATUS_LOCAL"

definition in_time :: "('c commit_context_scheme) \<Rightarrow> observed_entry \<Rightarrow> int \<Rightarrow> bool" where
  "in_time c e now \<longleftrightarrow> now < cx_expiresMonotonic c \<and> now < cx_acknowledgementDeadline c \<and> now < oe_leaseUntil e"

definition commit_valid :: "commit_context \<Rightarrow> commit_input \<Rightarrow> live_runner \<Rightarrow> bool" where
  "commit_valid c input L \<longleftrightarrow>
     (\<exists>e. map_of (lr_observed L) (cx_observedSessionId c) = Some e \<and> oe_connection e = cx_connection c \<and>
        ob_connectionId (oe_record e) = ak_connectionId (ci_acknowledgement input) \<and>
        ob_connectionChallenge (oe_record e) = ak_connectionChallenge (ci_acknowledgement input) \<and>
        in_time c e (lw_now (lr_world L (lr_calls L))) \<and> session_ready (oe_record e) \<and> record_matches (oe_record e) (ci_proposal input) \<and>
        ob_acceptedSourceSequence (oe_record e) < ak_sourceSequence (ci_acknowledgement input) \<and>
        tg_executionNodeId (pr_target (ci_proposal input)) = lr_executionNodeId L \<and>
        tg_teamGoalId (pr_target (ci_proposal input)) = lr_teamGoalId L \<and> tg_role (pr_target (ci_proposal input)) \<in> set (lr_roles L) \<and>
        \<not> isBindingCommitted (bindingOfRecord (oe_record e)) (lr_store L))"

lemma wpE_read_lr [wpE_simps]: "wpE (read_lr f) Q E L = Q (f (lr_world L (lr_calls L))) (L\<lparr>lr_calls := Suc (lr_calls L)\<rparr>)"
  by (simp add: read_lr_def wpE_def)

lemma after_calls [simp]:
  "isRoleOccupiedAfterRetirement g r b (L\<lparr>lr_calls := n\<rparr>) = isRoleOccupiedAfterRetirement g r b L"
  by (simp add: isRoleOccupiedAfterRetirement_def)

lemma sync_valid:
  "wpE (assertSynchronousCommitValid c input occ (\<lambda>b L. isBindingCommitted b (lr_store L)))
     (\<lambda>_ L'. L' = L\<lparr>lr_calls := Suc (lr_calls L)\<rparr> \<and> commit_valid c input L \<and>
        \<not> isRoleOccupiedAfterRetirement (tg_teamGoalId (pr_target (ci_proposal input))) (tg_role (pr_target (ci_proposal input)))
            (occ (tg_teamGoalId (pr_target (ci_proposal input))) (tg_role (pr_target (ci_proposal input))) (L\<lparr>lr_calls := Suc (lr_calls L)\<rparr>)) L)
     (\<lambda>_ L'. \<exists>n. L' = L\<lparr>lr_calls := n\<rparr>) L"
proof -
  have [simp]: "\<exists>n. L = L\<lparr>lr_calls := n\<rparr>" by (rule exI [of _ "lr_calls L"]) simp
  show ?thesis
    unfolding assertSynchronousCommitValid_def assertInTime_def assertIdle_def requireId_lr_def Let_def
    by (auto simp: wpE_simps commit_valid_def in_time_def session_ready_def split: option.split)
qed

text \<open>What a commit of the runner leaves: the run in exactly one of the stores, and its connection managed.\<close>

definition with_run :: "committed_run \<Rightarrow> live_runner \<Rightarrow> live_runner \<Rightarrow> bool" where
  "with_run r L L' \<longleftrightarrow>
     (lr_retirement L' = lr_retirement L \<and> as_committed (lr_store L') = as_committed (lr_store L) @ [r] \<and>
        fresh_role (role_of_run r) (lr_retirement L)) \<or>
     (lr_store L' = lr_store L \<and>
        (\<exists>t x n. lr_retirement L = Some t \<and> lr_retirement L' = Some (install x (t\<lparr>rt_drawn := n\<rparr>)) \<and> committed_run.truncate x = r \<and>
           replaces x t))"

definition commit_done :: "commit_input \<Rightarrow> committed_run \<Rightarrow> live_runner \<Rightarrow> live_runner \<Rightarrow> bool" where
  "commit_done input r L L' \<longleftrightarrow>
     (\<exists>c. map_of (lr_commitContexts L) (pr_proposalId (ci_proposal input)) = Some c \<and> commit_valid c input L \<and>
        lr_commitContexts L' = assoc_del (pr_proposalId (ci_proposal input)) (lr_commitContexts L) \<and>
        (\<exists>until. map_of (lr_managed L') (cx_connection c) = Some \<lparr>mc_committed = r, mc_ready = False, mc_leaseUntil = until\<rparr>)) \<and>
     run_of_proposal r (ci_proposal input) \<and> with_run r L L' \<and> lr_commitCount L' = Suc (lr_commitCount L) \<and>
     lr_observed L' = lr_observed L \<and> authority (books_of L) (books_of L')"

lemma replacement_reads:
  "wpE (commitReplacementAdoption (Some (replacement_json i d o' b g r q n)))
     (\<lambda>x _. cr_proposalId x = i \<and> cr_proposalDigest x = d \<and> cr_observedSessionId x = o' \<and> binding_of_run x = b \<and>
        role_of_run x = (g, r) \<and> rc_predecessorAgentRunId x = q \<and> rc_vacancyGeneration x = n) (\<lambda>_ _. True) s"
  unfolding commitReplacementAdoption_def Let_def
  by (cases b) (auto simp: wpE_simps wpE_draw_rt result_simps replacement_json_def binding_of_run_def role_of_run_def
      split: sum.splits option.splits)

lemma replacement_store_cases:
  obtains x m where "transaction_rt (commitReplacementAdoption (Some (replacement_json i d o' b g r q n))) t = (Inr x, install x (t\<lparr>rt_drawn := m\<rparr>))"
      "replaces x t" "cr_proposalId x = i" "cr_proposalDigest x = d" "cr_observedSessionId x = o'" "binding_of_run x = b"
      "role_of_run x = (g, r)" "rc_predecessorAgentRunId x = q" "rc_vacancyGeneration x = n"
  | e m where "transaction_rt (commitReplacementAdoption (Some (replacement_json i d o' b g r q n))) t = (Inl e, t\<lparr>rt_drawn := m\<rparr>)"
  using replacement_reads [of i d o' b g r q n t] replace_cases [of "Some (replacement_json i d o' b g r q n)" t]
  by (auto simp: transaction_rt_def wpE_def split: prod.splits sum.splits)

definition commit_failed :: "live_runner \<Rightarrow> live_runner \<Rightarrow> bool" where
  "commit_failed L L' \<longleftrightarrow>
     lr_observed L' = lr_observed L \<and> lr_commitContexts L' = lr_commitContexts L \<and> lr_managed L' = lr_managed L \<and>
     lr_commitCount L' = lr_commitCount L \<and> authority (books_of L) (books_of L') \<and> as_committed (lr_store L') = as_committed (lr_store L) \<and>
     (lr_retirement L' = lr_retirement L \<or> (\<exists>t n. lr_retirement L = Some t \<and> lr_retirement L' = Some (t\<lparr>rt_drawn := n\<rparr>)))"

lemma commit_failed_calls [simp]: "commit_failed L (L\<lparr>lr_calls := n\<rparr>)" "commit_failed L L"
  by (simp_all add: commit_failed_def authority.stay)

lemma wpE_installs [wpE_simps]:
  "wpE (manage c r) U E L = U () (L\<lparr>lr_calls := Suc (lr_calls L), lr_managed := assoc_put c \<lparr>mc_committed = r, mc_ready = False,
     mc_leaseUntil = lw_now (lr_world L (lr_calls L)) + lr_leaseDurationMs L\<rparr> (lr_managed L)\<rparr>)"
  "wpE (end_context p) U E L = U () (L\<lparr>lr_commitContexts := assoc_del p (lr_commitContexts L)\<rparr>)"
  "wpE count_commit U E L = U () (L\<lparr>lr_commitCount := Suc (lr_commitCount L), lr_revision := lr_revision L + 1\<rparr>)"
  "wpE (requireId_lr i) U E L = (if ID_RE i then U () L else E Type_failed L)"
  by (simp_all add: manage_def end_context_def count_commit_def requireId_lr_def wpE_simps)

lemma wpE_ids: "wpE (eachE requireId_lr is) U E L = (if list_all ID_RE is then U () L else E Type_failed L)"
  by (induction "is") (simp_all add: wpE_simps)

lemma wpE_on_store: "wpE (on_store m) Q E L = wpE m (\<lambda>x s. Q x (L\<lparr>lr_store := s\<rparr>)) (\<lambda>e s. E e (L\<lparr>lr_store := s\<rparr>)) (lr_store L)"
  by (simp add: wpE_def on_store_def split: prod.split sum.split)

lemma wpE_on_retirement: "lr_retirement L = Some t \<Longrightarrow> wpE (on_retirement m) Q E L =
   wpE m (\<lambda>x t'. Q x (L\<lparr>lr_retirement := Some t'\<rparr>)) (\<lambda>e t'. E e (L\<lparr>lr_retirement := Some t'\<rparr>)) t"
  by (simp add: wpE_def on_retirement_def split: prod.split sum.split)

lemma adopt_move:
  "as_committed s' = as_committed s @ [r] \<Longrightarrow> s' = snd (transaction_s (commitAdoption_s m) s) \<Longrightarrow> fresh_role (role_of_run r) t \<Longrightarrow>
     authority (s, t) (s', t)"
  "as_committed s' = as_committed s \<Longrightarrow> s' = snd (transaction_s (commitAdoption_s m) s) \<Longrightarrow> authority (s, t) (s', t)"
  "t' = snd (transaction_rt (commitReplacementAdoption v) t0) \<Longrightarrow> authority (s, Some t0) (s, Some t')"
  using authority.adopt [of m s r t] authority.refuse [of m s t] authority.replace [of s t0 v] by simp_all

lemma store_commit_wp:
  "wpE (transaction_s (commitAdoption_s [(js ''proposal'', JObj (proposal_json p))]))
     (\<lambda>r s'. as_committed s' = as_committed s @ [r] \<and> run_of_proposal r p \<and>
        s' = snd (transaction_s (commitAdoption_s [(js ''proposal'', JObj (proposal_json p))]) s))
     (\<lambda>_ s'. as_committed s' = as_committed s \<and> s' = snd (transaction_s (commitAdoption_s [(js ''proposal'', JObj (proposal_json p))]) s)) s"
  by (rule commit_store_cases [of p s]) (simp_all add: wpE_def)

lemma replacement_commit_wp:
  "wpE (transaction_rt (commitReplacementAdoption (Some (replacement_json i d o' b g r q n))))
     (\<lambda>x t'. (\<exists>m. t' = install x (t\<lparr>rt_drawn := m\<rparr>)) \<and> authority (s, Some t) (s, Some t') \<and> replaces x t \<and> cr_proposalId x = i \<and> cr_proposalDigest x = d \<and>
        cr_observedSessionId x = o' \<and> binding_of_run x = b \<and> role_of_run x = (g, r) \<and> rc_predecessorAgentRunId x = q)
     (\<lambda>_ t'. (\<exists>m. t' = t\<lparr>rt_drawn := m\<rparr>) \<and> authority (s, Some t) (s, Some t')) t"
  by (rule replacement_store_cases [of i d o' b g r q n t]) (auto simp: wpE_def intro!: adopt_move(3) [of _ "Some (replacement_json i d o' b g r q n)" t])

lemma truncate_sel [simp]:
  "cr_proposalId (committed_run.truncate x) = cr_proposalId x" "cr_proposalDigest (committed_run.truncate x) = cr_proposalDigest x"
  "cr_agentRunId (committed_run.truncate x) = cr_agentRunId x" "cr_observedSessionId (committed_run.truncate x) = cr_observedSessionId x"
  "cr_executionNodeId (committed_run.truncate x) = cr_executionNodeId x"
  "cr_processIncarnationId (committed_run.truncate x) = cr_processIncarnationId x"
  "cr_piSessionId (committed_run.truncate x) = cr_piSessionId x" "cr_extensionInstanceId (committed_run.truncate x) = cr_extensionInstanceId x"
  "cr_targetTeamGoalId (committed_run.truncate x) = cr_targetTeamGoalId x" "cr_targetRole (committed_run.truncate x) = cr_targetRole x"
  "role_of_run (committed_run.truncate x) = role_of_run x" "binding_of_run (committed_run.truncate x) = binding_of_run x"
  by (simp_all add: committed_run.truncate_def role_of_run_def binding_of_run_def)

lemma normal_commit_wp:
  assumes c: "map_of (lr_commitContexts L) (pr_proposalId (ci_proposal input)) = Some c"
    and v: "retirementVacancyFor (tg_teamGoalId (pr_target (ci_proposal input))) (tg_role (pr_target (ci_proposal input))) L = None"
  shows "wpE (thenE (assertSynchronousCommitValid c input (\<lambda>g r L. isRoleOccupied g r (lr_store L)) (\<lambda>b L. isBindingCommitted b (lr_store L)))
      (bindE (on_store (transaction_s (commitAdoption_s [(js ''proposal'', JObj (proposal_json (ci_proposal input)))]))) (\<lambda>r.
       thenE (manage (cx_connection c) r) (thenE (end_context (pr_proposalId (ci_proposal input))) (thenE count_commit (retE r))))))
     (\<lambda>r L'. commit_done input r L L') (\<lambda>_ L'. commit_failed L L') L"
  unfolding wpE_then wpE_bind
proof (rule wpE_mono [OF sync_valid], goal_cases)
  case (1 u L')
  then have a: "L' = L\<lparr>lr_calls := Suc (lr_calls L)\<rparr>" "commit_valid c input L"
    and f: "fresh_role (tg_teamGoalId (pr_target (ci_proposal input)), tg_role (pr_target (ci_proposal input))) (lr_retirement L)"
    using fresh_role_iff [OF v] by blast+
  show ?case
    unfolding wpE_on_store
  proof (rule wpE_mono [OF store_commit_wp], goal_cases)
    case (1 r s)
    then have "fresh_role (role_of_run r) (lr_retirement L)" using f by (simp add: run_of_proposal_def)
    then show ?case using 1 a c adopt_move(1) [of s "lr_store L" r "[(js ''proposal'', JObj (proposal_json (ci_proposal input)))]" "lr_retirement L"]
      by (auto simp: wpE_simps commit_done_def with_run_def)
  next
    case (2 e s)
    then show ?case using a adopt_move(2) [of s "lr_store L" "[(js ''proposal'', JObj (proposal_json (ci_proposal input)))]" "lr_retirement L"] by (auto simp: commit_failed_def)
  qed
qed auto

lemma replacement_commit_done_wp:
  assumes c: "map_of (lr_commitContexts L) (pr_proposalId (ci_proposal input)) = Some c" and t: "lr_retirement L = Some t"
  shows "wpE (commitNormalAdoptionAsReplacement input c v) (\<lambda>r L'. commit_done input r L L') (\<lambda>_ L'. commit_failed L L') L"
proof -
  let ?p = "ci_proposal input" and ?g = "tg_teamGoalId (pr_target (ci_proposal input))" and ?r = "tg_role (pr_target (ci_proposal input))"
  let ?b = "\<lparr>bi_executionNodeId = id_executionNodeId (pr_ids ?p), bi_processIncarnationId = id_processIncarnationId (pr_ids ?p),
     bi_piSessionId = id_piSessionId (pr_ids ?p), bi_extensionInstanceId = id_extensionInstanceId (pr_ids ?p)\<rparr>"
  show ?thesis
    unfolding commitNormalAdoptionAsReplacement_def Let_def wpE_then wpE_bind translated_def wpE_catch
  proof (rule wpE_mono [OF sync_valid], goal_cases)
    case (1 u L')
    then have L': "L' = L\<lparr>lr_calls := Suc (lr_calls L)\<rparr>" and valid: "commit_valid c input L" by simp_all
    have t': "lr_retirement L' = Some t" using t L' by simp
    show ?case
      unfolding wpE_ids wpE_on_retirement [OF t']
    proof (simp add: L', intro impI, rule wpE_mono [OF replacement_commit_wp [where s = "lr_store L"]], goal_cases)
      case (1 x t')
      then have "run_of_proposal (committed_run.truncate x) ?p"
        by (auto simp: run_of_proposal_def binding_of_run_def)
      then show ?case using 1 c t valid by (auto simp: wpE_simps commit_done_def with_run_def)
    qed (use t in \<open>auto simp: wpE_simps commit_failed_def\<close>)
  qed auto
qed

lemma commit_wp: "wpE (commitAdoption input) (\<lambda>r L'. commit_done input r L L') (\<lambda>_ L'. commit_failed L L') L"
proof (cases "map_of (lr_commitContexts L) (pr_proposalId (ci_proposal input))")
  case None
  then show ?thesis by (simp add: commitAdoption_def Let_def wpE_simps)
next
  case (Some c)
  let ?v = "retirementVacancyFor (tg_teamGoalId (pr_target (ci_proposal input))) (tg_role (pr_target (ci_proposal input))) L"
  show ?thesis
  proof (cases ?v)
    case None
    show ?thesis using normal_commit_wp [OF Some None] Some None
      by (simp add: commitAdoption_def Let_def wpE_then [of "requireId_lr _"] wpE_bind [of "getE _"] wpE_installs wpE_basic)
  next
    case v: (Some v)
    then obtain t where "lr_retirement L = Some t" by (auto simp: retirementVacancyFor_def split: option.splits)
    then show ?thesis using replacement_commit_done_wp [OF Some, of t v] Some v
      by (simp add: commitAdoption_def Let_def wpE_then [of "requireId_lr _"] wpE_bind [of "getE _"] wpE_installs wpE_basic)
  qed
qed

section \<open>Every operation\<close>

definition moves_at :: "'a lr \<Rightarrow> live_runner \<Rightarrow> bool" where
  "moves_at m L \<longleftrightarrow> authority (books_of L) (books_of (snd (m L)))"

lemma moving_at: "moving m \<longleftrightarrow> (\<forall>L. moves_at m L)"
  by (simp add: moving_def moves_at_def)

lemma moves_at_bind: "moves_at m L \<Longrightarrow> (\<And>x. still (f x)) \<Longrightarrow> moves_at (bindE m f) L"
  unfolding moves_at_def still_def bindE_def
  by (auto split: prod.splits sum.splits)

lemma moves_at_get: "moves_at (bindE (getE f) g) L = moves_at (g (f L)) L"
  by (simp add: moves_at_def bindE_def getE_def)

lemma moves_at_require: "(b \<Longrightarrow> moves_at n L) \<Longrightarrow> moves_at (thenE (requireE b e) n) L"
  by (cases b) (simp_all add: moves_at_def thenE_def bindE_def requireE_def retE_def throwE_def authority.stay)

lemma moves_at_fail: "moves_at (throwE e) L"
  by (simp add: moves_at_def throwE_def authority.stay)

lemma moves_at_translated: "moves_at m L \<Longrightarrow> moves_at (translated m) L"
  unfolding moves_at_def translated_def catchE_def by (auto simp: throwE_def split: prod.splits sum.splits)

lemma commit_moves: "moving (commitAdoption input)"
  unfolding moving_def
proof
  fix L
  show "authority (books_of L) (books_of (snd (commitAdoption input L)))"
    using commit_wp [of input L] by (auto simp: wpE_def commit_done_def commit_failed_def split: prod.splits sum.splits)
qed

lemma move_coordinator: "moving (with_coordinator i m)"
  unfolding moving_def with_coordinator_def Let_def
  using commit_moves [unfolded moving_def]
  by (auto split: option.split prod.split list.split intro: authority.stay)

lemma found_run:
  "findLiveCommitByAgentRunId i L = Some r \<Longrightarrow> lr_retirement L = Some t \<Longrightarrow>
   el_agentRunId x = i \<Longrightarrow> el_teamGoalId x = cr_targetTeamGoalId r \<Longrightarrow> el_role x = cr_targetRole r \<Longrightarrow> retires_run (books_of L) x"
  by (auto simp: findLiveCommitByAgentRunId_def retires_run_def role_of_run_def dest!: find_Some_in split: option.splits)

lemma move_retirement:
  "findLiveCommitByAgentRunId (el_agentRunId x) L = Some r \<Longrightarrow> el_teamGoalId x = cr_targetTeamGoalId r \<Longrightarrow> el_role x = cr_targetRole r \<Longrightarrow>
   moves_at (on_retirement (transaction_rt (commitRetirement x))) L"
proof (cases "lr_retirement L")
  case (Some t)
  assume "findLiveCommitByAgentRunId (el_agentRunId x) L = Some r" "el_teamGoalId x = cr_targetTeamGoalId r" "el_role x = cr_targetRole r"
  then have "retires_run (lr_store L, Some t) x" using found_run [of "el_agentRunId x" L r t x] Some by simp
  from authority.retire [OF this] show ?thesis by (auto simp: moves_at_def on_retirement_def Some split: prod.split)
qed (simp add: moves_at_def on_retirement_def authority.stay)

lemma move_retire_found: "moving (retire_found i g r o' n node)"
  unfolding moving_at
proof
  fix L
  show "moves_at (retire_found i g r o' n node) L"
    unfolding retire_found_def moves_at_get
    by (cases "findLiveCommitByAgentRunId i L")
      (auto intro!: moves_at_fail moves_at_require moves_at_bind moves_at_translated move_retirement still_intros)
qed

lemma move_retire_run: "moving (retireAgentRun v)"
  unfolding retireAgentRun_def
  by (intro moving_bind moving_then move_retire_found still_intros)

lemma move_purge: "moving (purge_stores i)"
  unfolding moving_def purge_stores_def
proof
  fix L
  have s: "snd (transaction_s (purgeCommittedRun i) s) = store_step (Purge_run i) s" "fst (transaction_s (purgeCommittedRun i) s) = Inr ()" for s
    by (simp_all add: transaction_s_def purgeCommittedRun_def modifyE_def)
  show "authority (books_of L) (books_of (snd (thenE (translated (on_retirement (purgeRetiredRun i)))
      (on_store (transaction_s (purgeCommittedRun i))) L)))"
  proof (cases "lr_retirement L")
    case (Some t)
    show ?thesis
    proof (cases "fst (purgeRetiredRun i t)")
      case (Inl e)
      then have "purgeRetiredRun i t = (Inl e, t)" using purge_cases [of i t] by auto
      then show ?thesis
        by (simp add: thenE_def bindE_def translated_def catchE_def on_retirement_def Some throwE_def authority.stay)
    next
      case (Inr u)
      then have "authority (lr_store L, Some t) (store_step (Purge_run i) (lr_store L), Some (snd (purgeRetiredRun i t)))"
        using authority.purge [of i t "lr_store L"] by simp
      moreover have "purgeRetiredRun i t = (Inr (), snd (purgeRetiredRun i t))" using Inr by (metis old.unit.exhaust prod.collapse)
      ultimately show ?thesis using s [of "lr_store L"]
        by (auto simp: thenE_def bindE_def translated_def catchE_def on_retirement_def on_store_def Some split: prod.splits sum.splits)
    qed
  qed (simp add: thenE_def bindE_def translated_def catchE_def on_retirement_def throwE_def authority.stay)
qed

lemma move_purge_run: "moving (purgeRetiredAgentRun i)"
  unfolding purgeRetiredAgentRun_def
  by (rule moving_bind, rule still_prims, rule moving_cases, intro move_intros still_intros, rule moving_then, rule still_prims,
      rule moving_cases, intro move_intros still_intros, rule moving_then, rule still_prims, rule moved_then, rule move_purge,
      intro still_intros still_modify) (simp_all add: Let_def)

lemma move_adoption: "moving (requestAdoption i ch)" "moving (authorizeAdoption p d)" "moving (acceptAcknowledgement_lr c m)"
proof -
  show "moving (requestAdoption i ch)" unfolding requestAdoption_def Let_def
    by (intro moving_bind moving_cases move_coordinator still_intros move_intros)
  show "moving (acceptAcknowledgement_lr c m)" unfolding acceptAcknowledgement_lr_def
    by (intro moving_bind moving_then moving_cases move_coordinator still_intros move_intros)
  show "moving (authorizeAdoption p d)" unfolding authorizeAdoption_def
    by (intro moving_bind moving_then moving_cases moved_catch move_coordinator still_intros still_modify move_intros) simp_all
qed

lemma live_step_moves: "authority (books_of L) (books_of (live_step x L))"
proof (cases x)
  case (Lose_live c)
  then show ?thesis by (simp add: authority.stay)
qed (use move_adoption move_purge_run move_retire_run commit_moves move_manual_takeover move_replacement_ack
      moving_still [OF still_operations(1)] moving_still [OF still_operations(2)] moving_still [OF still_operations(3)]
      moving_still [OF still_operations(4)] moving_still [OF still_operations(5)] moving_still [OF still_operations(6)]
      moving_still [OF still_operations(7)] moving_still [OF still_operations(8)] in \<open>simp_all add: moving_def\<close>)

lemma commit_returned: "commitAdoption input L = (Inr r, L') \<Longrightarrow> commit_done input r L L'"
  using commit_wp [of input L] by (simp add: wpE_def)

text \<open>What an accepted acknowledgement of a replacement implies.\<close>

definition replacement_done :: "nat \<Rightarrow> obj \<Rightarrow> live_runner \<Rightarrow> committed_run \<Rightarrow> live_runner \<Rightarrow> bool" where
  "replacement_done c m L r L' \<longleftrightarrow>
     (\<exists>i x e t y n. own_prop m ''proposalId'' = Some (JStr i) \<and> map_of (lr_replacementContexts L) i = Some x \<and> cx_connection x = c \<and>
        map_of (lr_observed L) (cx_observedSessionId x) = Some e \<and> oe_connection e = c \<and>
        own_prop m ''connectionId'' = Some (JStr (ob_connectionId (oe_record e))) \<and>
        own_prop m ''connectionChallenge'' = Some (JStr (ob_connectionChallenge (oe_record e))) \<and>
        in_time x e (lw_now (lr_world L (lr_calls L))) \<and> session_ready (oe_record e) \<and>
        lr_retirement L = Some t \<and> lr_retirement L' = Some (install y (t\<lparr>rt_drawn := n\<rparr>)) \<and> lr_store L' = lr_store L \<and> replaces y t \<and>
        role_of_run y = (cx_targetTeamGoalId x, cx_targetRole x) \<and> rc_predecessorAgentRunId y = cx_predecessorAgentRunId x \<and>
        binding_of_run y = bindingOfRecord (oe_record e) \<and> cr_agentRunId r = cr_agentRunId y \<and>
        lr_replacementContexts L' = assoc_del i (lr_replacementContexts L))"

lemma replacement_sync:
  "wpE (assertReplacementSynchronousCommitValid x m e)
     (\<lambda>_ L'. L' = L\<lparr>lr_calls := Suc (lr_calls L)\<rparr> \<and> oe_connection e = cx_connection x \<and>
        own_prop m ''connectionId'' = Some (JStr (ob_connectionId (oe_record e))) \<and>
        own_prop m ''connectionChallenge'' = Some (JStr (ob_connectionChallenge (oe_record e))) \<and>
        in_time x e (lw_now (lr_world L (lr_calls L))) \<and> session_ready (oe_record e)) (\<lambda>_ _. True) L"
  unfolding assertReplacementSynchronousCommitValid_def assertInTime_def assertIdle_def Let_def
  by (auto simp: wpE_simps in_time_def session_ready_def)

lemma replacement_checked:
  "wpE (acceptReplacementAcknowledgement c m) (\<lambda>r L'. replacement_done c m L (fst r) L') (\<lambda>_ _. True) L"
proof (cases "lr_retirement L")
  case None
  then show ?thesis by (simp add: acceptReplacementAcknowledgement_def wpE_simps)
next
  case t: (Some t)
  show ?thesis
  proof (cases "text_lr (own_prop m ''proposalId'')")
    case (Inl e)
    then show ?thesis by (simp add: acceptReplacementAcknowledgement_def wpE_simps t)
  next
    case (Inr i)
    then have i: "own_prop m ''proposalId'' = Some (JStr i)" by (auto simp: text_lr_def split: option.splits if_splits)
    show ?thesis
    proof (cases "map_of (lr_replacementContexts L) i")
      case None
      then show ?thesis using Inr by (simp add: acceptReplacementAcknowledgement_def wpE_simps t)
    next
      case x: (Some x)
      show ?thesis
      proof (cases "map_of (lr_observed L) (cx_observedSessionId x)")
        case None
        then show ?thesis using Inr x by (simp add: acceptReplacementAcknowledgement_def wpE_simps t)
      next
        case e: (Some e)
        have "wpE (assertReplacementSynchronousCommitValid x m e) (\<lambda>_ L'. wpE
           (on_retirement (transaction_rt (commitReplacementAdoption (Some (replacement_json i (cx_proposalDigest x) (cx_observedSessionId x)
              (bindingOfRecord (oe_record e)) (cx_targetTeamGoalId x) (cx_targetRole x) (cx_predecessorAgentRunId x) (cx_vacancyGeneration x))))))
           (\<lambda>y L'. \<forall>r n w u v. cr_agentRunId r = cr_agentRunId y \<longrightarrow> c = cx_connection x \<longrightarrow>
              replacement_done c m L r (L'\<lparr>lr_calls := n, lr_managed := w, lr_replacementContexts := assoc_del i (lr_replacementContexts L'),
                 lr_commitCount := u, lr_revision := v\<rparr>))
           (\<lambda>_ _. True) L') (\<lambda>_ _. True) L"
        proof (rule wpE_mono [OF replacement_sync], goal_cases)
          case (1 a L')
          have t': "lr_retirement L' = Some t" using 1 t by simp
          show ?case unfolding wpE_on_retirement [OF t']
            by (rule wpE_mono [OF replacement_commit_wp [where s = "lr_store L"]])
              (use 1 t x e i in \<open>fastforce simp: replacement_done_def\<close>)+
        qed simp
        then show ?thesis using Inr x e t
          by (auto simp: acceptReplacementAcknowledgement_def Let_def wpE_simps end_replacement_def elim!: wpE_mono)
      qed
    qed
  qed
qed

end
