(* ===== verification/LiveGateway.thy ===== *)
theory LiveGateway
  imports LiveRefinement
begin

text \<open>
  observer/live-adoption-gateway-core.ts: the Adoption-enabled gateway over one agent registry and
  one Adoption runner, which routes the frames of connected extensions to both. As in \<open>Gateway\<close>, a
  connection is a number, what \<open>send\<close> does is a parameter, and the frames sent are recorded. The
  probe \<open>lastCommittedFrame\<close> of the acceptance runs is not modelled.
\<close>

section \<open>State\<close>

record live_session =
  ls_registered :: bool
  ls_connectionId :: "jstr option"
  ls_connectionChallenge :: "jstr option"
  ls_acceptedSourceSequence :: int

record live_gateway =
  lg_runner :: live_runner
  lg_registry :: registry
  lg_executionNodeId :: jstr
  lg_sessions :: "(nat \<times> live_session) list"
  lg_wrapped :: "(nat \<times> nat) list"
  lg_counter :: nat
  lg_sent :: "(nat \<times> observer_frame) list"
  lg_send_throws :: "nat \<Rightarrow> nat \<Rightarrow> bool"
  lg_message :: "nat \<Rightarrow> runner_failure \<Rightarrow> jstr"

type_synonym 'a lg = "(runner_failure, live_gateway, 'a) eff"

definition new_live_gateway ::
    "live_runner \<Rightarrow> registry \<Rightarrow> jstr \<Rightarrow> (nat \<Rightarrow> nat \<Rightarrow> bool) \<Rightarrow> (nat \<Rightarrow> runner_failure \<Rightarrow> jstr) \<Rightarrow> live_gateway" where
  "new_live_gateway L r node throws message =
     \<lparr>lg_runner = L, lg_registry = r, lg_executionNodeId = node, lg_sessions = [], lg_wrapped = [], lg_counter = 0, lg_sent = [],
      lg_send_throws = throws, lg_message = message\<rparr>"

definition in_runner :: "'a lr \<Rightarrow> 'a lg" where
  "in_runner m g = (case m (lg_runner g) of (x, L) \<Rightarrow> (x, g\<lparr>lg_runner := L\<rparr>))"

definition in_registry_lg :: "'a rg \<Rightarrow> 'a lg" where
  "in_registry_lg m g =
     (case m (lg_registry g) of (x, r) \<Rightarrow> (case x of Inl e \<Rightarrow> Inl (of_observer e) | Inr y \<Rightarrow> Inr y, g\<lparr>lg_registry := r\<rparr>))"

section \<open>Sends\<close>

definition nextMessageId_lg :: "jstr lg" where
  "nextMessageId_lg g = (Inr (gateway_message_id (Suc (lg_counter g))), g\<lparr>lg_counter := Suc (lg_counter g)\<rparr>)"

text \<open>\<open>connection.send(type, this.nextMessageId(), body)\<close>.\<close>

definition reply_lg :: "nat \<Rightarrow> observer_body \<Rightarrow> unit lg" where
  "reply_lg c b =
     bindE nextMessageId_lg (\<lambda>i.
     bindE (getE (\<lambda>g. lg_send_throws g c (lg_counter g))) (\<lambda>throws.
     if throws then throwE (Plain_failed ''send'') else modifyE (\<lambda>g. g\<lparr>lg_sent := lg_sent g @ [(c, gateway_frame i b)]\<rparr>)))"

definition rejectUnsupported_lg :: "nat \<Rightarrow> observer_frame \<Rightarrow> unit lg" where
  "rejectUnsupported_lg c f =
     reply_lg c (Ob_rejected \<lparr>oj_requestMessageId = of_messageId f, oj_code = Invalid_envelope,
       oj_detail = js ''observer frame type '' @ of_type f @ js '' is not a client frame''\<rparr>)"

text \<open>Only an \<open>ObserverError\<close> is reported with its own code.\<close>

fun live_failure_code :: "runner_failure \<Rightarrow> observer_code" where
  "live_failure_code (Observer_failed c) = c"
| "live_failure_code e = Invalid_envelope"

definition reject_lg :: "nat \<Rightarrow> observer_frame \<Rightarrow> runner_failure \<Rightarrow> unit lg" where
  "reject_lg c f e =
     bindE (getE (\<lambda>g. lg_message g (lg_counter g) e)) (\<lambda>message.
     reply_lg c (Ob_rejected \<lparr>oj_requestMessageId = of_messageId f, oj_code = live_failure_code e,
       oj_detail = boundedDetail message\<rparr>))"

section \<open>Records\<close>

definition recordFromEnvelope :: "observer_register \<Rightarrow> observer_registered \<Rightarrow> live_record" where
  "recordFromEnvelope body e =
     \<lparr>ob_observedSessionId = od_observedSessionId e, ob_executionNodeId = od_executionNodeId e,
      ob_processIncarnationId = og_processIncarnationId body, ob_piSessionId = og_piSessionId body,
      ob_extensionInstanceId = og_extensionInstanceId body, ob_connectionId = od_connectionId e,
      ob_connectionChallenge = od_connectionChallenge e, ob_registryRevision = od_registryRevision e,
      ob_lifecycle = og_lifecycle body, ob_activity = og_activity body, ob_availability = Available, ob_health = og_health body,
      ob_piStatus = OBSERVER_PI_STATUS_LOCAL, ob_acceptedSourceSequence = od_acceptedSourceSequence e\<rparr>"

definition recordFromRegistry :: "observed_record \<Rightarrow> live_session \<Rightarrow> live_record" where
  "recordFromRegistry r s =
     \<lparr>ob_observedSessionId = observed_record.ob_observedSessionId r, ob_executionNodeId = observed_record.ob_executionNodeId r,
      ob_processIncarnationId = observed_record.ob_processIncarnationId r, ob_piSessionId = observed_record.ob_piSessionId r,
      ob_extensionInstanceId = observed_record.ob_extensionInstanceId r,
      ob_connectionId = (case ls_connectionId s of None \<Rightarrow> [] | Some i \<Rightarrow> i),
      ob_connectionChallenge = (case ls_connectionChallenge s of None \<Rightarrow> [] | Some i \<Rightarrow> i),
      ob_registryRevision = observed_record.ob_registryRevision r, ob_lifecycle = observed_record.ob_lifecycle r,
      ob_activity = observed_record.ob_activity r, ob_availability = observed_record.ob_availability r,
      ob_health = observed_record.ob_health r, ob_piStatus = OBSERVER_PI_STATUS_LOCAL,
      ob_acceptedSourceSequence = ls_acceptedSourceSequence s\<rparr>"

section \<open>Frames\<close>

definition session_state :: "nat \<Rightarrow> live_session lg" where
  "session_state c =
     getE (\<lambda>g. case map_of (lg_sessions g) c of
        None \<Rightarrow> \<lparr>ls_registered = False, ls_connectionId = None, ls_connectionChallenge = None, ls_acceptedSourceSequence = 0\<rparr>
      | Some s \<Rightarrow> s)"

definition set_session :: "nat \<Rightarrow> live_session \<Rightarrow> unit lg" where
  "set_session c s = modifyE (\<lambda>g. g\<lparr>lg_sessions := assoc_put c s (lg_sessions g)\<rparr>)"

definition assertRegistered_lg :: "nat \<Rightarrow> unit lg" where
  "assertRegistered_lg c = bindE (session_state c) (\<lambda>s. requireE (ls_registered s) (Observer_failed Connection_not_current))"

text \<open>\<open>validateObserverBodyForType(frame.type, frame.body)\<close>.\<close>

definition validated :: "observer_frame \<Rightarrow> observer_body lg" where
  "validated f =
     liftE (case validateObserverBodyForType (of_type f) (Some (JObj (observer_body_json (of_body f)))) of
        Inl e \<Rightarrow> Inl (of_observer e) | Inr b \<Rightarrow> Inr b)"

definition body_value :: "observer_body \<Rightarrow> json option" where
  "body_value b = Some (JObj (observer_body_json b))"

text \<open>The part of \<open>handleRegister\<close> for a binding that has no run.\<close>

definition register_new :: "nat \<Rightarrow> observer_register \<Rightarrow> unit lg" where
  "register_new c body =
     bindE (in_registry_lg (register c (body_value (Ob_register body)))) (\<lambda>e.
     thenE (set_session c \<lparr>ls_registered = True, ls_connectionId = Some (od_connectionId e),
          ls_connectionChallenge = Some (od_connectionChallenge e), ls_acceptedSourceSequence = od_acceptedSourceSequence e\<rparr>)
    (thenE (in_runner (registerObserved (recordFromEnvelope body e) c))
           (reply_lg c (Ob_registered e))))"

definition handleRegister_lg :: "nat \<Rightarrow> observer_frame \<Rightarrow> unit lg" where
  "handleRegister_lg c f =
     bindE (session_state c) (\<lambda>s.
     thenE (requireE (\<not> ls_registered s) (Observer_failed Connection_not_current))
    (bindE (validated f) (\<lambda>b.
     case b of
       Ob_register body \<Rightarrow>
         bindE (getE (\<lambda>g. \<lparr>bi_executionNodeId = lg_executionNodeId g, bi_processIncarnationId = og_processIncarnationId body,
              bi_piSessionId = og_piSessionId body, bi_extensionInstanceId = og_extensionInstanceId body\<rparr>)) (\<lambda>binding.
         bindE (getE (\<lambda>g. committedByBinding binding (lg_runner g))) (\<lambda>committed.
         if committed \<noteq> None
         then bindE (in_runner (beginRecovery c binding)) (\<lambda>(challenge, run).
              reply_lg c (Ob_recovery_challenge \<lparr>rc_challenge = challenge, rc_committed = committed_body run\<rparr>))
         else register_new c body))
     | _ \<Rightarrow> throwE Type_failed)))"

text \<open>A report that the registry took; one that is not newer than the last does not renew the lease of the runner.\<close>

definition report :: "nat \<Rightarrow> int \<Rightarrow> observed_record \<Rightarrow> unit lg" where
  "report c sequence r =
     bindE (session_state c) (\<lambda>s.
     if ls_acceptedSourceSequence s < sequence
     then let s' = s\<lparr>ls_acceptedSourceSequence := sequence\<rparr>
          in thenE (set_session c s') (in_runner (updateObserved (recordFromRegistry r s')))
     else retE ())"

definition handleHeartbeat_lg :: "nat \<Rightarrow> observer_frame \<Rightarrow> unit lg" where
  "handleHeartbeat_lg c f =
     thenE (assertRegistered_lg c)
    (bindE (validated f) (\<lambda>b.
     case b of
       Ob_heartbeat body \<Rightarrow> bindE (in_registry_lg (heartbeat c (body_value b))) (report c (oh_sourceSequence body))
     | _ \<Rightarrow> throwE Type_failed))"

definition handleLifecycle_lg :: "nat \<Rightarrow> observer_frame \<Rightarrow> unit lg" where
  "handleLifecycle_lg c f =
     thenE (assertRegistered_lg c)
    (bindE (validated f) (\<lambda>b.
     case b of
       Ob_lifecycle body \<Rightarrow> bindE (in_registry_lg (lifecycle c (body_value b))) (report c (ol_sourceSequence body))
     | _ \<Rightarrow> throwE Type_failed))"

definition lose :: "nat \<Rightarrow> unit lg" where
  "lose c = in_runner (modifyE (onConnectionLost (Some c)))"

definition handleClose_lg :: "nat \<Rightarrow> observer_frame \<Rightarrow> unit lg" where
  "handleClose_lg c f =
     thenE (assertRegistered_lg c)
    (bindE (validated f) (\<lambda>b. bindE (in_registry_lg (close c (body_value b))) (\<lambda>_. lose c)))"

definition handleRecoveryProof :: "nat \<Rightarrow> observer_frame \<Rightarrow> unit lg" where
  "handleRecoveryProof c f =
     bindE (validated f) (\<lambda>b.
     case b of
       Ob_recovery_proof p \<Rightarrow>
         bindE (in_runner (completeRecovery c (rf_challenge p) (Some (JObj (adoption_committed_json (rf_committed p)))))) (\<lambda>run.
         reply_lg c (Ob_committed (committed_body run)))
     | _ \<Rightarrow> throwE Type_failed)"

text \<open>A takeover always gives a control frame (\<open>takeover_gives_control\<close>).\<close>

definition send_control :: "nat \<Rightarrow> adoption_committed option \<Rightarrow> unit lg" where
  "send_control c control = (case control of None \<Rightarrow> retE () | Some b \<Rightarrow> reply_lg c (Ob_control b))"

definition dispatch_lg :: "nat \<Rightarrow> observer_frame \<Rightarrow> (adoption_committed \<times> obj) option lg" where
  "dispatch_lg c f =
     (if of_type f = js ''observer.register'' then thenE (handleRegister_lg c f) (retE None)
      else if of_type f = js ''observer.heartbeat'' then thenE (handleHeartbeat_lg c f) (retE None)
      else if of_type f = js ''observer.lifecycle'' then thenE (handleLifecycle_lg c f) (retE None)
      else if of_type f = js ''observer.close'' then thenE (handleClose_lg c f) (retE None)
      else if of_type f = js ''adoption.ack''
      then bindE (in_runner (acceptAcknowledgement_lr c (observer_body_json (of_body f)))) (\<lambda>x. retE (Some x))
      else if of_type f = js ''adoption.ready''
      then bindE (validated f) (\<lambda>b. bindE (in_runner (acceptManagedReady c (body_value b))) (\<lambda>x. thenE (send_control c x) (retE None)))
      else if of_type f = js ''adoption.takeover''
      then bindE (validated f) (\<lambda>b. bindE (in_runner (acceptManualTakeover c (body_value b))) (\<lambda>x. thenE (send_control c x) (retE None)))
      else if of_type f = js ''adoption.recovery_proof'' then thenE (handleRecoveryProof c f) (retE None)
      else thenE (rejectUnsupported_lg c f) (retE None))"

definition sweep_lg :: "unit lg" where
  "sweep_lg = thenE (in_registry_lg expire) (in_runner expire_lr)"

definition handleFrame_lg :: "nat \<Rightarrow> observer_frame \<Rightarrow> (adoption_committed \<times> obj) option lg" where
  "handleFrame_lg c f =
     bindE (getE (\<lambda>g. map_of (lg_sessions g) c)) (\<lambda>session.
     if session = None then retE None
     else catchE (thenE sweep_lg (dispatch_lg c f)) (\<lambda>e. thenE (reject_lg c f e) (retE None)))"

section \<open>Connections\<close>

definition transport_of :: "nat \<Rightarrow> live_gateway \<Rightarrow> nat" where
  "transport_of c g = (case map_of (lg_wrapped g) c of None \<Rightarrow> c | Some w \<Rightarrow> w)"

text \<open>\<open>accept\<close>; the handlers of the session that it returns are called with the transport.\<close>

definition accept_lg :: "nat \<Rightarrow> live_gateway \<Rightarrow> live_gateway" where
  "accept_lg c g =
     (let t = transport_of c g in
      if map_of (lg_sessions g) t \<noteq> None then g
      else g\<lparr>lg_sessions := assoc_put t \<lparr>ls_registered = False, ls_connectionId = None, ls_connectionChallenge = None,
             ls_acceptedSourceSequence = 0\<rparr> (lg_sessions g)\<rparr>)"

definition transportClosed_lg :: "nat \<Rightarrow> unit lg" where
  "transportClosed_lg c =
     bindE (getE (\<lambda>g. map_of (lg_sessions g) c)) (\<lambda>session.
     if session = None then retE ()
     else bindE (in_registry_lg (transportClosed c)) (\<lambda>_.
          thenE (modifyE (\<lambda>g. g\<lparr>lg_sessions := assoc_del c (lg_sessions g)\<rparr>)) (lose c)))"

text \<open>\<open>registerObserved\<close> with a connection; \<open>w\<close> is the number of the wrapper when a new one is made.\<close>

definition wrapConnection :: "nat \<Rightarrow> nat \<Rightarrow> nat lg" where
  "wrapConnection c w =
     bindE (getE (\<lambda>g. map_of (lg_wrapped g) c)) (\<lambda>existing.
     case existing of
       Some v \<Rightarrow> retE v
     | None \<Rightarrow> thenE (modifyE (\<lambda>g. g\<lparr>lg_wrapped := assoc_put c w (lg_wrapped g)\<rparr>)) (retE w))"

definition registerObserved_lg :: "live_record \<Rightarrow> nat \<Rightarrow> nat \<Rightarrow> unit lg" where
  "registerObserved_lg r c w = bindE (wrapConnection c w) (\<lambda>v. in_runner (registerObserved r v))"

datatype live_gateway_op =
    Accept_live nat
  | Frame_live nat observer_frame
  | Gone_live nat
  | Sweep_live
  | Register_directly live_record nat nat
  | Request_adoption jstr jstr
  | Authorize_adoption jstr jstr

fun live_gateway_step :: "live_gateway_op \<Rightarrow> live_gateway \<Rightarrow> live_gateway" where
  "live_gateway_step (Accept_live c) g = accept_lg c g"
| "live_gateway_step (Frame_live c f) g = snd (handleFrame_lg c f g)"
| "live_gateway_step (Gone_live c) g = snd (transportClosed_lg c g)"
| "live_gateway_step Sweep_live g = snd (sweep_lg g)"
| "live_gateway_step (Register_directly r c w) g = snd (registerObserved_lg r c w g)"
| "live_gateway_step (Request_adoption i ch) g = snd (in_runner (requestAdoption i ch) g)"
| "live_gateway_step (Authorize_adoption p d) g = snd (in_runner (authorizeAdoption p d) g)"

end
