(* ===== verification/LiveProperties.thy ===== *)
theory LiveProperties
  imports LiveRefinement
begin

text \<open>
  The properties of the Adoption authority, over any sequence of its operations with any arguments,
  any answers of its ports and any clock.
\<close>

section \<open>Runs of the authority\<close>

lemma run_books_ok:
  "books_ok k (books_of L) \<Longrightarrow> int (k + length ops) \<le> MAX_SAFE_INTEGER \<Longrightarrow>
   books_ok (k + length ops) (books_of (run_with live_step ops L))"
proof (induction ops arbitrary: k L)
  case (Cons x ops)
  have "books_ok (Suc k) (books_of (live_step x L))"
    by (rule authority_keeps_books [OF live_step_moves Cons.prems(1)]) (use Cons.prems(2) in simp)
  from Cons.IH [OF this] Cons.prems(2) show ?case by simp
qed simp

lemma run_fenced:
  "books_ok k (books_of L) \<Longrightarrow> int (k + length ops) \<le> MAX_SAFE_INTEGER \<Longrightarrow> fenced b (books_of L) \<Longrightarrow>
   fenced b (books_of (run_with live_step ops L))"
proof (induction ops arbitrary: k L)
  case (Cons x ops)
  have k: "int k \<le> MAX_SAFE_INTEGER" using Cons.prems(2) by simp
  show ?case using Cons.IH [of "Suc k" "live_step x L"] Cons.prems
      authority_keeps_books [OF live_step_moves Cons.prems(1) k] authority_keeps_fences [OF live_step_moves Cons.prems(1) k]
    by simp
qed simp

text \<open>A runner opened over books that are in order after at most \<open>k\<close> retirements, as those of two new stores are.\<close>

definition opened_runner :: "nat \<Rightarrow> live_runner \<Rightarrow> bool" where
  "opened_runner k L \<longleftrightarrow>
     (\<exists>store retirement n g rs choice lease ttl sha256 transportId token_le ports world.
        books_ok k (store, retirement) \<and> new_live_runner store retirement n g rs choice lease ttl sha256 transportId token_le ports world = Inr L)"

lemma new_runner_books: "new_live_runner s t n g rs c l u sh ti le po w = Inr L \<Longrightarrow> books_of L = (s, t)"
  by (auto simp: new_live_runner_def result_simps Let_def split: option.splits)

lemma opened_books_ok: "opened_runner k L \<Longrightarrow> books_ok k (books_of L)"
  by (auto simp: opened_runner_def dest: new_runner_books)

lemma new_books_ok: "books_ok 0 (createInMemoryAdoptionStore n g rs f, map_option (\<lambda>(f, l). createInMemoryRetirementStore None f l) r)"
proof -
  have "rt_retired (createInMemoryRetirementStore None f l) = []" for f l by (simp add: createInMemoryRetirementStore_def)
  then show ?thesis by (auto simp: books_ok_def new_store_ok new_retirement_ok split: option.split)
qed

section \<open>Properties\<close>

text \<open>C6. Every operation of the Adoption runner, whatever its arguments, its state and the answers of its ports,
  leaves its two stores alone or makes exactly one move of the abstract authority: a commit for a Role that was never
  retired and has no replacement, a replacement, the retirement of a run that the stores hold for the given Role,
  the purge of a retired run from both stores, a manual takeover, or a refused commit.\<close>

theorem runner_moves_authority: "authority (books_of L) (books_of (live_step x L))"
  by (rule live_step_moves)

text \<open>C7. Whatever operations are made on an Adoption runner opened over new stores, or over stores whose books are in
  order (as many operations as a JavaScript number can count), of every Role of every Team Goal at most one run,
  adopted or replacement, is not retired.\<close>

theorem one_live_run_per_role:
  assumes "opened_runner k L" "int (k + length ops) \<le> MAX_SAFE_INTEGER"
  shows "length (live_runs_of key (books_of (run_with live_step ops L))) \<le> 1"
  by (rule one_live_run [OF run_books_ok [OF opened_books_ok [OF assms(1)] assms(2)]])

text \<open>C8. A commit that the runner makes was valid at that moment, whoever called the port: a context was installed for
  the proposal and is used up; the session is observed on the connection of the context, idle, healthy and unassigned;
  proposal, acknowledgement window and lease have not run out; identity and revision are those of the proposal, and the
  acknowledgement is newer than the last report. The run is that of the proposal and is added to exactly one store, and
  a second commit of the same proposal is refused.\<close>

theorem live_commit_checked:
  assumes "commitAdoption input L = (Inr r, L')"
  shows "(\<exists>c. map_of (lr_commitContexts L) (pr_proposalId (ci_proposal input)) = Some c \<and> commit_valid c input L) \<and>
     run_of_proposal r (ci_proposal input) \<and> with_run r L L' \<and>
     (\<forall>again. pr_proposalId (ci_proposal again) = pr_proposalId (ci_proposal input) \<longrightarrow>
        (\<exists>e. fst (commitAdoption again L') = Inl e))"
proof -
  have d: "commit_done input r L L'" by (rule commit_returned [OF assms])
  have "\<exists>e. fst (commitAdoption again L') = Inl e" if "pr_proposalId (ci_proposal again) = pr_proposalId (ci_proposal input)" for again
    using commit_wp [of again L'] d that by (auto simp: wpE_def commit_done_def split: prod.splits sum.splits)
  then show ?thesis using d by (auto simp: commit_done_def)
qed


section \<open>The replacement of a retired run by its own process\<close>

text \<open>
  The fence of a retired process is not consulted on the way of a replacement: with any other fences, an
  acknowledgement ends alike and leaves the same runner, fences apart. So a retired session that is
  still observed (\<open>retireAgentRun\<close> leaves it so, only a purge removes it) can be acknowledged as the replacement
  of its own run.
\<close>

definition commutes :: "('s \<Rightarrow> 's) \<Rightarrow> ('e, 's, 'a) eff \<Rightarrow> bool" where
  "commutes h m \<longleftrightarrow> (\<forall>s. m (h s) = (fst (m s), h (snd (m s))))"

named_theorems commutes_intros \<open>calls that do not see a change of the state\<close>

lemma commutes_prims [commutes_intros]:
  "commutes h (retE x)" "commutes h (throwE e)" "commutes h (liftE r)" "commutes h (requireE b e)"
  "(\<And>s. f (h s) = f s) \<Longrightarrow> commutes h (getE f)" "(\<And>s. k (h s) = h (k s)) \<Longrightarrow> commutes h (modifyE k)"
  by (simp_all add: commutes_def retE_def throwE_def liftE_def requireE_def getE_def modifyE_def)

lemma commutes_bind [commutes_intros]: "commutes h m \<Longrightarrow> (\<And>x. commutes h (f x)) \<Longrightarrow> commutes h (bindE m f)"
  by (auto simp: commutes_def bindE_def split: prod.split sum.split)

lemma commutes_then [commutes_intros]: "commutes h m \<Longrightarrow> commutes h n \<Longrightarrow> commutes h (thenE m n)"
  unfolding thenE_def by (rule commutes_bind)

lemma commutes_catch [commutes_intros]: "commutes h m \<Longrightarrow> (\<And>e. commutes h (k e)) \<Longrightarrow> commutes h (catchE m k)"
  by (auto simp: commutes_def catchE_def split: prod.split sum.split)

lemma commutes_option [commutes_intros]:
  "commutes h m \<Longrightarrow> (\<And>y. commutes h (f y)) \<Longrightarrow> commutes h (case x of None \<Rightarrow> m | Some y \<Rightarrow> f y)"
  by (cases x) simp_all

definition refence_rt :: "binding_identity list \<Rightarrow> retirement_store \<Rightarrow> retirement_store" where
  "refence_rt p t = t\<lparr>rt_purged := p\<rparr>"

definition refence :: "binding_identity list \<Rightarrow> live_runner \<Rightarrow> live_runner" where
  "refence p L = L\<lparr>lr_retirement := map_option (refence_rt p) (lr_retirement L)\<rparr>"

lemma commit_replacement_refence: "commutes (refence_rt p) (commitReplacementAdoption v)"
proof -
  have "commutes (refence_rt p) draw_rt" by (simp add: commutes_def draw_rt_def refence_rt_def)
  moreover have "occupies (s\<lparr>rt_purged := p\<rparr>) = occupies s" for s by (simp add: fun_eq_iff occupies_def retired_ids_def)
  ultimately show ?thesis unfolding commitReplacementAdoption_def Let_def
    by (intro commutes_intros)
       (simp_all add: refence_rt_def find_retired_def currentVacancyGeneration_def isRoleVacant_def install_def)
qed

lemma transaction_refence:
  assumes "commutes (refence_rt p) m" shows "commutes (refence_rt p) (transaction_rt m)"
  using assms by (auto simp: commutes_def transaction_rt_def refence_rt_def split: prod.split sum.split)

lemma on_retirement_refence: "commutes (refence_rt p) m \<Longrightarrow> commutes (refence p) (on_retirement m)"
  by (auto simp: commutes_def on_retirement_def refence_def split: option.split prod.split) 

lemma read_refence [commutes_intros]: "commutes (refence p) (read_lr f)"
  by (simp add: commutes_def read_lr_def refence_def)

lemma port_present:
  "bindE (getE lr_retirement) (\<lambda>port. thenE (requireE (port \<noteq> None) e) k) =
   bindE (getE (\<lambda>L. lr_retirement L \<noteq> None)) (\<lambda>b. thenE (requireE b e) k)"
  by (simp add: fun_eq_iff bindE_def getE_def)

lemma sequence_refence: "sequence_behind v n (refence p L) = sequence_behind v n L"
  by (auto simp: sequence_behind_def refence_def split: option.split json.split number.split)

lemma replacement_ignores_fences: "commutes (refence p) (acceptReplacementAcknowledgement c m)"
  unfolding acceptReplacementAcknowledgement_def port_present assertReplacementSynchronousCommitValid_def assertInTime_def assertIdle_def
    manage_def count_commit_def end_replacement_def Let_def
  by (intro commutes_intros on_retirement_refence transaction_refence commit_replacement_refence)
     (simp_all add: sequence_refence, simp_all add: refence_def)

section \<open>Loss of a connection\<close>

lemma invalidate_observed:
  "lr_observed (invalidateEntry i L) = map (\<lambda>(j, e). (j, if j = i then e\<lparr>oe_record := (oe_record e)\<lparr>ob_availability := Unavailable\<rparr>,
     oe_coordinator := reconstruct_adoption (oe_coordinator e)\<rparr> else e)) (lr_observed L)"
proof (cases "map_of (lr_observed L) i")
  case None
  then have "i \<notin> fst ` set (lr_observed L)" by (simp add: map_of_eq_None_iff)
  then have "map (\<lambda>(j, e). (j, if j = i then e\<lparr>oe_record := (oe_record e)\<lparr>ob_availability := Unavailable\<rparr>,
     oe_coordinator := reconstruct_adoption (oe_coordinator e)\<rparr> else e)) (lr_observed L) = lr_observed L"
    by (intro map_idI) (auto simp: image_iff)
  then show ?thesis using None by (simp add: invalidateEntry_def)
qed (simp add: invalidateEntry_def set_entry_def)

definition unavailable :: "jstr set \<Rightarrow> live_runner \<Rightarrow> bool" where
  "unavailable ids L \<longleftrightarrow> (\<forall>(i, e) \<in> set (lr_observed L). i \<in> ids \<longrightarrow> ob_availability (oe_record e) = Unavailable)"

lemma invalidate_unavailable: "unavailable ids L \<Longrightarrow> unavailable (insert i ids) (invalidateEntry i L)"
  by (auto simp: unavailable_def invalidate_observed split: if_splits)

lemma invalidate_connections:
  "map (\<lambda>(i, e). (i, oe_connection e)) (lr_observed (invalidateEntry i L)) = map (\<lambda>(i, e). (i, oe_connection e)) (lr_observed L)"
  by (auto simp: invalidate_observed)

lemma invalidate_all:
  "unavailable ids L \<Longrightarrow> unavailable (set is \<union> ids) (fold invalidateEntry is L)"
  "map (\<lambda>(i, e). (i, oe_connection e)) (lr_observed (fold invalidateEntry is L)) = map (\<lambda>(i, e). (i, oe_connection e)) (lr_observed L)"
proof (induction "is" arbitrary: ids L)
  case (Cons i js)
  { case 1 show ?case using Cons(1) [OF invalidate_unavailable [OF 1, of i]] by simp }
  { case 2 show ?case using Cons(2) [of "invalidateEntry i L"] by (simp add: invalidate_connections) }
qed simp_all

lemma invalidate_managed [simp]: "lr_managed (fold invalidateEntry is L) = lr_managed L"
proof -
  have "lr_managed (invalidateEntry i L) = lr_managed L" for i L by (simp add: invalidateEntry_def set_entry_def split: option.split)
  then show ?thesis by (induction "is" arbitrary: L) simp_all
qed

lemma lost_unavailable:
  assumes "map_of (lr_observed (onConnectionLost (Some c) L)) i = Some e" "oe_connection e = c"
  shows "ob_availability (oe_record e) = Unavailable"
proof -
  obtain L2 where L2: "lr_observed (onConnectionLost (Some c) L) =
      lr_observed (fold invalidateEntry (map fst (filter (\<lambda>(_, e). oe_connection e = c) (lr_observed L))) L2)" "lr_observed L2 = lr_observed L"
    by (rule that [of "(let L1 = L\<lparr>lr_disconnected := (case map_of (lr_managed L) c of None \<Rightarrow> lr_disconnected L
                  | Some m \<Rightarrow> add_id (cr_agentRunId (mc_committed m)) (lr_disconnected L)), lr_managed := assoc_del c (lr_managed L)\<rparr>
                  in L1\<lparr>lr_bridgeEnabled := bridge_enabled (lr_managed L1)\<rparr>)"])
       (simp_all add: onConnectionLost_def Let_def)
  let ?ids = "map fst (filter (\<lambda>(_, e). oe_connection e = c) (lr_observed L))"
  have m: "(i, e) \<in> set (lr_observed (fold invalidateEntry ?ids L2))" using map_of_SomeD [OF assms(1)] L2(1) by simp
  then have "(i, oe_connection e) \<in> set (map (\<lambda>(i, e). (i, oe_connection e)) (lr_observed (fold invalidateEntry ?ids L2)))"
    by (force simp: image_iff)
  then have "i \<in> set ?ids" using assms(2) L2(2) unfolding invalidate_all(2) by (auto simp: image_iff)
  moreover have "unavailable (set ?ids \<union> {}) (fold invalidateEntry ?ids L2)" by (rule invalidate_all(1)) (simp add: unavailable_def)
  ultimately show ?thesis using m by (fastforce simp: unavailable_def)
qed

text \<open>C37. A lost connection has no authority left: it has no managed lease and no recovery, and no commit is made for a
  session on it, neither an Adoption nor a replacement, until the session is reported or registered again.\<close>

theorem lost_connection_has_no_authority:
  "let L = onConnectionLost (Some c) L0 in
     fst (acceptManagedReady c v L) = Inl (Observer_failed Connection_not_current) \<and>
     fst (completeRecovery c ch w L) = Inl (Observer_failed Proposal_not_found) \<and>
     (case fst (commitAdoption input L) of
        Inl e \<Rightarrow> True
      | Inr r \<Rightarrow> \<exists>x e. map_of (lr_commitContexts L) (pr_proposalId (ci_proposal input)) = Some x \<and>
           map_of (lr_observed L) (cx_observedSessionId x) = Some e \<and> oe_connection e \<noteq> c) \<and>
     (\<exists>f. fst (acceptReplacementAcknowledgement c m L) = Inl f)"
proof -
  define L where L: "L = onConnectionLost (Some c) L0"
  have "map_of (lr_managed L) c = None" "map_of (lr_recoveries L) c = None" unfolding L by (simp_all add: onConnectionLost_def Let_def)
  then have 1: "fst (acceptManagedReady c v L) = Inl (Observer_failed Connection_not_current)"
    "fst (completeRecovery c ch w L) = Inl (Observer_failed Proposal_not_found)"
    by (simp_all add: acceptManagedReady_def completeRecovery_def bindE_def getE_def throwE_def)
  have 2: "\<exists>x e. map_of (lr_commitContexts L) (pr_proposalId (ci_proposal input)) = Some x \<and>
           map_of (lr_observed L) (cx_observedSessionId x) = Some e \<and> oe_connection e \<noteq> c"
    if "commitAdoption input L = (Inr r, L')" for input r L'
  proof -
    from commit_returned [OF that] obtain x where x: "map_of (lr_commitContexts L) (pr_proposalId (ci_proposal input)) = Some x" "commit_valid x input L"
      by (auto simp: commit_done_def)
    then obtain e where "map_of (lr_observed L) (cx_observedSessionId x) = Some e" "ob_availability (oe_record e) = Available"
      by (auto simp: commit_valid_def session_ready_def)
    then show ?thesis using lost_unavailable [of c L0 "cx_observedSessionId x" e] x(1) unfolding L by force
  qed
  have 3: "\<exists>f. fst (acceptReplacementAcknowledgement c m L) = Inl f"
  proof (rule ccontr)
    assume n: "\<nexists>f. fst (acceptReplacementAcknowledgement c m L) = Inl f"
    from replacement_checked [of c m L] n obtain i x e where
      "map_of (lr_replacementContexts L) i = Some x" "cx_connection x = c" "map_of (lr_observed L) (cx_observedSessionId x) = Some e"
      "oe_connection e = c" "session_ready (oe_record e)"
      by (auto simp: wpE_def replacement_done_def split: prod.splits sum.splits)
    then show False using lost_unavailable [of c L0 "cx_observedSessionId x" e] unfolding L by (simp add: session_ready_def)
  qed
  from 1 2 3 show ?thesis
    unfolding Let_def L [symmetric] by (cases "commitAdoption input L"; cases "fst (commitAdoption input L)") auto
qed

section \<open>Replacement\<close>

text \<open>C38. An accepted acknowledgement of a replacement came on the connection of a known, unexpired proposal whose session
  is observed there with that identity, is idle, healthy and unassigned, and has a lease; the replacement of the
  retired predecessor for the Role of the proposal is added to the retirement store, with a fresh place in the
  current vacancy, and the proposal is used up.\<close>

theorem replacement_commit_checked:
  "case acceptReplacementAcknowledgement c m L of (r, L') \<Rightarrow> (case r of Inl e \<Rightarrow> True | Inr x \<Rightarrow> replacement_done c m L (fst x) L')"
  using replacement_checked [of c m L] by (auto simp: wpE_def split: prod.splits sum.splits)

text \<open>The members of an acknowledgement of a replacement that are read.\<close>

definition ack_members :: "jstr set" where
  "ack_members = js ` {''proposalId'', ''connectionId'', ''connectionChallenge'', ''sourceSequence''}"

lemma own_prop_read: "js k \<in> ack_members \<Longrightarrow> own_prop (filter (\<lambda>(k, _). k \<in> ack_members) m) k = own_prop m k"
  by (induction m) (auto simp: own_prop_def)

text \<open>C39. Of the acknowledgement of a replacement four members are read, the proposal, the connection with its challenge and
  the source sequence: whatever its digest, nonce and decision say, a refusal included, the replacement is
  committed as without them. (The acknowledgement of an Adoption is compared in full.)\<close>

theorem replacement_reads_four_members:
  "acceptReplacementAcknowledgement c m = acceptReplacementAcknowledgement c (filter (\<lambda>(k, _). k \<in> ack_members) m)"
proof -
  have read: "own_prop (filter (\<lambda>(k, _). k \<in> ack_members) m) ''proposalId'' = own_prop m ''proposalId''"
    "own_prop (filter (\<lambda>(k, _). k \<in> ack_members) m) ''connectionId'' = own_prop m ''connectionId''"
    "own_prop (filter (\<lambda>(k, _). k \<in> ack_members) m) ''connectionChallenge'' = own_prop m ''connectionChallenge''"
    "own_prop (filter (\<lambda>(k, _). k \<in> ack_members) m) ''sourceSequence'' = own_prop m ''sourceSequence''"
    by (rule own_prop_read, simp add: ack_members_def)+
  show ?thesis unfolding acceptReplacementAcknowledgement_def assertReplacementSynchronousCommitValid_def read ..
qed

text \<open>The digest of a proposal is a loop over its text and one over the width of the digest.\<close>

lemma hex_text_digits: "list_all (\<lambda>c. 97 \<le> c \<and> c \<le> 102 \<or> is_digit c) (hex_text n)"
proof (induction n rule: hex_text.induct)
  case (1 n)
  then show ?case by (subst hex_text.simps) (simp add: hex_digit_def is_digit_def less_Suc_eq_le [symmetric])
qed

lemma hex_text_width: "n < 16 ^ Suc w \<Longrightarrow> length (hex_text n) \<le> Suc w"
proof (induction w arbitrary: n)
  case (Suc w)
  then have "n div 16 < 16 ^ Suc w" by (simp add: less_mult_imp_div_less)
  from Suc.IH [OF this] show ?case by (subst hex_text.simps) simp
qed (subst hex_text.simps, simp)

lemma hash_text_bound: "hash_text s < 2 ^ 64"
  by (induction s rule: rev_induct) (simp_all add: hash_text_def)

text \<open>C40. The digest of a replacement proposal is computed in finitely many rounds of its padding loop, for every
  identifier, and is the hash in lowercase hexadecimal, padded on the left: a digest that the validators accept.\<close>

theorem replacement_digest_returns:
  "defaultReplacementProposalDigest proposalId = Some (padStart 64 (hex_text (hash_text proposalId))) \<and>
   SHA256_RE (padStart 64 (hex_text (hash_text proposalId)))"
proof -
  have "hash_text proposalId < 16 ^ Suc 15" using hash_text_bound [of proposalId] by simp
  then have "length (hex_text (hash_text proposalId)) \<le> 16" using hex_text_width [of "hash_text proposalId" 15] by simp
  then have "length (padStart 64 (hex_text (hash_text proposalId))) = 64" by (simp add: padStart_def)
  then show ?thesis using hex_text_digits [of "hash_text proposalId"]
    by (simp add: defaultReplacementProposalDigest_def pad_loop_returns SHA256_RE_def) (auto simp: padStart_def is_digit_def list_all_iff)
qed

section \<open>Instances\<close>

definition demo_live :: "retirement_store option \<Rightarrow> live_runner" where
  "demo_live t =
     \<lparr>lr_store = createInMemoryAdoptionStore (js ''n'') (js ''g'') [Builder] (\<lambda>_. js ''r''), lr_retirement = t,
      lr_executionNodeId = js ''n'', lr_teamGoalId = js ''g'', lr_roles = [Builder], lr_choice = defaultChoiceResolver (js ''g''),
      lr_leaseDurationMs = DEFAULT_LEASE_DURATION_MS, lr_recoveryTtlMs = DEFAULT_RECOVERY_TTL_MS, lr_sha256 = (\<lambda>_. replicate 64 97),
      lr_transportId = (\<lambda>_. None), lr_token_le = (\<lambda>_ _. False),
      lr_ports = (\<lambda>_. \<lparr>cp_now = 1, cp_issue = (\<lambda>_. None), cp_verify = (\<lambda>_ _. Inr True), cp_present_throws = False, cp_send_throws = False\<rparr>),
      lr_world = (\<lambda>_. \<lparr>lw_now = 1, lw_challenge = JStr (js ''x''), lw_nonce = js ''x'', lw_proposalId = js ''p'', lw_verify = (\<lambda>_ _ _ _. True),
        lw_revisionOf = (\<lambda>_. 1)\<rparr>),
      lr_portCalls = 0, lr_calls = 0, lr_objects = 0, lr_observed = [], lr_commitContexts = [], lr_replacementContexts = [],
      lr_recoveries = [], lr_managed = [], lr_ready = [], lr_disconnected = [], lr_revision = 0, lr_commitCount = 0,
      lr_bridgeEnabled = False\<rparr>"

lemma demo_live_opened: "books_ok k (lr_store (demo_live t), t) \<Longrightarrow> opened_runner k (demo_live t)"
proof -
  assume ok: "books_ok k (lr_store (demo_live t), t)"
  have "new_live_runner (lr_store (demo_live t)) t (js ''n'') (js ''g'') [Builder] None None None (\<lambda>_. replicate 64 97) (\<lambda>_. None) (\<lambda>_ _. False)
      (lr_ports (demo_live t)) (lr_world (demo_live t)) = Inr (demo_live t)"
    by (simp add: new_live_runner_def result_simps Let_def demo_letters demo_live_def)
  then show ?thesis using ok unfolding opened_runner_def by blast
qed

lemma one_live_run_per_role_witness:
  "length (live_runs_of (js ''g'', Builder) (books_of (run_with live_step [Expire_live, Lose_live None] (demo_live None)))) \<le> 1"
  by (rule one_live_run_per_role [of 0, OF demo_live_opened])
     (simp_all add: books_ok_def demo_live_def new_store_ok MAX_SAFE_INTEGER_def)

definition demo_fence :: retirement_store where
  "demo_fence = bury (tombstone_of demo_retire) (createInMemoryRetirementStore None (\<lambda>_. js ''r'') None)"

lemma demo_fence_ok: "books_ok 1 (lr_store (demo_live t), Some demo_fence)"
proof -
  have r: "retirement_step (Retire demo_retire) (createInMemoryRetirementStore None (\<lambda>_. js ''r'') None) = demo_fence"
    by (simp add: demo_fence_def demo_retired)
  have "retirement_ok (Suc 0) demo_fence"
    unfolding r [symmetric] by (rule retirement_step_ok [OF new_retirement_ok]) (simp add: MAX_SAFE_INTEGER_def)
  then show ?thesis by (simp add: books_ok_def demo_live_def new_store_ok) (simp add: createInMemoryAdoptionStore_def)
qed


text \<open>A session that is ready to be adopted, with the input that its coordinator hands to the commit port.\<close>

definition demo_session :: live_record where
  "demo_session =
     \<lparr>ob_observedSessionId = js ''s'', ob_executionNodeId = js ''n'', ob_processIncarnationId = js ''a'', ob_piSessionId = js ''p'',
      ob_extensionInstanceId = js ''x'', ob_connectionId = js ''o'', ob_connectionChallenge = js ''x'', ob_registryRevision = 1,
      ob_lifecycle = Running, ob_activity = Idle_activity, ob_availability = Available, ob_health = Healthy,
      ob_piStatus = OBSERVER_PI_STATUS_LOCAL, ob_acceptedSourceSequence = 0\<rparr>"

definition demo_adoption :: commit_input where
  "demo_adoption =
     \<lparr>ci_proposal = \<lparr>pr_proposalId = js ''p'', pr_proposalDigest = replicate 64 97,
        pr_ids = \<lparr>id_observedSessionId = js ''s'', id_executionNodeId = js ''n'', id_processIncarnationId = js ''a'',
          id_piSessionId = js ''p'', id_extensionInstanceId = js ''x''\<rparr>,
        pr_connectionId = js ''o'', pr_connectionChallenge = js ''x'', pr_registryRevision = 1,
        pr_target = \<lparr>tg_teamGoalId = js ''g'', tg_executionNodeId = js ''n'', tg_role = Builder\<rparr>,
        pr_createdMonotonic = 0, pr_expiresMonotonic = 100, pr_acknowledgementNonce = js ''x''\<rparr>,
      ci_authorization = \<lparr>au_proposalId = js ''p'', au_proposalDigest = replicate 64 97, au_targetTeamGoalId = js ''g'',
        au_targetRole = Builder, au_authorizationId = js ''a'', au_token = js ''x''\<rparr>,
      ci_acknowledgement = \<lparr>ak_processIncarnationId = js ''a'', ak_piSessionId = js ''p'', ak_extensionInstanceId = js ''x'',
        ak_connectionId = js ''o'', ak_connectionChallenge = js ''x'', ak_proposalId = js ''p'', ak_proposalDigest = replicate 64 97,
        ak_acknowledgementNonce = js ''x'', ak_registryRevision = 1, ak_sourceSequence = 1, ak_decision = Acknowledged,
        ak_activity = Idle_activity, ak_refusalCode = None\<rparr>,
      ci_observed = [], ci_reconciliation = 1\<rparr>"

definition demo_ready :: live_runner where
  "demo_ready = (demo_live None)
     \<lparr>lr_observed := [(js ''s'', \<lparr>oe_record = demo_session, oe_connection = 0, oe_observerConnection = 0,
        oe_coordinator = buildCoordinator 0 0 (demo_live None), oe_leaseUntil = 100\<rparr>)],
      lr_commitContexts := [(js ''p'', \<lparr>cx_connection = 0, cx_observedSessionId = js ''s'', cx_acknowledgementDeadline = 100,
        cx_expiresMonotonic = 100\<rparr>)]\<rparr>"

lemma returned: "(case fst q of Inl e \<Rightarrow> False | Inr r \<Rightarrow> True) \<Longrightarrow> \<exists>r s. q = (Inr r, s)"
  by (cases q; cases "fst q") auto

lemma demo_store:
  "case fst (transaction_s (commitAdoption_s [(js ''proposal'', JObj (proposal_json (ci_proposal demo_adoption)))]) (lr_store (demo_live None))) of
     Inl e \<Rightarrow> False | Inr r \<Rightarrow> True"
  by code_simp

lemma demo_ready_sel:
  "lr_retirement demo_ready = None" "lr_executionNodeId demo_ready = js ''n''" "lr_teamGoalId demo_ready = js ''g''" "lr_roles demo_ready = [Builder]"
  "lr_store demo_ready = lr_store (demo_live None)" "lr_commitContexts demo_ready = [(js ''p'', \<lparr>cx_connection = 0, cx_observedSessionId = js ''s'',
     cx_acknowledgementDeadline = 100, cx_expiresMonotonic = 100\<rparr>)]"
  "as_committed (lr_store (demo_live None)) = []" "lw_now (lr_world demo_ready n) = 1"
  by (simp_all add: demo_ready_def demo_live_def createInMemoryAdoptionStore_def)

lemma demo_commit: "case fst (commitAdoption demo_adoption demo_ready) of Inl e \<Rightarrow> False | Inr r \<Rightarrow> True"
proof -
  obtain r s where r: "transaction_s (commitAdoption_s [(js ''proposal'', JObj (proposal_json (ci_proposal demo_adoption)))]) (lr_store (demo_live None)) = (Inr r, s)"
    using returned [OF demo_store] by blast
  obtain e where e: "lr_observed demo_ready = [(js ''s'', e)]" "oe_record e = demo_session" "oe_connection e = 0" "oe_leaseUntil e = 100"
    by (simp add: demo_ready_def)
  have p: "pr_proposalId (ci_proposal demo_adoption) = js ''p''" "pr_target (ci_proposal demo_adoption) = \<lparr>tg_teamGoalId = js ''g'', tg_executionNodeId = js ''n'', tg_role = Builder\<rparr>"
    by (simp_all add: demo_adoption_def)
  have m: "record_matches demo_session (ci_proposal demo_adoption)" by (simp add: record_matches_def demo_session_def demo_adoption_def)
  have s: "wpE (assertSynchronousCommitValid \<lparr>cx_connection = 0, cx_observedSessionId = js ''s'', cx_acknowledgementDeadline = 100,
      cx_expiresMonotonic = 100\<rparr> demo_adoption (\<lambda>g r L. isRoleOccupied g r (lr_store L)) (\<lambda>b L. isBindingCommitted b (lr_store L)))
      (\<lambda>_ L. lr_store L = lr_store (demo_live None)) (\<lambda>_ _. False) demo_ready"
    unfolding assertSynchronousCommitValid_def assertInTime_def assertIdle_def Let_def
    by (simp add: wpE_simps wpE_installs demo_ready_sel demo_letters isRoleOccupiedAfterRetirement_def isRoleOccupied_def isBindingCommitted_def m e p)
       (simp add: demo_session_def demo_adoption_def)
  have "wpE (commitAdoption demo_adoption) (\<lambda>_ _. True) (\<lambda>_ _. False) demo_ready"
    unfolding commitAdoption_def Let_def
    apply (simp add: wpE_then [of "requireId_lr _"] wpE_bind [of "getE _"] wpE_installs wpE_basic p demo_ready_sel demo_letters retirementVacancyFor_def)
    apply (simp only: wpE_then wpE_bind)
    apply (rule wpE_mono [OF s])
     apply (simp add: wpE_on_store wpE_def [of "transaction_s _"] r wpE_simps wpE_installs)
    apply simp
    done
  then show ?thesis by (simp add: wpE_def split: prod.splits sum.splits)
qed

lemma live_commit_checked_witness: "\<exists>r. run_of_proposal r (ci_proposal demo_adoption) \<and> with_run r demo_ready (snd (commitAdoption demo_adoption demo_ready))"
proof -
  obtain r L' where "commitAdoption demo_adoption demo_ready = (Inr r, L')"
    using returned [OF demo_commit] by blast
  from live_commit_checked [OF this] this show ?thesis by auto
qed

end
