(* ===== verification/LiveGatewayProperties.thy ===== *)
theory LiveGatewayProperties
  imports LiveGateway LiveProperties
begin

text \<open>
  Where the gateway routes a frame: which operation of the registry and then of the runner it makes,
  on which connection, and what is sent back; and what its answers are.
\<close>

section \<open>Answers\<close>

text \<open>A takeover gives a control frame whenever it returns.\<close>

lemma ready_answers:
  "wpE (acceptManagedReady c v)
     (\<lambda>x L'. \<exists>m m'. map_of (lr_managed L) c = Some m \<and> (x = None \<longleftrightarrow> \<not> isManualTakeover (cr_agentRunId (mc_committed m)) (lr_store L)) \<and>
        lr_store L' = lr_store L \<and> map_of (lr_managed L') c = Some m' \<and> mc_committed m' = mc_committed m) (\<lambda>_ _. True) L"
proof (cases "map_of (lr_managed L) c")
  case (Some m)
  have "map_of (map (\<lambda>(d, x). (d, if d = c then f x else x)) xs) c = map_option f (map_of xs c)" for f and xs :: "(nat \<times> managed_connection) list"
    by (induction xs) auto
  then show ?thesis using Some
    by (auto simp: acceptManagedReady_def binding_retired_def set_managed_def Let_def wpE_simps split: sum.split)
qed (simp add: acceptManagedReady_def wpE_simps)

lemma takeover_gives_control: "wpE (acceptManualTakeover c v) (\<lambda>x _. x \<noteq> None) (\<lambda>_ _. True) L"
  unfolding acceptManualTakeover_def wpE_bind
proof (rule wpE_mono [OF ready_answers], goal_cases)
  case (1 x L1)
  then obtain m where m: "map_of (lr_managed L1) c = Some m" by blast
  let ?L = "set_managed c (\<lambda>x. x\<lparr>mc_ready := False\<rparr>) L1"
  have e: "map_of (map (\<lambda>(d, x). (d, if d = c then f x else x)) xs) c = map_option f (map_of xs c)" for f and xs :: "(nat \<times> managed_connection) list"
    by (induction xs) auto
  have n: "map_of (lr_managed ?L) c = Some (m\<lparr>mc_ready := False\<rparr>)" using m by (simp add: set_managed_def Let_def e)
  have "wpE (recordManualTakeover (cr_agentRunId (mc_committed m))) (\<lambda>_ s. isManualTakeover (cr_agentRunId (mc_committed m)) s) (\<lambda>_ _. True) (lr_store ?L)"
    by (simp add: recordManualTakeover_def isManualTakeover_def wpE_simps)
  then have "wpE (on_store (recordManualTakeover (cr_agentRunId (mc_committed m))))
      (\<lambda>_ L'. isManualTakeover (cr_agentRunId (mc_committed m)) (lr_store L') \<and> lr_managed L' = lr_managed ?L) (\<lambda>_ _. True) ?L"
    by (simp add: wpE_on_store)
  then have "wpE (on_store (recordManualTakeover (cr_agentRunId (mc_committed m)))) (\<lambda>_ L'. wpE (acceptManagedReady c v) (\<lambda>x _. x \<noteq> None)
      (\<lambda>_ _. True) (L'\<lparr>lr_revision := lr_revision L' + 1\<rparr>)) (\<lambda>_ _. True) ?L"
  proof (rule wpE_mono, goal_cases)
    case (1 u L')
    then show ?case by (intro wpE_mono [OF ready_answers]) (use n in auto)
  qed simp
  then show ?case using m by (simp add: wpE_simps) (erule wpE_mono; simp add: wpE_simps)
qed simp

text \<open>
  A process whose retired run was purged and that registers again is refused, but what the registry has taken is kept:
  the session lives on there, and its transport counts as registered.
\<close>

lemma refused_registration_kept:
  assumes "lr_retirement (lg_runner g) = Some t" "isRetired (bindingOfRecord (recordFromEnvelope body e)) t"
    and "committedByBinding (bindingOfRecord (recordFromEnvelope body e)) (lg_runner g) = None"
    and "register c (body_value (Ob_register body)) (lg_registry g) = (Inr e, r)"
  shows "\<exists>g'. register_new c body g = (Inl (Retirement_failed Rc_already_retired), g') \<and> lg_registry g' = r \<and> lg_runner g' = lg_runner g \<and>
     (\<exists>s. map_of (lg_sessions g') c = Some s \<and> ls_registered s)"
  using assms
  by (simp add: register_new_def bindE_def thenE_def in_registry_lg_def set_session_def modifyE_def in_runner_def registerObserved_def
      getE_def requireE_def retE_def throwE_def on_retirement_def transaction_rt_def registerObservedIfUnretired_def)

section \<open>Where a frame is routed\<close>

text \<open>
  The routing table of the gateway, over the state after the sweep that precedes every frame: what a
  frame \<open>f\<close> on connection \<open>c\<close> makes the registry do and then, depending on the registry's answer, the runner.
  A frame that is in none of these situations must not reach either.
\<close>

definition reads :: "observer_frame \<Rightarrow> observer_body \<Rightarrow> bool" where
  "reads f b \<longleftrightarrow> validateObserverBodyForType (of_type f) (Some (JObj (observer_body_json (of_body f)))) = Inr b"

definition claimed :: "observer_register \<Rightarrow> live_gateway \<Rightarrow> binding_identity" where
  "claimed b g = \<lparr>bi_executionNodeId = lg_executionNodeId g, bi_processIncarnationId = og_processIncarnationId b,
     bi_piSessionId = og_piSessionId b, bi_extensionInstanceId = og_extensionInstanceId b\<rparr>"

definition renewal :: "observer_failure + observed_record \<Rightarrow> live_session \<Rightarrow> int \<Rightarrow> live_op list" where
  "renewal answer s n =
     (case answer of
        Inl _ \<Rightarrow> []
      | Inr r \<Rightarrow> if ls_acceptedSourceSequence s < n then [Update_live (recordFromRegistry r (s\<lparr>ls_acceptedSourceSequence := n\<rparr>))] else [])"

inductive routes :: "nat \<Rightarrow> observer_frame \<Rightarrow> live_gateway \<Rightarrow> registry_op list \<Rightarrow> live_op list \<Rightarrow> bool" for c f g where
  registration: "of_type f = js ''observer.register'' \<Longrightarrow> reads f (Ob_register b) \<Longrightarrow>
    map_of (lg_sessions g) c = Some s \<Longrightarrow> \<not> ls_registered s \<Longrightarrow> committedByBinding (claimed b g) (lg_runner g) = None \<Longrightarrow>
    routes c f g [Register c (body_value (Ob_register b))]
      (case fst (register c (body_value (Ob_register b)) (lg_registry g)) of
         Inl _ \<Rightarrow> [] | Inr e \<Rightarrow> [Register_live (recordFromEnvelope b e) c])"
| recovery: "of_type f = js ''observer.register'' \<Longrightarrow> reads f (Ob_register b) \<Longrightarrow>
    map_of (lg_sessions g) c = Some s \<Longrightarrow> \<not> ls_registered s \<Longrightarrow> committedByBinding (claimed b g) (lg_runner g) \<noteq> None \<Longrightarrow>
    routes c f g [] [Begin_recovery c (claimed b g)]"
| heartbeat: "of_type f = js ''observer.heartbeat'' \<Longrightarrow> reads f (Ob_heartbeat h) \<Longrightarrow>
    map_of (lg_sessions g) c = Some s \<Longrightarrow> ls_registered s \<Longrightarrow>
    routes c f g [Heartbeat_op c (body_value (Ob_heartbeat h))]
      (renewal (fst (heartbeat c (body_value (Ob_heartbeat h)) (lg_registry g))) s (oh_sourceSequence h))"
| lifecycle: "of_type f = js ''observer.lifecycle'' \<Longrightarrow> reads f (Ob_lifecycle l) \<Longrightarrow>
    map_of (lg_sessions g) c = Some s \<Longrightarrow> ls_registered s \<Longrightarrow>
    routes c f g [Lifecycle_op c (body_value (Ob_lifecycle l))]
      (renewal (fst (lifecycle c (body_value (Ob_lifecycle l)) (lg_registry g))) s (ol_sourceSequence l))"
| close: "of_type f = js ''observer.close'' \<Longrightarrow> reads f v \<Longrightarrow> map_of (lg_sessions g) c = Some s \<Longrightarrow> ls_registered s \<Longrightarrow>
    routes c f g [Close_op c (body_value v)]
      (case fst (close c (body_value v) (lg_registry g)) of Inl _ \<Rightarrow> [] | Inr _ \<Rightarrow> [Lose_live (Some c)])"
| acknowledgement: "of_type f = js ''adoption.ack'' \<Longrightarrow> routes c f g [] [Acknowledge_live c (observer_body_json (of_body f))]"
| readiness: "of_type f = js ''adoption.ready'' \<Longrightarrow> reads f v \<Longrightarrow> routes c f g [] [Ready_live c (body_value v)]"
| takeover: "of_type f = js ''adoption.takeover'' \<Longrightarrow> reads f v \<Longrightarrow> routes c f g [] [Takeover_live c (body_value v)]"
| proof_of_recovery: "of_type f = js ''adoption.recovery_proof'' \<Longrightarrow> reads f (Ob_recovery_proof p) \<Longrightarrow>
    routes c f g [] [Complete_recovery c (rf_challenge p) (Some (JObj (adoption_committed_json (rf_committed p))))]"

text \<open>
  Registry and runner are what these operations make of them, other connections are as before, and
  only a registration that reached the registry can make this one registered.
\<close>

definition registered_on :: "nat \<Rightarrow> live_gateway \<Rightarrow> bool" where
  "registered_on c g \<longleftrightarrow> (\<exists>s. map_of (lg_sessions g) c = Some s \<and> ls_registered s)"

definition performs :: "nat \<Rightarrow> registry_op list \<Rightarrow> live_op list \<Rightarrow> live_gateway \<Rightarrow> live_gateway \<Rightarrow> bool" where
  "performs c qs xs g g' \<longleftrightarrow>
     lg_registry g' = run_with registry_step qs (lg_registry g) \<and> lg_runner g' = run_with live_step xs (lg_runner g) \<and>
     (\<forall>d. d \<noteq> c \<longrightarrow> map_of (lg_sessions g') d = map_of (lg_sessions g) d) \<and>
     (registered_on c g' \<longrightarrow> registered_on c g \<or> (\<exists>v. qs = [Register c v])) \<and>
     lg_wrapped g' = lg_wrapped g \<and> lg_send_throws g' = lg_send_throws g"

definition answered :: "nat \<Rightarrow> (nat \<times> observer_frame) list \<Rightarrow> bool" where
  "answered c out \<longleftrightarrow> out = [] \<or> (\<exists>i b. out = [(c, gateway_frame i b)] \<and> (\<forall>r. b \<noteq> Ob_rejected r))"

definition rejected :: "nat \<Rightarrow> observer_frame \<Rightarrow> (nat \<times> observer_frame) list \<Rightarrow> bool" where
  "rejected c f out \<longleftrightarrow>
     (\<exists>i code detail. out = [(c, gateway_frame i (Ob_rejected \<lparr>oj_requestMessageId = of_messageId f, oj_code = code, oj_detail = detail\<rparr>))])"

text \<open>
  A frame is carried out, or turned away by one rejection that names it; then nothing was routed, or
  what was routed failed.
\<close>

definition carried_out :: "nat \<Rightarrow> observer_frame \<Rightarrow> live_gateway \<Rightarrow> live_gateway \<Rightarrow> bool" where
  "carried_out c f g g' \<longleftrightarrow> (\<exists>qs xs out. routes c f g qs xs \<and> performs c qs xs g g' \<and> lg_sent g' = lg_sent g @ out \<and> answered c out)"

definition turned_away :: "nat \<Rightarrow> observer_frame \<Rightarrow> live_gateway \<Rightarrow> live_gateway \<Rightarrow> bool" where
  "turned_away c f g g' \<longleftrightarrow>
     (\<exists>qs xs out. (routes c f g qs xs \<or> qs = [] \<and> xs = []) \<and> performs c qs xs g g' \<and> lg_sent g' = lg_sent g @ out \<and> rejected c f out)"

definition broken :: "nat \<Rightarrow> observer_frame \<Rightarrow> live_gateway \<Rightarrow> live_gateway \<Rightarrow> bool" where
  "broken c f g g' \<longleftrightarrow> (\<exists>qs xs. (routes c f g qs xs \<or> qs = [] \<and> xs = []) \<and> performs c qs xs g g' \<and> lg_sent g' = lg_sent g)"

lemma broken_nothing: "performs c [] [] g g' \<Longrightarrow> lg_sent g' = lg_sent g \<Longrightarrow> broken c f g g'"
  unfolding broken_def by blast

lemma performs_self: "performs c [] [] g g"
  by (simp add: performs_def)

lemma registered_on_sessions: "lg_sessions g' = lg_sessions g \<Longrightarrow> registered_on c g' = registered_on c g"
  by (simp add: registered_on_def)

lemma routed_done: "routes c f g qs xs \<Longrightarrow> performs c qs xs g g' \<Longrightarrow> lg_sent g' = lg_sent g @ out \<Longrightarrow> answered c out \<Longrightarrow> carried_out c f g g'"
  unfolding carried_out_def by blast

lemma routed_broken: "routes c f g qs xs \<Longrightarrow> performs c qs xs g g' \<Longrightarrow> lg_sent g' = lg_sent g \<Longrightarrow> broken c f g g'"
  unfolding broken_def by blast

lemma wpE_in_runner:
  assumes "\<And>x. fst (m (lg_runner g)) = Inr x \<Longrightarrow> Q x (g\<lparr>lg_runner := snd (m (lg_runner g))\<rparr>)"
    and "\<And>e. fst (m (lg_runner g)) = Inl e \<Longrightarrow> E e (g\<lparr>lg_runner := snd (m (lg_runner g))\<rparr>)"
  shows "wpE (in_runner m) Q E g"
  using assms by (cases "m (lg_runner g)"; cases "fst (m (lg_runner g))") (auto simp: wpE_def in_runner_def)

lemma wpE_in_registry_lg:
  assumes "\<And>x. fst (m (lg_registry g)) = Inr x \<Longrightarrow> Q x (g\<lparr>lg_registry := snd (m (lg_registry g))\<rparr>)"
    and "\<And>e. fst (m (lg_registry g)) = Inl e \<Longrightarrow> E (of_observer e) (g\<lparr>lg_registry := snd (m (lg_registry g))\<rparr>)"
  shows "wpE (in_registry_lg m) Q E g"
  using assms by (cases "m (lg_registry g)"; cases "fst (m (lg_registry g))") (auto simp: wpE_def in_registry_lg_def)

lemma wpE_reply_lg:
  assumes "\<not> lg_send_throws g c (Suc (lg_counter g))"
    and "Q () (g\<lparr>lg_counter := Suc (lg_counter g),
      lg_sent := lg_sent g @ [(c, gateway_frame (gateway_message_id (Suc (lg_counter g))) b)]\<rparr>)"
  shows "wpE (reply_lg c b) Q E g"
  using assms by (simp add: reply_lg_def nextMessageId_lg_def wpE_def bindE_def getE_def modifyE_def)

lemma wpE_validated:
  assumes "\<And>b. reads f b \<Longrightarrow> Q b g" and "\<And>e. E e g"
  shows "wpE (validated f) Q E g"
  using assms by (auto simp: validated_def reads_def wpE_simps split: sum.split)

lemma wpE_session_state:
  "map_of (lg_sessions g) c = Some s \<Longrightarrow> wpE (session_state c) Q E g = Q s g"
  by (simp add: session_state_def wpE_simps)

lemma wpE_assertRegistered:
  "map_of (lg_sessions g) c = Some s \<Longrightarrow> (ls_registered s \<Longrightarrow> Q () g) \<Longrightarrow> (\<And>e. E e g) \<Longrightarrow> wpE (assertRegistered_lg c) Q E g"
  by (simp add: assertRegistered_lg_def session_state_def wpE_simps)

abbreviation handled :: "nat \<Rightarrow> observer_frame \<Rightarrow> live_gateway \<Rightarrow> 'a lg \<Rightarrow> bool" where
  "handled c f g m \<equiv> wpE m (\<lambda>_. carried_out c f g) (\<lambda>_. broken c f g) g"

lemma answered_simps:
  "answered c []" "answered c [(c, gateway_frame i b)] \<longleftrightarrow> (\<forall>r. b \<noteq> Ob_rejected r)"
  by (auto simp: answered_def gateway_frame_def)

lemma reply_handled:
  assumes r: "routes c f g qs xs" "performs c qs xs g h" "lg_sent h = lg_sent g" "\<And>d n. \<not> lg_send_throws g d n" "\<forall>r. b \<noteq> Ob_rejected r"
  shows "wpE (reply_lg c b) (\<lambda>_. carried_out c f g) (\<lambda>_. broken c f g) h"
proof (rule wpE_reply_lg)
  show "\<not> lg_send_throws h c (Suc (lg_counter h))" using r(2,4) by (simp add: performs_def registered_on_def)
  show "carried_out c f g (h\<lparr>lg_counter := Suc (lg_counter h), lg_sent := lg_sent h @ [(c, gateway_frame (gateway_message_id (Suc (lg_counter h))) b)]\<rparr>)"
    by (rule routed_done [OF r(1), where out = "[(c, gateway_frame (gateway_message_id (Suc (lg_counter h))) b)]"])
       (use r(2,3,5) in \<open>simp_all add: performs_def registered_on_def answered_simps\<close>)
qed

lemma bindings_agree:
  "\<lparr>bi_executionNodeId = lg_executionNodeId g, bi_processIncarnationId = og_processIncarnationId b,
    bi_piSessionId = og_piSessionId b, bi_extensionInstanceId = og_extensionInstanceId b\<rparr> = claimed b g"
  by (simp add: claimed_def)

lemma register_new_handled:
  assumes r: "\<And>xs. xs = (case fst (register c (body_value (Ob_register b)) (lg_registry g)) of
      Inl _ \<Rightarrow> [] | Inr e \<Rightarrow> [Register_live (recordFromEnvelope b e) c]) \<Longrightarrow> routes c f g [Register c (body_value (Ob_register b))] xs"
    and q: "\<And>d n. \<not> lg_send_throws g d n"
  shows "handled c f g (register_new c b)"
  unfolding register_new_def wpE_bind
proof (rule wpE_in_registry_lg)
  fix e assume e: "fst (register c (body_value (Ob_register b)) (lg_registry g)) = Inl e"
  show "broken c f g (g\<lparr>lg_registry := snd (register c (body_value (Ob_register b)) (lg_registry g))\<rparr>)"
    by (rule routed_broken [OF r [OF refl]]) (simp_all add: e performs_def registered_on_def)
next
  fix e assume e: "fst (register c (body_value (Ob_register b)) (lg_registry g)) = Inr e"
  show "wpE (thenE (set_session c \<lparr>ls_registered = True, ls_connectionId = Some (od_connectionId e),
      ls_connectionChallenge = Some (od_connectionChallenge e), ls_acceptedSourceSequence = od_acceptedSourceSequence e\<rparr>)
      (thenE (in_runner (registerObserved (recordFromEnvelope b e) c)) (reply_lg c (Ob_registered e))))
      (\<lambda>_. carried_out c f g) (\<lambda>_. broken c f g) (g\<lparr>lg_registry := snd (register c (body_value (Ob_register b)) (lg_registry g))\<rparr>)"
    unfolding wpE_then set_session_def wpE_basic
    by (rule wpE_in_runner)
       (rule reply_handled [OF r [OF refl]] routed_broken [OF r [OF refl]]; simp add: e q performs_def registered_on_def)+
qed

lemma register_handled_lg:
  assumes s: "map_of (lg_sessions g) c = Some s" and q: "\<And>d n. \<not> lg_send_throws g d n"
    and t: "of_type f = js ''observer.register''"
  shows "handled c f g (handleRegister_lg c f)"
proof -
  have quiet: "broken c f g g" by (rule broken_nothing [OF performs_self refl])
  have new: "handled c f g (register_new c b)"
    if "reads f (Ob_register b)" "\<not> ls_registered s" "committedByBinding (claimed b g) (lg_runner g) = None" for b
    using register_new_handled [OF _ q] routes.registration [OF t that(1) s that(2,3)] by simp
  have again: "wpE (in_runner (beginRecovery c (claimed b g))) (\<lambda>x. wpE (case x of (challenge, run) \<Rightarrow>
      reply_lg c (Ob_recovery_challenge \<lparr>rc_challenge = challenge, rc_committed = committed_body run\<rparr>))
      (\<lambda>_. carried_out c f g) (\<lambda>_. broken c f g)) (\<lambda>_. broken c f g) g"
    if "reads f (Ob_register b)" "\<not> ls_registered s" "committedByBinding (claimed b g) (lg_runner g) = Some y" for b y
  proof -
    have "committedByBinding (claimed b g) (lg_runner g) \<noteq> None" using that(3) by simp
    note r = routes.recovery [OF t that(1) s that(2) this]
    show ?thesis
      by (rule wpE_in_runner) (auto simp: q performs_def registered_on_def intro!: reply_handled [OF r] routed_broken [OF r])
  qed
  show ?thesis
    unfolding handleRegister_lg_def wpE_bind wpE_then wpE_session_state [OF s] wpE_basic
    by (auto simp: quiet wpE_basic wpE_bind bindings_agree new again intro!: wpE_validated split: observer_body.split)
qed

lemma report_handled_lg:
  assumes s: "map_of (lg_sessions g) c = Some s"
    and r: "routes c f g [q] (renewal (Inr x) s n)"
  shows "wpE (report c n x) (\<lambda>_. carried_out c f g) (\<lambda>_. broken c f g) (g\<lparr>lg_registry := registry_step q (lg_registry g)\<rparr>)"
proof -
  let ?h = "g\<lparr>lg_registry := registry_step q (lg_registry g)\<rparr>"
  have h: "map_of (lg_sessions ?h) c = Some s" using s by simp
  show ?thesis
    unfolding report_def wpE_bind wpE_session_state [OF h] Let_def
    by (cases "ls_acceptedSourceSequence s < n"; simp only: if_True if_False simp_thms wpE_then set_session_def wpE_basic)
       (use r in \<open>auto simp: s renewal_def performs_def registered_on_def answered_simps intro!: wpE_in_runner routed_done [OF r] routed_broken [OF r]\<close>)
qed

lemma reports_handled_lg:
  assumes s: "map_of (lg_sessions g) c = Some s"
  shows "of_type f = js ''observer.heartbeat'' \<Longrightarrow> handled c f g (handleHeartbeat_lg c f)"
    "of_type f = js ''observer.lifecycle'' \<Longrightarrow> handled c f g (handleLifecycle_lg c f)"
    "of_type f = js ''observer.close'' \<Longrightarrow> handled c f g (handleClose_lg c f)"
proof -
  have quiet: "broken c f g g" by (rule broken_nothing [OF performs_self refl])
  have taken: "wpE (in_registry_lg m) (\<lambda>x. wpE (report c n x) (\<lambda>_. carried_out c f g) (\<lambda>_. broken c f g)) (\<lambda>_. broken c f g) g"
    if r: "routes c f g [q] (renewal (fst (m (lg_registry g))) s n)" and q: "registry_step q (lg_registry g) = snd (m (lg_registry g))" for m n q
  proof (rule wpE_in_registry_lg)
    fix x assume x: "fst (m (lg_registry g)) = Inr x"
    show "wpE (report c n x) (\<lambda>_. carried_out c f g) (\<lambda>_. broken c f g) (g\<lparr>lg_registry := snd (m (lg_registry g))\<rparr>)"
      using report_handled_lg [OF s r [unfolded x]] by (simp add: q)
  next
    fix e assume "fst (m (lg_registry g)) = Inl e"
    then show "broken c f g (g\<lparr>lg_registry := snd (m (lg_registry g))\<rparr>)"
      by (intro routed_broken [OF r]) (simp_all add: performs_def registered_on_def renewal_def q)
  qed
  show "handled c f g (handleHeartbeat_lg c f)" if "of_type f = js ''observer.heartbeat''"
    unfolding handleHeartbeat_lg_def wpE_bind wpE_then
    by (rule wpE_assertRegistered [OF s])
      (auto simp: quiet wpE_basic wpE_bind intro!: wpE_validated taken routes.heartbeat [OF that _ s] split: observer_body.split)
  show "handled c f g (handleLifecycle_lg c f)" if "of_type f = js ''observer.lifecycle''"
    unfolding handleLifecycle_lg_def wpE_bind wpE_then
    by (rule wpE_assertRegistered [OF s])
      (auto simp: quiet wpE_basic wpE_bind intro!: wpE_validated taken routes.lifecycle [OF that _ s] split: observer_body.split)
  show "handled c f g (handleClose_lg c f)" if t: "of_type f = js ''observer.close''"
  proof -
    have "wpE (in_registry_lg (close c (body_value b))) (\<lambda>_. wpE (lose c) (\<lambda>_. carried_out c f g) (\<lambda>_. broken c f g)) (\<lambda>_. broken c f g) g"
      if "reads f b" "ls_registered s" for b
      using routes.close [OF t that(1) s that(2)]
      by (intro wpE_in_registry_lg)
         (auto simp: lose_def modifyE_def performs_def registered_on_def answered_simps intro!: wpE_in_runner
           intro: routed_done [where out = "[]"] routed_broken)
    then show ?thesis unfolding handleClose_lg_def wpE_bind wpE_then
      by (intro wpE_assertRegistered [OF s] wpE_validated) (auto simp: quiet)
  qed
qed

lemma adoptions_handled:
  assumes q: "\<And>d n. \<not> lg_send_throws g d n"
  shows "of_type f = js ''adoption.ack'' \<Longrightarrow> handled c f g (in_runner (acceptAcknowledgement_lr c (observer_body_json (of_body f))))"
    "of_type f = js ''adoption.ready'' \<Longrightarrow> reads f b \<Longrightarrow>
       handled c f g (bindE (in_runner (acceptManagedReady c (body_value b))) (send_control c))"
    "of_type f = js ''adoption.takeover'' \<Longrightarrow> reads f b \<Longrightarrow>
       handled c f g (bindE (in_runner (acceptManualTakeover c (body_value b))) (send_control c))"
    "of_type f = js ''adoption.recovery_proof'' \<Longrightarrow> handled c f g (handleRecoveryProof c f)"
proof -
  have quiet: "broken c f g g" by (rule broken_nothing [OF performs_self refl])
  have control: "wpE (in_runner m) (\<lambda>x. wpE (send_control c x) (\<lambda>_. carried_out c f g) (\<lambda>_. broken c f g)) (\<lambda>_. broken c f g) g"
    if r: "routes c f g [] [x]" and x: "live_step x (lg_runner g) = snd (m (lg_runner g))" for m x
    by (rule wpE_in_runner)
       (auto simp: send_control_def x q performs_def registered_on_def wpE_basic answered_simps split: option.split
         intro!: routed_broken [OF r] routed_done [OF r, where out = "[]"] reply_handled [OF r])
  show "handled c f g (in_runner (acceptAcknowledgement_lr c (observer_body_json (of_body f))))" if "of_type f = js ''adoption.ack''"
    by (rule wpE_in_runner)
       (auto simp: performs_def registered_on_def answered_simps intro!: routed_broken [OF routes.acknowledgement [OF that]]
         routed_done [OF routes.acknowledgement [OF that], where out = "[]"])
  show "handled c f g (bindE (in_runner (acceptManagedReady c (body_value b))) (send_control c))"
    if "of_type f = js ''adoption.ready''" "reads f b"
    unfolding wpE_bind by (rule control [OF routes.readiness [OF that]]) simp
  show "handled c f g (bindE (in_runner (acceptManualTakeover c (body_value b))) (send_control c))"
    if "of_type f = js ''adoption.takeover''" "reads f b"
    unfolding wpE_bind by (rule control [OF routes.takeover [OF that]]) simp
  show "handled c f g (handleRecoveryProof c f)" if t: "of_type f = js ''adoption.recovery_proof''"
  proof -
    have "wpE (in_runner (completeRecovery c (rf_challenge p) (Some (JObj (adoption_committed_json (rf_committed p))))))
        (\<lambda>x. wpE (reply_lg c (Ob_committed (committed_body x))) (\<lambda>_. carried_out c f g) (\<lambda>_. broken c f g)) (\<lambda>_. broken c f g) g"
      if p: "reads f (Ob_recovery_proof p)" for p
      by (rule wpE_in_runner)
         (auto simp: q performs_def registered_on_def intro!: reply_handled [OF routes.proof_of_recovery [OF t p]] routed_broken [OF routes.proof_of_recovery [OF t p]])
    then show ?thesis unfolding handleRecoveryProof_def wpE_bind
      by (auto simp: quiet wpE_basic wpE_bind intro!: wpE_validated split: observer_body.split)
  qed
qed

lemma dispatch_routed:
  assumes s: "map_of (lg_sessions g) c = Some s" and q: "\<And>d n. \<not> lg_send_throws g d n"
  shows "wpE (dispatch_lg c f) (\<lambda>_ g'. carried_out c f g g' \<or> turned_away c f g g') (\<lambda>_. broken c f g) g"
proof -
  let ?Q = "\<lambda>_ g'. carried_out c f g g' \<or> turned_away c f g g'"
  have quiet: "broken c f g g" by (rule broken_nothing [OF performs_self refl])
  have one: "wpE (thenE m (retE None)) ?Q (\<lambda>_. broken c f g) g" if "handled c f g m" for m :: "unit lg"
    unfolding wpE_then wpE_basic by (rule wpE_mono [OF that]) auto
  have control: "wpE (bindE m (\<lambda>x. thenE (k x) (retE None))) ?Q (\<lambda>_. broken c f g) g" if "handled c f g (bindE m k)"
    for m :: "'b lg" and k
    unfolding wpE_bind wpE_then wpE_basic by (rule wpE_mono [OF that [unfolded wpE_bind]]) (auto elim: wpE_mono)
  have unsupported: "wpE (thenE (rejectUnsupported_lg c f) (retE None)) ?Q (\<lambda>_. broken c f g) g"
    unfolding wpE_then rejectUnsupported_lg_def wpE_basic
    by (rule wpE_reply_lg, simp add: q, rule disjI2, unfold turned_away_def rejected_def performs_def registered_on_def)
       (rule exI [of _ "[]"], rule exI [of _ "[]"], simp, blast)
  have ack: "wpE (bindE (in_runner (acceptAcknowledgement_lr c m)) (\<lambda>x. retE (Some x))) ?Q (\<lambda>_. broken c f g) g"
    if "handled c f g (in_runner (acceptAcknowledgement_lr c m))" for m
    unfolding wpE_bind wpE_basic by (rule wpE_mono [OF that]) auto
  show ?thesis unfolding dispatch_lg_def
    using one [OF register_handled_lg [OF s q]] one [OF reports_handled_lg(1) [OF s]] one [OF reports_handled_lg(2) [OF s]]
      one [OF reports_handled_lg(3) [OF s]] ack [OF adoptions_handled(1) [OF q]] one [OF adoptions_handled(4) [OF q]] unsupported
      control [OF adoptions_handled(2) [OF q]] control [OF adoptions_handled(3) [OF q]]
    by (auto simp: wpE_bind [of "validated f"] quiet intro!: wpE_validated)
qed

lemma reject_routed:
  assumes "broken c f g h" and q: "\<And>d n. \<not> lg_send_throws g d n"
  shows "wpE (reject_lg c f e) (\<lambda>_. turned_away c f g) (\<lambda>_ _. False) h"
proof -
  obtain qs xs where b: "routes c f g qs xs \<or> qs = [] \<and> xs = []" "performs c qs xs g h" "lg_sent h = lg_sent g"
    using assms(1) by (auto simp: broken_def)
  have "turned_away c f g (h\<lparr>lg_counter := k, lg_sent := lg_sent h @ [(c, gateway_frame i
      (Ob_rejected \<lparr>oj_requestMessageId = of_messageId f, oj_code = code, oj_detail = detail\<rparr>))]\<rparr>)" for k i code detail
    unfolding turned_away_def using b
    by (intro exI [of _ qs] exI [of _ xs]) (auto simp: performs_def registered_on_def rejected_def)
  then show ?thesis unfolding reject_lg_def wpE_bind wpE_basic
    by (intro wpE_reply_lg) (use b(2) q in \<open>auto simp: performs_def\<close>)
qed

lemma sweep_keeps:
  "lg_sessions (snd (sweep_lg g)) = lg_sessions g" "lg_send_throws (snd (sweep_lg g)) = lg_send_throws g"
  "lg_sent (snd (sweep_lg g)) = lg_sent g" "lg_wrapped (snd (sweep_lg g)) = lg_wrapped g"
  by (simp_all add: sweep_lg_def thenE_def bindE_def in_registry_lg_def in_runner_def split: prod.split sum.split)

lemma swept_state:
  "lg_registry (snd (sweep_lg g)) = registry_step Expire_op (lg_registry g)"
  "lg_runner (snd (sweep_lg g)) \<in> {lg_runner g, live_step Expire_live (lg_runner g)}"
  by (auto simp: sweep_lg_def thenE_def bindE_def in_registry_lg_def in_runner_def split: prod.split sum.split)

lemma never_both: "\<not> (carried_out c f g g' \<and> turned_away c f g g')"
  by (auto simp: carried_out_def turned_away_def answered_def rejected_def gateway_frame_def)

lemma frame_cases:
  assumes s: "map_of (lg_sessions g) c \<noteq> None" and q: "\<And>d n. \<not> lg_send_throws g d n"
  shows "carried_out c f (snd (sweep_lg g)) (live_gateway_step (Frame_live c f) g) \<or>
    turned_away c f (snd (sweep_lg g)) (live_gateway_step (Frame_live c f) g)"
proof -
  let ?h = "snd (sweep_lg g)"
  let ?P = "\<lambda>g'. carried_out c f ?h g' \<or> turned_away c f ?h g'"
  have q': "\<And>d n. \<not> lg_send_throws ?h d n" using q by (simp add: sweep_keeps)
  obtain s where s': "map_of (lg_sessions ?h) c = Some s" using s by (auto simp: sweep_keeps)
  note d = dispatch_routed [OF s' q', of f]
  have "wpE (thenE sweep_lg (dispatch_lg c f)) (\<lambda>_. ?P) (\<lambda>_. broken c f ?h) g"
    unfolding wpE_then
  proof (cases "fst (sweep_lg g)")
    case (Inl e)
    then show "wpE sweep_lg (\<lambda>_. wpE (dispatch_lg c f) (\<lambda>_. ?P) (\<lambda>_. broken c f ?h)) (\<lambda>_. broken c f ?h) g"
      using broken_nothing [OF performs_self refl, of c f ?h] by (cases "sweep_lg g") (simp add: wpE_def [of sweep_lg])
  next
    case (Inr u)
    then show "wpE sweep_lg (\<lambda>_. wpE (dispatch_lg c f) (\<lambda>_. ?P) (\<lambda>_. broken c f ?h)) (\<lambda>_. broken c f ?h) g"
      using d by (cases "sweep_lg g") (simp add: wpE_def [of sweep_lg])
  qed
  then have "wpE (handleFrame_lg c f) (\<lambda>_. ?P) (\<lambda>_. ?P) g"
    unfolding handleFrame_lg_def wpE_bind wpE_basic if_not_P [OF s] wpE_catch
    by (rule wpE_mono) (auto simp: wpE_then wpE_basic intro!: wpE_mono [OF reject_routed [OF _ q']])
  then show ?thesis by (simp add: wpE_final)
qed

section \<open>Properties\<close>


section \<open>A gateway at work\<close>

definition demo_gateway :: live_gateway where
  "demo_gateway = new_live_gateway (demo_live (Some demo_fence)) (case new_registry (js ''n'') (\<lambda>_. 0) (\<lambda>_ _. js ''x'') (\<lambda>_. False) of Inr r \<Rightarrow> r)
     (js ''n'') (\<lambda>_ _. False) (\<lambda>_ _. [])"

lemma demo_close_unrouted: "\<not> carried_out 0 demo_close_frame (snd (sweep_lg (accept_lg 0 demo_gateway))) g'"
proof
  assume "carried_out 0 demo_close_frame (snd (sweep_lg (accept_lg 0 demo_gateway))) g'"
  then obtain qs xs where "routes 0 demo_close_frame (snd (sweep_lg (accept_lg 0 demo_gateway))) qs xs"
    by (auto simp: carried_out_def)
  then show False
    by cases (auto simp: demo_close_frame_def sweep_keeps accept_lg_def transport_of_def demo_gateway_def new_live_gateway_def js_def)
qed


end
