(* ===== verification/CompanionEnvelopes.thy ===== *)
theory CompanionEnvelopes
  imports CompanionContracts Projection
begin

text \<open>
  The envelopes of companion/contracts.ts: what a Projection Session sends to the panel and what it
  takes back, and the release of the plugin. Each envelope is a record, each validator a function to
  \<open>companion_failure + envelope\<close>. Whether a number that is no safe integer is finite is the
  parameter \<open>finite_token\<close> of the validators that ask for it.
\<close>

section \<open>Limits\<close>

definition companion_detailCharacters :: nat where "companion_detailCharacters = 1024"
definition companion_labelCharacters :: nat where "companion_labelCharacters = 512"
definition releaseAssetCount :: nat where "releaseAssetCount = 32"
definition releaseAssetBytes :: nat where "releaseAssetBytes = 128 * 1024"
definition releaseTotalBytes :: nat where "releaseTotalBytes = 512 * 1024"
definition relativePathCharacters :: nat where "relativePathCharacters = 192"

definition SUPPORTED_COMPATIBILITY :: "jstr \<times> jstr" where
  "SUPPORTED_COMPATIBILITY = (js ''4.0.3-1'', js ''0.3.1-1'')"

definition ACCEPTED_COMPATIBILITIES :: "(jstr \<times> jstr) list" where
  "ACCEPTED_COMPATIBILITIES = [SUPPORTED_COMPATIBILITY, (js ''4.0.2-1'', js ''0.3.1-1'')]"

definition assertSupportedCompatibility :: "jstr \<times> jstr \<Rightarrow> companion_failure + unit" where
  "assertSupportedCompatibility c = guardR (c \<in> set ACCEPTED_COMPATIBILITIES) (Companion_error Unsupported_compatibility)"

section \<open>Values\<close>

text \<open>The JSON data that an intent may carry: at most nine levels, bounded arrays and objects.\<close>

fun json_value_ok :: "(jstr \<Rightarrow> bool) \<Rightarrow> nat \<Rightarrow> json \<Rightarrow> bool" where
  "json_value_ok finite_token depth JNull \<longleftrightarrow> depth \<le> 8"
| "json_value_ok finite_token depth (JBool b) \<longleftrightarrow> depth \<le> 8"
| "json_value_ok finite_token depth (JStr s) \<longleftrightarrow> depth \<le> 8"
| "json_value_ok finite_token depth (JNum (Whole n)) \<longleftrightarrow> depth \<le> 8"
| "json_value_ok finite_token depth (JNum (Other t)) \<longleftrightarrow> depth \<le> 8 \<and> finite_token t"
| "json_value_ok finite_token depth (JArr vs) \<longleftrightarrow>
     depth \<le> 8 \<and> length vs \<le> 256 \<and> list_all (json_value_ok finite_token (Suc depth)) vs"
| "json_value_ok finite_token depth (JObj m) \<longleftrightarrow>
     depth \<le> 8 \<and> length m \<le> 64 \<and>
     list_all (\<lambda>e. 0 < length (fst e) \<and> length (fst e) \<le> 128 \<and> json_value_ok finite_token (Suc depth) (snd e)) m"

definition requireJsonObject :: "(jstr \<Rightarrow> bool) \<Rightarrow> json option \<Rightarrow> nat \<Rightarrow> companion_failure + obj" where
  "requireJsonObject finite_token input maxBytes =
     (case object_of input of
        None \<Rightarrow> invalid_envelope
      | Some m \<Rightarrow>
          if \<not> json_value_ok finite_token 0 (JObj m) then invalid_envelope
          else andThen (guardR (utf8Bytes (stringify (JObj m)) \<le> maxBytes) (Companion_error Envelope_too_large_c)) (\<lambda>_. Inr m))"

definition requireRole_c :: "json option \<Rightarrow> companion_failure + role" where
  "requireRole_c = requireOneOf_c ROLES"

definition PROJECTION_STATUSES :: "projection_status enum" where
  "PROJECTION_STATUSES = [(''ready'', Ready), (''reconnecting'', Reconnecting), (''gap'', Gap)]"

datatype intent_outcome = Accepted_intent | Invalid_intent_result | Duplicate_intent_result | Unavailable_intent

definition COMPANION_INTENT_RESULTS :: "intent_outcome enum" where
  "COMPANION_INTENT_RESULTS =
     [(''accepted'', Accepted_intent), (''invalid'', Invalid_intent_result), (''duplicate'', Duplicate_intent_result),
      (''unavailable'', Unavailable_intent)]"

lemma envelope_enums_ok [simp]: "enum_ok PROJECTION_STATUSES" "enum_ok COMPANION_INTENT_RESULTS"
  unfolding enum_ok_def PROJECTION_STATUSES_def COMPANION_INTENT_RESULTS_def
  by (auto intro: projection_status.exhaust intent_outcome.exhaust)

definition companion_card_json :: "console_card \<Rightarrow> json" where
  "companion_card_json c = JObj [(js ''role'', JEnum ROLES (cc_role c)), (js ''agentRunId'', JStr (cc_agentRunId c)), (js ''piStatus'', JStr (cc_piStatus c))]"

definition handoff_json :: "handoff \<Rightarrow> obj" where
  "handoff_json h =
     [(js ''status'', JEnum PROJECTION_STATUSES (ho_status h)), (js ''cursor'', JWhole (ho_cursor h)),
      (js ''cards'', JArr (map companion_card_json (ho_cards h)))]"

definition validateCard :: "json \<Rightarrow> companion_failure + console_card" where
  "validateCard input =
     andThen (exactObject_c (Some input) [''role'', ''agentRunId'', ''piStatus'']) (\<lambda>m.
     andThen (requireRole_c (own_prop m ''role'')) (\<lambda>role.
     andThen (requireId_c (own_prop m ''agentRunId'')) (\<lambda>agentRunId.
     andThen (requireString_c (own_prop m ''piStatus'') companion_labelCharacters) (\<lambda>piStatus.
     Inr \<lparr>cc_role = role, cc_agentRunId = agentRunId, cc_piStatus = piStatus\<rparr>))))"

definition own_handoff :: "obj \<Rightarrow> companion_failure + handoff" where
  "own_handoff m =
     andThen (requireOneOf_c PROJECTION_STATUSES (own_prop m ''status'')) (\<lambda>status.
     andThen (requireNonNegativeInteger_c (own_prop m ''cursor'')) (\<lambda>cursor.
     (case array_of (own_prop m ''cards'') of
        None \<Rightarrow> invalid_envelope
      | Some vs \<Rightarrow>
          if length vs \<noteq> length ROLES then invalid_envelope
          else andThen (mapR validateCard vs) (\<lambda>cards.
               if length (remdups (map cc_role cards)) \<noteq> length ROLES then invalid_envelope
               else Inr \<lparr>ho_status = status, ho_cursor = cursor, ho_cards = cards\<rparr>))))"

definition validateHandoff :: "json option \<Rightarrow> companion_failure + handoff" where
  "validateHandoff input = andThen (exactObject_c input [''status'', ''cursor'', ''cards'']) own_handoff"

section \<open>Session envelopes\<close>

text \<open>\<open>validateSessionEnvelope\<close>: the session and the remaining members.\<close>

definition validateSessionEnvelope :: "json option \<Rightarrow> string \<Rightarrow> string list \<Rightarrow> companion_failure + (session_identity \<times> obj)" where
  "validateSessionEnvelope input type names =
     andThen (exactObject_c input ([''protocol'', ''type'', ''session''] @ names)) (\<lambda>m.
     andThen (requireProtocol_c (own_prop m ''protocol'')) (\<lambda>_.
     andThen (guardR (own_prop m ''type'' = Some (JStr (js type))) (Companion_error Invalid_envelope_c)) (\<lambda>_.
     andThen (validateProjectionSessionIdentity (own_prop m ''session'')) (\<lambda>session. Inr (session, m)))))"

definition session_envelope_json :: "string \<Rightarrow> session_identity \<Rightarrow> obj \<Rightarrow> obj" where
  "session_envelope_json type session rest =
     [(js ''protocol'', JStr COMPANION_PROTOCOL_ID), (js ''type'', JStr (js type)), (js ''session'', JObj (session_identity_json session))] @ rest"

record open_envelope =
  pe_session :: session_identity
  pe_projection :: handoff

definition open_envelope_json :: "open_envelope \<Rightarrow> obj" where
  "open_envelope_json e =
     (js ''protocol'', JStr COMPANION_PROTOCOL_ID) # session_identity_json (pe_session e) @ [(js ''projection'', JObj (handoff_json (pe_projection e)))]"

text \<open>The identity and the handoff that envelopes carry as members of their own.\<close>

definition own_session :: "obj \<Rightarrow> companion_failure + session_identity" where
  "own_session m =
     andThen (requireId_c (own_prop m ''sessionId'')) (\<lambda>sessionId.
     andThen (requireId_c (own_prop m ''teamGoalId'')) (\<lambda>teamGoalId.
     andThen (requireId_c (own_prop m ''clientId'')) (\<lambda>clientId.
     andThen (requirePositiveInteger_c (own_prop m ''sessionGeneration'')) (\<lambda>sessionGeneration.
     andThen (requirePositiveInteger_c (own_prop m ''pluginGeneration'')) (\<lambda>pluginGeneration.
     Inr \<lparr>si_sessionId = sessionId, si_teamGoalId = teamGoalId, si_clientId = clientId,
          si_sessionGeneration = sessionGeneration, si_pluginGeneration = pluginGeneration\<rparr>)))))"

definition validateOpenEnvelope :: "json option \<Rightarrow> companion_failure + open_envelope" where
  "validateOpenEnvelope input =
     andThen (exactObject_c input [''protocol'', ''sessionId'', ''teamGoalId'', ''clientId'', ''sessionGeneration'', ''pluginGeneration'', ''projection'']) (\<lambda>m.
     andThen (requireProtocol_c (own_prop m ''protocol'')) (\<lambda>_.
     andThen (own_session m) (\<lambda>session.
     andThen (validateHandoff (own_prop m ''projection'')) (\<lambda>projection.
     let result = \<lparr>pe_session = session, pe_projection = projection\<rparr>
     in andThen (assertBoundedEnvelope (open_envelope_json result)) (\<lambda>_. Inr result)))))"

definition apply_envelope_json :: "open_envelope \<Rightarrow> obj" where
  "apply_envelope_json e =
     (js ''protocol'', JStr COMPANION_PROTOCOL_ID) # session_identity_json (pe_session e) @ handoff_json (pe_projection e)"

definition validateProjectionApplyEnvelope :: "json option \<Rightarrow> companion_failure + open_envelope" where
  "validateProjectionApplyEnvelope input =
     andThen (exactObject_c input [''protocol'', ''sessionId'', ''teamGoalId'', ''clientId'', ''sessionGeneration'', ''pluginGeneration'',
        ''status'', ''cursor'', ''cards'']) (\<lambda>m.
     andThen (requireProtocol_c (own_prop m ''protocol'')) (\<lambda>_.
     andThen (own_session m) (\<lambda>session.
     andThen (own_handoff m) (\<lambda>projection.
     let result = \<lparr>pe_session = session, pe_projection = projection\<rparr>
     in andThen (assertBoundedEnvelope (apply_envelope_json result)) (\<lambda>_. Inr result)))))"

definition session_snapshot :: "string \<Rightarrow> json option \<Rightarrow> companion_failure + (session_identity \<times> snapshot_body)" where
  "session_snapshot type input =
     andThen (validateSessionEnvelope input type [''snapshot'']) (\<lambda>(session, m).
     andThen (case validateSnapshotBody (own_prop m ''snapshot'') of Inl e \<Rightarrow> Inl (companion_failure.Protocol_failure e) | Inr v \<Rightarrow> Inr v) (\<lambda>v.
     andThen (guardR (tg_id (sn_teamGoal v) = si_teamGoalId session) (Companion_error Invalid_envelope_c)) (\<lambda>_.
     andThen (assertBoundedEnvelope (session_envelope_json type session [(js ''snapshot'', JObj (snapshot_json v))])) (\<lambda>_. Inr (session, v)))))"

definition validateAuthoritativeSnapshotEnvelope :: "json option \<Rightarrow> companion_failure + (session_identity \<times> snapshot_body)" where
  "validateAuthoritativeSnapshotEnvelope = session_snapshot ''authoritative_snapshot''"

definition validateResnapshotEnvelope :: "json option \<Rightarrow> companion_failure + (session_identity \<times> snapshot_body)" where
  "validateResnapshotEnvelope = session_snapshot ''resnapshot''"

definition validateOrderedUpdateEnvelope :: "json option \<Rightarrow> companion_failure + (session_identity \<times> event_record)" where
  "validateOrderedUpdateEnvelope input =
     andThen (validateSessionEnvelope input ''ordered_update'' [''update'']) (\<lambda>(session, m).
     andThen (case validateEventRecord (own_prop m ''update'') of Inl e \<Rightarrow> Inl (companion_failure.Protocol_failure e) | Inr v \<Rightarrow> Inr v) (\<lambda>v.
     andThen (assertBoundedEnvelope (session_envelope_json ''ordered_update'' session [(js ''update'', JObj (event_record_json v))])) (\<lambda>_. Inr (session, v))))"

definition validateControlEnvelope :: "string \<Rightarrow> json option \<Rightarrow> companion_failure + session_identity" where
  "validateControlEnvelope type input =
     andThen (validateSessionEnvelope input type []) (\<lambda>(session, _).
     andThen (assertBoundedEnvelope (session_envelope_json type session [])) (\<lambda>_. Inr session))"

definition validateHideEnvelope :: "json option \<Rightarrow> companion_failure + session_identity" where
  "validateHideEnvelope = validateControlEnvelope ''hide''"

definition validateClearEnvelope :: "json option \<Rightarrow> companion_failure + session_identity" where
  "validateClearEnvelope = validateControlEnvelope ''clear''"

record reconnect_envelope =
  pr_session :: session_identity
  pr_resumeAfter :: "int option"
  pr_reason :: jstr

definition validateReconnectEnvelope :: "json option \<Rightarrow> companion_failure + reconnect_envelope" where
  "validateReconnectEnvelope input =
     andThen (validateSessionEnvelope input ''reconnect'' [''resumeAfter'', ''reason'']) (\<lambda>(session, m).
     andThen (if own_prop m ''resumeAfter'' = Some JNull then Inr None
              else andThen (requireNonNegativeInteger_c (own_prop m ''resumeAfter'')) (\<lambda>n. Inr (Some n))) (\<lambda>resumeAfter.
     andThen (requireString_c (own_prop m ''reason'') companion_detailCharacters) (\<lambda>reason.
     andThen (assertBoundedEnvelope (session_envelope_json ''reconnect'' session
        [(js ''resumeAfter'', case resumeAfter of None \<Rightarrow> JNull | Some n \<Rightarrow> JWhole n), (js ''reason'', JStr reason)])) (\<lambda>_.
     Inr \<lparr>pr_session = session, pr_resumeAfter = resumeAfter, pr_reason = reason\<rparr>))))"

section \<open>Intents\<close>

record intent_envelope =
  pi_session :: session_identity
  pi_intentId :: jstr
  pi_role :: role
  pi_payload :: obj

definition intent_envelope_json :: "intent_envelope \<Rightarrow> obj" where
  "intent_envelope_json e =
     [(js ''protocol'', JStr COMPANION_PROTOCOL_ID), (js ''type'', JStr (js ''intent'')), (js ''session'', JObj (session_identity_json (pi_session e))),
      (js ''intentId'', JStr (pi_intentId e)), (js ''kind'', JStr (js ''present_agent'')), (js ''role'', JEnum ROLES (pi_role e)),
      (js ''payload'', JObj (pi_payload e))]"

definition validateIntentEnvelope :: "(jstr \<Rightarrow> bool) \<Rightarrow> json option \<Rightarrow> companion_failure + intent_envelope" where
  "validateIntentEnvelope finite_token input =
     andThen (exactObject_c input [''protocol'', ''type'', ''session'', ''intentId'', ''kind'', ''role'', ''payload'']) (\<lambda>m.
     andThen (requireProtocol_c (own_prop m ''protocol'')) (\<lambda>_.
     andThen (guardR (own_prop m ''type'' = Some (JStr (js ''intent'')) \<and> own_prop m ''kind'' = Some (JStr (js ''present_agent'')))
       (Companion_error Invalid_intent)) (\<lambda>_.
     andThen (requireJsonObject finite_token (own_prop m ''payload'') intentPayloadBytes) (\<lambda>payload.
     andThen (validateProjectionSessionIdentity (own_prop m ''session'')) (\<lambda>session.
     andThen (requireId_c (own_prop m ''intentId'')) (\<lambda>intentId.
     andThen (requireRole_c (own_prop m ''role'')) (\<lambda>role.
     let result = \<lparr>pi_session = session, pi_intentId = intentId, pi_role = role, pi_payload = payload\<rparr>
     in andThen (assertBoundedEnvelope (intent_envelope_json result)) (\<lambda>_. Inr result))))))))"

record intent_acknowledgement =
  pk_session :: session_identity
  pk_intentId :: jstr
  pk_result :: intent_outcome
  pk_detail :: "jstr option"

definition intent_acknowledgement_json :: "intent_acknowledgement \<Rightarrow> obj" where
  "intent_acknowledgement_json e =
     session_envelope_json ''intent_ack'' (pk_session e)
       [(js ''intentId'', JStr (pk_intentId e)), (js ''result'', JEnum COMPANION_INTENT_RESULTS (pk_result e)),
        (js ''detail'', case pk_detail e of None \<Rightarrow> JNull | Some s \<Rightarrow> JStr s)]"

definition validateIntentAcknowledgementEnvelope :: "json option \<Rightarrow> companion_failure + intent_acknowledgement" where
  "validateIntentAcknowledgementEnvelope input =
     andThen (exactObject_c input [''protocol'', ''type'', ''session'', ''intentId'', ''result'', ''detail'']) (\<lambda>m.
     andThen (requireProtocol_c (own_prop m ''protocol'')) (\<lambda>_.
     andThen (guardR (own_prop m ''type'' = Some (JStr (js ''intent_ack''))) (Companion_error Invalid_envelope_c)) (\<lambda>_.
     andThen (requireOneOf_c COMPANION_INTENT_RESULTS (own_prop m ''result'')) (\<lambda>outcome.
     andThen (if own_prop m ''detail'' = Some JNull then Inr None
              else andThen (requireString_c (own_prop m ''detail'') companion_detailCharacters) (\<lambda>s. Inr (Some s))) (\<lambda>detail.
     andThen (validateProjectionSessionIdentity (own_prop m ''session'')) (\<lambda>session.
     andThen (requireId_c (own_prop m ''intentId'')) (\<lambda>intentId.
     let result = \<lparr>pk_session = session, pk_intentId = intentId, pk_result = outcome, pk_detail = detail\<rparr>
     in andThen (assertBoundedEnvelope (intent_acknowledgement_json result)) (\<lambda>_. Inr result))))))))"

section \<open>The release of the plugin\<close>

record companion_release =
  cl_pluginId :: jstr
  cl_version :: jstr
  cl_compatibility :: "jstr \<times> jstr"
  cl_assets :: "(jstr \<times> jstr) list"

definition invalid_release :: "companion_failure + 'a" where
  "invalid_release = Inl (Companion_error Invalid_release)"

fun split_path :: "jstr \<Rightarrow> jstr list" where
  "split_path [] = [[]]"
| "split_path (c # cs) =
     (if c = 47 then [] # split_path cs else (case split_path cs of p # ps \<Rightarrow> (c # p) # ps | [] \<Rightarrow> [[c]]))"

definition asset_char :: "nat \<Rightarrow> bool" where
  "asset_char c \<longleftrightarrow> is_alnum c \<or> c = 46 \<or> c = 95 \<or> c = 47 \<or> c = 45"

definition requireRelativeAssetPath :: "jstr \<Rightarrow> companion_failure + unit" where
  "requireRelativeAssetPath p =
     guardR (p \<noteq> [] \<and> length p \<le> relativePathCharacters \<and> hd p \<noteq> 47 \<and> last p \<noteq> 47 \<and> 92 \<notin> set p \<and>
       list_all (\<lambda>part. part \<noteq> [] \<and> part \<noteq> js ''.'' \<and> part \<noteq> js ''..'') (split_path p) \<and> list_all asset_char p)
       (Companion_error Invalid_release)"

definition validateAsset :: "jstr \<times> json \<Rightarrow> companion_failure + (jstr \<times> jstr)" where
  "validateAsset e =
     andThen (requireRelativeAssetPath (fst e)) (\<lambda>_.
     (case string_of (Some (snd e)) of
        None \<Rightarrow> invalid_release
      | Some bytes \<Rightarrow> if releaseAssetBytes < utf8Bytes bytes then invalid_release else Inr (fst e, bytes)))"

text \<open>The assignment \<open>assets['__proto__'] = bytes\<close> sets no own property.\<close>

definition kept_assets :: "(jstr \<times> jstr) list \<Rightarrow> (jstr \<times> jstr) list" where
  "kept_assets = filter (\<lambda>e. fst e \<noteq> js ''__proto__'')"

definition requireExactPluginId :: "json option \<Rightarrow> companion_failure + jstr" where
  "requireExactPluginId input =
     andThen (requireId_c input) (\<lambda>i. if i \<noteq> COMPANION_PLUGIN_ID then invalid_release else Inr i)"

definition validateCompanionRelease :: "json option \<Rightarrow> companion_failure + companion_release" where
  "validateCompanionRelease input =
     andThen (exactObject_c input [''pluginId'', ''version'', ''protocol'', ''compatibility'', ''assets'']) (\<lambda>m.
     andThen (requireProtocol_c (own_prop m ''protocol'')) (\<lambda>_.
     andThen (exactObject_c (own_prop m ''compatibility'') [''omarchy'', ''quickshell'']) (\<lambda>h.
     andThen (requireVersion_c (own_prop h ''omarchy'')) (\<lambda>omarchy.
     andThen (requireVersion_c (own_prop h ''quickshell'')) (\<lambda>quickshell.
     andThen (assertSupportedCompatibility (omarchy, quickshell)) (\<lambda>_.
     (case object_of (own_prop m ''assets'') of
        None \<Rightarrow> invalid_envelope
      | Some entries \<Rightarrow>
          andThen (guardR (entries \<noteq> [] \<and> length entries \<le> releaseAssetCount) (Companion_error Invalid_release)) (\<lambda>_.
          andThen (mapR validateAsset entries) (\<lambda>checked.
          let assets = kept_assets checked in
          andThen (guardR (sum_list (map (\<lambda>e. utf8Bytes (snd e)) checked) \<le> releaseTotalBytes) (Companion_error Invalid_release)) (\<lambda>_.
          andThen (guardR (js ''manifest.json'' \<in> fst ` set assets \<and> js ''AgentConsole.qml'' \<in> fst ` set assets)
            (Companion_error Invalid_release)) (\<lambda>_.
          andThen (requireExactPluginId (own_prop m ''pluginId'')) (\<lambda>pluginId.
          andThen (requireVersion_c (own_prop m ''version'')) (\<lambda>version.
          Inr \<lparr>cl_pluginId = pluginId, cl_version = version, cl_compatibility = (omarchy, quickshell), cl_assets = assets\<rparr>)))))))))))))"

end
