(* ===== verification/EnvelopeProperties.thy ===== *)
theory EnvelopeProperties
  imports CompanionEnvelopes
begin

text \<open>
  What the console shows can always be sent to the panel: every handoff of a reachable console fits
  the envelopes of a Projection Session, their byte limit included.
\<close>

section \<open>How long a text gets\<close>

text \<open>An upper bound of the bytes of a value, whatever its texts are.\<close>

fun weight :: "json \<Rightarrow> nat" where
  "weight JNull = 4"
| "weight (JBool b) = 5"
| "weight (JNum n) = utf8Bytes (num_text n)"
| "weight (JStr s) = 6 * length s + 2"
| "weight (JArr vs) = 2 + sum_list (map (\<lambda>v. weight v + 1) vs)"
| "weight (JObj m) = 2 + sum_list (map (\<lambda>e. 6 * length (fst e) + 4 + weight (snd e)) m)"

lemma sum_list_Suc: "sum_list (map (\<lambda>x. Suc (f x)) xs) = sum_list (map f xs) + length xs"
  by (induction xs) simp_all

lemma stringify_bytes: "utf8Bytes (stringify v) \<le> weight v"
proof (induction v rule: stringify.induct)
  case (5 vs)
  have "sum_list (map (\<lambda>v. utf8Bytes (stringify v) + 1) vs) \<le> sum_list (map (\<lambda>v. weight v + 1) vs)"
    by (rule sum_list_mono) (use 5 in simp)
  then show ?case using join_bytes [of 44 "map stringify vs"] utf8Bytes_append_le [of "join_with 44 (map stringify vs)" "[93]"]
      utf8Bytes_Cons_le [of 91 "join_with 44 (map stringify vs) @ [93]"]
    by (simp add: comp_def sum_list_Suc)
next
  case (6 m)
  have e: "utf8Bytes (quote (fst e)) + utf8Bytes (stringify (snd e)) + 2 \<le> 6 * length (fst e) + 4 + weight (snd e)" if "e \<in> set m" for e
    using 6 [OF that] utf8_quote [of "fst e"] by simp
  have "sum_list (map (\<lambda>e. utf8Bytes (quote (fst e)) + utf8Bytes (stringify (snd e)) + 2) m) \<le>
      sum_list (map (\<lambda>e. 6 * length (fst e) + 4 + weight (snd e)) m)"
    by (rule sum_list_mono) (rule e)
  then show ?case using obj_bytes [of m] by (simp del: stringify.simps)
qed (use utf8_quote in \<open>simp_all add: js_def is_high_surrogate_def is_low_surrogate_def split: bool.split\<close>)

section \<open>Handoffs that validate\<close>

definition card_ok :: "console_card \<Rightarrow> bool" where
  "card_ok c \<longleftrightarrow> ID_RE (cc_agentRunId c) \<and> cc_piStatus c \<noteq> [] \<and> length (cc_piStatus c) \<le> companion_labelCharacters"

definition handoff_ok :: "handoff \<Rightarrow> bool" where
  "handoff_ok h \<longleftrightarrow> 0 \<le> ho_cursor h \<and> ho_cursor h \<le> MAX_SAFE_INTEGER \<and> map cc_role (ho_cards h) = [Coordinator, Builder, Reviewer] \<and>
     list_all card_ok (ho_cards h)"

lemma card_complete: "card_ok c \<Longrightarrow> validateCard (companion_card_json c) = Inr c"
  by (simp add: validateCard_def companion_card_json_def card_ok_def requireRole_c_def result_simps exact_keys_iff add_mset_commute)

lemma handoff_complete:
  assumes "handoff_ok h" and m: "own_prop m ''status'' = Some (JEnum PROJECTION_STATUSES (ho_status h))"
    "own_prop m ''cursor'' = Some (JWhole (ho_cursor h))" "own_prop m ''cards'' = Some (JArr (map companion_card_json (ho_cards h)))"
  shows "own_handoff m = Inr h"
proof -
  have "mapR validateCard (map companion_card_json (ho_cards h)) = Inr (ho_cards h)"
    using mapR_map [of "ho_cards h" validateCard companion_card_json id] card_complete assms(1) by (simp add: handoff_ok_def list_all_iff)
  moreover have "length (ho_cards h) = 3" using assms(1) by (auto simp: handoff_ok_def map_eq_Cons_conv)
  ultimately show ?thesis using assms
    by (simp add: own_handoff_def handoff_ok_def result_simps ROLES_def del: length_map)
       (simp add: ROLES_def)
qed

lemma ID_RE_length: "ID_RE s \<Longrightarrow> length s \<le> 128"
  using matches_head_tail_length unfolding ID_RE_def by fastforce

lemma session_members:
  "session_identity_ok s \<Longrightarrow> own_prop m ''sessionId'' = Some (JStr (si_sessionId s)) \<Longrightarrow> own_prop m ''teamGoalId'' = Some (JStr (si_teamGoalId s)) \<Longrightarrow>
   own_prop m ''clientId'' = Some (JStr (si_clientId s)) \<Longrightarrow> own_prop m ''sessionGeneration'' = Some (JWhole (si_sessionGeneration s)) \<Longrightarrow>
   own_prop m ''pluginGeneration'' = Some (JWhole (si_pluginGeneration s)) \<Longrightarrow> own_session m = Inr s"
  by (simp add: own_session_def session_identity_ok_def result_simps)

lemma cards_weight:
  "handoff_ok h \<Longrightarrow> weight (JArr (map companion_card_json (ho_cards h))) \<le> 12185"
proof -
  assume ok: "handoff_ok h"
  then obtain a b c where h: "ho_cards h = [a, b, c]" by (auto simp: handoff_ok_def map_eq_Cons_conv)
  have r: "weight (JEnum ROLES r) \<le> 68" for r by (cases r) (simp_all add: ROLES_def enum_text_def js_def)
  have "weight (companion_card_json x) \<le> 4060" if "card_ok x" for x
    using that r [of "cc_role x"] ID_RE_length [of "cc_agentRunId x"] by (simp add: card_ok_def companion_card_json_def companion_labelCharacters_def js_def)
  from this [of a] this [of b] this [of c] show ?thesis using ok by (simp add: handoff_ok_def h)
qed

lemma session_weight:
  "session_identity_ok s \<Longrightarrow> sum_list (map (\<lambda>e. 6 * length (fst e) + 4 + weight (snd e)) (session_identity_json s)) \<le> 2800"
  using ID_RE_length [of "si_sessionId s"] ID_RE_length [of "si_teamGoalId s"] ID_RE_length [of "si_clientId s"]
    whole_bytes [of "si_sessionGeneration s"] whole_bytes [of "si_pluginGeneration s"]
  by (simp add: session_identity_json_def session_identity_ok_def js_def)

section \<open>What the console shows\<close>

lemma shown_handoff_ok:
  assumes "validateSnapshotBody input = Inr v"
  shows "handoff_ok (shown v)"
proof -
  have ok: "snapshot_ok v" by (rule snapshot_sound [OF assms])
  have "card_ok (snapshot_card v r)" for r
  proof -
    obtain e where e: "role_entry v r = Some e" using valid_roles(1) [OF assms] by blast
    then have "e \<in> set (sn_roles v)" by (auto simp: role_entry_def find_Some_iff)
    then have "role_projection_ok e" using ok by (simp add: snapshot_ok_def list_all_iff)
    then show ?thesis using e
      by (simp add: snapshot_card_def card_of_def card_ok_def role_projection_ok_def label_limit_def companion_labelCharacters_def)
  qed
  then show ?thesis using ok snapshot_card_role [OF assms]
    by (simp add: handoff_ok_def shown_def snapshot_cards_def snapshot_ok_def cursor_ok_def)
qed

lemma handoff_ok_status: "handoff_ok h \<Longrightarrow> handoff_ok (h\<lparr>ho_status := st\<rparr>)"
  by (simp add: handoff_ok_def)

lemma handoff_ok_gap: "pred_option handoff_ok (pj_current p) \<Longrightarrow> pred_option handoff_ok (pj_current (snd (fail_projection e p)))"
  by (cases "pj_current p") (simp_all add: fail_projection_def handoff_ok_status)

lemma handoff_ok_checked:
  assumes "pred_option handoff_ok (pj_current p)" "pj_current q = pj_current p"
  shows "pred_option handoff_ok (pj_current (snd (case checked_snapshot input p check of
      Inl e \<Rightarrow> fail_projection e p
    | Inr v \<Rightarrow> (case handoffFrom v Ready of Inl e \<Rightarrow> (Inl e, q) | Inr h' \<Rightarrow> (Inr h', q\<lparr>pj_current := Some h'\<rparr>)))))"
proof (cases "checked_snapshot input p check")
  case (Inl e)
  then show ?thesis using assms by (simp add: handoff_ok_gap)
next
  case (Inr v)
  then have v: "validateSnapshotBody input = Inr v" by (simp add: checked_snapshot_iff)
  then show ?thesis using Inr shown_handoff_ok [OF v] by (simp add: handoffFrom_valid [OF v] flip: shown_def)
qed

lemma handoff_ok_step:
  assumes p: "pred_option handoff_ok (pj_current p)"
  shows "pred_option handoff_ok (pj_current (projection_step op p))"
proof (cases op)
  case (Initialize input)
  show ?thesis using p Initialize shown_handoff_ok
    by (auto simp: initialize_def Let_def handoffFrom_valid split: sum.split simp flip: shown_def)
next
  case (Accept_event input)
  show ?thesis using p Accept_event handoff_ok_gap [OF p] event_record_sound [of input]
    by (auto simp: acceptEvent_def Let_def handoff_ok_def event_record_ok_def split: option.split sum.split)
next
  case (Resnapshot input)
  have "pred_option handoff_ok (pj_current (snd (resnapshot input p)))"
    using p handoff_ok_checked [OF p] unfolding resnapshot_def Let_def by (auto split: option.split)
  then show ?thesis using Resnapshot by simp
next
  case Clear
  then show ?thesis by (simp add: clearState_def)
next
  case (Mark_gap reason)
  then show ?thesis using p by (auto simp: markGap_def Let_def handoff_ok_status split: option.split)
next
  case (Recover input)
  have "pred_option handoff_ok (pj_current (snd (recover input p)))"
    using p handoff_ok_checked [OF p] unfolding recover_def Let_def by (auto split: option.split)
  then show ?thesis using Recover by simp
qed

lemma handoff_ok_run: "pred_option handoff_ok (pj_current p) \<Longrightarrow> pred_option handoff_ok (pj_current (projection_run ops p))"
  by (induction ops arbitrary: p) (simp_all add: handoff_ok_step)

lemma shown_is_ok: "pj_current (projection_run ops new_projection) = Some h \<Longrightarrow> handoff_ok h"
  using handoff_ok_run [of new_projection ops] by (simp add: new_projection_def)

lemma cursor_bytes: "handoff_ok h \<Longrightarrow> utf8Bytes (int_text (ho_cursor h)) \<le> 16"
  using whole_bytes [of "ho_cursor h"] by (simp add: handoff_ok_def)

lemma status_weight: "weight (JEnum PROJECTION_STATUSES st) \<le> 74"
  by (cases st) (simp_all add: PROJECTION_STATUSES_def enum_text_def js_def)

lemma bounded_by_weight: "weight (JObj m) \<le> companion_envelopeBytes \<Longrightarrow> assertBoundedEnvelope m = Inr ()"
  using stringify_bytes [of "JObj m"] by (simp add: assertBoundedEnvelope_def guardR_Inr_iff del: stringify.simps weight.simps)

lemma envelope_bounded:
  assumes "handoff_ok h" "session_identity_ok s"
  shows "assertBoundedEnvelope (open_envelope_json \<lparr>pe_session = s, pe_projection = h\<rparr>) = Inr ()"
    and "assertBoundedEnvelope (apply_envelope_json \<lparr>pe_session = s, pe_projection = h\<rparr>) = Inr ()"
proof -
  note w = cards_weight [OF assms(1)] session_weight [OF assms(2)] cursor_bytes [OF assms(1)] status_weight [of "ho_status h"]
  show "assertBoundedEnvelope (open_envelope_json \<lparr>pe_session = s, pe_projection = h\<rparr>) = Inr ()"
    by (rule bounded_by_weight)
       (use w in \<open>simp add: open_envelope_json_def handoff_json_def companion_envelopeBytes_def COMPANION_PROTOCOL_ID_def js_def del: weight.simps(5)\<close>)
  show "assertBoundedEnvelope (apply_envelope_json \<lparr>pe_session = s, pe_projection = h\<rparr>) = Inr ()"
    by (rule bounded_by_weight)
       (use w in \<open>simp add: apply_envelope_json_def handoff_json_def companion_envelopeBytes_def COMPANION_PROTOCOL_ID_def js_def del: weight.simps(5)\<close>)
qed

lemma envelope_complete:
  assumes "handoff_ok h" "session_identity_ok s"
  shows "validateOpenEnvelope (Some (JObj (open_envelope_json \<lparr>pe_session = s, pe_projection = h\<rparr>))) = Inr \<lparr>pe_session = s, pe_projection = h\<rparr>"
    and "validateProjectionApplyEnvelope (Some (JObj (apply_envelope_json \<lparr>pe_session = s, pe_projection = h\<rparr>))) = Inr \<lparr>pe_session = s, pe_projection = h\<rparr>"
proof -
  let ?e = "\<lparr>pe_session = s, pe_projection = h\<rparr>"
  have "validateHandoff (Some (JObj (handoff_json h))) = Inr h"
    using handoff_complete [OF assms(1), of "handoff_json h"]
    by (simp add: validateHandoff_def handoff_json_def result_simps exact_keys_iff add_mset_commute)
  moreover have "own_session (open_envelope_json ?e) = Inr s"
    by (rule session_members [OF assms(2)]) (simp_all add: open_envelope_json_def session_identity_json_def)
  moreover have "exact_keys (open_envelope_json ?e) [''protocol'', ''sessionId'', ''teamGoalId'', ''clientId'', ''sessionGeneration'', ''pluginGeneration'', ''projection'']"
    "own_prop (open_envelope_json ?e) ''protocol'' = Some (JStr COMPANION_PROTOCOL_ID)"
    "own_prop (open_envelope_json ?e) ''projection'' = Some (JObj (handoff_json h))"
    by (simp_all add: open_envelope_json_def session_identity_json_def exact_keys_iff add_mset_commute)
  ultimately show "validateOpenEnvelope (Some (JObj (open_envelope_json ?e))) = Inr ?e"
    using envelope_bounded(1) [OF assms] by (simp add: validateOpenEnvelope_def result_simps Let_def del: stringify.simps)
  have "own_session (apply_envelope_json ?e) = Inr s"
    by (rule session_members [OF assms(2)]) (simp_all add: apply_envelope_json_def session_identity_json_def)
  moreover have "own_handoff (apply_envelope_json ?e) = Inr h"
    by (rule handoff_complete [OF assms(1)]) (simp_all add: apply_envelope_json_def session_identity_json_def handoff_json_def)
  moreover have "exact_keys (apply_envelope_json ?e) [''protocol'', ''sessionId'', ''teamGoalId'', ''clientId'', ''sessionGeneration'', ''pluginGeneration'',
        ''status'', ''cursor'', ''cards'']"
    "own_prop (apply_envelope_json ?e) ''protocol'' = Some (JStr COMPANION_PROTOCOL_ID)"
    by (simp_all add: apply_envelope_json_def session_identity_json_def handoff_json_def exact_keys_iff add_mset_commute)
  ultimately show "validateProjectionApplyEnvelope (Some (JObj (apply_envelope_json ?e))) = Inr ?e"
    using envelope_bounded(2) [OF assms] by (simp add: validateProjectionApplyEnvelope_def result_simps Let_def)
qed

text \<open>
  C36. Whatever the Agent Console shows can be sent to the panel: after any calls with any inputs,
  the handoff of the console, with any valid session identity, passes the validation of the opening
  envelope and of the update envelope and comes back unchanged, the limit of 16 KiB included, however
  its labels are escaped.
\<close>

theorem console_handoff_sendable:
  assumes "pj_current (projection_run ops new_projection) = Some h" and "session_identity_ok s"
  shows "validateOpenEnvelope (Some (JObj (open_envelope_json \<lparr>pe_session = s, pe_projection = h\<rparr>))) = Inr \<lparr>pe_session = s, pe_projection = h\<rparr> \<and>
    validateProjectionApplyEnvelope (Some (JObj (apply_envelope_json \<lparr>pe_session = s, pe_projection = h\<rparr>))) = Inr \<lparr>pe_session = s, pe_projection = h\<rparr>"
  using envelope_complete [OF shown_is_ok [OF assms(1)] assms(2)] by blast

definition console_ops :: "projection_op list" where
  "console_ops = [Initialize (Some (JObj (snapshot_json (demo_snapshot 0)))), Mark_gap (js ''history'')]"

definition gap_handoff :: handoff where
  "gap_handoff = (shown (demo_snapshot 0))\<lparr>ho_status := Gap\<rparr>"

definition console_session :: session_identity where
  "console_session = \<lparr>si_sessionId = js ''session-1'', si_teamGoalId = js ''goal-1'', si_clientId = js ''client-1'',
     si_sessionGeneration = 1, si_pluginGeneration = 1\<rparr>"

theorem console_handoff_sendable_witness:
  "pj_current (projection_run console_ops new_projection) = Some gap_handoff \<and> session_identity_ok console_session \<and>
   validateOpenEnvelope (Some (JObj (open_envelope_json \<lparr>pe_session = console_session, pe_projection = gap_handoff\<rparr>))) =
     Inr \<lparr>pe_session = console_session, pe_projection = gap_handoff\<rparr>"
proof -
  have h: "pj_current (projection_run console_ops new_projection) = Some gap_handoff"
    using demo_console_sel by (simp add: demo_console_def [symmetric] console_ops_def gap_handoff_def del: projection_run.simps)
  have "session_identity_ok console_session" by code_simp
  then show ?thesis using h console_handoff_sendable [OF h] by blast
qed

end
